(* ===== verification/LIP_Prelude.thy ===== *)
theory LIP_Prelude
  imports Main "HOL-Library.AList" "HOL-Library.Multiset"
begin

text \<open>
  Shared vocabulary of the development. The TypeScript sources keep their state in
  insertion-ordered \<open>Map\<close> objects, sort arrays with comparator callbacks, test
  optional strings for truthiness and leave partially updated state behind when they
  throw. This theory fixes one representation for each of these and collects the lemmas
  that the component theories use:
  \<^item> \<open>jsmap\<close>: an association list in insertion order; \<open>set\<close> on a present key keeps
    the position, \<open>set\<close> on a new key appends, as \<open>Map.prototype.set\<close> does;
  \<^item> \<open>eff\<close>: computations over a state that either return a value or throw, and keep the
    state reached so far in both cases;
  \<^item> \<open>js_sort\<close>: the stable sort of \<open>Array.prototype.sort\<close> for a consistent comparator;
  \<^item> truthiness of optional strings, BigInt division and the safe-integer test.
\<close>

named_theorems eff_defs \<open>unfolding rules of the effect combinators\<close>
named_theorems jsmap \<open>lookup after an update of a jsmap\<close>

section \<open>Insertion-ordered maps\<close>

type_synonym ('k, 'v) jsmap = "('k \<times> 'v) list"

abbreviation js_get :: "('k, 'v) jsmap \<Rightarrow> 'k \<Rightarrow> 'v option" where
  "js_get m k \<equiv> map_of m k"

abbreviation js_set :: "('k, 'v) jsmap \<Rightarrow> 'k \<Rightarrow> 'v \<Rightarrow> ('k, 'v) jsmap" where
  "js_set m k v \<equiv> AList.update k v m"

abbreviation js_delete :: "('k, 'v) jsmap \<Rightarrow> 'k \<Rightarrow> ('k, 'v) jsmap" where
  "js_delete m k \<equiv> AList.delete k m"

definition js_has :: "('k, 'v) jsmap \<Rightarrow> 'k \<Rightarrow> bool" where
  "js_has m k = (map_of m k \<noteq> None)"

abbreviation js_keys :: "('k, 'v) jsmap \<Rightarrow> 'k list" where
  "js_keys m \<equiv> map fst m"

abbreviation js_values :: "('k, 'v) jsmap \<Rightarrow> 'v list" where
  "js_values m \<equiv> map snd m"

text \<open>Mutating the object stored under a key, and mutating every stored object.\<close>

definition js_update :: "('k, 'v) jsmap \<Rightarrow> 'k \<Rightarrow> ('v \<Rightarrow> 'v) \<Rightarrow> ('k, 'v) jsmap" where
  "js_update m k f = map (\<lambda>(k', v). (k', if k' = k then f v else v)) m"

definition js_map_values :: "('v \<Rightarrow> 'v) \<Rightarrow> ('k, 'v) jsmap \<Rightarrow> ('k, 'v) jsmap" where
  "js_map_values f m = map (\<lambda>(k, v). (k, f v)) m"

definition keys_ok :: "('k, 'v) jsmap \<Rightarrow> bool" where
  "keys_ok m = distinct (map fst m)"

lemma js_get_set [simp, jsmap]: "js_get (js_set m k v) = (js_get m)(k \<mapsto> v)"
  by (rule ext) (simp add: update_conv')

lemma js_get_delete [jsmap]: "js_get (js_delete m k) = (js_get m)(k := None)"
  by (rule ext) (simp add: delete_conv')

lemma js_get_update [simp, jsmap]:
  "js_get (js_update m k f) k' = (if k' = k then map_option f (js_get m k') else js_get m k')"
  by (induction m) (auto simp: js_update_def)

lemma js_get_map_values [simp, jsmap]: "js_get (js_map_values f m) k = map_option f (js_get m k)"
  by (induction m) (auto simp: js_map_values_def)

lemma js_has_iff: "js_has m k \<longleftrightarrow> k \<in> fst ` set m"
  by (auto simp: js_has_def map_of_eq_None_iff)

lemma keys_ok_Nil [simp]: "keys_ok []"
  by (simp add: keys_ok_def)

lemma keys_ok_set [simp]: "keys_ok m \<Longrightarrow> keys_ok (js_set m k v)"
  by (simp add: keys_ok_def distinct_update)

lemma keys_ok_delete [simp]: "keys_ok m \<Longrightarrow> keys_ok (js_delete m k)"
  by (simp add: keys_ok_def distinct_delete)

lemma js_keys_update [simp]: "map fst (js_update m k f) = map fst m"
  by (induction m) (auto simp: js_update_def)

lemma js_keys_map_values [simp]: "map fst (js_map_values f m) = map fst m"
  by (induction m) (auto simp: js_map_values_def)

lemma keys_ok_update [simp]: "keys_ok (js_update m k f) = keys_ok m"
  by (simp add: keys_ok_def)

lemma keys_ok_map_values [simp]: "keys_ok (js_map_values f m) = keys_ok m"
  by (simp add: keys_ok_def)

lemma js_set_fresh: "js_get m k = None \<Longrightarrow> js_set m k v = m @ [(k, v)]"
  by (induction m) (auto split: if_splits)

lemma js_keys_set:
  "map fst (js_set m k v) = (if js_has m k then map fst m else map fst m @ [k])"
  by (auto simp: update_keys js_has_iff)

lemma js_get_mem: "js_get m k = Some v \<Longrightarrow> (k, v) \<in> set m"
  by (rule map_of_SomeD)

lemma js_get_iff_mem: "keys_ok m \<Longrightarrow> js_get m k = Some v \<longleftrightarrow> (k, v) \<in> set m"
  by (simp add: keys_ok_def)

lemma js_update_id: "(\<And>v. js_get m k = Some v \<Longrightarrow> f v = v) \<Longrightarrow> keys_ok m \<Longrightarrow> js_update m k f = m"
proof (induction m)
  case (Cons p m)
  show ?case
  proof (cases "fst p = k")
    case True
    then have "js_get m k = None"
      using Cons.prems(2) by (auto simp: keys_ok_def map_of_eq_None_iff)
    then have "js_update m k f = m"
      using Cons by (auto simp: keys_ok_def)
    with True Cons.prems(1) show ?thesis by (cases p) (auto simp: js_update_def)
  next
    case False
    with Cons have "js_update m k f = m" by (auto simp: keys_ok_def)
    with False show ?thesis by (cases p) (auto simp: js_update_def)
  qed
qed (simp add: js_update_def)

section \<open>Computations that keep their state when they throw\<close>

type_synonym ('s, 'e, 'a) eff = "'s \<Rightarrow> ('e + 'a) \<times> 's"

definition m_return :: "'a \<Rightarrow> ('s, 'e, 'a) eff" where
  "m_return v s = (Inr v, s)"

definition m_throw :: "'e \<Rightarrow> ('s, 'e, 'a) eff" where
  "m_throw e s = (Inl e, s)"

definition m_bind :: "('s, 'e, 'a) eff \<Rightarrow> ('a \<Rightarrow> ('s, 'e, 'b) eff) \<Rightarrow> ('s, 'e, 'b) eff" where
  "m_bind m f s = (case m s of (Inl e, s') \<Rightarrow> (Inl e, s') | (Inr v, s') \<Rightarrow> f v s')"

definition m_get :: "('s \<Rightarrow> 'a) \<Rightarrow> ('s, 'e, 'a) eff" where
  "m_get f s = (Inr (f s), s)"

definition m_modify :: "('s \<Rightarrow> 's) \<Rightarrow> ('s, 'e, unit) eff" where
  "m_modify f s = (Inr (), f s)"

text \<open>\<open>if (!condition) throw error\<close>, and lifting a pure check.\<close>

definition m_assert :: "bool \<Rightarrow> 'e \<Rightarrow> ('s, 'e, unit) eff" where
  "m_assert c e = (if c then m_return () else m_throw e)"

definition m_lift :: "'e + 'a \<Rightarrow> ('s, 'e, 'a) eff" where
  "m_lift r s = (r, s)"

fun m_map :: "('a \<Rightarrow> ('s, 'e, 'b) eff) \<Rightarrow> 'a list \<Rightarrow> ('s, 'e, 'b list) eff" where
  "m_map f [] = m_return []"
| "m_map f (x # xs) = m_bind (f x) (\<lambda>y. m_bind (m_map f xs) (\<lambda>ys. m_return (y # ys)))"

text \<open>\<open>Array.prototype.some\<close> with a callback that has effects: it stops at the first hit.\<close>

fun m_exists :: "('a \<Rightarrow> ('s, 'e, bool) eff) \<Rightarrow> 'a list \<Rightarrow> ('s, 'e, bool) eff" where
  "m_exists f [] = m_return False"
| "m_exists f (x # xs) = m_bind (f x) (\<lambda>b. if b then m_return True else m_exists f xs)"

lemmas eff_simps [eff_defs] =
  m_return_def m_throw_def m_bind_def m_get_def m_modify_def m_assert_def m_lift_def

lemma m_bind_Inr: "m s = (Inr v, s') \<Longrightarrow> m_bind m f s = f v s'"
  by (simp add: m_bind_def)

lemma m_bind_Inl: "m s = (Inl e, s') \<Longrightarrow> m_bind m f s = (Inl e, s')"
  by (simp add: m_bind_def)

lemma m_bindE:
  assumes "m_bind m f s = (r, s')"
  obtains (throws) e where "m s = (Inl e, s')" "r = Inl e"
  | (returns) v s1 where "m s = (Inr v, s1)" "f v s1 = (r, s')"
  using assms by (auto simp: m_bind_def split: prod.splits sum.splits)

lemma m_basic_runs [simp]:
  "m_return v s = (Inr v, s)"
  "m_throw e s = (Inl e, s)"
  "m_get f s = (Inr (f s), s)"
  "m_modify g s = (Inr (), g s)"
  "m_lift r s = (r, s)"
  by (simp_all add: eff_simps)

lemma m_assert_run: "m_assert c e s = (if c then Inr () else Inl e, s)"
  by (simp add: m_assert_def)

lemma m_bind_runs [simp]:
  "m_bind (m_return v) f = f v"
  "m_bind (m_throw e) f = m_throw e"
  "m_bind (m_get g) f s = f (g s) s"
  "m_bind (m_modify u) f' s = f' () (u s)"
  by (auto simp: eff_simps fun_eq_iff)

lemma m_bind_assert:
  "m_bind (m_assert c e) f s = (if c then f () s else (Inl e, s))"
  by (simp add: m_assert_def eff_simps)

lemma m_bind_lift:
  "m_bind (m_lift r) f s = (case r of Inl e \<Rightarrow> (Inl e, s) | Inr v \<Rightarrow> f v s)"
  by (simp add: m_lift_def m_bind_def split: sum.splits)

section \<open>Effects that stay inside a relation\<close>

text \<open>
  A relation between the states before and after that is reflexive and transitive is kept
  by a whole computation as soon as each of its parts keeps it: the interface by which the
  handlers inherit frame conditions and step-wise refinements from their helpers.
\<close>

definition m_keeps :: "('s \<Rightarrow> 's \<Rightarrow> bool) \<Rightarrow> ('s, 'e, 'a) eff \<Rightarrow> bool" where
  "m_keeps R m = (\<forall>s. R s (snd (m s)))"

locale effect_relation =
  fixes R :: "'s \<Rightarrow> 's \<Rightarrow> bool"
  assumes R_refl: "R s s"
    and R_trans: "R s t \<Longrightarrow> R t u \<Longrightarrow> R s u"
begin

lemma keeps_return: "m_keeps R (m_return v)"
  by (simp add: m_keeps_def R_refl)

lemma keeps_throw: "m_keeps R (m_throw e)"
  by (simp add: m_keeps_def R_refl)

lemma keeps_get: "m_keeps R (m_get f)"
  by (simp add: m_keeps_def R_refl)

lemma keeps_assert: "m_keeps R (m_assert c e)"
  by (simp add: m_keeps_def m_assert_run R_refl)

lemma keeps_lift: "m_keeps R (m_lift r)"
  by (simp add: m_keeps_def R_refl)

lemma keeps_modify: "(\<And>s. R s (f s)) \<Longrightarrow> m_keeps R (m_modify f)"
  by (simp add: m_keeps_def)

lemma keeps_bind:
  assumes "m_keeps R m" "\<And>v. m_keeps R (f v)"
  shows "m_keeps R (m_bind m f)"
  unfolding m_keeps_def
proof
  fix s
  show "R s (snd (m_bind m f s))"
  proof (cases "m s")
    case (Pair r s1)
    have 1: "R s s1" using assms(1) Pair by (metis m_keeps_def snd_conv)
    show ?thesis
    proof (cases r)
      case (Inl e)
      with Pair 1 show ?thesis by (simp add: m_bind_def)
    next
      case (Inr v)
      have "R s1 (snd (f v s1))" using assms(2) by (simp add: m_keeps_def)
      with 1 Pair Inr show ?thesis by (auto simp: m_bind_def intro: R_trans)
    qed
  qed
qed

lemma keeps_map: "(\<And>x. m_keeps R (f x)) \<Longrightarrow> m_keeps R (m_map f xs)"
  by (induction xs) (auto intro!: keeps_bind keeps_return)

lemma keeps_exists: "(\<And>x. m_keeps R (f x)) \<Longrightarrow> m_keeps R (m_exists f xs)"
  by (induction xs) (auto intro!: keeps_bind keeps_return)

lemma keeps_if: "m_keeps R m \<Longrightarrow> m_keeps R n \<Longrightarrow> m_keeps R (if c then m else n)"
  by simp

lemma keeps_run: "m_keeps R m \<Longrightarrow> m s = (r, s') \<Longrightarrow> R s s'"
  by (metis m_keeps_def snd_conv)

lemmas keeps_intros =
  keeps_return keeps_throw keeps_get keeps_assert keeps_lift keeps_bind keeps_map keeps_exists keeps_if

end

section \<open>Sorting with a comparator\<close>

fun js_insert :: "('a \<Rightarrow> 'a \<Rightarrow> int) \<Rightarrow> 'a \<Rightarrow> 'a list \<Rightarrow> 'a list" where
  "js_insert cmp x [] = [x]"
| "js_insert cmp x (y # ys) = (if cmp x y \<le> 0 then x # y # ys else y # js_insert cmp x ys)"

fun js_sort :: "('a \<Rightarrow> 'a \<Rightarrow> int) \<Rightarrow> 'a list \<Rightarrow> 'a list" where
  "js_sort cmp [] = []"
| "js_sort cmp (x # xs) = js_insert cmp x (js_sort cmp xs)"

lemma mset_js_insert [simp]: "mset (js_insert cmp x xs) = add_mset x (mset xs)"
  by (induction xs) auto

lemma mset_js_sort [simp]: "mset (js_sort cmp xs) = mset xs"
  by (induction xs) auto

lemma set_js_sort [simp]: "set (js_sort cmp xs) = set xs"
  by (metis mset_js_sort set_mset_mset)

lemma length_js_sort [simp]: "length (js_sort cmp xs) = length xs"
  by (metis mset_js_sort size_mset)

lemma js_sort_eq_Nil [simp]: "js_sort cmp xs = [] \<longleftrightarrow> xs = []"
  by (metis length_0_conv length_js_sort)

lemma distinct_js_sort [simp]: "distinct (js_sort cmp xs) = distinct xs"
  by (metis mset_js_sort mset_eq_imp_distinct_iff)

lemma distinct_map_js_sort [simp]: "distinct (map f (js_sort cmp xs)) = distinct (map f xs)"
  by (metis mset_js_sort mset_map mset_eq_imp_distinct_iff)

lemma sum_list_js_sort [simp]:
  fixes f :: "'a \<Rightarrow> 'b::comm_monoid_add"
  shows "(\<Sum>x\<leftarrow>js_sort cmp xs. f x) = (\<Sum>x\<leftarrow>xs. f x)"
  by (metis mset_js_sort mset_map sum_mset_sum_list)

text \<open>The law a comparator has to satisfy for the standard to fix the result of a sort.\<close>

locale comparator =
  fixes cmp :: "'a \<Rightarrow> 'a \<Rightarrow> int"
  assumes cmp_total: "cmp x y \<le> 0 \<or> cmp y x \<le> 0"
    and cmp_trans: "cmp x y \<le> 0 \<Longrightarrow> cmp y z \<le> 0 \<Longrightarrow> cmp x z \<le> 0"
begin

lemma sorted_js_insert:
  "sorted_wrt (\<lambda>x y. cmp x y \<le> 0) xs \<Longrightarrow> sorted_wrt (\<lambda>x y. cmp x y \<le> 0) (js_insert cmp x xs)"
proof (induction xs)
  case (Cons y ys)
  have set_ins: "set (js_insert cmp x ys) = insert x (set ys)"
    by (metis mset_js_insert set_mset_add_mset_insert set_mset_mset)
  show ?case
  proof (cases "cmp x y \<le> 0")
    case True
    with Cons.prems show ?thesis by (auto intro: cmp_trans)
  next
    case False
    then have "cmp y x \<le> 0" using cmp_total by blast
    with False Cons set_ins show ?thesis by auto
  qed
qed simp

lemma sorted_js_sort: "sorted_wrt (\<lambda>x y. cmp x y \<le> 0) (js_sort cmp xs)"
  by (induction xs) (auto intro: sorted_js_insert)

lemma js_sort_le_nth:
  "i < j \<Longrightarrow> j < length xs \<Longrightarrow> cmp (js_sort cmp xs ! i) (js_sort cmp xs ! j) \<le> 0"
  using sorted_js_sort by (simp add: sorted_wrt_iff_nth_less)

end

section \<open>Truthiness, BigInt and number helpers\<close>

definition truthy :: "string option \<Rightarrow> bool" where
  "truthy v = (case v of None \<Rightarrow> False | Some t \<Rightarrow> t \<noteq> [])"

text \<open>\<open>...(v ? { field: v } : {})\<close>: the optional field is present only for a non-empty string.\<close>

definition present :: "string option \<Rightarrow> string option" where
  "present v = (if truthy v then v else None)"

lemma present_simps [simp]:
  "present None = None"
  "present (Some []) = None"
  "present (Some (c # cs)) = Some (c # cs)"
  by (simp_all add: present_def truthy_def)

lemma truthy_simps [simp]:
  "truthy None = False"
  "truthy (Some t) = (t \<noteq> [])"
  by (simp_all add: truthy_def)

text \<open>\<open>if (condition) issues.push(issue)\<close>, as the list of what is pushed.\<close>

definition push_if :: "bool \<Rightarrow> 'a \<Rightarrow> 'a list" where
  "push_if c x = (if c then [x] else [])"

lemma push_if_Nil_iff [simp]: "push_if c x = [] \<longleftrightarrow> \<not> c"
  by (simp add: push_if_def)

text \<open>BigInt \<open>/\<close> truncates towards zero.\<close>

definition bigint_div :: "int \<Rightarrow> int \<Rightarrow> int" where
  "bigint_div a b = sgn a * sgn b * (\<bar>a\<bar> div \<bar>b\<bar>)"

definition max_safe_integer :: int where
  "max_safe_integer = 9007199254740991"

definition is_safe_integer :: "int \<Rightarrow> bool" where
  "is_safe_integer n = (- max_safe_integer \<le> n \<and> n \<le> max_safe_integer)"

lemma bigint_div_nonneg: "0 \<le> a \<Longrightarrow> 0 < b \<Longrightarrow> bigint_div a b = a div b"
  by (cases "a = 0") (auto simp: bigint_div_def)

text \<open>\<open>Array.prototype.find\<close>, \<open>some\<close> and numeric \<open>reduce\<close> are \<open>List.find\<close>,
  \<open>list_ex\<close> and \<open>sum_list\<close>.\<close>

lemma find_SomeD: "List.find P xs = Some x \<Longrightarrow> x \<in> set xs \<and> P x"
  by (induction xs) (auto split: if_splits)

lemma find_None_iff_all: "List.find P xs = None \<longleftrightarrow> (\<forall>x\<in>set xs. \<not> P x)"
  by (induction xs) auto

lemma sum_list_nonneg_int: "(\<And>x. x \<in> set xs \<Longrightarrow> (0::int) \<le> f x) \<Longrightarrow> 0 \<le> (\<Sum>x\<leftarrow>xs. f x)"
  by (induction xs) auto

lemma sum_list_mono_int:
  "(\<And>x. x \<in> set xs \<Longrightarrow> f x \<le> (g x :: int)) \<Longrightarrow> (\<Sum>x\<leftarrow>xs. f x) \<le> (\<Sum>x\<leftarrow>xs. g x)"
  by (induction xs) (auto intro: add_mono)

end
