(* ===== verification/Js_Json.thy ===== *)
theory Js_Json
  imports LIP_Prelude
begin

text \<open>
  JSON values, as the engine meets them in request bodies, member attributes and reward
  metadata, and the canonical form that the reference engine fingerprints
  (\<open>stableValue\<close> and \<open>fingerprint\<close> in packages/reference/src/engine.ts). Numbers are
  integers: every number the engine computes with is one. The digest, SHA-256 of
  \<open>JSON.stringify\<close>, and the collation order of \<open>localeCompare\<close> belong to the host and
  are parameters; the canonicalisation is the source's own and is defined here, with the
  theorem that a fingerprint does not depend on the order in which keys were written.
\<close>

datatype json =
    JNull
  | JBool bool
  | JNum int
  | JStr string
  | JArr "json list"
  | JObj "(string \<times> json) list"

type_synonym collation = "string \<Rightarrow> string \<Rightarrow> int"

text \<open>\<open>{ key: value, ... }\<close> where an \<open>undefined\<close> value is dropped by serialisation.\<close>

definition jobj :: "(string \<times> json option) list \<Rightarrow> json" where
  "jobj fs = JObj (List.map_filter (\<lambda>(k, v). map_option (Pair k) v) fs)"

fun json_field :: "json \<Rightarrow> string \<Rightarrow> json option" where
  "json_field (JObj fs) k = map_of fs k"
| "json_field _ k = None"

definition key_compare :: "collation \<Rightarrow> string \<times> 'v \<Rightarrow> string \<times> 'v \<Rightarrow> int" where
  "key_compare lc l r = lc (fst l) (fst r)"

fun stableValue :: "collation \<Rightarrow> json \<Rightarrow> json" where
  "stableValue lc (JArr xs) = JArr (map (stableValue lc) xs)"
| "stableValue lc (JObj fs) =
     JObj (js_sort (key_compare lc) (map (\<lambda>(k, v). (k, stableValue lc v)) fs))"
| "stableValue lc v = v"

definition fingerprint :: "collation \<Rightarrow> (json \<Rightarrow> string) \<Rightarrow> json \<Rightarrow> string" where
  "fingerprint lc digest v = digest (stableValue lc v)"

text \<open>
  v1 strips \<open>context.request_id\<close>, v2 the whole \<open>context\<close>. Requests are objects; any
  other value is fingerprinted as it is.
\<close>

definition idempotencyFingerprintV1 :: "collation \<Rightarrow> (json \<Rightarrow> string) \<Rightarrow> json \<Rightarrow> string" where
  "idempotencyFingerprintV1 lc digest v =
     (case v of
        JObj fs \<Rightarrow>
          (case map_of fs ''context'' of
             Some (JObj cs) \<Rightarrow>
               fingerprint lc digest (JObj (js_set fs ''context''
                 (JObj (filter (\<lambda>(k, _). k \<noteq> ''request_id'') cs))))
           | _ \<Rightarrow> fingerprint lc digest v)
      | _ \<Rightarrow> fingerprint lc digest v)"

definition idempotencyFingerprintV2 :: "collation \<Rightarrow> (json \<Rightarrow> string) \<Rightarrow> json \<Rightarrow> string" where
  "idempotencyFingerprintV2 lc digest v =
     (case v of
        JObj fs \<Rightarrow> fingerprint lc digest (JObj (filter (\<lambda>(k, _). k \<noteq> ''context'') fs))
      | _ \<Rightarrow> fingerprint lc digest v)"

section \<open>The canonical form does not depend on key order\<close>

text \<open>A collation is usable when it is a linear order on the keys.\<close>

definition collation_ok :: "collation \<Rightarrow> bool" where
  "collation_ok lc \<longleftrightarrow>
     (\<forall>x y. lc x y \<le> 0 \<or> lc y x \<le> 0) \<and>
     (\<forall>x y z. lc x y \<le> 0 \<longrightarrow> lc y z \<le> 0 \<longrightarrow> lc x z \<le> 0) \<and>
     (\<forall>x y. lc x y \<le> 0 \<longrightarrow> lc y x \<le> 0 \<longrightarrow> x = y)"

lemma key_compare_comparator: "collation_ok lc \<Longrightarrow> comparator (key_compare lc)"
  unfolding collation_ok_def by unfold_locales (auto simp: key_compare_def)

lemma sorted_entries_unique:
  assumes lc: "collation_ok lc"
    and "sorted_wrt (\<lambda>x y. key_compare lc x y \<le> 0) xs"
    and "sorted_wrt (\<lambda>x y. key_compare lc x y \<le> 0) ys"
    and "mset xs = mset ys" and "distinct (map fst xs)"
  shows "xs = ys"
  using assms(2-)
proof (induction xs arbitrary: ys)
  case (Cons x xs)
  then obtain y ys' where ys: "ys = y # ys'" by (cases ys) auto
  have y_in: "y \<in> set (x # xs)" and x_in: "x \<in> set (y # ys')"
    using Cons.prems(3) ys by (metis list.set_intros(1) set_mset_mset)+
  have "x = y"
  proof (rule ccontr)
    assume "x \<noteq> y"
    then have "key_compare lc x y \<le> 0" and "key_compare lc y x \<le> 0"
      using Cons.prems(1,2) y_in x_in ys by auto
    then have "fst x = fst y" using lc by (auto simp: collation_ok_def key_compare_def)
    with \<open>x \<noteq> y\<close> y_in Cons.prems(4) show False by (auto simp: image_iff)
  qed
  with Cons ys show ?case by auto
qed simp

lemma js_sort_entries_perm:
  assumes "collation_ok lc" "mset xs = mset ys" "distinct (map fst xs)"
  shows "js_sort (key_compare lc) xs = js_sort (key_compare lc) ys"
  using assms
  by (intro sorted_entries_unique [of lc])
    (simp_all add: comparator.sorted_js_sort key_compare_comparator)

lemma stableValue_key_order:
  assumes "collation_ok lc" "mset fs = mset gs" "distinct (map fst fs)"
  shows "stableValue lc (JObj fs) = stableValue lc (JObj gs)"
proof -
  let ?g = "\<lambda>(k, v). (k, stableValue lc v)"
  have "map fst (map ?g fs) = map fst fs" by auto
  then have "js_sort (key_compare lc) (map ?g fs) = js_sort (key_compare lc) (map ?g gs)"
    using assms by (intro js_sort_entries_perm) (simp_all del: map_map)
  then show ?thesis by simp
qed

text \<open>
  v2 fingerprints ignore the envelope: two requests that agree outside \<open>context\<close> have the
  same v2 fingerprint, in whatever order their fields were written.
\<close>

lemma fingerprintV2_payload_only:
  assumes "collation_ok lc"
    and "mset (filter (\<lambda>(k, _). k \<noteq> ''context'') fs) = mset (filter (\<lambda>(k, _). k \<noteq> ''context'') gs)"
    and "distinct (map fst fs)"
  shows "idempotencyFingerprintV2 lc d (JObj fs) = idempotencyFingerprintV2 lc d (JObj gs)"
proof -
  let ?P = "\<lambda>(k :: string, _ :: json). k \<noteq> ''context''"
  have "stableValue lc (JObj (filter ?P fs)) = stableValue lc (JObj (filter ?P gs))"
    using assms by (intro stableValue_key_order) (simp_all add: distinct_map_filter)
  then show ?thesis by (simp only: idempotencyFingerprintV2_def fingerprint_def json.case)
qed

section \<open>A concrete collation and a concrete serialisation\<close>

text \<open>
  Code-unit comparison and a checksum, used wherever a closed example needs a
  host: neither is what ICU or SHA-256 computes, both satisfy the laws assumed of them.
\<close>

fun unit_compare :: collation where
  "unit_compare [] [] = 0"
| "unit_compare [] (_ # _) = - 1"
| "unit_compare (_ # _) [] = 1"
| "unit_compare (x # xs) (y # ys) =
     (if x = y then unit_compare xs ys
      else if (of_char x :: int) < of_char y then - 1 else 1)"

lemma unit_compare_refl [simp]: "unit_compare x x = 0"
  by (induction x) auto

lemma unit_compare_antisym: "unit_compare x y = - unit_compare y x"
  by (induction x y rule: unit_compare.induct) (auto simp: not_less_iff_gr_or_eq)

lemma unit_compare_zero: "unit_compare x y = 0 \<Longrightarrow> x = y"
  by (induction x y rule: unit_compare.induct) (auto split: if_splits)

lemma unit_compare_trans: "unit_compare x y \<le> 0 \<Longrightarrow> unit_compare y z \<le> 0 \<Longrightarrow> unit_compare x z \<le> 0"
proof (induction x y arbitrary: z rule: unit_compare.induct)
  case (2 b bs)
  then show ?case by (cases z) (auto split: if_splits)
next
  case 1
  then show ?case by simp
next
  case (4 x xs y ys)
  then show ?case by (cases z) (auto split: if_splits)
qed simp

lemma unit_compare_ok: "collation_ok unit_compare"
proof -
  have "unit_compare x y \<le> 0 \<or> unit_compare y x \<le> 0" for x y
    using unit_compare_antisym [of x y] by linarith
  moreover have "x = y" if "unit_compare x y \<le> 0" "unit_compare y x \<le> 0" for x y
    using that unit_compare_antisym [of x y] by (intro unit_compare_zero) linarith
  ultimately show ?thesis
    unfolding collation_ok_def using unit_compare_trans by blast
qed

interpretation key_order: comparator "key_compare unit_compare"
  by (rule key_compare_comparator [OF unit_compare_ok])

text \<open>Decimal numerals, over \<open>int\<close> so that they evaluate in binary.\<close>

function dec_digits :: "int \<Rightarrow> string" where
  "dec_digits n =
     (if n < 10 then [char_of (48 + n)] else dec_digits (n div 10) @ [char_of (48 + n mod 10)])"
  by auto
termination by (relation "measure nat") auto

declare dec_digits.simps [simp del]

definition dec_string :: "int \<Rightarrow> string" where
  "dec_string i = (if i < 0 then ''-'' @ dec_digits (- i) else dec_digits i)"

text \<open>A concrete digest for the examples: a checksum of the tree, in decimal.\<close>

fun checksum :: "json \<Rightarrow> int" where
  "checksum JNull = 1"
| "checksum (JBool b) = (if b then 2 else 3)"
| "checksum (JNum n) = (n + 5) mod 65521"
| "checksum (JStr t) = foldl (\<lambda>n c. (n * 31 + of_char c) mod 65521) 7 t"
| "checksum (JArr xs) = foldl (\<lambda>n x. (n * 37 + checksum x) mod 65521) 11 xs"
| "checksum (JObj fs) = foldl (\<lambda>n kv. (n * 41 + checksum (snd kv)) mod 65521) 13 fs"

definition checksum_digest :: "json \<Rightarrow> string" where
  "checksum_digest j = dec_string (checksum j)"

end
