(* ===== verification/Js_Date.thy ===== *)
theory Js_Date
  imports Js_Json
begin

text \<open>
  Instants are integers of milliseconds since the epoch, as \<open>Date.prototype.getTime\<close>
  gives them. \<open>toISOString\<close> is fixed by the ECMAScript standard and defined here over the
  proleptic Gregorian calendar. \<open>Date.parse\<close> depends on the host for most strings; the
  model takes it as a parameter of type \<open>string \<Rightarrow> int option\<close> (\<open>None\<close> is \<open>NaN\<close>), and
  \<open>iso_parse\<close> is the reading of the standard's date-time format with an explicit offset
  (the only one the protocol schema admits), used by the closed examples.
\<close>

definition ms_per_day :: int where
  "ms_per_day = 86400000"

section \<open>Civil dates\<close>

text \<open>Days since the epoch to (year, month, day): the year starts in March.\<close>

definition civil_from_days :: "int \<Rightarrow> int \<times> int \<times> int" where
  "civil_from_days z =
     (let z' = z + 719468;
          era = z' div 146097;
          doe = z' mod 146097;
          yoe = (doe - doe div 1460 + doe div 36524 - doe div 146096) div 365;
          doy = doe - (365 * yoe + yoe div 4 - yoe div 100);
          mp = (5 * doy + 2) div 153;
          d = doy - (153 * mp + 2) div 5 + 1;
          m = (if mp < 10 then mp + 3 else mp - 9)
      in (yoe + era * 400 + (if m \<le> 2 then 1 else 0), m, d))"

definition days_from_civil :: "int \<Rightarrow> int \<Rightarrow> int \<Rightarrow> int" where
  "days_from_civil y m d =
     (let y' = (if m \<le> 2 then y - 1 else y);
          era = y' div 400;
          yoe = y' mod 400;
          doy = (153 * (if m > 2 then m - 3 else m + 9) + 2) div 5 + d - 1;
          doe = yoe * 365 + yoe div 4 - yoe div 100 + doy
      in era * 146097 + doe - 719468)"

section \<open>Decimal fields\<close>

definition pad_start :: "nat \<Rightarrow> string \<Rightarrow> string" where
  "pad_start w t = replicate (w - length t) CHR ''0'' @ t"

definition pad2 :: "int \<Rightarrow> string" where
  "pad2 i = pad_start 2 (dec_string i)"

definition to_iso :: "int \<Rightarrow> string" where
  "to_iso t =
     (let (y, m, d) = civil_from_days (t div ms_per_day);
          r = t mod ms_per_day;
          year = (if 0 \<le> y \<and> y \<le> 9999 then pad_start 4 (dec_string y)
                  else (if y < 0 then ''-'' else ''+'') @ pad_start 6 (dec_string \<bar>y\<bar>))
      in year @ ''-'' @ pad2 m @ ''-'' @ pad2 d @ ''T'' @
         pad2 (r div 3600000) @ '':'' @ pad2 (r div 60000 mod 60) @ '':'' @
         pad2 (r div 1000 mod 60) @ ''.'' @ pad_start 3 (dec_string (r mod 1000)) @ ''Z'')"

section \<open>Reading the date-time format\<close>

definition digit_of :: "char \<Rightarrow> int option" where
  "digit_of c = (let n = (of_char c :: int) in if 48 \<le> n \<and> n \<le> 57 then Some (n - 48) else None)"

fun take_digits :: "nat \<Rightarrow> int \<Rightarrow> string \<Rightarrow> (int \<times> string) option" where
  "take_digits 0 acc t = Some (acc, t)"
| "take_digits (Suc n) acc [] = None"
| "take_digits (Suc n) acc (c # cs) =
     (case digit_of c of None \<Rightarrow> None | Some d \<Rightarrow> take_digits n (10 * acc + d) cs)"

fun take_char :: "char \<Rightarrow> string \<Rightarrow> string option" where
  "take_char c [] = None"
| "take_char c (x # xs) = (if x = c then Some xs else None)"

text \<open>The fraction contributes its first three digits; \<open>w\<close> is the weight of the next one.\<close>

fun take_fraction :: "int \<Rightarrow> int \<Rightarrow> string \<Rightarrow> int \<times> string" where
  "take_fraction w acc [] = (acc, [])"
| "take_fraction w acc (c # cs) =
     (case digit_of c of
        None \<Rightarrow> (acc, c # cs)
      | Some d \<Rightarrow> take_fraction (w div 10) (acc + w * d) cs)"

definition parse_offset :: "string \<Rightarrow> int option" where
  "parse_offset t =
     (case t of
        [] \<Rightarrow> None
      | c # cs \<Rightarrow>
          if c = CHR ''Z'' then (if cs = [] then Some 0 else None)
          else if c = CHR ''+'' \<or> c = CHR ''-'' then
            Option.bind (take_digits 2 0 cs) (\<lambda>(hh, r1).
            Option.bind (take_char CHR '':'' r1) (\<lambda>r2.
            Option.bind (take_digits 2 0 r2) (\<lambda>(mm, r3).
              if r3 = [] \<and> hh < 24 \<and> mm < 60
              then Some ((if c = CHR ''+'' then 1 else - 1) * (hh * 60 + mm) * 60000) else None)))
          else None)"

definition iso_parse :: "string \<Rightarrow> int option" where
  "iso_parse t =
     Option.bind (take_digits 4 0 t) (\<lambda>(y, r1).
     Option.bind (take_char CHR ''-'' r1) (\<lambda>r2.
     Option.bind (take_digits 2 0 r2) (\<lambda>(m, r3).
     Option.bind (take_char CHR ''-'' r3) (\<lambda>r4.
     Option.bind (take_digits 2 0 r4) (\<lambda>(d, r5).
     Option.bind (take_char CHR ''T'' r5) (\<lambda>r6.
     Option.bind (take_digits 2 0 r6) (\<lambda>(hh, r7).
     Option.bind (take_char CHR '':'' r7) (\<lambda>r8.
     Option.bind (take_digits 2 0 r8) (\<lambda>(mi, r9).
     Option.bind (take_char CHR '':'' r9) (\<lambda>r10.
     Option.bind (take_digits 2 0 r10) (\<lambda>(ss, r11).
     (let (ms, r12) = (case take_char CHR ''.'' r11 of None \<Rightarrow> (0, r11) | Some r \<Rightarrow> take_fraction 100 0 r)
      in Option.bind (parse_offset r12) (\<lambda>off.
           if 1 \<le> m \<and> m \<le> 12 \<and> 1 \<le> d \<and> d \<le> 31 \<and> hh < 24 \<and> mi < 60 \<and> ss < 60
           then Some (days_from_civil y m d * ms_per_day + hh * 3600000 + mi * 60000 + ss * 1000 + ms - off)
           else None)))))))))))))"

lemma to_iso_epoch: "to_iso 0 = ''1970-01-01T00:00:00.000Z''"
  by code_simp

lemma to_iso_example: "to_iso 1767225600000 = ''2026-01-01T00:00:00.000Z''"
  by code_simp

lemma iso_parse_example: "iso_parse ''2026-01-01T02:00:00.5+02:00'' = Some 1767225600500"
  by code_simp

end
