(* ===== verification/Protocol_Types.thy ===== *)
theory Protocol_Types
  imports Js_Date
begin

text \<open>
  The wire types of packages/protocol/src (primitives.ts, member.ts, order.ts,
  loyalty.ts, account.ts), one record or datatype per TypeBox object or union. A field
  keeps its source name behind a two-letter prefix of its record, because record
  selectors are global names. \<open>Type.Optional\<close> is \<open>option\<close>, \<open>Type.Unknown\<close> is
  \<open>json\<close>, every integer is an \<open>int\<close>.
\<close>

section \<open>Primitives\<close>

datatype loyalty_unit = Points | Visits | Stamps | Credits | Custom

fun unit_string :: "loyalty_unit \<Rightarrow> string" where
  "unit_string Points = ''points''"
| "unit_string Visits = ''visits''"
| "unit_string Stamps = ''stamps''"
| "unit_string Credits = ''credits''"
| "unit_string Custom = ''custom''"

lemma unit_string_inject [simp]: "unit_string u = unit_string v \<longleftrightarrow> u = v"
  by (cases u; cases v) simp_all

record money =
  mo_amount :: int
  mo_currency :: string

record req_context =
  cx_protocol_version :: string
  cx_profile :: string
  cx_request_id :: string
  cx_idempotency_key :: string
  cx_occurred_at :: string
  cx_source_system :: string
  cx_source_instance :: "string option"

record resp_context =
  rc_protocol_version :: string
  rc_profile :: string
  rc_request_id :: string
  rc_processed_at :: string

record program_scope =
  sc_program_id :: string
  sc_brand_id :: string
  sc_merchant_id :: string
  sc_location_id :: string
  sc_franchisee_id :: "string option"

datatype party_type = Brand | Franchisee | Location | Merchant | Partner

fun party_string :: "party_type \<Rightarrow> string" where
  "party_string Brand = ''brand''"
| "party_string Franchisee = ''franchisee''"
| "party_string Location = ''location''"
| "party_string Merchant = ''merchant''"
| "party_string Partner = ''partner''"

record funding_share =
  fs_party_id :: string
  fs_party_type :: party_type
  fs_share_bps :: int
  fs_amount :: "money option"

section \<open>Members and balances\<close>

datatype identity_type = Loyalty_id | Token | Email_hash | Phone_hash | External

fun identity_type_string :: "identity_type \<Rightarrow> string" where
  "identity_type_string Loyalty_id = ''loyalty_id''"
| "identity_type_string Token = ''token''"
| "identity_type_string Email_hash = ''email_hash''"
| "identity_type_string Phone_hash = ''phone_hash''"
| "identity_type_string External = ''external''"

record identity_ref =
  ir_type :: identity_type
  ir_value :: string
  ir_issuer :: "string option"

datatype member_status = Active | Suspended | Closed

fun member_status_string :: "member_status \<Rightarrow> string" where
  "member_status_string Active = ''active''"
| "member_status_string Suspended = ''suspended''"
| "member_status_string Closed = ''closed''"

type_synonym metadata = "(string \<times> json) list"

record member =
  mb_member_id :: string
  mb_program_id :: string
  mb_status :: member_status
  mb_joined_at :: string
  mb_tier_id :: "string option"
  mb_identities :: "identity_ref list"
  mb_attributes :: "metadata option"

record balance =
  bl_account_id :: string
  bl_member_id :: string
  bl_program_id :: string
  bl_unit :: loyalty_unit
  bl_amount :: int
  bl_reserved :: int
  bl_available :: int
  bl_as_of :: string

section \<open>Orders\<close>

datatype order_channel =
  Counter | Drive_thru | Kiosk | Web | Mobile | Pickup | Delivery | Catering | Third_party | Other

fun channel_string :: "order_channel \<Rightarrow> string" where
  "channel_string Counter = ''counter''"
| "channel_string Drive_thru = ''drive_thru''"
| "channel_string Kiosk = ''kiosk''"
| "channel_string Web = ''web''"
| "channel_string Mobile = ''mobile''"
| "channel_string Pickup = ''pickup''"
| "channel_string Delivery = ''delivery''"
| "channel_string Catering = ''catering''"
| "channel_string Third_party = ''third_party''"
| "channel_string Other = ''other''"

datatype order_status = Open | Authorized | Paid | Partially_refunded | Refunded | Voided

fun order_status_string :: "order_status \<Rightarrow> string" where
  "order_status_string Open = ''open''"
| "order_status_string Authorized = ''authorized''"
| "order_status_string Paid = ''paid''"
| "order_status_string Partially_refunded = ''partially_refunded''"
| "order_status_string Refunded = ''refunded''"
| "order_status_string Voided = ''voided''"

datatype line_kind = Item | Modifier | Fee

fun line_kind_string :: "line_kind \<Rightarrow> string" where
  "line_kind_string Item = ''item''"
| "line_kind_string Modifier = ''modifier''"
| "line_kind_string Fee = ''fee''"

record order_line =
  ln_line_id :: string
  ln_kind :: line_kind
  ln_product_id :: string
  ln_sku :: "string option"
  ln_name :: "string option"
  ln_parent_line_id :: "string option"
  ln_quantity :: int
  ln_unit_price :: money
  ln_subtotal :: money
  ln_discount :: money
  ln_tax :: money
  ln_category_ids :: "string list option"
  ln_tags :: "string list option"
  ln_loyalty_eligible :: "bool option"
  ln_metadata :: "metadata option"

record order_totals =
  tt_subtotal :: money
  tt_discount :: money
  tt_tax :: money
  tt_tip :: money
  tt_service_charge :: money
  tt_total :: money

datatype tender_type = Cash | Card | Gift_card | Loyalty | Tender_third_party | Tender_other

fun tender_type_string :: "tender_type \<Rightarrow> string" where
  "tender_type_string Cash = ''cash''"
| "tender_type_string Card = ''card''"
| "tender_type_string Gift_card = ''gift_card''"
| "tender_type_string Loyalty = ''loyalty''"
| "tender_type_string Tender_third_party = ''third_party''"
| "tender_type_string Tender_other = ''other''"

record tender =
  tn_tender_id :: string
  tn_type :: tender_type
  tn_amount :: money

record order =
  od_order_id :: string
  od_order_number :: "string option"
  od_scope :: program_scope
  od_member_id :: "string option"
  od_channel :: order_channel
  od_status :: order_status
  od_business_date :: string
  od_placed_at :: string
  od_closed_at :: "string option"
  od_lines :: "order_line list"
  od_totals :: order_totals
  od_tenders :: "tender list option"
  od_metadata :: "metadata option"

record line_adjustment =
  la_line_id :: string
  la_quantity_delta :: int
  la_subtotal_delta :: money

datatype adjustment_type = Partial_refund | Full_refund | Void | Correction

fun adjustment_type_string :: "adjustment_type \<Rightarrow> string" where
  "adjustment_type_string Partial_refund = ''partial_refund''"
| "adjustment_type_string Full_refund = ''full_refund''"
| "adjustment_type_string Void = ''void''"
| "adjustment_type_string Correction = ''correction''"

record order_adjustment =
  oa_adjustment_id :: string
  oa_original_order_id :: string
  oa_type :: adjustment_type
  oa_reason :: string
  oa_occurred_at :: string
  oa_order_total_delta :: money
  oa_eligible_spend_delta :: money
  oa_lines :: "line_adjustment list option"

section \<open>Rewards, ledger and reservations\<close>

record discount_allocation =
  da_line_id :: "string option"
  da_amount :: money

datatype discount_target = Target_order | Target_line

datatype reward_effect =
    Discount (ef_target: discount_target) (ef_amount: money) (ef_allocations: "discount_allocation list")
  | Free_item (ef_product_ids: "string list option") (ef_category_ids: "string list option")
      (ef_max_quantity: int) (ef_max_value: money)
  | Custom_effect (ef_effect_type: string) (ef_payload: json)

record unit_amount =
  ua_unit :: loyalty_unit
  ua_amount :: int

datatype candidate_status = Available | Unavailable

record reward_candidate =
  cd_reward_id :: string
  cd_name :: "string option"
  cd_status :: candidate_status
  cd_unavailable_reasons :: "string list option"
  cd_cost :: unit_amount
  cd_effect :: reward_effect
  cd_funding :: "funding_share list"

datatype ledger_operation = Accrual | Redemption | Reversal | Adjustment | Expiration | Manual

fun operation_string :: "ledger_operation \<Rightarrow> string" where
  "operation_string Accrual = ''accrual''"
| "operation_string Redemption = ''redemption''"
| "operation_string Reversal = ''reversal''"
| "operation_string Adjustment = ''adjustment''"
| "operation_string Expiration = ''expiration''"
| "operation_string Manual = ''manual''"

datatype classification = Bonus | Gift | Migration | Service_recovery | Correction_class

fun classification_string :: "classification \<Rightarrow> string" where
  "classification_string Bonus = ''bonus''"
| "classification_string Gift = ''gift''"
| "classification_string Migration = ''migration''"
| "classification_string Service_recovery = ''service_recovery''"
| "classification_string Correction_class = ''correction''"

record ledger_entry =
  le_entry_id :: string
  le_member_id :: string
  le_program_id :: string
  le_account_id :: string
  le_operation :: ledger_operation
  le_unit :: loyalty_unit
  le_amount :: int
  le_occurred_at :: string
  le_expires_at :: "string option"
  le_related_entry_id :: "string option"
  le_order_id :: "string option"
  le_location_id :: "string option"
  le_adjustment_id :: "string option"
  le_reservation_id :: "string option"
  le_classification :: "classification option"
  le_reason :: "string option"
  le_qualifies_for_tier :: "bool option"

datatype reservation_status = Reserved | Captured | Reversed | Expired

record reservation =
  rs_reservation_id :: string
  rs_redemption_id :: string
  rs_member_id :: string
  rs_reward_id :: string
  rs_issued_reward_id :: "string option"
  rs_order_id :: string
  rs_location_id :: "string option"
  rs_status :: reservation_status
  rs_cost :: unit_amount
  rs_effect :: reward_effect
  rs_funding :: "funding_share list"
  rs_created_at :: string
  rs_expires_at :: string
  rs_captured_at :: "string option"
  rs_reversed_at :: "string option"

datatype issued_status = Issued | Redeemed | Cancelled | Issued_expired

datatype artifact_type = Code | Qr_code

record artifact =
  af_type :: artifact_type
  af_value :: string

record issued_reward =
  iw_issued_reward_id :: string
  iw_member_id :: string
  iw_program_id :: string
  iw_reward_id :: string
  iw_status :: issued_status
  iw_issued_at :: string
  iw_expires_at :: "string option"
  iw_redeemed_at :: "string option"
  iw_cancelled_at :: "string option"
  iw_cancellation_reason :: "string option"
  iw_artifact :: "artifact option"

section \<open>Accounts\<close>

record account_metric =
  am_metric_id :: string
  am_unit :: loyalty_unit
  am_amount :: int
  am_as_of :: string

record expiring_balance =
  eb_account_id :: string
  eb_unit :: loyalty_unit
  eb_amount :: int
  eb_expires_at :: string

record tier_progress =
  tp_current_tier_id :: string
  tp_qualification_metric_id :: string
  tp_current_amount :: int
  tp_next_tier_id :: "string option"
  tp_remaining_to_next :: "int option"
  tp_progress_bps :: int
  tp_is_top_tier :: bool

section \<open>The lifecycle order of reservation states\<close>

text \<open>
  \<open>reserved\<close> comes first, a captured reservation can only become reversed, \<open>reversed\<close>
  and \<open>expired\<close> are final (spec/lifecycle.md, "Reservation states"). The order makes
  "moves forward only" an inequality.
\<close>

instantiation reservation_status :: order
begin

fun less_eq_reservation_status :: "reservation_status \<Rightarrow> reservation_status \<Rightarrow> bool" where
  "less_eq_reservation_status Reserved t = True"
| "less_eq_reservation_status Captured t = (t = Captured \<or> t = Reversed)"
| "less_eq_reservation_status Reversed t = (t = Reversed)"
| "less_eq_reservation_status Expired t = (t = Expired)"

definition less_reservation_status :: "reservation_status \<Rightarrow> reservation_status \<Rightarrow> bool" where
  "less_reservation_status s t = (s \<le> t \<and> s \<noteq> t)"

instance
proof
  fix x y z :: reservation_status
  show "(x < y) = (x \<le> y \<and> \<not> y \<le> x)"
    by (cases x; cases y) (simp_all add: less_reservation_status_def)
  show "x \<le> x" by (cases x) simp_all
  show "x \<le> y \<Longrightarrow> y \<le> z \<Longrightarrow> x \<le> z" by (cases x; cases y; cases z) simp_all
  show "x \<le> y \<Longrightarrow> y \<le> x \<Longrightarrow> x = y" by (cases x; cases y) simp_all
qed

end

end
