(* ===== verification/Protocol_Requests.thy ===== *)
theory Protocol_Requests
  imports Protocol_Types
begin

text \<open>
  Request messages of packages/protocol/src and the JSON value that each one is. The
  engine fingerprints requests and parts of them, so the model needs the value that
  \<open>JSON.stringify\<close> sees: field names as on the wire, absent optional fields left out.
\<close>

section \<open>JSON of the shared parts\<close>

abbreviation jstr :: "string \<Rightarrow> json option" where "jstr t \<equiv> Some (JStr t)"
abbreviation jstr_opt :: "string option \<Rightarrow> json option" where "jstr_opt t \<equiv> map_option JStr t"
abbreviation jnum :: "int \<Rightarrow> json option" where "jnum n \<equiv> Some (JNum n)"
abbreviation jstrs :: "string list \<Rightarrow> json" where "jstrs ts \<equiv> JArr (map JStr ts)"

definition json_money :: "money \<Rightarrow> json" where
  "json_money m = jobj [(''amount'', jnum (mo_amount m)), (''currency'', jstr (mo_currency m))]"

definition json_context :: "req_context \<Rightarrow> json" where
  "json_context c = jobj
     [(''protocol_version'', jstr (cx_protocol_version c)),
      (''profile'', jstr (cx_profile c)),
      (''request_id'', jstr (cx_request_id c)),
      (''idempotency_key'', jstr (cx_idempotency_key c)),
      (''occurred_at'', jstr (cx_occurred_at c)),
      (''source'', Some (jobj [(''system'', jstr (cx_source_system c)),
                               (''instance'', jstr_opt (cx_source_instance c))]))]"

definition json_identity :: "identity_ref \<Rightarrow> json" where
  "json_identity i = jobj
     [(''type'', jstr (identity_type_string (ir_type i))),
      (''value'', jstr (ir_value i)),
      (''issuer'', jstr_opt (ir_issuer i))]"

definition json_scope :: "program_scope \<Rightarrow> json" where
  "json_scope c = jobj
     [(''program_id'', jstr (sc_program_id c)), (''brand_id'', jstr (sc_brand_id c)),
      (''merchant_id'', jstr (sc_merchant_id c)), (''location_id'', jstr (sc_location_id c)),
      (''franchisee_id'', jstr_opt (sc_franchisee_id c))]"

definition json_line :: "order_line \<Rightarrow> json" where
  "json_line l = jobj
     [(''line_id'', jstr (ln_line_id l)),
      (''kind'', jstr (line_kind_string (ln_kind l))),
      (''product_id'', jstr (ln_product_id l)),
      (''sku'', jstr_opt (ln_sku l)),
      (''name'', jstr_opt (ln_name l)),
      (''parent_line_id'', jstr_opt (ln_parent_line_id l)),
      (''quantity'', jnum (ln_quantity l)),
      (''unit_price'', Some (json_money (ln_unit_price l))),
      (''subtotal'', Some (json_money (ln_subtotal l))),
      (''discount'', Some (json_money (ln_discount l))),
      (''tax'', Some (json_money (ln_tax l))),
      (''category_ids'', map_option jstrs (ln_category_ids l)),
      (''tags'', map_option jstrs (ln_tags l)),
      (''loyalty_eligible'', map_option JBool (ln_loyalty_eligible l)),
      (''metadata'', map_option JObj (ln_metadata l))]"

definition json_totals :: "order_totals \<Rightarrow> json" where
  "json_totals t = jobj
     [(''subtotal'', Some (json_money (tt_subtotal t))),
      (''discount'', Some (json_money (tt_discount t))),
      (''tax'', Some (json_money (tt_tax t))),
      (''tip'', Some (json_money (tt_tip t))),
      (''service_charge'', Some (json_money (tt_service_charge t))),
      (''total'', Some (json_money (tt_total t)))]"

definition json_tender :: "tender \<Rightarrow> json" where
  "json_tender t = jobj
     [(''tender_id'', jstr (tn_tender_id t)),
      (''type'', jstr (tender_type_string (tn_type t))),
      (''amount'', Some (json_money (tn_amount t)))]"

definition json_order :: "order \<Rightarrow> json" where
  "json_order d = jobj
     [(''order_id'', jstr (od_order_id d)),
      (''order_number'', jstr_opt (od_order_number d)),
      (''scope'', Some (json_scope (od_scope d))),
      (''member_id'', jstr_opt (od_member_id d)),
      (''channel'', jstr (channel_string (od_channel d))),
      (''status'', jstr (order_status_string (od_status d))),
      (''business_date'', jstr (od_business_date d)),
      (''placed_at'', jstr (od_placed_at d)),
      (''closed_at'', jstr_opt (od_closed_at d)),
      (''lines'', Some (JArr (map json_line (od_lines d)))),
      (''totals'', Some (json_totals (od_totals d))),
      (''tenders'', map_option (\<lambda>ts. JArr (map json_tender ts)) (od_tenders d)),
      (''metadata'', map_option JObj (od_metadata d))]"

definition json_line_adjustment :: "line_adjustment \<Rightarrow> json" where
  "json_line_adjustment l = jobj
     [(''line_id'', jstr (la_line_id l)),
      (''quantity_delta'', jnum (la_quantity_delta l)),
      (''subtotal_delta'', Some (json_money (la_subtotal_delta l)))]"

definition json_adjustment :: "order_adjustment \<Rightarrow> json" where
  "json_adjustment a = jobj
     [(''adjustment_id'', jstr (oa_adjustment_id a)),
      (''original_order_id'', jstr (oa_original_order_id a)),
      (''type'', jstr (adjustment_type_string (oa_type a))),
      (''reason'', jstr (oa_reason a)),
      (''occurred_at'', jstr (oa_occurred_at a)),
      (''order_total_delta'', Some (json_money (oa_order_total_delta a))),
      (''eligible_spend_delta'', Some (json_money (oa_eligible_spend_delta a))),
      (''lines'', map_option (\<lambda>ls. JArr (map json_line_adjustment ls)) (oa_lines a))]"

fun artifact_type_string :: "artifact_type \<Rightarrow> string" where
  "artifact_type_string Code = ''code''"
| "artifact_type_string Qr_code = ''qr_code''"

definition json_artifact :: "artifact \<Rightarrow> json" where
  "json_artifact a = jobj
     [(''type'', jstr (artifact_type_string (af_type a))), (''value'', jstr (af_value a))]"

text \<open>The member object itself, needed where cached responses are rewritten.\<close>

definition json_member :: "member \<Rightarrow> json" where
  "json_member m = jobj
     [(''member_id'', jstr (mb_member_id m)),
      (''program_id'', jstr (mb_program_id m)),
      (''status'', jstr (member_status_string (mb_status m))),
      (''joined_at'', jstr (mb_joined_at m)),
      (''tier_id'', jstr_opt (mb_tier_id m)),
      (''identities'', Some (JArr (map json_identity (mb_identities m)))),
      (''attributes'', map_option JObj (mb_attributes m))]"

section \<open>Requests\<close>

record lookup_request =
  lq_context :: req_context
  lq_program_id :: string
  lq_identity :: identity_ref

definition json_lookup_request :: "lookup_request \<Rightarrow> json" where
  "json_lookup_request r = jobj
     [(''context'', Some (json_context (lq_context r))),
      (''program_id'', jstr (lq_program_id r)),
      (''identity'', Some (json_identity (lq_identity r)))]"

record enroll_request =
  eq_context :: req_context
  eq_program_id :: string
  eq_identity :: identity_ref
  eq_member_id :: "string option"
  eq_attributes :: "metadata option"

definition json_enroll_request :: "enroll_request \<Rightarrow> json" where
  "json_enroll_request r = jobj
     [(''context'', Some (json_context (eq_context r))),
      (''program_id'', jstr (eq_program_id r)),
      (''identity'', Some (json_identity (eq_identity r))),
      (''member_id'', jstr_opt (eq_member_id r)),
      (''attributes'', map_option JObj (eq_attributes r))]"

record program_request =
  pq_context :: req_context
  pq_program_id :: string

definition json_program_request :: "program_request \<Rightarrow> json" where
  "json_program_request r = jobj
     [(''context'', Some (json_context (pq_context r))), (''program_id'', jstr (pq_program_id r))]"

record account_request =
  aq_context :: req_context
  aq_member_id :: string
  aq_program_id :: string

definition json_account_request :: "account_request \<Rightarrow> json" where
  "json_account_request r = jobj
     [(''context'', Some (json_context (aq_context r))),
      (''member_id'', jstr (aq_member_id r)),
      (''program_id'', jstr (aq_program_id r))]"

record ledger_list_request =
  ll_context :: req_context
  ll_member_id :: string
  ll_program_id :: string
  ll_account_id :: "string option"
  ll_operations :: "ledger_operation list option"
  ll_occurred_from :: "string option"
  ll_occurred_until :: "string option"
  ll_cursor :: "string option"
  ll_limit :: "int option"

definition json_ledger_list_request :: "ledger_list_request \<Rightarrow> json" where
  "json_ledger_list_request r = jobj
     [(''context'', Some (json_context (ll_context r))),
      (''member_id'', jstr (ll_member_id r)),
      (''program_id'', jstr (ll_program_id r)),
      (''account_id'', jstr_opt (ll_account_id r)),
      (''operations'', map_option (\<lambda>ps. jstrs (map operation_string ps)) (ll_operations r)),
      (''occurred_from'', jstr_opt (ll_occurred_from r)),
      (''occurred_until'', jstr_opt (ll_occurred_until r)),
      (''cursor'', jstr_opt (ll_cursor r)),
      (''limit'', map_option JNum (ll_limit r))]"

record order_request =
  oq_context :: req_context
  oq_member_id :: string
  oq_order :: order
  oq_evaluation_id :: "string option"

text \<open>\<open>EvaluationRequest\<close> has no \<open>evaluation_id\<close>; \<open>AccrualPostRequest\<close> may have one.\<close>

definition json_order_request :: "order_request \<Rightarrow> json" where
  "json_order_request r = jobj
     [(''context'', Some (json_context (oq_context r))),
      (''member_id'', jstr (oq_member_id r)),
      (''order'', Some (json_order (oq_order r))),
      (''evaluation_id'', jstr_opt (oq_evaluation_id r))]"

record issue_request =
  iq_context :: req_context
  iq_issued_reward_id :: string
  iq_member_id :: string
  iq_program_id :: string
  iq_reward_id :: string
  iq_expires_at :: "string option"
  iq_artifact :: "artifact option"

definition json_issue_request :: "issue_request \<Rightarrow> json" where
  "json_issue_request r = jobj
     [(''context'', Some (json_context (iq_context r))),
      (''issued_reward_id'', jstr (iq_issued_reward_id r)),
      (''member_id'', jstr (iq_member_id r)),
      (''program_id'', jstr (iq_program_id r)),
      (''reward_id'', jstr (iq_reward_id r)),
      (''expires_at'', jstr_opt (iq_expires_at r)),
      (''artifact'', map_option json_artifact (iq_artifact r))]"

fun issued_status_string :: "issued_status \<Rightarrow> string" where
  "issued_status_string Issued = ''issued''"
| "issued_status_string Redeemed = ''redeemed''"
| "issued_status_string Cancelled = ''cancelled''"
| "issued_status_string Issued_expired = ''expired''"

record issued_list_request =
  il_context :: req_context
  il_member_id :: string
  il_program_id :: string
  il_statuses :: "issued_status list option"

definition json_issued_list_request :: "issued_list_request \<Rightarrow> json" where
  "json_issued_list_request r = jobj
     [(''context'', Some (json_context (il_context r))),
      (''member_id'', jstr (il_member_id r)),
      (''program_id'', jstr (il_program_id r)),
      (''statuses'', map_option (\<lambda>ss. jstrs (map issued_status_string ss)) (il_statuses r))]"

record cancel_issued_request =
  ic_context :: req_context
  ic_issued_reward_id :: string
  ic_reason :: string

definition json_cancel_issued_request :: "cancel_issued_request \<Rightarrow> json" where
  "json_cancel_issued_request r = jobj
     [(''context'', Some (json_context (ic_context r))),
      (''issued_reward_id'', jstr (ic_issued_reward_id r)),
      (''reason'', jstr (ic_reason r))]"

record reserve_request =
  rq_context :: req_context
  rq_redemption_id :: string
  rq_member_id :: string
  rq_reward_id :: string
  rq_issued_reward_id :: "string option"
  rq_order :: order
  rq_evaluation_id :: "string option"

definition json_reserve_request :: "reserve_request \<Rightarrow> json" where
  "json_reserve_request r = jobj
     [(''context'', Some (json_context (rq_context r))),
      (''redemption_id'', jstr (rq_redemption_id r)),
      (''member_id'', jstr (rq_member_id r)),
      (''reward_id'', jstr (rq_reward_id r)),
      (''issued_reward_id'', jstr_opt (rq_issued_reward_id r)),
      (''order'', Some (json_order (rq_order r))),
      (''evaluation_id'', jstr_opt (rq_evaluation_id r))]"

record capture_request =
  cq_context :: req_context
  cq_reservation_id :: string
  cq_order_id :: string

definition json_capture_request :: "capture_request \<Rightarrow> json" where
  "json_capture_request r = jobj
     [(''context'', Some (json_context (cq_context r))),
      (''reservation_id'', jstr (cq_reservation_id r)),
      (''order_id'', jstr (cq_order_id r))]"

record reverse_request =
  vq_context :: req_context
  vq_reservation_id :: string
  vq_reason :: string

definition json_reverse_request :: "reverse_request \<Rightarrow> json" where
  "json_reverse_request r = jobj
     [(''context'', Some (json_context (vq_context r))),
      (''reservation_id'', jstr (vq_reservation_id r)),
      (''reason'', jstr (vq_reason r))]"

record adjust_request =
  dq_context :: req_context
  dq_member_id :: string
  dq_program_id :: string
  dq_adjustment :: order_adjustment

definition json_adjust_request :: "adjust_request \<Rightarrow> json" where
  "json_adjust_request r = jobj
     [(''context'', Some (json_context (dq_context r))),
      (''member_id'', jstr (dq_member_id r)),
      (''program_id'', jstr (dq_program_id r)),
      (''adjustment'', Some (json_adjustment (dq_adjustment r)))]"

record manual_request =
  mq_context :: req_context
  mq_member_id :: string
  mq_program_id :: string
  mq_adjustment_id :: string
  mq_unit :: "loyalty_unit option"
  mq_amount :: int
  mq_classification :: classification
  mq_reason :: string
  mq_qualifies_for_tier :: bool
  mq_expires_at :: "string option"

definition json_manual_request :: "manual_request \<Rightarrow> json" where
  "json_manual_request r = jobj
     [(''context'', Some (json_context (mq_context r))),
      (''member_id'', jstr (mq_member_id r)),
      (''program_id'', jstr (mq_program_id r)),
      (''adjustment_id'', jstr (mq_adjustment_id r)),
      (''unit'', map_option (\<lambda>u. JStr (unit_string u)) (mq_unit r)),
      (''amount'', jnum (mq_amount r)),
      (''classification'', jstr (classification_string (mq_classification r))),
      (''reason'', jstr (mq_reason r)),
      (''qualifies_for_tier'', Some (JBool (mq_qualifies_for_tier r))),
      (''expires_at'', jstr_opt (mq_expires_at r))]"

section \<open>Responses\<close>

text \<open>
  One constructor per response message. The catalog of a \<open>ProgramGetResponse\<close> is a type
  parameter here: it is defined with the program configuration.
\<close>

datatype 'c response =
    Lookup_response (rp_context: resp_context) (rp_member_opt: "member option") (rp_balances: "balance list")
  | Enroll_response (rp_context: resp_context) (rp_member: member) (rp_balances: "balance list")
  | Program_response (rp_context: resp_context) (rp_program: 'c)
  | Account_response (rp_context: resp_context) (rp_member: member) (rp_balances: "balance list")
      (rp_metrics: "account_metric list") (rp_expiring: "expiring_balance list")
      (rp_tier_progress: "tier_progress option")
  | Ledger_list_response (rp_context: resp_context) (rp_page: "ledger_entry list")
      (rp_next_cursor: "string option")
  | Evaluation_response (rp_context: resp_context) (rp_evaluation_id: string) (rp_member_id: string)
      (rp_order_id: string) (rp_estimated_accrual: unit_amount)
      (rp_estimated_accruals: "unit_amount list option") (rp_rewards: "reward_candidate list")
      (rp_balances: "balance list") (rp_expires_at: string)
  | Ledger_response (rp_context: resp_context) (rp_entry: ledger_entry)
      (rp_entries: "ledger_entry list option") (rp_balances: "balance list")
  | Issued_response (rp_context: resp_context) (rp_issued_reward: issued_reward)
  | Issued_list_response (rp_context: resp_context) (rp_issued_rewards: "issued_reward list")
  | Reservation_response (rp_context: resp_context) (rp_reservation: reservation)
      (rp_balances: "balance list")

fun map_resp_context :: "(resp_context \<Rightarrow> resp_context) \<Rightarrow> 'c response \<Rightarrow> 'c response" where
  "map_resp_context f (Lookup_response c m b) = Lookup_response (f c) m b"
| "map_resp_context f (Enroll_response c m b) = Enroll_response (f c) m b"
| "map_resp_context f (Program_response c p) = Program_response (f c) p"
| "map_resp_context f (Account_response c m b me ex tp) = Account_response (f c) m b me ex tp"
| "map_resp_context f (Ledger_list_response c es nc) = Ledger_list_response (f c) es nc"
| "map_resp_context f (Evaluation_response c i m d ea eas rs b x) =
     Evaluation_response (f c) i m d ea eas rs b x"
| "map_resp_context f (Ledger_response c en es b) = Ledger_response (f c) en es b"
| "map_resp_context f (Issued_response c i) = Issued_response (f c) i"
| "map_resp_context f (Issued_list_response c is) = Issued_list_response (f c) is"
| "map_resp_context f (Reservation_response c r b) = Reservation_response (f c) r b"

text \<open>\<open>withReplayedRequestId\<close>: a replayed response names the replaying request.\<close>

definition withReplayedRequestId :: "'c response \<Rightarrow> string \<Rightarrow> 'c response" where
  "withReplayedRequestId r rid = map_resp_context (\<lambda>c. c\<lparr>rc_request_id := rid\<rparr>) r"

lemma withReplayedRequestId_context [simp]:
  "rp_context (withReplayedRequestId r rid) = (rp_context r)\<lparr>rc_request_id := rid\<rparr>"
  by (cases r) (simp_all add: withReplayedRequestId_def)

lemma withReplayedRequestId_twice [simp]:
  "withReplayedRequestId (withReplayedRequestId r a) b = withReplayedRequestId r b"
  by (cases r) (simp_all add: withReplayedRequestId_def)

end
