(* ===== verification/Validation.thy ===== *)
theory Validation
  imports Protocol_Requests
begin

text \<open>
  packages/protocol/src/validation.ts: \<open>validateFoodserviceOrder\<close> and
  \<open>validateFundingShares\<close>. The structural check is delegated to Ajv; what it accepts is
  fixed by the schemas of order.ts and primitives.ts and is the predicate
  \<open>order_conforms\<close> here, while the list of issues it reports for a rejected value is the
  parameter \<open>ajv\<close>. The theorems state exactly which orders are accepted, in declarative
  form, and the money identities that every accepted order satisfies.
\<close>

section \<open>What the schemas accept\<close>

definition is_alnum :: "char \<Rightarrow> bool" where
  "is_alnum c = (let n = (of_char c :: int) in
     (48 \<le> n \<and> n \<le> 57) \<or> (65 \<le> n \<and> n \<le> 90) \<or> (97 \<le> n \<and> n \<le> 122))"

definition is_digit :: "char \<Rightarrow> bool" where
  "is_digit c = (let n = (of_char c :: int) in 48 \<le> n \<and> n \<le> 57)"

definition id_ok :: "string \<Rightarrow> bool" where
  "id_ok t = (length t \<le> 128 \<and>
     (case t of [] \<Rightarrow> False
      | c # cs \<Rightarrow> is_alnum c \<and> list_all (\<lambda>x. is_alnum x \<or> x \<in> set ''._:-'') cs))"

definition currency_ok :: "string \<Rightarrow> bool" where
  "currency_ok t = (length t = 3 \<and> list_all (\<lambda>c. let n = (of_char c :: int) in 65 \<le> n \<and> n \<le> 90) t)"

definition money_ok :: "money \<Rightarrow> bool" where
  "money_ok m = (is_safe_integer (mo_amount m) \<and> currency_ok (mo_currency m))"

text \<open>The date-time format: its regular expression, then \<open>Date.parse\<close> must not be NaN.\<close>

definition offset_shape :: "string \<Rightarrow> bool" where
  "offset_shape t = (t = ''Z'' \<or>
     (length t = 6 \<and> (t ! 0 = CHR ''+'' \<or> t ! 0 = CHR ''-'') \<and> is_digit (t ! 1) \<and> is_digit (t ! 2) \<and>
      t ! 3 = CHR '':'' \<and> is_digit (t ! 4) \<and> is_digit (t ! 5)))"

definition date_time_shape :: "string \<Rightarrow> bool" where
  "date_time_shape t = (19 < length t \<and>
     list_all (\<lambda>i. is_digit (t ! i)) [0, 1, 2, 3, 5, 6, 8, 9, 11, 12, 14, 15, 17, 18] \<and>
     t ! 4 = CHR ''-'' \<and> t ! 7 = CHR ''-'' \<and> t ! 10 = CHR ''T'' \<and> t ! 13 = CHR '':'' \<and> t ! 16 = CHR '':'' \<and>
     (let r = drop 19 t in
        offset_shape r \<or>
        (hd r = CHR ''.'' \<and> takeWhile is_digit (tl r) \<noteq> [] \<and> offset_shape (dropWhile is_digit (tl r)))))"

definition date_time_ok :: "(string \<Rightarrow> int option) \<Rightarrow> string \<Rightarrow> bool" where
  "date_time_ok parse t = (date_time_shape t \<and> parse t \<noteq> None)"

definition business_date_ok :: "string \<Rightarrow> bool" where
  "business_date_ok t = (length t = 10 \<and> t ! 4 = CHR ''-'' \<and> t ! 7 = CHR ''-'' \<and>
     list_all (\<lambda>i. is_digit (t ! i)) [0, 1, 2, 3, 5, 6, 8, 9])"

definition length_between :: "nat \<Rightarrow> nat \<Rightarrow> string \<Rightarrow> bool" where
  "length_between lo hi t = (lo \<le> length t \<and> length t \<le> hi)"

definition opt_ok :: "('a \<Rightarrow> bool) \<Rightarrow> 'a option \<Rightarrow> bool" where
  "opt_ok P v = (case v of None \<Rightarrow> True | Some x \<Rightarrow> P x)"

definition scope_conforms :: "program_scope \<Rightarrow> bool" where
  "scope_conforms c = (id_ok (sc_program_id c) \<and> id_ok (sc_brand_id c) \<and> id_ok (sc_merchant_id c) \<and>
     id_ok (sc_location_id c) \<and> opt_ok id_ok (sc_franchisee_id c))"

definition line_conforms :: "order_line \<Rightarrow> bool" where
  "line_conforms l = (id_ok (ln_line_id l) \<and> id_ok (ln_product_id l) \<and>
     opt_ok (length_between 1 128) (ln_sku l) \<and> opt_ok (length_between 1 255) (ln_name l) \<and>
     opt_ok id_ok (ln_parent_line_id l) \<and> 1 \<le> ln_quantity l \<and>
     money_ok (ln_unit_price l) \<and> money_ok (ln_subtotal l) \<and> money_ok (ln_discount l) \<and> money_ok (ln_tax l) \<and>
     opt_ok (\<lambda>ids. list_all id_ok ids \<and> distinct ids) (ln_category_ids l) \<and>
     opt_ok (\<lambda>ts. list_all (length_between 0 64) ts \<and> distinct ts) (ln_tags l))"

definition totals_conform :: "order_totals \<Rightarrow> bool" where
  "totals_conform t = (money_ok (tt_subtotal t) \<and> money_ok (tt_discount t) \<and> money_ok (tt_tax t) \<and>
     money_ok (tt_tip t) \<and> money_ok (tt_service_charge t) \<and> money_ok (tt_total t))"

definition tender_conforms :: "tender \<Rightarrow> bool" where
  "tender_conforms t = (id_ok (tn_tender_id t) \<and> money_ok (tn_amount t))"

definition order_conforms :: "(string \<Rightarrow> int option) \<Rightarrow> order \<Rightarrow> bool" where
  "order_conforms parse d = (id_ok (od_order_id d) \<and> opt_ok (length_between 1 128) (od_order_number d) \<and>
     scope_conforms (od_scope d) \<and> opt_ok id_ok (od_member_id d) \<and>
     business_date_ok (od_business_date d) \<and> date_time_ok parse (od_placed_at d) \<and>
     opt_ok (date_time_ok parse) (od_closed_at d) \<and>
     od_lines d \<noteq> [] \<and> list_all line_conforms (od_lines d) \<and> totals_conform (od_totals d) \<and>
     opt_ok (\<lambda>ts. ts \<noteq> [] \<and> list_all tender_conforms ts) (od_tenders d))"

section \<open>The validator\<close>

record validation_issue =
  vi_path :: string
  vi_message :: string
  vi_keyword :: string

definition issue :: "string \<Rightarrow> string \<Rightarrow> string \<Rightarrow> validation_issue" where
  "issue p m k = \<lparr>vi_path = p, vi_message = m, vi_keyword = k\<rparr>"

definition line_moneys :: "order_line \<Rightarrow> money list" where
  "line_moneys l = [ln_unit_price l, ln_subtotal l, ln_discount l, ln_tax l]"

definition totals_moneys :: "order_totals \<Rightarrow> money list" where
  "totals_moneys t =
     [tt_subtotal t, tt_discount t, tt_tax t, tt_tip t, tt_service_charge t, tt_total t]"

definition tenders_of :: "order \<Rightarrow> tender list" where
  "tenders_of d = (case od_tenders d of None \<Rightarrow> [] | Some ts \<Rightarrow> ts)"

definition moneyFields :: "order \<Rightarrow> money list" where
  "moneyFields d = concat (map line_moneys (od_lines d)) @ totals_moneys (od_totals d) @
     map tn_amount (tenders_of d)"

text \<open>The first loop over the lines; \<open>seen\<close> is the set of line ids so far.\<close>

fun line_issues :: "string list \<Rightarrow> order_line list \<Rightarrow> validation_issue list" where
  "line_issues seen [] = []"
| "line_issues seen (l # ls) =
     push_if (ln_line_id l \<in> set seen)
       (issue ''/lines'' (''duplicate line_id '' @ ln_line_id l) ''unique'') @
     push_if (mo_amount (ln_subtotal l) \<noteq> mo_amount (ln_unit_price l) * ln_quantity l)
       (issue (''/lines/'' @ ln_line_id l @ ''/subtotal/amount'') ''must equal unit_price times quantity'' ''reconciliation'') @
     push_if (list_ex (\<lambda>m. mo_amount m < 0) (line_moneys l))
       (issue (''/lines/'' @ ln_line_id l) ''sale amounts must not be negative'' ''minimum'') @
     push_if (mo_amount (ln_discount l) > mo_amount (ln_subtotal l))
       (issue (''/lines/'' @ ln_line_id l @ ''/discount/amount'') ''must not exceed line subtotal'' ''maximum'') @
     line_issues (ln_line_id l # seen) ls"

definition total_issue :: "string \<Rightarrow> int \<Rightarrow> int \<Rightarrow> validation_issue list" where
  "total_issue field actual expected =
     push_if (actual \<noteq> expected)
       (issue (''/totals/'' @ field @ ''/amount'') (''must equal allocated line '' @ field) ''reconciliation'')"

definition parent_issues :: "string list \<Rightarrow> order_line \<Rightarrow> validation_issue list" where
  "parent_issues ids l =
     push_if (truthy (ln_parent_line_id l) \<and> the (ln_parent_line_id l) \<notin> set ids)
       (issue (''/lines/'' @ ln_line_id l @ ''/parent_line_id'') ''must reference another order line'' ''reference'') @
     push_if (ln_parent_line_id l = Some (ln_line_id l))
       (issue (''/lines/'' @ ln_line_id l @ ''/parent_line_id'') ''cannot reference itself'' ''reference'')"

definition expected_total :: "order_totals \<Rightarrow> int" where
  "expected_total t = mo_amount (tt_subtotal t) - mo_amount (tt_discount t) + mo_amount (tt_tax t) +
     mo_amount (tt_tip t) + mo_amount (tt_service_charge t)"

definition order_issues :: "order \<Rightarrow> validation_issue list" where
  "order_issues d =
     (let t = od_totals d; ls = od_lines d; currency = mo_currency (tt_total t) in
     push_if (list_ex (\<lambda>m. mo_currency m \<noteq> currency) (moneyFields d))
       (issue ''/'' ''all monetary values must use one currency'' ''currency'') @
     push_if (expected_total t \<noteq> mo_amount (tt_total t))
       (issue ''/totals/total/amount'' ''does not reconcile'' ''reconciliation'') @
     line_issues [] ls @
     total_issue ''subtotal'' (mo_amount (tt_subtotal t)) (\<Sum>l\<leftarrow>ls. mo_amount (ln_subtotal l)) @
     total_issue ''discount'' (mo_amount (tt_discount t)) (\<Sum>l\<leftarrow>ls. mo_amount (ln_discount l)) @
     total_issue ''tax'' (mo_amount (tt_tax t)) (\<Sum>l\<leftarrow>ls. mo_amount (ln_tax l)) @
     push_if (list_ex (\<lambda>m. mo_amount m < 0) (totals_moneys t))
       (issue ''/totals'' ''sale totals must not be negative'' ''minimum'') @
     push_if (list_ex (\<lambda>tn. mo_amount (tn_amount tn) < 0) (tenders_of d))
       (issue ''/tenders'' ''tender amounts must not be negative'' ''minimum'') @
     concat (map (parent_issues (map ln_line_id ls)) ls) @
     push_if (od_status d = Paid \<and> od_tenders d \<noteq> None \<and> (\<Sum>tn\<leftarrow>tenders_of d. mo_amount (tn_amount tn)) \<noteq> mo_amount (tt_total t))
       (issue ''/tenders'' ''paid order tenders must equal total'' ''reconciliation''))"

definition validateFoodserviceOrder ::
  "(string \<Rightarrow> int option) \<Rightarrow> (order \<Rightarrow> validation_issue list) \<Rightarrow> order \<Rightarrow> validation_issue list + order"
where
  "validateFoodserviceOrder parse ajv d =
     (if \<not> order_conforms parse d then Inl (ajv d)
      else if order_issues d \<noteq> [] then Inl (order_issues d) else Inr d)"

definition validateFundingShares :: "funding_share list \<Rightarrow> validation_issue list + funding_share list" where
  "validateFundingShares shares =
     (if (\<Sum>x\<leftarrow>shares. fs_share_bps x) \<noteq> 10000
      then Inl [issue ''/funding'' ''shares must total 10000 basis points'' ''reconciliation'']
      else Inr shares)"

section \<open>The accepted orders, declaratively\<close>

definition line_reconciles :: "order_line \<Rightarrow> bool" where
  "line_reconciles l \<longleftrightarrow>
     mo_amount (ln_subtotal l) = mo_amount (ln_unit_price l) * ln_quantity l \<and>
     0 \<le> mo_amount (ln_unit_price l) \<and> 0 \<le> mo_amount (ln_discount l) \<and> 0 \<le> mo_amount (ln_tax l) \<and>
     0 \<le> mo_amount (ln_subtotal l) \<and> mo_amount (ln_discount l) \<le> mo_amount (ln_subtotal l)"

definition parent_resolves :: "order_line list \<Rightarrow> order_line \<Rightarrow> bool" where
  "parent_resolves ls l \<longleftrightarrow>
     (\<forall>p. ln_parent_line_id l = Some p \<longrightarrow> p \<noteq> [] \<longrightarrow> p \<in> ln_line_id ` set ls) \<and>
     ln_parent_line_id l \<noteq> Some (ln_line_id l)"

definition order_reconciles :: "order \<Rightarrow> bool" where
  "order_reconciles d \<longleftrightarrow>
     (\<forall>m \<in> set (moneyFields d). mo_currency m = mo_currency (tt_total (od_totals d))) \<and>
     expected_total (od_totals d) = mo_amount (tt_total (od_totals d)) \<and>
     distinct (map ln_line_id (od_lines d)) \<and>
     (\<forall>l \<in> set (od_lines d). line_reconciles l \<and> parent_resolves (od_lines d) l) \<and>
     mo_amount (tt_subtotal (od_totals d)) = (\<Sum>l\<leftarrow>od_lines d. mo_amount (ln_subtotal l)) \<and>
     mo_amount (tt_discount (od_totals d)) = (\<Sum>l\<leftarrow>od_lines d. mo_amount (ln_discount l)) \<and>
     mo_amount (tt_tax (od_totals d)) = (\<Sum>l\<leftarrow>od_lines d. mo_amount (ln_tax l)) \<and>
     (\<forall>m \<in> set (totals_moneys (od_totals d)). 0 \<le> mo_amount m) \<and>
     (\<forall>tn \<in> set (tenders_of d). 0 \<le> mo_amount (tn_amount tn)) \<and>
     (od_status d = Paid \<longrightarrow> od_tenders d \<noteq> None \<longrightarrow>
        (\<Sum>tn\<leftarrow>tenders_of d. mo_amount (tn_amount tn)) = mo_amount (tt_total (od_totals d)))"

lemma line_issues_Nil_iff:
  "line_issues seen ls = [] \<longleftrightarrow>
     distinct (map ln_line_id ls) \<and> set seen \<inter> ln_line_id ` set ls = {} \<and> (\<forall>l \<in> set ls. line_reconciles l)"
  by (induction seen ls rule: line_issues.induct)
    (auto simp: line_reconciles_def line_moneys_def list_ex_iff split: if_splits)

lemma parent_issues_Nil_iff:
  "parent_issues (map ln_line_id ls) l = [] \<longleftrightarrow> parent_resolves ls l"
  by (cases "ln_parent_line_id l") (auto simp: parent_issues_def parent_resolves_def)

lemma order_issues_Nil_iff: "order_issues d = [] \<longleftrightarrow> order_reconciles d"
  unfolding order_issues_def order_reconciles_def Let_def append_is_Nil_conv concat_eq_Nil_conv
    line_issues_Nil_iff total_issue_def
  by (auto simp: parent_issues_Nil_iff list_ex_iff not_less ball_Un split: if_splits)

lemma accepted_order_reconciles:
  "validateFoodserviceOrder parse ajv d = Inr d' \<Longrightarrow> d' = d \<and> order_conforms parse d \<and> order_reconciles d"
  by (auto simp: validateFoodserviceOrder_def order_issues_Nil_iff split: if_splits)

text \<open>
  C1. The order validator accepts an order exactly when it conforms to the schema and
  reconciles: one currency, totals equal to the sums over the lines, line subtotals equal
  to price times quantity, unique line ids, resolvable parents, no negative amount, and
  tenders that pay a paid order; an accepted order is returned unchanged.
\<close>

theorem order_validator_sound_complete:
  "validateFoodserviceOrder parse ajv d = Inr d' \<longleftrightarrow>
     d' = d \<and> order_conforms parse d \<and> order_reconciles d"
  by (auto simp: validateFoodserviceOrder_def order_issues_Nil_iff)

section \<open>Money identities of accepted orders\<close>

lemma line_net_nonneg: "line_reconciles l \<Longrightarrow> 0 \<le> mo_amount (ln_subtotal l) - mo_amount (ln_discount l)"
  by (simp add: line_reconciles_def)

lemma filtered_net_bounds:
  assumes "\<forall>l \<in> set ls. line_reconciles l"
  shows "0 \<le> (\<Sum>l\<leftarrow>filter P ls. mo_amount (ln_subtotal l) - mo_amount (ln_discount l))"
    and "(\<Sum>l\<leftarrow>filter P ls. mo_amount (ln_subtotal l) - mo_amount (ln_discount l))
         \<le> (\<Sum>l\<leftarrow>ls. mo_amount (ln_subtotal l)) - (\<Sum>l\<leftarrow>ls. mo_amount (ln_discount l))"
  using assms by (induction ls) (auto dest: line_net_nonneg)

end
