(* ===== verification/Program_Config.thy ===== *)
theory Program_Config
  imports Validation
begin

text \<open>
  packages/reference/src/config.ts and errors.ts: the program definition that configures
  an engine, and the errors it raises. An error is its stable code and HTTP status; the
  human-readable message is not modelled (spec/core.md forbids branching on it).
\<close>

datatype engine_error_code =
    Conflict | Currency_mismatch | Err_expired | Forbidden | Idempotency_conflict
  | Insufficient_balance | Invalid_order | Invalid_cursor | Invalid_program | Invalid_state
  | Validation_failed | Member_not_found | Member_not_active | Not_found
  | Reward_not_available | Reward_not_found

text \<open>
  The other two are raised by the JavaScript runtime: \<open>TypeError\<close> on a property of \<open>null\<close>
  and when \<open>undefined\<close> is hashed, \<open>RangeError\<close> when an invalid date is formatted.
\<close>

datatype engine_error =
  EngineError (ee_code: engine_error_code) (ee_status: nat) | TypeError | RangeError

text \<open>The constructor's default status.\<close>

definition engine_err :: "engine_error_code \<Rightarrow> engine_error" where
  "engine_err c = EngineError c 409"

section \<open>Configuration records\<close>

record earn_rate =
  rt_points :: int
  rt_spend_minor_units :: int

record reward_definition =
  rd_reward_id :: string
  rd_name :: "string option"
  rd_description :: "string option"
  rd_image_url :: "string option"
  rd_points_cost :: int
  rd_cost :: "unit_amount option"
  rd_effect :: reward_effect
  rd_funding :: "funding_share list"
  rd_available_from :: "string option"
  rd_available_until :: "string option"
  rd_metadata :: "metadata option"

datatype metric_source = Current_balance | Lifetime_earned | Qualification_earned

fun metric_source_string :: "metric_source \<Rightarrow> string" where
  "metric_source_string Current_balance = ''current_balance''"
| "metric_source_string Lifetime_earned = ''lifetime_earned''"
| "metric_source_string Qualification_earned = ''qualification_earned''"

record metric_definition =
  md_metric_id :: string
  md_name :: string
  md_description :: "string option"
  md_unit :: loyalty_unit
  md_source :: metric_source

record tier_benefit =
  tb_benefit_id :: string
  tb_name :: string
  tb_description :: "string option"
  tb_metadata :: "metadata option"

record tier_definition =
  td_tier_id :: string
  td_name :: string
  td_qualification_metric_id :: string
  td_minimum :: int
  td_earn_multiplier_bps :: "int option"
  td_benefits :: "tier_benefit list"

record tier_policy =
  tq_metric_id :: string
  tq_starts_month :: int
  tq_starts_day :: int
  tq_time_zone :: string
  tq_effective_from :: "string option"

record expiration_policy =
  xp_days :: int
  xp_warning_days :: "int list"

record account_definition =
  ad_unit :: loyalty_unit
  ad_unit_label :: "string option"
  ad_is_primary :: bool

record earning_policy =
  ep_minimum_eligible_spend_minor_units :: "int option"
  ep_eligible_channels :: "order_channel list option"
  ep_excluded_product_ids :: "string list option"
  ep_excluded_category_ids :: "string list option"
  ep_excluded_tags :: "string list option"
  ep_excluded_line_kinds :: "line_kind list option"

record visit_stamp_policy =
  vp_unit :: loyalty_unit
  vp_amount_per_order :: int
  vp_threshold :: int
  vp_reset_on_issue :: bool
  vp_issue_reward_id :: string
  vp_issued_reward_ttl_seconds :: "int option"

datatype liability = Promotional | Stored_value

record wallet_credit_policy =
  wc_earn_bps :: int
  wc_liability :: liability

record membership_plan =
  mp_plan_id :: string
  mp_name :: string
  mp_earn_multiplier_bps :: "int option"

record program =
  pg_program_id :: string
  pg_name :: "string option"
  pg_description :: "string option"
  pg_currency :: string
  pg_accounts :: "account_definition list option"
  pg_metrics :: "metric_definition list option"
  pg_tiers :: "tier_definition list option"
  pg_tier_policy :: "tier_policy option"
  pg_point_expiration :: "expiration_policy option"
  pg_balance_expiration :: "expiration_policy option"
  pg_earning_policy :: "earning_policy option"
  pg_visit_stamp_policy :: "visit_stamp_policy option"
  pg_wallet_credit_policy :: "wallet_credit_policy option"
  pg_membership_plans :: "membership_plan list option"
  pg_earn_rate :: earn_rate
  pg_evaluation_ttl_seconds :: int
  pg_reservation_ttl_seconds :: int
  pg_rewards :: "reward_definition list"
  pg_metadata :: "metadata option"

section \<open>The program as a JSON value\<close>

text \<open>The engine fingerprints the whole definition, so every field takes part.\<close>

definition json_unit_amount :: "unit_amount \<Rightarrow> json" where
  "json_unit_amount a =
     jobj [(''unit'', jstr (unit_string (ua_unit a))), (''amount'', jnum (ua_amount a))]"

definition json_share :: "funding_share \<Rightarrow> json" where
  "json_share f = jobj
     [(''party_id'', jstr (fs_party_id f)), (''party_type'', jstr (party_string (fs_party_type f))),
      (''share_bps'', jnum (fs_share_bps f)), (''amount'', map_option json_money (fs_amount f))]"

definition json_allocation :: "discount_allocation \<Rightarrow> json" where
  "json_allocation a =
     jobj [(''line_id'', jstr_opt (da_line_id a)), (''amount'', Some (json_money (da_amount a)))]"

fun json_effect :: "reward_effect \<Rightarrow> json" where
  "json_effect (Discount t a als) = jobj
     [(''type'', jstr ''discount''),
      (''target'', jstr (case t of Target_order \<Rightarrow> ''order'' | Target_line \<Rightarrow> ''line'')),
      (''amount'', Some (json_money a)),
      (''allocations'', Some (JArr (map json_allocation als)))]"
| "json_effect (Free_item ps cs q v) = jobj
     [(''type'', jstr ''free_item''), (''product_ids'', map_option jstrs ps),
      (''category_ids'', map_option jstrs cs), (''max_quantity'', jnum q),
      (''max_value'', Some (json_money v))]"
| "json_effect (Custom_effect t p) =
     jobj [(''type'', jstr ''custom''), (''effect_type'', jstr t), (''payload'', Some p)]"

definition json_reward :: "reward_definition \<Rightarrow> json" where
  "json_reward r = jobj
     [(''reward_id'', jstr (rd_reward_id r)), (''name'', jstr_opt (rd_name r)),
      (''description'', jstr_opt (rd_description r)), (''image_url'', jstr_opt (rd_image_url r)),
      (''points_cost'', jnum (rd_points_cost r)), (''cost'', map_option json_unit_amount (rd_cost r)),
      (''effect'', Some (json_effect (rd_effect r))),
      (''funding'', Some (JArr (map json_share (rd_funding r)))),
      (''available_from'', jstr_opt (rd_available_from r)),
      (''available_until'', jstr_opt (rd_available_until r)),
      (''metadata'', map_option JObj (rd_metadata r))]"

definition json_metric :: "metric_definition \<Rightarrow> json" where
  "json_metric m = jobj
     [(''metric_id'', jstr (md_metric_id m)), (''name'', jstr (md_name m)),
      (''description'', jstr_opt (md_description m)), (''unit'', jstr (unit_string (md_unit m))),
      (''source'', jstr (metric_source_string (md_source m)))]"

definition json_benefit :: "tier_benefit \<Rightarrow> json" where
  "json_benefit b = jobj
     [(''benefit_id'', jstr (tb_benefit_id b)), (''name'', jstr (tb_name b)),
      (''description'', jstr_opt (tb_description b)), (''metadata'', map_option JObj (tb_metadata b))]"

definition json_tier :: "tier_definition \<Rightarrow> json" where
  "json_tier t = jobj
     [(''tier_id'', jstr (td_tier_id t)), (''name'', jstr (td_name t)),
      (''qualification_metric_id'', jstr (td_qualification_metric_id t)),
      (''minimum'', jnum (td_minimum t)),
      (''earn_multiplier_bps'', map_option JNum (td_earn_multiplier_bps t)),
      (''benefits'', Some (JArr (map json_benefit (td_benefits t))))]"

definition json_tier_policy :: "tier_policy \<Rightarrow> json" where
  "json_tier_policy p = jobj
     [(''metric_id'', jstr (tq_metric_id p)),
      (''period'', Some (jobj
        [(''type'', jstr ''annual''), (''starts_month'', jnum (tq_starts_month p)),
         (''starts_day'', jnum (tq_starts_day p)), (''time_zone'', jstr (tq_time_zone p))])),
      (''effective_from'', jstr_opt (tq_effective_from p))]"

definition json_expiration :: "expiration_policy \<Rightarrow> json" where
  "json_expiration x = jobj
     [(''type'', jstr ''after_earned''), (''days'', jnum (xp_days x)),
      (''warning_days'', Some (JArr (map JNum (xp_warning_days x))))]"

definition json_account :: "account_definition \<Rightarrow> json" where
  "json_account a = jobj
     [(''unit'', jstr (unit_string (ad_unit a))), (''unit_label'', jstr_opt (ad_unit_label a)),
      (''is_primary'', Some (JBool (ad_is_primary a)))]"

definition json_earning_policy :: "earning_policy \<Rightarrow> json" where
  "json_earning_policy e = jobj
     [(''minimum_eligible_spend_minor_units'', map_option JNum (ep_minimum_eligible_spend_minor_units e)),
      (''eligible_channels'', map_option (\<lambda>cs. jstrs (map channel_string cs)) (ep_eligible_channels e)),
      (''excluded_product_ids'', map_option jstrs (ep_excluded_product_ids e)),
      (''excluded_category_ids'', map_option jstrs (ep_excluded_category_ids e)),
      (''excluded_tags'', map_option jstrs (ep_excluded_tags e)),
      (''excluded_line_kinds'', map_option (\<lambda>ks. jstrs (map line_kind_string ks)) (ep_excluded_line_kinds e))]"

definition json_visit_policy :: "visit_stamp_policy \<Rightarrow> json" where
  "json_visit_policy v = jobj
     [(''unit'', jstr (unit_string (vp_unit v))), (''amount_per_order'', jnum (vp_amount_per_order v)),
      (''threshold'', jnum (vp_threshold v)), (''reset_on_issue'', Some (JBool (vp_reset_on_issue v))),
      (''issue_reward_id'', jstr (vp_issue_reward_id v)),
      (''issued_reward_ttl_seconds'', map_option JNum (vp_issued_reward_ttl_seconds v))]"

definition liability_string :: "liability \<Rightarrow> string" where
  "liability_string l = (case l of Promotional \<Rightarrow> ''promotional'' | Stored_value \<Rightarrow> ''stored_value'')"

definition json_wallet_policy :: "wallet_credit_policy \<Rightarrow> json" where
  "json_wallet_policy w = jobj
     [(''earn_bps'', jnum (wc_earn_bps w)),
      (''liability_classification'', jstr (liability_string (wc_liability w)))]"

definition json_plan :: "membership_plan \<Rightarrow> json" where
  "json_plan p = jobj
     [(''plan_id'', jstr (mp_plan_id p)), (''name'', jstr (mp_name p)),
      (''earn_multiplier_bps'', map_option JNum (mp_earn_multiplier_bps p))]"

definition jarr_opt :: "('a \<Rightarrow> json) \<Rightarrow> 'a list option \<Rightarrow> json option" where
  "jarr_opt f xs = map_option (\<lambda>ys. JArr (map f ys)) xs"

definition json_program :: "program \<Rightarrow> json" where
  "json_program p = jobj
     [(''program_id'', jstr (pg_program_id p)), (''name'', jstr_opt (pg_name p)),
      (''description'', jstr_opt (pg_description p)), (''currency'', jstr (pg_currency p)),
      (''accounts'', jarr_opt json_account (pg_accounts p)),
      (''metrics'', jarr_opt json_metric (pg_metrics p)),
      (''tiers'', jarr_opt json_tier (pg_tiers p)),
      (''tier_policy'', map_option json_tier_policy (pg_tier_policy p)),
      (''point_expiration'', map_option json_expiration (pg_point_expiration p)),
      (''balance_expiration'', map_option json_expiration (pg_balance_expiration p)),
      (''earning_policy'', map_option json_earning_policy (pg_earning_policy p)),
      (''visit_stamp_policy'', map_option json_visit_policy (pg_visit_stamp_policy p)),
      (''wallet_credit_policy'', map_option json_wallet_policy (pg_wallet_credit_policy p)),
      (''membership_policy'',
         map_option (\<lambda>ps. jobj [(''plans'', Some (JArr (map json_plan ps)))]) (pg_membership_plans p)),
      (''earn_rate'', Some (jobj
         [(''points'', jnum (rt_points (pg_earn_rate p))),
          (''spend_minor_units'', jnum (rt_spend_minor_units (pg_earn_rate p)))])),
      (''evaluation_ttl_seconds'', jnum (pg_evaluation_ttl_seconds p)),
      (''reservation_ttl_seconds'', jnum (pg_reservation_ttl_seconds p)),
      (''rewards'', Some (JArr (map json_reward (pg_rewards p)))),
      (''metadata'', map_option JObj (pg_metadata p))]"

end
