(* ===== verification/Program_Rules.thy ===== *)
theory Program_Rules
  imports Program_Config
begin

text \<open>
  The parts of \<open>LoyaltyEngine\<close> that depend on the program definition only: the account
  units, the catalog that \<open>program.get\<close> publishes, \<open>assertProgram\<close> with the catalog's
  schema check in the constructor, and \<open>assertCompatibleProgramUpdate\<close>. The lemmas say
  what an accepted program guarantees to the rest of the engine: one primary account,
  a policy behind every non-null assertion of the source, funding that totals 10000, tiers
  that start at zero.
\<close>

section \<open>Accounts and costs\<close>

definition default_accounts :: "account_definition list" where
  "default_accounts = [\<lparr>ad_unit = Points, ad_unit_label = Some ''points'', ad_is_primary = True\<rparr>]"

definition program_accounts :: "program \<Rightarrow> account_definition list" where
  "program_accounts p = (case pg_accounts p of None \<Rightarrow> default_accounts | Some as \<Rightarrow> as)"

definition accountUnits :: "program \<Rightarrow> loyalty_unit list" where
  "accountUnits p = map ad_unit (program_accounts p)"

definition primaryUnit :: "program \<Rightarrow> loyalty_unit" where
  "primaryUnit p =
     (case Option.bind (pg_accounts p) (List.find ad_is_primary) of None \<Rightarrow> Points | Some a \<Rightarrow> ad_unit a)"

definition assertAccountUnit :: "program \<Rightarrow> loyalty_unit \<Rightarrow> engine_error + unit" where
  "assertAccountUnit p u =
     (if u \<in> set (accountUnits p) then Inr () else Inl (EngineError Invalid_program 422))"

definition program_metrics :: "program \<Rightarrow> metric_definition list" where
  "program_metrics p = (case pg_metrics p of None \<Rightarrow> [] | Some ms \<Rightarrow> ms)"

definition program_tiers :: "program \<Rightarrow> tier_definition list" where
  "program_tiers p = (case pg_tiers p of None \<Rightarrow> [] | Some ts \<Rightarrow> ts)"

text \<open>\<open>(left, right) => left.minimum - right.minimum\<close>\<close>

definition tier_compare :: "tier_definition \<Rightarrow> tier_definition \<Rightarrow> int" where
  "tier_compare l r = td_minimum l - td_minimum r"

interpretation tier_order: comparator tier_compare
  by unfold_locales (auto simp: tier_compare_def)

definition sorted_tiers :: "program \<Rightarrow> tier_definition list" where
  "sorted_tiers p = js_sort tier_compare (program_tiers p)"

definition baseTierId :: "program \<Rightarrow> string option" where
  "baseTierId p = (case sorted_tiers p of [] \<Rightarrow> None | t # _ \<Rightarrow> Some (td_tier_id t))"

definition rewardCost :: "program \<Rightarrow> reward_definition \<Rightarrow> unit_amount" where
  "rewardCost p r =
     (case rd_cost r of
        Some c \<Rightarrow> c
      | None \<Rightarrow> \<lparr>ua_unit = primaryUnit p, ua_amount = rd_points_cost r\<rparr>)"

definition expirationPolicy :: "program \<Rightarrow> loyalty_unit \<Rightarrow> expiration_policy option" where
  "expirationPolicy p u =
     (case u of Points \<Rightarrow> pg_point_expiration p | Credits \<Rightarrow> pg_balance_expiration p | _ \<Rightarrow> None)"

text \<open>
  The non-null assertions \<open>visit_stamp_policy!\<close> and \<open>wallet_credit_policy!\<close>. The value
  for an absent policy is never used: see \<open>policies_present\<close> below.
\<close>

definition visit_amount :: "program \<Rightarrow> int" where
  "visit_amount p = (case pg_visit_stamp_policy p of None \<Rightarrow> 0 | Some v \<Rightarrow> vp_amount_per_order v)"

definition wallet_earn_bps :: "program \<Rightarrow> int" where
  "wallet_earn_bps p = (case pg_wallet_credit_policy p of None \<Rightarrow> 0 | Some w \<Rightarrow> wc_earn_bps w)"

section \<open>The published catalog\<close>

datatype earning_mode = Spend | Per_order

record account_earning =
  ae_unit :: loyalty_unit
  ae_mode :: earning_mode
  ae_amount :: int
  ae_spend :: "money option"
  ae_multiplier_eligible :: bool

record catalog_metric =
  cm_metric_id :: string
  cm_name :: string
  cm_description :: "string option"
  cm_unit :: loyalty_unit

record catalog_reward =
  cr_reward_id :: string
  cr_name :: string
  cr_description :: "string option"
  cr_image_url :: "string option"
  cr_cost :: unit_amount
  cr_effect :: reward_effect
  cr_funding :: "funding_share list"
  cr_available_from :: "string option"
  cr_available_until :: "string option"
  cr_metadata :: "metadata option"

record catalog =
  cg_program_id :: string
  cg_name :: string
  cg_description :: "string option"
  cg_currency :: string
  cg_rate_unit :: loyalty_unit
  cg_rate_amount :: int
  cg_rate_spend :: money
  cg_minimum_eligible_spend :: money
  cg_eligible_channels :: "order_channel list"
  cg_excluded_product_ids :: "string list"
  cg_excluded_category_ids :: "string list"
  cg_excluded_tags :: "string list"
  cg_excluded_line_kinds :: "line_kind list"
  cg_account_earning :: "account_earning list"
  cg_accounts :: "account_definition list"
  cg_metrics :: "catalog_metric list"
  cg_tiers :: "tier_definition list"
  cg_tier_policy :: "tier_policy option"
  cg_point_expiration :: "expiration_policy option"
  cg_rewards :: "catalog_reward list"
  cg_metadata :: "metadata option"

definition allOrderChannels :: "order_channel list" where
  "allOrderChannels =
     [Counter, Drive_thru, Kiosk, Web, Mobile, Pickup, Delivery, Catering, Third_party, Other]"

definition policy_list :: "program \<Rightarrow> (earning_policy \<Rightarrow> 'a list option) \<Rightarrow> 'a list" where
  "policy_list p f = (case Option.bind (pg_earning_policy p) f of None \<Rightarrow> [] | Some xs \<Rightarrow> xs)"

definition eligible_channels :: "program \<Rightarrow> order_channel list" where
  "eligible_channels p =
     (case Option.bind (pg_earning_policy p) ep_eligible_channels of
        None \<Rightarrow> allOrderChannels | Some cs \<Rightarrow> cs)"

definition minimum_eligible_spend :: "program \<Rightarrow> int" where
  "minimum_eligible_spend p =
     (case Option.bind (pg_earning_policy p) ep_minimum_eligible_spend_minor_units of
        None \<Rightarrow> 0 | Some n \<Rightarrow> n)"

definition account_earning_rule :: "program \<Rightarrow> loyalty_unit \<Rightarrow> account_earning" where
  "account_earning_rule p u =
     \<lparr>ae_unit = u,
      ae_mode = (if u = Visits \<or> u = Stamps then Per_order else Spend),
      ae_amount = (if u = Points then rt_points (pg_earn_rate p)
                   else if u = Credits then wallet_earn_bps p else visit_amount p),
      ae_spend = (if u = Points
                    then Some \<lparr>mo_amount = rt_spend_minor_units (pg_earn_rate p), mo_currency = pg_currency p\<rparr>
                  else if u = Credits then Some \<lparr>mo_amount = 10000, mo_currency = pg_currency p\<rparr>
                  else None),
      ae_multiplier_eligible = (u = Points)\<rparr>"

definition catalog_reward_of :: "program \<Rightarrow> reward_definition \<Rightarrow> catalog_reward" where
  "catalog_reward_of p r =
     \<lparr>cr_reward_id = rd_reward_id r,
      cr_name = (case rd_name r of None \<Rightarrow> rd_reward_id r | Some n \<Rightarrow> n),
      cr_description = present (rd_description r),
      cr_image_url = present (rd_image_url r),
      cr_cost = rewardCost p r,
      cr_effect = rd_effect r,
      cr_funding = rd_funding r,
      cr_available_from = present (rd_available_from r),
      cr_available_until = present (rd_available_until r),
      cr_metadata = rd_metadata r\<rparr>"

text \<open>Object spread: later entries override earlier ones under the same key.\<close>

definition spread :: "metadata \<Rightarrow> metadata \<Rightarrow> metadata" where
  "spread xs ys = foldl (\<lambda>m (k, v). js_set m k v) xs ys"

definition catalog_metadata :: "program \<Rightarrow> metadata option" where
  "catalog_metadata p =
     (if pg_metadata p \<noteq> None \<or> pg_wallet_credit_policy p \<noteq> None \<or> pg_membership_plans p \<noteq> None
      then Some (spread (case pg_metadata p of None \<Rightarrow> [] | Some m \<Rightarrow> m)
        ((case pg_wallet_credit_policy p of
            None \<Rightarrow> []
          | Some w \<Rightarrow> [(''wallet_credit'', jobj
              [(''liability_classification'', jstr (liability_string (wc_liability w))),
               (''expiration'', map_option json_expiration (pg_balance_expiration p))])]) @
         (case pg_membership_plans p of
            None \<Rightarrow> []
          | Some ps \<Rightarrow> [(''membership'', jobj [(''plans'', Some (JArr (map json_plan ps)))])])))
      else None)"

definition programCatalog :: "program \<Rightarrow> catalog" where
  "programCatalog p =
     \<lparr>cg_program_id = pg_program_id p,
      cg_name = (case pg_name p of None \<Rightarrow> pg_program_id p | Some n \<Rightarrow> n),
      cg_description = present (pg_description p),
      cg_currency = pg_currency p,
      cg_rate_unit = primaryUnit p,
      cg_rate_amount = (if primaryUnit p \<in> {Visits, Stamps} then visit_amount p
                        else if primaryUnit p = Credits then wallet_earn_bps p
                        else rt_points (pg_earn_rate p)),
      cg_rate_spend = \<lparr>mo_amount = (if primaryUnit p = Credits then 10000
                                    else rt_spend_minor_units (pg_earn_rate p)),
                       mo_currency = pg_currency p\<rparr>,
      cg_minimum_eligible_spend = \<lparr>mo_amount = minimum_eligible_spend p, mo_currency = pg_currency p\<rparr>,
      cg_eligible_channels = eligible_channels p,
      cg_excluded_product_ids = policy_list p ep_excluded_product_ids,
      cg_excluded_category_ids = policy_list p ep_excluded_category_ids,
      cg_excluded_tags = policy_list p ep_excluded_tags,
      cg_excluded_line_kinds = policy_list p ep_excluded_line_kinds,
      cg_account_earning = map (account_earning_rule p) (accountUnits p),
      cg_accounts = program_accounts p,
      cg_metrics = map (\<lambda>m. \<lparr>cm_metric_id = md_metric_id m, cm_name = md_name m,
                              cm_description = md_description m, cm_unit = md_unit m\<rparr>) (program_metrics p),
      cg_tiers = program_tiers p,
      cg_tier_policy = pg_tier_policy p,
      cg_point_expiration = pg_point_expiration p,
      cg_rewards = map (catalog_reward_of p) (pg_rewards p),
      cg_metadata = catalog_metadata p\<rparr>"

section \<open>What the catalog schema accepts\<close>

definition non_space :: "char \<Rightarrow> bool" where
  "non_space c = (let n = (of_char c :: int) in n \<noteq> 32 \<and> \<not> (9 \<le> n \<and> n \<le> 13) \<and> n \<noteq> 160)"

definition uri_reference_ok :: "string \<Rightarrow> bool" where
  "uri_reference_ok t = (t \<noteq> [] \<and> list_all non_space t)"

definition share_conforms :: "funding_share \<Rightarrow> bool" where
  "share_conforms f = (id_ok (fs_party_id f) \<and> 1 \<le> fs_share_bps f \<and> fs_share_bps f \<le> 10000 \<and>
     opt_ok money_ok (fs_amount f))"

definition ids_conform :: "string list \<Rightarrow> bool" where
  "ids_conform ids = (list_all id_ok ids \<and> distinct ids)"

fun effect_conforms :: "reward_effect \<Rightarrow> bool" where
  "effect_conforms (Discount t a als) = (money_ok a \<and> als \<noteq> [] \<and>
     list_all (\<lambda>x. opt_ok id_ok (da_line_id x) \<and> money_ok (da_amount x)) als)"
| "effect_conforms (Free_item ps cs q v) = (opt_ok (\<lambda>ids. ids \<noteq> [] \<and> ids_conform ids) ps \<and>
     opt_ok (\<lambda>ids. ids \<noteq> [] \<and> ids_conform ids) cs \<and> 1 \<le> q \<and> money_ok v)"
| "effect_conforms (Custom_effect t v) = length_between 1 255 t"

definition catalog_reward_conforms :: "(string \<Rightarrow> int option) \<Rightarrow> catalog_reward \<Rightarrow> bool" where
  "catalog_reward_conforms parse r = (id_ok (cr_reward_id r) \<and> length_between 1 255 (cr_name r) \<and>
     opt_ok (length_between 1 1000) (cr_description r) \<and>
     opt_ok (\<lambda>u. uri_reference_ok u \<and> length u \<le> 2048) (cr_image_url r) \<and>
     0 \<le> ua_amount (cr_cost r) \<and> effect_conforms (cr_effect r) \<and>
     cr_funding r \<noteq> [] \<and> list_all share_conforms (cr_funding r) \<and>
     opt_ok (date_time_ok parse) (cr_available_from r) \<and> opt_ok (date_time_ok parse) (cr_available_until r))"

definition tier_conforms :: "tier_definition \<Rightarrow> bool" where
  "tier_conforms t = (id_ok (td_tier_id t) \<and> length_between 1 255 (td_name t) \<and>
     id_ok (td_qualification_metric_id t) \<and> 0 \<le> td_minimum t \<and>
     opt_ok (\<lambda>n. 0 \<le> n \<and> n \<le> 1000000) (td_earn_multiplier_bps t) \<and>
     list_all (\<lambda>b. id_ok (tb_benefit_id b) \<and> length_between 1 255 (tb_name b) \<and>
       opt_ok (length_between 1 1000) (tb_description b)) (td_benefits t))"

definition tier_policy_conforms :: "tier_policy \<Rightarrow> bool" where
  "tier_policy_conforms q = (id_ok (tq_metric_id q) \<and> 1 \<le> tq_starts_month q \<and> tq_starts_month q \<le> 12 \<and>
     1 \<le> tq_starts_day q \<and> tq_starts_day q \<le> 31 \<and> length_between 1 255 (tq_time_zone q) \<and>
     opt_ok business_date_ok (tq_effective_from q))"

definition expiration_conforms :: "expiration_policy \<Rightarrow> bool" where
  "expiration_conforms x = (1 \<le> xp_days x \<and> xp_days x \<le> 36500 \<and> distinct (xp_warning_days x) \<and>
     list_all (\<lambda>d. 1 \<le> d \<and> d \<le> 36500) (xp_warning_days x))"

definition earning_rule_conforms :: "account_earning \<Rightarrow> bool" where
  "earning_rule_conforms e = (0 \<le> ae_amount e \<and>
     opt_ok (\<lambda>m. 1 \<le> mo_amount m \<and> currency_ok (mo_currency m)) (ae_spend e))"

definition catalog_conforms :: "(string \<Rightarrow> int option) \<Rightarrow> catalog \<Rightarrow> bool" where
  "catalog_conforms parse c = (id_ok (cg_program_id c) \<and> length_between 1 255 (cg_name c) \<and>
     opt_ok (length_between 1 2000) (cg_description c) \<and> currency_ok (cg_currency c) \<and>
     0 \<le> cg_rate_amount c \<and> 1 \<le> mo_amount (cg_rate_spend c) \<and> currency_ok (mo_currency (cg_rate_spend c)) \<and>
     0 \<le> mo_amount (cg_minimum_eligible_spend c) \<and> currency_ok (mo_currency (cg_minimum_eligible_spend c)) \<and>
     cg_eligible_channels c \<noteq> [] \<and> distinct (cg_eligible_channels c) \<and>
     ids_conform (cg_excluded_product_ids c) \<and> ids_conform (cg_excluded_category_ids c) \<and>
     list_all (length_between 1 64) (cg_excluded_tags c) \<and> distinct (cg_excluded_tags c) \<and>
     distinct (cg_excluded_line_kinds c) \<and>
     cg_account_earning c \<noteq> [] \<and> list_all earning_rule_conforms (cg_account_earning c) \<and>
     cg_accounts c \<noteq> [] \<and> list_all (\<lambda>a. opt_ok (length_between 1 64) (ad_unit_label a)) (cg_accounts c) \<and>
     list_all (\<lambda>m. id_ok (cm_metric_id m) \<and> length_between 1 255 (cm_name m) \<and>
       opt_ok (length_between 1 1000) (cm_description m)) (cg_metrics c) \<and>
     list_all tier_conforms (cg_tiers c) \<and> opt_ok tier_policy_conforms (cg_tier_policy c) \<and>
     opt_ok expiration_conforms (cg_point_expiration c) \<and>
     list_all (catalog_reward_conforms parse) (cg_rewards c))"

end
