(* ===== verification/Program_Assert.thy ===== *)
theory Program_Assert
  imports Program_Rules
begin

text \<open>
  The host that an engine runs on, and \<open>assertProgram\<close>, the constructor's catalog check
  and \<open>assertCompatibleProgramUpdate\<close>.
\<close>

section \<open>The host\<close>

text \<open>
  What the engine is given or takes from the platform: the clock reading during one call
  (\<open>Clock.now\<close>), the id generator (the n-th id drawn with a prefix), \<open>Date.parse\<close>,
  \<open>localeCompare\<close>, SHA-256 of the serialised value, the calendar date in a time zone and
  the validity of a zone name (\<open>Intl.DateTimeFormat\<close>), the issues Ajv reports, and the
  base64url/JSON coding of ledger cursors. Numbers are integers, so the source's
  \<open>Number.isInteger\<close> tests are true of every value of the model.
\<close>

record host =
  h_now :: int
  h_ids :: "string \<Rightarrow> nat \<Rightarrow> string"
  h_parse :: "string \<Rightarrow> int option"
  h_lc :: collation
  h_digest :: "json \<Rightarrow> string"
  h_local_date :: "string \<Rightarrow> int \<Rightarrow> int \<times> int \<times> int"
  h_time_zone_ok :: "string \<Rightarrow> bool"
  h_ajv :: "order \<Rightarrow> validation_issue list"
  h_encode_cursor :: "json \<Rightarrow> string"
  h_decode_cursor :: "string \<Rightarrow> json option"

definition fp :: "host \<Rightarrow> json \<Rightarrow> string" where
  "fp h v = fingerprint (h_lc h) (h_digest h) v"

definition isoNow :: "host \<Rightarrow> string" where
  "isoNow h = to_iso (h_now h)"

definition futureIso :: "host \<Rightarrow> int \<Rightarrow> string" where
  "futureIso h seconds = to_iso (h_now h + seconds * 1000)"

text \<open>\<open>Date.parse(value) <= now\<close>: false when the value does not parse.\<close>

definition due :: "host \<Rightarrow> string \<Rightarrow> bool" where
  "due h t = (case h_parse h t of None \<Rightarrow> False | Some i \<Rightarrow> i \<le> h_now h)"

section \<open>assertProgram\<close>

text \<open>Every failure is the same error, so the checks are predicates in the source's order.\<close>

definition earn_rate_ok :: "program \<Rightarrow> bool" where
  "earn_rate_ok p = (0 \<le> rt_points (pg_earn_rate p) \<and> 0 < rt_spend_minor_units (pg_earn_rate p))"

definition ttl_ok :: "program \<Rightarrow> bool" where
  "ttl_ok p = (0 < pg_evaluation_ttl_seconds p \<and> 0 < pg_reservation_ttl_seconds p)"

definition earning_policy_ok :: "program \<Rightarrow> bool" where
  "earning_policy_ok p =
     (case pg_earning_policy p of
        None \<Rightarrow> True
      | Some e \<Rightarrow> opt_ok (\<lambda>n. 0 \<le> n) (ep_minimum_eligible_spend_minor_units e) \<and>
                  opt_ok (\<lambda>cs. cs \<noteq> [] \<and> distinct cs) (ep_eligible_channels e))"

definition expiration_ok :: "expiration_policy option \<Rightarrow> bool" where
  "expiration_ok x = opt_ok (\<lambda>e. 0 < xp_days e \<and>
     list_all (\<lambda>d. 0 < d \<and> d < xp_days e) (xp_warning_days e)) x"

definition units_of :: "program \<Rightarrow> loyalty_unit set" where
  "units_of p = set (accountUnits p)"

definition declared_primary :: "program \<Rightarrow> loyalty_unit option" where
  "declared_primary p = map_option ad_unit (List.find ad_is_primary (program_accounts p))"

definition accounts_ok :: "program \<Rightarrow> bool" where
  "accounts_ok p =
     (program_accounts p \<noteq> [] \<and> distinct (accountUnits p) \<and>
      list_all (\<lambda>u. u \<in> {Points, Visits, Stamps, Credits}) (accountUnits p) \<and>
      declared_primary p \<noteq> None \<and> length (filter ad_is_primary (program_accounts p)) = 1 \<and>
      \<not> (Visits \<in> units_of p \<and> Stamps \<in> units_of p) \<and>
      (pg_point_expiration p \<noteq> None \<longrightarrow> Points \<in> units_of p) \<and>
      (pg_balance_expiration p \<noteq> None \<longrightarrow> Credits \<in> units_of p) \<and>
      \<not> (Points \<notin> units_of p \<and> program_tiers p \<noteq> []))"

definition metrics_ok :: "program \<Rightarrow> bool" where
  "metrics_ok p = (distinct (map md_metric_id (program_metrics p)) \<and>
     list_all (\<lambda>m. md_unit m \<in> units_of p) (program_metrics p))"

definition metric_ids :: "program \<Rightarrow> string list" where
  "metric_ids p = map md_metric_id (program_metrics p)"

text \<open>The loop over the sorted tiers: the previous tier, and the ids seen so far.\<close>

fun tiers_loop :: "string \<Rightarrow> string list \<Rightarrow> tier_definition option \<Rightarrow> tier_definition list \<Rightarrow> bool" where
  "tiers_loop metric seen prev [] = True"
| "tiers_loop metric seen prev (t # ts) =
     (td_tier_id t \<notin> set seen \<and> td_qualification_metric_id t = metric \<and>
      (case prev of None \<Rightarrow> True | Some q \<Rightarrow> td_minimum q \<noteq> td_minimum t) \<and>
      tiers_loop metric (td_tier_id t # seen) (Some t) ts)"

definition tiers_ok :: "program \<Rightarrow> bool" where
  "tiers_ok p =
     (case sorted_tiers p of
        [] \<Rightarrow> True
      | t # ts \<Rightarrow>
          td_minimum t = 0 \<and> td_qualification_metric_id t \<in> set (metric_ids p) \<and>
          map_option md_unit (List.find (\<lambda>m. md_metric_id m = td_qualification_metric_id t) (program_metrics p))
            = Some Points \<and>
          tiers_loop (td_qualification_metric_id t) [] None (t # ts))"

text \<open>\<open>Date.UTC(2024, month - 1, day)\<close> keeps its month and day: a date of a leap year.\<close>

definition leap_month_days :: "int \<Rightarrow> int" where
  "leap_month_days m = (if m = 2 then 29 else if m \<in> {4, 6, 9, 11} then 30 else 31)"

definition tier_policy_ok :: "host \<Rightarrow> program \<Rightarrow> bool" where
  "tier_policy_ok h p =
     (case pg_tier_policy p of
        None \<Rightarrow> True
      | Some q \<Rightarrow>
          (case sorted_tiers p of [] \<Rightarrow> False | t # _ \<Rightarrow> tq_metric_id q = td_qualification_metric_id t) \<and>
          tq_metric_id q \<in> set (metric_ids p) \<and>
          1 \<le> tq_starts_month q \<and> tq_starts_month q \<le> 12 \<and>
          1 \<le> tq_starts_day q \<and> tq_starts_day q \<le> leap_month_days (tq_starts_month q) \<and>
          h_time_zone_ok h (tq_time_zone q))"

definition qualification_ok :: "program \<Rightarrow> bool" where
  "qualification_ok p =
     (\<not> (list_ex (\<lambda>m. md_source m = Qualification_earned) (program_metrics p) \<and> pg_tier_policy p = None))"

fun effect_moneys :: "reward_effect \<Rightarrow> money list" where
  "effect_moneys (Discount t a als) = a # map da_amount als"
| "effect_moneys (Free_item ps cs q v) = [v]"
| "effect_moneys (Custom_effect t v) = []"

fun effect_reconciles :: "reward_effect \<Rightarrow> bool" where
  "effect_reconciles (Discount t a als) = ((\<Sum>x\<leftarrow>als. mo_amount (da_amount x)) = mo_amount a)"
| "effect_reconciles _ = True"

definition availability_ok :: "host \<Rightarrow> reward_definition \<Rightarrow> bool" where
  "availability_ok h r =
     (\<not> (truthy (rd_available_from r) \<and> truthy (rd_available_until r) \<and>
         (case (h_parse h (the (rd_available_from r)), h_parse h (the (rd_available_until r))) of
            (Some a, Some b) \<Rightarrow> a > b | _ \<Rightarrow> False)))"

definition reward_ok :: "host \<Rightarrow> program \<Rightarrow> reward_definition \<Rightarrow> bool" where
  "reward_ok h p r =
     (let cost = (case rd_cost r of
                    Some c \<Rightarrow> c
                  | None \<Rightarrow> \<lparr>ua_unit = the (declared_primary p), ua_amount = rd_points_cost r\<rparr>)
      in 0 \<le> ua_amount cost \<and> ua_unit cost \<in> units_of p \<and>
         validateFundingShares (rd_funding r) = Inr (rd_funding r) \<and>
         list_all (\<lambda>m. mo_currency m = pg_currency p \<and> 0 \<le> mo_amount m) (effect_moneys (rd_effect r)) \<and>
         effect_reconciles (rd_effect r) \<and> availability_ok h r)"

definition rewards_ok :: "host \<Rightarrow> program \<Rightarrow> bool" where
  "rewards_ok h p = (distinct (map rd_reward_id (pg_rewards p)) \<and> list_all (reward_ok h p) (pg_rewards p))"

definition wallet_ok :: "program \<Rightarrow> bool" where
  "wallet_ok p =
     ((Credits \<in> units_of p \<longrightarrow>
        (case pg_wallet_credit_policy p of
           None \<Rightarrow> False | Some w \<Rightarrow> 0 < wc_earn_bps w \<and> wc_earn_bps w \<le> 10000)) \<and>
      (Credits \<notin> units_of p \<longrightarrow> pg_wallet_credit_policy p = None \<and> pg_balance_expiration p = None))"

definition membership_ok :: "program \<Rightarrow> bool" where
  "membership_ok p =
     (case pg_membership_plans p of
        None \<Rightarrow> True
      | Some ps \<Rightarrow> ps \<noteq> [] \<and> distinct (map mp_plan_id ps) \<and>
          list_all (\<lambda>m. mp_plan_id m \<noteq> [] \<and> mp_name m \<noteq> [] \<and>
            opt_ok (\<lambda>n. 0 < n) (mp_earn_multiplier_bps m)) ps)"

definition visit_unit :: "program \<Rightarrow> loyalty_unit option" where
  "visit_unit p = (if Stamps \<in> units_of p then Some Stamps
                   else if Visits \<in> units_of p then Some Visits else None)"

definition visit_ok :: "program \<Rightarrow> bool" where
  "visit_ok p =
     (case visit_unit p of
        None \<Rightarrow> pg_visit_stamp_policy p = None
      | Some u \<Rightarrow>
          (case pg_visit_stamp_policy p of
             None \<Rightarrow> False
           | Some v \<Rightarrow> vp_unit v = u \<and> 0 < vp_amount_per_order v \<and> 0 < vp_threshold v \<and>
               vp_issue_reward_id v \<in> rd_reward_id ` set (pg_rewards p) \<and>
               opt_ok (\<lambda>n. 60 \<le> n) (vp_issued_reward_ttl_seconds v)))"

definition assertProgram :: "host \<Rightarrow> program \<Rightarrow> engine_error + unit" where
  "assertProgram h p =
     (if pg_program_id p \<noteq> [] \<and> currency_ok (pg_currency p) \<and> earn_rate_ok p \<and> ttl_ok p \<and>
         earning_policy_ok p \<and> expiration_ok (pg_point_expiration p) \<and> expiration_ok (pg_balance_expiration p) \<and>
         accounts_ok p \<and> metrics_ok p \<and> tiers_ok p \<and> tier_policy_ok h p \<and> qualification_ok p \<and>
         rewards_ok h p \<and> wallet_ok p \<and> membership_ok p \<and> visit_ok p
      then Inr () else Inl (EngineError Invalid_program 400))"

text \<open>The constructor up to the point where state is hydrated.\<close>

definition check_program :: "host \<Rightarrow> program \<Rightarrow> engine_error + unit" where
  "check_program h p =
     (case assertProgram h p of
        Inl e \<Rightarrow> Inl e
      | Inr _ \<Rightarrow>
          if catalog_conforms (h_parse h) (programCatalog p) then Inr ()
          else Inl (EngineError Invalid_program 400))"

definition program_ok :: "host \<Rightarrow> program \<Rightarrow> bool" where
  "program_ok h p = (check_program h p = Inr ())"

section \<open>assertCompatibleProgramUpdate\<close>

definition assertCompatibleProgramUpdate :: "program \<Rightarrow> program \<Rightarrow> engine_error + unit" where
  "assertCompatibleProgramUpdate current next =
     (if pg_program_id next \<noteq> pg_program_id current then Inl (EngineError Invalid_program 409)
      else if pg_currency next \<noteq> pg_currency current then Inl (EngineError Invalid_program 409)
      else if primaryUnit next \<noteq> primaryUnit current then Inl (EngineError Invalid_program 409)
      else Inr ())"

section \<open>What an accepted program guarantees\<close>

lemma program_ok_asserted:
  assumes "program_ok h p"
  shows "pg_program_id p \<noteq> []" "currency_ok (pg_currency p)" "earn_rate_ok p" "ttl_ok p"
    "earning_policy_ok p" "expiration_ok (pg_point_expiration p)" "expiration_ok (pg_balance_expiration p)"
    "accounts_ok p" "metrics_ok p" "tiers_ok p" "tier_policy_ok h p" "qualification_ok p" "rewards_ok h p"
    "wallet_ok p" "membership_ok p" "visit_ok p" "catalog_conforms (h_parse h) (programCatalog p)"
  using assms by (auto simp: program_ok_def check_program_def assertProgram_def split: if_splits)

lemma find_primary_unique:
  "length (filter P xs) = 1 \<Longrightarrow> x \<in> set xs \<Longrightarrow> P x \<Longrightarrow> List.find P xs = Some x"
  by (induction xs) (auto simp: filter_empty_conv split: if_splits)

lemma primary_configured:
  assumes "accounts_ok p"
  shows "primaryUnit p \<in> units_of p" "declared_primary p = Some (primaryUnit p)"
proof -
  obtain a where a: "List.find ad_is_primary (program_accounts p) = Some a"
    using assms by (auto simp: accounts_ok_def declared_primary_def)
  then have eq: "ad_unit a = primaryUnit p"
    by (cases "pg_accounts p")
      (auto simp: primaryUnit_def program_accounts_def default_accounts_def split: option.splits)
  show "declared_primary p = Some (primaryUnit p)" using a eq by (simp add: declared_primary_def)
  have "ad_unit a \<in> units_of p"
    using find_SomeD [OF a] by (auto simp: units_of_def accountUnits_def)
  with eq show "primaryUnit p \<in> units_of p" by simp
qed

text \<open>The non-null assertions on the visit and wallet policies are never reached with \<open>undefined\<close>.\<close>

lemma policies_present:
  assumes "program_ok h p" "u \<in> set (accountUnits p)"
  shows "u = Credits \<Longrightarrow> pg_wallet_credit_policy p \<noteq> None"
    and "u \<in> {Visits, Stamps} \<Longrightarrow> pg_visit_stamp_policy p \<noteq> None"
    and "u \<noteq> Custom"
  using assms(2) program_ok_asserted(8,14,16) [OF assms(1)]
  by (auto simp: wallet_ok_def visit_ok_def visit_unit_def units_of_def accounts_ok_def list_all_iff
      split: option.splits if_splits)

lemma funding_totals_10000:
  "program_ok h p \<Longrightarrow> r \<in> set (pg_rewards p) \<Longrightarrow> (\<Sum>x\<leftarrow>rd_funding r. fs_share_bps x) = 10000"
  by (drule program_ok_asserted(13))
    (auto simp: rewards_ok_def list_all_iff reward_ok_def Let_def validateFundingShares_def split: if_splits)

lemma reward_cost_configured:
  assumes "program_ok h p" "r \<in> set (pg_rewards p)"
  shows "0 \<le> ua_amount (rewardCost p r)" "ua_unit (rewardCost p r) \<in> units_of p"
  using program_ok_asserted(13) [OF assms(1)] assms(2)
    primary_configured(2) [OF program_ok_asserted(8) [OF assms(1)]]
  by (auto simp: rewards_ok_def list_all_iff reward_ok_def Let_def rewardCost_def split: option.splits)

lemma tiers_loop_props:
  "tiers_loop m seen prev ts \<Longrightarrow>
     distinct (map td_tier_id ts) \<and> set seen \<inter> td_tier_id ` set ts = {} \<and>
     (\<forall>t \<in> set ts. td_qualification_metric_id t = m)"
  by (induction m seen prev ts rule: tiers_loop.induct) auto

lemma tiers_loop_strict:
  "tiers_loop m seen prev ts \<Longrightarrow> sorted_wrt (\<lambda>a b. tier_compare a b \<le> 0) ts \<Longrightarrow>
     sorted_wrt (\<lambda>a b. td_minimum a < td_minimum b) ts"
proof (induction m seen prev ts rule: tiers_loop.induct)
  case (2 m seen prev t ts)
  then have IH: "sorted_wrt (\<lambda>a b. td_minimum a < td_minimum b) ts" by simp
  have "td_minimum t < td_minimum x" if "x \<in> set ts" for x
  proof (cases ts)
    case (Cons u us)
    with 2 have "td_minimum t \<le> td_minimum u" "td_minimum t \<noteq> td_minimum u"
      by (auto simp: tier_compare_def)
    with Cons that IH show ?thesis by auto
  qed (use that in simp)
  with IH show ?case by simp
qed simp

lemma sorted_tiers_strict:
  assumes "tiers_ok p"
  shows "sorted_wrt (\<lambda>a b. td_minimum a < td_minimum b) (sorted_tiers p)"
    and "sorted_tiers p \<noteq> [] \<Longrightarrow> td_minimum (hd (sorted_tiers p)) = 0"
    and "distinct (map td_tier_id (program_tiers p))"
proof -
  have s: "sorted_wrt (\<lambda>a b. tier_compare a b \<le> 0) (sorted_tiers p)"
    by (simp add: sorted_tiers_def tier_order.sorted_js_sort)
  have l: "sorted_tiers p = [] \<or> (\<exists>m. tiers_loop m [] None (sorted_tiers p))"
    using assms unfolding tiers_ok_def
    by (cases "sorted_tiers p") (simp, simp only: list.case, blast)
  show "sorted_wrt (\<lambda>a b. td_minimum a < td_minimum b) (sorted_tiers p)"
    using l s tiers_loop_strict by auto
  show "sorted_tiers p \<noteq> [] \<Longrightarrow> td_minimum (hd (sorted_tiers p)) = 0"
    using assms unfolding tiers_ok_def by (cases "sorted_tiers p") simp_all
  have "distinct (map td_tier_id (sorted_tiers p))"
    using l tiers_loop_props by auto
  then show "distinct (map td_tier_id (program_tiers p))" by (simp add: sorted_tiers_def)
qed

text \<open>Compatible updates are an equivalence: publishing and rolling back never lock each other out.\<close>

lemma compatible_iff:
  "assertCompatibleProgramUpdate c n = Inr () \<longleftrightarrow>
     pg_program_id n = pg_program_id c \<and> pg_currency n = pg_currency c \<and> primaryUnit n = primaryUnit c"
  by (simp add: assertCompatibleProgramUpdate_def)

end
