(* ===== verification/Engine_State.thy ===== *)
theory Engine_State
  imports Program_Assert
begin

text \<open>
  The state of \<open>LoyaltyEngine\<close> (packages/reference/src/engine.ts) and the private methods
  that read and write its maps: posting a ledger entry, balances, point lots, expiry of
  reservations, lots and issued rewards, and the exactly-once wrapper \<open>once\<close>.
  A method that can throw is an effectful computation: what it wrote before it threw stays
  written, as in the source. Objects stored in a map are changed through their key. The
  clock is read once per call (\<open>h_now\<close>); the identifiers an engine draws are numbered by
  \<open>eg_id_count\<close>.
\<close>

section \<open>State\<close>

record lot =
  lt_entryId :: string
  lt_memberId :: string
  lt_remaining :: int
  lt_expiresAt :: string
  lt_unit :: "loyalty_unit option"

record lot_consumption =
  pc_entryId :: string
  pc_amount :: int

record idempotency_record =
  ik_fingerprint :: string
  ik_response :: "catalog response"

record accrual_record =
  ac_entryId :: string
  ac_entryIds :: "string list option"
  ac_fingerprint :: string
  ac_multiplierBps :: int

record mutation_record =
  mu_entryId :: string
  mu_entryIds :: "string list option"
  mu_fingerprint :: string

record reservation_record =
  rr_reservationId :: string
  rr_fingerprint :: string

record engine =
  eg_program :: program
  eg_members :: "(string, member) jsmap"
  eg_identityIndex :: "(string, string) jsmap"
  eg_points :: "(string, int) jsmap"
  eg_reservations :: "(string, reservation) jsmap"
  eg_ledger :: "(string, ledger_entry) jsmap"
  eg_pointLots :: "(string, lot) jsmap"
  eg_pointLotConsumptions :: "(string, lot_consumption list) jsmap"
  eg_idempotency :: "(string, idempotency_record) jsmap"
  eg_accrualsByOrder :: "(string, accrual_record) jsmap"
  eg_adjustments :: "(string, mutation_record) jsmap"
  eg_reservationsByRedemption :: "(string, reservation_record) jsmap"
  eg_issuedRewards :: "(string, issued_reward) jsmap"
  eg_id_count :: nat

type_synonym 'a engine_eff = "(engine, engine_error, 'a) eff"

definition empty_engine :: "program \<Rightarrow> engine" where
  "empty_engine p =
     \<lparr>eg_program = p, eg_members = [], eg_identityIndex = [], eg_points = [], eg_reservations = [],
      eg_ledger = [], eg_pointLots = [], eg_pointLotConsumptions = [], eg_idempotency = [],
      eg_accrualsByOrder = [], eg_adjustments = [], eg_reservationsByRedemption = [],
      eg_issuedRewards = [], eg_id_count = 0\<rparr>"

section \<open>Identifiers, keys and contexts\<close>

definition draw_id :: "host \<Rightarrow> string \<Rightarrow> string engine_eff" where
  "draw_id h prefix s = (Inr (h_ids h prefix (eg_id_count s)), s\<lparr>eg_id_count := eg_id_count s + 1\<rparr>)"

definition identityKey :: "string \<Rightarrow> identity_ref \<Rightarrow> string" where
  "identityKey programId i =
     programId @ ''|'' @ identity_type_string (ir_type i) @ ''|'' @
     (case ir_issuer i of None \<Rightarrow> [] | Some t \<Rightarrow> t) @ ''|'' @ ir_value i"

definition account_id :: "loyalty_unit \<Rightarrow> string \<Rightarrow> string" where
  "account_id u memberId = unit_string u @ '':'' @ memberId"

definition balanceKey :: "program \<Rightarrow> string \<Rightarrow> loyalty_unit \<Rightarrow> string" where
  "balanceKey p memberId u = (if u = primaryUnit p then memberId else account_id u memberId)"

definition responseContext :: "host \<Rightarrow> req_context \<Rightarrow> resp_context" where
  "responseContext h c =
     \<lparr>rc_protocol_version = ''1.0'', rc_profile = ''foodservice/1.0'',
      rc_request_id = cx_request_id c, rc_processed_at = isoNow h\<rparr>"

definition assertProgramId :: "string \<Rightarrow> unit engine_eff" where
  "assertProgramId programId s =
     m_assert (programId = pg_program_id (eg_program s)) (EngineError Invalid_program 404) s"

definition activeMember :: "string \<Rightarrow> member engine_eff" where
  "activeMember memberId s =
     (case js_get (eg_members s) memberId of
        None \<Rightarrow> (Inl (EngineError Member_not_found 404), s)
      | Some m \<Rightarrow> if mb_status m = Active then (Inr m, s) else (Inl (engine_err Member_not_active), s))"

section \<open>Posting a ledger entry\<close>

record ledger_input =
  li_member_id :: string
  li_operation :: ledger_operation
  li_unit :: "loyalty_unit option"
  li_amount :: int
  li_expires_at :: "string option"
  li_related_entry_id :: "string option"
  li_order_id :: "string option"
  li_location_id :: "string option"
  li_adjustment_id :: "string option"
  li_reservation_id :: "string option"
  li_classification :: "classification option"
  li_reason :: "string option"
  li_qualifies_for_tier :: "bool option"
  li_create_point_lot :: bool

text \<open>An input with its required fields; the optional ones are added by record update.\<close>

definition ledger_input_of :: "string \<Rightarrow> ledger_operation \<Rightarrow> loyalty_unit \<Rightarrow> int \<Rightarrow> ledger_input" where
  "ledger_input_of memberId oper u amount =
     \<lparr>li_member_id = memberId, li_operation = oper, li_unit = Some u, li_amount = amount,
      li_expires_at = None, li_related_entry_id = None, li_order_id = None, li_location_id = None,
      li_adjustment_id = None, li_reservation_id = None, li_classification = None, li_reason = None,
      li_qualifies_for_tier = None, li_create_point_lot = False\<rparr>"

definition input_unit :: "program \<Rightarrow> ledger_input \<Rightarrow> loyalty_unit" where
  "input_unit p i = (case li_unit i of None \<Rightarrow> primaryUnit p | Some u \<Rightarrow> u)"

definition ledger_entry_of :: "host \<Rightarrow> program \<Rightarrow> string \<Rightarrow> ledger_input \<Rightarrow> ledger_entry" where
  "ledger_entry_of h p entryId i =
     \<lparr>le_entry_id = entryId,
      le_member_id = li_member_id i,
      le_program_id = pg_program_id p,
      le_account_id = account_id (input_unit p i) (li_member_id i),
      le_operation = li_operation i,
      le_unit = input_unit p i,
      le_amount = li_amount i,
      le_occurred_at = isoNow h,
      le_expires_at = present (li_expires_at i),
      le_related_entry_id = present (li_related_entry_id i),
      le_order_id = present (li_order_id i),
      le_location_id = present (li_location_id i),
      le_adjustment_id = present (li_adjustment_id i),
      le_reservation_id = present (li_reservation_id i),
      le_classification = li_classification i,
      le_reason = present (li_reason i),
      le_qualifies_for_tier = li_qualifies_for_tier i\<rparr>"

definition points_of :: "engine \<Rightarrow> string \<Rightarrow> loyalty_unit \<Rightarrow> int" where
  "points_of s memberId u =
     (case js_get (eg_points s) (balanceKey (eg_program s) memberId u) of None \<Rightarrow> 0 | Some n \<Rightarrow> n)"

definition creates_lot :: "ledger_input \<Rightarrow> bool" where
  "creates_lot i = (li_create_point_lot i \<and> truthy (li_expires_at i) \<and> 0 < li_amount i)"

text \<open>The three writes of \<open>addLedger\<close>: the entry, the balance, the lot of an expiring credit.\<close>

definition post_entry :: "ledger_input \<Rightarrow> ledger_entry \<Rightarrow> engine \<Rightarrow> engine" where
  "post_entry i e s =
     (let p = eg_program s; u = input_unit p i in
      s\<lparr>eg_ledger := js_set (eg_ledger s) (le_entry_id e) e,
        eg_points := js_set (eg_points s) (balanceKey p (li_member_id i) u)
          (points_of s (li_member_id i) u + li_amount i),
        eg_pointLots :=
          (if creates_lot i
           then js_set (eg_pointLots s) (le_entry_id e)
             \<lparr>lt_entryId = le_entry_id e, lt_memberId = li_member_id i, lt_remaining = li_amount i,
              lt_expiresAt = the (li_expires_at i), lt_unit = Some u\<rparr>
           else eg_pointLots s)\<rparr>)"

definition addLedger :: "host \<Rightarrow> ledger_input \<Rightarrow> ledger_entry engine_eff" where
  "addLedger h i =
     m_bind (draw_id h ''ledger'') (\<lambda>entryId.
     m_bind (m_get (\<lambda>s. ledger_entry_of h (eg_program s) entryId i)) (\<lambda>e.
     m_bind (m_modify (post_entry i e)) (\<lambda>_.
     m_return e)))"

section \<open>Expiry\<close>

definition reservation_due :: "host \<Rightarrow> reservation \<Rightarrow> bool" where
  "reservation_due h r = (rs_status r = Reserved \<and> due h (rs_expires_at r))"

definition expire_one :: "host \<Rightarrow> reservation \<Rightarrow> reservation" where
  "expire_one h r = (if reservation_due h r then r\<lparr>rs_status := Expired\<rparr> else r)"

definition expireReservation :: "host \<Rightarrow> string \<Rightarrow> unit engine_eff" where
  "expireReservation h rid =
     m_modify (\<lambda>s. s\<lparr>eg_reservations := js_update (eg_reservations s) rid (expire_one h)\<rparr>)"

definition expireAllReservations :: "host \<Rightarrow> unit engine_eff" where
  "expireAllReservations h =
     m_modify (\<lambda>s. s\<lparr>eg_reservations := js_map_values (expire_one h) (eg_reservations s)\<rparr>)"

definition lot_unit :: "program \<Rightarrow> lot \<Rightarrow> loyalty_unit" where
  "lot_unit p l = (case lt_unit l of None \<Rightarrow> primaryUnit p | Some u \<Rightarrow> u)"

text \<open>\<open>expiresAt\<close> first, \<open>entryId\<close> among lots that expire together.\<close>

definition lot_compare :: "host \<Rightarrow> string \<times> lot \<Rightarrow> string \<times> lot \<Rightarrow> int" where
  "lot_compare h l r =
     (let c = h_lc h (lt_expiresAt (snd l)) (lt_expiresAt (snd r))
      in if c \<noteq> 0 then c else h_lc h (lt_entryId (snd l)) (lt_entryId (snd r)))"

definition lot_expires :: "host \<Rightarrow> program \<Rightarrow> string option \<Rightarrow> loyalty_unit option \<Rightarrow> lot \<Rightarrow> bool" where
  "lot_expires h p memberId u l =
     (0 < lt_remaining l \<and>
      (\<not> truthy memberId \<or> memberId = Some (lt_memberId l)) \<and>
      (case u of None \<Rightarrow> True | Some u' \<Rightarrow> lot_unit p l = u') \<and>
      due h (lt_expiresAt l))"

definition expiring_lots :: "host \<Rightarrow> string option \<Rightarrow> loyalty_unit option \<Rightarrow> engine \<Rightarrow> (string \<times> lot) list" where
  "expiring_lots h memberId u s =
     js_sort (lot_compare h) (filter (\<lambda>(k, l). lot_expires h (eg_program s) memberId u l) (eg_pointLots s))"

definition set_remaining :: "string \<Rightarrow> int \<Rightarrow> engine \<Rightarrow> engine" where
  "set_remaining k n s = s\<lparr>eg_pointLots := js_update (eg_pointLots s) k (\<lambda>l. l\<lparr>lt_remaining := n\<rparr>)\<rparr>"

definition expiration_input :: "program \<Rightarrow> lot \<Rightarrow> ledger_input" where
  "expiration_input p l =
     (ledger_input_of (lt_memberId l) Expiration (lot_unit p l) (- lt_remaining l))
       \<lparr>li_related_entry_id := Some (lt_entryId l)\<rparr>"

definition expire_lot :: "host \<Rightarrow> string \<times> lot \<Rightarrow> ledger_entry engine_eff" where
  "expire_lot h kl =
     m_bind (m_get (\<lambda>s. expiration_input (eg_program s) (snd kl))) (\<lambda>i.
     m_bind (m_modify (set_remaining (fst kl) 0)) (\<lambda>_.
     addLedger h i))"

definition expirePointLots :: "host \<Rightarrow> string option \<Rightarrow> loyalty_unit option \<Rightarrow> unit engine_eff" where
  "expirePointLots h memberId u =
     m_bind (m_get (expiring_lots h memberId u)) (\<lambda>lots.
     m_bind (m_map (expire_lot h) lots) (\<lambda>_.
     m_return ()))"

definition held_by_reservation :: "engine \<Rightarrow> string \<Rightarrow> bool" where
  "held_by_reservation s issuedRewardId =
     list_ex (\<lambda>r. rs_issued_reward_id r = Some issuedRewardId \<and> rs_status r = Reserved)
       (js_values (eg_reservations s))"

definition issued_due :: "host \<Rightarrow> engine \<Rightarrow> issued_reward \<Rightarrow> bool" where
  "issued_due h s w =
     (iw_status w = Issued \<and> truthy (iw_expires_at w) \<and> due h (the (iw_expires_at w)) \<and>
      \<not> held_by_reservation s (iw_issued_reward_id w))"

definition expire_issued :: "host \<Rightarrow> engine \<Rightarrow> issued_reward \<Rightarrow> issued_reward" where
  "expire_issued h s w = (if issued_due h s w then w\<lparr>iw_status := Issued_expired\<rparr> else w)"

definition expireIssuedReward :: "host \<Rightarrow> string \<Rightarrow> unit engine_eff" where
  "expireIssuedReward h wid =
     m_modify (\<lambda>s. s\<lparr>eg_issuedRewards := js_update (eg_issuedRewards s) wid (expire_issued h s)\<rparr>)"

definition expireIssuedRewards :: "host \<Rightarrow> string \<Rightarrow> unit engine_eff" where
  "expireIssuedRewards h memberId =
     m_modify (\<lambda>s. s\<lparr>eg_issuedRewards :=
       js_map_values (\<lambda>w. if memberId = [] \<or> iw_member_id w = memberId then expire_issued h s w else w)
         (eg_issuedRewards s)\<rparr>)"

section \<open>Balances\<close>

definition reserved_amount :: "engine \<Rightarrow> string \<Rightarrow> loyalty_unit \<Rightarrow> int" where
  "reserved_amount s memberId u =
     (\<Sum>r\<leftarrow>filter (\<lambda>r. rs_member_id r = memberId \<and> rs_status r = Reserved \<and> ua_unit (rs_cost r) = u)
              (js_values (eg_reservations s)). ua_amount (rs_cost r))"

definition read_balance :: "host \<Rightarrow> string \<Rightarrow> loyalty_unit \<Rightarrow> engine \<Rightarrow> balance" where
  "read_balance h memberId u s =
     \<lparr>bl_account_id = account_id u memberId,
      bl_member_id = memberId,
      bl_program_id = pg_program_id (eg_program s),
      bl_unit = u,
      bl_amount = points_of s memberId u,
      bl_reserved = reserved_amount s memberId u,
      bl_available = points_of s memberId u - reserved_amount s memberId u,
      bl_as_of = isoNow h\<rparr>"

definition balance :: "host \<Rightarrow> string \<Rightarrow> loyalty_unit \<Rightarrow> balance engine_eff" where
  "balance h memberId u =
     m_bind (expireAllReservations h) (\<lambda>_.
     m_bind (expirePointLots h (Some memberId) (Some u)) (\<lambda>_.
     m_get (read_balance h memberId u)))"

definition balances :: "host \<Rightarrow> string \<Rightarrow> balance list engine_eff" where
  "balances h memberId =
     m_bind (m_get (\<lambda>s. accountUnits (eg_program s))) (\<lambda>units.
     m_map (balance h memberId) units)"

text \<open>
  \<open>grouped\<close> is keyed by \<open>unit|expiresAt\<close>. No unit name contains the separator, so the key
  determines the pair; the value read back by \<open>split\<close> ends at the next separator.
\<close>

definition expiry_key :: "loyalty_unit \<times> string \<Rightarrow> string" where
  "expiry_key k = unit_string (fst k) @ ''|'' @ snd k"

definition group_lot :: "program \<Rightarrow> (loyalty_unit \<times> string, int) jsmap \<Rightarrow> lot \<Rightarrow> (loyalty_unit \<times> string, int) jsmap" where
  "group_lot p g l =
     (let k = (lot_unit p l, lt_expiresAt l)
      in js_set g k ((case js_get g k of None \<Rightarrow> 0 | Some n \<Rightarrow> n) + lt_remaining l))"

definition grouped_lots :: "program \<Rightarrow> string \<Rightarrow> (string, lot) jsmap \<Rightarrow> (loyalty_unit \<times> string, int) jsmap" where
  "grouped_lots p memberId lots =
     foldl (group_lot p) [] (filter (\<lambda>l. lt_memberId l = memberId \<and> 0 < lt_remaining l) (js_values lots))"

definition expiring_balance_of :: "string \<Rightarrow> (loyalty_unit \<times> string) \<times> int \<Rightarrow> expiring_balance" where
  "expiring_balance_of memberId g =
     \<lparr>eb_account_id = account_id (fst (fst g)) memberId, eb_unit = fst (fst g), eb_amount = snd g,
      eb_expires_at = takeWhile (\<lambda>c. c \<noteq> CHR ''|'') (snd (fst g))\<rparr>"

definition read_expiring :: "host \<Rightarrow> string \<Rightarrow> engine \<Rightarrow> expiring_balance list" where
  "read_expiring h memberId s =
     map (expiring_balance_of memberId)
       (js_sort (\<lambda>l r. h_lc h (expiry_key (fst l)) (expiry_key (fst r)))
         (grouped_lots (eg_program s) memberId (eg_pointLots s)))"

definition expiringBalances :: "host \<Rightarrow> string \<Rightarrow> expiring_balance list engine_eff" where
  "expiringBalances h memberId =
     m_bind (expirePointLots h (Some memberId) None) (\<lambda>_. m_get (read_expiring h memberId))"

section \<open>Consuming and restoring lots\<close>

definition spendable_lots :: "host \<Rightarrow> string \<Rightarrow> loyalty_unit \<Rightarrow> engine \<Rightarrow> (string \<times> lot) list" where
  "spendable_lots h memberId u s =
     js_sort (lot_compare h)
       (filter (\<lambda>(k, l). lt_memberId l = memberId \<and> lot_unit (eg_program s) l = u \<and> 0 < lt_remaining l)
         (eg_pointLots s))"

text \<open>The loop over the lots: what is taken from each, until nothing remains to take.\<close>

fun take_lots :: "(string \<times> lot) list \<Rightarrow> int \<Rightarrow> (string \<times> string \<times> int) list" where
  "take_lots [] remaining = []"
| "take_lots ((k, l) # ls) remaining =
     (if remaining = 0 then []
      else let c = min (lt_remaining l) remaining
           in (k, lt_entryId l, c) # take_lots ls (remaining - c))"

definition debit_lot :: "(string, lot) jsmap \<Rightarrow> string \<times> string \<times> int \<Rightarrow> (string, lot) jsmap" where
  "debit_lot lots t =
     js_update lots (fst t) (\<lambda>l. l\<lparr>lt_remaining := lt_remaining l - snd (snd t)\<rparr>)"

definition consumptions_of :: "(string \<times> string \<times> int) list \<Rightarrow> lot_consumption list" where
  "consumptions_of ts = map (\<lambda>(k, e, c). \<lparr>pc_entryId = e, pc_amount = c\<rparr>) ts"

definition apply_consumption :: "(string \<times> string \<times> int) list \<Rightarrow> string option \<Rightarrow> engine \<Rightarrow> engine" where
  "apply_consumption ts consumptionId s =
     s\<lparr>eg_pointLots := foldl debit_lot (eg_pointLots s) ts,
       eg_pointLotConsumptions :=
         (if truthy consumptionId \<and> ts \<noteq> []
          then js_set (eg_pointLotConsumptions s) (the consumptionId) (consumptions_of ts)
          else eg_pointLotConsumptions s)\<rparr>"

definition consumePointLots ::
  "host \<Rightarrow> string \<Rightarrow> loyalty_unit \<Rightarrow> int \<Rightarrow> string option \<Rightarrow> unit engine_eff" where
  "consumePointLots h memberId u amount consumptionId =
     m_bind (m_get (\<lambda>s. take_lots (spendable_lots h memberId u s) amount)) (\<lambda>ts.
     m_modify (apply_consumption ts consumptionId))"

definition restore_lot :: "lot_consumption \<Rightarrow> unit engine_eff" where
  "restore_lot c s =
     (case js_get (eg_pointLots s) (pc_entryId c) of
        None \<Rightarrow> (Inl (EngineError Not_found 500), s)
      | Some l \<Rightarrow>
          (Inr (), s\<lparr>eg_pointLots := js_update (eg_pointLots s) (pc_entryId c)
                     (\<lambda>l. l\<lparr>lt_remaining := lt_remaining l + pc_amount c\<rparr>)\<rparr>))"

definition consumed_by :: "engine \<Rightarrow> string \<Rightarrow> lot_consumption list" where
  "consumed_by s consumptionId =
     (case js_get (eg_pointLotConsumptions s) consumptionId of None \<Rightarrow> [] | Some cs \<Rightarrow> cs)"

definition restorePointLots :: "string \<Rightarrow> unit engine_eff" where
  "restorePointLots consumptionId =
     m_bind (m_get (\<lambda>s. consumed_by s consumptionId)) (\<lambda>cs.
     m_bind (m_map restore_lot cs) (\<lambda>_.
     m_modify (\<lambda>s. s\<lparr>eg_pointLotConsumptions := js_delete (eg_pointLotConsumptions s) consumptionId\<rparr>)))"

definition pointExpirationIso :: "host \<Rightarrow> loyalty_unit \<Rightarrow> string engine_eff" where
  "pointExpirationIso h u s =
     (case expirationPolicy (eg_program s) u of
        None \<Rightarrow> (Inl (EngineError Invalid_program 500), s)
      | Some x \<Rightarrow>
          if xp_days x = 0 then (Inl (EngineError Invalid_program 500), s)
          else (Inr (to_iso (h_now h + xp_days x * ms_per_day)), s))"

section \<open>Reservations and responses\<close>

definition getReservation :: "string \<Rightarrow> reservation engine_eff" where
  "getReservation rid s =
     (case js_get (eg_reservations s) rid of
        None \<Rightarrow> (Inl (EngineError Not_found 404), s)
      | Some r \<Rightarrow> (Inr r, s))"

definition ledgerResponse ::
  "host \<Rightarrow> req_context \<Rightarrow> ledger_entry \<Rightarrow> ledger_entry list \<Rightarrow> catalog response engine_eff" where
  "ledgerResponse h c e es =
     m_bind (balances h (le_member_id e)) (\<lambda>bs.
     m_return (Ledger_response (responseContext h c) e (if length es > 1 then Some es else None) bs))"

definition reservationResponse ::
  "host \<Rightarrow> req_context \<Rightarrow> reservation \<Rightarrow> catalog response engine_eff" where
  "reservationResponse h c r =
     m_bind (balances h (rs_member_id r)) (\<lambda>bs.
     m_return (Reservation_response (responseContext h c) r bs))"

section \<open>Exactly once\<close>

definition once_key :: "string \<Rightarrow> req_context \<Rightarrow> string" where
  "once_key operation c = cx_source_system c @ ''|'' @ operation @ ''|'' @ cx_idempotency_key c"

definition fingerprintV1 :: "host \<Rightarrow> json \<Rightarrow> string" where
  "fingerprintV1 h = idempotencyFingerprintV1 (h_lc h) (h_digest h)"

definition fingerprintV2 :: "host \<Rightarrow> json \<Rightarrow> string" where
  "fingerprintV2 h = idempotencyFingerprintV2 (h_lc h) (h_digest h)"

definition store_response :: "string \<Rightarrow> string \<Rightarrow> catalog response \<Rightarrow> engine \<Rightarrow> engine" where
  "store_response key f r s =
     s\<lparr>eg_idempotency := js_set (eg_idempotency s) key \<lparr>ik_fingerprint = f, ik_response = r\<rparr>\<rparr>"

definition once ::
  "host \<Rightarrow> string \<Rightarrow> req_context \<Rightarrow> json \<Rightarrow> catalog response engine_eff \<Rightarrow> catalog response engine_eff" where
  "once h operation c request run s =
     (case js_get (eg_idempotency s) (once_key operation c) of
        Some prior \<Rightarrow>
          if ik_fingerprint prior = fingerprintV2 h request \<or> ik_fingerprint prior = fingerprintV1 h request
          then (Inr (withReplayedRequestId (ik_response prior) (cx_request_id c)), s)
          else (Inl (engine_err Idempotency_conflict), s)
      | None \<Rightarrow>
          m_bind run (\<lambda>r.
          m_bind (m_modify (store_response (once_key operation c) (fingerprintV2 h request) r)) (\<lambda>_.
          m_return r)) s)"

end
