(* ===== verification/Engine_Rules.thy ===== *)
theory Engine_Rules
  imports Engine_State
begin

text \<open>
  The rules the handlers of \<open>LoyaltyEngine\<close> apply: metrics and tiers, multipliers, what an
  order earns, which rewards are available, how a reward's value is split between its
  funding parties, and which order a handler accepts. Definitions only; their theorems are
  in Tiers, Earning and Funding.
\<close>

section \<open>Qualification periods\<close>

definition local_of :: "host \<Rightarrow> tier_policy \<Rightarrow> int \<Rightarrow> int \<times> int \<times> int" where
  "local_of h q t = h_local_date h (tq_time_zone q) t"

definition qualificationPeriodKey :: "host \<Rightarrow> tier_policy \<Rightarrow> int \<Rightarrow> int" where
  "qualificationPeriodKey h q t =
     (let (year, month, day) = local_of h q t in
      if month > tq_starts_month q \<or> (month = tq_starts_month q \<and> day \<ge> tq_starts_day q)
      then year else year - 1)"

definition businessDateInZone :: "host \<Rightarrow> tier_policy \<Rightarrow> int \<Rightarrow> string" where
  "businessDateInZone h q t =
     (let (year, month, day) = local_of h q t in
      pad_start 4 (dec_string year) @ ''-'' @ pad2 month @ ''-'' @ pad2 day)"

text \<open>\<open>new Date(occurredAt)\<close> may be invalid, and formatting an invalid date throws.\<close>

definition isInCurrentQualificationPeriod :: "host \<Rightarrow> program \<Rightarrow> string \<Rightarrow> engine_error + bool" where
  "isInCurrentQualificationPeriod h p occurredAt =
     (case pg_tier_policy p of
        None \<Rightarrow> Inr False
      | Some q \<Rightarrow>
          (case h_parse h occurredAt of
             None \<Rightarrow> Inl RangeError
           | Some t \<Rightarrow>
               Inr (qualificationPeriodKey h q t = qualificationPeriodKey h q (h_now h) \<and>
                    (\<not> truthy (tq_effective_from q) \<or>
                     unit_compare (the (tq_effective_from q)) (businessDateInZone h q t) \<le> 0))))"

section \<open>Metrics\<close>

definition earned_operation :: "ledger_operation \<Rightarrow> bool" where
  "earned_operation p = (p \<in> {Accrual, Adjustment, Manual})"

definition metric_counts ::
  "host \<Rightarrow> program \<Rightarrow> string \<Rightarrow> metric_definition \<Rightarrow> ledger_entry \<Rightarrow> engine_error + bool" where
  "metric_counts h p memberId m e =
     (if \<not> (le_member_id e = memberId \<and> le_unit e = md_unit m \<and> earned_operation (le_operation e))
      then Inr False
      else if md_source m \<noteq> Qualification_earned then Inr True
      else (case isInCurrentQualificationPeriod h p (le_occurred_at e) of
              Inl err \<Rightarrow> Inl err
            | Inr b \<Rightarrow> Inr (b \<and> (le_operation e \<noteq> Manual \<or> le_qualifies_for_tier e = Some True))))"

fun sum_where :: "(ledger_entry \<Rightarrow> engine_error + bool) \<Rightarrow> ledger_entry list \<Rightarrow> engine_error + int" where
  "sum_where P [] = Inr 0"
| "sum_where P (e # es) =
     (case P e of
        Inl err \<Rightarrow> Inl err
      | Inr b \<Rightarrow>
          (case sum_where P es of
             Inl err \<Rightarrow> Inl err
           | Inr n \<Rightarrow> Inr ((if b then le_amount e else 0) + n)))"

definition metric_amount :: "host \<Rightarrow> string \<Rightarrow> metric_definition \<Rightarrow> int engine_eff" where
  "metric_amount h memberId m =
     (if md_source m = Current_balance
      then m_bind (balance h memberId (md_unit m)) (\<lambda>b. m_return (bl_amount b))
      else m_bind (m_get (\<lambda>s. sum_where (metric_counts h (eg_program s) memberId m) (js_values (eg_ledger s))))
             m_lift)"

definition account_metric :: "host \<Rightarrow> string \<Rightarrow> metric_definition \<Rightarrow> account_metric engine_eff" where
  "account_metric h memberId m =
     m_bind (m_get (\<lambda>s. assertAccountUnit (eg_program s) (md_unit m))) (\<lambda>r.
     m_bind (m_lift r) (\<lambda>_.
     m_bind (metric_amount h memberId m) (\<lambda>n.
     m_return \<lparr>am_metric_id = md_metric_id m, am_unit = md_unit m, am_amount = n, am_as_of = isoNow h\<rparr>)))"

definition accountMetrics :: "host \<Rightarrow> string \<Rightarrow> account_metric list engine_eff" where
  "accountMetrics h memberId =
     m_bind (m_get (\<lambda>s. program_metrics (eg_program s))) (\<lambda>ms.
     m_map (account_metric h memberId) ms)"

section \<open>Tiers\<close>

text \<open>The last index whose minimum is reached; the loop starts with \<open>currentIndex = 0\<close>.\<close>

fun reached_index :: "int \<Rightarrow> nat \<Rightarrow> nat \<Rightarrow> tier_definition list \<Rightarrow> nat" where
  "reached_index amount index current [] = current"
| "reached_index amount index current (t # ts) =
     reached_index amount (Suc index) (if td_minimum t \<le> amount then index else current) ts"

definition metric_value :: "account_metric list \<Rightarrow> string \<Rightarrow> int" where
  "metric_value ms metricId =
     max 0 (case List.find (\<lambda>m. am_metric_id m = metricId) ms of None \<Rightarrow> 0 | Some m \<Rightarrow> am_amount m)"

definition progress_at :: "tier_definition list \<Rightarrow> string \<Rightarrow> int \<Rightarrow> tier_progress" where
  "progress_at tiers metricId amount =
     (let i = reached_index amount 0 0 tiers; current = tiers ! i in
      if Suc i < length tiers
      then let next = tiers ! Suc i; span = td_minimum next - td_minimum current in
        \<lparr>tp_current_tier_id = td_tier_id current, tp_qualification_metric_id = metricId,
         tp_current_amount = amount, tp_next_tier_id = Some (td_tier_id next),
         tp_remaining_to_next = Some (max 0 (td_minimum next - amount)),
         tp_progress_bps = min 10000 ((amount - td_minimum current) * 10000 div span),
         tp_is_top_tier = False\<rparr>
      else
        \<lparr>tp_current_tier_id = td_tier_id current, tp_qualification_metric_id = metricId,
         tp_current_amount = amount, tp_next_tier_id = None, tp_remaining_to_next = None,
         tp_progress_bps = 10000, tp_is_top_tier = True\<rparr>)"

definition tierProgress :: "program \<Rightarrow> account_metric list \<Rightarrow> tier_progress option" where
  "tierProgress p ms =
     (case sorted_tiers p of
        [] \<Rightarrow> None
      | t # ts \<Rightarrow>
          let metricId = td_qualification_metric_id t
          in Some (progress_at (t # ts) metricId (metric_value ms metricId)))"

definition member_progress :: "host \<Rightarrow> string \<Rightarrow> tier_progress option engine_eff" where
  "member_progress h memberId =
     m_bind (accountMetrics h memberId) (\<lambda>ms.
     m_get (\<lambda>s. tierProgress (eg_program s) ms))"

definition memberSnapshot :: "host \<Rightarrow> member \<Rightarrow> member engine_eff" where
  "memberSnapshot h m =
     m_bind (member_progress h (mb_member_id m)) (\<lambda>tp.
     m_return (case tp of None \<Rightarrow> m | Some t \<Rightarrow> m\<lparr>mb_tier_id := Some (tp_current_tier_id t)\<rparr>))"

definition tier_multiplier :: "program \<Rightarrow> tier_progress option \<Rightarrow> int" where
  "tier_multiplier p tp =
     (case tp of
        None \<Rightarrow> 10000
      | Some t \<Rightarrow>
          (case Option.bind (List.find (\<lambda>d. td_tier_id d = tp_current_tier_id t) (program_tiers p))
                  td_earn_multiplier_bps of
             None \<Rightarrow> 10000 | Some n \<Rightarrow> n))"

definition tierMultiplierBps :: "host \<Rightarrow> string \<Rightarrow> int engine_eff" where
  "tierMultiplierBps h memberId =
     m_bind (member_progress h memberId) (\<lambda>tp. m_get (\<lambda>s. tier_multiplier (eg_program s) tp))"

section \<open>Memberships and multipliers\<close>

definition membership_attribute :: "engine \<Rightarrow> string \<Rightarrow> json option" where
  "membership_attribute s memberId =
     Option.bind (js_get (eg_members s) memberId) (\<lambda>m.
     Option.bind (mb_attributes m) (\<lambda>fs. map_of fs ''membership''))"

definition activeMembershipPlan :: "host \<Rightarrow> engine \<Rightarrow> string \<Rightarrow> membership_plan option" where
  "activeMembershipPlan h s memberId =
     (case membership_attribute s memberId of
        Some (JObj fs) \<Rightarrow>
          (case (map_of fs ''status'', map_of fs ''plan_id'', map_of fs ''valid_until'') of
             (Some (JStr status), Some (JStr plan_id), Some (JStr valid_until)) \<Rightarrow>
               if status \<noteq> ''active'' \<or> due h valid_until then None
               else Option.bind (pg_membership_plans (eg_program s)) (List.find (\<lambda>m. mp_plan_id m = plan_id))
           | _ \<Rightarrow> None)
      | _ \<Rightarrow> None)"

definition earningMultiplierBps :: "host \<Rightarrow> string \<Rightarrow> int engine_eff" where
  "earningMultiplierBps h memberId =
     m_bind (tierMultiplierBps h memberId) (\<lambda>tier.
     m_get (\<lambda>s.
       tier * (case Option.bind (activeMembershipPlan h s memberId) mp_earn_multiplier_bps of
                 None \<Rightarrow> 10000 | Some n \<Rightarrow> n) div 10000))"

definition membershipUnavailable :: "host \<Rightarrow> engine \<Rightarrow> reward_definition \<Rightarrow> string \<Rightarrow> bool" where
  "membershipUnavailable h s r memberId =
     (case Option.bind (rd_metadata r) (\<lambda>fs. map_of fs ''membership_plan_ids'') of
        Some (JArr (x # xs)) \<Rightarrow>
          (case activeMembershipPlan h s memberId of
             None \<Rightarrow> True
           | Some plan \<Rightarrow> JStr (mp_plan_id plan) \<notin> set (x # xs))
      | _ \<Rightarrow> False)"

section \<open>Earning\<close>

definition isEligibleLine :: "program \<Rightarrow> order_line \<Rightarrow> bool" where
  "isEligibleLine p l =
     (ln_loyalty_eligible l \<noteq> Some False \<and>
      ln_product_id l \<notin> set (policy_list p ep_excluded_product_ids) \<and>
      ln_kind l \<notin> set (policy_list p ep_excluded_line_kinds) \<and>
      \<not> list_ex (\<lambda>i. i \<in> set (policy_list p ep_excluded_category_ids))
          (case ln_category_ids l of None \<Rightarrow> [] | Some cs \<Rightarrow> cs) \<and>
      \<not> list_ex (\<lambda>i. i \<in> set (policy_list p ep_excluded_tags))
          (case ln_tags l of None \<Rightarrow> [] | Some ts \<Rightarrow> ts))"

definition eligibleSpend :: "program \<Rightarrow> order \<Rightarrow> int" where
  "eligibleSpend p d =
     (\<Sum>l\<leftarrow>filter (isEligibleLine p) (od_lines d). mo_amount (ln_subtotal l) - mo_amount (ln_discount l))"

definition amountForUnit :: "program \<Rightarrow> loyalty_unit \<Rightarrow> int \<Rightarrow> int \<Rightarrow> engine_error + int" where
  "amountForUnit p u minorUnits multiplierBps =
     (if u = Credits then
        (let amount = bigint_div (max 0 minorUnits * wallet_earn_bps p) 10000 in
         if is_safe_integer amount then Inr amount else Inl (EngineError Invalid_state 422))
      else if u = Visits \<or> u = Stamps then Inr (visit_amount p)
      else
        (let numerator = max 0 minorUnits * rt_points (pg_earn_rate p) * multiplierBps;
             denominator = rt_spend_minor_units (pg_earn_rate p) * 10000;
             amount = bigint_div numerator denominator in
         if is_safe_integer amount then Inr amount else Inl (EngineError Invalid_state 422)))"

definition pointsForSignedSpend :: "program \<Rightarrow> loyalty_unit \<Rightarrow> int \<Rightarrow> int \<Rightarrow> engine_error + int" where
  "pointsForSignedSpend p u minorUnits multiplierBps =
     (case amountForUnit p u \<bar>minorUnits\<bar> multiplierBps of
        Inl err \<Rightarrow> Inl err
      | Inr magnitude \<Rightarrow> Inr (if minorUnits < 0 then - magnitude else magnitude))"

fun unit_amounts ::
  "program \<Rightarrow> int \<Rightarrow> int \<Rightarrow> loyalty_unit list \<Rightarrow> engine_error + unit_amount list" where
  "unit_amounts p spend multiplierBps [] = Inr []"
| "unit_amounts p spend multiplierBps (u # us) =
     (case amountForUnit p u spend multiplierBps of
        Inl err \<Rightarrow> Inl err
      | Inr n \<Rightarrow>
          (case unit_amounts p spend multiplierBps us of
             Inl err \<Rightarrow> Inl err
           | Inr as \<Rightarrow> Inr (\<lparr>ua_unit = u, ua_amount = n\<rparr> # as)))"

definition no_accrual :: "program \<Rightarrow> unit_amount list" where
  "no_accrual p = map (\<lambda>u. \<lparr>ua_unit = u, ua_amount = 0\<rparr>) (accountUnits p)"

definition accrualAmounts :: "program \<Rightarrow> order \<Rightarrow> int \<Rightarrow> engine_error + unit_amount list" where
  "accrualAmounts p d multiplierBps =
     (if od_channel d \<notin> set (eligible_channels p) then Inr (no_accrual p)
      else if eligibleSpend p d < minimum_eligible_spend p then Inr (no_accrual p)
      else unit_amounts p (eligibleSpend p d) multiplierBps (accountUnits p))"

section \<open>Funding\<close>

definition reward_value :: "reward_effect \<Rightarrow> money option" where
  "reward_value x =
     (case x of Discount t a als \<Rightarrow> Some a | Free_item ps cs q v \<Rightarrow> Some v | Custom_effect t p \<Rightarrow> None)"

text \<open>An allocation: index, whole part, remainder, tie break.\<close>

record allocation =
  al_index :: nat
  al_amount :: int
  al_remainder :: int
  al_tieBreak :: string

definition tie_break :: "funding_share \<Rightarrow> string" where
  "tie_break f = party_string (fs_party_type f) @ '':'' @ fs_party_id f"

definition allocation_of :: "int \<Rightarrow> nat \<times> funding_share \<Rightarrow> allocation" where
  "allocation_of amount ix =
     (let product = amount * fs_share_bps (snd ix) in
      \<lparr>al_index = fst ix, al_amount = bigint_div product 10000,
       al_remainder = product - bigint_div product 10000 * 10000, al_tieBreak = tie_break (snd ix)\<rparr>)"

definition allocations_of :: "int \<Rightarrow> funding_share list \<Rightarrow> allocation list" where
  "allocations_of amount shares = map (allocation_of amount) (List.enumerate 0 shares)"

definition allocation_compare :: "collation \<Rightarrow> allocation \<Rightarrow> allocation \<Rightarrow> int" where
  "allocation_compare lc l r =
     (if al_remainder l \<noteq> al_remainder r then (if al_remainder l > al_remainder r then - 1 else 1)
      else lc (al_tieBreak l) (al_tieBreak r))"

text \<open>The loop over \<open>ranked\<close>: the indices of the allocations that receive one unit more.\<close>

fun topped_up :: "int \<Rightarrow> allocation list \<Rightarrow> nat list" where
  "topped_up unallocated [] = []"
| "topped_up unallocated (a # as) =
     (if unallocated = 0 then [] else al_index a # topped_up (unallocated - 1) as)"

definition share_amounts :: "collation \<Rightarrow> int \<Rightarrow> funding_share list \<Rightarrow> int list" where
  "share_amounts lc amount shares =
     (let allocations = allocations_of amount shares;
          unallocated = amount - (\<Sum>a\<leftarrow>allocations. al_amount a);
          up = topped_up unallocated (js_sort (allocation_compare lc) allocations)
      in map (\<lambda>a. al_amount a + (if al_index a \<in> set up then 1 else 0)) allocations)"

definition fundingAllocations :: "collation \<Rightarrow> reward_definition \<Rightarrow> funding_share list" where
  "fundingAllocations lc r =
     (case reward_value (rd_effect r) of
        None \<Rightarrow> rd_funding r
      | Some v \<Rightarrow>
          map2 (\<lambda>f n. f\<lparr>fs_amount := Some \<lparr>mo_amount = n, mo_currency = mo_currency v\<rparr>\<rparr>)
            (rd_funding r) (share_amounts lc (mo_amount v) (rd_funding r)))"

section \<open>Rewards\<close>

definition before :: "host \<Rightarrow> string \<Rightarrow> bool" where
  "before h t = (case h_parse h t of None \<Rightarrow> False | Some i \<Rightarrow> h_now h < i)"

definition after :: "host \<Rightarrow> string \<Rightarrow> bool" where
  "after h t = (case h_parse h t of None \<Rightarrow> False | Some i \<Rightarrow> h_now h > i)"

datatype window_reason = Not_yet_available | No_longer_available

definition rewardWindowReason :: "host \<Rightarrow> reward_definition \<Rightarrow> window_reason option" where
  "rewardWindowReason h r =
     (if truthy (rd_available_from r) \<and> before h (the (rd_available_from r)) then Some Not_yet_available
      else if truthy (rd_available_until r) \<and> after h (the (rd_available_until r)) then Some No_longer_available
      else None)"

fun window_string :: "window_reason \<Rightarrow> string" where
  "window_string Not_yet_available = ''not_yet_available''"
| "window_string No_longer_available = ''no_longer_available''"

definition candidate_reasons :: "host \<Rightarrow> engine \<Rightarrow> reward_definition \<Rightarrow> string \<Rightarrow> int \<Rightarrow> string list" where
  "candidate_reasons h s r memberId avail =
     push_if (avail < ua_amount (rewardCost (eg_program s) r)) ''insufficient_balance'' @
     (case rewardWindowReason h r of None \<Rightarrow> [] | Some w \<Rightarrow> [window_string w]) @
     push_if (membershipUnavailable h s r memberId) ''membership_required''"

definition rewardCandidate :: "host \<Rightarrow> string \<Rightarrow> reward_definition \<Rightarrow> reward_candidate engine_eff" where
  "rewardCandidate h memberId r =
     m_bind (m_get (\<lambda>s. rewardCost (eg_program s) r)) (\<lambda>cost.
     m_bind (balance h memberId (ua_unit cost)) (\<lambda>b.
     m_bind (m_get (\<lambda>s. candidate_reasons h s r memberId (bl_available b))) (\<lambda>reasons.
     m_return
       \<lparr>cd_reward_id = rd_reward_id r,
        cd_name = present (rd_name r),
        cd_status = (if reasons = [] then Available else Unavailable),
        cd_unavailable_reasons = (if reasons = [] then None else Some reasons),
        cd_cost = cost,
        cd_effect = rd_effect r,
        cd_funding = fundingAllocations (h_lc h) r\<rparr>)))"

section \<open>Orders\<close>

definition assertOrder :: "host \<Rightarrow> order \<Rightarrow> member \<Rightarrow> unit engine_eff" where
  "assertOrder h d m =
     m_bind (m_lift (case validateFoodserviceOrder (h_parse h) (h_ajv h) d of
                       Inl _ \<Rightarrow> Inl (EngineError Invalid_order 422) | Inr d' \<Rightarrow> Inr d')) (\<lambda>_.
     m_bind (assertProgramId (sc_program_id (od_scope d))) (\<lambda>_.
     m_bind (m_assert (sc_program_id (od_scope d) = mb_program_id m) (engine_err Conflict)) (\<lambda>_.
     m_bind (m_assert (truthy (od_member_id d) \<longrightarrow> od_member_id d = Some (mb_member_id m)) (engine_err Conflict)) (\<lambda>_.
     m_bind (m_get (\<lambda>s. pg_currency (eg_program s))) (\<lambda>c.
     m_assert (mo_currency (tt_total (od_totals d)) = c) (engine_err Currency_mismatch))))))"

end
