(* ===== verification/Engine_Members.thy ===== *)
theory Engine_Members
  imports Engine_Rules
begin

text \<open>
  The member-facing handlers of \<open>LoyaltyEngine\<close>: lookup, enrolment, closing and erasing a
  member, membership attributes, the account view, the paged ledger and order evaluation.
\<close>

section \<open>Erasure of cached snapshots\<close>

definition is_snapshot_of :: "member \<Rightarrow> (string \<times> json) list \<Rightarrow> bool" where
  "is_snapshot_of m fs =
     (map_of fs ''member_id'' = jstr (mb_member_id m) \<and>
      map_of fs ''program_id'' = jstr (mb_program_id m) \<and>
      (case map_of fs ''joined_at'' of Some (JStr _) \<Rightarrow> True | _ \<Rightarrow> False) \<and>
      (case map_of fs ''identities'' of Some (JArr _) \<Rightarrow> True | _ \<Rightarrow> False))"

fun scrub_json :: "member \<Rightarrow> json \<Rightarrow> json" where
  "scrub_json m (JArr xs) = JArr (map (scrub_json m) xs)"
| "scrub_json m (JObj fs) =
     (if is_snapshot_of m fs then json_member m
      else JObj (map (\<lambda>(k, v). (k, scrub_json m v)) fs))"
| "scrub_json m v = v"

definition scrub_metadata :: "member \<Rightarrow> metadata option \<Rightarrow> metadata option" where
  "scrub_metadata m fs =
     map_option (\<lambda>g. case scrub_json m (JObj g) of JObj g' \<Rightarrow> g' | _ \<Rightarrow> g) fs"

fun scrub_effect :: "member \<Rightarrow> reward_effect \<Rightarrow> reward_effect" where
  "scrub_effect m (Custom_effect t v) = Custom_effect t (scrub_json m v)"
| "scrub_effect m e = e"

text \<open>Among the typed parts only a member has the fields that are compared.\<close>

definition scrub_member :: "member \<Rightarrow> member \<Rightarrow> member" where
  "scrub_member m x =
     (if mb_member_id x = mb_member_id m \<and> mb_program_id x = mb_program_id m then m
      else x\<lparr>mb_attributes := scrub_metadata m (mb_attributes x)\<rparr>)"

definition scrub_catalog :: "member \<Rightarrow> catalog \<Rightarrow> catalog" where
  "scrub_catalog m c =
     c\<lparr>cg_tiers := map (\<lambda>t. t\<lparr>td_benefits :=
          map (\<lambda>b. b\<lparr>tb_metadata := scrub_metadata m (tb_metadata b)\<rparr>) (td_benefits t)\<rparr>) (cg_tiers c),
       cg_rewards := map (\<lambda>r. r\<lparr>cr_effect := scrub_effect m (cr_effect r),
          cr_metadata := scrub_metadata m (cr_metadata r)\<rparr>) (cg_rewards c),
       cg_metadata := scrub_metadata m (cg_metadata c)\<rparr>"

fun scrubCachedMemberSnapshot :: "member \<Rightarrow> catalog response \<Rightarrow> catalog response" where
  "scrubCachedMemberSnapshot m (Lookup_response c x bs) =
     Lookup_response c (map_option (scrub_member m) x) bs"
| "scrubCachedMemberSnapshot m (Enroll_response c x bs) = Enroll_response c (scrub_member m x) bs"
| "scrubCachedMemberSnapshot m (Program_response c p) = Program_response c (scrub_catalog m p)"
| "scrubCachedMemberSnapshot m (Account_response c x bs ms xs tp) =
     Account_response c (scrub_member m x) bs ms xs tp"
| "scrubCachedMemberSnapshot m (Evaluation_response c i mi d ea eas rs bs x) =
     Evaluation_response c i mi d ea eas (map (\<lambda>r. r\<lparr>cd_effect := scrub_effect m (cd_effect r)\<rparr>) rs) bs x"
| "scrubCachedMemberSnapshot m (Reservation_response c r bs) =
     Reservation_response c (r\<lparr>rs_effect := scrub_effect m (rs_effect r)\<rparr>) bs"
| "scrubCachedMemberSnapshot m r = r"

section \<open>Lookup and enrolment\<close>

definition find_member :: "string \<Rightarrow> identity_ref \<Rightarrow> engine \<Rightarrow> member option" where
  "find_member programId i s =
     (let memberId = js_get (eg_identityIndex s) (identityKey programId i) in
      if truthy memberId then js_get (eg_members s) (the memberId) else None)"

definition lookup_run :: "host \<Rightarrow> lookup_request \<Rightarrow> catalog response engine_eff" where
  "lookup_run h r =
     m_bind (m_get (find_member (lq_program_id r) (lq_identity r))) (\<lambda>found.
     case found of
       None \<Rightarrow> m_return (Lookup_response (responseContext h (lq_context r)) None [])
     | Some m \<Rightarrow>
         m_bind (memberSnapshot h m) (\<lambda>snap.
         m_bind (balances h (mb_member_id m)) (\<lambda>bs.
         m_return (Lookup_response (responseContext h (lq_context r)) (Some snap) bs))))"

definition lookup :: "host \<Rightarrow> lookup_request \<Rightarrow> catalog response engine_eff" where
  "lookup h r =
     m_bind (assertProgramId (lq_program_id r)) (\<lambda>_.
     once h ''member.lookup'' (lq_context r) (json_lookup_request r) (lookup_run h r))"

definition enroll_response :: "host \<Rightarrow> req_context \<Rightarrow> member \<Rightarrow> catalog response engine_eff" where
  "enroll_response h c m =
     m_bind (memberSnapshot h m) (\<lambda>snap.
     m_bind (balances h (mb_member_id m)) (\<lambda>bs.
     m_return (Enroll_response (responseContext h c) snap bs)))"

definition enroll_existing :: "host \<Rightarrow> enroll_request \<Rightarrow> string \<Rightarrow> catalog response engine_eff" where
  "enroll_existing h r existingId =
     m_bind (m_get (\<lambda>s. js_get (eg_members s) existingId)) (\<lambda>existing.
     case existing of
       None \<Rightarrow> m_throw (EngineError Not_found 500)
     | Some m \<Rightarrow>
         m_bind (m_assert (mb_status m = Active) (engine_err Member_not_active)) (\<lambda>_.
         enroll_response h (eq_context r) m))"

definition choose_member_id :: "host \<Rightarrow> enroll_request \<Rightarrow> string engine_eff" where
  "choose_member_id h r =
     (case eq_member_id r of Some i \<Rightarrow> m_return i | None \<Rightarrow> draw_id h ''member'')"

definition new_member :: "host \<Rightarrow> program \<Rightarrow> enroll_request \<Rightarrow> string \<Rightarrow> member" where
  "new_member h p r memberId =
     \<lparr>mb_member_id = memberId, mb_program_id = eq_program_id r, mb_status = Active,
      mb_joined_at = isoNow h, mb_tier_id = present (baseTierId p),
      mb_identities = [eq_identity r], mb_attributes = eq_attributes r\<rparr>"

definition open_accounts :: "string \<Rightarrow> engine \<Rightarrow> engine" where
  "open_accounts memberId s =
     s\<lparr>eg_points := foldl (\<lambda>m u. js_set m (balanceKey (eg_program s) memberId u) 0)
        (eg_points s) (accountUnits (eg_program s))\<rparr>"

definition add_member :: "string \<Rightarrow> member \<Rightarrow> engine \<Rightarrow> engine" where
  "add_member key m s =
     open_accounts (mb_member_id m)
       (s\<lparr>eg_members := js_set (eg_members s) (mb_member_id m) m,
          eg_identityIndex := js_set (eg_identityIndex s) key (mb_member_id m)\<rparr>)"

definition enroll_new :: "host \<Rightarrow> enroll_request \<Rightarrow> string \<Rightarrow> catalog response engine_eff" where
  "enroll_new h r key =
     m_bind (choose_member_id h r) (\<lambda>memberId.
     m_bind (m_get (\<lambda>s. js_has (eg_members s) memberId)) (\<lambda>taken.
     m_bind (m_assert (\<not> taken) (engine_err Conflict)) (\<lambda>_.
     m_bind (m_get (\<lambda>s. new_member h (eg_program s) r memberId)) (\<lambda>m.
     m_bind (m_modify (add_member key m)) (\<lambda>_.
     enroll_response h (eq_context r) m)))))"

definition enroll_run :: "host \<Rightarrow> enroll_request \<Rightarrow> catalog response engine_eff" where
  "enroll_run h r =
     (let key = identityKey (eq_program_id r) (eq_identity r) in
      m_bind (m_get (\<lambda>s. js_get (eg_identityIndex s) key)) (\<lambda>existingId.
      if truthy existingId then enroll_existing h r (the existingId) else enroll_new h r key))"

definition enroll :: "host \<Rightarrow> enroll_request \<Rightarrow> catalog response engine_eff" where
  "enroll h r =
     m_bind (assertProgramId (eq_program_id r)) (\<lambda>_.
     once h ''member.enroll'' (eq_context r) (json_enroll_request r) (enroll_run h r))"

definition getProgram :: "host \<Rightarrow> program_request \<Rightarrow> catalog response engine_eff" where
  "getProgram h r =
     m_bind (assertProgramId (pq_program_id r)) (\<lambda>_.
     once h ''program.get'' (pq_context r) (json_program_request r)
       (m_get (\<lambda>s. Program_response (responseContext h (pq_context r)) (programCatalog (eg_program s)))))"

section \<open>Closing, erasing and changing a member\<close>

definition getMember :: "string \<Rightarrow> member engine_eff" where
  "getMember memberId s =
     (case js_get (eg_members s) memberId of
        None \<Rightarrow> (Inl (EngineError Member_not_found 404), s) | Some m \<Rightarrow> (Inr m, s))"

definition set_member :: "string \<Rightarrow> (member \<Rightarrow> member) \<Rightarrow> engine \<Rightarrow> engine" where
  "set_member memberId f s = s\<lparr>eg_members := js_update (eg_members s) memberId f\<rparr>"

definition cancelMember :: "host \<Rightarrow> string \<Rightarrow> member engine_eff" where
  "cancelMember h memberId =
     m_bind (getMember memberId) (\<lambda>m.
     m_bind (m_modify (set_member memberId (\<lambda>m. m\<lparr>mb_status := Closed\<rparr>))) (\<lambda>_.
     memberSnapshot h (m\<lparr>mb_status := Closed\<rparr>)))"

definition erased_identity :: "string \<Rightarrow> identity_ref" where
  "erased_identity memberId =
     \<lparr>ir_type = Loyalty_id, ir_value = memberId, ir_issuer = Some ''lip-erasure''\<rparr>"

definition is_erased :: "string \<Rightarrow> member \<Rightarrow> bool" where
  "is_erased memberId m =
     (mb_status m = Closed \<and> mb_attributes m = None \<and> mb_identities m = [erased_identity memberId])"

record erasure_result =
  er_erased :: bool
  er_member :: member

definition inspectMemberErasure :: "host \<Rightarrow> string \<Rightarrow> erasure_result engine_eff" where
  "inspectMemberErasure h memberId =
     m_bind (getMember memberId) (\<lambda>m.
     m_bind (memberSnapshot h m) (\<lambda>snap.
     m_return \<lparr>er_erased = is_erased memberId snap, er_member = snap\<rparr>))"

definition erased_member :: "member \<Rightarrow> member" where
  "erased_member m =
     m\<lparr>mb_status := Closed, mb_identities := [erased_identity (mb_member_id m)], mb_attributes := None\<rparr>"

definition erase_writes :: "string \<Rightarrow> member \<Rightarrow> engine \<Rightarrow> engine" where
  "erase_writes memberId m s =
     s\<lparr>eg_identityIndex := foldl (\<lambda>ix i. js_delete ix (identityKey (mb_program_id m) i))
         (eg_identityIndex s) (mb_identities m),
       eg_members := js_update (eg_members s) memberId (\<lambda>_. erased_member m),
       eg_idempotency := js_map_values
         (\<lambda>k. k\<lparr>ik_response := scrubCachedMemberSnapshot (erased_member m) (ik_response k)\<rparr>)
         (eg_idempotency s)\<rparr>"

definition eraseMember :: "host \<Rightarrow> string \<Rightarrow> erasure_result engine_eff" where
  "eraseMember h memberId =
     m_bind (getMember memberId) (\<lambda>m.
     m_bind (m_modify (erase_writes memberId m)) (\<lambda>_.
     inspectMemberErasure h memberId))"

record membership =
  ms_plan_id :: string
  ms_status :: string
  ms_valid_from :: string
  ms_valid_until :: string
  ms_billing_reference :: "string option"

definition json_membership :: "membership \<Rightarrow> json" where
  "json_membership m = jobj
     [(''plan_id'', jstr (ms_plan_id m)), (''status'', jstr (ms_status m)),
      (''valid_from'', jstr (ms_valid_from m)), (''valid_until'', jstr (ms_valid_until m)),
      (''billing_reference'', jstr_opt (ms_billing_reference m))]"

text \<open>What is stored is the JSON value; the callers' cast to \<open>ReferenceMembership\<close> checks nothing.\<close>

definition with_membership :: "json option \<Rightarrow> member \<Rightarrow> member" where
  "with_membership x m =
     (let attributes = (case mb_attributes m of None \<Rightarrow> [] | Some fs \<Rightarrow> fs) in
      m\<lparr>mb_attributes := Some (case x of
          None \<Rightarrow> js_delete attributes ''membership''
        | Some v \<Rightarrow> js_set attributes ''membership'' v)\<rparr>)"

definition setMemberMembership :: "host \<Rightarrow> string \<Rightarrow> json option \<Rightarrow> member engine_eff" where
  "setMemberMembership h memberId x =
     m_bind (getMember memberId) (\<lambda>m.
     m_bind (m_modify (set_member memberId (with_membership x))) (\<lambda>_.
     memberSnapshot h (with_membership x m)))"

section \<open>The account view\<close>

definition getAccount_run :: "host \<Rightarrow> account_request \<Rightarrow> catalog response engine_eff" where
  "getAccount_run h r =
     m_bind (activeMember (aq_member_id r)) (\<lambda>m.
     m_bind (expirePointLots h (Some (aq_member_id r)) None) (\<lambda>_.
     m_bind (accountMetrics h (aq_member_id r)) (\<lambda>metrics.
     m_bind (m_get (\<lambda>s. tierProgress (eg_program s) metrics)) (\<lambda>progress.
     m_bind (memberSnapshot h m) (\<lambda>snap.
     m_bind (balances h (aq_member_id r)) (\<lambda>bs.
     m_bind (expiringBalances h (aq_member_id r)) (\<lambda>expiring.
     m_return (Account_response (responseContext h (aq_context r)) snap bs metrics expiring progress))))))))"

definition getAccount :: "host \<Rightarrow> account_request \<Rightarrow> catalog response engine_eff" where
  "getAccount h r =
     m_bind (assertProgramId (aq_program_id r)) (\<lambda>_.
     once h ''account.get'' (aq_context r) (json_account_request r) (getAccount_run h r))"

section \<open>The paged ledger\<close>

definition matchesLedgerQuery :: "ledger_list_request \<Rightarrow> ledger_entry \<Rightarrow> bool" where
  "matchesLedgerQuery r e =
     (le_member_id e = ll_member_id r \<and> le_program_id e = ll_program_id r \<and>
      (truthy (ll_account_id r) \<longrightarrow> ll_account_id r = Some (le_account_id e)) \<and>
      opt_ok (\<lambda>ps. le_operation e \<in> set ps) (ll_operations r) \<and>
      (truthy (ll_occurred_from r) \<longrightarrow> unit_compare (the (ll_occurred_from r)) (le_occurred_at e) \<le> 0) \<and>
      (truthy (ll_occurred_until r) \<longrightarrow> unit_compare (le_occurred_at e) (the (ll_occurred_until r)) \<le> 0))"

definition ledgerQueryFingerprint :: "host \<Rightarrow> ledger_list_request \<Rightarrow> string" where
  "ledgerQueryFingerprint h r = fp h (jobj
     [(''member_id'', jstr (ll_member_id r)), (''program_id'', jstr (ll_program_id r)),
      (''account_id'', jstr_opt (ll_account_id r)),
      (''operations'', map_option (\<lambda>ps. jstrs (js_sort unit_compare (map operation_string ps))) (ll_operations r)),
      (''occurred_from'', jstr_opt (ll_occurred_from r)),
      (''occurred_until'', jstr_opt (ll_occurred_until r))])"

text \<open>Newest first, then by entry id; a comparison with an invalid date counts as equal.\<close>

definition ledger_compare :: "host \<Rightarrow> ledger_entry \<Rightarrow> ledger_entry \<Rightarrow> int" where
  "ledger_compare h l r =
     (case (h_parse h (le_occurred_at r), h_parse h (le_occurred_at l)) of
        (Some right, Some left) \<Rightarrow>
          if right - left \<noteq> 0 then right - left else h_lc h (le_entry_id r) (le_entry_id l)
      | _ \<Rightarrow> 0)"

definition json_cursor :: "string \<Rightarrow> string \<Rightarrow> json" where
  "json_cursor query entryId =
     jobj [(''version'', jnum 1), (''query'', jstr query), (''entry_id'', jstr entryId)]"

fun entry_index :: "string \<Rightarrow> ledger_entry list \<Rightarrow> nat option" where
  "entry_index i [] = None"
| "entry_index i (e # es) = (if le_entry_id e = i then Some 0 else map_option Suc (entry_index i es))"

definition cursorStart :: "host \<Rightarrow> string \<Rightarrow> string \<Rightarrow> ledger_entry list \<Rightarrow> engine_error + nat" where
  "cursorStart h cursorValue query entries =
     (case h_decode_cursor h cursorValue of
        None \<Rightarrow> Inl (EngineError Invalid_cursor 400)
      | Some JNull \<Rightarrow> Inl TypeError
      | Some v \<Rightarrow>
          (case (json_field v ''version'', json_field v ''query'', json_field v ''entry_id'') of
             (Some (JNum ver), Some (JStr q), Some (JStr i)) \<Rightarrow>
               if ver \<noteq> 1 \<or> q \<noteq> query then Inl (EngineError Invalid_cursor 400)
               else (case entry_index i entries of
                       None \<Rightarrow> Inl (EngineError Invalid_cursor 400) | Some n \<Rightarrow> Inr (n + 1))
           | _ \<Rightarrow> Inl (EngineError Invalid_cursor 400)))"

text \<open>\<open>Array.prototype.slice\<close>: a negative bound counts from the end.\<close>

definition slice_bound :: "nat \<Rightarrow> int \<Rightarrow> nat" where
  "slice_bound len i = (if i < 0 then nat (int len + i) else min (nat i) len)"

definition js_slice :: "'a list \<Rightarrow> int \<Rightarrow> int \<Rightarrow> 'a list" where
  "js_slice xs a b =
     take (slice_bound (length xs) b - slice_bound (length xs) a) (drop (slice_bound (length xs) a) xs)"

definition ledger_entries :: "host \<Rightarrow> ledger_list_request \<Rightarrow> engine \<Rightarrow> ledger_entry list" where
  "ledger_entries h r s =
     js_sort (ledger_compare h) (filter (matchesLedgerQuery r) (js_values (eg_ledger s)))"

definition page_limit :: "ledger_list_request \<Rightarrow> int" where
  "page_limit r = (case ll_limit r of None \<Rightarrow> 50 | Some n \<Rightarrow> n)"

definition ledger_page ::
  "host \<Rightarrow> ledger_list_request \<Rightarrow> ledger_entry list \<Rightarrow> engine_error + ledger_entry list \<times> string option" where
  "ledger_page h r entries =
     (let query = ledgerQueryFingerprint h r in
      case (if truthy (ll_cursor r) then cursorStart h (the (ll_cursor r)) query entries else Inr 0) of
        Inl err \<Rightarrow> Inl err
      | Inr start \<Rightarrow>
          (let page = js_slice entries (int start) (int start + page_limit r);
               hasMore = start + length page < length entries
           in Inr (page, if hasMore \<and> page \<noteq> []
                         then Some (h_encode_cursor h (json_cursor query (le_entry_id (last page))))
                         else None)))"

definition listLedger_run :: "host \<Rightarrow> ledger_list_request \<Rightarrow> catalog response engine_eff" where
  "listLedger_run h r =
     m_bind (activeMember (ll_member_id r)) (\<lambda>_.
     m_bind (expirePointLots h (Some (ll_member_id r)) None) (\<lambda>_.
     m_bind (m_get (ledger_entries h r)) (\<lambda>entries.
     m_bind (m_lift (ledger_page h r entries)) (\<lambda>pc.
     m_return (Ledger_list_response (responseContext h (ll_context r)) (fst pc) (snd pc))))))"

definition listLedger :: "host \<Rightarrow> ledger_list_request \<Rightarrow> catalog response engine_eff" where
  "listLedger h r =
     m_bind (assertProgramId (ll_program_id r)) (\<lambda>_.
     once h ''ledger.list'' (ll_context r) (json_ledger_list_request r) (listLedger_run h r))"

section \<open>Evaluation\<close>

definition primary_accrual :: "program \<Rightarrow> unit_amount list \<Rightarrow> unit_amount" where
  "primary_accrual p as =
     (case List.find (\<lambda>a. ua_unit a = primaryUnit p) as of
        None \<Rightarrow> \<lparr>ua_unit = primaryUnit p, ua_amount = 0\<rparr> | Some a \<Rightarrow> a)"

definition evaluate_run :: "host \<Rightarrow> order_request \<Rightarrow> catalog response engine_eff" where
  "evaluate_run h r =
     m_bind (activeMember (oq_member_id r)) (\<lambda>m.
     m_bind (assertOrder h (oq_order r) m) (\<lambda>_.
     m_bind (m_get (\<lambda>s. pg_rewards (eg_program s))) (\<lambda>rewards.
     m_bind (m_map (rewardCandidate h (oq_member_id r)) rewards) (\<lambda>candidates.
     m_bind (earningMultiplierBps h (oq_member_id r)) (\<lambda>multiplier.
     m_bind (m_get (\<lambda>s. accrualAmounts (eg_program s) (oq_order r) multiplier)) (\<lambda>amounts.
     m_bind (m_lift amounts) (\<lambda>accruals.
     m_bind (m_get eg_program) (\<lambda>p.
     m_bind (draw_id h ''eval'') (\<lambda>evaluationId.
     m_bind (balances h (oq_member_id r)) (\<lambda>bs.
     m_return (Evaluation_response (responseContext h (oq_context r)) evaluationId (oq_member_id r)
       (od_order_id (oq_order r)) (primary_accrual p accruals)
       (if length accruals > 1 then Some accruals else None) candidates bs
       (futureIso h (pg_evaluation_ttl_seconds p)))))))))))))"

definition evaluate :: "host \<Rightarrow> order_request \<Rightarrow> catalog response engine_eff" where
  "evaluate h r =
     once h ''order.evaluate'' (oq_context r) (json_order_request r) (evaluate_run h r)"

end
