(* ===== verification/Engine_Posting.thy ===== *)
theory Engine_Posting
  imports Engine_Members
begin

text \<open>
  The handlers of \<open>LoyaltyEngine\<close> that post to the ledger outside a redemption: issued
  rewards (issue, list, cancel), order accrual with the stamp-card thresholds, order
  adjustments and manual adjustments.
\<close>

section \<open>Issued rewards\<close>

text \<open>
  \<open>sameFacts\<close>. The last conjunct fingerprints both artifacts; for an absent one
  \<open>JSON.stringify\<close> yields \<open>undefined\<close>, which the hash refuses with a \<open>TypeError\<close>.
\<close>

definition same_issue_facts :: "host \<Rightarrow> issue_request \<Rightarrow> issued_reward \<Rightarrow> engine_error + bool" where
  "same_issue_facts h r w =
     (if \<not> (iw_member_id w = iq_member_id r \<and> iw_program_id w = iq_program_id r \<and>
             iw_reward_id w = iq_reward_id r \<and> iw_expires_at w = iq_expires_at r)
      then Inr False
      else (case (iw_artifact w, iq_artifact r) of
              (Some a, Some b) \<Rightarrow> Inr (fp h (json_artifact a) = fp h (json_artifact b))
            | _ \<Rightarrow> Inl TypeError))"

definition artifact_taken :: "engine \<Rightarrow> artifact option \<Rightarrow> bool" where
  "artifact_taken s a = (a \<noteq> None \<and> list_ex (\<lambda>w. iw_artifact w = a) (js_values (eg_issuedRewards s)))"

definition new_issued :: "host \<Rightarrow> issue_request \<Rightarrow> issued_reward" where
  "new_issued h r =
     \<lparr>iw_issued_reward_id = iq_issued_reward_id r, iw_member_id = iq_member_id r,
      iw_program_id = iq_program_id r, iw_reward_id = iq_reward_id r, iw_status = Issued,
      iw_issued_at = isoNow h, iw_expires_at = present (iq_expires_at r), iw_redeemed_at = None,
      iw_cancelled_at = None, iw_cancellation_reason = None, iw_artifact = iq_artifact r\<rparr>"

definition put_issued :: "string \<Rightarrow> issued_reward \<Rightarrow> engine \<Rightarrow> engine" where
  "put_issued wid w s = s\<lparr>eg_issuedRewards := js_set (eg_issuedRewards s) wid w\<rparr>"

definition issueReward_run :: "host \<Rightarrow> issue_request \<Rightarrow> catalog response engine_eff" where
  "issueReward_run h r =
     m_bind (activeMember (iq_member_id r)) (\<lambda>_.
     m_bind (m_get (\<lambda>s. list_ex (\<lambda>d. rd_reward_id d = iq_reward_id r) (pg_rewards (eg_program s)))) (\<lambda>known.
     m_bind (m_assert known (EngineError Not_found 404)) (\<lambda>_.
     m_bind (m_assert (\<not> (truthy (iq_expires_at r) \<and> due h (the (iq_expires_at r)))) (engine_err Err_expired)) (\<lambda>_.
     m_bind (m_get (\<lambda>s. js_get (eg_issuedRewards s) (iq_issued_reward_id r))) (\<lambda>existing.
     case existing of
       Some w \<Rightarrow>
         m_bind (m_lift (same_issue_facts h r w)) (\<lambda>same.
         m_bind (m_assert same (engine_err Conflict)) (\<lambda>_.
         m_return (Issued_response (responseContext h (iq_context r)) w)))
     | None \<Rightarrow>
         m_bind (m_get (\<lambda>s. artifact_taken s (iq_artifact r))) (\<lambda>taken.
         m_bind (m_assert (\<not> taken) (engine_err Conflict)) (\<lambda>_.
         m_bind (m_modify (put_issued (iq_issued_reward_id r) (new_issued h r))) (\<lambda>_.
         m_return (Issued_response (responseContext h (iq_context r)) (new_issued h r))))))))))"

definition issueReward :: "host \<Rightarrow> issue_request \<Rightarrow> catalog response engine_eff" where
  "issueReward h r =
     m_bind (assertProgramId (iq_program_id r)) (\<lambda>_.
     once h ''issued_reward.issue'' (iq_context r) (json_issue_request r) (issueReward_run h r))"

definition issued_list :: "host \<Rightarrow> issued_list_request \<Rightarrow> engine \<Rightarrow> issued_reward list" where
  "issued_list h r s =
     js_sort (\<lambda>l r. h_lc h (iw_issued_at r) (iw_issued_at l))
       (filter (\<lambda>w. iw_member_id w = il_member_id r \<and> opt_ok (\<lambda>ss. iw_status w \<in> set ss) (il_statuses r))
         (js_values (eg_issuedRewards s)))"

definition listIssuedRewards_run :: "host \<Rightarrow> issued_list_request \<Rightarrow> catalog response engine_eff" where
  "listIssuedRewards_run h r =
     m_bind (activeMember (il_member_id r)) (\<lambda>_.
     m_bind (expireIssuedRewards h (il_member_id r)) (\<lambda>_.
     m_bind (m_get (issued_list h r)) (\<lambda>ws.
     m_return (Issued_list_response (responseContext h (il_context r)) ws))))"

definition listIssuedRewards :: "host \<Rightarrow> issued_list_request \<Rightarrow> catalog response engine_eff" where
  "listIssuedRewards h r =
     m_bind (assertProgramId (il_program_id r)) (\<lambda>_.
     once h ''issued_reward.list'' (il_context r) (json_issued_list_request r) (listIssuedRewards_run h r))"

definition getIssued :: "string \<Rightarrow> issued_reward engine_eff" where
  "getIssued wid s =
     (case js_get (eg_issuedRewards s) wid of
        None \<Rightarrow> (Inl (EngineError Not_found 404), s) | Some w \<Rightarrow> (Inr w, s))"

definition set_issued :: "string \<Rightarrow> (issued_reward \<Rightarrow> issued_reward) \<Rightarrow> engine \<Rightarrow> engine" where
  "set_issued wid f s = s\<lparr>eg_issuedRewards := js_update (eg_issuedRewards s) wid f\<rparr>"

definition cancel_issued :: "host \<Rightarrow> string \<Rightarrow> issued_reward \<Rightarrow> issued_reward" where
  "cancel_issued h reason w =
     w\<lparr>iw_status := Cancelled, iw_cancelled_at := Some (isoNow h), iw_cancellation_reason := Some reason\<rparr>"

definition cancelIssuedReward_run :: "host \<Rightarrow> cancel_issued_request \<Rightarrow> catalog response engine_eff" where
  "cancelIssuedReward_run h r =
     m_bind (getIssued (ic_issued_reward_id r)) (\<lambda>_.
     m_bind (expireIssuedReward h (ic_issued_reward_id r)) (\<lambda>_.
     m_bind (getIssued (ic_issued_reward_id r)) (\<lambda>w.
     if iw_status w = Cancelled then m_return (Issued_response (responseContext h (ic_context r)) w)
     else
       m_bind (m_assert (iw_status w = Issued) (engine_err Invalid_state)) (\<lambda>_.
       m_bind (m_get (\<lambda>s. held_by_reservation s (iw_issued_reward_id w))) (\<lambda>held.
       m_bind (m_assert (\<not> held) (engine_err Invalid_state)) (\<lambda>_.
       m_bind (m_modify (set_issued (ic_issued_reward_id r) (cancel_issued h (ic_reason r)))) (\<lambda>_.
       m_return (Issued_response (responseContext h (ic_context r)) (cancel_issued h (ic_reason r) w)))))))))"

definition cancelIssuedReward :: "host \<Rightarrow> cancel_issued_request \<Rightarrow> catalog response engine_eff" where
  "cancelIssuedReward h r =
     once h ''issued_reward.cancel'' (ic_context r) (json_cancel_issued_request r) (cancelIssuedReward_run h r)"

section \<open>Stamp-card thresholds\<close>

definition stamp_prefix :: "string \<Rightarrow> string" where
  "stamp_prefix memberId = ''stamp-'' @ memberId @ ''-''"

definition starts_with :: "string \<Rightarrow> string \<Rightarrow> bool" where
  "starts_with prefix t = (take (length prefix) t = prefix)"

definition issued_cycles :: "engine \<Rightarrow> string \<Rightarrow> int" where
  "issued_cycles s memberId =
     int (length (filter (starts_with (stamp_prefix memberId)) (js_keys (eg_issuedRewards s))))"

definition accrued_total :: "engine \<Rightarrow> string \<Rightarrow> loyalty_unit \<Rightarrow> int" where
  "accrued_total s memberId u =
     (\<Sum>e\<leftarrow>filter (\<lambda>e. le_member_id e = memberId \<and> le_operation e = Accrual \<and> le_unit e = u)
              (js_values (eg_ledger s)). max 0 (le_amount e))"

definition eligible_cycles :: "host \<Rightarrow> string \<Rightarrow> visit_stamp_policy \<Rightarrow> int \<Rightarrow> int engine_eff" where
  "eligible_cycles h memberId v issued =
     (if vp_reset_on_issue v
      then m_bind (balance h memberId (vp_unit v)) (\<lambda>b. m_return (bl_amount b div vp_threshold v + issued))
      else m_get (\<lambda>s. accrued_total s memberId (vp_unit v) div vp_threshold v))"

definition stamp_context :: "req_context \<Rightarrow> int \<Rightarrow> string \<Rightarrow> req_context" where
  "stamp_context c n issuedRewardId =
     c\<lparr>cx_request_id := cx_request_id c @ '':stamp:'' @ dec_string n, cx_idempotency_key := issuedRewardId\<rparr>"

definition stamp_request ::
  "host \<Rightarrow> program \<Rightarrow> string \<Rightarrow> req_context \<Rightarrow> visit_stamp_policy \<Rightarrow> int \<Rightarrow> issue_request" where
  "stamp_request h p memberId c v n =
     (let issuedRewardId = stamp_prefix memberId @ dec_string n in
      \<lparr>iq_context = stamp_context c n issuedRewardId,
       iq_issued_reward_id = issuedRewardId,
       iq_member_id = memberId,
       iq_program_id = pg_program_id p,
       iq_reward_id = vp_issue_reward_id v,
       iq_expires_at = (case vp_issued_reward_ttl_seconds v of
                          None \<Rightarrow> None | Some t \<Rightarrow> if t = 0 then None else Some (futureIso h t)),
       iq_artifact = None\<rparr>)"

definition reset_input :: "string \<Rightarrow> visit_stamp_policy \<Rightarrow> int \<Rightarrow> ledger_input" where
  "reset_input memberId v n =
     (ledger_input_of memberId Adjustment (vp_unit v) (- vp_threshold v))
       \<lparr>li_adjustment_id := Some (stamp_prefix memberId @ dec_string n @ ''-reset''),
        li_reason := Some ''Stamp-card threshold reset'',
        li_qualifies_for_tier := Some False\<rparr>"

definition stamp_cycle :: "host \<Rightarrow> string \<Rightarrow> req_context \<Rightarrow> visit_stamp_policy \<Rightarrow> int \<Rightarrow> unit engine_eff" where
  "stamp_cycle h memberId c v n =
     m_bind (m_get (\<lambda>s. stamp_request h (eg_program s) memberId c v n)) (\<lambda>r.
     m_bind (issueReward h r) (\<lambda>_.
     if vp_reset_on_issue v
     then m_bind (addLedger h (reset_input memberId v n)) (\<lambda>_. m_return ())
     else m_return ()))"

text \<open>The \<open>while\<close> loop runs once for each number from \<open>issued + 1\<close> to \<open>eligible\<close>.\<close>

definition issueThresholdRewards :: "host \<Rightarrow> string \<Rightarrow> req_context \<Rightarrow> unit engine_eff" where
  "issueThresholdRewards h memberId c =
     m_bind (m_get (\<lambda>s. pg_visit_stamp_policy (eg_program s))) (\<lambda>policy.
     case policy of
       None \<Rightarrow> m_return ()
     | Some v \<Rightarrow>
         m_bind (m_get (\<lambda>s. issued_cycles s memberId)) (\<lambda>issued.
         m_bind (eligible_cycles h memberId v issued) (\<lambda>eligible.
         m_bind (m_map (stamp_cycle h memberId c v) [issued + 1..eligible]) (\<lambda>_.
         m_return ()))))"

section \<open>Accrual\<close>

definition expiring_input :: "host \<Rightarrow> ledger_input \<Rightarrow> ledger_input engine_eff" where
  "expiring_input h i =
     m_bind (m_get (\<lambda>s. input_unit (eg_program s) i)) (\<lambda>u.
     m_bind (m_get (\<lambda>s. expirationPolicy (eg_program s) u)) (\<lambda>x.
     if 0 < li_amount i \<and> x \<noteq> None
     then m_bind (pointExpirationIso h u) (\<lambda>t.
          m_return (i\<lparr>li_expires_at := Some t, li_create_point_lot := True\<rparr>))
     else m_return i))"

definition accrual_input :: "order_request \<Rightarrow> unit_amount \<Rightarrow> ledger_input" where
  "accrual_input r a =
     (ledger_input_of (oq_member_id r) Accrual (ua_unit a) (ua_amount a))
       \<lparr>li_order_id := Some (od_order_id (oq_order r)),
        li_location_id := Some (sc_location_id (od_scope (oq_order r)))\<rparr>"

definition post_accrual_entry :: "host \<Rightarrow> order_request \<Rightarrow> unit_amount \<Rightarrow> ledger_entry engine_eff" where
  "post_accrual_entry h r a =
     m_bind (expiring_input h (accrual_input r a)) (\<lambda>i. addLedger h i)"

definition primary_entry :: "program \<Rightarrow> ledger_entry list \<Rightarrow> ledger_entry" where
  "primary_entry p es =
     (case List.find (\<lambda>e. le_unit e = primaryUnit p) es of None \<Rightarrow> hd es | Some e \<Rightarrow> e)"

definition accrual_fingerprint :: "host \<Rightarrow> order_request \<Rightarrow> string" where
  "accrual_fingerprint h r = fp h (jobj
     [(''member_id'', jstr (oq_member_id r)), (''order'', Some (json_order (oq_order r)))])"

definition entries_of :: "engine \<Rightarrow> string list \<Rightarrow> ledger_entry list" where
  "entries_of s ids = List.map_filter (js_get (eg_ledger s)) ids"

definition accrual_entry_ids :: "accrual_record \<Rightarrow> string list" where
  "accrual_entry_ids a = (case ac_entryIds a of None \<Rightarrow> [ac_entryId a] | Some is \<Rightarrow> is)"

definition repeat_accrual :: "host \<Rightarrow> order_request \<Rightarrow> accrual_record \<Rightarrow> catalog response engine_eff" where
  "repeat_accrual h r a =
     m_bind (m_assert (ac_fingerprint a = accrual_fingerprint h r) (engine_err Conflict)) (\<lambda>_.
     m_bind (m_get (\<lambda>s. js_get (eg_ledger s) (ac_entryId a))) (\<lambda>existing.
     case existing of
       None \<Rightarrow> m_throw (engine_err Conflict)
     | Some e \<Rightarrow>
         m_bind (m_assert (le_member_id e = oq_member_id r) (engine_err Conflict)) (\<lambda>_.
         m_bind (m_get (\<lambda>s. entries_of s (accrual_entry_ids a))) (\<lambda>es.
         ledgerResponse h (oq_context r) e es))))"

definition record_accrual :: "host \<Rightarrow> order_request \<Rightarrow> int \<Rightarrow> ledger_entry list \<Rightarrow> engine \<Rightarrow> engine" where
  "record_accrual h r multiplier es s =
     s\<lparr>eg_accrualsByOrder := js_set (eg_accrualsByOrder s) (od_order_id (oq_order r))
        \<lparr>ac_entryId = le_entry_id (primary_entry (eg_program s) es),
         ac_entryIds = Some (map le_entry_id es),
         ac_fingerprint = accrual_fingerprint h r,
         ac_multiplierBps = multiplier\<rparr>\<rparr>"

definition first_accrual :: "host \<Rightarrow> order_request \<Rightarrow> catalog response engine_eff" where
  "first_accrual h r =
     m_bind (earningMultiplierBps h (oq_member_id r)) (\<lambda>multiplier.
     m_bind (m_get (\<lambda>s. accrualAmounts (eg_program s) (oq_order r) multiplier)) (\<lambda>amounts.
     m_bind (m_lift amounts) (\<lambda>accruals.
     m_bind (m_map (post_accrual_entry h r) accruals) (\<lambda>es.
     m_bind (m_modify (record_accrual h r multiplier es)) (\<lambda>_.
     m_bind (m_get (\<lambda>s. primary_entry (eg_program s) es)) (\<lambda>e.
     m_bind (issueThresholdRewards h (oq_member_id r) (oq_context r)) (\<lambda>_.
     ledgerResponse h (oq_context r) e es)))))))"

definition postAccrual_run :: "host \<Rightarrow> order_request \<Rightarrow> catalog response engine_eff" where
  "postAccrual_run h r =
     m_bind (activeMember (oq_member_id r)) (\<lambda>m.
     m_bind (assertOrder h (oq_order r) m) (\<lambda>_.
     m_bind (m_assert (od_status (oq_order r) = Paid) (engine_err Invalid_state)) (\<lambda>_.
     m_bind (m_get (\<lambda>s. js_get (eg_accrualsByOrder s) (od_order_id (oq_order r)))) (\<lambda>existing.
     case existing of
       Some a \<Rightarrow> repeat_accrual h r a
     | None \<Rightarrow> first_accrual h r))))"

definition postAccrual :: "host \<Rightarrow> order_request \<Rightarrow> catalog response engine_eff" where
  "postAccrual h r = once h ''accrual.post'' (oq_context r) (json_order_request r) (postAccrual_run h r)"

section \<open>Order adjustments\<close>

definition adjustment_moneys :: "order_adjustment \<Rightarrow> money list" where
  "adjustment_moneys a =
     [oa_order_total_delta a, oa_eligible_spend_delta a] @
     (case oa_lines a of None \<Rightarrow> [] | Some ls \<Rightarrow> map la_subtotal_delta ls)"

definition adjustment_fingerprint :: "host \<Rightarrow> adjust_request \<Rightarrow> string" where
  "adjustment_fingerprint h r = fp h (jobj
     [(''member_id'', jstr (dq_member_id r)), (''program_id'', jstr (dq_program_id r)),
      (''adjustment'', Some (json_adjustment (dq_adjustment r)))])"

definition repeat_adjustment ::
  "host \<Rightarrow> req_context \<Rightarrow> string \<Rightarrow> mutation_record \<Rightarrow> catalog response engine_eff" where
  "repeat_adjustment h c f a =
     m_bind (m_assert (mu_fingerprint a = f) (engine_err Conflict)) (\<lambda>_.
     m_bind (m_get (\<lambda>s. js_get (eg_ledger s) (mu_entryId a))) (\<lambda>existing.
     case existing of
       None \<Rightarrow> m_throw (EngineError Not_found 500)
     | Some e \<Rightarrow> ledgerResponse h c e [e]))"

definition prior_adjustments :: "engine \<Rightarrow> string \<Rightarrow> loyalty_unit \<Rightarrow> int" where
  "prior_adjustments s orderId u =
     (\<Sum>e\<leftarrow>filter (\<lambda>e. le_order_id e = Some orderId \<and> le_operation e = Adjustment \<and> le_unit e = u)
              (js_values (eg_ledger s)). le_amount e)"

definition entry_amount :: "ledger_entry option \<Rightarrow> int" where
  "entry_amount e = (case e of None \<Rightarrow> 0 | Some x \<Rightarrow> le_amount x)"

definition raw_adjustment ::
  "program \<Rightarrow> order_adjustment \<Rightarrow> int \<Rightarrow> bool \<Rightarrow> ledger_entry option \<Rightarrow> loyalty_unit \<Rightarrow> engine_error + int" where
  "raw_adjustment p a multiplier accrued original u =
     (if u = Points \<or> u = Credits then
        (if accrued \<and> original = None then Inr 0
         else pointsForSignedSpend p u (mo_amount (oa_eligible_spend_delta a)) multiplier)
      else if oa_type a \<in> {Full_refund, Void} then Inr (- entry_amount original)
      else Inr 0)"

text \<open>A clawback never takes back more than the order earned, less earlier adjustments.\<close>

definition bounded_adjustment :: "engine \<Rightarrow> order_adjustment \<Rightarrow> bool \<Rightarrow> ledger_entry option \<Rightarrow> loyalty_unit \<Rightarrow> int \<Rightarrow> int" where
  "bounded_adjustment s a accrued original u amount =
     (if amount < 0 \<and> accrued
      then max amount (- max 0 (entry_amount original + prior_adjustments s (oa_original_order_id a) u))
      else amount)"

definition adjustment_input :: "adjust_request \<Rightarrow> loyalty_unit \<Rightarrow> int \<Rightarrow> ledger_input" where
  "adjustment_input r u amount =
     (ledger_input_of (dq_member_id r) Adjustment u amount)
       \<lparr>li_order_id := Some (oa_original_order_id (dq_adjustment r)),
        li_adjustment_id := Some (oa_adjustment_id (dq_adjustment r))\<rparr>"

definition adjust_unit ::
  "host \<Rightarrow> adjust_request \<Rightarrow> int \<Rightarrow> bool \<Rightarrow> ledger_entry list \<Rightarrow> loyalty_unit \<Rightarrow> ledger_entry engine_eff" where
  "adjust_unit h r multiplier accrued originals u =
     (let a = dq_adjustment r; original = List.find (\<lambda>e. le_unit e = u) originals in
      m_bind (m_get (\<lambda>s. raw_adjustment (eg_program s) a multiplier accrued original u)) (\<lambda>raw.
      m_bind (m_lift raw) (\<lambda>n.
      m_bind (m_get (\<lambda>s. bounded_adjustment s a accrued original u n)) (\<lambda>amount.
      m_bind (if amount < 0 then consumePointLots h (dq_member_id r) u (- amount) None else m_return ()) (\<lambda>_.
      m_bind (expiring_input h (adjustment_input r u amount)) (\<lambda>i.
      addLedger h i))))))"

definition original_multiplier :: "host \<Rightarrow> adjust_request \<Rightarrow> accrual_record option \<Rightarrow> member \<Rightarrow> int engine_eff" where
  "original_multiplier h r original m =
     (case original of
        Some a \<Rightarrow> m_return (ac_multiplierBps a)
      | None \<Rightarrow> earningMultiplierBps h (mb_member_id m))"

definition record_adjustment :: "string \<Rightarrow> string \<Rightarrow> string list option \<Rightarrow> string \<Rightarrow> engine \<Rightarrow> engine" where
  "record_adjustment adjustmentId entryId entryIds f s =
     s\<lparr>eg_adjustments := js_set (eg_adjustments s) adjustmentId
        \<lparr>mu_entryId = entryId, mu_entryIds = entryIds, mu_fingerprint = f\<rparr>\<rparr>"

definition first_adjustment :: "host \<Rightarrow> adjust_request \<Rightarrow> member \<Rightarrow> catalog response engine_eff" where
  "first_adjustment h r m =
     (let a = dq_adjustment r in
      m_bind (m_get (\<lambda>s. js_get (eg_accrualsByOrder s) (oa_original_order_id a))) (\<lambda>original.
      m_bind (original_multiplier h r original m) (\<lambda>multiplier.
      m_bind (m_get (\<lambda>s. entries_of s (case original of None \<Rightarrow> [] | Some x \<Rightarrow> accrual_entry_ids x))) (\<lambda>originals.
      m_bind (m_get (\<lambda>s. accountUnits (eg_program s))) (\<lambda>units.
      m_bind (m_map (adjust_unit h r multiplier (original \<noteq> None) originals) units) (\<lambda>es.
      m_bind (m_get (\<lambda>s. primary_entry (eg_program s) es)) (\<lambda>e.
      m_bind (m_modify (record_adjustment (oa_adjustment_id a) (le_entry_id e)
        (Some (map le_entry_id es)) (adjustment_fingerprint h r))) (\<lambda>_.
      ledgerResponse h (dq_context r) e es))))))))"

definition adjustOrder_run :: "host \<Rightarrow> adjust_request \<Rightarrow> catalog response engine_eff" where
  "adjustOrder_run h r =
     (let a = dq_adjustment r in
      m_bind (activeMember (dq_member_id r)) (\<lambda>m.
      m_bind (expirePointLots h (Some (dq_member_id r)) None) (\<lambda>_.
      m_bind (m_get (\<lambda>s. pg_currency (eg_program s))) (\<lambda>currency.
      m_bind (m_assert (mo_currency (oa_eligible_spend_delta a) = currency) (engine_err Currency_mismatch)) (\<lambda>_.
      m_bind (m_assert (list_all (\<lambda>x. mo_currency x = currency) (adjustment_moneys a)) (engine_err Currency_mismatch)) (\<lambda>_.
      m_bind (m_assert (\<not> (oa_type a \<noteq> Correction \<and>
          (mo_amount (oa_order_total_delta a) > 0 \<or> mo_amount (oa_eligible_spend_delta a) > 0)))
        (engine_err Invalid_state)) (\<lambda>_.
      m_bind (m_get (\<lambda>s. js_get (eg_adjustments s) (oa_adjustment_id a))) (\<lambda>existing.
      case existing of
        Some x \<Rightarrow> repeat_adjustment h (dq_context r) (adjustment_fingerprint h r) x
      | None \<Rightarrow> first_adjustment h r m))))))))"

definition adjustOrder :: "host \<Rightarrow> adjust_request \<Rightarrow> catalog response engine_eff" where
  "adjustOrder h r =
     m_bind (assertProgramId (dq_program_id r)) (\<lambda>_.
     once h ''order.adjust'' (dq_context r) (json_adjust_request r) (adjustOrder_run h r))"

section \<open>Manual adjustments\<close>

definition manual_unit :: "program \<Rightarrow> manual_request \<Rightarrow> loyalty_unit" where
  "manual_unit p r = (case mq_unit r of None \<Rightarrow> primaryUnit p | Some u \<Rightarrow> u)"

definition manual_fingerprint :: "host \<Rightarrow> loyalty_unit \<Rightarrow> manual_request \<Rightarrow> string" where
  "manual_fingerprint h u r = fp h (jobj
     [(''member_id'', jstr (mq_member_id r)), (''program_id'', jstr (mq_program_id r)),
      (''adjustment_id'', jstr (mq_adjustment_id r)), (''unit'', jstr (unit_string u)),
      (''amount'', jnum (mq_amount r)), (''classification'', jstr (classification_string (mq_classification r))),
      (''reason'', jstr (mq_reason r)), (''qualifies_for_tier'', Some (JBool (mq_qualifies_for_tier r))),
      (''expires_at'', jstr_opt (mq_expires_at r))])"

definition manual_expiry :: "host \<Rightarrow> loyalty_unit \<Rightarrow> manual_request \<Rightarrow> string option engine_eff" where
  "manual_expiry h u r =
     (if mq_amount r > 0 then
        (case mq_expires_at r of
           Some t \<Rightarrow> m_return (Some t)
         | None \<Rightarrow>
             m_bind (m_get (\<lambda>s. expirationPolicy (eg_program s) u)) (\<lambda>x.
             if x = None then m_return None
             else m_bind (pointExpirationIso h u) (\<lambda>t. m_return (Some t))))
      else m_return None)"

definition manual_input :: "manual_request \<Rightarrow> loyalty_unit \<Rightarrow> string option \<Rightarrow> ledger_input" where
  "manual_input r u expiresAt =
     (ledger_input_of (mq_member_id r) Manual u (mq_amount r))
       \<lparr>li_adjustment_id := Some (mq_adjustment_id r),
        li_classification := Some (mq_classification r),
        li_reason := Some (mq_reason r),
        li_qualifies_for_tier := Some (mq_qualifies_for_tier r),
        li_expires_at := present expiresAt,
        li_create_point_lot := truthy expiresAt\<rparr>"

definition first_manual :: "host \<Rightarrow> manual_request \<Rightarrow> loyalty_unit \<Rightarrow> catalog response engine_eff" where
  "first_manual h r u =
     m_bind (if mq_amount r < 0 then consumePointLots h (mq_member_id r) u (- mq_amount r) None
             else m_return ()) (\<lambda>_.
     m_bind (manual_expiry h u r) (\<lambda>expiresAt.
     m_bind (addLedger h (manual_input r u expiresAt)) (\<lambda>e.
     m_bind (m_modify (record_adjustment (mq_adjustment_id r) (le_entry_id e) None (manual_fingerprint h u r))) (\<lambda>_.
     ledgerResponse h (mq_context r) e [e]))))"

definition postManualAdjustment_run :: "host \<Rightarrow> manual_request \<Rightarrow> catalog response engine_eff" where
  "postManualAdjustment_run h r =
     m_bind (activeMember (mq_member_id r)) (\<lambda>_.
     m_bind (m_get (\<lambda>s. manual_unit (eg_program s) r)) (\<lambda>u.
     m_bind (m_get (\<lambda>s. assertAccountUnit (eg_program s) u)) (\<lambda>ok.
     m_bind (m_lift ok) (\<lambda>_.
     m_bind (expirePointLots h (Some (mq_member_id r)) (Some u)) (\<lambda>_.
     m_bind (m_assert (mq_amount r \<noteq> 0) (engine_err Invalid_state)) (\<lambda>_.
     m_bind (m_assert (\<not> (mq_amount r < 0 \<and> truthy (mq_expires_at r))) (engine_err Invalid_state)) (\<lambda>_.
     m_bind (m_assert (\<not> (truthy (mq_expires_at r) \<and> due h (the (mq_expires_at r)))) (engine_err Err_expired)) (\<lambda>_.
     m_bind (m_get (\<lambda>s. js_get (eg_adjustments s) (mq_adjustment_id r))) (\<lambda>existing.
     case existing of
       Some x \<Rightarrow> repeat_adjustment h (mq_context r) (manual_fingerprint h u r) x
     | None \<Rightarrow> first_manual h r u)))))))))"

definition postManualAdjustment :: "host \<Rightarrow> manual_request \<Rightarrow> catalog response engine_eff" where
  "postManualAdjustment h r =
     m_bind (assertProgramId (mq_program_id r)) (\<lambda>_.
     once h ''ledger.manual'' (mq_context r) (json_manual_request r) (postManualAdjustment_run h r))"

end
