(* ===== verification/Engine_Redemption.thy ===== *)
theory Engine_Redemption
  imports Engine_Posting
begin

text \<open>
  Redemption in two phases: \<open>reserve\<close> holds a cost against the available balance,
  \<open>capture\<close> debits it, \<open>reverse\<close> gives a captured cost back or drops a held one.
\<close>

section \<open>Reserve\<close>

definition reserve_fingerprint :: "host \<Rightarrow> reserve_request \<Rightarrow> string" where
  "reserve_fingerprint h r = fp h (jobj
     [(''member_id'', jstr (rq_member_id r)), (''reward_id'', jstr (rq_reward_id r)),
      (''issued_reward_id'', jstr_opt (rq_issued_reward_id r)),
      (''order'', Some (json_order (rq_order r)))])"

definition find_reward :: "program \<Rightarrow> string \<Rightarrow> reward_definition option" where
  "find_reward p rewardId = List.find (\<lambda>d. rd_reward_id d = rewardId) (pg_rewards p)"

definition check_issued :: "host \<Rightarrow> reserve_request \<Rightarrow> string \<Rightarrow> issued_reward engine_eff" where
  "check_issued h r wid =
     m_bind (getIssued wid) (\<lambda>_.
     m_bind (expireIssuedReward h wid) (\<lambda>_.
     m_bind (getIssued wid) (\<lambda>w.
     m_bind (m_assert (iw_member_id w = rq_member_id r \<and> iw_reward_id w = rq_reward_id r) (engine_err Conflict)) (\<lambda>_.
     m_bind (m_assert (iw_status w = Issued) (engine_err Invalid_state)) (\<lambda>_.
     m_bind (m_get (\<lambda>s. held_by_reservation s (iw_issued_reward_id w))) (\<lambda>held.
     m_bind (m_assert (\<not> held) (engine_err Conflict)) (\<lambda>_.
     m_return w)))))))"

definition check_funds :: "host \<Rightarrow> reserve_request \<Rightarrow> reward_definition \<Rightarrow> unit engine_eff" where
  "check_funds h r d =
     m_bind (m_get (\<lambda>s. membershipUnavailable h s d (rq_member_id r))) (\<lambda>locked.
     m_bind (m_assert (\<not> locked) (engine_err Reward_not_available)) (\<lambda>_.
     m_bind (m_get (\<lambda>s. rewardCost (eg_program s) d)) (\<lambda>cost.
     m_bind (balance h (rq_member_id r) (ua_unit cost)) (\<lambda>b.
     m_assert (ua_amount cost \<le> bl_available b) (engine_err Insufficient_balance)))))"

definition new_reservation ::
  "host \<Rightarrow> reserve_request \<Rightarrow> reward_definition \<Rightarrow> issued_reward option \<Rightarrow> string \<Rightarrow> engine \<Rightarrow> reservation" where
  "new_reservation h r d w rid s =
     \<lparr>rs_reservation_id = rid,
      rs_redemption_id = rq_redemption_id r,
      rs_member_id = rq_member_id r,
      rs_reward_id = rd_reward_id d,
      rs_issued_reward_id = map_option iw_issued_reward_id w,
      rs_order_id = od_order_id (rq_order r),
      rs_location_id = Some (sc_location_id (od_scope (rq_order r))),
      rs_status = Reserved,
      rs_cost = \<lparr>ua_unit = ua_unit (rewardCost (eg_program s) d),
                 ua_amount = (if w = None then ua_amount (rewardCost (eg_program s) d) else 0)\<rparr>,
      rs_effect = rd_effect d,
      rs_funding = fundingAllocations (h_lc h) d,
      rs_created_at = isoNow h,
      rs_expires_at = futureIso h (pg_reservation_ttl_seconds (eg_program s)),
      rs_captured_at = None,
      rs_reversed_at = None\<rparr>"

definition put_reservation :: "string \<Rightarrow> reservation \<Rightarrow> engine \<Rightarrow> engine" where
  "put_reservation f r s =
     s\<lparr>eg_reservations := js_set (eg_reservations s) (rs_reservation_id r) r,
       eg_reservationsByRedemption := js_set (eg_reservationsByRedemption s) (rs_redemption_id r)
         \<lparr>rr_reservationId = rs_reservation_id r, rr_fingerprint = f\<rparr>\<rparr>"

definition create_reservation ::
  "host \<Rightarrow> reserve_request \<Rightarrow> reward_definition \<Rightarrow> issued_reward option \<Rightarrow> catalog response engine_eff" where
  "create_reservation h r d w =
     m_bind (draw_id h ''reservation'') (\<lambda>rid.
     m_bind (m_get (new_reservation h r d w rid)) (\<lambda>x.
     m_bind (m_modify (put_reservation (reserve_fingerprint h r) x)) (\<lambda>_.
     reservationResponse h (rq_context r) x)))"

definition repeat_reserve :: "host \<Rightarrow> reserve_request \<Rightarrow> reservation_record \<Rightarrow> catalog response engine_eff" where
  "repeat_reserve h r a =
     m_bind (m_assert (rr_fingerprint a = reserve_fingerprint h r) (engine_err Conflict)) (\<lambda>_.
     m_bind (getReservation (rr_reservationId a)) (\<lambda>x.
     reservationResponse h (rq_context r) x))"

definition first_reserve :: "host \<Rightarrow> reserve_request \<Rightarrow> catalog response engine_eff" where
  "first_reserve h r =
     m_bind (m_get (\<lambda>s. find_reward (eg_program s) (rq_reward_id r))) (\<lambda>found.
     case found of
       None \<Rightarrow> m_throw (EngineError Reward_not_found 404)
     | Some d \<Rightarrow>
         m_bind (m_assert (rewardWindowReason h d = None) (engine_err Reward_not_available)) (\<lambda>_.
         if truthy (rq_issued_reward_id r)
         then m_bind (check_issued h r (the (rq_issued_reward_id r))) (\<lambda>w. create_reservation h r d (Some w))
         else m_bind (check_funds h r d) (\<lambda>_. create_reservation h r d None)))"

definition reserve_run :: "host \<Rightarrow> reserve_request \<Rightarrow> catalog response engine_eff" where
  "reserve_run h r =
     m_bind (activeMember (rq_member_id r)) (\<lambda>m.
     m_bind (assertOrder h (rq_order r) m) (\<lambda>_.
     m_bind (m_get (\<lambda>s. js_get (eg_reservationsByRedemption s) (rq_redemption_id r))) (\<lambda>existing.
     case existing of
       Some a \<Rightarrow> repeat_reserve h r a
     | None \<Rightarrow> first_reserve h r)))"

definition reserve :: "host \<Rightarrow> reserve_request \<Rightarrow> catalog response engine_eff" where
  "reserve h r = once h ''redemption.reserve'' (rq_context r) (json_reserve_request r) (reserve_run h r)"

section \<open>Capture\<close>

definition set_reservation :: "string \<Rightarrow> (reservation \<Rightarrow> reservation) \<Rightarrow> engine \<Rightarrow> engine" where
  "set_reservation rid f s = s\<lparr>eg_reservations := js_update (eg_reservations s) rid f\<rparr>"

definition captured :: "host \<Rightarrow> reservation \<Rightarrow> reservation" where
  "captured h r = r\<lparr>rs_status := Captured, rs_captured_at := Some (isoNow h)\<rparr>"

definition redemption_input :: "reservation \<Rightarrow> ledger_operation \<Rightarrow> int \<Rightarrow> ledger_input" where
  "redemption_input r oper amount =
     (ledger_input_of (rs_member_id r) oper (ua_unit (rs_cost r)) amount)
       \<lparr>li_order_id := Some (rs_order_id r), li_location_id := present (rs_location_id r),
        li_reservation_id := Some (rs_reservation_id r)\<rparr>"

definition debit_reservation :: "host \<Rightarrow> reservation \<Rightarrow> unit engine_eff" where
  "debit_reservation h r =
     (if ua_amount (rs_cost r) > 0 then
        m_bind (consumePointLots h (rs_member_id r) (ua_unit (rs_cost r)) (ua_amount (rs_cost r))
          (Some (rs_reservation_id r))) (\<lambda>_.
        m_bind (addLedger h (redemption_input r Redemption (- ua_amount (rs_cost r)))) (\<lambda>_.
        m_return ()))
      else m_return ())"

definition redeem_issued :: "host \<Rightarrow> string option \<Rightarrow> unit engine_eff" where
  "redeem_issued h wid =
     (if truthy wid then
        m_bind (m_get (\<lambda>s. js_get (eg_issuedRewards s) (the wid))) (\<lambda>w.
        m_bind (m_assert (map_option iw_status w = Some Issued) (engine_err Invalid_state)) (\<lambda>_.
        m_modify (set_issued (the wid)
          (\<lambda>w. w\<lparr>iw_status := Redeemed, iw_redeemed_at := Some (isoNow h)\<rparr>))))
      else m_return ())"

definition respond_reservation :: "host \<Rightarrow> req_context \<Rightarrow> string \<Rightarrow> catalog response engine_eff" where
  "respond_reservation h c rid = m_bind (getReservation rid) (\<lambda>r. reservationResponse h c r)"

definition capture_reserved :: "host \<Rightarrow> capture_request \<Rightarrow> reservation \<Rightarrow> catalog response engine_eff" where
  "capture_reserved h q r =
     m_bind (m_get (\<lambda>s. assertAccountUnit (eg_program s) (ua_unit (rs_cost r)))) (\<lambda>ok.
     m_bind (m_lift ok) (\<lambda>_.
     m_bind (balance h (rs_member_id r) (ua_unit (rs_cost r))) (\<lambda>b.
     m_bind (m_assert (ua_amount (rs_cost r) \<le> bl_amount b) (engine_err Insufficient_balance)) (\<lambda>_.
     m_bind (debit_reservation h r) (\<lambda>_.
     m_bind (m_modify (set_reservation (cq_reservation_id q) (captured h))) (\<lambda>_.
     m_bind (redeem_issued h (rs_issued_reward_id r)) (\<lambda>_.
     respond_reservation h (cq_context q) (cq_reservation_id q))))))))"

definition capture_run :: "host \<Rightarrow> capture_request \<Rightarrow> catalog response engine_eff" where
  "capture_run h q =
     m_bind (getReservation (cq_reservation_id q)) (\<lambda>_.
     m_bind (expireReservation h (cq_reservation_id q)) (\<lambda>_.
     m_bind (getReservation (cq_reservation_id q)) (\<lambda>r.
     m_bind (m_assert (rs_order_id r = cq_order_id q) (engine_err Conflict)) (\<lambda>_.
     if rs_status r = Captured then reservationResponse h (cq_context q) r
     else if rs_status r = Expired then m_throw (engine_err Err_expired)
     else if rs_status r \<noteq> Reserved then m_throw (engine_err Invalid_state)
     else capture_reserved h q r))))"

definition capture :: "host \<Rightarrow> capture_request \<Rightarrow> catalog response engine_eff" where
  "capture h q = once h ''redemption.capture'' (cq_context q) (json_capture_request q) (capture_run h q)"

section \<open>Reverse\<close>

definition reversed :: "host \<Rightarrow> reservation \<Rightarrow> reservation" where
  "reversed h r = r\<lparr>rs_status := Reversed, rs_reversed_at := Some (isoNow h)\<rparr>"

definition refund_reservation :: "host \<Rightarrow> reservation \<Rightarrow> unit engine_eff" where
  "refund_reservation h r =
     (if ua_amount (rs_cost r) > 0 then
        m_bind (restorePointLots (rs_reservation_id r)) (\<lambda>_.
        m_bind (addLedger h (redemption_input r Reversal (ua_amount (rs_cost r)))) (\<lambda>_.
        expirePointLots h (Some (rs_member_id r)) (Some (ua_unit (rs_cost r)))))
      else m_return ())"

definition reissue :: "issued_reward \<Rightarrow> issued_reward" where
  "reissue w = (if iw_status w = Redeemed then w\<lparr>iw_status := Issued, iw_redeemed_at := None\<rparr> else w)"

definition return_issued :: "string option \<Rightarrow> unit engine_eff" where
  "return_issued wid =
     (if truthy wid then m_modify (set_issued (the wid) reissue) else m_return ())"

definition undo_capture :: "host \<Rightarrow> reservation \<Rightarrow> unit engine_eff" where
  "undo_capture h r =
     (if rs_status r = Captured then
        m_bind (m_get (\<lambda>s. assertAccountUnit (eg_program s) (ua_unit (rs_cost r)))) (\<lambda>ok.
        m_bind (m_lift ok) (\<lambda>_.
        m_bind (refund_reservation h r) (\<lambda>_.
        return_issued (rs_issued_reward_id r))))
      else m_return ())"

definition reverse_run :: "host \<Rightarrow> reverse_request \<Rightarrow> catalog response engine_eff" where
  "reverse_run h q =
     m_bind (getReservation (vq_reservation_id q)) (\<lambda>_.
     m_bind (expireReservation h (vq_reservation_id q)) (\<lambda>_.
     m_bind (getReservation (vq_reservation_id q)) (\<lambda>r.
     if rs_status r = Reversed then reservationResponse h (vq_context q) r
     else if rs_status r = Expired then m_throw (engine_err Err_expired)
     else
       m_bind (undo_capture h r) (\<lambda>_.
       m_bind (m_modify (set_reservation (vq_reservation_id q) (reversed h))) (\<lambda>_.
       respond_reservation h (vq_context q) (vq_reservation_id q))))))"

definition reverse :: "host \<Rightarrow> reverse_request \<Rightarrow> catalog response engine_eff" where
  "reverse h q = once h ''redemption.reverse'' (vq_context q) (json_reverse_request q) (reverse_run h q)"

end
