(* ===== verification/Program_Models.thy ===== *)
theory Program_Models
  imports Program_Rules
begin

text \<open>
  packages/reference/src/program-configuration.ts: which program model a definition
  follows, and the model templates that the admin snapshot carries.
\<close>

datatype program_model = Model_points | Model_visits | Model_wallet_credit | Model_paid_membership | Model_hybrid

definition model_of_string :: "string \<Rightarrow> program_model option" where
  "model_of_string t =
     map_of [(''points'', Model_points), (''visits'', Model_visits), (''wallet_credit'', Model_wallet_credit),
             (''paid_membership'', Model_paid_membership), (''hybrid'', Model_hybrid)] t"

datatype model_status = Model_active | Model_available | Model_planned
datatype model_support = Implemented | Planned

record model_template =
  mt_model_id :: program_model
  mt_name :: string
  mt_summary :: string
  mt_best_for :: string
  mt_cadence :: string
  mt_status :: model_status
  mt_engine_support :: model_support
  mt_admin_write_support :: model_support
  mt_supported_features :: "string list"
  mt_blockers :: "string list"
  mt_next_steps :: "string list"

record program_configuration =
  pc_current_model_id :: program_model
  pc_editable :: bool
  pc_publish_supported :: bool
  pc_templates :: "model_template list"
  pc_next_actions :: "string list"

text \<open>A seed has every field but \<open>status\<close>, which is filled in per program.\<close>

definition template_seed ::
  "program_model \<Rightarrow> string \<Rightarrow> string \<Rightarrow> string \<Rightarrow> string \<Rightarrow> string list \<Rightarrow> string \<Rightarrow> model_template" where
  "template_seed m name summary best_for cadence features step =
     \<lparr>mt_model_id = m, mt_name = name, mt_summary = summary, mt_best_for = best_for, mt_cadence = cadence,
      mt_status = Model_available, mt_engine_support = Implemented, mt_admin_write_support = Implemented,
      mt_supported_features = features, mt_blockers = [], mt_next_steps = [step]\<rparr>"

definition templateSeeds :: "model_template list" where
  "templateSeeds =
     [template_seed Model_points ''Points and tiers''
        ''Earn points on eligible spend, qualify into tiers, and redeem catalog rewards.''
        ''QSR, casual dining, coffee chains'' ''Every transaction''
        [''Spend-based points'', ''Annual tiers'', ''Earned-date expiration'',
         ''Reward reserve, capture, and reversal'', ''Refund-safe adjustments'']
        ''Use the Admin draft, validation, publish, and rollback workflow.'',
      template_seed Model_visits ''Visit or stamp card''
        ''Count visits or item purchases toward simple unlocks like buy 9, get 1.''
        ''Coffee, bakery, counter service'' ''Visit count''
        [''Visit metrics'', ''Stamp thresholds'', ''Issued reward wallet'']
        ''Configure the threshold reward and publish the stamp-card draft.'',
      template_seed Model_wallet_credit ''Wallet credit''
        ''Return a percent of qualifying spend as store credit or house cash.''
        ''High-frequency brands'' ''Spend-based''
        [''Credit units'', ''Liability reporting'', ''Expiration and adjustment reasons'']
        ''Configure earn basis points, liability class, expiration, and rewards.'',
      template_seed Model_paid_membership ''Paid membership''
        ''Attach perks, multipliers, and exclusive rewards to a subscription or club.''
        ''Premium operators and clubs'' ''Recurring''
        [''Membership status'', ''Perk eligibility'', ''Recurring billing hooks'']
        ''Configure plans, multipliers, gated rewards, and a billing-event adapter.'',
      template_seed Model_hybrid ''Hybrid rewards''
        ''Combine points, tiers, wallet credit, and campaign rewards in one program.''
        ''Multi-location groups'' ''Rules-based''
        [''Multiple account units'', ''Per-unit earning and reward costs'',
         ''Independent expiration and reservations'', ''Campaign and segment targeting'']
        ''Configure account units, earning policies, and each reward's cost unit.'']"

definition metadataModel :: "program \<Rightarrow> program_model option" where
  "metadataModel p =
     (case Option.bind (pg_metadata p) (\<lambda>fs. map_of fs ''program_model'') of
        Some (JStr t) \<Rightarrow> model_of_string t | _ \<Rightarrow> None)"

definition inferProgramModel :: "program \<Rightarrow> program_model" where
  "inferProgramModel p =
     (case metadataModel p of
        Some m \<Rightarrow> m
      | None \<Rightarrow>
          (let units = set (accountUnits p) in
           if card units > 1 then Model_hybrid
           else if Credits \<in> units then Model_wallet_credit
           else if Visits \<in> units \<or> Stamps \<in> units then Model_visits
           else Model_points))"

definition with_status :: "program_model \<Rightarrow> model_template \<Rightarrow> model_template" where
  "with_status current t =
     t\<lparr>mt_status := (if mt_model_id t = current then Model_active
                     else if mt_engine_support t = Implemented then Model_available else Model_planned)\<rparr>"

definition known_models :: "program_model list" where
  "known_models = [Model_points, Model_visits, Model_wallet_credit, Model_paid_membership, Model_hybrid]"

definition programConfigurationFor :: "program \<Rightarrow> program_configuration" where
  "programConfigurationFor p =
     (let current = inferProgramModel p in
      \<lparr>pc_current_model_id = current,
       pc_editable = (current \<in> set known_models),
       pc_publish_supported = (current \<in> set known_models),
       pc_templates = map (with_status current) templateSeeds,
       pc_next_actions =
         [''Edit and validate the active program draft in Admin.'',
          ''Publish compatible changes without restarting the reference server.'',
          ''Rollback to one of the 20 retained published revisions.'',
          ''Create scoped users or machine keys for each production integration.'']\<rparr>)"

text \<open>Exactly one template is shown as active, the one of the current model.\<close>

lemma one_active_template:
  "filter (\<lambda>t. mt_status t = Model_active) (pc_templates (programConfigurationFor p)) =
     filter (\<lambda>t. mt_model_id t = inferProgramModel p) (pc_templates (programConfigurationFor p)) \<and>
   length (filter (\<lambda>t. mt_status t = Model_active) (pc_templates (programConfigurationFor p))) = 1"
  by (cases "inferProgramModel p")
    (simp_all add: programConfigurationFor_def templateSeeds_def template_seed_def with_status_def Let_def)

lemma pc_editable_always: "pc_editable (programConfigurationFor p)"
  by (cases "inferProgramModel p") (simp_all add: programConfigurationFor_def known_models_def Let_def)

end
