(* ===== verification/Engine_Admin.thy ===== *)
theory Engine_Admin
  imports Engine_Redemption Program_Models
begin

text \<open>
  Construction and administration of \<open>LoyaltyEngine\<close>: exporting and restoring state,
  reconfiguring the program under live state, and the ledger and admin inspections.
\<close>

section \<open>Stored state\<close>

record engine_state =
  es_version :: int
  es_program_id :: string
  es_program_fingerprint :: string
  es_saved_at :: string
  es_members :: "(string \<times> member) list"
  es_identity_index :: "(string \<times> string) list"
  es_points :: "(string \<times> int) list"
  es_reservations :: "(string \<times> reservation) list"
  es_ledger :: "(string \<times> ledger_entry) list"
  es_point_lots :: "(string \<times> lot) list"
  es_point_lot_consumptions :: "(string \<times> lot_consumption list) list"
  es_idempotency :: "(string \<times> idempotency_record) list"
  es_accruals_by_order :: "(string \<times> accrual_record) list"
  es_adjustments :: "(string \<times> mutation_record) list"
  es_reservations_by_redemption :: "(string \<times> reservation_record) list"
  es_issued_rewards :: "(string \<times> issued_reward) list option"

definition programDefinitionFingerprint :: "host \<Rightarrow> program \<Rightarrow> string" where
  "programDefinitionFingerprint h p = fp h (json_program p)"

definition exportState :: "host \<Rightarrow> engine \<Rightarrow> engine_state" where
  "exportState h s =
     \<lparr>es_version = 1,
      es_program_id = pg_program_id (eg_program s),
      es_program_fingerprint = programDefinitionFingerprint h (eg_program s),
      es_saved_at = isoNow h,
      es_members = eg_members s,
      es_identity_index = eg_identityIndex s,
      es_points = eg_points s,
      es_reservations = eg_reservations s,
      es_ledger = eg_ledger s,
      es_point_lots = eg_pointLots s,
      es_point_lot_consumptions = eg_pointLotConsumptions s,
      es_idempotency = eg_idempotency s,
      es_accruals_by_order = eg_accrualsByOrder s,
      es_adjustments = eg_adjustments s,
      es_reservations_by_redemption = eg_reservationsByRedemption s,
      es_issued_rewards = Some (eg_issuedRewards s)\<rparr>"

definition retargetProgramState ::
  "host \<Rightarrow> engine_state \<Rightarrow> program \<Rightarrow> program \<Rightarrow> engine_error + engine_state" where
  "retargetProgramState h st current next =
     (case assertCompatibleProgramUpdate current next of
        Inl e \<Rightarrow> Inl e
      | Inr _ \<Rightarrow>
          if es_program_id st \<noteq> pg_program_id current \<or>
             es_program_fingerprint st \<noteq> programDefinitionFingerprint h current
          then Inl (EngineError Invalid_state 500)
          else Inr (st\<lparr>es_program_fingerprint := programDefinitionFingerprint h next\<rparr>))"

text \<open>\<open>restoreMap\<close>: no duplicate keys, then every entry is set in the target.\<close>

definition set_all :: "('k \<times> 'v) list \<Rightarrow> ('k, 'v) jsmap \<Rightarrow> ('k, 'v) jsmap" where
  "set_all entries target = foldl (\<lambda>m (k, v). js_set m k v) target entries"

definition restoreMap :: "('k \<times> 'v) list \<Rightarrow> (engine \<Rightarrow> engine) \<Rightarrow> unit engine_eff" where
  "restoreMap entries write =
     m_bind (m_assert (keys_ok entries) (EngineError Invalid_state 500)) (\<lambda>_. m_modify write)"

definition stored_issued :: "engine_state \<Rightarrow> (string \<times> issued_reward) list" where
  "stored_issued st = (case es_issued_rewards st of None \<Rightarrow> [] | Some ws \<Rightarrow> ws)"

text \<open>The maps are restored one after the other, each from its field.\<close>

definition restore_maps :: "engine_state \<Rightarrow> unit engine_eff" where
  "restore_maps st =
     m_bind (restoreMap (es_members st)
       (\<lambda>s. s\<lparr>eg_members := set_all (es_members st) (eg_members s)\<rparr>)) (\<lambda>_.
     m_bind (restoreMap (es_identity_index st)
       (\<lambda>s. s\<lparr>eg_identityIndex := set_all (es_identity_index st) (eg_identityIndex s)\<rparr>)) (\<lambda>_.
     m_bind (restoreMap (es_points st)
       (\<lambda>s. s\<lparr>eg_points := set_all (es_points st) (eg_points s)\<rparr>)) (\<lambda>_.
     m_bind (restoreMap (es_reservations st)
       (\<lambda>s. s\<lparr>eg_reservations := set_all (es_reservations st) (eg_reservations s)\<rparr>)) (\<lambda>_.
     m_bind (restoreMap (es_ledger st)
       (\<lambda>s. s\<lparr>eg_ledger := set_all (es_ledger st) (eg_ledger s)\<rparr>)) (\<lambda>_.
     m_bind (restoreMap (es_point_lots st)
       (\<lambda>s. s\<lparr>eg_pointLots := set_all (es_point_lots st) (eg_pointLots s)\<rparr>)) (\<lambda>_.
     m_bind (restoreMap (es_point_lot_consumptions st)
       (\<lambda>s. s\<lparr>eg_pointLotConsumptions :=
          set_all (es_point_lot_consumptions st) (eg_pointLotConsumptions s)\<rparr>)) (\<lambda>_.
     m_bind (restoreMap (es_idempotency st)
       (\<lambda>s. s\<lparr>eg_idempotency := set_all (es_idempotency st) (eg_idempotency s)\<rparr>)) (\<lambda>_.
     m_bind (restoreMap (es_accruals_by_order st)
       (\<lambda>s. s\<lparr>eg_accrualsByOrder := set_all (es_accruals_by_order st) (eg_accrualsByOrder s)\<rparr>)) (\<lambda>_.
     m_bind (restoreMap (es_adjustments st)
       (\<lambda>s. s\<lparr>eg_adjustments := set_all (es_adjustments st) (eg_adjustments s)\<rparr>)) (\<lambda>_.
     m_bind (restoreMap (es_reservations_by_redemption st)
       (\<lambda>s. s\<lparr>eg_reservationsByRedemption :=
          set_all (es_reservations_by_redemption st) (eg_reservationsByRedemption s)\<rparr>)) (\<lambda>_.
     restoreMap (stored_issued st)
       (\<lambda>s. s\<lparr>eg_issuedRewards := set_all (stored_issued st) (eg_issuedRewards s)\<rparr>))))))))))))"

definition open_missing :: "string \<Rightarrow> engine \<Rightarrow> engine" where
  "open_missing memberId s =
     s\<lparr>eg_points := foldl (\<lambda>m u.
          let key = balanceKey (eg_program s) memberId u in if js_has m key then m else js_set m key 0)
        (eg_points s) (accountUnits (eg_program s))\<rparr>"

definition check_member :: "string \<times> member \<Rightarrow> unit engine_eff" where
  "check_member km =
     m_bind (m_get (\<lambda>s. mb_member_id (snd km) = fst km \<and> js_has (eg_points s) (fst km))) (\<lambda>ok.
     m_bind (m_assert ok (EngineError Invalid_state 500)) (\<lambda>_.
     m_modify (open_missing (fst km))))"

definition hydrate :: "host \<Rightarrow> engine_state \<Rightarrow> unit engine_eff" where
  "hydrate h st =
     m_bind (m_get eg_program) (\<lambda>p.
     m_bind (m_assert (es_version st = 1 \<and> es_program_id st = pg_program_id p \<and>
        es_program_fingerprint st = programDefinitionFingerprint h p) (EngineError Invalid_state 500)) (\<lambda>_.
     m_bind (restore_maps st) (\<lambda>_.
     m_bind (m_get eg_members) (\<lambda>ms.
     m_bind (m_map check_member ms) (\<lambda>_.
     m_return ())))))"

text \<open>The constructor; \<open>n\<close> is the number of identifiers the generator has already given out.\<close>

definition construct :: "host \<Rightarrow> nat \<Rightarrow> program \<Rightarrow> engine_state option \<Rightarrow> engine_error + engine" where
  "construct h n p st =
     (case check_program h p of
        Inl e \<Rightarrow> Inl e
      | Inr _ \<Rightarrow>
          (let s = (empty_engine p)\<lparr>eg_id_count := n\<rparr> in
           case st of
             None \<Rightarrow> Inr s
           | Some st' \<Rightarrow> (case hydrate h st' s of (Inl e, _) \<Rightarrow> Inl e | (Inr _, s') \<Rightarrow> Inr s')))"

definition cleared :: "engine \<Rightarrow> engine" where
  "cleared s = (empty_engine (eg_program s))\<lparr>eg_id_count := eg_id_count s\<rparr>"

definition replaceState :: "host \<Rightarrow> engine_state \<Rightarrow> unit engine_eff" where
  "replaceState h st =
     m_bind (m_get (\<lambda>s. construct h (eg_id_count s) (eg_program s) (Some st))) (\<lambda>trial.
     m_bind (m_lift trial) (\<lambda>_.
     m_bind (m_modify cleared) (\<lambda>_.
     hydrate h st)))"

section \<open>Reconfiguring the program\<close>

definition removed_active_reward :: "program \<Rightarrow> engine \<Rightarrow> bool" where
  "removed_active_reward next s =
     list_ex (\<lambda>w. iw_status w = Issued \<and> iw_reward_id w \<notin> rd_reward_id ` set (pg_rewards next))
       (js_values (eg_issuedRewards s))"

definition account_in_use :: "host \<Rightarrow> program \<Rightarrow> loyalty_unit \<Rightarrow> bool engine_eff" where
  "account_in_use h next u =
     (if u \<in> set (accountUnits next) then m_return False
      else
        m_bind (m_get (\<lambda>s. js_keys (eg_members s))) (\<lambda>ids.
        m_exists (\<lambda>i. m_bind (balance h i u) (\<lambda>b. m_return (bl_amount b \<noteq> 0))) ids))"

definition adopt_program :: "program \<Rightarrow> engine \<Rightarrow> engine" where
  "adopt_program next s =
     foldl (\<lambda>t i. open_missing i t) (s\<lparr>eg_program := next\<rparr>) (js_keys (eg_members s))"

definition reconfigureProgram :: "host \<Rightarrow> program \<Rightarrow> unit engine_eff" where
  "reconfigureProgram h next =
     m_bind (m_lift (check_program h next)) (\<lambda>_.
     m_bind (m_get (\<lambda>s. assertCompatibleProgramUpdate (eg_program s) next)) (\<lambda>compatible.
     m_bind (m_lift compatible) (\<lambda>_.
     m_bind (m_get (removed_active_reward next)) (\<lambda>removed.
     m_bind (m_assert (\<not> removed) (engine_err Conflict)) (\<lambda>_.
     m_bind (m_get (\<lambda>s. accountUnits (eg_program s))) (\<lambda>units.
     m_bind (m_exists (account_in_use h next) units) (\<lambda>used.
     m_bind (m_assert (\<not> used) (engine_err Conflict)) (\<lambda>_.
     m_modify (adopt_program next)))))))))"

section \<open>Inspection\<close>

definition getLedger :: "host \<Rightarrow> ledger_entry list engine_eff" where
  "getLedger h = m_bind (expirePointLots h None None) (\<lambda>_. m_get (\<lambda>s. js_values (eg_ledger s)))"

definition sortedLedgerClone :: "host \<Rightarrow> engine \<Rightarrow> ledger_entry list" where
  "sortedLedgerClone h s = js_sort (ledger_compare h) (js_values (eg_ledger s))"

definition inspectLedger :: "host \<Rightarrow> (ledger_entry list \<times> reservation list) engine_eff" where
  "inspectLedger h =
     m_bind (expireAllReservations h) (\<lambda>_.
     m_bind (expirePointLots h None None) (\<lambda>_.
     m_get (\<lambda>s. (sortedLedgerClone h s, js_values (eg_reservations s)))))"

record admin_member =
  xm_member :: member
  xm_balance :: balance
  xm_balances :: "balance list"
  xm_metrics :: "account_metric list"
  xm_expiring :: "expiring_balance list"
  xm_tier_progress :: "tier_progress option"
  xm_last_activity_at :: "string option"

record admin_summary =
  sm_active_members :: int
  sm_points_outstanding :: int
  sm_points_issued :: int
  sm_points_redeemed :: int
  sm_expiring_points :: int
  sm_primary_unit :: loyalty_unit
  sm_primary_balance_outstanding :: int
  sm_primary_balance_issued :: int
  sm_primary_balance_redeemed :: int
  sm_expiring_primary_balance :: int
  sm_ledger_entries :: int

record admin_snapshot =
  sn_generated_at :: string
  sn_program :: catalog
  sn_program_configuration :: program_configuration
  sn_summary :: admin_summary
  sn_members :: "admin_member list"
  sn_ledger :: "ledger_entry list"
  sn_reservations :: "reservation list"
  sn_issued_rewards :: "issued_reward list"

definition last_activity :: "ledger_entry list \<Rightarrow> string \<Rightarrow> string option" where
  "last_activity ledger memberId =
     present (map_option le_occurred_at (List.find (\<lambda>e. le_member_id e = memberId) ledger))"

definition admin_member_of :: "host \<Rightarrow> ledger_entry list \<Rightarrow> member \<Rightarrow> admin_member engine_eff" where
  "admin_member_of h ledger m =
     m_bind (accountMetrics h (mb_member_id m)) (\<lambda>metrics.
     m_bind (m_get (\<lambda>s. tierProgress (eg_program s) metrics)) (\<lambda>progress.
     m_bind (memberSnapshot h m) (\<lambda>snap.
     m_bind (m_get (\<lambda>s. primaryUnit (eg_program s))) (\<lambda>u.
     m_bind (balance h (mb_member_id m) u) (\<lambda>b.
     m_bind (balances h (mb_member_id m)) (\<lambda>bs.
     m_bind (expiringBalances h (mb_member_id m)) (\<lambda>expiring.
     m_return \<lparr>xm_member = snap, xm_balance = b, xm_balances = bs, xm_metrics = metrics,
       xm_expiring = expiring, xm_tier_progress = progress,
       xm_last_activity_at = last_activity ledger (mb_member_id m)\<rparr>)))))))"

definition activity_key :: "admin_member \<Rightarrow> string" where
  "activity_key x = (case xm_last_activity_at x of None \<Rightarrow> mb_joined_at (xm_member x) | Some t \<Rightarrow> t)"

definition admin_compare :: "host \<Rightarrow> admin_member \<Rightarrow> admin_member \<Rightarrow> int" where
  "admin_compare h l r = h_lc h (activity_key r) (activity_key l)"

definition issued_total :: "loyalty_unit \<Rightarrow> ledger_entry list \<Rightarrow> int" where
  "issued_total u ledger = (\<Sum>e\<leftarrow>filter (\<lambda>e. le_unit e = u \<and> le_amount e > 0) ledger. le_amount e)"

definition redeemed_total :: "loyalty_unit \<Rightarrow> ledger_entry list \<Rightarrow> int" where
  "redeemed_total u ledger =
     (\<Sum>e\<leftarrow>filter (\<lambda>e. le_unit e = u \<and> le_operation e = Redemption) ledger. \<bar>le_amount e\<bar>)"

definition expiring_total :: "loyalty_unit \<Rightarrow> admin_member list \<Rightarrow> int" where
  "expiring_total u ms =
     (\<Sum>m\<leftarrow>ms. \<Sum>b\<leftarrow>xm_expiring m. if eb_unit b = u then eb_amount b else 0)"

definition admin_summary_of :: "loyalty_unit \<Rightarrow> ledger_entry list \<Rightarrow> admin_member list \<Rightarrow> admin_summary" where
  "admin_summary_of u ledger ms =
     (let outstanding = (\<Sum>m\<leftarrow>ms. bl_amount (xm_balance m)) in
      \<lparr>sm_active_members = int (length (filter (\<lambda>m. mb_status (xm_member m) = Active) ms)),
       sm_points_outstanding = outstanding,
       sm_points_issued = issued_total u ledger,
       sm_points_redeemed = redeemed_total u ledger,
       sm_expiring_points = expiring_total u ms,
       sm_primary_unit = u,
       sm_primary_balance_outstanding = outstanding,
       sm_primary_balance_issued = issued_total u ledger,
       sm_primary_balance_redeemed = redeemed_total u ledger,
       sm_expiring_primary_balance = expiring_total u ms,
       sm_ledger_entries = int (length ledger)\<rparr>)"

definition inspectAdmin :: "host \<Rightarrow> admin_snapshot engine_eff" where
  "inspectAdmin h =
     m_bind (expireAllReservations h) (\<lambda>_.
     m_bind (expirePointLots h None None) (\<lambda>_.
     m_bind (m_get (sortedLedgerClone h)) (\<lambda>ledger.
     m_bind (m_get (\<lambda>s. js_values (eg_members s))) (\<lambda>ms.
     m_bind (m_map (admin_member_of h ledger) ms) (\<lambda>xs.
     m_get (\<lambda>s.
       let members = js_sort (admin_compare h) xs; p = eg_program s in
       \<lparr>sn_generated_at = isoNow h,
        sn_program = programCatalog p,
        sn_program_configuration = programConfigurationFor p,
        sn_summary = admin_summary_of (primaryUnit p) ledger members,
        sn_members = members,
        sn_ledger = ledger,
        sn_reservations = js_values (eg_reservations s),
        sn_issued_rewards = js_values (eg_issuedRewards s)\<rparr>))))))"

end
