(* ===== verification/Engine_Frames.thy ===== *)
theory Engine_Frames
  imports Engine_Admin
begin

text \<open>
  How a relation between engine states is inherited by the handlers. \<open>reading_relation\<close>
  asks for the writes that even a read performs (drawing an id, expiring reservations and
  lots) and for the exactly-once wrapper; \<open>input_relation\<close> and \<open>posting_relation\<close> add
  the writes of the handlers that post to the ledger. Every handler then keeps the relation, by lemmas proved once here.
\<close>

locale engine_effect = effect_relation R for R :: "engine \<Rightarrow> engine \<Rightarrow> bool"
begin

lemma keeps_once_of_store:
  assumes "\<And>k f r s. R s (store_response k f r s)" "m_keeps R run"
  shows "m_keeps R (once h oper c q run)"
proof -
  have "m_keeps R (m_bind run (\<lambda>r. m_bind (m_modify (store_response k f r)) (\<lambda>_. m_return r)))" for k f
    by (intro keeps_bind keeps_return keeps_modify assms)
  then show ?thesis by (auto simp: m_keeps_def once_def R_refl split: option.splits)
qed

end

locale reading_relation = effect_relation R for R :: "engine \<Rightarrow> engine \<Rightarrow> bool" +
  fixes h :: host
  assumes keeps_draw: "m_keeps R (draw_id h prefix)"
    and keeps_expire_reservations: "m_keeps R (expireAllReservations h)"
    and keeps_expire_reservation: "m_keeps R (expireReservation h rid)"
    and keeps_expire_lots: "m_keeps R (expirePointLots h a b)"
    and keeps_once: "m_keeps R run \<Longrightarrow> m_keeps R (once h oper c q run)"
begin

lemma keeps_assert_program: "m_keeps R (assertProgramId p)"
  by (auto simp: m_keeps_def assertProgramId_def m_assert_run R_refl)

lemma keeps_active: "m_keeps R (activeMember m)"
  by (auto simp: m_keeps_def activeMember_def R_refl split: option.splits)

lemma keeps_member: "m_keeps R (getMember m)"
  by (auto simp: m_keeps_def getMember_def R_refl split: option.splits)

lemma keeps_get_reservation: "m_keeps R (getReservation rid)"
  by (auto simp: m_keeps_def getReservation_def R_refl split: option.splits)

lemma keeps_get_issued: "m_keeps R (getIssued wid)"
  by (auto simp: m_keeps_def getIssued_def R_refl split: option.splits)

lemma keeps_expiration_iso: "m_keeps R (pointExpirationIso h u)"
  by (auto simp: m_keeps_def pointExpirationIso_def R_refl split: option.splits)

lemmas keeps_reads =
  keeps_return keeps_throw keeps_get keeps_assert keeps_lift keeps_draw keeps_expire_reservations
  keeps_expire_reservation keeps_expire_lots keeps_assert_program keeps_active keeps_member
  keeps_get_reservation keeps_get_issued keeps_expiration_iso

lemma keeps_balance: "m_keeps R (balance h m u)"
  unfolding balance_def by (intro keeps_bind keeps_reads)

lemma keeps_balances: "m_keeps R (balances h m)"
  unfolding balances_def by (intro keeps_bind keeps_reads keeps_map keeps_balance)

lemma keeps_expiring: "m_keeps R (expiringBalances h m)"
  unfolding expiringBalances_def by (intro keeps_bind keeps_reads)

lemma keeps_metrics: "m_keeps R (accountMetrics h m)"
  unfolding accountMetrics_def account_metric_def metric_amount_def
  by (intro keeps_bind keeps_reads keeps_map keeps_if keeps_balance)

lemma keeps_progress: "m_keeps R (member_progress h m)"
  unfolding member_progress_def by (intro keeps_bind keeps_reads keeps_metrics)

lemma keeps_snapshot: "m_keeps R (memberSnapshot h m)"
  unfolding memberSnapshot_def by (intro keeps_bind keeps_reads keeps_progress)

lemma keeps_multiplier: "m_keeps R (earningMultiplierBps h m)"
  unfolding earningMultiplierBps_def tierMultiplierBps_def by (intro keeps_bind keeps_reads keeps_progress)

lemma keeps_assert_order: "m_keeps R (assertOrder h d m)"
  unfolding assertOrder_def by (intro keeps_bind keeps_reads)

lemma keeps_candidate: "m_keeps R (rewardCandidate h m r)"
  unfolding rewardCandidate_def by (intro keeps_bind keeps_reads keeps_balance)

lemma keeps_ledger_response: "m_keeps R (ledgerResponse h c e es)"
  unfolding ledgerResponse_def by (intro keeps_bind keeps_reads keeps_balances)

lemma keeps_reservation_response: "m_keeps R (reservationResponse h c r)"
  unfolding reservationResponse_def by (intro keeps_bind keeps_reads keeps_balances)

lemma keeps_respond: "m_keeps R (respond_reservation h c rid)"
  unfolding respond_reservation_def by (intro keeps_bind keeps_reads keeps_reservation_response)

lemmas keeps_computed =
  keeps_balance keeps_balances keeps_expiring keeps_metrics keeps_progress keeps_snapshot
  keeps_multiplier keeps_assert_order keeps_candidate keeps_ledger_response
  keeps_reservation_response keeps_respond keeps_once

lemmas keeps_lib = keeps_bind keeps_map keeps_exists keeps_if keeps_reads keeps_computed

section \<open>The handlers that only read\<close>

lemma keeps_lookup: "m_keeps R (lookup h r)"
  unfolding lookup_def lookup_run_def
  by (intro keeps_lib) (auto split: option.split intro!: keeps_lib)

lemma keeps_getProgram: "m_keeps R (getProgram h r)"
  unfolding getProgram_def by (intro keeps_lib)

lemma keeps_inspect_erasure: "m_keeps R (inspectMemberErasure h m)"
  unfolding inspectMemberErasure_def by (intro keeps_lib)

lemma keeps_getAccount: "m_keeps R (getAccount h r)"
  unfolding getAccount_def getAccount_run_def by (intro keeps_lib)

lemma keeps_listLedger: "m_keeps R (listLedger h r)"
  unfolding listLedger_def listLedger_run_def by (intro keeps_lib)

lemma keeps_evaluate: "m_keeps R (evaluate h r)"
  unfolding evaluate_def evaluate_run_def by (intro keeps_lib)

lemma keeps_getLedger: "m_keeps R (getLedger h)"
  unfolding getLedger_def by (intro keeps_lib)

lemma keeps_inspectLedger: "m_keeps R (inspectLedger h)"
  unfolding inspectLedger_def by (intro keeps_lib)

lemma keeps_inspectAdmin: "m_keeps R (inspectAdmin h)"
  unfolding inspectAdmin_def admin_member_of_def by (intro keeps_lib)

end

section \<open>The handlers that post\<close>

text \<open>
  \<open>okay\<close> are the ledger inputs whose posting keeps the relation, \<open>debits\<close> the members whose
  lots may be consumed. A handler keeps the relation when the inputs it builds are okay.
\<close>

locale input_relation = reading_relation R h for R :: "engine \<Rightarrow> engine \<Rightarrow> bool" and h :: host +
  fixes okay :: "ledger_input \<Rightarrow> bool" and debits :: "string \<Rightarrow> bool"
  assumes keeps_add_okay: "okay i \<Longrightarrow> m_keeps R (addLedger h i)"
    and keeps_consume_debits: "debits m \<Longrightarrow> m_keeps R (consumePointLots h m u n None)"
    and keeps_issue_run: "m_keeps R (issueReward_run h r)"
    and R_record_adjustment: "R s (record_adjustment adj eid eids f s)"
begin

lemma keeps_issue: "m_keeps R (issueReward h r)"
  unfolding issueReward_def by (intro keeps_lib keeps_issue_run)

lemma keeps_stamp_cycle: "okay (reset_input m v n) \<Longrightarrow> m_keeps R (stamp_cycle h m c v n)"
  unfolding stamp_cycle_def by (intro keeps_lib keeps_issue keeps_add_okay)

lemma keeps_threshold: "(\<And>v n. okay (reset_input m v n)) \<Longrightarrow> m_keeps R (issueThresholdRewards h m c)"
  unfolding issueThresholdRewards_def eligible_cycles_def
  by (intro keeps_lib) (auto split: option.split intro!: keeps_lib keeps_stamp_cycle)

lemma keeps_post_expiring:
  assumes "okay i" "\<And>t. okay (i\<lparr>li_expires_at := Some t, li_create_point_lot := True\<rparr>)"
  shows "m_keeps R (m_bind (expiring_input h i) (addLedger h))"
proof -
  have "m_keeps R (m_bind (expiring_input h i) (addLedger h))
      = m_keeps R (m_bind (m_get (\<lambda>s. input_unit (eg_program s) i)) (\<lambda>u.
          m_bind (m_get (\<lambda>s. expirationPolicy (eg_program s) u)) (\<lambda>x.
          if 0 < li_amount i \<and> x \<noteq> None
          then m_bind (pointExpirationIso h u) (\<lambda>t.
                addLedger h (i\<lparr>li_expires_at := Some t, li_create_point_lot := True\<rparr>))
          else addLedger h i)))"
    by (auto simp: expiring_input_def m_keeps_def m_bind_def m_get_def m_return_def
        split: prod.splits sum.splits if_splits)
  also have "\<dots>"
    by (intro keeps_lib keeps_add_okay assms)
  finally show ?thesis .
qed

lemma keeps_repeat_accrual: "m_keeps R (repeat_accrual h r a)"
  unfolding repeat_accrual_def by (intro keeps_lib) (auto split: option.split intro!: keeps_lib)

lemma keeps_repeat_adjustment: "m_keeps R (repeat_adjustment h c f a)"
  unfolding repeat_adjustment_def by (intro keeps_lib) (auto split: option.split intro!: keeps_lib)

lemma keeps_adjust_unit:
  assumes "debits (dq_member_id r)" "\<And>n x c. okay ((adjustment_input r u n)\<lparr>li_expires_at := x, li_create_point_lot := c\<rparr>)"
  shows "m_keeps R (adjust_unit h r x acc os u)"
proof -
  have "okay (adjustment_input r u n)" for n
    using assms(2) [where n = n and x = None and c = False] by (simp add: adjustment_input_def ledger_input_of_def)
  then show ?thesis
    unfolding adjust_unit_def Let_def
    by (intro keeps_lib keeps_post_expiring keeps_consume_debits assms)
qed

lemma keeps_original_multiplier: "m_keeps R (original_multiplier h r a m)"
  unfolding original_multiplier_def by (auto split: option.split intro!: keeps_lib)

lemma keeps_first_adjustment:
  assumes "debits (dq_member_id r)" "\<And>u n x c. okay ((adjustment_input r u n)\<lparr>li_expires_at := x, li_create_point_lot := c\<rparr>)"
  shows "m_keeps R (first_adjustment h r m)"
  unfolding first_adjustment_def Let_def
  by (intro keeps_lib keeps_adjust_unit keeps_original_multiplier keeps_modify R_record_adjustment assms)

lemma keeps_manual_expiry: "m_keeps R (manual_expiry h u r)"
  unfolding manual_expiry_def by (auto split: option.split intro!: keeps_lib)

lemma keeps_first_manual:
  assumes "debits (mq_member_id r)" "\<And>u x. okay (manual_input r u x)"
  shows "m_keeps R (first_manual h r u)"
  unfolding first_manual_def
  by (intro keeps_lib keeps_consume_debits keeps_manual_expiry keeps_add_okay keeps_modify R_record_adjustment assms)

text \<open>The whole handlers, up to the guard that the member is active.\<close>

lemma keeps_adjustOrder:
  assumes "debits (dq_member_id r)" "\<And>u n x c. okay ((adjustment_input r u n)\<lparr>li_expires_at := x, li_create_point_lot := c\<rparr>)"
  shows "m_keeps R (adjustOrder h r)"
  unfolding adjustOrder_def adjustOrder_run_def Let_def
  by (intro keeps_lib) (auto split: option.split intro!: keeps_repeat_adjustment keeps_first_adjustment assms)

lemma keeps_manual:
  assumes "debits (mq_member_id r)" "\<And>u x. okay (manual_input r u x)"
  shows "m_keeps R (postManualAdjustment h r)"
  unfolding postManualAdjustment_def postManualAdjustment_run_def
  by (intro keeps_lib) (auto split: option.split intro!: keeps_repeat_adjustment keeps_first_manual assms)

end

text \<open>
  The common case: any posting for the members in \<open>who\<close> keeps the relation, as long as it
  does not name a reservation; only capture and reverse do.
\<close>

locale posting_relation = reading_relation R h for R :: "engine \<Rightarrow> engine \<Rightarrow> bool" and h :: host +
  fixes who :: "string \<Rightarrow> bool"
  assumes keeps_add: "who (li_member_id i) \<Longrightarrow> li_reservation_id i = None \<Longrightarrow> m_keeps R (addLedger h i)"
    and keeps_consume: "who m \<Longrightarrow> m_keeps R (consumePointLots h m u n None)"
    and keeps_issued: "m_keeps R (issueReward_run h r)"
    and R_record_accrual: "R s (record_accrual h ord x es s)"
    and R_recorded: "R s (record_adjustment adj eid eids f s)"

sublocale posting_relation \<subseteq> inputs: input_relation R h "\<lambda>i. who (li_member_id i) \<and> li_reservation_id i = None" who
  by unfold_locales (auto intro: keeps_add keeps_consume keeps_issued R_recorded)

context posting_relation
begin

lemma keeps_issue: "m_keeps R (issueReward h r)"
  by (rule inputs.keeps_issue)

lemma keeps_accrual_entry:
  "who (oq_member_id r) \<Longrightarrow> m_keeps R (post_accrual_entry h r a)"
  unfolding post_accrual_entry_def
  by (intro inputs.keeps_post_expiring) (simp_all add: accrual_input_def ledger_input_of_def)

lemma keeps_threshold: "who m \<Longrightarrow> m_keeps R (issueThresholdRewards h m c)"
  by (rule inputs.keeps_threshold) (simp add: reset_input_def ledger_input_of_def)

lemma keeps_first_accrual: "who (oq_member_id r) \<Longrightarrow> m_keeps R (first_accrual h r)"
  unfolding first_accrual_def
  by (intro keeps_lib keeps_accrual_entry keeps_threshold keeps_modify R_record_accrual)

lemma keeps_postAccrual: "who (oq_member_id r) \<Longrightarrow> m_keeps R (postAccrual h r)"
  unfolding postAccrual_def postAccrual_run_def
  by (intro keeps_lib) (auto split: option.split intro!: inputs.keeps_repeat_accrual keeps_first_accrual)

lemma keeps_adjustOrder: "who (dq_member_id r) \<Longrightarrow> m_keeps R (adjustOrder h r)"
  by (rule inputs.keeps_adjustOrder) (simp_all add: adjustment_input_def ledger_input_of_def)

lemma keeps_manual: "who (mq_member_id r) \<Longrightarrow> m_keeps R (postManualAdjustment h r)"
  by (rule inputs.keeps_manual) (simp_all add: manual_input_def ledger_input_of_def)

end

end
