(* ===== verification/Sample_Program.thy ===== *)
theory Sample_Program
  imports Engine_Admin
begin

text \<open>
  A concrete host, program, order and requests. The theorems about histories have
  hypotheses on the state they start from; the examples of this theory are inputs where
  those hypotheses hold. The digest and the collation are the concrete ones of Js_Json,
  identifiers are a prefix and a count in unary.
\<close>

definition sample_ids :: "string \<Rightarrow> nat \<Rightarrow> string" where
  "sample_ids prefix n = prefix @ ''_'' @ replicate n CHR ''i''"

text \<open>Every time zone is UTC here.\<close>

definition utc_date :: "string \<Rightarrow> int \<Rightarrow> int \<times> int \<times> int" where
  "utc_date zone i = civil_from_days (i div ms_per_day)"

definition sample_host_at :: "int \<Rightarrow> host" where
  "sample_host_at t =
     \<lparr>h_now = t, h_ids = sample_ids, h_parse = iso_parse, h_lc = unit_compare, h_digest = checksum_digest,
      h_local_date = utc_date, h_time_zone_ok = (\<lambda>zone. zone \<noteq> []),
      h_ajv = (\<lambda>d. []), h_encode_cursor = (\<lambda>j. ''cursor''), h_decode_cursor = (\<lambda>t. None)\<rparr>"

text \<open>2026-01-01T00:00:00.000Z\<close>

definition sample_host :: host where
  "sample_host = sample_host_at 1767225600000"

definition usd :: "int \<Rightarrow> money" where
  "usd n = \<lparr>mo_amount = n, mo_currency = ''USD''\<rparr>"

definition sample_share :: "string \<Rightarrow> party_type \<Rightarrow> int \<Rightarrow> funding_share" where
  "sample_share i t n = \<lparr>fs_party_id = i, fs_party_type = t, fs_share_bps = n, fs_amount = None\<rparr>"

definition sample_reward :: reward_definition where
  "sample_reward =
     \<lparr>rd_reward_id = ''coffee'', rd_name = Some ''Free coffee'', rd_description = None, rd_image_url = None,
      rd_points_cost = 5, rd_cost = None,
      rd_effect = Discount Target_order (usd 100) [\<lparr>da_line_id = None, da_amount = usd 100\<rparr>],
      rd_funding = [sample_share ''hq'' Brand 6667, sample_share ''shop'' Franchisee 3333],
      rd_available_from = None, rd_available_until = None, rd_metadata = None\<rparr>"

definition sample_tier :: "string \<Rightarrow> int \<Rightarrow> int option \<Rightarrow> tier_definition" where
  "sample_tier i n x =
     \<lparr>td_tier_id = i, td_name = i, td_qualification_metric_id = ''lifetime'', td_minimum = n,
      td_earn_multiplier_bps = x, td_benefits = []\<rparr>"

definition sample_program :: program where
  "sample_program =
     \<lparr>pg_program_id = ''demo'', pg_name = None, pg_description = None, pg_currency = ''USD'',
      pg_accounts = Some
        [\<lparr>ad_unit = Points, ad_unit_label = None, ad_is_primary = True\<rparr>,
         \<lparr>ad_unit = Credits, ad_unit_label = None, ad_is_primary = False\<rparr>],
      pg_metrics = Some [\<lparr>md_metric_id = ''lifetime'', md_name = ''Lifetime'', md_description = None,
        md_unit = Points, md_source = Lifetime_earned\<rparr>],
      pg_tiers = Some [sample_tier ''gold'' 100 (Some 15000), sample_tier ''base'' 0 None],
      pg_tier_policy = None,
      pg_point_expiration = Some \<lparr>xp_days = 365, xp_warning_days = [30]\<rparr>,
      pg_balance_expiration = None, pg_earning_policy = None, pg_visit_stamp_policy = None,
      pg_wallet_credit_policy = Some \<lparr>wc_earn_bps = 500, wc_liability = Promotional\<rparr>,
      pg_membership_plans = None,
      pg_earn_rate = \<lparr>rt_points = 1, rt_spend_minor_units = 100\<rparr>,
      pg_evaluation_ttl_seconds = 300, pg_reservation_ttl_seconds = 600,
      pg_rewards = [sample_reward], pg_metadata = None\<rparr>"

definition sample_line :: "string \<Rightarrow> int \<Rightarrow> order_line" where
  "sample_line i price =
     \<lparr>ln_line_id = i, ln_kind = Item, ln_product_id = ''burger'', ln_sku = None, ln_name = None,
      ln_parent_line_id = None, ln_quantity = 2, ln_unit_price = usd price, ln_subtotal = usd (2 * price),
      ln_discount = usd 0, ln_tax = usd 0, ln_category_ids = None, ln_tags = None,
      ln_loyalty_eligible = None, ln_metadata = None\<rparr>"

definition sample_order :: "string \<Rightarrow> order" where
  "sample_order i =
     \<lparr>od_order_id = i, od_order_number = None,
      od_scope = \<lparr>sc_program_id = ''demo'', sc_brand_id = ''brand'', sc_merchant_id = ''merchant'',
        sc_location_id = ''loc1'', sc_franchisee_id = None\<rparr>,
      od_member_id = None, od_channel = Counter, od_status = Paid, od_business_date = ''2026-01-01'',
      od_placed_at = ''2026-01-01T00:00:00.000Z'', od_closed_at = None,
      od_lines = [sample_line ''l1'' 500],
      od_totals = \<lparr>tt_subtotal = usd 1000, tt_discount = usd 0, tt_tax = usd 0, tt_tip = usd 0,
        tt_service_charge = usd 0, tt_total = usd 1000\<rparr>,
      od_tenders = None, od_metadata = None\<rparr>"

definition sample_context :: "string \<Rightarrow> req_context" where
  "sample_context key =
     \<lparr>cx_protocol_version = ''1.0'', cx_profile = ''foodservice/1.0'', cx_request_id = ''req'',
      cx_idempotency_key = key, cx_occurred_at = ''2026-01-01T00:00:00.000Z'',
      cx_source_system = ''pos'', cx_source_instance = None\<rparr>"

definition sample_enroll :: "string \<Rightarrow> string \<Rightarrow> enroll_request" where
  "sample_enroll key memberId =
     \<lparr>eq_context = sample_context key, eq_program_id = ''demo'',
      eq_identity = \<lparr>ir_type = Token, ir_value = memberId, ir_issuer = None\<rparr>,
      eq_member_id = Some memberId, eq_attributes = None\<rparr>"

definition sample_accrual :: "string \<Rightarrow> string \<Rightarrow> order_request" where
  "sample_accrual key memberId =
     \<lparr>oq_context = sample_context key, oq_member_id = memberId, oq_order = sample_order key,
      oq_evaluation_id = None\<rparr>"

definition sample_reserve :: "string \<Rightarrow> string \<Rightarrow> reserve_request" where
  "sample_reserve key memberId =
     \<lparr>rq_context = sample_context key, rq_redemption_id = key, rq_member_id = memberId,
      rq_reward_id = ''coffee'', rq_issued_reward_id = None, rq_order = sample_order ''o2'',
      rq_evaluation_id = None\<rparr>"

definition sample_capture :: "string \<Rightarrow> string \<Rightarrow> capture_request" where
  "sample_capture key rid =
     \<lparr>cq_context = sample_context key, cq_reservation_id = rid, cq_order_id = ''o2''\<rparr>"

definition sample_start :: engine where
  "sample_start = empty_engine sample_program"

lemma inj_sample_ids: "inj (sample_ids p)"
proof (rule injI)
  fix m n assume "sample_ids p m = sample_ids p n"
  then have "length (replicate m CHR ''i'') = length (replicate n CHR ''i'')"
    unfolding sample_ids_def by (metis append_same_eq same_append_eq)
  then show "m = n" by simp
qed

lemma sample_ids_eq [simp]: "sample_ids p m = sample_ids p n \<longleftrightarrow> m = n"
  using inj_sample_ids by (auto dest: injD)

lemma sample_program_ok: "program_ok sample_host sample_program"
  by code_simp


text \<open>A state with one member, who earned 20 points and redeemed 5 of them.\<close>

definition sample_member :: member where
  "sample_member =
     \<lparr>mb_member_id = ''ann'', mb_program_id = ''demo'', mb_status = Active,
      mb_joined_at = ''2026-01-01T00:00:00.000Z'', mb_tier_id = None,
      mb_identities = [\<lparr>ir_type = Token, ir_value = ''ann'', ir_issuer = None\<rparr>], mb_attributes = None\<rparr>"

definition sample_reservation :: "string \<Rightarrow> reservation_status \<Rightarrow> reservation" where
  "sample_reservation rid st =
     \<lparr>rs_reservation_id = rid, rs_redemption_id = ''red-'' @ rid, rs_member_id = ''ann'',
      rs_reward_id = ''coffee'', rs_issued_reward_id = None, rs_order_id = ''o2'', rs_location_id = None,
      rs_status = st, rs_cost = \<lparr>ua_unit = Points, ua_amount = 5\<rparr>,
      rs_effect = rd_effect sample_reward, rs_funding = [],
      rs_created_at = ''2026-01-01T00:00:00.000Z'', rs_expires_at = ''2026-01-01T00:10:00.000Z'',
      rs_captured_at = None, rs_reversed_at = None\<rparr>"

definition sample_entry :: "nat \<Rightarrow> ledger_operation \<Rightarrow> int \<Rightarrow> string option \<Rightarrow> ledger_entry" where
  "sample_entry n p amount rid =
     \<lparr>le_entry_id = sample_ids ''ledger'' n, le_member_id = ''ann'', le_program_id = ''demo'',
      le_account_id = ''points:ann'', le_operation = p, le_unit = Points, le_amount = amount,
      le_occurred_at = ''2026-01-01T00:00:00.000Z'', le_expires_at = None, le_related_entry_id = None,
      le_order_id = None, le_location_id = None, le_adjustment_id = None, le_reservation_id = rid,
      le_classification = None, le_reason = None, le_qualifies_for_tier = None\<rparr>"

definition sample_state :: engine where
  "sample_state =
     (empty_engine sample_program)
       \<lparr>eg_members := [(''ann'', sample_member)],
        eg_identityIndex := [(''demo|token||ann'', ''ann'')],
        eg_points := [(''ann'', 15), (''credits:ann'', 0)],
        eg_reservations := [(''reservation_i'', sample_reservation ''reservation_i'' Captured)],
        eg_ledger := [(''ledger_'', sample_entry 0 Accrual 20 None),
                      (''ledger_ii'', sample_entry 2 Redemption (- 5) (Some ''reservation_i''))],
        eg_reservationsByRedemption :=
          [(''red-reservation_i'', \<lparr>rr_reservationId = ''reservation_i'', rr_fingerprint = ''f''\<rparr>)],
        eg_id_count := 3\<rparr>"

definition sample_reverse :: reverse_request where
  "sample_reverse =
     \<lparr>vq_context = sample_context ''reverse'', vq_reservation_id = ''reservation_i'', vq_reason = ''void''\<rparr>"


lemma sample_state_keys:
  "map fst (eg_ledger sample_state) = [sample_ids ''ledger'' 0, sample_ids ''ledger'' 2]"
  "map fst (eg_reservations sample_state) = [sample_ids ''reservation'' 1]"
  by (simp_all add: sample_state_def sample_ids_def eval_nat_numeral)

end
