(* ===== verification/Engine_History.thy ===== *)
theory Engine_History
  imports Engine_Frames Sample_Program
begin

text \<open>
  Every public method of \<open>LoyaltyEngine\<close> that runs on a live engine as one operation, and
  the histories it can go through: sequences of operations, each under its own reading of
  the clock, all drawing from one id generator. \<open>replaceState\<close> starts a new history.
  \<open>total_relation\<close> extends the interfaces of Engine_Frames to all operations.
\<close>

datatype operation =
    Op_lookup lookup_request
  | Op_enroll enroll_request
  | Op_getProgram program_request
  | Op_cancelMember string
  | Op_inspectMemberErasure string
  | Op_eraseMember string
  | Op_setMemberMembership string "json option"
  | Op_getAccount account_request
  | Op_listLedger ledger_list_request
  | Op_evaluate order_request
  | Op_postAccrual order_request
  | Op_issueReward issue_request
  | Op_listIssuedRewards issued_list_request
  | Op_cancelIssuedReward cancel_issued_request
  | Op_reserve reserve_request
  | Op_capture capture_request
  | Op_reverse reverse_request
  | Op_adjustOrder adjust_request
  | Op_postManualAdjustment manual_request
  | Op_getLedger
  | Op_inspectLedger
  | Op_inspectAdmin
  | Op_reconfigureProgram program

definition m_void :: "('s, 'e, 'a) eff \<Rightarrow> ('s, 'e, unit) eff" where
  "m_void m = m_bind m (\<lambda>_. m_return ())"

fun perform :: "host \<Rightarrow> operation \<Rightarrow> unit engine_eff" where
  "perform h (Op_lookup r) = m_void (lookup h r)"
| "perform h (Op_enroll r) = m_void (enroll h r)"
| "perform h (Op_getProgram r) = m_void (getProgram h r)"
| "perform h (Op_cancelMember m) = m_void (cancelMember h m)"
| "perform h (Op_inspectMemberErasure m) = m_void (inspectMemberErasure h m)"
| "perform h (Op_eraseMember m) = m_void (eraseMember h m)"
| "perform h (Op_setMemberMembership m x) = m_void (setMemberMembership h m x)"
| "perform h (Op_getAccount r) = m_void (getAccount h r)"
| "perform h (Op_listLedger r) = m_void (listLedger h r)"
| "perform h (Op_evaluate r) = m_void (evaluate h r)"
| "perform h (Op_postAccrual r) = m_void (postAccrual h r)"
| "perform h (Op_issueReward r) = m_void (issueReward h r)"
| "perform h (Op_listIssuedRewards r) = m_void (listIssuedRewards h r)"
| "perform h (Op_cancelIssuedReward r) = m_void (cancelIssuedReward h r)"
| "perform h (Op_reserve r) = m_void (reserve h r)"
| "perform h (Op_capture r) = m_void (capture h r)"
| "perform h (Op_reverse r) = m_void (reverse h r)"
| "perform h (Op_adjustOrder r) = m_void (adjustOrder h r)"
| "perform h (Op_postManualAdjustment r) = m_void (postManualAdjustment h r)"
| "perform h Op_getLedger = m_void (getLedger h)"
| "perform h Op_inspectLedger = m_void (inspectLedger h)"
| "perform h Op_inspectAdmin = m_void (inspectAdmin h)"
| "perform h (Op_reconfigureProgram p) = reconfigureProgram h p"

lemma m_void_state [simp]: "snd (m_void m s) = snd (m s)"
  by (auto simp: m_void_def m_bind_def m_return_def split: prod.splits sum.splits)

section \<open>Histories\<close>

inductive history :: "(string \<Rightarrow> nat \<Rightarrow> string) \<Rightarrow> engine \<Rightarrow> (host \<times> operation) list \<Rightarrow> engine \<Rightarrow> bool"
  for ids :: "string \<Rightarrow> nat \<Rightarrow> string"
where
  history_Nil: "history ids s [] s"
| history_Cons: "h_ids h = ids \<Longrightarrow> history ids (snd (perform h p s)) ops t \<Longrightarrow> history ids s ((h, p) # ops) t"

inductive_cases history_NilE: "history ids s [] t"
inductive_cases history_ConsE: "history ids s (hp # ops) t"
inductive_simps history_simps: "history ids s [] t" "history ids s ((h, p) # ops) t"

lemma history_append:
  "history ids s xs t \<Longrightarrow> history ids t ys u \<Longrightarrow> history ids s (xs @ ys) u"
  by (induction rule: history.induct) (auto intro: history.intros)

lemma history_appendD:
  "history ids s (xs @ ys) u \<Longrightarrow> \<exists>t. history ids s xs t \<and> history ids t ys u"
proof (induction xs arbitrary: s)
  case Nil
  then show ?case by (auto intro: history.intros)
next
  case (Cons x xs)
  obtain h p where x: "x = (h, p)" by (cases x)
  with Cons.prems have "h_ids h = ids" "history ids (snd (perform h p s)) (xs @ ys) u"
    by (simp_all add: history_simps)
  with Cons.IH x show ?case by (auto intro: history.intros)
qed

text \<open>A history is a function of its start and its operations.\<close>

fun run_all :: "(host \<times> operation) list \<Rightarrow> engine \<Rightarrow> engine" where
  "run_all [] s = s"
| "run_all ((h, p) # ops) s = run_all ops (snd (perform h p s))"

lemma history_iff_run:
  "history ids s ops t \<longleftrightarrow> (\<forall>hp \<in> set ops. h_ids (fst hp) = ids) \<and> t = run_all ops s"
proof (induction ops arbitrary: s)
  case (Cons x ops)
  then show ?case by (cases x) (simp add: history_simps)
qed (simp add: history_simps)

section \<open>What the writers leave alone\<close>

lemmas writer_defs =
  store_response_def apply_consumption_def set_reservation_def put_reservation_def put_issued_def
  set_issued_def set_member_def add_member_def open_accounts_def erase_writes_def record_accrual_def
  record_adjustment_def set_remaining_def

lemma adopt_program_frame: "\<exists>ps. adopt_program p s = s\<lparr>eg_program := p, eg_points := ps\<rparr>"
proof -
  have "\<exists>ps. foldl (\<lambda>t i. open_missing i t) s is = s\<lparr>eg_points := ps\<rparr>" for s :: engine and "is"
  proof (induction "is" arbitrary: s)
    case Nil
    have "foldl (\<lambda>t i. open_missing i t) s [] = s\<lparr>eg_points := eg_points s\<rparr>" by simp
    then show ?case by blast
  next
    case (Cons i xs)
    obtain ps where "foldl (\<lambda>t i. open_missing i t) (open_missing i s) xs = (open_missing i s)\<lparr>eg_points := ps\<rparr>"
      using Cons by blast
    then have "foldl (\<lambda>t i. open_missing i t) s (i # xs) = s\<lparr>eg_points := ps\<rparr>"
      by (simp add: open_missing_def)
    then show ?case by blast
  qed
  from this [of "s\<lparr>eg_program := p\<rparr>" "js_keys (eg_members s)"] show ?thesis
    by (simp add: adopt_program_def)
qed

lemma adopt_program_fields [simp]:
  "eg_program (adopt_program p s) = p"
  "eg_members (adopt_program p s) = eg_members s"
  "eg_identityIndex (adopt_program p s) = eg_identityIndex s"
  "eg_reservations (adopt_program p s) = eg_reservations s"
  "eg_ledger (adopt_program p s) = eg_ledger s"
  "eg_pointLots (adopt_program p s) = eg_pointLots s"
  "eg_pointLotConsumptions (adopt_program p s) = eg_pointLotConsumptions s"
  "eg_idempotency (adopt_program p s) = eg_idempotency s"
  "eg_accrualsByOrder (adopt_program p s) = eg_accrualsByOrder s"
  "eg_adjustments (adopt_program p s) = eg_adjustments s"
  "eg_reservationsByRedemption (adopt_program p s) = eg_reservationsByRedemption s"
  "eg_issuedRewards (adopt_program p s) = eg_issuedRewards s"
  "eg_id_count (adopt_program p s) = eg_id_count s"
proof -
  obtain ps where "adopt_program p s = s\<lparr>eg_program := p, eg_points := ps\<rparr>"
    using adopt_program_frame by blast
  then show
    "eg_program (adopt_program p s) = p"
    "eg_members (adopt_program p s) = eg_members s"
    "eg_identityIndex (adopt_program p s) = eg_identityIndex s"
    "eg_reservations (adopt_program p s) = eg_reservations s"
    "eg_ledger (adopt_program p s) = eg_ledger s"
    "eg_pointLots (adopt_program p s) = eg_pointLots s"
    "eg_pointLotConsumptions (adopt_program p s) = eg_pointLotConsumptions s"
    "eg_idempotency (adopt_program p s) = eg_idempotency s"
    "eg_accrualsByOrder (adopt_program p s) = eg_accrualsByOrder s"
    "eg_adjustments (adopt_program p s) = eg_adjustments s"
    "eg_reservationsByRedemption (adopt_program p s) = eg_reservationsByRedemption s"
    "eg_issuedRewards (adopt_program p s) = eg_issuedRewards s"
    "eg_id_count (adopt_program p s) = eg_id_count s"
    by simp_all
qed

lemma addLedger_run:
  "addLedger h i s =
     (let e = ledger_entry_of h (eg_program s) (h_ids h ''ledger'' (eg_id_count s)) i
      in (Inr e, post_entry i e (s\<lparr>eg_id_count := eg_id_count s + 1\<rparr>)))"
  by (simp add: addLedger_def draw_id_def m_bind_def Let_def)

lemma post_entry_fields [simp]:
  "eg_program (post_entry i e s) = eg_program s"
  "eg_members (post_entry i e s) = eg_members s"
  "eg_identityIndex (post_entry i e s) = eg_identityIndex s"
  "eg_reservations (post_entry i e s) = eg_reservations s"
  "eg_ledger (post_entry i e s) = js_set (eg_ledger s) (le_entry_id e) e"
  "eg_pointLotConsumptions (post_entry i e s) = eg_pointLotConsumptions s"
  "eg_idempotency (post_entry i e s) = eg_idempotency s"
  "eg_accrualsByOrder (post_entry i e s) = eg_accrualsByOrder s"
  "eg_adjustments (post_entry i e s) = eg_adjustments s"
  "eg_reservationsByRedemption (post_entry i e s) = eg_reservationsByRedemption s"
  "eg_issuedRewards (post_entry i e s) = eg_issuedRewards s"
  "eg_id_count (post_entry i e s) = eg_id_count s"
  by (simp_all add: post_entry_def Let_def)

lemma ledger_entry_of_fields [simp]:
  "le_entry_id (ledger_entry_of h p x i) = x"
  "le_member_id (ledger_entry_of h p x i) = li_member_id i"
  "le_unit (ledger_entry_of h p x i) = input_unit p i"
  "le_amount (ledger_entry_of h p x i) = li_amount i"
  "le_operation (ledger_entry_of h p x i) = li_operation i"
  "le_order_id (ledger_entry_of h p x i) = present (li_order_id i)"
  "le_reservation_id (ledger_entry_of h p x i) = present (li_reservation_id i)"
  by (simp_all add: ledger_entry_of_def)

lemmas effect_defs =
  draw_id_def expireAllReservations_def expireReservation_def expireIssuedReward_def
  expireIssuedRewards_def

section \<open>Relations kept by every operation\<close>

context effect_relation
begin

lemma keeps_void: "m_keeps R m \<Longrightarrow> m_keeps R (m_void m)"
  unfolding m_void_def by (intro keeps_bind keeps_return)

text \<open>The same from one state, with what the first part returned.\<close>

lemma at_bind:
  assumes "R s (snd (m s))" "\<And>v s1. m s = (Inr v, s1) \<Longrightarrow> R s1 (snd (f v s1))"
  shows "R s (snd (m_bind m f s))"
  using assms by (auto simp: m_bind_def R_trans split: prod.splits sum.splits)

lemma at_keeps: "m_keeps R m \<Longrightarrow> R s (snd (m s))"
  by (simp add: m_keeps_def)

lemma at_get: "R s (snd (f (g s) s)) \<Longrightarrow> R s (snd (m_bind (m_get g) f s))"
  by simp

lemma at_assert: "(c \<Longrightarrow> R s (snd (f () s))) \<Longrightarrow> R s (snd (m_bind (m_assert c e) f s))"
  by (simp add: m_bind_assert R_refl)

lemma at_lift: "(\<And>v. r = Inr v \<Longrightarrow> R s (snd (f v s))) \<Longrightarrow> R s (snd (m_bind (m_lift r) f s))"
  by (cases r) (simp_all add: m_bind_lift R_refl)

lemma keeps_case_option:
  "(x = None \<Longrightarrow> m_keeps R m) \<Longrightarrow> (\<And>v. x = Some v \<Longrightarrow> m_keeps R (f v)) \<Longrightarrow>
     m_keeps R (case x of None \<Rightarrow> m | Some v \<Rightarrow> f v)"
  by (cases x) auto

end

text \<open>The parts of \<open>issueReward\<close> and of lot handling, for relations between engine states.\<close>

context engine_effect
begin

lemma keeps_issue_run_of:
  assumes "\<And>wid w s. R s (put_issued wid w s)"
  shows "m_keeps R (issueReward_run h r)"
  unfolding issueReward_run_def activeMember_def [abs_def]
  by (intro keeps_bind keeps_get keeps_assert keeps_case_option keeps_lift keeps_return keeps_modify assms)
    (auto simp: m_keeps_def R_refl split: option.splits)

lemma keeps_expire_lots_of:
  assumes "\<And>k n s. R s (set_remaining k n s)"
    "\<And>i. li_reservation_id i = None \<Longrightarrow> li_operation i = Expiration \<Longrightarrow> m_keeps R (addLedger h i)"
  shows "m_keeps R (expirePointLots h a b)"
proof -
  have "m_keeps R (expire_lot h kl)" for kl
  proof -
    have "expire_lot h kl = (\<lambda>s. m_bind (m_modify (set_remaining (fst kl) 0))
            (\<lambda>_. addLedger h (expiration_input (eg_program s) (snd kl))) s)"
      by (rule ext) (simp add: expire_lot_def m_bind_def m_get_def)
    moreover have "m_keeps R (m_bind (m_modify (set_remaining (fst kl) 0)) (\<lambda>_. addLedger h (expiration_input p (snd kl))))" for p
      by (intro keeps_bind keeps_modify assms) (simp_all add: expiration_input_def ledger_input_of_def)
    ultimately show ?thesis by (simp add: m_keeps_def)
  qed
  then show ?thesis
    unfolding expirePointLots_def by (intro keeps_bind keeps_get keeps_map keeps_return)
qed

lemma keeps_consume_of:
  assumes "\<And>ts c s. R s (apply_consumption ts c s)"
  shows "m_keeps R (consumePointLots h m u n c)"
  unfolding consumePointLots_def by (intro keeps_bind keeps_get keeps_modify assms)

lemma keeps_restore_of:
  assumes "\<And>s x. R s (s\<lparr>eg_pointLots := x\<rparr>)" "\<And>s x. R s (s\<lparr>eg_pointLotConsumptions := x\<rparr>)"
  shows "m_keeps R (restorePointLots rid)"
proof -
  have "m_keeps R (restore_lot c)" for c
    by (auto simp: m_keeps_def restore_lot_def R_refl assms(1) split: option.splits)
  then show ?thesis
    unfolding restorePointLots_def by (intro keeps_bind keeps_get keeps_map keeps_modify assms(2))
qed

lemma keeps_add_of:
  assumes "\<And>s. R s (s\<lparr>eg_id_count := eg_id_count s + 1\<rparr>)" "\<And>i e s. R s (post_entry i e s)"
  shows "m_keeps R (addLedger h i)"
  unfolding addLedger_def
  by (intro keeps_bind keeps_get keeps_modify keeps_return assms(2))
    (use assms(1) in \<open>simp add: m_keeps_def draw_id_def\<close>)

end

text \<open>Every operation, once the ones that do more than read are known to keep the relation.\<close>

context reading_relation
begin

lemma keeps_perform_with:
  assumes "\<And>r. m_keeps R (enroll h r)" "\<And>m. m_keeps R (cancelMember h m)" "\<And>m. m_keeps R (eraseMember h m)"
    "\<And>m v. m_keeps R (setMemberMembership h m v)" "\<And>r. m_keeps R (postAccrual h r)"
    "\<And>r. m_keeps R (issueReward h r)" "\<And>r. m_keeps R (listIssuedRewards h r)"
    "\<And>r. m_keeps R (cancelIssuedReward h r)" "\<And>q. m_keeps R (reserve h q)" "\<And>q. m_keeps R (capture h q)"
    "\<And>q. m_keeps R (reverse h q)" "\<And>q. m_keeps R (adjustOrder h q)"
    "\<And>q. m_keeps R (postManualAdjustment h q)" "\<And>p. m_keeps R (reconfigureProgram h p)"
  shows "m_keeps R (perform h p)"
  by (cases p)
    (simp_all add: assms keeps_void keeps_lookup keeps_getProgram keeps_inspect_erasure
      keeps_getAccount keeps_listLedger keeps_evaluate keeps_getLedger keeps_inspectLedger
      keeps_inspectAdmin)

end

locale member_relation = reading_relation R h for R :: "engine \<Rightarrow> engine \<Rightarrow> bool" and h :: host +
  assumes keeps_expire_all_issued: "m_keeps R (expireIssuedRewards h m)"
    and R_add_member: "R s (add_member k x s)"
    and R_set_member: "(\<And>x. mb_member_id (y x) = mb_member_id x) \<Longrightarrow> R s (set_member m y s)"
    and R_erase: "js_get (eg_members s) m = Some x \<Longrightarrow> R s (erase_writes m x s)"
begin

text \<open>A write that follows the look-up of the member.\<close>

lemma keeps_found:
  assumes "\<And>x s. js_get (eg_members s) m = Some x \<Longrightarrow> R s (f x s)" "\<And>x. m_keeps R (g x)"
  shows "m_keeps R (m_bind (getMember m) (\<lambda>x. m_bind (m_modify (f x)) (\<lambda>_. g x)))"
proof -
  have "R s (snd (m_bind (m_modify (f x)) (\<lambda>_. g x) s))" if "js_get (eg_members s) m = Some x" for x s
    using R_trans [OF assms(1) [OF that]] assms(2) by (simp add: m_bind_def m_modify_def m_keeps_def)
  then show ?thesis
    by (auto simp: m_keeps_def m_bind_def [of "getMember m"] getMember_def R_refl split: option.splits)
qed

lemmas keeps_member_writes =
  keeps_expire_all_issued keeps_modify [OF R_add_member] keeps_case_option

lemma keeps_enroll: "m_keeps R (enroll h r)"
  unfolding enroll_def enroll_run_def enroll_existing_def enroll_new_def enroll_response_def
    choose_member_id_def Let_def
  by (intro keeps_lib keeps_member_writes)

lemma keeps_cancelMember: "m_keeps R (cancelMember h m)"
  unfolding cancelMember_def by (intro keeps_found R_set_member keeps_snapshot) simp

lemma keeps_eraseMember: "m_keeps R (eraseMember h m)"
  unfolding eraseMember_def by (intro keeps_found R_erase keeps_inspect_erasure)

lemma keeps_setMembership: "m_keeps R (setMemberMembership h m v)"
  unfolding setMemberMembership_def by (intro keeps_found R_set_member keeps_snapshot) (simp add: with_membership_def Let_def)

lemma keeps_listIssued: "m_keeps R (listIssuedRewards h q)"
  unfolding listIssuedRewards_def listIssuedRewards_run_def by (intro keeps_lib keeps_member_writes)

end

locale reconfiguring_relation = member_relation R h for R :: "engine \<Rightarrow> engine \<Rightarrow> bool" and h :: host +
  assumes R_adopt: "program_ok h p \<Longrightarrow> R s (adopt_program p s)"
begin

lemma keeps_reconfigure: "m_keeps R (reconfigureProgram h p)"
proof (cases "check_program h p")
  case (Inl e)
  then show ?thesis by (simp add: m_keeps_def reconfigureProgram_def m_bind_lift R_refl)
next
  case (Inr u)
  then have "program_ok h p" by (simp add: program_ok_def)
  then show ?thesis
    unfolding reconfigureProgram_def account_in_use_def
    by (intro keeps_lib keeps_member_writes keeps_modify R_adopt)
qed

end

locale redemption_relation = reading_relation R h for R :: "engine \<Rightarrow> engine \<Rightarrow> bool" and h :: host +
  assumes keeps_redemption_entry: "li_operation i \<in> {Redemption, Reversal} \<Longrightarrow> m_keeps R (addLedger h i)"
    and keeps_consume_for: "m_keeps R (consumePointLots h m u n c)"
    and keeps_restore: "m_keeps R (restorePointLots rid)"
    and R_set_reservation: "R s (set_reservation rid f s)"
    and R_put_reservation: "R s (put_reservation g x s)"
    and R_set_issued: "R s (set_issued wid w s)"
    and keeps_expire_issued: "m_keeps R (expireIssuedReward h wid)"
begin

lemmas keeps_writes =
  keeps_consume_for keeps_restore keeps_expire_issued keeps_redemption_entry
  keeps_modify [OF R_set_reservation] keeps_modify [OF R_put_reservation] keeps_modify [OF R_set_issued]
  keeps_case_option

lemma keeps_cancelIssued: "m_keeps R (cancelIssuedReward h q)"
  unfolding cancelIssuedReward_def cancelIssuedReward_run_def by (intro keeps_lib keeps_writes)

lemma keeps_reserve: "m_keeps R (reserve h q)"
  unfolding reserve_def reserve_run_def repeat_reserve_def first_reserve_def check_issued_def
    check_funds_def create_reservation_def
  by (intro keeps_lib keeps_writes)

lemma keeps_capture: "m_keeps R (capture h q)"
  unfolding capture_def capture_run_def capture_reserved_def debit_reservation_def redeem_issued_def
  by (intro keeps_lib keeps_writes) (simp add: redemption_input_def ledger_input_of_def)

lemma keeps_reverse: "m_keeps R (reverse h q)"
  unfolding reverse_def reverse_run_def undo_capture_def refund_reservation_def return_issued_def
  by (intro keeps_lib keeps_writes) (simp add: redemption_input_def ledger_input_of_def)

end

text \<open>Every operation but the one that changes the program.\<close>

locale running_relation = posting_relation R h "\<lambda>_. True" + member_relation R h + redemption_relation R h
  for R :: "engine \<Rightarrow> engine \<Rightarrow> bool" and h :: host
begin

lemmas keeps_operations =
  keeps_enroll keeps_cancelMember keeps_eraseMember keeps_setMembership keeps_postAccrual keeps_issue
  keeps_listIssued keeps_cancelIssued keeps_reserve keeps_capture keeps_reverse keeps_adjustOrder keeps_manual

lemma keeps_perform_running:
  assumes "p \<notin> range Op_reconfigureProgram"
  shows "m_keeps R (perform h p)"
  using assms
  by (cases p)
    (simp_all add: keeps_void keeps_lookup keeps_getProgram keeps_inspect_erasure keeps_getAccount keeps_listLedger
      keeps_evaluate keeps_getLedger keeps_inspectLedger keeps_inspectAdmin keeps_operations)

end

locale total_relation = running_relation R h + reconfiguring_relation R h
  for R :: "engine \<Rightarrow> engine \<Rightarrow> bool" and h :: host
begin

lemma keeps_perform: "m_keeps R (perform h p)"
  by (intro keeps_perform_with keeps_operations keeps_reconfigure TrueI)

end

text \<open>Every operation but the two that post for an order.\<close>

locale other_relation = input_relation R h okay "\<lambda>_. True" + reconfiguring_relation R h + redemption_relation R h
  for R :: "engine \<Rightarrow> engine \<Rightarrow> bool" and h :: host and okay :: "ledger_input \<Rightarrow> bool" +
  assumes okay_manual: "okay (manual_input q u x)"
begin

lemma keeps_perform_other:
  assumes "p \<notin> range Op_postAccrual" "p \<notin> range Op_adjustOrder"
  shows "m_keeps R (perform h p)"
  using assms
  by (cases p)
    (simp_all add: keeps_void keeps_lookup keeps_getProgram keeps_inspect_erasure
      keeps_getAccount keeps_listLedger keeps_evaluate keeps_getLedger keeps_inspectLedger
      keeps_inspectAdmin keeps_enroll keeps_cancelMember keeps_eraseMember keeps_setMembership
      keeps_issue keeps_listIssued keeps_cancelIssued keeps_reserve keeps_capture
      keeps_reverse keeps_manual okay_manual keeps_reconfigure)

end

text \<open>Along a history, when each operation keeps the relation.\<close>

lemma history_keeps:
  assumes "history ids s ops t" "effect_relation R"
    and "\<And>h p. (h, p) \<in> set ops \<Longrightarrow> h_ids h = ids \<Longrightarrow> m_keeps R (perform h p)"
  shows "R s t"
  using assms(1,3)
proof (induction rule: history.induct)
  case (history_Nil s)
  show ?case using assms(2) by (rule effect_relation.R_refl)
next
  case (history_Cons h p s ops t)
  have "R s (snd (perform h p s))"
    using history_Cons.prems [of h p] history_Cons.hyps(1) by (simp add: m_keeps_def)
  moreover have "R (snd (perform h p s)) t" using history_Cons by simp
  ultimately show ?case using assms(2) by (rule effect_relation.R_trans [rotated])
qed

section \<open>Starting from nothing\<close>

text \<open>
  What the theorems ask of an id generator: it never repeats itself under one prefix and
  never returns the empty string (\<open>randomUUID\<close> behind a prefix).
\<close>

definition good_ids :: "(string \<Rightarrow> nat \<Rightarrow> string) \<Rightarrow> bool" where
  "good_ids ids \<longleftrightarrow> (\<forall>prefix. inj (ids prefix)) \<and> (\<forall>prefix n. ids prefix n \<noteq> [])"

lemma good_sample_ids: "good_ids sample_ids"
  by (simp add: good_ids_def inj_sample_ids) (simp add: sample_ids_def)

end
