(* ===== verification/Sample_Story.thy ===== *)
theory Sample_Story
  imports Engine_History
begin

text \<open>
  A history from the empty engine, evaluated: a member enrols, is given 20 points, reserves
  a reward of 5 points and captures it a minute later.
\<close>

definition story_reward :: reward_definition where
  "story_reward =
     sample_reward\<lparr>rd_effect := Custom_effect ''upgrade'' JNull, rd_funding := [sample_share ''hq'' Brand 10000]\<rparr>"

definition story_program :: program where
  "story_program =
     sample_program\<lparr>pg_accounts := None, pg_metrics := None, pg_tiers := None, pg_point_expiration := None,
       pg_wallet_credit_policy := None, pg_rewards := [story_reward]\<rparr>"

definition sample_manual :: "string \<Rightarrow> string \<Rightarrow> int \<Rightarrow> manual_request" where
  "sample_manual key memberId n =
     \<lparr>mq_context = sample_context key, mq_member_id = memberId, mq_program_id = ''demo'',
      mq_adjustment_id = key, mq_unit = None, mq_amount = n, mq_classification = Bonus,
      mq_reason = ''welcome'', mq_qualifies_for_tier = False, mq_expires_at = None\<rparr>"

definition sample_story :: "(host \<times> operation) list" where
  "sample_story =
     [(sample_host, Op_enroll (sample_enroll ''k1'' ''ann'')),
      (sample_host, Op_postManualAdjustment (sample_manual ''m1'' ''ann'' 20)),
      (sample_host, Op_reserve (sample_reserve ''red1'' ''ann'')),
      (sample_host_at 1767225660000, Op_capture (sample_capture ''cap1'' ''reservation_i''))]"

definition story_state :: engine where
  "story_state = run_all sample_story (empty_engine story_program)"

lemma story_runs: "history sample_ids (empty_engine story_program) sample_story story_state"
  by (simp add: history_iff_run story_state_def sample_story_def sample_host_def sample_host_at_def)

text \<open>What the examples look at, as a function, so that the state is computed once.\<close>

definition story_view :: "engine \<Rightarrow> (reservation_status \<times> string \<times> string \<times> int) option \<times> string list \<times> int" where
  "story_view s =
     (map_option (\<lambda>r. (rs_status r, rs_member_id r, rs_redemption_id r, ua_amount (rs_cost r)))
        (js_get (eg_reservations s) ''reservation_i''),
      js_keys (eg_members s), points_of s ''ann'' Points)"

lemma story_view: "story_view story_state = (Some (Captured, ''ann'', ''red1'', 5), [''ann''], 15)"
  by code_simp

lemmas story_facts = story_view [unfolded story_view_def]

lemma story_member: "js_has (eg_members story_state) ''ann''"
proof -
  have "js_keys (eg_members story_state) = [''ann'']" using story_facts by simp
  then show ?thesis unfolding js_has_iff by (metis list.set_intros(1) list.set_map)
qed

lemma story_reservation:
  obtains r where "js_get (eg_reservations story_state) ''reservation_i'' = Some r"
    "rs_status r = Captured" "rs_member_id r = ''ann''" "rs_redemption_id r = ''red1''" "ua_amount (rs_cost r) = 5"
  using story_facts by auto

end
