(* ===== verification/Ledger_Log.thy ===== *)
theory Ledger_Log
  imports Sample_Story
begin

text \<open>
  The ledger is an append-only log: whatever operations run, the entries that were there
  stay there, unchanged and in their order. It rests on the id generator: \<open>addLedger\<close> writes
  with \<open>Map.set\<close>, so a repeated identifier would overwrite an entry.
\<close>

definition fresh_ledger :: "(string \<Rightarrow> nat \<Rightarrow> string) \<Rightarrow> engine \<Rightarrow> bool" where
  "fresh_ledger ids s \<longleftrightarrow>
     inj (ids ''ledger'') \<and> (\<forall>n \<ge> eg_id_count s. ids ''ledger'' n \<notin> fst ` set (eg_ledger s))"

definition ledger_grows :: "(string \<Rightarrow> nat \<Rightarrow> string) \<Rightarrow> engine \<Rightarrow> engine \<Rightarrow> bool" where
  "ledger_grows ids s t \<longleftrightarrow>
     (fresh_ledger ids s \<longrightarrow> fresh_ledger ids t \<and> (\<exists>new. eg_ledger t = eg_ledger s @ new))"

lemma ledger_grows_same:
  "eg_ledger t = eg_ledger s \<Longrightarrow> eg_id_count s \<le> eg_id_count t \<Longrightarrow> ledger_grows ids s t"
  by (auto simp: ledger_grows_def fresh_ledger_def)

lemma ledger_grows_refl: "ledger_grows ids s s"
  by (rule ledger_grows_same) simp_all

lemma ledger_grows_trans: "ledger_grows ids s t \<Longrightarrow> ledger_grows ids t u \<Longrightarrow> ledger_grows ids s u"
  by (auto simp: ledger_grows_def)

interpretation ledger_effect: engine_effect "ledger_grows ids" for ids
  by unfold_locales (auto intro: ledger_grows_refl ledger_grows_trans)

lemma fresh_next:
  assumes "fresh_ledger ids s"
  shows "js_get (eg_ledger s) (ids ''ledger'' (eg_id_count s)) = None"
  using assms by (auto simp: fresh_ledger_def map_of_eq_None_iff)

lemma add_ledger_grows: "m_keeps (ledger_grows (h_ids h)) (addLedger h i)"
  unfolding m_keeps_def
proof
  fix s :: engine
  let ?x = "h_ids h ''ledger'' (eg_id_count s)"
  show "ledger_grows (h_ids h) s (snd (addLedger h i s))"
  proof (unfold ledger_grows_def, intro impI conjI)
    assume f: "fresh_ledger (h_ids h) s"
    let ?e = "ledger_entry_of h (eg_program s) ?x i"
    have new: "eg_ledger (snd (addLedger h i s)) = eg_ledger s @ [(?x, ?e)]"
      using fresh_next [OF f] by (simp add: addLedger_run Let_def js_set_fresh)
    then show "\<exists>new. eg_ledger (snd (addLedger h i s)) = eg_ledger s @ new" by blast
    have "h_ids h ''ledger'' n \<noteq> ?x" if "n \<ge> Suc (eg_id_count s)" for n
      using f that by (auto simp: fresh_ledger_def dest: injD)
    with f new show "fresh_ledger (h_ids h) (snd (addLedger h i s))"
      by (auto simp: fresh_ledger_def addLedger_run Let_def)
  qed
qed

interpretation ledger_log: total_relation "ledger_grows (h_ids h)" h for h
proof unfold_locales
qed (auto intro!: ledger_grows_same ledger_effect.keeps_once_of_store add_ledger_grows ledger_effect.keeps_expire_lots_of
    ledger_effect.keeps_consume_of ledger_effect.keeps_issue_run_of ledger_effect.keeps_restore_of
    ledger_effect.keeps_modify simp: writer_defs effect_defs m_keeps_def [of _ "draw_id _ _"])

lemma history_ledger_grows: "history ids s ops t \<Longrightarrow> ledger_grows ids s t"
  by (rule history_keeps) (auto intro: ledger_effect.effect_relation_axioms ledger_log.keeps_perform)

lemma empty_fresh_ledger: "good_ids ids \<Longrightarrow> fresh_ledger ids (empty_engine p)"
  by (simp add: fresh_ledger_def good_ids_def empty_engine_def)

lemma reached_fresh_ledger: "history ids (empty_engine p) ops s \<Longrightarrow> good_ids ids \<Longrightarrow> fresh_ledger ids s"
  using history_ledger_grows empty_fresh_ledger by (fastforce simp: ledger_grows_def)

text \<open>
  C2. The ledger of a running engine is append-only: in every state an engine reaches, the
  ledger after any further sequence of operations (calls that throw included) is the ledger
  before it followed by new entries. No entry is ever changed, reordered or removed, provided
  the id generator never repeats an identifier. The operations are the public methods of
  LoyaltyEngine on a running engine; replaceState, which loads another state in place of
  the present one, is not among them and starts a new history.
\<close>

theorem ledger_append_only:
  assumes "good_ids ids" "history ids (empty_engine p) past s" "history ids s ops t"
  shows "\<exists>new. eg_ledger t = eg_ledger s @ new"
  using history_ledger_grows [OF assms(3)] reached_fresh_ledger [OF assms(2,1)] by (simp add: ledger_grows_def)

text \<open>
  The member of the story has 20 points; then 5 are taken back, and a second request with
  the key of the first is refused.
\<close>

definition story_middle :: engine where
  "story_middle = run_all (take 2 sample_story) (empty_engine story_program)"

definition story_corrections :: "(host \<times> operation) list" where
  "story_corrections =
     [(sample_host, Op_postManualAdjustment (sample_manual ''m2'' ''ann'' (-5))),
      (sample_host, Op_postManualAdjustment (sample_manual ''m1'' ''ann'' 50))]"

lemma story_corrected:
  "history sample_ids (empty_engine story_program) (take 2 sample_story) story_middle"
  "history sample_ids story_middle story_corrections (run_all story_corrections story_middle)"
  by (simp_all add: history_iff_run story_middle_def sample_story_def story_corrections_def sample_host_def sample_host_at_def)

lemma story_amounts:
  "(map (le_amount \<circ> snd) (eg_ledger story_middle), map (le_amount \<circ> snd) (eg_ledger (run_all story_corrections story_middle))) =
     ([20], [20, -5])"
  by code_simp

theorem ledger_append_only_witness:
  "\<exists>earned spent. eg_ledger story_middle = [earned] \<and>
     eg_ledger (run_all story_corrections story_middle) = [earned, spent] \<and>
     le_amount (snd earned) = 20 \<and> le_amount (snd spent) = -5"
proof -
  obtain new where "eg_ledger (run_all story_corrections story_middle) = eg_ledger story_middle @ new"
    using ledger_append_only [OF good_sample_ids story_corrected] by blast
  with story_amounts show ?thesis by (auto simp: map_eq_Cons_conv append_eq_Cons_conv)
qed

end
