(* ===== verification/Redemption_Frame.thy ===== *)
theory Redemption_Frame
  imports Ledger_Log
begin

text \<open>
  What every operation except reserve, capture and reverse does to redemptions: it may
  expire reservations whose time has come and appends ledger entries that name no
  reservation. Reserve, capture and reverse do nothing else before and after their own
  writes, which is what their correctness proofs use.
\<close>

definition only_expiry :: "host \<Rightarrow> (string, reservation) jsmap \<Rightarrow> (string, reservation) jsmap \<Rightarrow> bool" where
  "only_expiry h m m' \<longleftrightarrow>
     map fst m' = map fst m \<and>
     (\<forall>k. js_get m' k = js_get m k \<or> js_get m' k = map_option (expire_one h) (js_get m k))"

definition unnamed :: "(string, ledger_entry) jsmap \<Rightarrow> bool" where
  "unnamed new \<longleftrightarrow> (\<forall>e \<in> snd ` set new. le_reservation_id e = None)"

definition redemption_frame :: "host \<Rightarrow> engine \<Rightarrow> engine \<Rightarrow> bool" where
  "redemption_frame h s t \<longleftrightarrow>
     (fresh_ledger (h_ids h) s \<longrightarrow>
        fresh_ledger (h_ids h) t \<and> (\<exists>new. eg_ledger t = eg_ledger s @ new \<and> unnamed new)) \<and>
     only_expiry h (eg_reservations s) (eg_reservations t) \<and>
     eg_reservationsByRedemption t = eg_reservationsByRedemption s \<and>
     eg_id_count s \<le> eg_id_count t"

lemma expire_one_twice [simp]: "expire_one h (expire_one h r) = expire_one h r"
  by (auto simp: expire_one_def reservation_due_def)

lemma expire_one_not_due: "\<not> reservation_due h r \<Longrightarrow> expire_one h r = r"
  by (simp add: expire_one_def)

lemma only_expiry_refl [simp]: "only_expiry h m m"
  by (simp add: only_expiry_def)

lemma only_expiry_trans:
  assumes "only_expiry h a b" "only_expiry h b c"
  shows "only_expiry h a c"
  unfolding only_expiry_def
proof (intro conjI allI)
  show "map fst c = map fst a" using assms by (simp add: only_expiry_def)
  fix k
  have 1: "js_get b k = js_get a k \<or> js_get b k = map_option (expire_one h) (js_get a k)"
    using assms(1) by (simp add: only_expiry_def)
  have 2: "js_get c k = js_get b k \<or> js_get c k = map_option (expire_one h) (js_get b k)"
    using assms(2) by (simp add: only_expiry_def)
  have twice: "map_option (expire_one h) (map_option (expire_one h) x) = map_option (expire_one h) x" for x
    by (cases x) simp_all
  from 1 2 twice show "js_get c k = js_get a k \<or> js_get c k = map_option (expire_one h) (js_get a k)"
    by metis
qed

lemma only_expiry_all: "only_expiry h m (js_map_values (expire_one h) m)"
  by (simp add: only_expiry_def)

lemma only_expiry_one: "only_expiry h m (js_update m rid (expire_one h))"
  by (simp add: only_expiry_def)

text \<open>A reservation that is not due is left exactly as it is.\<close>

lemma only_expiry_keeps:
  "only_expiry h m m' \<Longrightarrow> js_get m rid = Some r \<Longrightarrow> \<not> reservation_due h r \<Longrightarrow> js_get m' rid = Some r"
  unfolding only_expiry_def by (metis expire_one_not_due option.simps(9))

lemma unnamed_append [simp]: "unnamed (a @ b) \<longleftrightarrow> unnamed a \<and> unnamed b"
  by (auto simp: unnamed_def)

lemma frame_same:
  "eg_ledger t = eg_ledger s \<Longrightarrow> only_expiry h (eg_reservations s) (eg_reservations t) \<Longrightarrow>
     eg_reservationsByRedemption t = eg_reservationsByRedemption s \<Longrightarrow> eg_id_count s \<le> eg_id_count t \<Longrightarrow>
     redemption_frame h s t"
  by (auto simp: redemption_frame_def fresh_ledger_def unnamed_def intro: exI [of _ "[]"])

lemma frame_trans: "redemption_frame h s t \<Longrightarrow> redemption_frame h t u \<Longrightarrow> redemption_frame h s u"
  by (auto simp: redemption_frame_def intro: only_expiry_trans)

interpretation redemption_effect: engine_effect "redemption_frame h" for h
  by unfold_locales (auto intro: frame_same frame_trans)

lemma add_ledger_state:
  fixes s :: engine and i :: ledger_input
  assumes "fresh_ledger (h_ids h) s"
  defines "e \<equiv> ledger_entry_of h (eg_program s) (h_ids h ''ledger'' (eg_id_count s)) i"
  shows "eg_ledger (snd (addLedger h i s)) = eg_ledger s @ [(le_entry_id e, e)]"
    and "fresh_ledger (h_ids h) (snd (addLedger h i s))"
proof -
  show "eg_ledger (snd (addLedger h i s)) = eg_ledger s @ [(le_entry_id e, e)]"
    using fresh_next [OF assms(1)] by (simp add: addLedger_run Let_def js_set_fresh e_def)
  show "fresh_ledger (h_ids h) (snd (addLedger h i s))"
    using add_ledger_grows [of h i] assms(1) by (auto simp: m_keeps_def ledger_grows_def)
qed

lemma add_ledger_frame:
  assumes "li_reservation_id i = None"
  shows "m_keeps (redemption_frame h) (addLedger h i)"
  unfolding m_keeps_def
proof
  fix s :: engine
  show "redemption_frame h s (snd (addLedger h i s))"
    using add_ledger_state [of h s i] assms
    by (auto simp: redemption_frame_def unnamed_def) (simp_all add: addLedger_run Let_def)
qed

lemma expire_keeps_frame:
  "m_keeps (redemption_frame h) (expireAllReservations h)"
  "m_keeps (redemption_frame h) (expireReservation h rid)"
  by (auto simp: m_keeps_def effect_defs only_expiry_all only_expiry_one intro!: frame_same)

interpretation redemption_posting: posting_relation "redemption_frame h" h "\<lambda>_. True" for h
proof unfold_locales
qed (auto intro!: frame_same redemption_effect.keeps_once_of_store add_ledger_frame expire_keeps_frame redemption_effect.keeps_expire_lots_of
    redemption_effect.keeps_consume_of redemption_effect.keeps_issue_run_of
    redemption_effect.keeps_modify simp: writer_defs m_keeps_def [of _ "draw_id _ _"] draw_id_def)

interpretation redemption_member: reconfiguring_relation "redemption_frame h" h for h
proof unfold_locales
qed (auto intro!: frame_same redemption_effect.keeps_modify simp: writer_defs effect_defs)

lemma consume_frame: "m_keeps (redemption_frame h) (consumePointLots h m u n c)"
  by (intro redemption_effect.keeps_consume_of frame_same) (simp_all add: writer_defs)

lemma restore_frame: "m_keeps (redemption_frame h) (restorePointLots c)"
  by (intro redemption_effect.keeps_restore_of frame_same) simp_all

lemma issued_frame:
  "m_keeps (redemption_frame h) (m_modify (set_issued wid w))"
  "m_keeps (redemption_frame h) (expireIssuedReward h wid)"
  by (auto intro!: redemption_effect.keeps_modify frame_same simp: writer_defs effect_defs)

lemma cancel_issued_frame: "m_keeps (redemption_frame h) (cancelIssuedReward h q)"
  unfolding cancelIssuedReward_def cancelIssuedReward_run_def
  by (intro redemption_posting.keeps_lib issued_frame)

text \<open>The operations that are not a step of a redemption.\<close>

fun redemption_step :: "operation \<Rightarrow> bool" where
  "redemption_step (Op_reserve _) = True"
| "redemption_step (Op_capture _) = True"
| "redemption_step (Op_reverse _) = True"
| "redemption_step _ = False"

lemma perform_frame: "\<not> redemption_step p \<Longrightarrow> m_keeps (redemption_frame h) (perform h p)"
  by (cases p)
    (simp_all add: redemption_effect.keeps_void redemption_posting.keeps_lookup
      redemption_posting.keeps_getProgram redemption_posting.keeps_inspect_erasure
      redemption_posting.keeps_getAccount redemption_posting.keeps_listLedger
      redemption_posting.keeps_evaluate redemption_posting.keeps_getLedger
      redemption_posting.keeps_inspectLedger redemption_posting.keeps_inspectAdmin
      redemption_member.keeps_enroll redemption_member.keeps_cancelMember
      redemption_member.keeps_eraseMember redemption_member.keeps_setMembership
      redemption_member.keeps_listIssued redemption_member.keeps_reconfigure
      redemption_posting.keeps_postAccrual redemption_posting.keeps_issue cancel_issued_frame
      redemption_posting.keeps_adjustOrder redemption_posting.keeps_manual)

end
