(* ===== verification/Redemption_Steps.thy ===== *)
theory Redemption_Steps
  imports Redemption_Frame
begin

text \<open>
  The abstract machine of redemptions: a step creates a reservation, captures one with its
  ledger debit, reverses one with its ledger credit, or is a frame step that touches
  neither. Every operation of the engine is a sequence of these steps
  (\<open>perform_moves\<close>), so that the invariants of redemption are proved by rule induction
  over the steps and hold along every history.
\<close>

definition posted :: "host \<Rightarrow> ledger_input \<Rightarrow> engine \<Rightarrow> engine" where
  "posted h i s = snd (addLedger h i s)"

definition with_debit :: "host \<Rightarrow> reservation \<Rightarrow> engine \<Rightarrow> engine" where
  "with_debit h r s =
     (if ua_amount (rs_cost r) > 0
      then posted h (redemption_input r Redemption (- ua_amount (rs_cost r))) s else s)"

definition with_credit :: "host \<Rightarrow> reservation \<Rightarrow> engine \<Rightarrow> engine" where
  "with_credit h r s =
     (if rs_status r = Captured \<and> ua_amount (rs_cost r) > 0
      then posted h (redemption_input r Reversal (ua_amount (rs_cost r))) s else s)"

inductive redemption_move :: "host \<Rightarrow> engine \<Rightarrow> engine \<Rightarrow> bool" for h :: host where
  move_frame: "redemption_frame h s t \<Longrightarrow> redemption_move h s t"
| move_reserve:
    "js_get (eg_reservationsByRedemption s) (rq_redemption_id q) = None \<Longrightarrow>
     x = new_reservation h q d w (h_ids h ''reservation'' (eg_id_count s)) s \<Longrightarrow>
     redemption_move h s (put_reservation f x (s\<lparr>eg_id_count := eg_id_count s + 1\<rparr>))"
| move_capture:
    "js_get (eg_reservations s) rid = Some r \<Longrightarrow> rs_status r = Reserved \<Longrightarrow> \<not> due h (rs_expires_at r) \<Longrightarrow>
     redemption_move h s (set_reservation rid (captured h) (with_debit h r s))"
| move_reverse:
    "js_get (eg_reservations s) rid = Some r \<Longrightarrow> rs_status r \<in> {Reserved, Captured} \<Longrightarrow>
     rs_status r = Reserved \<longrightarrow> \<not> due h (rs_expires_at r) \<Longrightarrow>
     redemption_frame h (with_credit h r s) t \<Longrightarrow>
     redemption_move h s (set_reservation rid (reversed h) t)"

abbreviation redemption_moves :: "host \<Rightarrow> engine \<Rightarrow> engine \<Rightarrow> bool" where
  "redemption_moves h \<equiv> (redemption_move h)\<^sup>*\<^sup>*"

interpretation moves: engine_effect "redemption_moves h" for h
  by unfold_locales (auto intro: rtranclp_trans)

lemma frame_moves: "m_keeps (redemption_frame h) m \<Longrightarrow> m_keeps (redemption_moves h) m"
  by (auto simp: m_keeps_def intro: r_into_rtranclp move_frame)

lemma frame_run: "m_keeps (redemption_frame h) m \<Longrightarrow> m s = (v, t) \<Longrightarrow> redemption_frame h s t"
  by (metis m_keeps_def snd_conv)

lemmas frame_keeps = redemption_posting.keeps_lib consume_frame restore_frame issued_frame

lemma moves_once: "m_keeps (redemption_moves h) run \<Longrightarrow> m_keeps (redemption_moves h) (once h oper c q run)"
proof (rule moves.keeps_once_of_store)
  show "redemption_moves h s (store_response k f r s)" for k f r s
    by (intro r_into_rtranclp move_frame frame_same) (simp_all add: store_response_def)
qed

section \<open>Reserve\<close>

lemma new_reservation_drawn [simp]:
  "new_reservation h q d w rid (s\<lparr>eg_id_count := n\<rparr>) = new_reservation h q d w rid s"
  by (simp add: new_reservation_def)

lemma create_reservation_moves:
  assumes "js_get (eg_reservationsByRedemption s) (rq_redemption_id q) = None"
  shows "redemption_moves h s (snd (create_reservation h q d w s))"
proof -
  let ?rid = "h_ids h ''reservation'' (eg_id_count s)"
  let ?x = "new_reservation h q d w ?rid s"
  let ?t = "put_reservation (reserve_fingerprint h q) ?x (s\<lparr>eg_id_count := eg_id_count s + 1\<rparr>)"
  have "create_reservation h q d w s = reservationResponse h (rq_context q) ?x ?t"
    by (simp add: create_reservation_def draw_id_def m_bind_def)
  moreover have "redemption_move h s ?t"
    using assms by (intro move_reserve) simp_all
  moreover have "redemption_moves h ?t (snd (reservationResponse h (rq_context q) ?x ?t))"
    by (intro moves.at_keeps frame_moves redemption_posting.keeps_reservation_response)
  ultimately show ?thesis by (metis converse_rtranclp_into_rtranclp)
qed

lemma frame_by_redemption:
  "redemption_frame h s t \<Longrightarrow> eg_reservationsByRedemption t = eg_reservationsByRedemption s"
  by (simp add: redemption_frame_def)

lemma then_create:
  assumes "m_keeps (redemption_frame h) m"
    and "js_get (eg_reservationsByRedemption s) (rq_redemption_id q) = None"
  shows "redemption_moves h s (snd (m_bind m (\<lambda>v. create_reservation h q d (g v)) s))"
proof (rule moves.at_bind)
  show "redemption_moves h s (snd (m s))" by (intro moves.at_keeps frame_moves assms(1))
  fix v s1
  assume "m s = (Inr v, s1)"
  then have "redemption_frame h s s1" by (rule frame_run [OF assms(1)])
  then show "redemption_moves h s1 (snd (create_reservation h q d (g v) s1))"
    using assms(2) by (intro create_reservation_moves) (simp add: frame_by_redemption)
qed

lemma check_frame:
  "m_keeps (redemption_frame h) (check_issued h q wid)"
  "m_keeps (redemption_frame h) (check_funds h q d)"
  unfolding check_issued_def check_funds_def by (intro frame_keeps)+

lemma first_reserve_moves:
  assumes "js_get (eg_reservationsByRedemption s) (rq_redemption_id q) = None"
  shows "redemption_moves h s (snd (first_reserve h q s))"
proof (cases "find_reward (eg_program s) (rq_reward_id q)")
  case None
  then show ?thesis by (simp add: first_reserve_def)
next
  case (Some d)
  have "redemption_moves h s (snd (m_bind (m_assert (rewardWindowReason h d = None) (engine_err Reward_not_available)) (\<lambda>_.
      if truthy (rq_issued_reward_id q)
      then m_bind (check_issued h q (the (rq_issued_reward_id q))) (\<lambda>w. create_reservation h q d (Some w))
      else m_bind (check_funds h q d) (\<lambda>_. create_reservation h q d None)) s))"
    by (rule moves.at_assert)
      (auto intro: then_create [OF check_frame(1) assms] then_create [OF check_frame(2) assms, where g = "\<lambda>_. None"])
  with Some show ?thesis by (simp add: first_reserve_def)
qed

lemma repeat_reserve_frame: "m_keeps (redemption_frame h) (repeat_reserve h q a)"
  unfolding repeat_reserve_def by (intro frame_keeps)

lemma reserve_run_moves: "m_keeps (redemption_moves h) (reserve_run h q)"
  unfolding m_keeps_def
proof
  fix s :: engine
  show "redemption_moves h s (snd (reserve_run h q s))"
    unfolding reserve_run_def
  proof (rule moves.at_bind)
    show "redemption_moves h s (snd (activeMember (rq_member_id q) s))"
      by (intro moves.at_keeps frame_moves frame_keeps)
    fix m s1
    show "redemption_moves h s1 (snd (m_bind (assertOrder h (rq_order q) m) (\<lambda>_.
        m_bind (m_get (\<lambda>s. js_get (eg_reservationsByRedemption s) (rq_redemption_id q)))
          (case_option (first_reserve h q) (repeat_reserve h q))) s1))"
    proof (rule moves.at_bind)
      show "redemption_moves h s1 (snd (assertOrder h (rq_order q) m s1))"
        by (intro moves.at_keeps frame_moves frame_keeps)
      fix v s2
      show "redemption_moves h s2 (snd (m_bind (m_get (\<lambda>s. js_get (eg_reservationsByRedemption s) (rq_redemption_id q)))
          (case_option (first_reserve h q) (repeat_reserve h q)) s2))"
        by (rule moves.at_get)
          (auto split: option.split intro: first_reserve_moves moves.at_keeps frame_moves repeat_reserve_frame)
    qed
  qed
qed

lemma reserve_moves: "m_keeps (redemption_moves h) (reserve h q)"
  unfolding reserve_def by (intro moves_once reserve_run_moves)


section \<open>Capture\<close>

lemma frame_get:
  assumes "redemption_frame h s t" "js_get (eg_reservations s) rid = Some r" "\<not> reservation_due h r"
  shows "js_get (eg_reservations t) rid = Some r"
  using assms by (auto simp: redemption_frame_def intro: only_expiry_keeps)

lemma consume_run:
  "\<exists>t. consumePointLots h m u n c s = (Inr (), t) \<and> redemption_frame h s t"
proof -
  have "\<exists>t. consumePointLots h m u n c s = (Inr (), t)"
    by (simp add: consumePointLots_def m_modify_def)
  then show ?thesis using frame_run [OF consume_frame] by blast
qed

lemma debit_run:
  "\<exists>t. debit_reservation h r s = (Inr (), with_debit h r t) \<and> redemption_frame h s t"
proof (cases "ua_amount (rs_cost r) > 0")
  case True
  obtain t where t: "consumePointLots h (rs_member_id r) (ua_unit (rs_cost r)) (ua_amount (rs_cost r))
      (Some (rs_reservation_id r)) s = (Inr (), t)" "redemption_frame h s t"
    using consume_run by blast
  have "debit_reservation h r s = (Inr (), with_debit h r t)"
    using True t(1) by (simp add: debit_reservation_def with_debit_def posted_def m_bind_def addLedger_run Let_def)
  with t(2) show ?thesis by blast
next
  case False
  then have "debit_reservation h r s = (Inr (), with_debit h r s)"
    by (simp add: debit_reservation_def with_debit_def)
  then show ?thesis using frame_same [of s s h] by auto
qed

lemma redeem_frame: "m_keeps (redemption_frame h) (redeem_issued h wid)"
  unfolding redeem_issued_def by (intro frame_keeps)

lemma capture_reserved_moves:
  assumes "js_get (eg_reservations s) (cq_reservation_id q) = Some r"
    and "rs_status r = Reserved" "\<not> due h (rs_expires_at r)"
  shows "redemption_moves h s (snd (capture_reserved h q r s))"
  unfolding capture_reserved_def
proof (intro moves.at_get moves.at_lift moves.at_bind [where m = "balance h (rs_member_id r) (ua_unit (rs_cost r))"]
    moves.at_assert)
  let ?rest = "\<lambda>_. m_bind (redeem_issued h (rs_issued_reward_id r))
      (\<lambda>_. respond_reservation h (cq_context q) (cq_reservation_id q))"
  have nd: "\<not> reservation_due h r" using assms(3) by (simp add: reservation_due_def)
  show "redemption_moves h s (snd (balance h (rs_member_id r) (ua_unit (rs_cost r)) s))"
    by (intro moves.at_keeps frame_moves frame_keeps)
  fix b s1
  assume "balance h (rs_member_id r) (ua_unit (rs_cost r)) s = (Inr b, s1)"
  then have "redemption_frame h s s1" by (rule frame_run [OF redemption_posting.keeps_balance])
  then have g1: "js_get (eg_reservations s1) (cq_reservation_id q) = Some r"
    using assms(1) nd by (rule frame_get)
  obtain t where t: "debit_reservation h r s1 = (Inr (), with_debit h r t)" "redemption_frame h s1 t"
    using debit_run by blast
  have "js_get (eg_reservations t) (cq_reservation_id q) = Some r"
    using t(2) g1 nd by (rule frame_get)
  then have "redemption_move h t (set_reservation (cq_reservation_id q) (captured h) (with_debit h r t))"
    using assms(2,3) by (rule move_capture)
  moreover have "redemption_move h s1 t" using t(2) by (rule move_frame)
  moreover have "redemption_moves h (set_reservation (cq_reservation_id q) (captured h) (with_debit h r t))
      (snd (?rest () (set_reservation (cq_reservation_id q) (captured h) (with_debit h r t))))"
    by (intro moves.at_keeps frame_moves frame_keeps redeem_frame)
  ultimately have "redemption_moves h s1
      (snd (?rest () (set_reservation (cq_reservation_id q) (captured h) (with_debit h r t))))"
    by (meson converse_rtranclp_into_rtranclp)
  then show "redemption_moves h s1 (snd (m_bind (debit_reservation h r) (\<lambda>_.
      m_bind (m_modify (set_reservation (cq_reservation_id q) (captured h))) ?rest) s1))"
    using t(1) by (simp add: m_bind_Inr)
qed

text \<open>Both handlers first expire the reservation and read it again.\<close>

lemma reread_run:
  assumes "\<And>s r. js_get (eg_reservations s) rid = Some r \<Longrightarrow> \<not> reservation_due h r \<Longrightarrow>
    redemption_moves h s (snd (k r s))"
  shows "m_keeps (redemption_moves h)
    (m_bind (getReservation rid) (\<lambda>_. m_bind (expireReservation h rid) (\<lambda>_. m_bind (getReservation rid) k)))"
  unfolding m_keeps_def
proof
  fix s :: engine
  show "redemption_moves h s (snd (m_bind (getReservation rid) (\<lambda>_.
      m_bind (expireReservation h rid) (\<lambda>_. m_bind (getReservation rid) k)) s))"
  proof (cases "js_get (eg_reservations s) rid")
    case None
    then show ?thesis by (simp add: getReservation_def m_bind_def)
  next
    case (Some r)
    let ?t = "s\<lparr>eg_reservations := js_update (eg_reservations s) rid (expire_one h)\<rparr>"
    have "redemption_move h s ?t"
      by (intro move_frame frame_same) (simp_all add: only_expiry_one)
    moreover have "redemption_moves h ?t (snd (k (expire_one h r) ?t))"
      using Some by (intro assms) (auto simp: expire_one_def reservation_due_def)
    ultimately have "redemption_moves h s (snd (k (expire_one h r) ?t))"
      by (rule converse_rtranclp_into_rtranclp)
    with Some show ?thesis
      by (simp add: getReservation_def expireReservation_def m_bind_def m_modify_def)
  qed
qed

lemma capture_moves: "m_keeps (redemption_moves h) (capture h q)"
proof -
  have "redemption_moves h s (snd (m_bind (m_assert (rs_order_id r = cq_order_id q) (engine_err Conflict)) (\<lambda>_.
      if rs_status r = Captured then reservationResponse h (cq_context q) r
      else if rs_status r = Expired then m_throw (engine_err Err_expired)
      else if rs_status r \<noteq> Reserved then m_throw (engine_err Invalid_state)
      else capture_reserved h q r) s))"
    if "js_get (eg_reservations s) (cq_reservation_id q) = Some r" "\<not> reservation_due h r" for s r
    using that
    by (intro moves.at_assert)
      (auto simp: reservation_due_def intro: capture_reserved_moves moves.at_keeps frame_moves frame_keeps)
  then show ?thesis unfolding capture_def capture_run_def by (intro moves_once reread_run)
qed

section \<open>Reverse\<close>

lemma expire_lots_run: "\<exists>t. expirePointLots h a b s = (Inr (), t) \<and> redemption_frame h s t"
proof -
  have "\<exists>es t. m_map (expire_lot h) ls s = (Inr es, t)" for ls s
  proof (induction ls arbitrary: s)
    case (Cons l ls)
    obtain e s1 where "expire_lot h l s = (Inr e, s1)"
      by (simp add: expire_lot_def addLedger_run Let_def)
    moreover obtain es t where "m_map (expire_lot h) ls s1 = (Inr es, t)" using Cons by blast
    ultimately show ?case by (simp add: m_bind_def)
  qed simp
  then obtain es t where "m_map (expire_lot h) (expiring_lots h a b s) s = (Inr es, t)" by blast
  then have "expirePointLots h a b s = (Inr (), t)"
    by (simp add: expirePointLots_def m_bind_Inr)
  moreover have "redemption_frame h s t"
    using calculation by (intro frame_run [OF redemption_posting.keeps_expire_lots])
  ultimately show ?thesis by blast
qed

text \<open>Refunding either throws after frame steps, or credits and goes on with frame steps.\<close>

lemma refund_cases:
  assumes "rs_status r = Captured" "refund_reservation h r s = (v, t)"
  shows "(\<exists>e. v = Inl e) \<and> redemption_frame h s t \<or>
    v = Inr () \<and> (\<exists>s1. redemption_frame h s s1 \<and> redemption_frame h (with_credit h r s1) t)"
proof (cases "ua_amount (rs_cost r) > 0")
  case False
  then show ?thesis
    using assms frame_same [of s s h] by (auto simp: refund_reservation_def with_credit_def)
next
  case True
  obtain v1 s1 where s1: "restorePointLots (rs_reservation_id r) s = (v1, s1)" by fastforce
  have f: "redemption_frame h s s1" using restore_frame s1 by (rule frame_run)
  show ?thesis
  proof (cases v1)
    case (Inl e)
    with assms(2) True s1 f show ?thesis by (auto simp: refund_reservation_def m_bind_def)
  next
    case (Inr x)
    obtain u where "expirePointLots h (Some (rs_member_id r)) (Some (ua_unit (rs_cost r))) (with_credit h r s1)
        = (Inr (), u)" "redemption_frame h (with_credit h r s1) u"
      using expire_lots_run by blast
    with assms True s1 f Inr show ?thesis
      by (auto simp: refund_reservation_def with_credit_def posted_def m_bind_def addLedger_run Let_def)
  qed
qed

lemma return_run: "\<exists>t. return_issued wid s = (Inr (), t) \<and> redemption_frame h s t"
proof -
  have "\<exists>t. return_issued wid s = (Inr (), t)" by (simp add: return_issued_def)
  moreover have "m_keeps (redemption_frame h) (return_issued wid)"
    unfolding return_issued_def by (intro frame_keeps)
  ultimately show ?thesis using frame_run by blast
qed

lemma undo_cases:
  assumes "rs_status r \<in> {Reserved, Captured}" "undo_capture h r s = (v, t)"
  shows "(\<exists>e. v = Inl e) \<and> redemption_frame h s t \<or>
    v = Inr () \<and> (\<exists>s1. redemption_frame h s s1 \<and> redemption_frame h (with_credit h r s1) t)"
proof (cases "rs_status r = Captured")
  case False
  then show ?thesis
    using assms frame_same [of s s h] by (auto simp: undo_capture_def with_credit_def)
next
  case True
  obtain v1 s1 where s1: "refund_reservation h r s = (v1, s1)" by fastforce
  note cases = refund_cases [OF True s1]
  show ?thesis
  proof (cases "assertAccountUnit (eg_program s) (ua_unit (rs_cost r))")
    case (Inl e)
    then have "undo_capture h r s = (Inl e, s)"
      using True by (simp add: undo_capture_def m_bind_lift)
    with assms(2) show ?thesis using frame_same [of s s h] by auto
  next
    case (Inr x)
    obtain u where u: "return_issued (rs_issued_reward_id r) s1 = (Inr (), u)" "redemption_frame h s1 u"
      using return_run by blast
    have "undo_capture h r s = (case v1 of Inl e \<Rightarrow> (Inl e, s1) | Inr _ \<Rightarrow> (Inr (), u))"
      using True Inr s1 u(1) by (auto simp: undo_capture_def m_bind_def split: sum.splits)
    with cases u(2) assms(2) show ?thesis
      by (auto split: sum.splits intro: frame_trans)
  qed
qed

lemma reverse_moves: "m_keeps (redemption_moves h) (reverse h q)"
proof -
  let ?rid = "vq_reservation_id q"
  let ?set = "m_bind (m_modify (set_reservation ?rid (reversed h)))
      (\<lambda>_. respond_reservation h (vq_context q) ?rid)"
  have undo: "redemption_moves h s (snd (m_bind (undo_capture h r) (\<lambda>_. ?set) s))"
    if g: "js_get (eg_reservations s) ?rid = Some r" "\<not> reservation_due h r"
      and st: "rs_status r \<in> {Reserved, Captured}" for s r
  proof -
    obtain v t where run: "undo_capture h r s = (v, t)" by fastforce
    from undo_cases [OF st run] show ?thesis
    proof
      assume "(\<exists>e. v = Inl e) \<and> redemption_frame h s t"
      with run show ?thesis by (auto simp: m_bind_def intro!: r_into_rtranclp [of "redemption_move h"] move_frame)
    next
      assume "v = Inr () \<and> (\<exists>s1. redemption_frame h s s1 \<and> redemption_frame h (with_credit h r s1) t)"
      then obtain s1 where v: "v = Inr ()" and s1: "redemption_frame h s s1" "redemption_frame h (with_credit h r s1) t"
        by blast
      have "redemption_move h s1 (set_reservation ?rid (reversed h) t)"
        using frame_get [OF s1(1) g] st g(2) s1(2) by (intro move_reverse) (auto simp: reservation_due_def)
      moreover have "redemption_moves h (set_reservation ?rid (reversed h) t) (snd (?set t))"
        by (simp) (intro moves.at_keeps frame_moves frame_keeps)
      moreover have "redemption_move h s s1" using s1(1) by (rule move_frame)
      ultimately have "redemption_moves h s (snd (?set t))"
        by (meson converse_rtranclp_into_rtranclp)
      with run v show ?thesis by (simp add: m_bind_Inr)
    qed
  qed
  have "redemption_moves h s (snd ((if rs_status r = Reversed then reservationResponse h (vq_context q) r
      else if rs_status r = Expired then m_throw (engine_err Err_expired)
      else m_bind (undo_capture h r) (\<lambda>_. ?set)) s))"
    if "js_get (eg_reservations s) ?rid = Some r" "\<not> reservation_due h r" for s r
    using undo [OF that] by (cases "rs_status r") (auto intro: moves.at_keeps frame_moves frame_keeps)
  then show ?thesis unfolding reverse_def reverse_run_def by (intro moves_once reread_run)
qed

section \<open>The simulation\<close>

lemma perform_moves: "redemption_moves h s (snd (perform h p s))"
proof (cases "redemption_step p")
  case False
  then show ?thesis by (intro moves.at_keeps frame_moves perform_frame)
next
  case True
  then show ?thesis
    using reserve_moves capture_moves reverse_moves by (cases p) (simp_all add: m_keeps_def)
qed

text \<open>
  C3. Whatever operation runs and whether it returns or throws, what it does to the
  redemptions of the engine is a sequence of steps of the abstract machine: frame steps,
  reservations created under a new redemption id, captures of unexpired reserved ones with
  their debit, and reversals with their credit.
\<close>

theorem perform_simulates: "redemption_moves h s (snd (perform h p s))"
  by (rule perform_moves)

end
