(* ===== verification/Redemption_Invariants.thy ===== *)
theory Redemption_Invariants
  imports Redemption_Steps Sample_Story
begin

text \<open>
  The invariants of redemption along every history, by induction over the steps of the
  abstract machine: reservations only move forward through their lifecycle and keep their
  terms; the ledger entries that name a reservation sum to minus its cost while it is
  captured and to zero otherwise; a redemption id never names two reservations.
\<close>

section \<open>The lifecycle\<close>

text \<open>The transitions of spec/lifecycle.md; their closure is the order on states.\<close>

inductive lifecycle_step :: "reservation_status \<Rightarrow> reservation_status \<Rightarrow> bool" where
  "lifecycle_step Reserved Captured"
| "lifecycle_step Reserved Reversed"
| "lifecycle_step Reserved Expired"
| "lifecycle_step Captured Reversed"

inductive_simps lifecycle_step_simps: "lifecycle_step a b"

lemma lifecycle_iff: "lifecycle_step\<^sup>*\<^sup>* a b \<longleftrightarrow> a \<le> b"
proof
  show "lifecycle_step\<^sup>*\<^sup>* a b \<Longrightarrow> a \<le> b"
    by (induction rule: rtranclp_induct) (auto simp: lifecycle_step_simps intro: order_trans)
  have step: "a = b \<or> lifecycle_step a b" if "a \<le> b"
    using that by (cases a; cases b) (simp_all add: lifecycle_step_simps)
  then show "a \<le> b \<Longrightarrow> lifecycle_step\<^sup>*\<^sup>* a b" by auto
qed

definition same_terms :: "reservation \<Rightarrow> reservation \<Rightarrow> bool" where
  "same_terms r r' \<longleftrightarrow>
     rs_reservation_id r' = rs_reservation_id r \<and> rs_redemption_id r' = rs_redemption_id r \<and>
     rs_member_id r' = rs_member_id r \<and> rs_reward_id r' = rs_reward_id r \<and>
     rs_issued_reward_id r' = rs_issued_reward_id r \<and> rs_order_id r' = rs_order_id r \<and>
     rs_location_id r' = rs_location_id r \<and> rs_cost r' = rs_cost r \<and> rs_effect r' = rs_effect r \<and>
     rs_funding r' = rs_funding r \<and> rs_created_at r' = rs_created_at r \<and> rs_expires_at r' = rs_expires_at r"

definition fresh_reservations :: "(string \<Rightarrow> nat \<Rightarrow> string) \<Rightarrow> engine \<Rightarrow> bool" where
  "fresh_reservations ids s \<longleftrightarrow>
     inj (ids ''reservation'') \<and> (\<forall>n. ids ''reservation'' n \<noteq> []) \<and>
     (\<forall>n \<ge> eg_id_count s. ids ''reservation'' n \<notin> fst ` set (eg_reservations s))"

definition advances :: "engine \<Rightarrow> engine \<Rightarrow> bool" where
  "advances s t \<longleftrightarrow>
     (\<forall>rid r. js_get (eg_reservations s) rid = Some r \<longrightarrow>
        (\<exists>r'. js_get (eg_reservations t) rid = Some r' \<and> rs_status r \<le> rs_status r' \<and> same_terms r r'))"

lemma same_terms_simps [simp]:
  "same_terms r r" "same_terms r (captured h r)" "same_terms r (reversed h r)" "same_terms r (expire_one h r)"
  by (simp_all add: same_terms_def captured_def reversed_def expire_one_def)

lemma status_simps [simp]:
  "rs_status (captured h r) = Captured" "rs_status (reversed h r) = Reversed"
  by (simp_all add: captured_def reversed_def)

lemma same_terms_trans: "same_terms a b \<Longrightarrow> same_terms b c \<Longrightarrow> same_terms a c"
  by (simp add: same_terms_def)

lemma same_terms_fields:
  assumes "same_terms r r'"
  shows "rs_reservation_id r' = rs_reservation_id r" "rs_redemption_id r' = rs_redemption_id r"
    "rs_member_id r' = rs_member_id r" "rs_cost r' = rs_cost r"
  using assms by (simp_all add: same_terms_def)

lemma expire_one_later: "rs_status r \<le> rs_status (expire_one h r)"
  by (simp add: expire_one_def reservation_due_def)

lemma advances_refl: "advances s s"
  by (auto simp: advances_def)

lemma advances_trans: "advances s t \<Longrightarrow> advances t u \<Longrightarrow> advances s u"
  unfolding advances_def by (meson order_trans same_terms_trans)

lemma advances_expiry:
  assumes "only_expiry h (eg_reservations s) (eg_reservations t)"
  shows "advances s t"
  unfolding advances_def
proof (intro allI impI)
  fix rid r
  assume "js_get (eg_reservations s) rid = Some r"
  then have "js_get (eg_reservations t) rid = Some r \<or> js_get (eg_reservations t) rid = Some (expire_one h r)"
    using assms by (metis only_expiry_def option.simps(9))
  then show "\<exists>r'. js_get (eg_reservations t) rid = Some r' \<and> rs_status r \<le> rs_status r' \<and> same_terms r r'"
    using expire_one_later by auto
qed

lemma fresh_reservations_keys:
  assumes "map fst (eg_reservations t) = map fst (eg_reservations s)" "eg_id_count s \<le> eg_id_count t"
    and "fresh_reservations ids s"
  shows "fresh_reservations ids t"
proof -
  have "fst ` set (eg_reservations t) = fst ` set (eg_reservations s)"
    using arg_cong [OF assms(1), of set] by simp
  with assms(2,3) show ?thesis by (simp add: fresh_reservations_def)
qed

lemma posted_fields [simp]:
  "eg_program (posted h i s) = eg_program s"
  "eg_reservations (posted h i s) = eg_reservations s"
  "eg_reservationsByRedemption (posted h i s) = eg_reservationsByRedemption s"
  "eg_id_count (posted h i s) = Suc (eg_id_count s)"
  by (simp_all add: posted_def addLedger_run Let_def)

lemma with_fields [simp]:
  "eg_reservations (with_debit h r s) = eg_reservations s"
  "eg_reservationsByRedemption (with_debit h r s) = eg_reservationsByRedemption s"
  "eg_id_count s \<le> eg_id_count (with_debit h r s)"
  "eg_reservations (with_credit h r s) = eg_reservations s"
  "eg_reservationsByRedemption (with_credit h r s) = eg_reservationsByRedemption s"
  "eg_id_count s \<le> eg_id_count (with_credit h r s)"
  by (simp_all add: with_debit_def with_credit_def)

definition lifecycle_ok :: "(string \<Rightarrow> nat \<Rightarrow> string) \<Rightarrow> engine \<Rightarrow> engine \<Rightarrow> bool" where
  "lifecycle_ok ids s t \<longleftrightarrow> (fresh_reservations ids s \<longrightarrow> fresh_reservations ids t \<and> advances s t)"

lemma set_reservation_advances:
  assumes "js_get (eg_reservations s) rid = Some r" "rs_status r \<le> rs_status (f r)" "same_terms r (f r)"
  shows "advances s (set_reservation rid f s)"
  using assms by (auto simp: advances_def set_reservation_def)

lemma fresh_reservation_next:
  "fresh_reservations ids s \<Longrightarrow> js_get (eg_reservations s) (ids ''reservation'' (eg_id_count s)) = None"
  by (auto simp: fresh_reservations_def map_of_eq_None_iff)

lemma put_reservation_state:
  fixes s :: engine and f :: string
  assumes "fresh_reservations ids s" "rs_reservation_id x = ids ''reservation'' (eg_id_count s)"
  defines "t \<equiv> put_reservation f x (s\<lparr>eg_id_count := eg_id_count s + 1\<rparr>)"
  shows "eg_reservations t = eg_reservations s @ [(rs_reservation_id x, x)]" "fresh_reservations ids t"
proof -
  show 1: "eg_reservations t = eg_reservations s @ [(rs_reservation_id x, x)]"
    using fresh_reservation_next [OF assms(1)] assms(2) by (simp add: t_def put_reservation_def js_set_fresh)
  have "ids ''reservation'' n \<noteq> ids ''reservation'' (eg_id_count s)" if "n \<ge> Suc (eg_id_count s)" for n
    using assms(1) that by (auto simp: fresh_reservations_def dest: injD)
  moreover have "eg_id_count t = Suc (eg_id_count s)" by (simp add: t_def put_reservation_def)
  ultimately show "fresh_reservations ids t"
    using assms(1,2) 1 by (auto simp: fresh_reservations_def)
qed

text \<open>The case of a step that changes one known reservation after other, harmless writes.\<close>

lemma update_lifecycle:
  assumes "js_get (eg_reservations s) rid = Some r" "rs_status r \<le> rs_status (f r)" "same_terms r (f r)"
    and "js_get (eg_reservations t) rid = Some r" "only_expiry h (eg_reservations s) (eg_reservations t)"
    and "eg_id_count s \<le> eg_id_count t"
  shows "lifecycle_ok ids s (set_reservation rid f t)"
proof -
  have "advances s t" using assms(5) by (rule advances_expiry)
  moreover have "advances t (set_reservation rid f t)" using assms(4,2,3) by (rule set_reservation_advances)
  ultimately have "advances s (set_reservation rid f t)" by (rule advances_trans)
  moreover have "map fst (eg_reservations (set_reservation rid f t)) = map fst (eg_reservations s)"
    using assms(5) by (simp add: set_reservation_def only_expiry_def)
  ultimately show ?thesis
    using assms(6) fresh_reservations_keys [of "set_reservation rid f t" s]
    by (auto simp: lifecycle_ok_def set_reservation_def)
qed

text \<open>A reversal reads its reservation before the frame steps that precede its last write.\<close>

lemma credit_frame:
  assumes "redemption_frame h (with_credit h r s) t" "js_get (eg_reservations s) rid = Some r"
    and "rs_status r = Reserved \<longrightarrow> \<not> due h (rs_expires_at r)"
  shows "js_get (eg_reservations t) rid = Some r" "only_expiry h (eg_reservations s) (eg_reservations t)"
    "eg_id_count s \<le> eg_id_count t" "eg_reservationsByRedemption t = eg_reservationsByRedemption s"
proof -
  show "js_get (eg_reservations t) rid = Some r"
    using assms by (intro frame_get [OF assms(1)]) (simp_all add: reservation_due_def)
  show "only_expiry h (eg_reservations s) (eg_reservations t)" "eg_id_count s \<le> eg_id_count t"
    "eg_reservationsByRedemption t = eg_reservationsByRedemption s"
    using assms(1) le_trans [OF with_fields(6) [of s h r]] by (simp_all add: redemption_frame_def)
qed

lemma move_lifecycle: "redemption_move h s t \<Longrightarrow> lifecycle_ok (h_ids h) s t"
proof (induction rule: redemption_move.induct)
  case (move_frame s t)
  then have "only_expiry h (eg_reservations s) (eg_reservations t)" "eg_id_count s \<le> eg_id_count t"
    by (simp_all add: redemption_frame_def)
  then show ?case
    using advances_expiry fresh_reservations_keys [of t s]
    by (auto simp: lifecycle_ok_def only_expiry_def)
next
  case (move_reserve s q x d w f)
  then have x: "rs_reservation_id x = h_ids h ''reservation'' (eg_id_count s)"
    by (simp add: new_reservation_def)
  show ?case
    using put_reservation_state [of "h_ids h" s x f] x by (auto simp: lifecycle_ok_def advances_def)
next
  case (move_capture s rid r)
  show ?case
    by (rule update_lifecycle [of s rid r _ _ h]) (use move_capture in simp_all)
next
  case (move_reverse s rid r t)
  show ?case
    using credit_frame [OF move_reverse(4,1,3)] move_reverse(1,2)
    by (intro update_lifecycle [of s rid r _ _ h]) auto
qed

lemma lifecycle_rel: "effect_relation (lifecycle_ok ids)"
  by unfold_locales (auto simp: lifecycle_ok_def advances_refl intro: advances_trans)

text \<open>Anything every step keeps, every operation keeps, and so does every history.\<close>

lemma perform_induct:
  assumes "effect_relation R" "\<And>s t. redemption_move h s t \<Longrightarrow> R s t"
  shows "m_keeps R (perform h p)"
proof -
  have "R s t" if "redemption_moves h s t" for s t
    using that
  proof induction
    case base
    show ?case using assms(1) by (rule effect_relation.R_refl)
  next
    case (step t u)
    from assms(2) [OF step(2)] step(3) show ?case
      using assms(1) effect_relation.R_trans by fast
  qed
  then show ?thesis using perform_moves by (simp add: m_keeps_def)
qed

lemma history_lifecycle: "history ids s ops t \<Longrightarrow> lifecycle_ok ids s t"
  by (rule history_keeps [OF _ lifecycle_rel]) (auto intro!: perform_induct lifecycle_rel move_lifecycle)

lemma empty_fresh_reservations: "good_ids ids \<Longrightarrow> fresh_reservations ids (empty_engine p)"
  by (simp add: fresh_reservations_def good_ids_def empty_engine_def)

lemma reached_fresh_reservations:
  "history ids (empty_engine p) ops s \<Longrightarrow> good_ids ids \<Longrightarrow> fresh_reservations ids s"
  using history_lifecycle empty_fresh_reservations by (fastforce simp: lifecycle_ok_def)

text \<open>
  C4. In every state an engine reaches, whatever operations run next, a reservation never
  disappears, its status only moves forward through the lifecycle (reserved, then captured,
  reversed or expired; captured, then reversed), and its member, reward, cost, funding,
  order and expiry never change.
\<close>

theorem reservation_lifecycle:
  assumes "good_ids ids" "history ids (empty_engine p) past s" "history ids s ops t"
    and "js_get (eg_reservations s) rid = Some r"
  shows "\<exists>r'. js_get (eg_reservations t) rid = Some r' \<and>
    lifecycle_step\<^sup>*\<^sup>* (rs_status r) (rs_status r') \<and> same_terms r r'"
  using history_lifecycle [OF assms(3)] reached_fresh_reservations [OF assms(2,1)] assms(4)
  by (auto simp: lifecycle_ok_def advances_def lifecycle_iff)

definition story_reversal :: "(host \<times> operation) list" where
  "story_reversal = [(sample_host, Op_reverse sample_reverse)]"

lemma story_reversal_runs: "history sample_ids s story_reversal (run_all story_reversal s)"
  by (simp add: history_iff_run story_reversal_def sample_host_def sample_host_at_def)

theorem reservation_lifecycle_witness:
  "\<exists>r'. js_get (eg_reservations (run_all story_reversal story_state)) ''reservation_i'' = Some r' \<and>
     lifecycle_step\<^sup>*\<^sup>* Captured (rs_status r') \<and> ua_amount (rs_cost r') = 5"
proof -
  obtain r where r: "js_get (eg_reservations story_state) ''reservation_i'' = Some r"
      "rs_status r = Captured" "ua_amount (rs_cost r) = 5"
    by (rule story_reservation)
  show ?thesis
    using reservation_lifecycle [OF good_sample_ids story_runs story_reversal_runs r(1)] r(2,3)
    by (auto simp: same_terms_def)
qed

end
