(* ===== verification/Redemption_Settlement.thy ===== *)
theory Redemption_Settlement
  imports Redemption_Invariants
begin

text \<open>
  Money side of the redemption machine: what the ledger says about a reservation always
  agrees with its status. A capture debits its cost exactly once however often it is
  repeated, a reversal gives exactly that back, an expired or released one never debits.
\<close>

definition net :: "engine \<Rightarrow> string \<Rightarrow> int" where
  "net s rid = (\<Sum>e\<leftarrow>filter (\<lambda>e. le_reservation_id e = Some rid) (js_values (eg_ledger s)). le_amount e)"

definition debited :: "reservation \<Rightarrow> int" where
  "debited r = (if rs_status r = Captured then - max 0 (ua_amount (rs_cost r)) else 0)"

definition named_known :: "engine \<Rightarrow> bool" where
  "named_known s \<longleftrightarrow>
     (\<forall>e \<in> snd ` set (eg_ledger s). \<forall>rid. le_reservation_id e = Some rid \<longrightarrow>
        js_get (eg_reservations s) rid \<noteq> None)"

definition indexed :: "engine \<Rightarrow> string \<Rightarrow> reservation \<Rightarrow> bool" where
  "indexed s rid r \<longleftrightarrow>
     map_option rr_reservationId (js_get (eg_reservationsByRedemption s) (rs_redemption_id r)) = Some rid"

definition settled :: "(string \<Rightarrow> nat \<Rightarrow> string) \<Rightarrow> engine \<Rightarrow> bool" where
  "settled ids s \<longleftrightarrow>
     fresh_ledger ids s \<and> fresh_reservations ids s \<and> named_known s \<and>
     (\<forall>rid r. js_get (eg_reservations s) rid = Some r \<longrightarrow>
        rs_reservation_id r = rid \<and> rid \<noteq> [] \<and> net s rid = debited r \<and> indexed s rid r)"

lemma settled_parts:
  "settled ids s \<Longrightarrow> fresh_ledger ids s"
  "settled ids s \<Longrightarrow> fresh_reservations ids s"
  "settled ids s \<Longrightarrow> named_known s"
  by (simp_all only: settled_def)

lemma settledI:
  assumes "fresh_ledger ids s" "fresh_reservations ids s" "named_known s"
    and "\<And>rid r. js_get (eg_reservations s) rid = Some r \<Longrightarrow>
        rs_reservation_id r = rid \<and> rid \<noteq> [] \<and> net s rid = debited r \<and> indexed s rid r"
  shows "settled ids s"
  using assms by (simp add: settled_def)

lemma settledD:
  assumes "settled ids s" "js_get (eg_reservations s) rid = Some r"
  shows "rs_reservation_id r = rid" "rid \<noteq> []" "net s rid = debited r" "indexed s rid r"
  using assms by (auto simp: settled_def)

lemma net_append:
  "eg_ledger t = eg_ledger s @ new \<Longrightarrow> unnamed new \<Longrightarrow> net t rid = net s rid"
  by (auto simp: net_def unnamed_def filter_empty_conv)

lemma expiry_domain:
  "only_expiry h m m' \<Longrightarrow> js_get m' k \<noteq> None \<longleftrightarrow> js_get m k \<noteq> None"
  unfolding only_expiry_def by (metis map_option_is_None)

lemma expiry_inv:
  "only_expiry h m m' \<Longrightarrow> js_get m' rid = Some r' \<Longrightarrow>
     \<exists>r. js_get m rid = Some r \<and> (r' = r \<or> r' = expire_one h r)"
  unfolding only_expiry_def by (metis map_option_eq_Some)

lemma expire_one_fields [simp]:
  "rs_reservation_id (expire_one h r) = rs_reservation_id r"
  "rs_redemption_id (expire_one h r) = rs_redemption_id r"
  "rs_cost (expire_one h r) = rs_cost r"
  "debited (expire_one h r) = debited r"
  by (simp_all add: expire_one_def debited_def reservation_due_def)

lemma frame_settled:
  assumes "redemption_frame h s t" "settled (h_ids h) s"
  shows "settled (h_ids h) t"
proof -
  have fr: "fresh_ledger (h_ids h) s" using assms(2) by (rule settled_parts)
  then obtain new where new: "eg_ledger t = eg_ledger s @ new" "unnamed new" "fresh_ledger (h_ids h) t"
    using assms(1) by (auto simp: redemption_frame_def)
  have e: "only_expiry h (eg_reservations s) (eg_reservations t)"
    and b: "eg_reservationsByRedemption t = eg_reservationsByRedemption s" "eg_id_count s \<le> eg_id_count t"
    using assms(1) by (simp_all add: redemption_frame_def)
  have "fresh_reservations (h_ids h) t"
    by (rule fresh_reservations_keys [of t s])
      (use e b(2) settled_parts(2) [OF assms(2)] in \<open>simp_all add: only_expiry_def\<close>)
  moreover have "named_known t"
    using settled_parts(3) [OF assms(2)] new(1,2) expiry_domain [OF e]
    by (auto simp: named_known_def unnamed_def)
  moreover have "rs_reservation_id r = rid \<and> rid \<noteq> [] \<and> net t rid = debited r \<and> indexed t rid r"
    if "js_get (eg_reservations t) rid = Some r" for rid r
    using expiry_inv [OF e that] settledD [OF assms(2)] net_append [OF new(1,2)] b(1)
    by (auto simp: indexed_def)
  ultimately show ?thesis using new(3) by (intro settledI)
qed

text \<open>The ledger after the entry of a capture or of a reversal.\<close>

lemma posted_named:
  assumes "settled (h_ids h) s" "js_get (eg_reservations s) rid = Some r"
    "li_reservation_id i = Some (rs_reservation_id r)"
  shows "net (posted h i s) rid' = net s rid' + (if rid' = rid then li_amount i else 0)"
    and "fresh_ledger (h_ids h) (posted h i s)" and "named_known (posted h i s)"
proof -
  have f: "fresh_ledger (h_ids h) s" using assms(1) by (rule settled_parts)
  note st = add_ledger_state [OF f, of i, folded posted_def]
  have p: "present (Some (rs_reservation_id r)) = Some rid"
    using settledD(1,2) [OF assms(1,2)] by (cases rid) auto
  show "net (posted h i s) rid' = net s rid' + (if rid' = rid then li_amount i else 0)"
    using st(1) p assms(3) by (simp add: net_def)
  show "fresh_ledger (h_ids h) (posted h i s)" by (rule st(2))
  show "named_known (posted h i s)"
    using st(1) p assms(2,3) settled_parts(3) [OF assms(1)] by (auto simp: named_known_def)
qed

lemma redemption_input_fields [simp]:
  "li_reservation_id (redemption_input r p n) = Some (rs_reservation_id r)"
  "li_amount (redemption_input r p n) = n"
  "li_member_id (redemption_input r p n) = rs_member_id r"
  "li_unit (redemption_input r p n) = Some (ua_unit (rs_cost r))"
  "li_operation (redemption_input r p n) = p"
  by (simp_all add: redemption_input_def ledger_input_of_def)

text \<open>A reservation changed to \<open>f r\<close> after its entry is settled when the entry pays the difference.\<close>

lemma update_settled:
  assumes s: "settled (h_ids h) s" and g: "js_get (eg_reservations s) rid = Some r"
    and t: "fresh_ledger (h_ids h) t" "named_known t" "eg_reservations t = eg_reservations s"
      "eg_reservationsByRedemption t = eg_reservationsByRedemption s" "eg_id_count s \<le> eg_id_count t"
    and n: "\<And>rid'. net t rid' = net s rid' + (if rid' = rid then debited (f r) - debited r else 0)"
    and f: "same_terms r (f r)"
  shows "settled (h_ids h) (set_reservation rid f t)"
proof -
  have fr: "fresh_reservations (h_ids h) (set_reservation rid f t)"
    by (rule fresh_reservations_keys [of _ s])
      (use t settled_parts(2) [OF s] in \<open>simp_all add: set_reservation_def\<close>)
  have nn: "net (set_reservation rid f t) rid' = net t rid'" "indexed (set_reservation rid f t) = indexed t" for rid'
    by (simp_all add: net_def set_reservation_def indexed_def fun_eq_iff)
  have "rs_reservation_id x = rid' \<and> rid' \<noteq> [] \<and> net t rid' = debited x \<and> indexed t rid' x"
    if x: "js_get (eg_reservations (set_reservation rid f t)) rid' = Some x" for rid' x
  proof (cases "rid' = rid")
    case True
    with x g t(3) have "x = f r" by (simp add: set_reservation_def)
    then show ?thesis
      using True settledD [OF s g] n [of rid] same_terms_fields [OF f] t(4) by (simp add: indexed_def)
  next
    case False
    with x t(3) have "js_get (eg_reservations s) rid' = Some x" by (simp add: set_reservation_def)
    then show ?thesis using False settledD [OF s] n [of rid'] t(4) by (simp add: indexed_def)
  qed
  moreover have "named_known (set_reservation rid f t)"
    using t(2) by (auto simp: named_known_def set_reservation_def)
  moreover have "fresh_ledger (h_ids h) (set_reservation rid f t)"
    using t(1) by (simp add: fresh_ledger_def set_reservation_def)
  ultimately show ?thesis using fr nn by (intro settledI) simp_all
qed

lemma reserve_settled:
  assumes s: "settled (h_ids h) s" and none: "js_get (eg_reservationsByRedemption s) (rq_redemption_id q) = None"
    and x: "x = new_reservation h q d w (h_ids h ''reservation'' (eg_id_count s)) s"
  shows "settled (h_ids h) (put_reservation f x (s\<lparr>eg_id_count := eg_id_count s + 1\<rparr>))"
    (is "settled _ ?t")
proof -
  let ?rid = "h_ids h ''reservation'' (eg_id_count s)"
  have fx: "rs_reservation_id x = ?rid" "rs_redemption_id x = rq_redemption_id q" "debited x = 0"
    by (simp_all add: x new_reservation_def debited_def)
  have fr: "fresh_reservations (h_ids h) s" using s by (rule settled_parts)
  note new = put_reservation_state [of "h_ids h" s x f, OF fr fx(1)]
  have l: "eg_ledger ?t = eg_ledger s" by (simp add: put_reservation_def)
  have none_rid: "js_get (eg_reservations s) ?rid = None" by (rule fresh_reservation_next [OF fr])
  have get_t: "js_get (eg_reservations ?t) = (js_get (eg_reservations s))(?rid \<mapsto> x)"
    using fx(1) by (simp add: put_reservation_def fun_eq_iff)
  have "le_reservation_id e \<noteq> Some ?rid" if "e \<in> snd ` set (eg_ledger s)" for e
    using settled_parts(3) [OF s] that none_rid by (auto simp: named_known_def)
  then have net0: "net s ?rid = 0" by (auto simp: net_def filter_empty_conv)
  have netl: "net ?t rid = net s rid" for rid using l by (simp add: net_def)
  have named: "named_known ?t" using settled_parts(3) [OF s] l get_t by (auto simp: named_known_def)
  have fl: "fresh_ledger (h_ids h) ?t"
    using settled_parts(1) [OF s] l by (auto simp: fresh_ledger_def put_reservation_def)
  have ix: "indexed ?t ?rid x" using fx by (simp add: indexed_def put_reservation_def)
  have ix': "indexed ?t rid r" if "indexed s rid r" for rid r
    using that none fx by (auto simp: indexed_def put_reservation_def)
  show ?thesis
  proof (rule settledI [OF fl new(2) named])
    fix rid r
    assume g: "js_get (eg_reservations ?t) rid = Some r"
    show "rs_reservation_id r = rid \<and> rid \<noteq> [] \<and> net ?t rid = debited r \<and> indexed ?t rid r"
    proof (cases "rid = ?rid")
      case True
      with g get_t have "r = x" by simp
      with True fx fr net0 netl ix show ?thesis by (simp add: fresh_reservations_def)
    next
      case False
      with g get_t have "js_get (eg_reservations s) rid = Some r" by simp
      with settledD [OF s] netl ix' show ?thesis by simp
    qed
  qed
qed

lemma move_settled: "redemption_move h s t \<Longrightarrow> settled (h_ids h) s \<Longrightarrow> settled (h_ids h) t"
proof (induction rule: redemption_move.induct)
  case (move_frame s t)
  then show ?case by (rule frame_settled)
next
  case (move_reserve s q x d w f)
  then show ?case by (intro reserve_settled)
next
  case (move_capture s rid r)
  let ?i = "redemption_input r Redemption (- ua_amount (rs_cost r))"
  have d: "debited (captured h r) - debited r = - max 0 (ua_amount (rs_cost r))"
    using move_capture(2) by (simp add: debited_def captured_def)
  show ?case
  proof (cases "ua_amount (rs_cost r) > 0")
    case True
    with d posted_named [OF move_capture(4,1), of ?i] move_capture show ?thesis
      by (intro update_settled [of h s rid r]) (simp_all add: with_debit_def)
  next
    case False
    with d move_capture settled_parts [OF move_capture(4)] show ?thesis
      by (intro update_settled [of h s rid r]) (simp_all add: with_debit_def)
  qed
next
  case (move_reverse s rid r t)
  let ?i = "redemption_input r Reversal (ua_amount (rs_cost r))"
  let ?c = "with_credit h r s"
  have d: "debited (reversed h r) - debited r = (if rs_status r = Captured then max 0 (ua_amount (rs_cost r)) else 0)"
    using move_reverse(2) by (simp add: debited_def reversed_def)
  have c: "fresh_ledger (h_ids h) ?c" "named_known ?c"
    "\<And>rid'. net ?c rid' = net s rid' + (if rid' = rid then debited (reversed h r) - debited r else 0)"
    using d posted_named [OF move_reverse(5,1), of ?i] settled_parts [OF move_reverse(5)]
    by (auto simp: with_credit_def)
  obtain new where new: "eg_ledger t = eg_ledger ?c @ new" "unnamed new" "fresh_ledger (h_ids h) t"
    using move_reverse(4) c(1) by (auto simp: redemption_frame_def)
  note cf = credit_frame [OF move_reverse(4,1,3)]
  text \<open>The frame steps commute with the change of status.\<close>
  have sc: "settled (h_ids h) (set_reservation rid (reversed h) ?c)"
    using move_reverse(5,1) c by (intro update_settled [of h s rid r]) simp_all
  have "only_expiry h (eg_reservations (set_reservation rid (reversed h) ?c))
      (eg_reservations (set_reservation rid (reversed h) t))"
    using cf(1,2) move_reverse(1) by (auto simp: only_expiry_def set_reservation_def)
  then have "redemption_frame h (set_reservation rid (reversed h) ?c) (set_reservation rid (reversed h) t)"
    using new move_reverse(4) by (auto simp: redemption_frame_def set_reservation_def fresh_ledger_def)
  then show ?case using sc by (rule frame_settled)
qed

lemma perform_settled: "settled (h_ids h) s \<Longrightarrow> settled (h_ids h) (snd (perform h p s))"
proof -
  have "effect_relation (\<lambda>s t. settled (h_ids h) s \<longrightarrow> settled (h_ids h) t)"
    by unfold_locales auto
  then have "m_keeps (\<lambda>s t. settled (h_ids h) s \<longrightarrow> settled (h_ids h) t) (perform h p)"
    by (rule perform_induct) (auto intro: move_settled)
  then show "settled (h_ids h) s \<Longrightarrow> settled (h_ids h) (snd (perform h p s))"
    by (simp add: m_keeps_def)
qed

lemma history_settled: "history ids s ops t \<Longrightarrow> settled ids s \<Longrightarrow> settled ids t"
  by (induction rule: history.induct) (auto intro: perform_settled)

lemma empty_settled: "good_ids ids \<Longrightarrow> settled ids (empty_engine p)"
  by (rule settledI [OF empty_fresh_ledger empty_fresh_reservations])
    (auto simp: named_known_def empty_engine_def)

lemma reached_settled: "history ids (empty_engine p) ops s \<Longrightarrow> good_ids ids \<Longrightarrow> settled ids s"
  using history_settled empty_settled by blast

text \<open>
  C5. In every state an engine reaches, the ledger entries that name a reservation sum to
  minus its cost while the reservation is captured and to zero in every other status: a
  capture debits exactly once, a reversal returns exactly what was debited, and neither an
  expired nor a released reservation moves any balance.
\<close>

theorem reservation_net_effect:
  assumes "good_ids ids" "history ids (empty_engine p) ops s" "js_get (eg_reservations s) rid = Some r"
  shows "net s rid = (if rs_status r = Captured then - max 0 (ua_amount (rs_cost r)) else 0)"
  using settledD(3) [OF reached_settled [OF assms(2,1)] assms(3)] by (simp add: debited_def)

text \<open>
  C6. A redemption id never holds two reservations, whatever operations ran: in every state
  an engine reaches, the index by redemption id names that very reservation, so two
  reservations with one redemption id are the same and repeating a reserve finds it again.
\<close>

theorem redemption_index_exact:
  assumes "good_ids ids" "history ids (empty_engine p) ops s" "js_get (eg_reservations s) rid = Some r"
  shows "map_option rr_reservationId (js_get (eg_reservationsByRedemption s) (rs_redemption_id r)) = Some rid"
  using settledD(4) [OF reached_settled [OF assms(2,1)] assms(3)] by (simp only: indexed_def)

section \<open>Examples\<close>

theorem reservation_net_effect_witness: "net story_state ''reservation_i'' = - 5"
proof (rule story_reservation)
  fix r
  assume "js_get (eg_reservations story_state) ''reservation_i'' = Some r" "rs_status r = Captured"
    "ua_amount (rs_cost r) = 5"
  then show ?thesis using reservation_net_effect [OF good_sample_ids story_runs] by simp
qed

theorem redemption_index_exact_witness:
  "map_option rr_reservationId (js_get (eg_reservationsByRedemption story_state) ''red1'') = Some ''reservation_i''"
proof (rule story_reservation)
  fix r
  assume "js_get (eg_reservations story_state) ''reservation_i'' = Some r" "rs_redemption_id r = ''red1''"
  then show ?thesis using redemption_index_exact [OF good_sample_ids story_runs] by metis
qed

end
