(* ===== verification/Account_Books.thy ===== *)
theory Account_Books
  imports Redemption_Settlement
begin

text \<open>
  The balances and the ledger tell the same story: in every reachable state the balance of
  each member in each unit is the sum of that member's ledger entries in that unit. The
  balances are keyed by \<open>balanceKey\<close>, which is injective only on member ids that do not
  look like another member's account (\<open>plain\<close>); the invariant therefore asks for plain
  ids, and \<open>balance_key_collides\<close> shows what happens without.
\<close>

definition all_units :: "loyalty_unit list" where
  "all_units = [Points, Visits, Stamps, Credits, Custom]"

definition plain :: "string \<Rightarrow> bool" where
  "plain m = list_all (\<lambda>u. \<not> starts_with (unit_string u @ '':'') m) all_units"

lemma plain_not_account: "plain m \<Longrightarrow> m \<noteq> account_id u x"
  by (cases u) (auto simp: plain_def all_units_def starts_with_def account_id_def)

lemma account_id_inject: "account_id u m = account_id v m' \<longleftrightarrow> u = v \<and> m = m'"
  by (cases u; cases v) (simp_all add: account_id_def)

lemma balanceKey_inject:
  "plain m \<Longrightarrow> plain m' \<Longrightarrow> balanceKey p m u = balanceKey p m' u' \<longleftrightarrow> m = m' \<and> u = u'"
  using plain_not_account by (auto simp: balanceKey_def account_id_inject)

text \<open>A member called \<open>credits:bob\<close> shares an account with the credits of \<open>bob\<close>.\<close>

lemma balance_key_collides:
  assumes "primaryUnit p \<noteq> Credits"
  shows "balanceKey p ''credits:bob'' (primaryUnit p) = balanceKey p ''bob'' Credits"
  using assms by (simp add: balanceKey_def account_id_def)

definition ledger_sum :: "engine \<Rightarrow> string \<Rightarrow> loyalty_unit \<Rightarrow> int" where
  "ledger_sum s m u =
     (\<Sum>e\<leftarrow>filter (\<lambda>e. le_member_id e = m \<and> le_unit e = u) (js_values (eg_ledger s)). le_amount e)"

definition is_member :: "engine \<Rightarrow> string \<Rightarrow> bool" where
  "is_member s m = js_has (eg_members s) m"

definition books :: "(string \<Rightarrow> nat \<Rightarrow> string) \<Rightarrow> engine \<Rightarrow> bool" where
  "books ids s \<longleftrightarrow>
     fresh_ledger ids s \<and>
     (\<forall>m. is_member s m \<longrightarrow> plain m) \<and>
     (\<forall>e \<in> snd ` set (eg_ledger s). is_member s (le_member_id e)) \<and>
     (\<forall>l \<in> snd ` set (eg_pointLots s). is_member s (lt_memberId l)) \<and>
     (\<forall>r \<in> snd ` set (eg_reservations s). is_member s (rs_member_id r)) \<and>
     (\<forall>k \<in> fst ` set (eg_points s). \<exists>m u. is_member s m \<and> k = balanceKey (eg_program s) m u) \<and>
     (\<forall>m u. is_member s m \<longrightarrow> points_of s m u = ledger_sum s m u)"

lemma booksI:
  assumes "fresh_ledger ids s" "\<And>m. is_member s m \<Longrightarrow> plain m"
    "\<And>e. e \<in> snd ` set (eg_ledger s) \<Longrightarrow> is_member s (le_member_id e)"
    "\<And>l. l \<in> snd ` set (eg_pointLots s) \<Longrightarrow> is_member s (lt_memberId l)"
    "\<And>r. r \<in> snd ` set (eg_reservations s) \<Longrightarrow> is_member s (rs_member_id r)"
    "\<And>k. k \<in> fst ` set (eg_points s) \<Longrightarrow> \<exists>m u. is_member s m \<and> k = balanceKey (eg_program s) m u"
    "\<And>m u. is_member s m \<Longrightarrow> points_of s m u = ledger_sum s m u"
  shows "books ids s"
  unfolding books_def by (intro conjI allI ballI impI) (erule assms | rule assms(1))+

lemma books_parts:
  assumes "books ids s"
  shows "fresh_ledger ids s" "is_member s m \<Longrightarrow> plain m"
    "e \<in> snd ` set (eg_ledger s) \<Longrightarrow> is_member s (le_member_id e)"
    "l \<in> snd ` set (eg_pointLots s) \<Longrightarrow> is_member s (lt_memberId l)"
    "r \<in> snd ` set (eg_reservations s) \<Longrightarrow> is_member s (rs_member_id r)"
    "k \<in> fst ` set (eg_points s) \<Longrightarrow> \<exists>m u. is_member s m \<and> k = balanceKey (eg_program s) m u"
    "is_member s m \<Longrightarrow> points_of s m u = ledger_sum s m u"
  using assms by (simp_all only: books_def)

section \<open>Writes that keep the books\<close>

lemma js_set_values: "snd ` set (js_set m k v) \<subseteq> insert v (snd ` set m)"
  by (induction m) auto

text \<open>A write that leaves program, members, ledger and balances alone, and only renames nobody.\<close>

lemma books_same:
  assumes b: "books ids s"
    and same: "eg_program t = eg_program s" "eg_ledger t = eg_ledger s" "eg_points t = eg_points s"
      "map fst (eg_members t) = map fst (eg_members s)" "eg_id_count s \<le> eg_id_count t"
    and lots: "lt_memberId ` snd ` set (eg_pointLots t) \<subseteq> lt_memberId ` snd ` set (eg_pointLots s)"
    and res: "rs_member_id ` snd ` set (eg_reservations t) \<subseteq> Collect (is_member s)"
  shows "books ids t"
proof -
  have "fst ` set (eg_members t) = fst ` set (eg_members s)"
    using arg_cong [OF same(4), of set] by simp
  then have m: "is_member t = is_member s" by (simp add: is_member_def js_has_iff fun_eq_iff)
  have p: "points_of t = points_of s" "ledger_sum t = ledger_sum s"
    by (simp_all add: points_of_def ledger_sum_def same fun_eq_iff)
  show ?thesis
  proof (rule booksI, unfold m p same)
    show "fresh_ledger ids t" using books_parts(1) [OF b] same(2,5) by (auto simp: fresh_ledger_def)
    show "is_member s (lt_memberId l)" if "l \<in> snd ` set (eg_pointLots t)" for l
    proof -
      have "lt_memberId l \<in> lt_memberId ` snd ` set (eg_pointLots s)"
        using lots imageI [OF that] by (rule subsetD)
      then obtain l' where l': "lt_memberId l = lt_memberId l'" "l' \<in> snd ` set (eg_pointLots s)"
        by (rule imageE)
      from books_parts(4) [OF b l'(2)] l'(1) show ?thesis by simp
    qed
    show "is_member s (rs_member_id r)" if "r \<in> snd ` set (eg_reservations t)" for r
      using res that by blast
  qed (erule books_parts [OF b])+
qed

lemma books_reservations: "books ids s \<Longrightarrow> rs_member_id ` snd ` set (eg_reservations s) \<subseteq> Collect (is_member s)"
  using books_parts(5) by blast

lemma posted_state:
  "eg_ledger (posted h i s) =
     js_set (eg_ledger s) (h_ids h ''ledger'' (eg_id_count s))
       (ledger_entry_of h (eg_program s) (h_ids h ''ledger'' (eg_id_count s)) i)"
  "eg_members (posted h i s) = eg_members s"
  "eg_points (posted h i s) = js_set (eg_points s)
     (balanceKey (eg_program s) (li_member_id i) (input_unit (eg_program s) i))
     (points_of s (li_member_id i) (input_unit (eg_program s) i) + li_amount i)"
  "lt_memberId ` snd ` set (eg_pointLots (posted h i s)) \<subseteq>
     insert (li_member_id i) (lt_memberId ` snd ` set (eg_pointLots s))"
proof -
  show "lt_memberId ` snd ` set (eg_pointLots (posted h i s)) \<subseteq>
     insert (li_member_id i) (lt_memberId ` snd ` set (eg_pointLots s))"
  proof (cases "creates_lot i")
    case True
    then obtain k l where kl: "eg_pointLots (posted h i s) = js_set (eg_pointLots s) k l"
      "lt_memberId l = li_member_id i"
      by (simp add: posted_def addLedger_run Let_def post_entry_def)
    have "lt_memberId ` snd ` set (js_set (eg_pointLots s) k l) \<subseteq>
        lt_memberId ` insert l (snd ` set (eg_pointLots s))"
      by (rule image_mono [OF js_set_values])
    with kl show ?thesis by simp
  next
    case False
    then have "eg_pointLots (posted h i s) = eg_pointLots s"
      by (simp add: posted_def addLedger_run Let_def post_entry_def)
    then show ?thesis by auto
  qed
qed (simp_all add: posted_def addLedger_run Let_def post_entry_def points_of_def)

lemma posted_books:
  assumes b: "books (h_ids h) s" and m: "is_member s (li_member_id i)"
  shows "books (h_ids h) (posted h i s)"
proof -
  let ?p = "eg_program s" and ?m = "li_member_id i" and ?t = "posted h i s"
  let ?u = "input_unit ?p i"
  note st = add_ledger_state [OF books_parts(1) [OF b], of i, folded posted_def]
  have mem: "is_member ?t = is_member s" by (simp add: is_member_def posted_state fun_eq_iff)
  have pts: "points_of ?t m' u' = points_of s m' u' + (if m' = ?m \<and> u' = ?u then li_amount i else 0)"
    if "is_member s m'" for m' u'
    using balanceKey_inject [OF books_parts(2) [OF b that] books_parts(2) [OF b m]]
    by (auto simp: points_of_def posted_state)
  have sums: "ledger_sum ?t m' u' = ledger_sum s m' u' + (if m' = ?m \<and> u' = ?u then li_amount i else 0)" for m' u'
    using st(1) by (auto simp: ledger_sum_def)
  show ?thesis
  proof (rule booksI, unfold mem)
    show "fresh_ledger (h_ids h) ?t" by (rule st(2))
    show "is_member s (le_member_id e)" if "e \<in> snd ` set (eg_ledger ?t)" for e
      using that st(1) books_parts(3) [OF b] m by auto
    show "is_member s (lt_memberId l)" if "l \<in> snd ` set (eg_pointLots ?t)" for l
    proof -
      have "lt_memberId l \<in> insert ?m (lt_memberId ` snd ` set (eg_pointLots s))"
        using posted_state(4) [of h i s] that by blast
      then show ?thesis using books_parts(4) [OF b] m by force
    qed
    show "\<exists>m u. is_member s m \<and> k = balanceKey (eg_program ?t) m u" if "k \<in> fst ` set (eg_points ?t)" for k
    proof -
      have "k \<in> insert (balanceKey ?p ?m ?u) (fst ` set (eg_points s))"
        using that by (simp add: posted_state dom_update)
      then show ?thesis using books_parts(6) [OF b] m by auto
    qed
    show "points_of ?t m' u' = ledger_sum ?t m' u'" if "is_member s m'" for m' u'
      using pts [OF that] sums books_parts(7) [OF b that] by simp
    show "is_member s (rs_member_id r)" if "r \<in> snd ` set (eg_reservations ?t)" for r
      using books_parts(5) [OF b] that by simp
  qed (erule books_parts [OF b])
qed


section \<open>The books along the handlers that post\<close>

definition books_rel :: "(string \<Rightarrow> nat \<Rightarrow> string) \<Rightarrow> (string \<Rightarrow> bool) \<Rightarrow> engine \<Rightarrow> engine \<Rightarrow> bool" where
  "books_rel ids who s t \<longleftrightarrow>
     eg_program t = eg_program s \<and>
     (books ids s \<longrightarrow> (\<forall>m. who m \<longrightarrow> is_member s m) \<longrightarrow> books ids t \<and> (\<forall>m. who m \<longrightarrow> is_member t m))"

interpretation books_effect: engine_effect "books_rel ids who" for ids who
  by unfold_locales (auto simp: books_rel_def)

lemma is_member_same:
  assumes "map fst (eg_members t) = map fst (eg_members s)"
  shows "is_member t = is_member s"
  using arg_cong [OF assms, of set] by (simp add: is_member_def js_has_iff fun_eq_iff)

definition lot_members :: "(string, lot) jsmap \<Rightarrow> string set" where
  "lot_members lots = lt_memberId ` snd ` set lots"

definition holders :: "(string, reservation) jsmap \<Rightarrow> string set" where
  "holders rs = rs_member_id ` snd ` set rs"

text \<open>The writes that \<open>books_same\<close> covers.\<close>

lemma books_rel_same:
  assumes "eg_program t = eg_program s" "eg_ledger t = eg_ledger s" "eg_points t = eg_points s"
      "map fst (eg_members t) = map fst (eg_members s)" "eg_id_count s \<le> eg_id_count t"
    and "lot_members (eg_pointLots t) \<subseteq> lot_members (eg_pointLots s)"
    and "holders (eg_reservations t) \<subseteq> holders (eg_reservations s)"
  shows "books_rel ids who s t"
  unfolding books_rel_def
proof (intro conjI impI)
  assume b: "books ids s"
  show "books ids t"
    using assms subset_trans [OF assms(7) [unfolded holders_def] books_reservations [OF b]]
    by (intro books_same [OF b]) (simp_all add: lot_members_def)
next
  assume "\<forall>m. who m \<longrightarrow> is_member s m"
  with is_member_same [OF assms(4)] show "\<forall>m. who m \<longrightarrow> is_member t m" by simp
qed (rule assms(1))

lemma values_update: "(\<And>v. g (f v) = g v) \<Longrightarrow> g ` snd ` set (js_update m k f) = g ` snd ` set m"
  by (induction m) (auto simp: js_update_def)

lemma values_map: "(\<And>v. g (f v) = g v) \<Longrightarrow> g ` snd ` set (js_map_values f m) = g ` snd ` set m"
  by (induction m) (auto simp: js_map_values_def)

lemma add_books:
  assumes "who (li_member_id i)"
  shows "m_keeps (books_rel (h_ids h) who) (addLedger h i)"
  unfolding m_keeps_def books_rel_def
  using assms posted_books [of h _ i]
  by (auto simp: posted_def [symmetric]) (simp_all add: is_member_def posted_state)

lemma expire_lot_books:
  assumes "books (h_ids h) s" "is_member s (lt_memberId (snd kl))"
  shows "books (h_ids h) (snd (expire_lot h kl s))"
    and "is_member (snd (expire_lot h kl s)) = is_member s"
    and "eg_program (snd (expire_lot h kl s)) = eg_program s"
proof -
  let ?i = "expiration_input (eg_program s) (snd kl)" and ?s = "set_remaining (fst kl) 0 s"
  have run: "snd (expire_lot h kl s) = posted h ?i ?s"
    by (simp add: expire_lot_def posted_def)
  have "lt_memberId ` snd ` set (eg_pointLots ?s) = lt_memberId ` snd ` set (eg_pointLots s)"
    unfolding set_remaining_def by (simp add: values_update)
  then have "books (h_ids h) ?s"
    using assms(1) books_reservations [OF assms(1)]
    by (intro books_same [OF assms(1)]) (simp_all add: set_remaining_def)
  moreover have m: "is_member ?s = is_member s" by (simp add: is_member_def set_remaining_def fun_eq_iff)
  ultimately show "books (h_ids h) (snd (expire_lot h kl s))"
    unfolding run using assms(2)
    by (intro posted_books) (simp_all add: expiration_input_def ledger_input_of_def)
  show "is_member (snd (expire_lot h kl s)) = is_member s"
    unfolding run m [symmetric] by (simp add: is_member_def posted_state fun_eq_iff)
  show "eg_program (snd (expire_lot h kl s)) = eg_program s"
    unfolding run by (simp add: set_remaining_def)
qed

lemma expire_lots_books: "m_keeps (books_rel (h_ids h) who) (expirePointLots h a b)"
proof -
  have prog: "eg_program (snd (expire_lot h kl s)) = eg_program s" for kl s
    by (simp add: expire_lot_def addLedger_run Let_def set_remaining_def)
  have loop: "eg_program (snd (m_map (expire_lot h) kls s)) = eg_program s \<and>
      (books (h_ids h) s \<longrightarrow> (\<forall>kl \<in> set kls. is_member s (lt_memberId (snd kl))) \<longrightarrow>
        books (h_ids h) (snd (m_map (expire_lot h) kls s)) \<and>
        is_member (snd (m_map (expire_lot h) kls s)) = is_member s)" for kls s
  proof (induction kls arbitrary: s)
    case (Cons kl kls)
    let ?s1 = "snd (expire_lot h kl s)"
    obtain e where e: "expire_lot h kl s = (Inr e, ?s1)"
      by (simp add: expire_lot_def addLedger_run Let_def)
    then have "snd (m_map (expire_lot h) (kl # kls) s) = snd (m_map (expire_lot h) kls ?s1)"
      by (simp add: m_bind_Inr) (auto simp: m_bind_def m_return_def split: prod.splits sum.splits)
    with Cons.IH [of ?s1] prog [of kl s] expire_lot_books [of h s kl] show ?case by auto
  qed simp
  have run: "snd (expirePointLots h a b s) = snd (m_map (expire_lot h) (expiring_lots h a b s) s)" for s
    by (auto simp: expirePointLots_def m_bind_def m_return_def split: prod.splits sum.splits)
  have "is_member s (lt_memberId (snd kl))" if "books (h_ids h) s" "kl \<in> set (expiring_lots h a b s)" for s kl
    using that by (intro books_parts(4) [OF that(1)]) (auto simp: expiring_lots_def)
  then show ?thesis
    using loop by (auto simp: m_keeps_def books_rel_def run)
qed

lemma lot_members_simps [simp]:
  "lot_members (js_update lots k (\<lambda>l. l\<lparr>lt_remaining := f l\<rparr>)) = lot_members lots"
  "lot_members (foldl debit_lot lots ts) = lot_members lots"
proof -
  have 1: "lot_members (js_update lots k (\<lambda>l. l\<lparr>lt_remaining := f l\<rparr>)) = lot_members lots" for lots k f
    by (simp add: lot_members_def values_update)
  then show "lot_members (js_update lots k (\<lambda>l. l\<lparr>lt_remaining := f l\<rparr>)) = lot_members lots" .
  show "lot_members (foldl debit_lot lots ts) = lot_members lots"
    by (induction ts arbitrary: lots) (simp_all add: debit_lot_def 1)
qed

lemma consume_books: "m_keeps (books_rel ids who) (consumePointLots h m u n c)"
  by (intro books_effect.keeps_consume_of books_rel_same)
    (simp_all add: apply_consumption_def)

lemma expire_one_member [simp]: "rs_member_id (expire_one h r) = rs_member_id r"
  by (simp add: expire_one_def)

lemma holders_simps [simp]:
  "(\<And>r. rs_member_id (f r) = rs_member_id r) \<Longrightarrow> holders (js_update rs rid f) = holders rs"
  "(\<And>r. rs_member_id (f r) = rs_member_id r) \<Longrightarrow> holders (js_map_values f rs) = holders rs"
  by (simp_all add: holders_def values_update values_map)

lemma expire_reservations_books:
  "m_keeps (books_rel ids who) (expireAllReservations h)"
  "m_keeps (books_rel ids who) (expireReservation h rid)"
  by (auto intro!: books_effect.keeps_modify books_rel_same simp: effect_defs)

interpretation books_posting: posting_relation "books_rel (h_ids h) who" h who for h who
proof unfold_locales
  show "m_keeps (books_rel (h_ids h) who) (draw_id h p)" for p
    by (simp add: m_keeps_def draw_id_def books_rel_same)
  show "m_keeps (books_rel (h_ids h) who) (issueReward_run h r)" for r
    by (intro books_effect.keeps_issue_run_of books_rel_same) (simp_all add: put_issued_def)
qed (auto intro: expire_reservations_books expire_lots_books add_books consume_books
    intro!: books_rel_same books_effect.keeps_once_of_store simp: writer_defs)

end
