(* ===== verification/Books_History.thy ===== *)
theory Books_History
  imports Account_Books Sample_Story
begin

text \<open>
  The books invariant for the remaining operations and for whole histories: redemptions
  post for the member of a reservation, enrolment opens the accounts of a new member at
  zero, a reconfiguration keeps the primary unit and so the keys of the balances.
\<close>

definition books_kept :: "(string \<Rightarrow> nat \<Rightarrow> string) \<Rightarrow> engine \<Rightarrow> engine \<Rightarrow> bool" where
  "books_kept ids s t \<longleftrightarrow> (books ids s \<longrightarrow> books ids t)"

interpretation books_kept: engine_effect "books_kept ids" for ids
  by unfold_locales (auto simp: books_kept_def)

lemma rel_kept: "m_keeps (books_rel ids (\<lambda>_. False)) m \<Longrightarrow> m_keeps (books_kept ids) m"
  by (simp add: m_keeps_def books_rel_def books_kept_def)

lemma rel_kept_member:
  "m_keeps (books_rel ids (\<lambda>x. x = w)) m \<Longrightarrow> is_member s w \<Longrightarrow> books_kept ids s (snd (m s))"
  by (simp add: m_keeps_def books_rel_def books_kept_def)

lemma once_kept:
  assumes "books_kept (h_ids h) s (snd (run s))"
  shows "books_kept (h_ids h) s (snd (once h oper c q run s))"
proof -
  have "books_kept (h_ids h) s (snd (m_bind run (\<lambda>r. m_bind (m_modify (store_response k f r)) (\<lambda>_. m_return r)) s))" for k f
    by (rule books_kept.at_bind [where m = run], rule assms)
      (intro books_kept.at_keeps rel_kept books_effect.keeps_bind books_effect.keeps_return
        books_effect.keeps_modify books_rel_same, simp_all add: store_response_def)
  then show ?thesis by (auto simp: once_def books_kept.R_refl split: option.splits)
qed

lemma assert_program_kept:
  "books_kept ids s (snd (f () s)) \<Longrightarrow> books_kept ids s (snd (m_bind (assertProgramId p) f s))"
  by (simp add: assertProgramId_def m_bind_def m_assert_def books_kept.R_refl)

text \<open>A handler that starts by asking for an active member does nothing for an unknown one.\<close>

lemma active_missing: "\<not> is_member s m \<Longrightarrow> activeMember m s = (Inl (EngineError Member_not_found 404), s)"
  by (auto simp: activeMember_def is_member_def js_has_def)

lemma once_throws: "run s = (Inl e, s) \<Longrightarrow> snd (once h oper c q run s) = s"
  by (simp add: once_def m_bind_def split: option.splits)

lemma assert_program_throws: "snd (f () s) = s \<Longrightarrow> snd (m_bind (assertProgramId p) f s) = s"
  by (simp add: assertProgramId_def m_bind_def m_assert_def)

lemma guarded:
  assumes "m_keeps (books_rel ids (\<lambda>x. x = m)) f" "\<not> is_member s m \<Longrightarrow> snd (f s) = s"
  shows "books_kept ids s (snd (f s))"
  using rel_kept_member [OF assms(1)] assms(2) books_kept.R_refl by (cases "is_member s m") auto

lemma postAccrual_kept: "books_kept (h_ids h) s (snd (postAccrual h r s))"
proof (rule guarded)
  show "m_keeps (books_rel (h_ids h) (\<lambda>x. x = oq_member_id r)) (postAccrual h r)"
    by (rule books_posting.keeps_postAccrual) simp
  show "\<not> is_member s (oq_member_id r) \<Longrightarrow> snd (postAccrual h r s) = s"
    unfolding postAccrual_def postAccrual_run_def
    by (rule once_throws) (simp add: m_bind_def active_missing)
qed

lemma adjustOrder_kept: "books_kept (h_ids h) s (snd (adjustOrder h r s))"
proof (rule guarded)
  show "m_keeps (books_rel (h_ids h) (\<lambda>x. x = dq_member_id r)) (adjustOrder h r)"
    by (rule books_posting.keeps_adjustOrder) simp
  show "\<not> is_member s (dq_member_id r) \<Longrightarrow> snd (adjustOrder h r s) = s"
    unfolding adjustOrder_def adjustOrder_run_def Let_def
    by (intro assert_program_throws once_throws) (simp add: m_bind_def active_missing)
qed

lemma manual_kept: "books_kept (h_ids h) s (snd (postManualAdjustment h r s))"
proof (rule guarded)
  show "m_keeps (books_rel (h_ids h) (\<lambda>x. x = mq_member_id r)) (postManualAdjustment h r)"
    by (rule books_posting.keeps_manual) simp
  show "\<not> is_member s (mq_member_id r) \<Longrightarrow> snd (postManualAdjustment h r s) = s"
    unfolding postManualAdjustment_def postManualAdjustment_run_def
    by (intro assert_program_throws once_throws) (simp add: m_bind_def active_missing)
qed

section \<open>Redemptions\<close>

lemma set_reservation_books:
  "(\<And>r. rs_member_id (f r) = rs_member_id r) \<Longrightarrow> books_rel ids who s (set_reservation rid f s)"
  by (rule books_rel_same) (simp_all add: set_reservation_def)

lemma set_issued_books: "books_rel ids who s (set_issued wid f s)"
  by (rule books_rel_same) (simp_all add: set_issued_def)

lemma issued_books:
  "m_keeps (books_rel ids who) (m_modify (set_issued wid f))"
  "m_keeps (books_rel ids who) (expireIssuedReward h wid)"
  "m_keeps (books_rel ids who) (expireIssuedRewards h m)"
  by (auto intro!: books_effect.keeps_modify set_issued_books books_rel_same simp: effect_defs)

lemma restore_books: "m_keeps (books_rel ids who) (restorePointLots rid)"
proof -
  have "m_keeps (books_rel ids who) (restore_lot c)" for c
    by (auto simp: m_keeps_def restore_lot_def books_effect.R_refl intro!: books_rel_same split: option.splits)
  then show ?thesis
    unfolding restorePointLots_def
    by (intro books_effect.keeps_bind books_effect.keeps_get books_effect.keeps_map
        books_effect.keeps_modify books_rel_same) simp_all
qed

lemma put_reservation_books:
  assumes "who (rs_member_id x)"
  shows "books_rel ids who s (put_reservation f x s)"
  unfolding books_rel_def
proof (intro conjI impI)
  assume b: "books ids s" and w: "\<forall>m. who m \<longrightarrow> is_member s m"
  have "holders (js_set (eg_reservations s) (rs_reservation_id x) x) \<subseteq> insert (rs_member_id x) (holders (eg_reservations s))"
    using image_mono [OF js_set_values [where m = "eg_reservations s" and k = "rs_reservation_id x" and v = x],
        of rs_member_id]
    by (simp add: holders_def)
  also have "\<dots> \<subseteq> Collect (is_member s)"
    using books_reservations [OF b] w assms by (simp add: holders_def)
  finally show "books ids (put_reservation f x s)"
    by (intro books_same [OF b]) (simp_all add: put_reservation_def holders_def)
qed (simp_all add: put_reservation_def is_member_def)

lemmas books_keeps = books_posting.keeps_lib consume_books restore_books issued_books books_effect.keeps_case_option

lemma create_reservation_books:
  "m_keeps (books_rel (h_ids h) (\<lambda>x. x = rq_member_id q)) (create_reservation h q d w)"
  unfolding m_keeps_def create_reservation_def
proof (intro allI books_effect.at_bind [where m = "draw_id h ''reservation''"] books_effect.at_get)
  fix s :: engine show "books_rel (h_ids h) (\<lambda>x. x = rq_member_id q) s (snd (draw_id h ''reservation'' s))"
    by (rule books_effect.at_keeps [OF books_posting.keeps_draw])
next
  fix s1 :: engine and rid
  let ?x = "new_reservation h q d w rid s1"
  show "books_rel (h_ids h) (\<lambda>x. x = rq_member_id q) s1
      (snd (m_bind (m_modify (put_reservation (reserve_fingerprint h q) ?x)) (\<lambda>_. reservationResponse h (rq_context q) ?x) s1))"
    by (intro books_effect.at_keeps books_effect.keeps_bind books_posting.keeps_reservation_response
        books_effect.keeps_modify put_reservation_books) (simp add: new_reservation_def)
qed

lemma reserve_kept: "books_kept (h_ids h) s (snd (reserve h q s))"
proof (rule guarded)
  show "m_keeps (books_rel (h_ids h) (\<lambda>x. x = rq_member_id q)) (reserve h q)"
    unfolding reserve_def reserve_run_def repeat_reserve_def first_reserve_def check_issued_def check_funds_def
    by (intro books_keeps create_reservation_books)
  show "\<not> is_member s (rq_member_id q) \<Longrightarrow> snd (reserve h q s) = s"
    unfolding reserve_def reserve_run_def
    by (rule once_throws) (simp add: m_bind_def active_missing)
qed

text \<open>Capture and reverse post for the member of the reservation they read.\<close>

lemma reread_kept:
  assumes "\<And>r. m_keeps (books_rel (h_ids h) (\<lambda>x. x = rs_member_id r)) (k r)"
  shows "books_kept (h_ids h) s (snd (m_bind (getReservation rid) (\<lambda>_. m_bind (expireReservation h rid)
    (\<lambda>_. m_bind (getReservation rid) k)) s))"
proof (cases "js_get (eg_reservations s) rid")
  case None
  then show ?thesis by (simp add: getReservation_def m_bind_def books_kept.R_refl)
next
  case (Some r)
  let ?t = "snd (expireReservation h rid s)"
  have t: "eg_reservations ?t = js_update (eg_reservations s) rid (expire_one h)"
    by (simp add: expireReservation_def)
  have 1: "books_kept (h_ids h) s ?t"
    using books_posting.keeps_expire_reservation [THEN rel_kept] by (simp add: m_keeps_def)
  have 2: "books_kept (h_ids h) ?t (snd (k (expire_one h r) ?t))"
  proof (cases "books (h_ids h) ?t")
    case True
    have "(rid, expire_one h r) \<in> set (eg_reservations ?t)"
      using Some t by (intro js_get_mem) simp
    then have "is_member ?t (rs_member_id (expire_one h r))"
      using books_parts(5) [OF True, of "expire_one h r"] by force
    then show ?thesis by (rule rel_kept_member [OF assms])
  qed (simp add: books_kept_def)
  have "snd (m_bind (getReservation rid) (\<lambda>_. m_bind (expireReservation h rid)
      (\<lambda>_. m_bind (getReservation rid) k)) s) = snd (k (expire_one h r) ?t)"
    using Some by (simp add: getReservation_def expireReservation_def m_bind_def m_modify_def)
  with 1 2 show ?thesis by (simp add: books_kept_def)
qed

lemma redemption_add_books:
  "m_keeps (books_rel (h_ids h) (\<lambda>x. x = rs_member_id r)) (addLedger h (redemption_input r p n))"
  by (rule add_books) simp

lemma member_kept_simps: "rs_member_id (captured h r) = rs_member_id r" "rs_member_id (reversed h r) = rs_member_id r"
  by (simp_all add: captured_def reversed_def)

lemma capture_kept: "books_kept (h_ids h) s (snd (capture h q s))"
  unfolding capture_def capture_run_def capture_reserved_def debit_reservation_def redeem_issued_def
  by (intro once_kept reread_kept books_keeps redemption_add_books books_effect.keeps_modify
      set_reservation_books member_kept_simps)

lemma reverse_kept: "books_kept (h_ids h) s (snd (reverse h q s))"
  unfolding reverse_def reverse_run_def undo_capture_def refund_reservation_def return_issued_def
  by (intro once_kept reread_kept books_keeps redemption_add_books books_effect.keeps_modify
      set_reservation_books member_kept_simps)

section \<open>Members and programs\<close>

lemma points_after_open:
  "js_get (foldl (\<lambda>m u. js_set m (balanceKey p i u) 0) pts us) k =
     (if k \<in> balanceKey p i ` set us then Some 0 else js_get pts k)"
  by (induction us arbitrary: pts) auto

lemma add_member_books:
  assumes b: "books ids s" and new: "\<not> is_member s (mb_member_id x)" and pl: "plain (mb_member_id x)"
  shows "books ids (add_member key x s)"
proof -
  let ?i = "mb_member_id x" and ?t = "add_member key x s" and ?p = "eg_program s"
  have mem: "is_member ?t m \<longleftrightarrow> m = ?i \<or> is_member s m" for m
    by (auto simp: is_member_def js_has_def add_member_def open_accounts_def)
  have led: "eg_ledger ?t = eg_ledger s" "ledger_sum ?t = ledger_sum s"
    by (simp_all add: add_member_def open_accounts_def ledger_sum_def fun_eq_iff)
  have get: "js_get (eg_points ?t) k = (if k \<in> balanceKey ?p ?i ` set (accountUnits ?p) then Some 0 else js_get (eg_points s) k)" for k
    by (simp add: add_member_def open_accounts_def points_after_open)
  have prog: "eg_program ?t = ?p" by (simp add: add_member_def open_accounts_def)
  have old: "js_get (eg_points s) (balanceKey ?p ?i u) = None" for u
  proof (rule ccontr)
    assume "js_get (eg_points s) (balanceKey ?p ?i u) \<noteq> None"
    then have "balanceKey ?p ?i u \<in> fst ` set (eg_points s)" by (simp add: map_of_eq_None_iff)
    then obtain m v where "is_member s m" "balanceKey ?p ?i u = balanceKey ?p m v"
      using books_parts(6) [OF b] by blast
    then show False using balanceKey_inject [OF pl books_parts(2) [OF b]] new by blast
  qed
  have zero: "ledger_sum s ?i u = 0" for u
  proof -
    have "le_member_id e \<noteq> ?i" if "e \<in> snd ` set (eg_ledger s)" for e
      using books_parts(3) [OF b that] new by auto
    then have "filter (\<lambda>e. le_member_id e = ?i \<and> le_unit e = u) (js_values (eg_ledger s)) = []"
      by (auto simp: filter_empty_conv)
    then show ?thesis by (simp add: ledger_sum_def)
  qed
  show ?thesis
  proof (rule booksI, unfold mem led prog)
    show "fresh_ledger ids ?t"
      using books_parts(1) [OF b] led by (simp add: fresh_ledger_def add_member_def open_accounts_def)
    show "plain m" if "m = ?i \<or> is_member s m" for m using that pl books_parts(2) [OF b] by blast
    show "m = ?i \<or> is_member s m \<Longrightarrow> points_of ?t m u = ledger_sum s m u" for m u
    proof (cases "m = ?i")
      case True
      then show ?thesis using zero old get prog by (auto simp: points_of_def)
    next
      case False
      assume "m = ?i \<or> is_member s m"
      with False have m: "is_member s m" by simp
      have "balanceKey ?p m u \<notin> balanceKey ?p ?i ` set (accountUnits ?p)"
        using False balanceKey_inject [OF books_parts(2) [OF b m] pl] by auto
      then show ?thesis using get prog books_parts(7) [OF b m] by (simp add: points_of_def)
    qed
    show "\<exists>m u. (m = ?i \<or> is_member s m) \<and> k = balanceKey ?p m u" if "k \<in> fst ` set (eg_points ?t)" for k
    proof -
      have "js_get (eg_points ?t) k \<noteq> None" using that by (simp add: map_of_eq_None_iff)
      then have "k \<in> balanceKey ?p ?i ` set (accountUnits ?p) \<or> js_get (eg_points s) k \<noteq> None"
        using get [of k] by (simp split: if_splits)
      then have "k \<in> balanceKey ?p ?i ` set (accountUnits ?p) \<or> k \<in> fst ` set (eg_points s)"
        by (simp add: map_of_eq_None_iff)
      then show ?thesis using books_parts(6) [OF b] by blast
    qed
  next
    fix l assume "l \<in> snd ` set (eg_pointLots ?t)"
    then have "l \<in> snd ` set (eg_pointLots s)" by (simp add: add_member_def open_accounts_def)
    then show "lt_memberId l = ?i \<or> is_member s (lt_memberId l)" using books_parts(4) [OF b] by blast
  next
    fix r assume "r \<in> snd ` set (eg_reservations ?t)"
    then have "r \<in> snd ` set (eg_reservations s)" by (simp add: add_member_def open_accounts_def)
    then show "rs_member_id r = ?i \<or> is_member s (rs_member_id r)" using books_parts(5) [OF b] by blast
  next
    fix e assume "e \<in> snd ` set (eg_ledger s)"
    then show "le_member_id e = ?i \<or> is_member s (le_member_id e)" using books_parts(3) [OF b] by blast
  qed
qed


text \<open>Enrolment is safe when the chosen id is plain; generated ids have to be.\<close>

definition plain_ids :: "(string \<Rightarrow> nat \<Rightarrow> string) \<Rightarrow> bool" where
  "plain_ids ids \<longleftrightarrow> (\<forall>n. plain (ids ''member'' n))"

fun plain_operation :: "operation \<Rightarrow> bool" where
  "plain_operation (Op_enroll r) = (case eq_member_id r of None \<Rightarrow> True | Some i \<Rightarrow> plain i)"
| "plain_operation _ = True"

lemma enroll_response_kept: "m_keeps (books_kept (h_ids h)) (enroll_response h c m)"
  unfolding enroll_response_def by (intro rel_kept books_keeps)

lemma enroll_kept:
  assumes "plain_ids (h_ids h)" "plain_operation (Op_enroll r)"
  shows "books_kept (h_ids h) s (snd (enroll h r s))"
proof -
  have new: "books_kept (h_ids h) s (snd (enroll_new h r key s))" for key s
    unfolding enroll_new_def
  proof (rule books_kept.at_bind [where m = "choose_member_id h r"])
    show "books_kept (h_ids h) s (snd (choose_member_id h r s))"
      unfolding choose_member_id_def by (intro books_kept.at_keeps rel_kept books_keeps)
    fix i s1
    assume "choose_member_id h r s = (Inr i, s1)"
    then have pl: "plain i"
      using assms by (auto simp: choose_member_id_def draw_id_def plain_ids_def split: option.splits)
    show "books_kept (h_ids h) s1 (snd (m_bind (m_get (\<lambda>s. js_has (eg_members s) i)) (\<lambda>taken.
        m_bind (m_assert (\<not> taken) (engine_err Conflict)) (\<lambda>_.
        m_bind (m_get (\<lambda>s. new_member h (eg_program s) r i)) (\<lambda>m.
        m_bind (m_modify (add_member key m)) (\<lambda>_. enroll_response h (eq_context r) m)))) s1))"
    proof (intro books_kept.at_get books_kept.at_assert)
      assume "\<not> js_has (eg_members s1) i"
      then have "books_kept (h_ids h) s1 (add_member key (new_member h (eg_program s1) r i) s1)"
        using pl add_member_books [of "h_ids h" s1 "new_member h (eg_program s1) r i"]
        by (auto simp: books_kept_def is_member_def new_member_def)
      then show "books_kept (h_ids h) s1 (snd (m_bind (m_modify (add_member key (new_member h (eg_program s1) r i)))
          (\<lambda>_. enroll_response h (eq_context r) (new_member h (eg_program s1) r i)) s1))"
        by (intro books_kept.at_bind [where m = "m_modify _"] books_kept.at_keeps [OF enroll_response_kept]) simp
    qed
  qed
  have old: "books_kept (h_ids h) s (snd (enroll_existing h r i s))" for i s
    unfolding enroll_existing_def
    by (intro books_kept.at_keeps rel_kept) (unfold enroll_response_def, intro books_keeps)
  have "books_kept (h_ids h) s (snd (enroll_run h r s))" for s
    unfolding enroll_run_def Let_def by (rule books_kept.at_get) (simp add: new old)
  then show ?thesis unfolding enroll_def by (intro assert_program_kept once_kept)
qed

lemma member_writes_books:
  "m_keeps (books_rel ids who) (m_modify (set_member m f))"
  "m_keeps (books_rel ids who) (m_modify (erase_writes m x))"
  by (auto intro!: books_effect.keeps_modify books_rel_same simp: set_member_def erase_writes_def)

lemma cancelMember_kept: "m_keeps (books_kept (h_ids h)) (cancelMember h m)"
  unfolding cancelMember_def by (intro rel_kept books_keeps member_writes_books)

lemma eraseMember_kept: "m_keeps (books_kept (h_ids h)) (eraseMember h m)"
  unfolding eraseMember_def by (intro rel_kept books_keeps member_writes_books books_posting.keeps_inspect_erasure)

lemma setMembership_kept: "m_keeps (books_kept (h_ids h)) (setMemberMembership h m v)"
  unfolding setMemberMembership_def by (intro rel_kept books_keeps member_writes_books)

lemma issued_kept:
  "m_keeps (books_kept (h_ids h)) (listIssuedRewards h li)"
  "m_keeps (books_kept (h_ids h)) (cancelIssuedReward h ci)"
  "m_keeps (books_kept (h_ids h)) (issueReward h ii)"
  unfolding listIssuedRewards_def listIssuedRewards_run_def cancelIssuedReward_def cancelIssuedReward_run_def
  by (intro rel_kept books_keeps books_posting.keeps_issue)+

text \<open>Opening a missing account at zero changes no balance.\<close>

lemma open_missing_points:
  assumes "p = eg_program s"
  shows "points_of (open_missing i s) m u = points_of s m u"
    and "fst ` set (eg_points (open_missing i s)) \<subseteq> fst ` set (eg_points s) \<union> range (balanceKey p i)"
proof -
  let ?f = "\<lambda>m u. let key = balanceKey p i u in if js_has m key then m else js_set m key (0::int)"
  have get: "(case js_get (foldl ?f pts us) k of None \<Rightarrow> 0 | Some n \<Rightarrow> n) = (case js_get pts k of None \<Rightarrow> 0 | Some n \<Rightarrow> n)" for pts us k
    by (induction us arbitrary: pts) (auto simp: Let_def js_has_def split: option.splits)
  show "points_of (open_missing i s) m u = points_of s m u"
    using get assms by (simp add: points_of_def open_missing_def)
  have "fst ` set (foldl ?f pts us) \<subseteq> fst ` set pts \<union> range (balanceKey p i)" for pts us
  proof (induction us arbitrary: pts)
    case (Cons u us)
    have "fst ` set (?f pts u) \<subseteq> fst ` set pts \<union> range (balanceKey p i)"
      by (auto simp: Let_def dom_update)
    with Cons.IH [of "?f pts u"] show ?case by (simp only: foldl_Cons) blast
  qed simp
  then show "fst ` set (eg_points (open_missing i s)) \<subseteq> fst ` set (eg_points s) \<union> range (balanceKey p i)"
    using assms by (simp add: open_missing_def)
qed

lemma open_missing_books:
  assumes b: "books ids s" and i: "is_member s i"
  shows "books ids (open_missing i s)" "is_member (open_missing i s) = is_member s"
proof -
  let ?t = "open_missing i s"
  have same: "eg_program ?t = eg_program s" "eg_members ?t = eg_members s" "eg_ledger ?t = eg_ledger s"
    "eg_pointLots ?t = eg_pointLots s" "eg_reservations ?t = eg_reservations s" "eg_id_count ?t = eg_id_count s"
    by (simp_all add: open_missing_def)
  show m: "is_member ?t = is_member s" by (simp add: is_member_def same fun_eq_iff)
  have l: "ledger_sum ?t = ledger_sum s" by (simp add: ledger_sum_def same fun_eq_iff)
  note pts = open_missing_points [OF refl, of i s]
  show "books ids ?t"
  proof (rule booksI, unfold m l same pts(1))
    show "fresh_ledger ids ?t" using books_parts(1) [OF b] by (simp add: fresh_ledger_def same)
    show "\<exists>m u. is_member s m \<and> k = balanceKey (eg_program s) m u" if "k \<in> fst ` set (eg_points ?t)" for k
      using that pts(2) books_parts(6) [OF b] i by blast
  qed (erule books_parts [OF b])+
qed

lemma primary_keeps_books:
  assumes b: "books ids s" and "primaryUnit p = primaryUnit (eg_program s)"
  shows "books ids (s\<lparr>eg_program := p\<rparr>)" "is_member (s\<lparr>eg_program := p\<rparr>) = is_member s"
proof -
  let ?t = "s\<lparr>eg_program := p\<rparr>"
  have key: "balanceKey p = balanceKey (eg_program s)" using assms(2) by (simp add: balanceKey_def fun_eq_iff)
  show m: "is_member ?t = is_member s" by (simp add: is_member_def fun_eq_iff)
  have pl: "points_of ?t = points_of s" "ledger_sum ?t = ledger_sum s"
    by (simp_all add: points_of_def ledger_sum_def key fun_eq_iff)
  show "books ids ?t"
  proof (rule booksI, unfold m pl)
    show "fresh_ledger ids ?t" using books_parts(1) [OF b] by (simp add: fresh_ledger_def)
    show "\<exists>m u. is_member s m \<and> k = balanceKey (eg_program ?t) m u" if "k \<in> fst ` set (eg_points ?t)" for k
      using that books_parts(6) [OF b] key by simp
    show "e \<in> snd ` set (eg_ledger ?t) \<Longrightarrow> is_member s (le_member_id e)" for e
      using books_parts(3) [OF b] by simp
    show "l \<in> snd ` set (eg_pointLots ?t) \<Longrightarrow> is_member s (lt_memberId l)" for l
      using books_parts(4) [OF b] by simp
    show "r \<in> snd ` set (eg_reservations ?t) \<Longrightarrow> is_member s (rs_member_id r)" for r
      using books_parts(5) [OF b] by simp
  qed (erule books_parts [OF b])+
qed

lemma adopt_books:
  assumes "books ids s" "primaryUnit p = primaryUnit (eg_program s)"
  shows "books ids (adopt_program p s)"
proof -
  have loop: "books ids (foldl (\<lambda>t i. open_missing i t) t is)" if "books ids t" "\<forall>i \<in> set is. is_member t i" for t "is"
    using that by (induction "is" arbitrary: t) (simp_all add: open_missing_books)
  have "\<forall>i \<in> set (js_keys (eg_members s)). is_member (s\<lparr>eg_program := p\<rparr>) i"
    by (auto simp: is_member_def js_has_iff)
  with loop primary_keeps_books [OF assms] show ?thesis by (simp add: adopt_program_def)
qed

lemma account_in_use_books: "m_keeps (books_rel (h_ids h) who) (m_exists (account_in_use h next) us)"
  unfolding account_in_use_def by (intro books_keeps)

lemma reconfigure_kept: "books_kept (h_ids h) s (snd (reconfigureProgram h next s))"
  unfolding reconfigureProgram_def
proof (intro books_kept.at_lift books_kept.at_get books_kept.at_assert
    books_kept.at_bind [where m = "m_exists _ _"] books_kept.at_keeps [OF account_in_use_books [THEN rel_kept]])
  fix u used s1
  assume c: "assertCompatibleProgramUpdate (eg_program s) next = Inr u"
    and run: "m_exists (account_in_use h next) (accountUnits (eg_program s)) s = (Inr used, s1)"
  have "eg_program s1 = eg_program s"
    using account_in_use_books [of h "\<lambda>_. False" "next" "accountUnits (eg_program s)"] run
    by (auto simp: m_keeps_def books_rel_def dest!: spec [where x = s])
  moreover have "primaryUnit next = primaryUnit (eg_program s)"
    using c by (simp add: assertCompatibleProgramUpdate_def split: if_splits)
  ultimately show "books_kept (h_ids h) s1 (snd (m_modify (adopt_program next) s1))"
    using adopt_books [of "h_ids h" s1 "next"] by (simp add: books_kept_def)
qed

lemma perform_books:
  assumes "plain_ids (h_ids h)" "plain_operation p" "books (h_ids h) s"
  shows "books (h_ids h) (snd (perform h p s))"
proof -
  have at: "books_kept (h_ids h) s t \<Longrightarrow> books (h_ids h) t" for t
    using assms(3) by (simp add: books_kept_def)
  show ?thesis
    using assms(1,2)
    by (cases p)
      (auto simp del: plain_operation.simps
        intro!: at books_kept.R_refl postAccrual_kept adjustOrder_kept manual_kept reserve_kept capture_kept reverse_kept
          reconfigure_kept enroll_kept
          books_kept.at_keeps [OF cancelMember_kept] books_kept.at_keeps [OF eraseMember_kept]
          books_kept.at_keeps [OF setMembership_kept] books_kept.at_keeps [OF issued_kept(1)]
          books_kept.at_keeps [OF issued_kept(2)] books_kept.at_keeps [OF issued_kept(3)]
          books_kept.at_keeps [OF rel_kept [OF books_posting.keeps_lookup]]
          books_kept.at_keeps [OF rel_kept [OF books_posting.keeps_getProgram]]
          books_kept.at_keeps [OF rel_kept [OF books_posting.keeps_inspect_erasure]]
          books_kept.at_keeps [OF rel_kept [OF books_posting.keeps_getAccount]]
          books_kept.at_keeps [OF rel_kept [OF books_posting.keeps_listLedger]]
          books_kept.at_keeps [OF rel_kept [OF books_posting.keeps_evaluate]]
          books_kept.at_keeps [OF rel_kept [OF books_posting.keeps_getLedger]]
          books_kept.at_keeps [OF rel_kept [OF books_posting.keeps_inspectLedger]]
          books_kept.at_keeps [OF rel_kept [OF books_posting.keeps_inspectAdmin]])
qed

lemma history_books:
  "history ids s ops t \<Longrightarrow> plain_ids ids \<Longrightarrow> \<forall>hp \<in> set ops. plain_operation (snd hp) \<Longrightarrow> books ids s \<Longrightarrow> books ids t"
  by (induction rule: history.induct) (auto intro: perform_books)

lemma empty_books: "good_ids ids \<Longrightarrow> books ids (empty_engine p)"
  by (rule booksI [OF empty_fresh_ledger])
    (auto simp: empty_engine_def is_member_def js_has_def)

text \<open>
  C7. Balances equal the ledger: in every state an engine reaches, whatever operations ran,
  each member's balance in each unit is the sum of that member's ledger entries in that
  unit. The member ids (drawn or given in an enrolment) must not look like account ids, as
  \<open>credits:ann\<close> would, and the id generator must not repeat itself.
\<close>

theorem balances_equal_ledger:
  assumes "good_ids ids" "plain_ids ids" "history ids (empty_engine p) ops s"
    and "\<forall>hp \<in> set ops. plain_operation (snd hp)" "is_member s m"
  shows "points_of s m u = ledger_sum s m u"
  using books_parts(7) [OF history_books [OF assms(3,2,4) empty_books [OF assms(1)]] assms(5)] .

lemma sample_plain_ids: "plain_ids sample_ids"
  by (simp add: plain_ids_def plain_def all_units_def starts_with_def sample_ids_def)

lemma story_plain: "\<forall>hp \<in> set sample_story. plain_operation (snd hp)"
  by (simp add: sample_story_def sample_enroll_def plain_def all_units_def starts_with_def)

theorem balances_equal_ledger_witness: "ledger_sum story_state ''ann'' Points = 15"
proof -
  have "is_member story_state ''ann''" using story_member by (simp add: is_member_def)
  then show ?thesis
    using balances_equal_ledger [OF good_sample_ids sample_plain_ids story_runs story_plain] story_facts by simp
qed

section \<open>Members are never removed\<close>

definition members_stay :: "engine \<Rightarrow> engine \<Rightarrow> bool" where
  "members_stay s t \<longleftrightarrow> (\<forall>m. is_member s m \<longrightarrow> is_member t m)"

interpretation members_effect: engine_effect members_stay
  by unfold_locales (auto simp: members_stay_def)

lemma members_stay_same:
  "eg_members t = eg_members s \<Longrightarrow> members_stay s t"
  "eg_members t = js_set (eg_members s) k x \<Longrightarrow> members_stay s t"
  "eg_members t = js_update (eg_members s) k f \<Longrightarrow> members_stay s t"
  by (auto simp: members_stay_def is_member_def js_has_def)

interpretation members_log: total_relation members_stay h for h
proof unfold_locales
qed (auto intro!: members_effect.keeps_once_of_store members_effect.keeps_expire_lots_of members_effect.keeps_add_of
    members_effect.keeps_consume_of members_effect.keeps_issue_run_of members_effect.keeps_restore_of
    members_effect.keeps_modify intro: members_stay_same
    simp: writer_defs effect_defs m_keeps_def [of _ "draw_id _ _"])

lemma members_never_removed: "history ids s ops t \<Longrightarrow> is_member s m \<Longrightarrow> is_member t m"
  using history_keeps [of ids s ops t members_stay] members_log.keeps_perform
    members_effect.effect_relation_axioms
  by (simp add: members_stay_def)

end
