(* ===== verification/Tiers.thy ===== *)
theory Tiers
  imports Sample_Program
begin

text \<open>
  \<open>tierProgress\<close>: the member stands in the highest tier whose minimum is reached, the next
  tier is the one directly above, and the progress between them is a share in basis points.
\<close>

lemma reached_index_spec:
  assumes "index = length pre" "current < length (pre @ ts)"
    "\<And>i. i < length pre \<Longrightarrow> td_minimum (pre ! i) \<le> amount \<longleftrightarrow> i \<le> current"
    "current < length pre \<or> (current = 0 \<and> pre = [])"
    "sorted_wrt (\<lambda>a b. td_minimum a < td_minimum b) (pre @ ts)" "td_minimum ((pre @ ts) ! 0) \<le> amount"
  shows "reached_index amount index current ts < length (pre @ ts) \<and>
    (\<forall>i < length (pre @ ts). td_minimum ((pre @ ts) ! i) \<le> amount \<longleftrightarrow> i \<le> reached_index amount index current ts)"
  using assms
proof (induction ts arbitrary: pre index current)
  case Nil
  then show ?case by auto
next
  case (Cons t ts)
  let ?c = "if td_minimum t \<le> amount then index else current"
  have at: "(pre @ t # ts) ! length pre = t" by (rule nth_append_length)
  have le: "td_minimum (pre ! i) \<le> amount" if "td_minimum t \<le> amount" "i < length pre" for i
  proof -
    have "td_minimum (pre ! i) < td_minimum t"
      using Cons.prems(5) nth_mem [OF that(2)] by (simp add: sorted_wrt_append)
    with that(1) show ?thesis by simp
  qed
  have ih: "reached_index amount (Suc index) ?c ts < length ((pre @ [t]) @ ts) \<and>
    (\<forall>i < length ((pre @ [t]) @ ts). td_minimum (((pre @ [t]) @ ts) ! i) \<le> amount \<longleftrightarrow>
        i \<le> reached_index amount (Suc index) ?c ts)"
  proof (rule Cons.IH)
    show "Suc index = length (pre @ [t])" using Cons.prems(1) by simp
    show "?c < length ((pre @ [t]) @ ts)" using Cons.prems(1,2) by simp
    show "td_minimum ((pre @ [t]) ! i) \<le> amount \<longleftrightarrow> i \<le> ?c" if "i < length (pre @ [t])" for i
    proof (cases "i < length pre")
      case True
      then show ?thesis using Cons.prems(1,3) le by (auto simp: nth_append)
    next
      case False
      with that have i: "i = length pre" by simp
      have "\<not> td_minimum t \<le> amount \<Longrightarrow> current < length pre"
        using Cons.prems(4,6) by auto
      with i Cons.prems(1) show ?thesis by (auto simp: nth_append)
    qed
    show "?c < length (pre @ [t]) \<or> (?c = 0 \<and> pre @ [t] = [])" using Cons.prems(1,4) by auto
    show "sorted_wrt (\<lambda>a b. td_minimum a < td_minimum b) ((pre @ [t]) @ ts)" using Cons.prems(5) by simp
    show "td_minimum (((pre @ [t]) @ ts) ! 0) \<le> amount" using Cons.prems(6) by simp
  qed
  then show ?case by simp
qed

lemma reached_index_sorted:
  assumes "sorted_wrt (\<lambda>a b. td_minimum a < td_minimum b) ts" "ts \<noteq> []" "td_minimum (hd ts) \<le> amount"
  shows "reached_index amount 0 0 ts < length ts"
    and "i < length ts \<Longrightarrow> td_minimum (ts ! i) \<le> amount \<longleftrightarrow> i \<le> reached_index amount 0 0 ts"
  using reached_index_spec [of 0 "[]" 0 ts amount] assms by (auto simp: hd_conv_nth)

lemma bps_bounds:
  assumes "(a::int) \<le> x" "a < b"
  shows "0 \<le> min 10000 ((x - a) * 10000 div (b - a))" "min 10000 ((x - a) * 10000 div (b - a)) \<le> 10000"
  using assms by (simp_all add: pos_imp_zdiv_nonneg_iff)

text \<open>What a progress record has to say about an amount, over the tiers of the program.\<close>

definition stands_in :: "tier_definition list \<Rightarrow> int \<Rightarrow> tier_definition \<Rightarrow> bool" where
  "stands_in tiers amount t \<longleftrightarrow>
     t \<in> set tiers \<and> td_minimum t \<le> amount \<and>
     (\<forall>u \<in> set tiers. td_minimum u \<le> amount \<longrightarrow> td_minimum u \<le> td_minimum t)"

definition comes_next :: "tier_definition list \<Rightarrow> int \<Rightarrow> tier_definition \<Rightarrow> bool" where
  "comes_next tiers amount t \<longleftrightarrow>
     t \<in> set tiers \<and> amount < td_minimum t \<and>
     (\<forall>u \<in> set tiers. amount < td_minimum u \<longrightarrow> td_minimum t \<le> td_minimum u)"

definition progress_correct :: "tier_definition list \<Rightarrow> int \<Rightarrow> tier_progress \<Rightarrow> bool" where
  "progress_correct tiers amount tp \<longleftrightarrow>
     tp_current_amount tp = amount \<and> 0 \<le> tp_progress_bps tp \<and> tp_progress_bps tp \<le> 10000 \<and>
     (\<exists>t. stands_in tiers amount t \<and> tp_current_tier_id tp = td_tier_id t) \<and>
     (case tp_next_tier_id tp of
        None \<Rightarrow> tp_is_top_tier tp \<and> tp_remaining_to_next tp = None \<and> tp_progress_bps tp = 10000 \<and>
          (\<forall>u \<in> set tiers. td_minimum u \<le> amount)
      | Some i \<Rightarrow> \<not> tp_is_top_tier tp \<and>
          (\<exists>n. comes_next tiers amount n \<and> i = td_tier_id n \<and>
               tp_remaining_to_next tp = Some (td_minimum n - amount)))"

lemma progress_correct_set:
  assumes "set a = set b"
  shows "progress_correct a = progress_correct b"
proof -
  have eqs: "stands_in a = stands_in b" "comes_next a = comes_next b"
    using assms by (simp_all add: stands_in_def comes_next_def fun_eq_iff)
  show ?thesis by (intro ext) (simp add: progress_correct_def eqs assms split: option.split)
qed

lemma progress_at_correct:
  assumes s: "sorted_wrt (\<lambda>a b. td_minimum a < td_minimum b) ts" and ne: "ts \<noteq> []" and z: "td_minimum (hd ts) \<le> amount"
  shows "progress_correct ts amount (progress_at ts metricId amount)"
proof -
  let ?i = "reached_index amount 0 0 ts"
  note r = reached_index_sorted [OF s ne z]
  have mono: "td_minimum (ts ! j) \<le> td_minimum (ts ! k)" if "j \<le> k" "k < length ts" for j k
    using sorted_wrt_nth_less [OF s, of j k] that by (cases "j = k") (auto simp: less_le)
  have cur: "stands_in ts amount (ts ! ?i)"
    unfolding stands_in_def
  proof (intro conjI ballI impI)
    show "td_minimum (ts ! ?i) \<le> amount" using r(2) [OF r(1)] by simp
    fix u assume u: "u \<in> set ts" "td_minimum u \<le> amount"
    then obtain j where "j < length ts" "u = ts ! j" by (metis in_set_conv_nth)
    with u(2) r show "td_minimum u \<le> td_minimum (ts ! ?i)" using mono by auto
  qed (use r(1) in simp)
  show ?thesis
  proof (cases "Suc ?i < length ts")
    case True
    have next_gt: "amount < td_minimum (ts ! Suc ?i)" using r(2) [OF True] by simp
    have "comes_next ts amount (ts ! Suc ?i)"
      unfolding comes_next_def
    proof (intro conjI ballI impI)
      fix u assume u: "u \<in> set ts" "amount < td_minimum u"
      then obtain j where j: "j < length ts" "u = ts ! j" by (auto simp: in_set_conv_nth)
      with u(2) r(2) [OF j(1)] have "Suc ?i \<le> j" by auto
      with j mono show "td_minimum (ts ! Suc ?i) \<le> td_minimum u" by simp
    qed (use True next_gt in simp_all)
    moreover have "td_minimum (ts ! ?i) \<le> amount" using cur by (simp add: stands_in_def)
    ultimately show ?thesis
      using True cur next_gt bps_bounds [of "td_minimum (ts ! ?i)" amount "td_minimum (ts ! Suc ?i)"]
      by (auto simp: progress_correct_def progress_at_def Let_def)
  next
    case False
    have "td_minimum u \<le> amount" if u: "u \<in> set ts" for u
    proof -
      obtain j where "j < length ts" "ts ! j = u" using u by (auto simp: in_set_conv_nth)
      moreover have "j \<le> ?i" using False r(1) calculation(1) by simp
      ultimately show ?thesis using r(2) [of j] by simp
    qed
    with False cur show ?thesis by (auto simp: progress_correct_def progress_at_def Let_def)
  qed
qed

text \<open>
  C8. For every accepted program and any metrics, the tier progress is right: the current
  tier is the highest one whose minimum the (non-negative) metric reaches, the next tier is
  the lowest one above it with exactly the missing amount, the progress is between 0 and
  10000 basis points, and next tier, remaining amount and top-tier flag agree.
\<close>

theorem tier_progress_correct:
  assumes "program_ok h p" "tierProgress p ms = Some tp"
  shows "progress_correct (program_tiers p) (metric_value ms (tp_qualification_metric_id tp)) tp"
proof -
  have ok: "tiers_ok p" using assms(1) by (rule program_ok_asserted)
  obtain t ts where st: "sorted_tiers p = t # ts"
    using assms(2) by (auto simp: tierProgress_def split: list.splits)
  let ?m = "td_qualification_metric_id t"
  have tp: "tp = progress_at (t # ts) ?m (metric_value ms ?m)"
    using assms(2) st by (simp add: tierProgress_def Let_def)
  have "td_minimum (hd (t # ts)) \<le> metric_value ms ?m"
    using sorted_tiers_strict(2) [OF ok] st by (simp add: metric_value_def)
  then have "progress_correct (t # ts) (metric_value ms ?m) tp"
    using sorted_tiers_strict(1) [OF ok] st unfolding tp by (intro progress_at_correct) simp_all
  moreover have "tp_qualification_metric_id tp = ?m" by (simp add: tp progress_at_def Let_def)
  moreover have "set (program_tiers p) = set (t # ts)"
    by (metis set_js_sort sorted_tiers_def st)
  ultimately show ?thesis using progress_correct_set [of "program_tiers p" "t # ts"] by metis
qed

definition sample_metrics :: "int \<Rightarrow> account_metric list" where
  "sample_metrics n = [\<lparr>am_metric_id = ''lifetime'', am_unit = Points, am_amount = n, am_as_of = ''now''\<rparr>]"

definition sample_progress :: tier_progress where
  "sample_progress =
     \<lparr>tp_current_tier_id = ''base'', tp_qualification_metric_id = ''lifetime'', tp_current_amount = 40,
      tp_next_tier_id = Some ''gold'', tp_remaining_to_next = Some 60, tp_progress_bps = 4000,
      tp_is_top_tier = False\<rparr>"

lemma sample_tier_progress: "tierProgress sample_program (sample_metrics 40) = Some sample_progress"
  by code_simp

theorem tier_progress_correct_witness:
  "progress_correct (program_tiers sample_program) 40 sample_progress"
proof -
  have "metric_value (sample_metrics 40) ''lifetime'' = 40" by (simp add: metric_value_def sample_metrics_def)
  then show ?thesis
    using tier_progress_correct [OF sample_program_ok sample_tier_progress] by (simp add: sample_progress_def)
qed

end
