(* ===== verification/Funding.thy ===== *)
theory Funding
  imports Sample_Program
begin

text \<open>
  \<open>fundingAllocations\<close> splits the value of a reward between its funding parties by the
  largest-remainder method. The split is exact, and no party is off by a whole unit.
\<close>

text \<open>
  All that is needed of \<open>localeCompare\<close> is that it orders strings; strings it does not tell
  apart may differ.
\<close>

definition collation_orders :: "collation \<Rightarrow> bool" where
  "collation_orders lc \<longleftrightarrow>
     (\<forall>x y. lc x y \<le> 0 \<or> lc y x \<le> 0) \<and> (\<forall>x y z. lc x y \<le> 0 \<longrightarrow> lc y z \<le> 0 \<longrightarrow> lc x z \<le> 0)"

lemma unit_compare_orders: "collation_orders unit_compare"
  using unit_compare_ok unfolding collation_orders_def collation_ok_def by blast

lemma allocation_comparator:
  assumes "collation_orders lc"
  shows "comparator (allocation_compare lc)"
proof
  fix x y z :: allocation
  have tot: "lc (al_tieBreak x) (al_tieBreak y) \<le> 0 \<or> lc (al_tieBreak y) (al_tieBreak x) \<le> 0"
    and tr: "lc (al_tieBreak x) (al_tieBreak y) \<le> 0 \<Longrightarrow> lc (al_tieBreak y) (al_tieBreak z) \<le> 0 \<Longrightarrow>
      lc (al_tieBreak x) (al_tieBreak z) \<le> 0"
    using assms unfolding collation_orders_def by blast+
  show "allocation_compare lc x y \<le> 0 \<or> allocation_compare lc y x \<le> 0"
    using tot by (simp add: allocation_compare_def)
  assume "allocation_compare lc x y \<le> 0" "allocation_compare lc y z \<le> 0"
  then show "allocation_compare lc x z \<le> 0"
    using tr by (simp add: allocation_compare_def split: if_splits)
qed

lemma topped_up_take: "n \<le> length as \<Longrightarrow> topped_up (int n) as = map al_index (take n as)"
proof (induction as arbitrary: n)
  case (Cons a as)
  then show ?case by (cases n) simp_all
qed simp

lemma sum_indicator:
  "distinct (map f xs) \<Longrightarrow> set ys \<subseteq> f ` set xs \<Longrightarrow> distinct ys \<Longrightarrow>
     (\<Sum>x\<leftarrow>xs. if f x \<in> set ys then 1 else 0) = int (length ys)"
proof (induction xs arbitrary: ys)
  case (Cons x xs)
  have sub: "set (remove1 (f x) ys) \<subseteq> f ` set xs" "distinct (remove1 (f x) ys)"
    using Cons.prems by auto
  have same: "(\<Sum>z\<leftarrow>xs. if f z \<in> set (remove1 (f x) ys) then 1 else 0) = (\<Sum>z\<leftarrow>xs. if f z \<in> set ys then 1 else (0::int))"
  proof -
    have "f z \<noteq> f x" if "z \<in> set xs" for z using Cons.prems(1) that by (metis distinct.simps(2) image_eqI list.set_map list.simps(9))
    then show ?thesis using Cons.prems(3) by (intro arg_cong [of _ _ sum_list] map_cong) auto
  qed
  have len: "1 + int (length ys - Suc 0) = int (length ys)" if "f x \<in> set ys"
    using length_pos_if_in_set [OF that] by linarith
  show ?case
    using Cons.IH [of "remove1 (f x) ys"] Cons.prems(1) sub same len
    by (cases "f x \<in> set ys") (auto simp: length_remove1 remove1_idem of_nat_diff)
qed auto

text \<open>Everything about the allocations of a non-negative value over non-negative shares.\<close>

definition fair_shares :: "funding_share list \<Rightarrow> bool" where
  "fair_shares fs \<longleftrightarrow> (\<forall>f \<in> set fs. 0 \<le> fs_share_bps f) \<and> (\<Sum>f\<leftarrow>fs. fs_share_bps f) = 10000"

lemma map_enumerate: "map (\<lambda>x. g (snd x)) (List.enumerate n xs) = map g xs"
  by (induction xs arbitrary: n) simp_all

lemma allocation_parts:
  assumes "0 \<le> amount" "a \<in> set (allocations_of amount fs)" "\<forall>f \<in> set fs. 0 \<le> fs_share_bps f"
  shows "0 \<le> al_remainder a" "al_remainder a < 10000"
proof -
  obtain ix where a: "a = allocation_of amount ix" "ix \<in> set (List.enumerate 0 fs)"
    using assms(2) by (auto simp: allocations_of_def)
  then have "snd ix \<in> set fs" by (metis map_snd_enumerate in_set_conv_nth image_eqI list.set_map)
  then have "0 \<le> amount * fs_share_bps (snd ix)" using assms by simp
  then have "al_remainder a = amount * fs_share_bps (snd ix) mod 10000"
    by (simp add: a allocation_of_def Let_def bigint_div_nonneg minus_div_mult_eq_mod)
  then show "0 \<le> al_remainder a" "al_remainder a < 10000" by simp_all
qed

lemma allocation_sum:
  "10000 * (\<Sum>a\<leftarrow>allocations_of amount fs. al_amount a) + (\<Sum>a\<leftarrow>allocations_of amount fs. al_remainder a)
     = amount * (\<Sum>f\<leftarrow>fs. fs_share_bps f)"
proof -
  have "10000 * (\<Sum>ix\<leftarrow>xs. al_amount (allocation_of amount ix)) + (\<Sum>ix\<leftarrow>xs. al_remainder (allocation_of amount ix))
      = amount * (\<Sum>ix\<leftarrow>xs. fs_share_bps (snd ix))" for xs
    by (induction xs) (auto simp: allocation_of_def Let_def algebra_simps)
  from this [of "List.enumerate 0 fs"] show ?thesis
    by (simp add: allocations_of_def o_def map_enumerate)
qed

lemma length_allocations [simp]: "length (allocations_of amount fs) = length fs"
  by (simp add: allocations_of_def)

lemma index_allocations: "map al_index (allocations_of amount fs) = [0..<length fs]"
  by (simp add: allocations_of_def allocation_of_def Let_def o_def map_fst_enumerate)

lemma sum_bounded:
  "(\<And>x. x \<in> set xs \<Longrightarrow> g x \<le> 9999) \<Longrightarrow> (\<And>x. x \<in> set xs \<Longrightarrow> 0 \<le> g x) \<Longrightarrow>
     (\<Sum>x\<leftarrow>xs. g x) \<le> 9999 * int (length (filter (\<lambda>x. 0 < g x) xs))"
proof (induction xs)
  case (Cons x xs)
  have g: "g x \<le> 9999" "0 \<le> g x" using Cons.prems by simp_all
  have "(\<Sum>x\<leftarrow>xs. g x) \<le> 9999 * int (length (filter (\<lambda>x. 0 < g x) xs))"
    using Cons.prems by (intro Cons.IH) simp_all
  with g show ?case by (cases "0 < g x") (simp_all add: algebra_simps)
qed simp

text \<open>At least as many parties have a positive remainder as there are units left to hand out.\<close>

lemma unallocated_bounds:
  assumes "0 \<le> amount" "fair_shares fs"
  defines "u \<equiv> amount - (\<Sum>a\<leftarrow>allocations_of amount fs. al_amount a)"
  shows "0 \<le> u" "u \<le> int (length (filter (\<lambda>a. 0 < al_remainder a) (allocations_of amount fs)))"
proof -
  let ?as = "allocations_of amount fs"
  have r: "0 \<le> al_remainder a" "al_remainder a \<le> 9999" if "a \<in> set ?as" for a
    using allocation_parts [OF assms(1) that] assms(2) by (auto simp: fair_shares_def)
  have eq: "10000 * u = (\<Sum>a\<leftarrow>?as. al_remainder a)"
    using allocation_sum [of amount fs] assms(2) by (simp add: fair_shares_def u_def algebra_simps)
  have "0 \<le> (\<Sum>a\<leftarrow>?as. al_remainder a)" using r(1) by (rule sum_list_nonneg_int)
  with eq show "0 \<le> u" by simp
  have "10000 * u \<le> 9999 * int (length (filter (\<lambda>a. 0 < al_remainder a) ?as))"
    unfolding eq using r by (intro sum_bounded)
  then show "u \<le> int (length (filter (\<lambda>a. 0 < al_remainder a) ?as))" by linarith
qed

text \<open>In a ranking by remainder the first ones are the ones with a positive remainder.\<close>

lemma ranked_positive:
  assumes "sorted_wrt (\<lambda>x y. al_remainder y \<le> al_remainder x) xs" "k \<le> length (filter (\<lambda>a. 0 < al_remainder a) xs)"
    "a \<in> set (take k xs)"
  shows "0 < al_remainder a"
  using assms
proof (induction xs arbitrary: k)
  case (Cons x xs)
  show ?case
  proof (cases "0 < al_remainder x")
    case True
    then show ?thesis using Cons by (cases k) auto
  next
    case False
    then have "filter (\<lambda>a. 0 < al_remainder a) (x # xs) = []"
      using Cons.prems(1) by (auto simp: filter_empty_conv)
    with Cons.prems show ?thesis by (simp del: filter.simps)
  qed
qed simp

lemma share_amounts_exact:
  assumes lc: "collation_orders lc" and am: "0 \<le> amount" and fs: "fair_shares fs"
  shows "sum_list (share_amounts lc amount fs) = amount"
    and "length (share_amounts lc amount fs) = length fs"
    and "i < length fs \<Longrightarrow> \<bar>10000 * share_amounts lc amount fs ! i - amount * fs_share_bps (fs ! i)\<bar> < 10000"
proof -
  let ?as = "allocations_of amount fs"
  let ?rank = "js_sort (allocation_compare lc) ?as"
  define u where "u = amount - (\<Sum>a\<leftarrow>?as. al_amount a)"
  define k where "k = nat u"
  have k: "u = int k" "k \<le> length (filter (\<lambda>a. 0 < al_remainder a) ?as)"
    using unallocated_bounds [OF am fs] by (simp_all add: u_def k_def)
  have klen: "k \<le> length ?rank" using k(2) length_filter_le [of "\<lambda>a. 0 < al_remainder a" ?as] by simp
  define up where "up = topped_up u ?rank"
  have up: "up = map al_index (take k ?rank)" unfolding up_def k(1) by (rule topped_up_take [OF klen])
  have res: "share_amounts lc amount fs = map (\<lambda>a. al_amount a + (if al_index a \<in> set up then 1 else 0)) ?as"
    by (simp add: share_amounts_def Let_def up_def u_def)
  have dist: "distinct (map al_index ?as)" by (simp add: index_allocations)
  then have distr: "distinct (map al_index ?rank)" by simp
  have "distinct up" unfolding up using distr by (metis distinct_take take_map)
  moreover have "set up \<subseteq> al_index ` set ?as"
  proof -
    have "set (take k ?rank) \<subseteq> set ?as" using set_take_subset [of k ?rank] by simp
    then show ?thesis unfolding up by auto
  qed
  ultimately have "(\<Sum>a\<leftarrow>?as. if al_index a \<in> set up then 1 else 0) = int (length up)"
    using dist by (intro sum_indicator)
  moreover have "length up = k" using klen by (simp add: up)
  ultimately show "sum_list (share_amounts lc amount fs) = amount"
    unfolding res by (simp add: sum_list_addf k(1) [symmetric] u_def)
  show "length (share_amounts lc amount fs) = length fs" unfolding res by simp
  assume i: "i < length fs"
  let ?a = "?as ! i"
  have a: "?a = allocation_of amount (i, fs ! i)"
    using i by (simp add: allocations_of_def nth_enumerate_eq)
  have mem: "?a \<in> set ?as" using i by simp
  have rem: "0 \<le> al_remainder ?a" "al_remainder ?a < 10000"
    using allocation_parts [OF am mem] fs by (auto simp: fair_shares_def)
  have prod: "amount * fs_share_bps (fs ! i) = 10000 * al_amount ?a + al_remainder ?a"
    unfolding a by (simp add: allocation_of_def Let_def)
  have pos: "0 < al_remainder ?a" if topped: "al_index ?a \<in> set up"
  proof -
    have "sorted_wrt (\<lambda>x y. allocation_compare lc x y \<le> 0) ?rank"
      by (rule comparator.sorted_js_sort [OF allocation_comparator [OF lc]])
    then have "sorted_wrt (\<lambda>x y. al_remainder y \<le> al_remainder x) ?rank"
      by (rule sorted_wrt_mono_rel [rotated]) (auto simp: allocation_compare_def split: if_splits)
    moreover have "k \<le> length (filter (\<lambda>a. 0 < al_remainder a) ?rank)"
    proof -
      have "size (filter_mset (\<lambda>a. 0 < al_remainder a) (mset ?rank)) = size (filter_mset (\<lambda>a. 0 < al_remainder a) (mset ?as))"
        by simp
      then show ?thesis using k(2) by (metis mset_filter size_mset)
    qed
    moreover have "?a \<in> set (take k ?rank)"
    proof -
      obtain b where b: "b \<in> set (take k ?rank)" "al_index b = al_index ?a"
        using topped unfolding up by auto
      then have "b \<in> set ?as" using in_set_takeD [OF b(1)] by simp
      then have "b = ?a" using mem b(2) dist by (auto simp: distinct_map dest: inj_onD)
      with b(1) show ?thesis by simp
    qed
    ultimately show ?thesis by (rule ranked_positive)
  qed
  show "\<bar>10000 * share_amounts lc amount fs ! i - amount * fs_share_bps (fs ! i)\<bar> < 10000"
    using i rem pos unfolding res prod by auto
qed

section \<open>The funding of a configured reward\<close>

definition funded_exactly :: "money \<Rightarrow> funding_share list \<Rightarrow> funding_share list \<Rightarrow> bool" where
  "funded_exactly v configured allocated \<longleftrightarrow>
     list_all2 (\<lambda>f g. fs_party_id g = fs_party_id f \<and> fs_party_type g = fs_party_type f \<and>
       fs_share_bps g = fs_share_bps f \<and>
       (\<exists>n. fs_amount g = Some \<lparr>mo_amount = n, mo_currency = mo_currency v\<rparr> \<and> 0 \<le> n \<and>
            \<bar>10000 * n - mo_amount v * fs_share_bps f\<bar> < 10000))
       configured allocated \<and>
     (\<Sum>g\<leftarrow>allocated. mo_amount (the (fs_amount g))) = mo_amount v"

lemma configured_fair:
  assumes "program_ok h p" "r \<in> set (pg_rewards p)"
  shows "fair_shares (rd_funding r)"
proof -
  have "catalog_conforms (h_parse h) (programCatalog p)" using assms(1) by (rule program_ok_asserted)
  then have "catalog_reward_conforms (h_parse h) (catalog_reward_of p r)"
    using assms(2) by (auto simp: catalog_conforms_def programCatalog_def list_all_iff)
  then have "\<forall>f \<in> set (rd_funding r). 0 \<le> fs_share_bps f"
    by (force simp: catalog_reward_conforms_def catalog_reward_of_def list_all_iff share_conforms_def)
  with funding_totals_10000 [OF assms] show ?thesis by (simp add: fair_shares_def)
qed

lemma configured_value:
  assumes "program_ok h p" "r \<in> set (pg_rewards p)" "reward_value (rd_effect r) = Some v"
  shows "0 \<le> mo_amount v"
proof -
  have "reward_ok h p r"
    using program_ok_asserted(13) [OF assms(1)] assms(2) by (simp add: rewards_ok_def list_all_iff)
  then have "\<forall>m \<in> set (effect_moneys (rd_effect r)). 0 \<le> mo_amount m"
    by (simp add: reward_ok_def Let_def list_all_iff)
  with assms(3) show ?thesis by (cases "rd_effect r") (auto simp: reward_value_def)
qed

lemma share_amounts_nonneg:
  assumes "0 \<le> amount" "fair_shares fs" "i < length fs"
  shows "0 \<le> share_amounts lc amount fs ! i"
proof -
  have "0 \<le> al_amount (allocations_of amount fs ! i)"
    using assms by (simp add: allocations_of_def nth_enumerate_eq allocation_of_def Let_def fair_shares_def
        bigint_div_nonneg pos_imp_zdiv_nonneg_iff)
  then show ?thesis using assms(3) by (simp add: share_amounts_def Let_def)
qed

text \<open>
  C13. The funding of every reward of an accepted program that has a monetary value is split
  exactly: each party keeps its share and is given a non-negative amount in the currency of
  the reward that differs from its exact basis-point share by less than one minor unit, and
  the amounts sum to the value of the reward, with nothing lost to rounding.
\<close>

theorem funding_exact:
  assumes "program_ok h p" "r \<in> set (pg_rewards p)" "reward_value (rd_effect r) = Some v"
    and "collation_orders lc"
  shows "funded_exactly v (rd_funding r) (fundingAllocations lc r)"
proof -
  let ?fs = "rd_funding r" and ?ns = "share_amounts lc (mo_amount v) (rd_funding r)"
  have fair: "fair_shares ?fs" and v: "0 \<le> mo_amount v"
    using configured_fair configured_value assms by blast+
  note ex = share_amounts_exact [OF assms(4) v fair]
  have "map (\<lambda>g. mo_amount (the (fs_amount g))) (fundingAllocations lc r) = ?ns"
    using ex(2) by (auto simp: fundingAllocations_def assms(3) intro!: nth_equalityI)
  then have "(\<Sum>g\<leftarrow>fundingAllocations lc r. mo_amount (the (fs_amount g))) = mo_amount v"
    using ex(1) by simp
  then show ?thesis
    using ex(2,3) share_amounts_nonneg [OF v fair]
    by (auto simp: funded_exactly_def fundingAllocations_def assms(3) list_all2_conv_all_nth)
qed

theorem funding_exact_witness:
  "funded_exactly (usd 100) [sample_share ''hq'' Brand 6667, sample_share ''shop'' Franchisee 3333]
     (fundingAllocations unit_compare sample_reward)"
proof -
  have "sample_reward \<in> set (pg_rewards sample_program)" by (simp add: sample_program_def)
  moreover have "reward_value (rd_effect sample_reward) = Some (usd 100)"
    by (simp add: sample_reward_def reward_value_def)
  ultimately have "funded_exactly (usd 100) (rd_funding sample_reward) (fundingAllocations unit_compare sample_reward)"
    using unit_compare_orders by (rule funding_exact [OF sample_program_ok])
  moreover have "rd_funding sample_reward = [sample_share ''hq'' Brand 6667, sample_share ''shop'' Franchisee 3333]"
    by (simp add: sample_reward_def)
  ultimately show ?thesis by simp
qed

end
