(* ===== verification/Exactly_Once.thy ===== *)
theory Exactly_Once
  imports Engine_History
begin

text \<open>
  The promise behind every idempotency key. A record in the cache is never dropped and its
  fingerprint never changes; only erasure touches the response it holds. So a request that
  was answered once is answered the same way after any number of other operations, without
  doing anything again, and a different request under its key is refused.
\<close>

text \<open>What erasing members one after the other makes of a response.\<close>

inductive scrubs :: "catalog response \<Rightarrow> catalog response \<Rightarrow> bool" where
  scrubs_refl [simp]: "scrubs r r"
| scrubs_step: "scrubs r r' \<Longrightarrow> scrubs r (scrubCachedMemberSnapshot m r')"

lemma scrubs_trans: "scrubs b c \<Longrightarrow> scrubs a b \<Longrightarrow> scrubs a c"
  by (induction rule: scrubs.induct) (auto intro: scrubs.intros)

definition remembered :: "(string, idempotency_record) jsmap \<Rightarrow> (string, idempotency_record) jsmap \<Rightarrow> bool" where
  "remembered a b \<longleftrightarrow>
     (\<forall>k x. js_get a k = Some x \<longrightarrow>
        (\<exists>y. js_get b k = Some y \<and> ik_fingerprint y = ik_fingerprint x \<and> scrubs (ik_response x) (ik_response y)))"

definition remembers :: "engine \<Rightarrow> engine \<Rightarrow> bool" where
  "remembers s t = remembered (eg_idempotency s) (eg_idempotency t)"

lemma remembers_same: "eg_idempotency t = eg_idempotency s \<Longrightarrow> remembers s t"
  by (auto simp: remembers_def remembered_def)

lemma remembered_trans:
  assumes "remembered a b" "remembered b c"
  shows "remembered a c"
  unfolding remembered_def
proof (intro allI impI)
  fix k x
  assume "js_get a k = Some x"
  then obtain y where y: "js_get b k = Some y" "ik_fingerprint y = ik_fingerprint x" "scrubs (ik_response x) (ik_response y)"
    using assms(1) by (auto simp: remembered_def)
  obtain z where "js_get c k = Some z" "ik_fingerprint z = ik_fingerprint y" "scrubs (ik_response y) (ik_response z)"
    using assms(2) y(1) unfolding remembered_def by blast
  with y show "\<exists>z. js_get c k = Some z \<and> ik_fingerprint z = ik_fingerprint x \<and> scrubs (ik_response x) (ik_response z)"
    using scrubs_trans by auto
qed

interpretation remember: engine_effect remembers
proof unfold_locales
  show "remembers s s" for s by (rule remembers_same) simp
  show "remembers s t \<Longrightarrow> remembers t u \<Longrightarrow> remembers s u" for s t u
    unfolding remembers_def by (rule remembered_trans)
qed

lemma remembered_new: "js_get a k = None \<Longrightarrow> remembered a b \<Longrightarrow> remembered a (js_set b k x)"
  by (auto simp: remembered_def)

lemma once_remembers:
  assumes "m_keeps remembers run"
  shows "m_keeps remembers (once h oper c q run)"
  unfolding m_keeps_def
proof
  fix s
  have run: "remembered (eg_idempotency s) (eg_idempotency (snd (run s)))"
    using assms by (simp add: m_keeps_def remembers_def)
  show "remembers s (snd (once h oper c q run s))"
  proof (cases "js_get (eg_idempotency s) (once_key oper c)")
    case None
    with run show ?thesis
      by (auto simp: once_def m_bind_def m_modify_def m_return_def store_response_def remembers_def
          remembered_new split: prod.splits sum.splits)
  next
    case (Some x)
    then show ?thesis by (simp add: once_def remember.R_refl)
  qed
qed

lemma erase_remembers: "remembers s (erase_writes m x s)"
  by (auto simp: remembers_def remembered_def erase_writes_def intro: scrubs.intros)

interpretation remember_all: total_relation remembers h for h
proof unfold_locales
qed (auto intro!: once_remembers erase_remembers remember.keeps_expire_lots_of remember.keeps_add_of
    remember.keeps_consume_of remember.keeps_issue_run_of remember.keeps_restore_of
    remember.keeps_modify remembers_same
    simp: store_response_def apply_consumption_def set_reservation_def put_reservation_def put_issued_def
      set_issued_def set_member_def add_member_def open_accounts_def record_accrual_def
      record_adjustment_def set_remaining_def effect_defs m_keeps_def [of _ "draw_id _ _"])

lemma history_remembers: "history ids s ops t \<Longrightarrow> remembers s t"
  by (rule history_keeps [OF _ remember.effect_relation_axioms]) (auto intro: remember_all.keeps_perform)

text \<open>What a first, successful call leaves in the cache.\<close>

lemma once_first:
  assumes "js_get (eg_idempotency s) (once_key oper c) = None" "once h oper c q run s = (Inr r, t)"
  shows "js_get (eg_idempotency t) (once_key oper c) = Some \<lparr>ik_fingerprint = fingerprintV2 h q, ik_response = r\<rparr>"
  using assms
  by (auto simp: once_def m_bind_def m_modify_def m_return_def store_response_def split: prod.splits sum.splits)

lemma cached_after:
  assumes "js_get (eg_idempotency s) (once_key oper c) = None" "once h oper c q run s = (Inr r, s1)"
    and "history ids s1 ops t"
  obtains x where "js_get (eg_idempotency t) (once_key oper c) = Some x"
    "ik_fingerprint x = fingerprintV2 h q" "scrubs r (ik_response x)"
proof -
  have "remembered (eg_idempotency s1) (eg_idempotency t)"
    using history_remembers [OF assms(3)] by (simp only: remembers_def)
  from this [unfolded remembered_def, rule_format, OF once_first [OF assms(1,2)]] show thesis
    using that by auto
qed

text \<open>
  C9. Every operation is performed at most once per idempotency key. Once a call has been
  answered, and after whatever other operations, a repetition under the same key with the
  same payload (the context may differ) performs nothing: the state is untouched and the
  answer is the recorded one with the repetition's request id; personal data erased in the
  meantime is blanked in it.
\<close>

theorem replay_answers_the_same:
  assumes "js_get (eg_idempotency s) (once_key oper c) = None" "once h oper c q run s = (Inr r, s1)"
    and "history ids s1 ops t"
    and "once_key oper c' = once_key oper c" "fingerprintV2 h' q' = fingerprintV2 h q"
  shows "\<exists>r'. scrubs r r' \<and> once h' oper c' q' run' t = (Inr (withReplayedRequestId r' (cx_request_id c')), t)"
proof (rule cached_after [OF assms(1-3)])
  fix x
  assume "js_get (eg_idempotency t) (once_key oper c) = Some x" "ik_fingerprint x = fingerprintV2 h q"
    "scrubs r (ik_response x)"
  then show ?thesis using assms(4,5) by (auto simp: once_def)
qed

text \<open>
  C10. A key is never reused for something else: after a call has been answered, and
  whatever operations ran, a request under its key whose payload differs (by both the
  current and the earlier fingerprint) is refused with an idempotency conflict and changes
  nothing.
\<close>

theorem replay_of_another_request_refused:
  assumes "js_get (eg_idempotency s) (once_key oper c) = None" "once h oper c q run s = (Inr r, s1)"
    and "history ids s1 ops t"
    and "once_key oper c' = once_key oper c"
    and "fingerprintV2 h' q' \<noteq> fingerprintV2 h q" "fingerprintV1 h' q' \<noteq> fingerprintV2 h q"
  shows "once h' oper c' q' run' t = (Inl (engine_err Idempotency_conflict), t)"
proof (rule cached_after [OF assms(1-3)])
  fix x
  assume "js_get (eg_idempotency t) (once_key oper c) = Some x" "ik_fingerprint x = fingerprintV2 h q"
  then show ?thesis using assms(4-6) by (simp add: once_def)
qed

section \<open>Examples\<close>

definition enroll_once :: "enroll_request \<Rightarrow> catalog response engine_eff" where
  "enroll_once r =
     once sample_host ''member.enroll'' (eq_context r) (json_enroll_request r) (enroll_run sample_host r)"

definition succeeds :: "engine_error + 'a \<Rightarrow> bool" where
  "succeeds x = (case x of Inl e \<Rightarrow> False | Inr v \<Rightarrow> True)"

lemma enroll_ann_succeeds: "succeeds (fst (enroll_once (sample_enroll ''k1'' ''ann'') (empty_engine sample_program)))"
  by code_simp

lemma enroll_ann:
  obtains r s1 where "enroll_once (sample_enroll ''k1'' ''ann'') (empty_engine sample_program) = (Inr r, s1)"
  using enroll_ann_succeeds by (cases "enroll_once (sample_enroll ''k1'' ''ann'') (empty_engine sample_program)")
    (auto simp: succeeds_def split: sum.splits)

lemma nothing_cached: "js_get (eg_idempotency (empty_engine p)) k = None"
  by (simp add: empty_engine_def)

lemma same_sample_key: "once_key oper (eq_context (sample_enroll k m)) = once_key oper (eq_context (sample_enroll k n))"
  by (simp add: once_key_def sample_enroll_def)

theorem replay_answers_the_same_witness:
  "\<exists>r r' s1. enroll_once (sample_enroll ''k1'' ''ann'') (empty_engine sample_program) = (Inr r, s1) \<and> scrubs r r' \<and>
     enroll_once (sample_enroll ''k1'' ''ann'') (run_all [(sample_host, Op_getLedger)] s1) =
       (Inr (withReplayedRequestId r' ''req''), run_all [(sample_host, Op_getLedger)] s1)"
proof (rule enroll_ann)
  fix r s1
  assume first: "enroll_once (sample_enroll ''k1'' ''ann'') (empty_engine sample_program) = (Inr r, s1)"
  have "history sample_ids s1 [(sample_host, Op_getLedger)] (run_all [(sample_host, Op_getLedger)] s1)"
    by (simp add: history_iff_run sample_host_def sample_host_at_def)
  from replay_answers_the_same [OF nothing_cached first [unfolded enroll_once_def] this refl refl]
  show ?thesis using first by (auto simp: enroll_once_def sample_enroll_def sample_context_def)
qed

lemma other_enrolment_differs:
  "fingerprintV2 sample_host (json_enroll_request (sample_enroll ''k1'' ''bob'')) \<noteq>
     fingerprintV2 sample_host (json_enroll_request (sample_enroll ''k1'' ''ann''))"
  "fingerprintV1 sample_host (json_enroll_request (sample_enroll ''k1'' ''bob'')) \<noteq>
     fingerprintV2 sample_host (json_enroll_request (sample_enroll ''k1'' ''ann''))"
  by code_simp+

theorem replay_of_another_request_refused_witness:
  "\<exists>r s1. enroll_once (sample_enroll ''k1'' ''ann'') (empty_engine sample_program) = (Inr r, s1) \<and>
     enroll_once (sample_enroll ''k1'' ''bob'') s1 = (Inl (engine_err Idempotency_conflict), s1)"
proof (rule enroll_ann)
  fix r s1
  assume first: "enroll_once (sample_enroll ''k1'' ''ann'') (empty_engine sample_program) = (Inr r, s1)"
  from replay_of_another_request_refused [OF nothing_cached first [unfolded enroll_once_def] history_Nil
      same_sample_key other_enrolment_differs]
  show ?thesis using first by (auto simp: enroll_once_def)
qed

end
