(* ===== verification/Order_Entries.thy ===== *)
theory Order_Entries
  imports Ledger_Log
begin

text \<open>
  Which ledger entries an operation can add for an order. \<open>P\<close> selects accruals and
  adjustments; every operation but \<open>postAccrual\<close> and \<open>adjustOrder\<close> leaves the selected
  entries and the accrual records alone, whatever else it posts.
\<close>

definition sane :: "program \<Rightarrow> bool" where
  "sane p \<longleftrightarrow> distinct (accountUnits p) \<and> (\<forall>u x. expirationPolicy p u = Some x \<longrightarrow> xp_days x \<noteq> 0)"

lemma program_ok_sane: "program_ok h p \<Longrightarrow> sane p"
  using program_ok_asserted(6,7,8) [of h p]
  by (auto simp: sane_def accounts_ok_def expirationPolicy_def expiration_ok_def opt_ok_def split: loyalty_unit.splits option.splits)

definition selected :: "(ledger_entry \<Rightarrow> bool) \<Rightarrow> engine \<Rightarrow> ledger_entry list" where
  "selected P s = filter P (js_values (eg_ledger s))"

definition entry_frame ::
  "(ledger_entry \<Rightarrow> bool) \<Rightarrow> string set \<Rightarrow> (string \<Rightarrow> nat \<Rightarrow> string) \<Rightarrow> engine \<Rightarrow> engine \<Rightarrow> bool" where
  "entry_frame P qs ids s t \<longleftrightarrow>
     (fresh_ledger ids s \<longrightarrow>
        fresh_ledger ids t \<and> selected P t = selected P s \<and>
        (\<forall>q \<in> qs. js_get (eg_accrualsByOrder t) q = js_get (eg_accrualsByOrder s) q) \<and>
        (sane (eg_program s) \<longrightarrow> sane (eg_program t)))"

definition unselected :: "(ledger_entry \<Rightarrow> bool) \<Rightarrow> ledger_input \<Rightarrow> bool" where
  "unselected P i \<longleftrightarrow> (\<forall>h p x. \<not> P (ledger_entry_of h p x i))"

lemma entry_frame_same:
  "eg_ledger t = eg_ledger s \<Longrightarrow> eg_accrualsByOrder t = eg_accrualsByOrder s \<Longrightarrow> eg_id_count s \<le> eg_id_count t \<Longrightarrow>
     (sane (eg_program s) \<Longrightarrow> sane (eg_program t)) \<Longrightarrow> entry_frame P qs ids s t"
  by (auto simp: entry_frame_def fresh_ledger_def selected_def)

interpretation entry_effect: engine_effect "entry_frame P qs ids" for P qs ids
  by unfold_locales (auto simp: entry_frame_def)

text \<open>One posting appends one entry, under an identifier that was not in use.\<close>

lemma add_appends:
  assumes "fresh_ledger (h_ids h) s" "addLedger h i s = (r, t)"
  defines "e \<equiv> ledger_entry_of h (eg_program s) (h_ids h ''ledger'' (eg_id_count s)) i"
  shows "r = Inr e" "js_values (eg_ledger t) = js_values (eg_ledger s) @ [e]"
    and "fresh_ledger (h_ids h) t" "eg_accrualsByOrder t = eg_accrualsByOrder s" "eg_program t = eg_program s"
proof -
  have run: "r = Inr e" "t = post_entry i e (s\<lparr>eg_id_count := eg_id_count s + 1\<rparr>)"
    using assms(2) by (simp_all add: addLedger_run Let_def e_def)
  then show "r = Inr e" "eg_accrualsByOrder t = eg_accrualsByOrder s" "eg_program t = eg_program s" by simp_all
  show "js_values (eg_ledger t) = js_values (eg_ledger s) @ [e]"
    using fresh_next [OF assms(1)] by (simp add: run(2) e_def js_set_fresh)
  have "ledger_grows (h_ids h) s t"
    using add_ledger_grows [of h i] assms(2) by (metis m_keeps_def snd_conv)
  then show "fresh_ledger (h_ids h) t" using assms(1) by (simp add: ledger_grows_def)
qed

lemma add_unselected:
  assumes "unselected P i"
  shows "m_keeps (entry_frame P qs (h_ids h)) (addLedger h i)"
  unfolding m_keeps_def
proof
  fix s
  obtain r t where run: "addLedger h i s = (r, t)" by fastforce
  show "entry_frame P qs (h_ids h) s (snd (addLedger h i s))"
    using add_appends [OF _ run] assms unfolding run by (auto simp: entry_frame_def selected_def unselected_def)
qed

locale order_selection =
  fixes P :: "ledger_entry \<Rightarrow> bool" and qs :: "string set"
  assumes P_operation: "P e \<Longrightarrow> le_operation e \<in> {Accrual, Adjustment}"
    and P_order: "P e \<Longrightarrow> le_order_id e \<noteq> None"
begin

lemma unselected_operation: "li_operation i \<notin> {Accrual, Adjustment} \<Longrightarrow> unselected P i"
  unfolding unselected_def using P_operation by fastforce

lemma unselected_no_order: "li_order_id i = None \<Longrightarrow> unselected P i"
  unfolding unselected_def using P_order by (fastforce simp: present_def)

lemma unselected_reset: "unselected P (reset_input m v n)"
  by (rule unselected_no_order) (simp add: reset_input_def ledger_input_of_def)

end

sublocale order_selection \<subseteq> entries: other_relation "entry_frame P qs (h_ids h)" h "unselected P" for h
proof unfold_locales
  show "m_keeps (entry_frame P qs (h_ids h)) (expirePointLots h a b)" for a b
  proof (rule entry_effect.keeps_expire_lots_of)
    show "entry_frame P qs (h_ids h) s (set_remaining k n s)" for k n s
      by (rule entry_frame_same) (simp_all add: set_remaining_def)
  qed (intro add_unselected unselected_operation, simp)
qed (auto intro!: entry_effect.keeps_once_of_store entry_effect.keeps_consume_of
    entry_effect.keeps_issue_run_of entry_effect.keeps_restore_of entry_effect.keeps_modify
    add_unselected unselected_operation entry_frame_same
    simp: writer_defs effect_defs m_keeps_def [of _ "draw_id _ _"] manual_input_def ledger_input_of_def
      program_ok_sane)

text \<open>Posting the accrual of an order outside \<open>qs\<close>.\<close>

context order_selection
begin

lemma keeps_other_accrual:
  assumes "od_order_id (oq_order r) \<notin> qs"
    and "\<And>a x c. unselected P ((accrual_input r a)\<lparr>li_expires_at := x, li_create_point_lot := c\<rparr>)"
  shows "m_keeps (entry_frame P qs (h_ids h)) (postAccrual h r)"
proof -
  have input: "unselected P (accrual_input r a)" for a
    using assms(2) [where a = a and x = None and c = False] by (simp add: accrual_input_def ledger_input_of_def)
  have recorded: "entry_frame P qs (h_ids h) s (record_accrual h r b es s)" for b es s
    using assms(1) by (auto simp: entry_frame_def fresh_ledger_def selected_def record_accrual_def)
  have "m_keeps (entry_frame P qs (h_ids h)) (first_accrual h r)"
    unfolding first_accrual_def post_accrual_entry_def
    by (intro entries.keeps_lib entries.keeps_post_expiring entries.keeps_threshold entry_effect.keeps_modify
        recorded input assms(2) unselected_reset)
  then show ?thesis
    unfolding postAccrual_def postAccrual_run_def
    by (intro entries.keeps_lib) (auto split: option.split intro!: entries.keeps_repeat_accrual)
qed

end

end
