(* ===== verification/Order_Story.thy ===== *)
theory Order_Story
  imports Sample_Story
begin

text \<open>
  A second history from the empty engine: a member enrols, an order of 10.00 earns 10
  points, and it is refunded in full.
\<close>

definition sample_refund :: "string \<Rightarrow> string \<Rightarrow> string \<Rightarrow> adjust_request" where
  "sample_refund key memberId orderId =
     \<lparr>dq_context = sample_context key, dq_member_id = memberId, dq_program_id = ''demo'',
      dq_adjustment = \<lparr>oa_adjustment_id = key, oa_original_order_id = orderId, oa_type = Full_refund,
        oa_reason = ''returned'', oa_occurred_at = ''2026-01-01T00:00:00.000Z'',
        oa_order_total_delta = usd (- 1000), oa_eligible_spend_delta = usd (- 1000), oa_lines = None\<rparr>\<rparr>"

definition earning :: "(host \<times> operation) list" where
  "earning =
     [(sample_host, Op_enroll (sample_enroll ''k1'' ''ann'')),
      (sample_host, Op_postAccrual (sample_accrual ''o1'' ''ann''))]"

definition refunding :: "(host \<times> operation) list" where
  "refunding = [(sample_host, Op_adjustOrder (sample_refund ''f1'' ''ann'' ''o1''))]"

definition earned :: engine where
  "earned = run_all earning (empty_engine story_program)"

definition refunded :: engine where
  "refunded = run_all refunding earned"

lemma earning_runs: "history sample_ids (empty_engine story_program) earning earned"
  by (simp add: history_iff_run earned_def earning_def sample_host_def sample_host_at_def)

lemma refunding_runs: "history sample_ids earned refunding refunded"
  by (simp add: history_iff_run refunded_def refunding_def sample_host_def sample_host_at_def)

definition order_view :: "string \<Rightarrow> engine \<Rightarrow> string list option \<times> (string \<times> ledger_operation \<times> loyalty_unit \<times> int) list" where
  "order_view orderId s =
     (map_option accrual_entry_ids (js_get (eg_accrualsByOrder s) orderId),
      map (\<lambda>e. (le_entry_id e, le_operation e, le_unit e, le_amount e))
        (filter (\<lambda>e. le_order_id e = Some orderId) (js_values (eg_ledger s))))"

lemma story_program_ok: "program_ok sample_host story_program"
  by code_simp

lemma order_views:
  "order_view ''o1'' earned = (Some [''ledger_''], [(''ledger_'', Accrual, Points, 10)])"
  "order_view ''o1'' refunded =
     (Some [''ledger_''], [(''ledger_'', Accrual, Points, 10), (''ledger_i'', Adjustment, Points, - 10)])"
  by code_simp+


lemma earned_facts:
  obtains a e where "js_get (eg_accrualsByOrder earned) ''o1'' = Some a"
    "filter (\<lambda>e. le_order_id e = Some ''o1'') (js_values (eg_ledger earned)) = [e]"
    "le_operation e = Accrual" "le_unit e = Points" "le_amount e = 10"
  using order_views(1) by (auto simp: order_view_def map_eq_Cons_conv)

lemma refunded_facts:
  obtains e f where
    "filter (\<lambda>e. le_order_id e = Some ''o1'') (js_values (eg_ledger refunded)) = [e, f]"
    "le_operation e = Accrual" "le_unit e = Points" "le_amount e = 10"
    "le_operation f = Adjustment" "le_unit f = Points" "le_amount f = - 10"
  using order_views(2) by (auto simp: order_view_def map_eq_Cons_conv)

end
