(* ===== verification/Order_Accruals.thy ===== *)
theory Order_Accruals
  imports Order_Entries Order_Story
begin

text \<open>
  An order earns once. Whatever is posted, under whichever idempotency keys and whatever
  fails in between, the accrual entries of an order are exactly the ones its record names,
  one per account unit.
\<close>

definition accrual_of :: "string \<Rightarrow> ledger_entry \<Rightarrow> bool" where
  "accrual_of orderId e \<longleftrightarrow> le_order_id e = Some orderId \<and> le_operation e = Accrual"

interpretation accruals: order_selection "accrual_of orderId" UNIV for orderId
  by unfold_locales (auto simp: accrual_of_def)

definition accrual_entries :: "engine \<Rightarrow> string \<Rightarrow> ledger_entry list" where
  "accrual_entries s orderId = selected (accrual_of orderId) s"

definition earned_once :: "engine \<Rightarrow> string \<Rightarrow> bool" where
  "earned_once s orderId \<longleftrightarrow>
     (case js_get (eg_accrualsByOrder s) orderId of
        None \<Rightarrow> accrual_entries s orderId = []
      | Some a \<Rightarrow> map le_entry_id (accrual_entries s orderId) = accrual_entry_ids a \<and>
                  distinct (map le_unit (accrual_entries s orderId)))"

definition orders_ok :: "(string \<Rightarrow> nat \<Rightarrow> string) \<Rightarrow> engine \<Rightarrow> bool" where
  "orders_ok ids s \<longleftrightarrow> fresh_ledger ids s \<and> sane (eg_program s) \<and> (\<forall>orderId. earned_once s orderId)"

lemma orders_okD:
  assumes "orders_ok ids s"
  shows "fresh_ledger ids s" "sane (eg_program s)" "earned_once s orderId"
  using assms by (simp_all add: orders_ok_def)

definition orders_kept :: "(string \<Rightarrow> nat \<Rightarrow> string) \<Rightarrow> engine \<Rightarrow> engine \<Rightarrow> bool" where
  "orders_kept ids s t \<longleftrightarrow> (orders_ok ids s \<longrightarrow> orders_ok ids t)"

interpretation orders: engine_effect "orders_kept ids" for ids
  by unfold_locales (auto simp: orders_kept_def)

lemma frame_orders:
  assumes "\<And>orderId. entry_frame (accrual_of orderId) UNIV ids s t"
  shows "orders_kept ids s t"
proof -
  have "earned_once t orderId = earned_once s orderId" if "fresh_ledger ids s" for orderId
    using assms [of orderId] that by (simp add: entry_frame_def earned_once_def accrual_entries_def split: option.split)
  then show ?thesis using assms by (auto simp: orders_kept_def orders_ok_def entry_frame_def)
qed

lemma frame_keeps_orders:
  "(\<And>orderId. m_keeps (entry_frame (accrual_of orderId) UNIV ids) m) \<Longrightarrow> orders_kept ids s (snd (m s))"
  by (rule frame_orders) (simp add: m_keeps_def)

section \<open>The entries of one accrual\<close>

lemma expiring_input_run:
  assumes "sane (eg_program s)"
  obtains x c where "expiring_input h i s = (Inr (i\<lparr>li_expires_at := x, li_create_point_lot := c\<rparr>), s)"
proof (cases "0 < li_amount i \<and> expirationPolicy (eg_program s) (input_unit (eg_program s) i) \<noteq> None")
  case True
  then obtain e where "expirationPolicy (eg_program s) (input_unit (eg_program s) i) = Some e" by auto
  moreover then have "xp_days e \<noteq> 0" using assms by (auto simp: sane_def)
  ultimately show thesis
    using True that by (fastforce simp: expiring_input_def pointExpirationIso_def m_bind_def)
next
  case False
  then show thesis
    using that [where x = "li_expires_at i" and c = "li_create_point_lot i"] by (auto simp: expiring_input_def)
qed

definition accrues_for :: "order_request \<Rightarrow> unit_amount list \<Rightarrow> ledger_entry list \<Rightarrow> bool" where
  "accrues_for r as es \<longleftrightarrow>
     map le_unit es = map ua_unit as \<and> map le_amount es = map ua_amount as \<and>
     (\<forall>e \<in> set es. le_operation e = Accrual \<and> le_order_id e = Some (od_order_id (oq_order r)))"

definition appended :: "engine \<Rightarrow> ledger_entry list \<Rightarrow> engine \<Rightarrow> bool" where
  "appended s es t \<longleftrightarrow>
     js_values (eg_ledger t) = js_values (eg_ledger s) @ es \<and>
     eg_accrualsByOrder t = eg_accrualsByOrder s \<and> eg_program t = eg_program s"

lemma post_accrual_entry_run:
  assumes "fresh_ledger (h_ids h) s" "sane (eg_program s)" "od_order_id (oq_order r) \<noteq> []"
    and "post_accrual_entry h r a s = (x, t)"
  obtains e where "x = Inr e" "accrues_for r [a] [e]" "appended s [e] t" "fresh_ledger (h_ids h) t"
proof -
  obtain y c where "expiring_input h (accrual_input r a) s =
      (Inr ((accrual_input r a)\<lparr>li_expires_at := y, li_create_point_lot := c\<rparr>), s)"
    using assms(2) by (rule expiring_input_run)
  then have "addLedger h ((accrual_input r a)\<lparr>li_expires_at := y, li_create_point_lot := c\<rparr>) s = (x, t)"
    using assms(4) by (simp add: post_accrual_entry_def m_bind_def)
  from add_appends [OF assms(1) this] that show thesis
    using assms(3)
    by (simp add: accrues_for_def appended_def accrual_input_def ledger_input_of_def input_unit_def present_def truthy_def)
qed

lemma post_accruals_run:
  assumes "fresh_ledger (h_ids h) s" "sane (eg_program s)" "od_order_id (oq_order r) \<noteq> []"
    and "m_map (post_accrual_entry h r) as s = (x, t)"
  shows "\<exists>es. x = Inr es \<and> accrues_for r as es \<and> appended s es t \<and> fresh_ledger (h_ids h) t"
  using assms
proof (induction as arbitrary: s x t)
  case Nil
  then show ?case by (auto simp: accrues_for_def appended_def)
next
  case (Cons a as)
  obtain y s1 where first: "post_accrual_entry h r a s = (y, s1)" by fastforce
  then obtain e where e: "y = Inr e" "accrues_for r [a] [e]" "appended s [e] s1" "fresh_ledger (h_ids h) s1"
    using post_accrual_entry_run Cons.prems by metis
  obtain z s2 where rest: "m_map (post_accrual_entry h r) as s1 = (z, s2)" by fastforce
  then obtain es where es: "z = Inr es" "accrues_for r as es" "appended s1 es s2" "fresh_ledger (h_ids h) s2"
    using Cons.IH [of s1 z s2] e Cons.prems(2,3) by (auto simp: appended_def)
  have "x = Inr (e # es)" "t = s2" using Cons.prems(4) first rest e(1) es(1) by (auto simp: m_bind_def)
  with e es show ?case by (auto simp: accrues_for_def appended_def)
qed

lemma unit_amounts_units: "unit_amounts p n b us = Inr as \<Longrightarrow> map ua_unit as = us"
  by (induction us arbitrary: as) (auto split: sum.splits)

lemma accrual_amounts_units: "accrualAmounts p d b = Inr as \<Longrightarrow> map ua_unit as = accountUnits p"
  by (auto simp: accrualAmounts_def no_accrual_def o_def unit_amounts_units split: if_splits)

lemma selected_appended: "appended s es t \<Longrightarrow> selected P t = selected P s @ filter P es"
  by (simp add: selected_def appended_def)

lemma record_orders:
  assumes ok: "orders_ok ids s" and none: "js_get (eg_accrualsByOrder s) (od_order_id (oq_order r)) = None"
    and es: "accrues_for r as es" "appended s es t" "distinct (map ua_unit as)" and "fresh_ledger ids t"
  shows "orders_ok ids (record_accrual h r b es t)"
proof -
  let ?t = "record_accrual h r b es t" and ?o = "od_order_id (oq_order r)"
  have entries: "accrual_entries ?t q = accrual_entries s q @ filter (accrual_of q) es" for q
    using selected_appended [OF es(2)] by (simp add: accrual_entries_def selected_def record_accrual_def)
  have "earned_once ?t q" for q
  proof (cases "q = ?o")
    case True
    have "filter (accrual_of ?o) es = es" using es(1) by (simp add: accrues_for_def accrual_of_def)
    moreover have "accrual_entries s ?o = []" using orders_okD(3) [OF ok, of ?o] none by (simp add: earned_once_def)
    ultimately have "accrual_entries ?t q = es" using entries True by simp
    then show ?thesis
      using es(1,3) True by (simp add: earned_once_def record_accrual_def accrual_entry_ids_def accrues_for_def)
  next
    case False
    then have "filter (accrual_of q) es = []" using es(1) by (auto simp: accrues_for_def accrual_of_def filter_empty_conv)
    moreover have "js_get (eg_accrualsByOrder ?t) q = js_get (eg_accrualsByOrder s) q"
      using False es(2) by (simp add: record_accrual_def appended_def)
    ultimately show ?thesis using orders_okD(3) [OF ok, of q] entries [of q] by (simp add: earned_once_def split: option.splits)
  qed
  moreover have "fresh_ledger ids ?t" using assms(6) by (simp add: fresh_ledger_def record_accrual_def)
  moreover have "sane (eg_program ?t)"
    using orders_okD(2) [OF ok] es(2) by (simp add: record_accrual_def appended_def)
  ultimately show ?thesis by (simp add: orders_ok_def)
qed

section \<open>Every operation\<close>

lemma orders_once:
  assumes "orders_kept ids s (snd (run s))"
  shows "orders_kept ids s (snd (once h oper c q run s))"
proof -
  have store: "orders_kept ids u (store_response k f r u)" for u k f r
    by (intro frame_orders entry_frame_same) (simp_all add: store_response_def)
  have "orders_kept ids s (snd (m_bind run (\<lambda>r. m_bind (m_modify (store_response k f r)) (\<lambda>_. m_return r)) s))" for k f
    by (rule orders.at_bind [where m = run], rule assms)
      (intro orders.at_keeps orders.keeps_bind orders.keeps_modify store orders.keeps_return)
  then show ?thesis by (auto simp: once_def orders.R_refl split: option.splits)
qed

lemma run_frame: "m_keeps (entry_frame P qs ids) m \<Longrightarrow> m s = (v, t) \<Longrightarrow> entry_frame P qs ids s t"
  by (metis m_keeps_def snd_conv)

lemma first_accrual_orders:
  assumes none: "js_get (eg_accrualsByOrder s) (od_order_id (oq_order r)) = None"
    and order: "od_order_id (oq_order r) \<noteq> []"
  shows "orders_kept (h_ids h) s (snd (first_accrual h r s))"
proof (cases "orders_ok (h_ids h) s")
  case ok: True
  show ?thesis
    unfolding first_accrual_def
  proof (rule orders.at_bind [where m = "earningMultiplierBps h (oq_member_id r)"])
    show "orders_kept (h_ids h) s (snd (earningMultiplierBps h (oq_member_id r) s))"
      by (intro frame_keeps_orders accruals.entries.keeps_multiplier)
    fix b s1
    assume "earningMultiplierBps h (oq_member_id r) s = (Inr b, s1)"
    then have frame: "entry_frame (accrual_of q) UNIV (h_ids h) s s1" for q
      by (rule run_frame [OF accruals.entries.keeps_multiplier])
    then have ok1: "orders_ok (h_ids h) s1"
      using frame_orders [of "h_ids h" s s1, OF frame] ok by (simp add: orders_kept_def)
    have none1: "js_get (eg_accrualsByOrder s1) (od_order_id (oq_order r)) = None"
      using frame none orders_okD(1) [OF ok] by (simp add: entry_frame_def)
    show "orders_kept (h_ids h) s1 (snd (m_bind (m_get (\<lambda>s. accrualAmounts (eg_program s) (oq_order r) b)) (\<lambda>amounts.
        m_bind (m_lift amounts) (\<lambda>accruals.
        m_bind (m_map (post_accrual_entry h r) accruals) (\<lambda>es.
        m_bind (m_modify (record_accrual h r b es)) (\<lambda>_.
        m_bind (m_get (\<lambda>s. primary_entry (eg_program s) es)) (\<lambda>e.
        m_bind (issueThresholdRewards h (oq_member_id r) (oq_context r)) (\<lambda>_.
        ledgerResponse h (oq_context r) e es)))))) s1))"
    proof (intro orders.at_get orders.at_lift)
      fix as
      assume as: "accrualAmounts (eg_program s1) (oq_order r) b = Inr as"
      obtain x t where run: "m_map (post_accrual_entry h r) as s1 = (x, t)" by fastforce
      then obtain es where es: "x = Inr es" "accrues_for r as es" "appended s1 es t" "fresh_ledger (h_ids h) t"
        using post_accruals_run orders_okD(1,2) [OF ok1] order by blast
      have "distinct (map ua_unit as)"
        using orders_okD(2) [OF ok1] accrual_amounts_units [OF as] by (simp add: sane_def)
      then have ok2: "orders_ok (h_ids h) (record_accrual h r b es t)"
        using record_orders [OF ok1 none1 es(2,3)] es(4) by blast
      have "orders_kept (h_ids h) u (snd (m_bind (m_get (\<lambda>s. primary_entry (eg_program s) es)) (\<lambda>e.
          m_bind (issueThresholdRewards h (oq_member_id r) (oq_context r)) (\<lambda>_. ledgerResponse h (oq_context r) e es)) u))" for u
        by (intro frame_keeps_orders accruals.entries.keeps_lib accruals.entries.keeps_threshold accruals.unselected_reset)
      with ok2 run es(1) show "orders_kept (h_ids h) s1 (snd (m_bind (m_map (post_accrual_entry h r) as) (\<lambda>es.
          m_bind (m_modify (record_accrual h r b es)) (\<lambda>_.
          m_bind (m_get (\<lambda>s. primary_entry (eg_program s) es)) (\<lambda>e.
          m_bind (issueThresholdRewards h (oq_member_id r) (oq_context r)) (\<lambda>_.
          ledgerResponse h (oq_context r) e es)))) s1))"
        by (simp add: m_bind_Inr orders_kept_def)
    qed
  qed
qed (simp add: orders_kept_def)

lemma assertOrder_valid: "assertOrder h d m s = (Inr u, t) \<Longrightarrow> t = s \<and> od_order_id d \<noteq> []"
  by (auto simp: assertOrder_def m_bind_lift m_bind_assert m_assert_run assertProgramId_def m_bind_def
      order_conforms_def id_ok_def length_between_def dest!: accepted_order_reconciles split: sum.splits if_splits prod.splits)

lemma postAccrual_orders: "orders_kept (h_ids h) s (snd (postAccrual h r s))"
  unfolding postAccrual_def
proof (rule orders_once)
  show "orders_kept (h_ids h) s (snd (postAccrual_run h r s))"
    unfolding postAccrual_run_def
  proof (rule orders.at_bind [where m = "activeMember (oq_member_id r)"])
    show "orders_kept (h_ids h) s (snd (activeMember (oq_member_id r) s))"
      by (intro frame_keeps_orders accruals.entries.keeps_active)
    fix m s1
    show "orders_kept (h_ids h) s1 (snd (m_bind (assertOrder h (oq_order r) m) (\<lambda>_.
        m_bind (m_assert (od_status (oq_order r) = Paid) (engine_err Invalid_state)) (\<lambda>_.
        m_bind (m_get (\<lambda>s. js_get (eg_accrualsByOrder s) (od_order_id (oq_order r)))) (\<lambda>existing.
        case existing of Some a \<Rightarrow> repeat_accrual h r a | None \<Rightarrow> first_accrual h r))) s1))"
    proof (rule orders.at_bind [where m = "assertOrder h (oq_order r) m"])
      show "orders_kept (h_ids h) s1 (snd (assertOrder h (oq_order r) m s1))"
        by (intro frame_keeps_orders accruals.entries.keeps_assert_order)
      fix u s2
      assume "assertOrder h (oq_order r) m s1 = (Inr u, s2)"
      then have "od_order_id (oq_order r) \<noteq> []" using assertOrder_valid by blast
      then show "orders_kept (h_ids h) s2 (snd (m_bind (m_assert (od_status (oq_order r) = Paid) (engine_err Invalid_state)) (\<lambda>_.
          m_bind (m_get (\<lambda>s. js_get (eg_accrualsByOrder s) (od_order_id (oq_order r)))) (\<lambda>existing.
          case existing of Some a \<Rightarrow> repeat_accrual h r a | None \<Rightarrow> first_accrual h r)) s2))"
        by (intro orders.at_get orders.at_assert)
          (auto split: option.split intro: first_accrual_orders frame_keeps_orders accruals.entries.keeps_repeat_accrual)
    qed
  qed
qed

lemma adjustment_no_accrual: "unselected (accrual_of q) ((adjustment_input r u n)\<lparr>li_expires_at := x, li_create_point_lot := c\<rparr>)"
  by (simp add: unselected_def accrual_of_def adjustment_input_def ledger_input_of_def)

lemma perform_orders: "orders_kept (h_ids h) s (snd (perform h p s))"
proof (cases "p \<in> range Op_postAccrual \<union> range Op_adjustOrder")
  case True
  moreover have "orders_kept (h_ids h) s (snd (adjustOrder h x s))" for x
    by (intro frame_keeps_orders accruals.entries.keeps_adjustOrder adjustment_no_accrual TrueI)
  ultimately show ?thesis by (auto intro: postAccrual_orders)
next
  case False
  then show ?thesis by (intro frame_keeps_orders accruals.entries.keeps_perform_other) auto
qed

lemma history_orders: "history ids s ops t \<Longrightarrow> orders_ok ids s \<Longrightarrow> orders_ok ids t"
  by (induction rule: history.induct) (use perform_orders in \<open>auto simp: orders_kept_def\<close>)

lemma reached_orders:
  assumes "history ids (empty_engine p) ops s" "good_ids ids" "program_ok h p"
  shows "orders_ok ids s"
proof (rule history_orders [OF assms(1)])
  show "orders_ok ids (empty_engine p)"
    using empty_fresh_ledger [OF assms(2)] program_ok_sane [OF assms(3)]
    by (simp add: orders_ok_def earned_once_def accrual_entries_def selected_def empty_engine_def)
qed

text \<open>
  C11. An order earns exactly once: in every state reached from an accepted program, under
  whichever idempotency keys and members its accrual was posted and whatever failed on the
  way, the accrual entries of an order in the ledger are exactly the ones its accrual record
  names, at most one per account unit; an order without a record has none.
\<close>

theorem order_earns_once:
  assumes "good_ids ids" "program_ok h p" "history ids (empty_engine p) ops s"
  shows "case js_get (eg_accrualsByOrder s) orderId of
           None \<Rightarrow> accrual_entries s orderId = []
         | Some a \<Rightarrow> map le_entry_id (accrual_entries s orderId) = accrual_entry_ids a \<and>
             distinct (map le_unit (accrual_entries s orderId))"
  using orders_okD(3) [OF reached_orders [OF assms(3,1,2)], of orderId] by (simp add: earned_once_def)


lemma accrual_entries_alt:
  "accrual_entries s q =
     filter (\<lambda>e. le_operation e = Accrual) (filter (\<lambda>e. le_order_id e = Some q) (js_values (eg_ledger s)))"
  by (simp add: accrual_entries_def selected_def accrual_of_def [abs_def] conj_commute)

theorem order_earns_once_witness:
  "\<exists>a e. js_get (eg_accrualsByOrder earned) ''o1'' = Some a \<and> accrual_entries earned ''o1'' = [e] \<and>
     accrual_entry_ids a = [le_entry_id e] \<and> le_amount e = 10"
proof (rule earned_facts)
  fix a e
  assume facts: "js_get (eg_accrualsByOrder earned) ''o1'' = Some a"
    "filter (\<lambda>e. le_order_id e = Some ''o1'') (js_values (eg_ledger earned)) = [e]"
    "le_operation e = Accrual" "le_amount e = 10"
  then have "accrual_entries earned ''o1'' = [e]" unfolding accrual_entries_alt by simp
  with facts order_earns_once [OF good_sample_ids story_program_ok earning_runs, of "''o1''"]
  show ?thesis by simp
qed

end
