(* ===== verification/Order_Refunds.thy ===== *)
theory Order_Refunds
  imports Order_Accruals
begin

text \<open>
  What an order has left of its earnings: its accrual entries and its adjustments, per
  account unit. Once the order has earned, no refund, void or correction takes the sum
  below zero.
\<close>

definition moves_for :: "string \<Rightarrow> loyalty_unit \<Rightarrow> ledger_entry \<Rightarrow> bool" where
  "moves_for orderId u e \<longleftrightarrow>
     le_order_id e = Some orderId \<and> le_unit e = u \<and> le_operation e \<in> {Accrual, Adjustment}"

interpretation moves: order_selection "moves_for orderId u" "{orderId}" for orderId u
  by unfold_locales (auto simp: moves_for_def)

definition order_total :: "engine \<Rightarrow> string \<Rightarrow> loyalty_unit \<Rightarrow> int" where
  "order_total s orderId u = (\<Sum>e\<leftarrow>selected (moves_for orderId u) s. le_amount e)"

text \<open>The ledger is keyed by the identifiers of its entries.\<close>

definition keyed :: "engine \<Rightarrow> bool" where
  "keyed s \<longleftrightarrow> keys_ok (eg_ledger s) \<and> (\<forall>k e. js_get (eg_ledger s) k = Some e \<longrightarrow> le_entry_id e = k)"

definition stays_keyed :: "engine \<Rightarrow> engine \<Rightarrow> bool" where
  "stays_keyed s t \<longleftrightarrow> (keyed s \<longrightarrow> keyed t)"

interpretation key_effect: engine_effect stays_keyed
  by unfold_locales (auto simp: stays_keyed_def)

lemma keyed_same: "eg_ledger t = eg_ledger s \<Longrightarrow> stays_keyed s t"
  by (simp add: stays_keyed_def keyed_def)

lemma keyed_post: "stays_keyed s (post_entry i e s)"
  by (auto simp: stays_keyed_def keyed_def split: if_splits)

interpretation key_all: total_relation stays_keyed h for h
proof unfold_locales
qed (auto intro!: key_effect.keeps_once_of_store key_effect.keeps_expire_lots_of key_effect.keeps_add_of
    key_effect.keeps_consume_of key_effect.keeps_issue_run_of key_effect.keeps_restore_of
    key_effect.keeps_modify keyed_same keyed_post
    simp: writer_defs effect_defs m_keeps_def [of _ "draw_id _ _"])

lemma keyed_entry:
  assumes "keyed s" "e \<in> set (js_values (eg_ledger s))"
  shows "js_get (eg_ledger s) (le_entry_id e) = Some e"
proof -
  obtain k where "(k, e) \<in> set (eg_ledger s)" using assms(2) by auto
  then have "js_get (eg_ledger s) k = Some e" using assms(1) by (simp add: keyed_def js_get_iff_mem)
  then show ?thesis using assms(1) by (auto simp: keyed_def)
qed

section \<open>What is left of an order\<close>

lemma sum_filter_disj:
  "(\<And>x. \<not> (P x \<and> Q x)) \<Longrightarrow>
     (\<Sum>x\<leftarrow>filter (\<lambda>x. P x \<or> Q x) xs. f x) = (\<Sum>x\<leftarrow>filter P xs. f x) + (\<Sum>x\<leftarrow>filter Q xs. f (x :: 'a) :: int)"
  by (induction xs) auto

lemma sum_of_unit:
  "distinct (map le_unit es) \<Longrightarrow>
     (\<Sum>e\<leftarrow>filter (\<lambda>e. le_unit e = u) es. le_amount e) = entry_amount (List.find (\<lambda>e. le_unit e = u) es)"
proof (induction es)
  case (Cons e es)
  have "filter (\<lambda>e. le_unit e = u) es = []" if "le_unit e = u"
    using Cons.prems that by (auto simp: filter_empty_conv image_iff)
  with Cons show ?case by (auto simp: entry_amount_def)
qed (simp add: entry_amount_def)

lemma order_total_split:
  assumes "distinct (map le_unit (accrual_entries s q))"
  shows "order_total s q u =
     entry_amount (List.find (\<lambda>e. le_unit e = u) (accrual_entries s q)) + prior_adjustments s q u"
proof -
  let ?P = "\<lambda>e. accrual_of q e \<and> le_unit e = u"
  let ?Q = "\<lambda>e. le_order_id e = Some q \<and> le_operation e = Adjustment \<and> le_unit e = u"
  have "order_total s q u = (\<Sum>e\<leftarrow>filter (\<lambda>e. ?P e \<or> ?Q e) (js_values (eg_ledger s)). le_amount e)"
    unfolding order_total_def selected_def
    by (rule arg_cong [where f = "\<lambda>es. \<Sum>e\<leftarrow>es. le_amount e"], rule filter_cong)
      (auto simp: moves_for_def accrual_of_def)
  also have "\<dots> = (\<Sum>e\<leftarrow>filter ?P (js_values (eg_ledger s)). le_amount e) + prior_adjustments s q u"
    unfolding prior_adjustments_def by (rule sum_filter_disj) (auto simp: accrual_of_def)
  also have "filter ?P (js_values (eg_ledger s)) = filter (\<lambda>e. le_unit e = u) (accrual_entries s q)"
    by (simp add: accrual_entries_def selected_def)
  finally show ?thesis by (simp add: sum_of_unit [OF assms])
qed

definition earnings_left :: "(string \<Rightarrow> nat \<Rightarrow> string) \<Rightarrow> string \<Rightarrow> loyalty_unit \<Rightarrow> engine \<Rightarrow> bool" where
  "earnings_left ids q u s \<longleftrightarrow>
     orders_ok ids s \<and> keyed s \<and> js_get (eg_accrualsByOrder s) q \<noteq> None \<and> 0 \<le> order_total s q u"

lemma earnings_leftD:
  assumes "earnings_left ids q u s"
  shows "orders_ok ids s" "keyed s" "js_get (eg_accrualsByOrder s) q \<noteq> None" "0 \<le> order_total s q u"
    "fresh_ledger ids s" "sane (eg_program s)" "distinct (map le_unit (accrual_entries s q))"
  using assms orders_okD(1,2) [of ids s] orders_okD(3) [of ids s q]
  by (auto simp: earnings_left_def earned_once_def split: option.splits)

text \<open>The originals an adjustment looks up are the accrual entries of the order.\<close>

lemma originals:
  assumes "earnings_left ids q u s" "js_get (eg_accrualsByOrder s) q = Some a"
  shows "entries_of s (accrual_entry_ids a) = accrual_entries s q"
proof -
  have "accrual_entry_ids a = map le_entry_id (accrual_entries s q)"
    using orders_okD(3) [OF earnings_leftD(1) [OF assms(1)], of q] assms(2) by (simp add: earned_once_def)
  moreover have "List.map_filter (js_get (eg_ledger s)) (map le_entry_id es) = es"
    if "set es \<subseteq> set (js_values (eg_ledger s))" for es
    using that by (induction es) (simp_all add: map_filter_simps keyed_entry [OF earnings_leftD(2) [OF assms(1)]])
  moreover have "set (accrual_entries s q) \<subseteq> set (js_values (eg_ledger s))"
    by (auto simp: accrual_entries_def selected_def)
  ultimately show ?thesis by (simp add: entries_of_def)
qed

text \<open>A step that adds no entry of the order and unit.\<close>

definition left_kept :: "(string \<Rightarrow> nat \<Rightarrow> string) \<Rightarrow> string \<Rightarrow> loyalty_unit \<Rightarrow> engine \<Rightarrow> engine \<Rightarrow> bool" where
  "left_kept ids q u s t \<longleftrightarrow> (earnings_left ids q u s \<longrightarrow> earnings_left ids q u t)"

lemma left_keptI:
  assumes "orders_kept ids s t" "stays_keyed s t" "entry_frame (moves_for q u) {q} ids s t"
  shows "left_kept ids q u s t"
  using assms earnings_leftD(5) [of ids q u s]
  by (auto simp: left_kept_def earnings_left_def orders_kept_def stays_keyed_def entry_frame_def order_total_def)

interpretation left_over: engine_effect "left_kept ids q u" for ids q u
  by unfold_locales (auto simp: left_kept_def)

section \<open>One unit of an adjustment\<close>

lemma adjustment_other:
  "v \<noteq> u \<or> oa_original_order_id (dq_adjustment r) \<noteq> q \<or> q = [] \<Longrightarrow>
     unselected (moves_for q u) ((adjustment_input r v n)\<lparr>li_expires_at := x, li_create_point_lot := c\<rparr>)"
  by (auto simp: unselected_def moves_for_def adjustment_input_def ledger_input_of_def present_def truthy_def input_unit_def
      split: if_splits)

lemma adjust_unit_keeps:
  "m_keeps (orders_kept (h_ids h)) (adjust_unit h r b acc os v)"
  "m_keeps stays_keyed (adjust_unit h r b acc os v)"
  "m_keeps (entry_frame (accrual_of q) UNIV (h_ids h)) (adjust_unit h r b acc os v)"
proof -
  show frame: "m_keeps (entry_frame (accrual_of q) UNIV (h_ids h)) (adjust_unit h r b acc os v)" for q
    by (rule accruals.entries.keeps_adjust_unit [OF TrueI adjustment_no_accrual])
  show "m_keeps (orders_kept (h_ids h)) (adjust_unit h r b acc os v)"
    unfolding m_keeps_def by (intro allI frame_keeps_orders frame)
  show "m_keeps stays_keyed (adjust_unit h r b acc os v)"
    by (rule key_all.inputs.keeps_adjust_unit) (simp_all add: adjustment_input_def ledger_input_of_def)
qed

lemma bounded_adjustment_left:
  assumes "earnings_left ids q u s" "oa_original_order_id a = q"
  shows "0 \<le> order_total s q u +
    bounded_adjustment s a True (List.find (\<lambda>e. le_unit e = u) (accrual_entries s q)) u n"
  using earnings_leftD(4) [OF assms(1)] order_total_split [OF earnings_leftD(7) [OF assms(1)], of u] assms(2)
  by (simp add: bounded_adjustment_def max_def)

lemma adjust_unit_total:
  assumes ok: "earnings_left (h_ids h) q u s" and q: "oa_original_order_id (dq_adjustment r) = q" "q \<noteq> []"
  shows "0 \<le> order_total (snd (adjust_unit h r b True (accrual_entries s q) u s)) q u"
proof -
  let ?a = "dq_adjustment r" and ?o = "List.find (\<lambda>e. le_unit e = u) (accrual_entries s q)"
  have "0 \<le> order_total (snd (m_bind (if n < 0 then consumePointLots h (dq_member_id r) u (- n) None else m_return ()) (\<lambda>_.
      m_bind (expiring_input h (adjustment_input r u n)) (addLedger h)) s)) q u"
    if n: "n = bounded_adjustment s ?a True ?o u k" for n k
  proof -
    obtain v s1 where run: "(if n < 0 then consumePointLots h (dq_member_id r) u (- n) None else m_return ()) s = (v, s1)"
      by fastforce
    have "m_keeps (entry_frame (moves_for q u) {q} (h_ids h))
        (if n < 0 then consumePointLots h (dq_member_id r) u (- n) None else m_return ())"
      by (auto intro: moves.entries.keeps_consume_debits entry_effect.keeps_return)
    from run_frame [OF this run] have s1: "fresh_ledger (h_ids h) s1" "sane (eg_program s1)" "order_total s1 q u = order_total s q u"
      using earnings_leftD(5,6) [OF ok] by (simp_all add: entry_frame_def order_total_def)
    show ?thesis
    proof (cases v)
      case (Inl e)
      then show ?thesis using run s1(3) earnings_leftD(4) [OF ok] by (simp add: m_bind_def)
    next
      case (Inr w)
      obtain x c where expiring: "expiring_input h (adjustment_input r u n) s1 =
          (Inr ((adjustment_input r u n)\<lparr>li_expires_at := x, li_create_point_lot := c\<rparr>), s1)"
        using s1(2) by (rule expiring_input_run)
      let ?i = "(adjustment_input r u n)\<lparr>li_expires_at := x, li_create_point_lot := c\<rparr>"
      obtain y t where add: "addLedger h ?i s1 = (y, t)" by fastforce
      let ?e = "ledger_entry_of h (eg_program s1) (h_ids h ''ledger'' (eg_id_count s1)) ?i"
      have "moves_for q u ?e" "le_amount ?e = n"
        using q by (simp_all add: moves_for_def adjustment_input_def ledger_input_of_def input_unit_def present_def truthy_def)
      then have "order_total t q u = order_total s1 q u + n"
        using add_appends(2) [OF s1(1) add] by (simp add: order_total_def selected_def)
      then show ?thesis
        using bounded_adjustment_left [OF ok q(1), of k] n s1(3) run Inr expiring add by (simp add: m_bind_def)
    qed
  qed
  then show ?thesis
    using earnings_leftD(4) [OF ok]
    by (auto simp: adjust_unit_def m_bind_def m_get_def m_lift_def Let_def split: sum.split)
qed

lemma adjust_unit_left:
  assumes ok: "earnings_left (h_ids h) q u s" and q: "oa_original_order_id (dq_adjustment r) = q"
    and t: "t = snd (adjust_unit h r b True (accrual_entries s q) v s)"
  shows "earnings_left (h_ids h) q u t \<and> accrual_entries t q = accrual_entries s q"
proof -
  have frame: "entry_frame (accrual_of q) UNIV (h_ids h) s t"
    using adjust_unit_keeps(3) by (simp add: m_keeps_def t)
  then have entries: "accrual_entries t q = accrual_entries s q" "js_get (eg_accrualsByOrder t) q \<noteq> None"
    using earnings_leftD(3,5) [OF ok] by (simp_all add: entry_frame_def accrual_entries_def)
  have "orders_ok (h_ids h) t" "keyed t"
    using adjust_unit_keeps(1,2) [of h r b True "accrual_entries s q" v] earnings_leftD(1,2) [OF ok]
    by (simp_all add: m_keeps_def orders_kept_def stays_keyed_def t)
  moreover have "0 \<le> order_total t q u"
  proof (cases "v = u \<and> q \<noteq> []")
    case True
    then show ?thesis using adjust_unit_total [OF ok q] by (simp add: t)
  next
    case False
    have "m_keeps (entry_frame (moves_for q u) {q} (h_ids h)) (adjust_unit h r b True (accrual_entries s q) v)"
      by (rule moves.entries.keeps_adjust_unit [OF TrueI adjustment_other]) (use False in auto)
    then show ?thesis
      using earnings_leftD(4,5) [OF ok] by (simp add: m_keeps_def t entry_frame_def order_total_def)
  qed
  ultimately show ?thesis using entries by (simp add: earnings_left_def)
qed

lemma adjust_units_left:
  assumes "earnings_left (h_ids h) q u s" "oa_original_order_id (dq_adjustment r) = q"
  shows "earnings_left (h_ids h) q u (snd (m_map (adjust_unit h r b True (accrual_entries s q)) us s))"
  using assms(1)
proof (induction us arbitrary: s)
  case (Cons v us)
  obtain x t where run: "adjust_unit h r b True (accrual_entries s q) v s = (x, t)" by fastforce
  then have "earnings_left (h_ids h) q u t" "accrual_entries t q = accrual_entries s q"
    using adjust_unit_left [OF Cons.prems assms(2) refl, where b = b and v = v] by simp_all
  then show ?case
    using Cons.IH [of t] run by (cases x) (auto simp: m_bind_def split: prod.split sum.split)
qed simp

section \<open>Every operation\<close>

definition no_move :: "string \<Rightarrow> loyalty_unit \<Rightarrow> ledger_input \<Rightarrow> bool" where
  "no_move q u i \<longleftrightarrow> unselected (moves_for q u) i \<and> (\<forall>q'. unselected (accrual_of q') i)"

lemma left_kept_same:
  assumes "eg_ledger t = eg_ledger s" "eg_accrualsByOrder t = eg_accrualsByOrder s" "eg_id_count s \<le> eg_id_count t"
    "sane (eg_program s) \<Longrightarrow> sane (eg_program t)"
  shows "left_kept ids q u s t"
  by (intro left_keptI frame_orders keyed_same entry_frame_same) (use assms in auto)

lemma add_left:
  assumes "no_move q u i"
  shows "m_keeps (left_kept (h_ids h) q u) (addLedger h i)"
proof -
  have "m_keeps (entry_frame (moves_for q u) {q} (h_ids h)) (addLedger h i)"
    "\<And>q'. m_keeps (entry_frame (accrual_of q') UNIV (h_ids h)) (addLedger h i)"
    using assms by (auto simp: no_move_def intro: add_unselected)
  moreover have "m_keeps stays_keyed (addLedger h i)"
    by (rule key_effect.keeps_add_of) (auto intro: keyed_same keyed_post)
  ultimately show ?thesis using left_keptI frame_orders by (simp add: m_keeps_def)
qed

lemma no_move_input: "li_operation i \<notin> {Accrual, Adjustment} \<or> li_order_id i = None \<Longrightarrow> no_move q u i"
  using moves.unselected_operation moves.unselected_no_order accruals.unselected_operation accruals.unselected_no_order
  by (auto simp: no_move_def)

interpretation left_all: other_relation "left_kept (h_ids h) q u" h "no_move q u" for h q u
proof unfold_locales
  show "m_keeps (left_kept (h_ids h) q u) (expirePointLots h a b)" for a b
  proof (rule left_over.keeps_expire_lots_of)
    show "left_kept (h_ids h) q u s (set_remaining k n s)" for k n s
      by (rule left_kept_same) (simp_all add: set_remaining_def)
  qed (intro add_left no_move_input, simp)
qed (auto intro!: left_over.keeps_once_of_store left_over.keeps_consume_of
    left_over.keeps_issue_run_of left_over.keeps_restore_of left_over.keeps_modify
    add_left no_move_input left_kept_same
    simp: writer_defs effect_defs m_keeps_def [of _ "draw_id _ _"] manual_input_def ledger_input_of_def
      program_ok_sane)

text \<open>The first adjustment under an adjustment id.\<close>

lemma first_adjustment_left:
  assumes q: "oa_original_order_id (dq_adjustment r) = q"
  shows "left_kept (h_ids h) q u s (snd (first_adjustment h r m s))"
proof (cases "earnings_left (h_ids h) q u s")
  case True
  then obtain a where a: "js_get (eg_accrualsByOrder s) q = Some a" using earnings_leftD(3) by blast
  have entries: "(case js_get (eg_accrualsByOrder s) q of None \<Rightarrow> [] | Some x \<Rightarrow> accrual_entry_ids x) = accrual_entry_ids a"
    using a by simp
  show ?thesis
    unfolding first_adjustment_def Let_def q
  proof (intro left_over.at_get, unfold a original_multiplier_def option.case m_bind_runs(1), intro left_over.at_get)
    have units: "left_kept (h_ids h) q u s (snd (m_map (adjust_unit h r b (Some a \<noteq> None) (accrual_entries s q)) us s))" for b us
      using adjust_units_left [OF True q] by (simp add: left_kept_def)
    show "left_kept (h_ids h) q u s (snd (m_bind (m_map (adjust_unit h r (ac_multiplierBps a) (Some a \<noteq> None)
            (entries_of s (accrual_entry_ids a))) (accountUnits (eg_program s))) (\<lambda>es.
        m_bind (m_get (\<lambda>s. primary_entry (eg_program s) es)) (\<lambda>e.
        m_bind (m_modify (record_adjustment (oa_adjustment_id (dq_adjustment r)) (le_entry_id e)
          (Some (map le_entry_id es)) (adjustment_fingerprint h r))) (\<lambda>_.
        ledgerResponse h (dq_context r) e es))) s))"
      unfolding originals [OF True a]
      by (rule left_over.at_bind [where
            m = "m_map (adjust_unit h r (ac_multiplierBps a) (Some a \<noteq> None) (accrual_entries s q)) (accountUnits (eg_program s))",
            OF units])
        (intro left_over.at_keeps left_all.keeps_lib left_over.keeps_modify left_kept_same;
          simp add: record_adjustment_def)
  qed
qed (simp add: left_kept_def)

lemma adjustOrder_left: "left_kept (h_ids h) q u s (snd (adjustOrder h r s))"
proof (cases "oa_original_order_id (dq_adjustment r) = q")
  case True
  have "m_keeps (left_kept (h_ids h) q u) (first_adjustment h r m)" for m
    using first_adjustment_left [OF True] by (simp add: m_keeps_def)
  then have "m_keeps (left_kept (h_ids h) q u) (adjustOrder h r)"
    unfolding adjustOrder_def adjustOrder_run_def Let_def
    by (intro left_all.keeps_lib) (auto split: option.split intro!: left_all.keeps_repeat_adjustment)
  then show ?thesis by (simp add: m_keeps_def)
next
  case False
  have "m_keeps (left_kept (h_ids h) q u) (adjustOrder h r)"
    by (rule left_all.keeps_adjustOrder) (use False in \<open>simp_all add: no_move_def adjustment_other adjustment_no_accrual\<close>)
  then show ?thesis by (simp add: m_keeps_def)
qed

text \<open>An accrual for the order itself is a repetition; any other one posts nothing for it.\<close>

lemma first_accrual_other:
  "od_order_id (oq_order r) \<noteq> q \<Longrightarrow> m_keeps (entry_frame (moves_for q u) {q} (h_ids h)) (postAccrual h r)"
  by (rule moves.keeps_other_accrual)
    (auto simp: unselected_def moves_for_def accrual_input_def ledger_input_of_def present_def split: if_splits)

lemma postAccrual_left: "left_kept (h_ids h) q u s (snd (postAccrual h r s))"
proof (cases "od_order_id (oq_order r) = q")
  case False
  have "m_keeps stays_keyed (postAccrual h r)"
    by (rule key_all.keeps_postAccrual) simp
  then show ?thesis
    using left_keptI [OF postAccrual_orders] first_accrual_other [OF False] by (simp add: m_keeps_def)
next
  case True
  have step: "m_keeps (left_kept (h_ids h) q u)
      (m_bind (m_get (\<lambda>s. js_get (eg_accrualsByOrder s) (od_order_id (oq_order r)))) (\<lambda>existing.
       case existing of Some a \<Rightarrow> repeat_accrual h r a | None \<Rightarrow> first_accrual h r))"
    unfolding m_keeps_def
  proof
    fix x :: engine
    show "left_kept (h_ids h) q u x
        (snd (m_bind (m_get (\<lambda>s. js_get (eg_accrualsByOrder s) (od_order_id (oq_order r)))) (\<lambda>existing.
         case existing of Some a \<Rightarrow> repeat_accrual h r a | None \<Rightarrow> first_accrual h r) x))"
      using earnings_leftD(3) [of "h_ids h" q u x] True
      by (auto simp: left_kept_def [of _ _ _ _ "snd (first_accrual _ _ _)"] split: option.split
          intro: left_over.at_keeps left_all.keeps_repeat_accrual)
  qed
  have "m_keeps (left_kept (h_ids h) q u) (postAccrual h r)"
    unfolding postAccrual_def postAccrual_run_def by (rule step | rule left_all.keeps_lib)+
  then show ?thesis by (simp add: m_keeps_def)
qed

lemma perform_left: "left_kept (h_ids h) q u s (snd (perform h p s))"
proof (cases "p \<in> range Op_postAccrual \<union> range Op_adjustOrder")
  case True
  then show ?thesis by (auto intro: postAccrual_left adjustOrder_left)
next
  case False
  then have "m_keeps (left_kept (h_ids h) q u) (perform h p)" by (intro left_all.keeps_perform_other) auto
  then show ?thesis by (simp add: m_keeps_def)
qed

lemma history_left: "history ids s ops t \<Longrightarrow> left_kept ids q u s t"
  by (rule history_keeps [OF _ left_over.effect_relation_axioms]) (use perform_left in \<open>auto simp: m_keeps_def\<close>)

lemma history_keyed: "history ids (empty_engine p) ops s \<Longrightarrow> keyed s"
  using history_keeps [OF _ key_effect.effect_relation_axioms key_all.keeps_perform, of ids "empty_engine p" ops s]
  by (simp add: stays_keyed_def keyed_def empty_engine_def)

text \<open>
  C12. A refund never takes back more than the order earned. Once an order has earned and
  its accrual and adjustments of a unit sum to no less than zero, they do so forever:
  whatever refunds, voids and corrections arrive, in whatever order, for whatever amounts,
  and whatever else happens to the engine in between.
\<close>

theorem refunds_never_exceed_earnings:
  assumes "good_ids ids" "program_ok h p" "history ids (empty_engine p) past s"
    and "js_get (eg_accrualsByOrder s) orderId \<noteq> None" "0 \<le> order_total s orderId u"
    and "history ids s ops t"
  shows "js_get (eg_accrualsByOrder t) orderId \<noteq> None \<and> 0 \<le> order_total t orderId u"
proof -
  have "earnings_left ids orderId u s"
    using reached_orders [OF assms(3,1,2)] history_keyed [OF assms(3)] assms(4,5) by (simp add: earnings_left_def)
  then show ?thesis
    using history_left [OF assms(6), of orderId u] earnings_leftD(3,4) [of ids orderId u t] by (simp add: left_kept_def)
qed

lemma order_total_alt:
  "order_total s q u = (\<Sum>e\<leftarrow>filter (\<lambda>e. le_unit e = u \<and> le_operation e \<in> {Accrual, Adjustment})
     (filter (\<lambda>e. le_order_id e = Some q) (js_values (eg_ledger s))). le_amount e)"
  by (simp add: order_total_def selected_def moves_for_def [abs_def] conj_commute conj_left_commute)

text \<open>The order earned 10 points; its full refund leaves nothing.\<close>

theorem refunds_never_exceed_earnings_witness:
  "order_total earned ''o1'' Points = 10 \<and> 0 \<le> order_total refunded ''o1'' Points \<and>
     order_total refunded ''o1'' Points = 0"
proof -
  have earned_total: "order_total earned ''o1'' Points = 10"
    by (rule earned_facts) (simp add: order_total_alt)
  have "order_total refunded ''o1'' Points = 0"
    by (rule refunded_facts) (simp add: order_total_alt)
  moreover have "js_get (eg_accrualsByOrder earned) ''o1'' \<noteq> None"
    by (rule earned_facts) simp
  ultimately show ?thesis
    using refunds_never_exceed_earnings [OF good_sample_ids story_program_ok earning_runs _ _ refunding_runs, of "''o1''" Points]
      earned_total by simp
qed

end
