(* ===== verification/Sdk_Money.thy ===== *)
theory Sdk_Money
  imports Validation Js_Date
begin

text \<open>
  packages/sdk/src/money.ts: money in minor units, its decimal notation and its addition.
  Amounts are integers, as everywhere in this development; every function checks that they
  are safe integers before using them as such. The thrown \<open>RangeError\<close> is a value.
\<close>

datatype sdk_error = Range_error | Validation_error "validation_issue list"

section \<open>Money\<close>

definition scale_ok :: "int \<Rightarrow> bool" where
  "scale_ok s = (0 \<le> s \<and> s \<le> 9)"

definition make_money :: "int \<Rightarrow> string \<Rightarrow> sdk_error + money" where
  "make_money amount currency =
     (if \<not> currency_ok currency then Inl Range_error
      else if \<not> is_safe_integer amount then Inl Range_error
      else Inr \<lparr>mo_amount = amount, mo_currency = currency\<rparr>)"

definition zeroMoney :: "string \<Rightarrow> sdk_error + money" where
  "zeroMoney currency = make_money 0 currency"

text \<open>The loop of \<open>addMoney\<close>: the first value that fails decides the error.\<close>

fun add_values :: "string \<Rightarrow> int \<Rightarrow> money list \<Rightarrow> sdk_error + int" where
  "add_values currency amount [] = Inr amount"
| "add_values currency amount (v # vs) =
     (if mo_currency v \<noteq> currency then Inl Range_error
      else case make_money (mo_amount v) (mo_currency v) of
        Inl e \<Rightarrow> Inl e
      | Inr _ \<Rightarrow> add_values currency (amount + mo_amount v) vs)"

definition addMoney :: "money list \<Rightarrow> sdk_error + money" where
  "addMoney values =
     (case values of
        [] \<Rightarrow> Inl Range_error
      | v # _ \<Rightarrow>
          (case add_values (mo_currency v) 0 values of
             Inl e \<Rightarrow> Inl e
           | Inr n \<Rightarrow> make_money n (mo_currency v)))"

section \<open>Decimal notation\<close>

definition dec_value :: "string \<Rightarrow> int" where
  "dec_value t = foldl (\<lambda>n c. 10 * n + (of_char c - 48)) 0 t"

text \<open>\<open>/^(-?)(\d+)(?:\.(\d+))?$/\<close>: the sign, the whole digits and the fraction.\<close>

definition split_decimal :: "string \<Rightarrow> (bool \<times> string \<times> string option) option" where
  "split_decimal t =
     (let negative = (case t of [] \<Rightarrow> False | c # _ \<Rightarrow> c = CHR ''-'');
          r = (if negative then tl t else t);
          whole = takeWhile is_digit r
      in if whole = [] then None
         else case dropWhile is_digit r of
             [] \<Rightarrow> Some (negative, whole, None)
           | c # f \<Rightarrow>
               if c = CHR ''.'' \<and> f \<noteq> [] \<and> list_all is_digit f then Some (negative, whole, Some f) else None)"

definition pad_end :: "nat \<Rightarrow> string \<Rightarrow> string" where
  "pad_end w t = t @ replicate (w - length t) CHR ''0''"

definition moneyFromDecimal :: "string \<Rightarrow> string \<Rightarrow> int \<Rightarrow> sdk_error + money" where
  "moneyFromDecimal t currency s =
     (if \<not> currency_ok currency then Inl Range_error
      else if \<not> scale_ok s then Inl Range_error
      else case split_decimal t of
        None \<Rightarrow> Inl Range_error
      | Some (negative, whole, f) \<Rightarrow>
          (let fraction = (case f of None \<Rightarrow> [] | Some x \<Rightarrow> x) in
           if int (length fraction) > s then Inl Range_error
           else let magnitude = dec_value whole * 10 ^ nat s + dec_value (pad_end (nat s) fraction);
                    amount = (if negative then - magnitude else magnitude)
                in if is_safe_integer amount then Inr \<lparr>mo_amount = amount, mo_currency = currency\<rparr>
                   else Inl Range_error))"

definition decimal_digits :: "int \<Rightarrow> nat \<Rightarrow> string" where
  "decimal_digits n s =
     (let digits = pad_start (s + 1) (dec_digits \<bar>n\<bar>); k = length digits - s in
      (if n < 0 then ''-'' else []) @ (if s = 0 then digits else take k digits @ ''.'' @ drop k digits))"

definition formatMoney :: "money \<Rightarrow> int \<Rightarrow> sdk_error + string" where
  "formatMoney m s =
     (if \<not> currency_ok (mo_currency m) then Inl Range_error
      else if \<not> scale_ok s then Inl Range_error
      else if \<not> is_safe_integer (mo_amount m) then Inl Range_error
      else Inr (decimal_digits (mo_amount m) (nat s) @ '' '' @ mo_currency m))"

section \<open>Digits\<close>

lemma dec_value_snoc: "dec_value (t @ [c]) = 10 * dec_value t + (of_char c - 48)"
  by (simp add: dec_value_def)

lemma dec_value_append: "dec_value (t @ u) = dec_value t * 10 ^ length u + dec_value u"
proof (induction u rule: rev_induct)
  case (snoc c u)
  have "dec_value (t @ u @ [c]) = 10 * dec_value (t @ u) + (of_char c - 48)"
    using dec_value_snoc [of "t @ u" c] by simp
  with snoc show ?case by (simp add: dec_value_snoc algebra_simps)
qed (simp add: dec_value_def)

lemma dec_value_zeros [simp]: "dec_value (replicate n CHR ''0'') = 0"
  by (induction n) (simp_all add: dec_value_def)

lemma dec_value_pad: "dec_value (pad_start n t) = dec_value t"
  by (simp add: pad_start_def dec_value_append)

lemma of_char_of_int: "0 \<le> n \<Longrightarrow> n < 256 \<Longrightarrow> (of_char (char_of n) :: int) = n"
  by simp

lemma dec_digits_value:
  "0 \<le> n \<Longrightarrow> dec_value (dec_digits n) = n \<and> list_all is_digit (dec_digits n) \<and> dec_digits n \<noteq> []"
proof (induction n rule: dec_digits.induct)
  case (1 n)
  show ?case
  proof (cases "n < 10")
    case True
    with 1 show ?thesis by (simp add: dec_digits.simps [of n] dec_value_def is_digit_def)
  next
    case False
    have "0 \<le> n mod 10" "n mod 10 < 10" by simp_all
    then show ?thesis
      using 1 False by (simp add: dec_digits.simps [of n] dec_value_snoc is_digit_def)
  qed
qed

text \<open>The digits a formatted amount is made of.\<close>

definition padded :: "int \<Rightarrow> nat \<Rightarrow> string" where
  "padded n s = pad_start (s + 1) (dec_digits \<bar>n\<bar>)"

lemma padded:
  "dec_value (padded n s) = \<bar>n\<bar>" "list_all is_digit (padded n s)" "s < length (padded n s)"
  using dec_digits_value [of "\<bar>n\<bar>"]
  by (auto simp: padded_def dec_value_pad) (auto simp: pad_start_def is_digit_def list_all_iff)

lemma split_unsigned:
  assumes "list_all is_digit w" "w \<noteq> []" "list_all is_digit f"
  shows "split_decimal (if f = [] then w else w @ ''.'' @ f) = Some (False, w, if f = [] then None else Some f)"
    and "split_decimal (''-'' @ (if f = [] then w else w @ ''.'' @ f)) = Some (True, w, if f = [] then None else Some f)"
proof -
  obtain c w' where w: "w = c # w'" using assms(2) by (cases w) auto
  have "c \<noteq> CHR ''-''" using assms(1) w by (auto simp: is_digit_def)
  moreover have "takeWhile is_digit w = w" "dropWhile is_digit w = []"
    using assms(1) by (auto simp: list_all_iff)
  moreover have "takeWhile is_digit (w @ ''.'' @ f) = w" "dropWhile is_digit (w @ ''.'' @ f) = ''.'' @ f"
    using assms(1) by (auto simp: list_all_iff takeWhile_append2 dropWhile_append2 is_digit_def)
  ultimately show "split_decimal (if f = [] then w else w @ ''.'' @ f) = Some (False, w, if f = [] then None else Some f)"
    "split_decimal (''-'' @ (if f = [] then w else w @ ''.'' @ f)) = Some (True, w, if f = [] then None else Some f)"
    using assms(3) w by (auto simp: split_decimal_def)
qed

lemma split_decimal_digits:
  defines "k \<equiv> \<lambda>n s. length (padded n s) - s"
  shows "split_decimal (decimal_digits n s) =
    Some (n < 0, take (k n s) (padded n s), if s = 0 then None else Some (drop (k n s) (padded n s)))"
proof -
  let ?w = "take (k n s) (padded n s)" and ?f = "drop (k n s) (padded n s)"
  have digits: "list_all is_digit ?w" "list_all is_digit ?f" "?w \<noteq> []" "?f = [] \<longleftrightarrow> s = 0"
    using padded(2,3) [where n = n and s = s] by (auto simp: k_def list_all_iff dest: in_set_takeD in_set_dropD)
  have "decimal_digits n s = (if n < 0 then ''-'' else []) @ (if ?f = [] then ?w else ?w @ ''.'' @ ?f)"
    using digits(4) by (auto simp: decimal_digits_def k_def padded_def Let_def)
  then show ?thesis
    using split_unsigned [OF digits(1,3,2)] digits(4) by (cases "n < 0") simp_all
qed

lemma decimal_round_trip:
  assumes "currency_ok c" "is_safe_integer n" "scale_ok s"
  shows "moneyFromDecimal (decimal_digits n (nat s)) c s = Inr \<lparr>mo_amount = n, mo_currency = c\<rparr>"
proof -
  let ?d = "padded n (nat s)" and ?k = "length (padded n (nat s)) - nat s"
  let ?fraction = "case (if nat s = 0 then None else Some (drop ?k ?d)) of None \<Rightarrow> [] | Some x \<Rightarrow> x"
  have s: "nat s < length ?d" "int (nat s) = s" using padded(3) assms(3) by (auto simp: scale_ok_def)
  have fraction: "?fraction = drop ?k ?d" by simp
  have len: "length (drop ?k ?d) = nat s" using s(1) by simp
  have "dec_value (take ?k ?d) * 10 ^ nat s + dec_value (drop ?k ?d) = \<bar>n\<bar>"
    using dec_value_append [of "take ?k ?d" "drop ?k ?d"] padded(1) len by simp
  moreover have "pad_end (nat s) (drop ?k ?d) = drop ?k ?d" using len by (simp add: pad_end_def)
  moreover have "\<not> int (length (drop ?k ?d)) > s" using len s(2) by linarith
  moreover have "(if n < 0 then - \<bar>n\<bar> else \<bar>n\<bar>) = n" by simp
  ultimately show ?thesis
    using assms unfolding moneyFromDecimal_def split_decimal_digits option.case prod.case Let_def fraction
    by (simp only: if_True if_False not_True_eq_False not_False_eq_True)
qed

text \<open>
  Money keeps its value in decimal notation: a money value is formatted exactly when
  it conforms to the schema and the scale is 0 to 9, and then the decimal part of the
  text, parsed at the same currency and scale, is the value itself, down to negative
  amounts, amounts below one major unit and the largest safe integers.
\<close>

theorem format_parse_money:
  "case formatMoney m s of
     Inl _ \<Rightarrow> \<not> (money_ok m \<and> scale_ok s)
   | Inr t \<Rightarrow> money_ok m \<and> scale_ok s \<and>
       (\<exists>d. t = d @ '' '' @ mo_currency m \<and> moneyFromDecimal d (mo_currency m) s = Inr m)"
  by (auto simp: formatMoney_def money_ok_def decimal_round_trip)

section \<open>Addition\<close>

lemma add_values_Inr:
  "add_values c n vs = Inr k \<longleftrightarrow>
     (\<forall>v \<in> set vs. mo_currency v = c \<and> money_ok v) \<and> k = n + (\<Sum>v\<leftarrow>vs. mo_amount v)"
  by (induction c n vs rule: add_values.induct) (auto simp: make_money_def money_ok_def split: if_splits)

lemma addMoney_Inr:
  "addMoney vs = Inr m \<longleftrightarrow>
     vs \<noteq> [] \<and> (\<forall>v \<in> set vs. money_ok v \<and> mo_currency v = mo_currency m) \<and>
     mo_amount m = (\<Sum>v\<leftarrow>vs. mo_amount v) \<and> is_safe_integer (mo_amount m)"
proof (cases vs)
  case (Cons v ws)
  have "addMoney vs = Inr m \<longleftrightarrow> (\<exists>k. add_values (mo_currency v) 0 vs = Inr k \<and> make_money k (mo_currency v) = Inr m)"
    using Cons by (auto simp: addMoney_def split: sum.split)
  then show ?thesis
    unfolding add_values_Inr using Cons by (auto simp: make_money_def money_ok_def split: if_splits)
qed (simp add: addMoney_def)

end
