(* ===== verification/Sdk_Orders.thy ===== *)
theory Sdk_Orders
  imports Sdk_Money
begin

text \<open>
  packages/sdk/src/order-builder.ts: \<open>FoodserviceOrderBuilder\<close>. The builder is a record; a
  method returns the changed builder or throws, leaving the object as it was (every check
  stands before the mutation). \<open>structuredClone\<close> copies values, so it is the identity here.
\<close>

record builder_options =
  bo_order_id :: string
  bo_scope :: program_scope
  bo_currency :: string
  bo_channel :: order_channel
  bo_business_date :: string
  bo_placed_at :: "string option"
  bo_order_number :: "string option"
  bo_member_id :: "string option"
  bo_status :: "order_status option"

record builder_line =
  bi_line_id :: string
  bi_product_id :: string
  bi_unit_price :: money
  bi_quantity :: "int option"
  bi_discount :: "money option"
  bi_tax :: "money option"
  bi_sku :: "string option"
  bi_name :: "string option"
  bi_category_ids :: "string list option"
  bi_tags :: "string list option"
  bi_loyalty_eligible :: "bool option"
  bi_metadata :: "metadata option"

record builder =
  bd_options :: builder_options
  bd_lines :: "order_line list"
  bd_tenders :: "tender list"
  bd_tip :: money
  bd_service_charge :: money
  bd_closed_at :: "string option"

definition bound :: "sdk_error + 'a \<Rightarrow> ('a \<Rightarrow> sdk_error + 'b) \<Rightarrow> sdk_error + 'b" where
  "bound r f = (case r of Inl e \<Rightarrow> Inl e | Inr v \<Rightarrow> f v)"

lemma bound_Inr [simp]: "bound r f = Inr y \<longleftrightarrow> (\<exists>x. r = Inr x \<and> f x = Inr y)"
  by (auto simp: bound_def split: sum.splits)

section \<open>Building\<close>

definition new_builder :: "builder_options \<Rightarrow> sdk_error + builder" where
  "new_builder o' =
     bound (zeroMoney (bo_currency o')) (\<lambda>zero.
       Inr \<lparr>bd_options = o', bd_lines = [], bd_tenders = [], bd_tip = zero, bd_service_charge = zero,
         bd_closed_at = None\<rparr>)"

definition builder_currency :: "builder \<Rightarrow> string" where
  "builder_currency b = bo_currency (bd_options b)"

definition assertCurrency :: "builder \<Rightarrow> money \<Rightarrow> sdk_error + unit" where
  "assertCurrency b m = (if mo_currency m = builder_currency b then Inr () else Inl Range_error)"

definition or_zero :: "builder \<Rightarrow> money option \<Rightarrow> sdk_error + money" where
  "or_zero b m = (case m of None \<Rightarrow> zeroMoney (builder_currency b) | Some x \<Rightarrow> Inr x)"

definition addLine :: "line_kind \<Rightarrow> builder_line \<Rightarrow> string option \<Rightarrow> builder \<Rightarrow> sdk_error + builder" where
  "addLine kind i parent b =
     bound (assertCurrency b (bi_unit_price i)) (\<lambda>_.
     bound (or_zero b (bi_discount i)) (\<lambda>discount.
     bound (or_zero b (bi_tax i)) (\<lambda>tax.
     bound (assertCurrency b discount) (\<lambda>_.
     bound (assertCurrency b tax) (\<lambda>_.
     (let quantity = (case bi_quantity i of None \<Rightarrow> 1 | Some q \<Rightarrow> q) in
      if quantity \<le> 0 then Inl Range_error
      else
        bound (make_money (mo_amount (bi_unit_price i) * quantity) (builder_currency b)) (\<lambda>subtotal.
        Inr (b\<lparr>bd_lines := bd_lines b @
          [\<lparr>ln_line_id = bi_line_id i, ln_kind = kind, ln_product_id = bi_product_id i, ln_sku = present (bi_sku i),
            ln_name = present (bi_name i), ln_parent_line_id = present parent, ln_quantity = quantity,
            ln_unit_price = bi_unit_price i, ln_subtotal = subtotal, ln_discount = discount, ln_tax = tax,
            ln_category_ids = bi_category_ids i, ln_tags = bi_tags i,
            ln_loyalty_eligible = bi_loyalty_eligible i, ln_metadata = bi_metadata i\<rparr>]\<rparr>))))))))"

definition addItem :: "builder_line \<Rightarrow> builder \<Rightarrow> sdk_error + builder" where
  "addItem i b = addLine Item i None b"

definition addModifier :: "string \<Rightarrow> builder_line \<Rightarrow> builder \<Rightarrow> sdk_error + builder" where
  "addModifier parent i b = addLine Modifier i (Some parent) b"

definition addFee :: "builder_line \<Rightarrow> builder \<Rightarrow> sdk_error + builder" where
  "addFee i b = addLine Fee i None b"

definition addTender :: "tender \<Rightarrow> builder \<Rightarrow> sdk_error + builder" where
  "addTender t b = bound (assertCurrency b (tn_amount t)) (\<lambda>_. Inr (b\<lparr>bd_tenders := bd_tenders b @ [t]\<rparr>))"

definition setTip :: "money \<Rightarrow> builder \<Rightarrow> sdk_error + builder" where
  "setTip m b = bound (assertCurrency b m) (\<lambda>_. Inr (b\<lparr>bd_tip := m\<rparr>))"

definition setServiceCharge :: "money \<Rightarrow> builder \<Rightarrow> sdk_error + builder" where
  "setServiceCharge m b = bound (assertCurrency b m) (\<lambda>_. Inr (b\<lparr>bd_service_charge := m\<rparr>))"

definition close_at :: "string \<Rightarrow> builder \<Rightarrow> sdk_error + builder" where
  "close_at t b = Inr (b\<lparr>bd_closed_at := Some t\<rparr>)"

text \<open>\<open>now\<close> is the text of \<open>new Date().toISOString()\<close> when \<open>build\<close> runs.\<close>

definition built_totals :: "builder \<Rightarrow> sdk_error + order_totals" where
  "built_totals b =
     bound (zeroMoney (builder_currency b)) (\<lambda>zero.
     bound (addMoney (zero # map ln_subtotal (bd_lines b))) (\<lambda>subtotal.
     bound (addMoney (zero # map ln_discount (bd_lines b))) (\<lambda>discount.
     bound (addMoney (zero # map ln_tax (bd_lines b))) (\<lambda>tax.
     bound (make_money (- mo_amount discount) (builder_currency b)) (\<lambda>less.
     bound (addMoney [subtotal, less, tax, bd_tip b, bd_service_charge b]) (\<lambda>total.
     Inr \<lparr>tt_subtotal = subtotal, tt_discount = discount, tt_tax = tax, tt_tip = bd_tip b,
       tt_service_charge = bd_service_charge b, tt_total = total\<rparr>))))))"

definition built_order :: "string \<Rightarrow> builder \<Rightarrow> order_totals \<Rightarrow> order" where
  "built_order now b t =
     (let o' = bd_options b in
      \<lparr>od_order_id = bo_order_id o', od_order_number = present (bo_order_number o'), od_scope = bo_scope o',
       od_member_id = present (bo_member_id o'), od_channel = bo_channel o',
       od_status = (case bo_status o' of None \<Rightarrow> Open | Some s \<Rightarrow> s),
       od_business_date = bo_business_date o',
       od_placed_at = (case bo_placed_at o' of None \<Rightarrow> now | Some p \<Rightarrow> p),
       od_closed_at = present (bd_closed_at b), od_lines = bd_lines b, od_totals = t,
       od_tenders = (if bd_tenders b \<noteq> [] then Some (bd_tenders b) else None), od_metadata = None\<rparr>)"

definition build ::
  "(string \<Rightarrow> int option) \<Rightarrow> (order \<Rightarrow> validation_issue list) \<Rightarrow> string \<Rightarrow> builder \<Rightarrow> sdk_error + order"
where
  "build parse ajv now b =
     bound (built_totals b) (\<lambda>t.
       case validateFoodserviceOrder parse ajv (built_order now b t) of
         Inl issues \<Rightarrow> Inl (Validation_error issues)
       | Inr _ \<Rightarrow> Inr (built_order now b t))"

section \<open>Using the builder\<close>

datatype builder_step =
  Add_item builder_line | Add_modifier string builder_line | Add_fee builder_line | Add_tender tender
| Set_tip money | Set_service_charge money | Close_at string

fun apply_step :: "builder_step \<Rightarrow> builder \<Rightarrow> sdk_error + builder" where
  "apply_step (Add_item i) b = addItem i b"
| "apply_step (Add_modifier p i) b = addModifier p i b"
| "apply_step (Add_fee i) b = addFee i b"
| "apply_step (Add_tender t) b = addTender t b"
| "apply_step (Set_tip m) b = setTip m b"
| "apply_step (Set_service_charge m) b = setServiceCharge m b"
| "apply_step (Close_at t) b = close_at t b"

text \<open>A caller may catch what a call throws; the builder is then as it was.\<close>

fun apply_steps :: "builder_step list \<Rightarrow> builder \<Rightarrow> builder" where
  "apply_steps [] b = b"
| "apply_steps (s # ss) b = apply_steps ss (case apply_step s b of Inl _ \<Rightarrow> b | Inr b' \<Rightarrow> b')"

section \<open>What the builder guarantees\<close>

definition line_built :: "string \<Rightarrow> order_line \<Rightarrow> bool" where
  "line_built c l \<longleftrightarrow>
     (\<forall>m \<in> set (line_moneys l). mo_currency m = c) \<and> 0 < ln_quantity l \<and>
     mo_amount (ln_subtotal l) = mo_amount (ln_unit_price l) * ln_quantity l"

definition builder_ok :: "builder \<Rightarrow> bool" where
  "builder_ok b \<longleftrightarrow>
     (let c = builder_currency b in
      (\<forall>l \<in> set (bd_lines b). line_built c l) \<and>
      (\<forall>t \<in> set (bd_tenders b). mo_currency (tn_amount t) = c) \<and>
      mo_currency (bd_tip b) = c \<and> mo_currency (bd_service_charge b) = c)"

lemma new_builder_ok: "new_builder o' = Inr b \<Longrightarrow> builder_ok b"
  by (auto simp: new_builder_def builder_ok_def builder_currency_def zeroMoney_def make_money_def split: if_splits)

lemma zero_currency: "zeroMoney c = Inr m \<Longrightarrow> mo_currency m = c"
  by (auto simp: zeroMoney_def make_money_def split: if_splits)

lemma addLine_ok: "addLine k i p b = Inr b' \<Longrightarrow> builder_ok b \<Longrightarrow> builder_ok b'"
  by (auto simp: addLine_def builder_ok_def builder_currency_def assertCurrency_def or_zero_def line_built_def
      line_moneys_def make_money_def Let_def split: if_splits option.splits dest: zero_currency)

lemma apply_step_ok: "apply_step s b = Inr b' \<Longrightarrow> builder_ok b \<Longrightarrow> builder_ok b'"
  by (cases s)
    (auto simp: addItem_def addModifier_def addFee_def addTender_def setTip_def setServiceCharge_def close_at_def
      assertCurrency_def dest: addLine_ok split: if_splits,
     auto simp: builder_ok_def builder_currency_def Let_def)

lemma apply_steps_ok: "builder_ok b \<Longrightarrow> builder_ok (apply_steps ss b)"
  by (induction ss arbitrary: b) (auto split: sum.split dest: apply_step_ok)

text \<open>The totals are sums over the lines, in the builder's currency.\<close>

definition line_sum :: "builder \<Rightarrow> (order_line \<Rightarrow> money) \<Rightarrow> int" where
  "line_sum b f = (\<Sum>l\<leftarrow>bd_lines b. mo_amount (f l))"

lemma sum_of_lines:
  assumes "zeroMoney c = Inr zero" "addMoney (zero # map f ls) = Inr m"
  shows "mo_amount m = (\<Sum>l\<leftarrow>ls. mo_amount (f l))" "mo_currency m = c"
  using assms by (auto simp: addMoney_Inr zeroMoney_def make_money_def o_def split: if_splits)

lemma built_totals_sums:
  assumes "built_totals b = Inr t"
  shows "mo_amount (tt_subtotal t) = line_sum b ln_subtotal" "mo_amount (tt_discount t) = line_sum b ln_discount"
    and "mo_amount (tt_tax t) = line_sum b ln_tax"
    and "tt_tip t = bd_tip b" "tt_service_charge t = bd_service_charge b"
    and "expected_total t = mo_amount (tt_total t)"
    and "\<forall>m \<in> set (totals_moneys t). mo_currency m = builder_currency b"
proof -
  from assms obtain zero less where parts:
    "zeroMoney (builder_currency b) = Inr zero"
    "addMoney (zero # map ln_subtotal (bd_lines b)) = Inr (tt_subtotal t)"
    "addMoney (zero # map ln_discount (bd_lines b)) = Inr (tt_discount t)"
    "addMoney (zero # map ln_tax (bd_lines b)) = Inr (tt_tax t)"
    "make_money (- mo_amount (tt_discount t)) (builder_currency b) = Inr less"
    "addMoney [tt_subtotal t, less, tt_tax t, bd_tip b, bd_service_charge b] = Inr (tt_total t)"
    "tt_tip t = bd_tip b" "tt_service_charge t = bd_service_charge b"
    by (auto simp: built_totals_def)
  note sums = sum_of_lines [OF parts(1,2)] sum_of_lines [OF parts(1,3)] sum_of_lines [OF parts(1,4)]
  show "mo_amount (tt_subtotal t) = line_sum b ln_subtotal" "mo_amount (tt_discount t) = line_sum b ln_discount"
    "mo_amount (tt_tax t) = line_sum b ln_tax" "tt_tip t = bd_tip b" "tt_service_charge t = bd_service_charge b"
    using sums parts(7,8) by (simp_all add: line_sum_def)
  show "expected_total t = mo_amount (tt_total t)" "\<forall>m \<in> set (totals_moneys t). mo_currency m = builder_currency b"
    using sums parts(5-8)
    by (auto simp: addMoney_Inr make_money_def expected_total_def totals_moneys_def split: if_splits)
qed

text \<open>What is left to the caller: everything but the arithmetic.\<close>

definition sale_ok :: "order \<Rightarrow> bool" where
  "sale_ok d \<longleftrightarrow>
     distinct (map ln_line_id (od_lines d)) \<and>
     (\<forall>l \<in> set (od_lines d). 0 \<le> mo_amount (ln_unit_price l) \<and> 0 \<le> mo_amount (ln_tax l) \<and>
        0 \<le> mo_amount (ln_discount l) \<and> mo_amount (ln_discount l) \<le> mo_amount (ln_subtotal l) \<and>
        parent_resolves (od_lines d) l) \<and>
     0 \<le> mo_amount (tt_tip (od_totals d)) \<and> 0 \<le> mo_amount (tt_service_charge (od_totals d)) \<and>
     (\<forall>tn \<in> set (tenders_of d). 0 \<le> mo_amount (tn_amount tn)) \<and>
     (od_status d = Paid \<longrightarrow> od_tenders d \<noteq> None \<longrightarrow>
        (\<Sum>tn\<leftarrow>tenders_of d. mo_amount (tn_amount tn)) = mo_amount (tt_total (od_totals d)))"

lemma reconciles_sale_ok: "order_reconciles d \<Longrightarrow> sale_ok d"
  by (auto simp: order_reconciles_def sale_ok_def line_reconciles_def totals_moneys_def)

lemma sale_ok_reconciles:
  assumes "builder_ok b" "built_totals b = Inr t" "sale_ok (built_order now b t)"
  shows "order_reconciles (built_order now b t)"
proof -
  let ?d = "built_order now b t"
  note totals = built_totals_sums [OF assms(2)]
  have fields: "od_lines ?d = bd_lines b" "od_totals ?d = t" "set (tenders_of ?d) = set (bd_tenders b)"
    by (simp_all add: built_order_def tenders_of_def Let_def)
  have ok: "\<forall>l \<in> set (bd_lines b). line_built (builder_currency b) l"
    "\<forall>x \<in> set (bd_tenders b). mo_currency (tn_amount x) = builder_currency b"
    using assms(1) by (simp_all add: builder_ok_def Let_def)
  have lines: "\<forall>l \<in> set (bd_lines b). line_reconciles l \<and> parent_resolves (bd_lines b) l"
    using assms(3) ok(1) by (auto simp: sale_ok_def line_reconciles_def line_built_def fields)
  have "0 \<le> line_sum b ln_tax" "0 \<le> line_sum b ln_discount" "line_sum b ln_discount \<le> line_sum b ln_subtotal"
    unfolding line_sum_def using lines
    by (auto intro!: sum_list_nonneg_int sum_list_mono_int simp: line_reconciles_def)
  then have "\<forall>m \<in> set (totals_moneys t). 0 \<le> mo_amount m"
    using totals assms(3) by (auto simp: sale_ok_def fields totals_moneys_def expected_total_def)
  moreover have "\<forall>m \<in> set (moneyFields ?d). mo_currency m = mo_currency (tt_total t)"
    using totals(7) ok by (auto simp: moneyFields_def fields line_built_def totals_moneys_def)
  ultimately show ?thesis
    using totals lines assms(3) by (simp add: order_reconciles_def sale_ok_def fields line_sum_def)
qed

text \<open>
  C14. The order builder gets the arithmetic right by construction. After any calls of its
  methods, \<open>build\<close> returns an order exactly when the sums stay safe integers and the order
  conforms to the schema and is a sale: distinct line ids, resolvable parents, no negative
  amount, no discount above its line, tenders that pay a paid order. Currencies, line
  subtotals and the six totals always reconcile.
\<close>

theorem built_orders_reconcile:
  assumes "new_builder o' = Inr b0" and b: "b = apply_steps ss b0"
  shows "build parse ajv now b = Inr d \<longleftrightarrow>
    (\<exists>t. built_totals b = Inr t \<and> d = built_order now b t \<and> order_conforms parse d \<and> sale_ok d)"
proof -
  have ok: "builder_ok b" unfolding b by (intro apply_steps_ok new_builder_ok [OF assms(1)])
  have "(case validateFoodserviceOrder parse ajv (built_order now b t) of
         Inl issues \<Rightarrow> Inl (Validation_error issues) | Inr _ \<Rightarrow> Inr (built_order now b t)) = Inr d \<longleftrightarrow>
      d = built_order now b t \<and> order_conforms parse d \<and> sale_ok d" if "built_totals b = Inr t" for t
    using sale_ok_reconciles [OF ok that, of now] reconciles_sale_ok [of "built_order now b t"]
    by (cases "order_conforms parse (built_order now b t)"; cases "order_issues (built_order now b t) = []")
      (auto simp: validateFoodserviceOrder_def order_issues_Nil_iff)
  then show ?thesis by (auto simp: build_def)
qed

section \<open>An example\<close>

definition sample_options :: builder_options where
  "sample_options =
     \<lparr>bo_order_id = ''o1'',
      bo_scope = \<lparr>sc_program_id = ''demo'', sc_brand_id = ''brand'', sc_merchant_id = ''merchant'',
        sc_location_id = ''loc1'', sc_franchisee_id = None\<rparr>,
      bo_currency = ''USD'', bo_channel = Counter, bo_business_date = ''2026-01-01'', bo_placed_at = None,
      bo_order_number = None, bo_member_id = None, bo_status = Some Paid\<rparr>"

definition sample_item :: "string \<Rightarrow> int \<Rightarrow> int \<Rightarrow> builder_line" where
  "sample_item i price off =
     \<lparr>bi_line_id = i, bi_product_id = ''burger'', bi_unit_price = \<lparr>mo_amount = price, mo_currency = ''USD''\<rparr>,
      bi_quantity = Some 2, bi_discount = Some \<lparr>mo_amount = off, mo_currency = ''USD''\<rparr>, bi_tax = None,
      bi_sku = None, bi_name = None, bi_category_ids = None, bi_tags = None, bi_loyalty_eligible = None,
      bi_metadata = None\<rparr>"

definition sample_steps :: "builder_step list" where
  "sample_steps =
     [Add_item (sample_item ''l1'' 500 100), Add_modifier ''l1'' (sample_item ''l2'' 50 0),
      Set_tip \<lparr>mo_amount = 75, mo_currency = ''EUR''\<rparr>, Set_tip \<lparr>mo_amount = 75, mo_currency = ''USD''\<rparr>,
      Add_tender \<lparr>tn_tender_id = ''t1'', tn_type = Card, tn_amount = \<lparr>mo_amount = 1075, mo_currency = ''USD''\<rparr>\<rparr>]"

definition start_builder :: builder where
  "start_builder = (case new_builder sample_options of Inr b \<Rightarrow> b)"

definition sample_built :: "sdk_error + order" where
  "sample_built = build iso_parse (\<lambda>_. []) ''2026-01-01T00:00:00.000Z'' (apply_steps sample_steps start_builder)"

lemma sample_start: "new_builder sample_options = Inr start_builder"
  by code_simp

lemma sample_total: "(case sample_built of Inl _ \<Rightarrow> None | Inr d \<Rightarrow> Some (mo_amount (tt_total (od_totals d)))) = Some 1075"
  by code_simp

text \<open>The tip in another currency is refused and leaves no trace.\<close>

theorem built_orders_reconcile_witness:
  "\<exists>d. sample_built = Inr d \<and> sale_ok d \<and> mo_amount (tt_total (od_totals d)) = 1075"
proof -
  obtain d where "sample_built = Inr d" "mo_amount (tt_total (od_totals d)) = 1075"
    using sample_total by (auto split: sum.splits)
  then show ?thesis
    using built_orders_reconcile [OF sample_start refl, of iso_parse "\<lambda>_. []" "''2026-01-01T00:00:00.000Z''" sample_steps]
    by (auto simp: sample_built_def)
qed

end
