(* ===== verification/Js_Text.thy ===== *)
theory Js_Text
  imports Validation
begin

text \<open>
  String methods of the ECMAScript standard the packages use, on the characters below 256,
  and \<open>[...new Set(xs)]\<close>, which keeps the first of equal elements.
\<close>

definition js_space :: "char \<Rightarrow> bool" where
  "js_space c = (let n = (of_char c :: int) in (9 \<le> n \<and> n \<le> 13) \<or> n = 32 \<or> n = 160)"

definition trim :: "string \<Rightarrow> string" where
  "trim t = rev (dropWhile js_space (rev (dropWhile js_space t)))"

definition lower_char :: "char \<Rightarrow> char" where
  "lower_char c =
     (let n = (of_char c :: int) in
      if (65 \<le> n \<and> n \<le> 90) \<or> (192 \<le> n \<and> n \<le> 222 \<and> n \<noteq> 215) then char_of (n + 32) else c)"

definition to_lower :: "string \<Rightarrow> string" where
  "to_lower t = map lower_char t"

fun split_on :: "char \<Rightarrow> string \<Rightarrow> string list" where
  "split_on c [] = [[]]"
| "split_on c (x # xs) =
     (if x = c then [] # split_on c xs
      else case split_on c xs of [] \<Rightarrow> [[x]] | part # parts \<Rightarrow> (x # part) # parts)"

fun js_unique :: "'a list \<Rightarrow> 'a list" where
  "js_unique [] = []"
| "js_unique (x # xs) = x # filter (\<lambda>y. y \<noteq> x) (js_unique xs)"

lemma set_js_unique [simp]: "set (js_unique xs) = set xs"
  by (induction xs) auto

lemma distinct_js_unique [simp]: "distinct (js_unique xs)"
  by (induction xs) auto

lemma js_unique_eq_Nil [simp]: "js_unique xs = [] \<longleftrightarrow> xs = []"
  by (cases xs) simp_all

lemma drop_none: "(\<And>x. x \<in> set xs \<Longrightarrow> \<not> P x) \<Longrightarrow> dropWhile P xs = xs"
  by (cases xs) simp_all

lemma split_none: "c \<notin> set t \<Longrightarrow> split_on c t = [t]"
  by (induction t) auto

lemma trim_none: "(\<And>c. c \<in> set t \<Longrightarrow> \<not> js_space c) \<Longrightarrow> trim t = t"
  using drop_none [of t js_space] drop_none [of "rev t" js_space] by (simp add: trim_def)

lemma trim_trim [simp]: "trim (trim t) = trim t"
proof -
  have keep: "dropWhile js_space (dropWhile js_space u) = dropWhile js_space u" for u
    by (induction u) simp_all
  have ends: "u = [] \<or> \<not> js_space (hd u) \<Longrightarrow> dropWhile js_space (rev (dropWhile js_space (rev u))) = rev (dropWhile js_space (rev u))"
    for u
  proof (induction u rule: rev_induct)
    case (snoc x xs)
    then show ?case by (cases xs) (auto simp: hd_append)
  qed simp
  have "dropWhile js_space t = [] \<or> \<not> js_space (hd (dropWhile js_space t))"
    using hd_dropWhile by blast
  from ends [OF this] show ?thesis by (simp add: trim_def keep)
qed

end
