(* ===== verification/Sdk_Webhooks.thy ===== *)
theory Sdk_Webhooks
  imports Sdk_Money Js_Text "HOL-Library.Word"
begin

unbundle bit_operations_syntax

text \<open>
  packages/sdk/src/webhooks.ts: signing and verifying webhook deliveries. Bytes are
  \<open>8 word\<close>; \<open>crypto.subtle.sign\<close> with HMAC-SHA-256 is the parameter \<open>hmac\<close> (key, message);
  \<open>btoa\<close>, \<open>atob\<close> and \<open>TextEncoder\<close> are defined as the platform standards have them, on the
  characters below 256 this development has.
\<close>

type_synonym bytes = "8 word list"

text \<open>The codes of LipWebhookVerificationError, the RangeError, and the DataError of the platform.\<close>

datatype webhook_error =
  Invalid_header | Invalid_signature | Timestamp_out_of_tolerance | Webhook_range_error | Webhook_data_error

section \<open>Bytes and text\<close>

definition utf8_char :: "char \<Rightarrow> bytes" where
  "utf8_char c =
     (let n = (of_char c :: int) in
      if n < 128 then [word_of_int n] else [word_of_int (192 + n div 64), word_of_int (128 + n mod 64)])"

definition utf8 :: "string \<Rightarrow> bytes" where
  "utf8 t = concat (map utf8_char t)"

datatype webhook_data = Text string | Raw bytes

fun bytes_of :: "webhook_data \<Rightarrow> bytes" where
  "bytes_of (Text t) = utf8 t"
| "bytes_of (Raw bs) = bs"

section \<open>Base 64\<close>

definition b64_char :: "int \<Rightarrow> char" where
  "b64_char n =
     (if n < 26 then char_of (65 + n) else if n < 52 then char_of (97 + (n - 26))
      else if n < 62 then char_of (48 + (n - 52)) else if n = 62 then CHR ''+'' else CHR ''/'')"

definition b64_value :: "char \<Rightarrow> int option" where
  "b64_value c =
     (let n = (of_char c :: int) in
      if 65 \<le> n \<and> n \<le> 90 then Some (n - 65) else if 97 \<le> n \<and> n \<le> 122 then Some (n - 97 + 26)
      else if 48 \<le> n \<and> n \<le> 57 then Some (n - 48 + 52)
      else if c = CHR ''+'' then Some 62 else if c = CHR ''/'' then Some 63 else None)"

fun btoa :: "bytes \<Rightarrow> string" where
  "btoa [] = []"
| "btoa [a] = [b64_char (uint a div 4), b64_char (uint a mod 4 * 16), CHR ''='', CHR ''='']"
| "btoa [a, b] =
     [b64_char (uint a div 4), b64_char (uint a mod 4 * 16 + uint b div 16),
      b64_char (uint b mod 16 * 4), CHR ''='']"
| "btoa (a # b # c # bs) =
     [b64_char (uint a div 4), b64_char (uint a mod 4 * 16 + uint b div 16),
      b64_char (uint b mod 16 * 4 + uint c div 64), b64_char (uint c mod 64)] @ btoa bs"

text \<open>The four sextets of three bytes; what is left over at the end is dropped.\<close>

fun sextets :: "int list \<Rightarrow> bytes option" where
  "sextets [] = Some []"
| "sextets [p] = None"
| "sextets [p, q] = Some [word_of_int (p * 4 + q div 16)]"
| "sextets [p, q, r] = Some [word_of_int (p * 4 + q div 16), word_of_int (q mod 16 * 16 + r div 4)]"
| "sextets (p # q # r # s # xs) =
     map_option (\<lambda>bs. [word_of_int (p * 4 + q div 16), word_of_int (q mod 16 * 16 + r div 4),
       word_of_int (r mod 4 * 64 + s)] @ bs) (sextets xs)"

text \<open>\<open>atob\<close> on text without white space: up to two \<open>=\<close> go from the end of a multiple of four.\<close>

definition drop_padding :: "string \<Rightarrow> string" where
  "drop_padding t =
     (if length t mod 4 = 0 \<and> t \<noteq> [] \<and> last t = CHR ''='' then
        (let u = butlast t in if u \<noteq> [] \<and> last u = CHR ''='' then butlast u else u)
      else t)"

definition atob :: "string \<Rightarrow> bytes option" where
  "atob t = (let vs = map b64_value (drop_padding t) in if None \<in> set vs then None else sextets (map the vs))"

definition base64Url :: "bytes \<Rightarrow> string" where
  "base64Url bs =
     rev (dropWhile (\<lambda>c. c = CHR ''='') (rev (map (\<lambda>c. if c = CHR ''/'' then CHR ''_'' else c)
       (map (\<lambda>c. if c = CHR ''+'' then CHR ''-'' else c) (btoa bs)))))"

definition url_char :: "char \<Rightarrow> bool" where
  "url_char c = (is_alnum c \<or> c = CHR ''_'' \<or> c = CHR ''-'')"

definition decodeBase64Url :: "string \<Rightarrow> bytes option" where
  "decodeBase64Url t =
     (if t = [] \<or> \<not> list_all url_char t then None
      else let standard = map (\<lambda>c. if c = CHR ''_'' then CHR ''/'' else c)
                            (map (\<lambda>c. if c = CHR ''-'' then CHR ''+'' else c) t);
               n = (length standard + 3) div 4 * 4
           in atob (standard @ replicate (n - length standard) CHR ''=''))"

section \<open>Constant time comparison\<close>

text \<open>\<open>^\<close> and \<open>|\<close> work on 32-bit integers.\<close>

definition byte_at :: "bytes \<Rightarrow> nat \<Rightarrow> 32 word" where
  "byte_at bs i = (if i < length bs then word_of_int (uint (bs ! i)) else 0)"

definition constantTimeEqual :: "bytes \<Rightarrow> bytes \<Rightarrow> bool" where
  "constantTimeEqual left right =
     (let n = max (length left) (length right) in
      foldl (\<lambda>difference i. difference OR (byte_at left i XOR byte_at right i))
        (word_of_nat (length left) XOR word_of_nat (length right)) [0..<n] = 0)"

section \<open>Signing and verifying\<close>

text \<open>\<open>crypto.subtle.importKey\<close> refuses a key of no bytes with a DataError.\<close>

definition digest ::
  "(bytes \<Rightarrow> bytes \<Rightarrow> bytes) \<Rightarrow> webhook_data \<Rightarrow> webhook_data \<Rightarrow> string \<Rightarrow> webhook_error + bytes"
where
  "digest hmac payload secret timestamp =
     (if bytes_of secret = [] then Inl Webhook_data_error
      else Inr (hmac (bytes_of secret) (utf8 (timestamp @ ''.'') @ bytes_of payload)))"

definition timestampSeconds :: "string \<Rightarrow> webhook_error + int" where
  "timestampSeconds t =
     (if t = [] \<or> \<not> list_all is_digit t then Inl Invalid_header
      else if \<not> is_safe_integer (dec_value t) then Inl Invalid_header
      else Inr (dec_value t))"

record webhook_signature =
  ws_timestamp :: string
  ws_signature :: string

definition signWebhook ::
  "(bytes \<Rightarrow> bytes \<Rightarrow> bytes) \<Rightarrow> webhook_data \<Rightarrow> webhook_data \<Rightarrow> int \<Rightarrow> webhook_error + webhook_signature"
where
  "signWebhook hmac payload secret timestamp =
     (if \<not> is_safe_integer timestamp \<or> timestamp < 0 then Inl Webhook_range_error
      else let header = dec_string timestamp in
        case digest hmac payload secret header of
          Inl e \<Rightarrow> Inl e
        | Inr d \<Rightarrow> Inr \<lparr>ws_timestamp = header, ws_signature = ''v1='' @ base64Url d\<rparr>)"

definition candidates_of :: "string \<Rightarrow> bytes list" where
  "candidates_of signature =
     List.map_filter (\<lambda>part. decodeBase64Url (drop 3 part))
       (filter (\<lambda>part. take 3 part = ''v1='') (map trim (split_on CHR '','' signature)))"

record verify_options =
  vo_payload :: webhook_data
  vo_secret :: webhook_data
  vo_timestamp :: string
  vo_signature :: string
  vo_tolerance :: "int option"

text \<open>\<open>now\<close> is the time in milliseconds the clock gives.\<close>

definition verifyWebhook :: "(bytes \<Rightarrow> bytes \<Rightarrow> bytes) \<Rightarrow> int \<Rightarrow> verify_options \<Rightarrow> webhook_error + unit" where
  "verifyWebhook hmac now v =
     (case timestampSeconds (vo_timestamp v) of
        Inl e \<Rightarrow> Inl e
      | Inr timestamp \<Rightarrow>
          (let tolerance = (case vo_tolerance v of None \<Rightarrow> 300 | Some n \<Rightarrow> n) in
           if \<not> is_safe_integer tolerance \<or> tolerance < 0 then Inl Webhook_range_error
           else if \<bar>now div 1000 - timestamp\<bar> > tolerance then Inl Timestamp_out_of_tolerance
           else let candidates = candidates_of (vo_signature v) in
             if candidates = [] then Inl Invalid_header
             else
               case digest hmac (vo_payload v) (vo_secret v) (vo_timestamp v) of
                 Inl e \<Rightarrow> Inl e
               | Inr expected \<Rightarrow>
                   if \<not> list_ex (\<lambda>c. constantTimeEqual c expected) candidates then Inl Invalid_signature
                   else Inr ()))"

section \<open>Base 64 round trip\<close>

fun sextets_of :: "bytes \<Rightarrow> int list" where
  "sextets_of [] = []"
| "sextets_of [a] = [uint a div 4, uint a mod 4 * 16]"
| "sextets_of [a, b] = [uint a div 4, uint a mod 4 * 16 + uint b div 16, uint b mod 16 * 4]"
| "sextets_of (a # b # c # bs) =
     [uint a div 4, uint a mod 4 * 16 + uint b div 16, uint b mod 16 * 4 + uint c div 64, uint c mod 64] @
     sextets_of bs"

lemma uint_byte: "0 \<le> uint (a :: 8 word)" "uint a < 256"
  using uint_lt2p [of a] by simp_all

lemma btoa_sextets: "\<exists>n. btoa bs = map b64_char (sextets_of bs) @ replicate n CHR ''=''"
proof (induction bs rule: btoa.induct)
  case 1
  show ?case by (simp add: exI [of _ 0])
next
  case (2 a)
  show ?case by (simp add: exI [of _ 2] eval_nat_numeral)
next
  case (3 a b)
  show ?case by (simp add: exI [of _ 1])
qed simp

lemma byte_parts:
  fixes a :: "8 word"
  shows "0 \<le> uint a div 4" "uint a div 4 < 64" "0 \<le> uint a div 16" "uint a div 16 < 16"
    "0 \<le> uint a div 64" "uint a div 64 < 4"
  using uint_byte [of a] by (simp_all add: pos_imp_zdiv_nonneg_iff)

definition sextet :: "int \<Rightarrow> bool" where
  "sextet s \<longleftrightarrow> 0 \<le> s \<and> s < 64"

lemma sextet_sum: "0 \<le> x \<Longrightarrow> x < 64 div k \<Longrightarrow> 0 \<le> y \<Longrightarrow> y < k \<Longrightarrow> k \<in> {4, 16} \<Longrightarrow> sextet (x * k + y)"
  by (auto simp: sextet_def)

lemma sextet_simps:
  fixes a b c :: "8 word"
  shows "sextet (uint a div 4)" "sextet (uint a mod 4 * 16)" "sextet (uint a mod 4 * 16 + uint b div 16)"
    "sextet (uint b mod 16 * 4)" "sextet (uint b mod 16 * 4 + uint c div 64)" "sextet (uint c mod 64)"
proof -
  show "sextet (uint a div 4)" using byte_parts(1,2) by (simp add: sextet_def)
  show "sextet (uint c mod 64)" by (simp add: sextet_def)
  show "sextet (uint a mod 4 * 16 + uint b div 16)" "sextet (uint b mod 16 * 4 + uint c div 64)"
    by (rule sextet_sum; simp add: byte_parts)+
  show "sextet (uint a mod 4 * 16)" "sextet (uint b mod 16 * 4)"
    using sextet_sum [of "uint a mod 4" 16 0] sextet_sum [of "uint b mod 16" 4 0] by simp_all
qed

lemma sextet_range: "list_all sextet (sextets_of bs)"
  by (induction bs rule: sextets_of.induct) (simp_all only: sextets_of.simps list_all_append list.pred_inject sextet_simps simp_thms)

lemma first_byte: "0 \<le> x \<Longrightarrow> x < 16 \<Longrightarrow> a div 4 * 4 + (a mod 4 * 16 + x) div 16 = (a :: int)"
  by simp

lemma second_byte: "0 \<le> b \<Longrightarrow> b < 256 \<Longrightarrow> 0 \<le> y \<Longrightarrow> y < 4 \<Longrightarrow>
    (a * 16 + b div 16) mod 16 * 16 + (b mod 16 * 4 + y) div 4 = (b :: int)"
  by (simp add: mod_pos_pos_trivial pos_imp_zdiv_nonneg_iff)

lemma third_byte: "0 \<le> c \<Longrightarrow> c < 256 \<Longrightarrow> (b * 4 + c div 64) mod 4 * 64 + c mod 64 = (c :: int)"
  by (simp add: mod_pos_pos_trivial pos_imp_zdiv_nonneg_iff)

text \<open>The bytes three sextets and the next are made of.\<close>

lemma bytes_of_sextets:
  fixes a b c :: "8 word"
  shows "word_of_int (uint a div 4 * 4 + uint a mod 4 * 16 div 16) = a"
    "word_of_int (uint a div 4 * 4 + (uint a mod 4 * 16 + uint b div 16) div 16) = a"
    "word_of_int ((uint a mod 4 * 16 + uint b div 16) mod 16 * 16 + uint b mod 16 * 4 div 4) = b"
    "word_of_int ((uint a mod 4 * 16 + uint b div 16) mod 16 * 16 + (uint b mod 16 * 4 + uint c div 64) div 4) = b"
    "word_of_int ((uint b mod 16 * 4 + uint c div 64) mod 4 * 64 + uint c mod 64) = c"
  using first_byte [of 0 "uint a"] first_byte [of "uint b div 16" "uint a"]
    second_byte [of "uint b" 0 "uint a mod 4"] second_byte [of "uint b" "uint c div 64" "uint a mod 4"]
    third_byte [of "uint c" "uint b mod 16"] byte_parts [of b] byte_parts [of c] uint_byte [of b] uint_byte [of c]
  by (simp_all only: simp_thms add_0_right zero_less_numeral order_refl word_of_int_uint)

lemma sextets_round_trip: "sextets (sextets_of bs) = Some bs"
  by (induction bs rule: sextets_of.induct)
    (simp_all only: sextets_of.simps sextets.simps append.simps bytes_of_sextets option.map)

definition b64_ok :: "int \<Rightarrow> bool" where
  "b64_ok s \<longleftrightarrow>
     b64_value (b64_char s) = Some s \<and> b64_char s \<notin> set ''=-_'' \<and>
     (is_alnum (b64_char s) \<or> b64_char s \<in> set ''+/'')"

lemma b64_char: "sextet s \<Longrightarrow> b64_ok s"
proof -
  assume "sextet s"
  then have "0 \<le> s" "s < 64" by (simp_all add: sextet_def)
  then have "s \<in> set [0..63]" by simp
  moreover have "list_all b64_ok [0..63]" by code_simp
  ultimately show ?thesis by (simp only: list_all_iff)
qed

definition to_url :: "char \<Rightarrow> char" where
  "to_url c = (if c = CHR ''+'' then CHR ''-'' else if c = CHR ''/'' then CHR ''_'' else c)"

definition from_url :: "char \<Rightarrow> char" where
  "from_url c = (if c = CHR ''-'' then CHR ''+'' else if c = CHR ''_'' then CHR ''/'' else c)"

definition standard_of :: "bytes \<Rightarrow> string" where
  "standard_of bs = map b64_char (sextets_of bs)"

lemma standard_chars:
  assumes "c \<in> set (standard_of bs)"
  shows "c \<notin> set ''=-_''" "is_alnum c \<or> c \<in> set ''+/''"
  using assms sextet_range [of bs] b64_char by (auto simp: standard_of_def list_all_iff b64_ok_def)

lemma base64Url_eq: "base64Url bs = map to_url (standard_of bs)"
proof -
  obtain n where n: "btoa bs = standard_of bs @ replicate n CHR ''=''"
    using btoa_sextets by (auto simp: standard_of_def)
  have "map (\<lambda>c. if c = CHR ''/'' then CHR ''_'' else c) (map (\<lambda>c. if c = CHR ''+'' then CHR ''-'' else c) (btoa bs))
      = map to_url (standard_of bs) @ replicate n CHR ''=''"
    by (simp add: n to_url_def)
  moreover have "dropWhile (\<lambda>c. c = CHR ''='') (replicate n CHR ''='' @ xs) = dropWhile (\<lambda>c. c = CHR ''='') xs" for xs
    by (induction n) simp_all
  moreover have "dropWhile (\<lambda>c. c = CHR ''='') (rev (map to_url (standard_of bs))) = rev (map to_url (standard_of bs))"
    using standard_chars(1) [of _ bs] by (intro drop_none) (auto simp: to_url_def)
  ultimately show ?thesis by (simp add: base64Url_def)
qed

lemma url_round_trip:
  "list_all url_char (base64Url bs)"
  "map from_url (base64Url bs) = standard_of bs"
  using standard_chars [of _ bs]
  by (auto simp: base64Url_eq list_all_iff url_char_def to_url_def from_url_def intro!: map_idI)

lemma length_sextets: "length (sextets_of bs) mod 4 \<noteq> 1"
  by (induction bs rule: sextets_of.induct) (simp_all add: mod_Suc)

lemma padding_two: "(n :: nat) mod 4 = 2 \<Longrightarrow> (n + 3) div 4 * 4 - n = 2"
  by presburger

lemma padding_one: "(n :: nat) mod 4 = 3 \<Longrightarrow> (n + 3) div 4 * 4 - n = 1"
  by presburger

lemma decode_from_url:
  "decodeBase64Url t =
     (if t = [] \<or> \<not> list_all url_char t then None
      else atob (map from_url t @ replicate ((length t + 3) div 4 * 4 - length t) CHR ''=''))"
proof -
  have "map (\<lambda>c. if c = CHR ''_'' then CHR ''/'' else c) (map (\<lambda>c. if c = CHR ''-'' then CHR ''+'' else c) t)
      = map from_url t"
    by (auto simp: from_url_def)
  then show ?thesis by (simp add: decodeBase64Url_def Let_def del: map_map)
qed

lemma drop_padding_pads:
  assumes "CHR ''='' \<notin> set t" "length t mod 4 \<noteq> 1"
  shows "drop_padding (t @ replicate ((length t + 3) div 4 * 4 - length t) CHR ''='') = t"
proof -
  have last: "last t \<noteq> CHR ''=''" if "t \<noteq> []" using assms(1) that by (metis last_in_set)
  consider "length t mod 4 = 0" | "length t mod 4 = 2" | "length t mod 4 = 3" using assms(2) by linarith
  then show ?thesis
  proof cases
    case 1
    then have "(length t + 3) div 4 * 4 - length t = 0" by presburger
    then show ?thesis using last by (auto simp: drop_padding_def)
  next
    case 2
    then have "(length t + 3) div 4 * 4 - length t = 2" "length (t @ ''=='') mod 4 = 0"
      using padding_two by (auto simp: mod_Suc)
    moreover have "drop_padding (t @ ''=='') = t" if "length (t @ ''=='') mod 4 = 0"
      using that by (simp add: drop_padding_def butlast_append)
    moreover have "replicate 2 CHR ''='' = ''==''" by (simp add: numeral_2_eq_2)
    ultimately show ?thesis by (simp only:)
  next
    case 3
    then have "(length t + 3) div 4 * 4 - length t = 1" "length (t @ ''='') mod 4 = 0"
      using padding_one by (auto simp: mod_Suc)
    moreover have "drop_padding (t @ ''='') = t" if "length (t @ ''='') mod 4 = 0"
      using that last by (auto simp: drop_padding_def butlast_append)
    ultimately show ?thesis by simp
  qed
qed

lemma base64Url_round_trip:
  assumes "bs \<noteq> []"
  shows "decodeBase64Url (base64Url bs) = Some bs"
proof -
  have "standard_of bs \<noteq> []" using assms by (cases bs rule: sextets_of.cases) (auto simp: standard_of_def)
  moreover have "atob (standard_of bs @ replicate ((length (standard_of bs) + 3) div 4 * 4 - length (standard_of bs)) CHR ''='')
      = Some bs"
  proof -
    have vals: "map b64_value (standard_of bs) = map Some (sextets_of bs)"
      using sextet_range [of bs] b64_char by (auto simp: standard_of_def b64_ok_def list_all_iff)
    have "CHR ''='' \<notin> set (standard_of bs)" using standard_chars(1) [of _ bs] by auto
    moreover have "length (standard_of bs) mod 4 \<noteq> 1" using length_sextets by (simp add: standard_of_def)
    ultimately have "drop_padding (standard_of bs @ replicate ((length (standard_of bs) + 3) div 4 * 4 -
        length (standard_of bs)) CHR ''='') = standard_of bs"
      by (rule drop_padding_pads)
    then show ?thesis unfolding atob_def by (simp only:) (simp add: vals Let_def o_def sextets_round_trip image_iff)
  qed
  ultimately show ?thesis
    using url_round_trip [of bs] by (auto simp: decode_from_url base64Url_eq simp del: map_map)
qed

section \<open>The comparison decides equality\<close>

lemma or_fold_zero:
  "foldl (\<lambda>d i. d OR f i) (x :: 32 word) is = 0 \<longleftrightarrow> x = 0 \<and> (\<forall>i \<in> set is. f i = 0)"
  by (induction "is" arbitrary: x) (auto simp: or_eq_0_iff)

lemma xor_zero: "(x :: 32 word) XOR y = 0 \<longleftrightarrow> x = y"
  by (metis xor_self_eq word_bw_assocs(3) xor.left_neutral)

lemma word_of_small: "m < 2 ^ 32 \<Longrightarrow> n < 2 ^ 32 \<Longrightarrow> (word_of_nat m :: 32 word) = word_of_nat n \<longleftrightarrow> m = n"
  by (simp add: word_of_nat_eq_iff take_bit_nat_eq_self)

lemma byte_extended:
  fixes x y :: "8 word"
  assumes "(ucast x :: 32 word) = ucast y"
  shows "x = y"
proof -
  have "uint (ucast z :: 32 word) = uint z" for z :: "8 word"
    using uint_byte [of z] by (simp add: unsigned_ucast_eq take_bit_int_eq_self)
  then have "uint x = uint y" using assms by metis
  then show ?thesis by (simp only: word_uint_eq_iff)
qed

lemma byte_at_eq: "i < length a \<Longrightarrow> i < length b \<Longrightarrow> byte_at a i = byte_at b i \<longleftrightarrow> a ! i = b ! i"
  by (auto simp: byte_at_def dest: byte_extended)

lemma constant_time_equality:
  assumes "length a < 2 ^ 32" "length b < 2 ^ 32"
  shows "constantTimeEqual a b \<longleftrightarrow> a = b"
proof -
  have "constantTimeEqual a b \<longleftrightarrow> length a = length b \<and> (\<forall>i < max (length a) (length b). byte_at a i = byte_at b i)"
    using word_of_small [OF assms] by (auto simp: constantTimeEqual_def or_fold_zero xor_zero Let_def)
  also have "\<dots> \<longleftrightarrow> a = b"
    using byte_at_eq [of _ a b] by (auto simp: list_eq_iff_nth_eq)
  finally show ?thesis .
qed

section \<open>Verification\<close>

definition within_tolerance :: "int \<Rightarrow> verify_options \<Rightarrow> bool" where
  "within_tolerance now v \<longleftrightarrow>
     (let tolerance = (case vo_tolerance v of None \<Rightarrow> 300 | Some n \<Rightarrow> n) in
      is_safe_integer tolerance \<and> 0 \<le> tolerance \<and>
      (case timestampSeconds (vo_timestamp v) of
         Inl _ \<Rightarrow> False | Inr timestamp \<Rightarrow> \<bar>now div 1000 - timestamp\<bar> \<le> tolerance))"

lemma accepts_iff:
  assumes "\<And>d. digest hmac (vo_payload v) (vo_secret v) (vo_timestamp v) = Inr d \<Longrightarrow> length d < 2 ^ 32"
    and "\<forall>c \<in> set (candidates_of (vo_signature v)). length c < 2 ^ 32"
  shows "verifyWebhook hmac now v = Inr () \<longleftrightarrow>
    within_tolerance now v \<and>
    (\<exists>d \<in> set (candidates_of (vo_signature v)). digest hmac (vo_payload v) (vo_secret v) (vo_timestamp v) = Inr d)"
proof (cases "digest hmac (vo_payload v) (vo_secret v) (vo_timestamp v)")
  case (Inl e)
  then show ?thesis by (auto simp: verifyWebhook_def Let_def split: sum.split if_splits)
next
  case (Inr d)
  have "list_ex (\<lambda>c. constantTimeEqual c d) (candidates_of (vo_signature v)) \<longleftrightarrow> d \<in> set (candidates_of (vo_signature v))"
    using assms(2) assms(1) [OF Inr] constant_time_equality [of _ d] by (auto simp: list_ex_iff)
  then show ?thesis
    using Inr by (auto simp: verifyWebhook_def within_tolerance_def Let_def split: sum.split if_splits)
qed

text \<open>
  C15. A delivery is accepted exactly when its timestamp is Unix seconds within the
  tolerance of the clock and one of the v1 values of the signature header decodes to the
  HMAC of the timestamp, a dot and the payload under the receiver's secret, which is not empty;
  the constant-time loop decides equality. (Byte strings are shorter than 2 to the 32, where
  the loop's exclusive or of the lengths is exact.)
\<close>

theorem verify_accepts_exactly:
  assumes "\<And>d. digest hmac (vo_payload v) (vo_secret v) (vo_timestamp v) = Inr d \<Longrightarrow> length d < 2 ^ 32"
    and "\<forall>c \<in> set (candidates_of (vo_signature v)). length c < 2 ^ 32"
  shows "verifyWebhook hmac now v = Inr () \<longleftrightarrow>
    within_tolerance now v \<and>
    (\<exists>d \<in> set (candidates_of (vo_signature v)). digest hmac (vo_payload v) (vo_secret v) (vo_timestamp v) = Inr d)"
  using assms by (rule accepts_iff)

section \<open>Signing, then verifying\<close>

lemma signature_chars: "list_all url_char t \<Longrightarrow> c \<in> set (''v1='' @ t) \<Longrightarrow> c \<noteq> CHR '','' \<and> \<not> js_space c"
  by (auto simp: list_all_iff url_char_def is_alnum_def js_space_def Let_def)

lemma candidates_of_signature:
  assumes "d \<noteq> []"
  shows "candidates_of (''v1='' @ base64Url d) = [d]"
proof -
  let ?t = "''v1='' @ base64Url d"
  have chars: "c \<noteq> CHR '','' \<and> \<not> js_space c" if "c \<in> set ?t" for c
    using signature_chars [OF url_round_trip(1) that] .
  have "split_on CHR '','' ?t = [?t]" using chars by (intro split_none) blast
  moreover have "trim ?t = ?t" using chars by (intro trim_none) blast
  ultimately show ?thesis
    unfolding candidates_of_def by (simp add: base64Url_round_trip [OF assms] map_filter_simps)
qed

lemma timestamp_round_trip:
  assumes "is_safe_integer n" "0 \<le> n"
  shows "timestampSeconds (dec_string n) = Inr n"
  using dec_digits_value [OF assms(2)] assms by (simp add: timestampSeconds_def dec_string_def)

text \<open>A header with one signature, made of any bytes.\<close>

lemma header_accepts:
  assumes "d \<noteq> []" "length d < 2 ^ 32"
    and "\<And>d'. digest hmac payload secret (dec_string timestamp) = Inr d' \<Longrightarrow> length d' < 2 ^ 32"
    and "is_safe_integer timestamp" "0 \<le> timestamp"
    and "is_safe_integer tolerance" "\<bar>now div 1000 - timestamp\<bar> \<le> tolerance"
  shows "verifyWebhook hmac now \<lparr>vo_payload = payload, vo_secret = secret, vo_timestamp = dec_string timestamp,
    vo_signature = ''v1='' @ base64Url d, vo_tolerance = Some tolerance\<rparr> = Inr ()
    \<longleftrightarrow> digest hmac payload secret (dec_string timestamp) = Inr d"
proof -
  have "0 \<le> tolerance" using assms(7) by linarith
  then show ?thesis
    using assms candidates_of_signature [OF assms(1)]
    by (subst accepts_iff) (auto simp: within_tolerance_def timestamp_round_trip)
qed

text \<open>
  C16. What \<open>signWebhook\<close> signs, \<open>verifyWebhook\<close> accepts: the same payload, secret and
  header, at any clock within the tolerance of the signing time, for any HMAC with a
  non-empty output below 2 to the 32 bytes (SHA-256 has 32).
\<close>

theorem signed_deliveries_verify:
  assumes "\<And>k m. hmac k m \<noteq> [] \<and> length (hmac k m) < 2 ^ 32"
    and "signWebhook hmac payload secret timestamp = Inr w"
    and "is_safe_integer tolerance" "\<bar>now div 1000 - timestamp\<bar> \<le> tolerance"
  shows "verifyWebhook hmac now \<lparr>vo_payload = payload, vo_secret = secret, vo_timestamp = ws_timestamp w,
    vo_signature = ws_signature w, vo_tolerance = Some tolerance\<rparr> = Inr ()"
proof -
  obtain d where d: "digest hmac payload secret (dec_string timestamp) = Inr d"
    and w: "w = \<lparr>ws_timestamp = dec_string timestamp, ws_signature = ''v1='' @ base64Url d\<rparr>"
    and timestamp: "is_safe_integer timestamp" "0 \<le> timestamp"
    using assms(2) by (auto simp: signWebhook_def Let_def split: if_splits sum.splits)
  have "d \<noteq> []" "length d < 2 ^ 32"
    using d assms(1) by (auto simp: digest_def split: if_splits)
  then show ?thesis
    unfolding w webhook_signature.simps using d
    by (subst header_accepts [OF _ _ _ timestamp assms(3,4)]) simp_all
qed

section \<open>Examples\<close>

definition sample_hmac :: "bytes \<Rightarrow> bytes \<Rightarrow> bytes" where
  "sample_hmac k m = [foldl (+) 7 (k @ m), 255]"

definition sample_delivery :: verify_options where
  "sample_delivery =
     \<lparr>vo_payload = Text ''{}'', vo_secret = Text ''key'', vo_timestamp = ''1767225600'',
      vo_signature = ''v0=old, v1=xx , v1='' @ base64Url (sample_hmac (utf8 ''key'') (utf8 ''1767225600.{}'')),
      vo_tolerance = None\<rparr>"

lemma sample_candidates:
  "map length (candidates_of (vo_signature sample_delivery)) = [1, 2]"
  "list_ex (\<lambda>d. digest sample_hmac (vo_payload sample_delivery) (vo_secret sample_delivery) (vo_timestamp sample_delivery) = Inr d)
     (candidates_of (vo_signature sample_delivery))"
  "within_tolerance 1767225800000 sample_delivery"
  by code_simp+

text \<open>The header carries an older scheme, an undecodable rotation value and the signature.\<close>

theorem verify_accepts_exactly_witness:
  "verifyWebhook sample_hmac 1767225800000 sample_delivery = Inr ()"
proof -
  have "length c < 2 ^ 32" if "c \<in> set (candidates_of (vo_signature sample_delivery))" for c
  proof -
    have "length c \<in> set [1, 2]" using that sample_candidates(1) by (metis image_eqI set_map)
    then show ?thesis by auto
  qed
  moreover have "length d < 2 ^ 32" if "digest sample_hmac p k t = Inr d" for p k t d
    using that by (auto simp: digest_def sample_hmac_def split: if_splits)
  ultimately show ?thesis
    using verify_accepts_exactly [of sample_hmac sample_delivery] sample_candidates(2,3) unfolding list_ex_iff by blast
qed

definition sample_signed :: webhook_signature where
  "sample_signed = (case signWebhook sample_hmac (Text ''{}'') (Text ''key'') 1767225600 of Inr w \<Rightarrow> w)"

lemma sample_signed: "signWebhook sample_hmac (Text ''{}'') (Text ''key'') 1767225600 = Inr sample_signed"
  by (simp add: sample_signed_def signWebhook_def digest_def utf8_def utf8_char_def is_safe_integer_def max_safe_integer_def Let_def)

theorem signed_deliveries_verify_witness:
  "verifyWebhook sample_hmac 1767225900000 \<lparr>vo_payload = Text ''{}'', vo_secret = Text ''key'',
     vo_timestamp = ws_timestamp sample_signed, vo_signature = ws_signature sample_signed,
     vo_tolerance = Some 300\<rparr> = Inr ()"
  by (rule signed_deliveries_verify [OF _ sample_signed])
    (simp_all add: sample_hmac_def is_safe_integer_def max_safe_integer_def)

end
