(* ===== verification/Server_Store.thy ===== *)
theory Server_Store
  imports Program_Assert Js_Text
begin

text \<open>
  The versioned store every service of packages/server keeps its state in, and the part all
  of them share. The interface is \<open>AsyncStateStore\<close> of packages/storage/src/index.ts; the
  implementation modelled is \<open>AsyncSqliteStateStore\<close> of packages/storage-sqlite: one row
  with the state and a revision, written in a transaction that compares the revision. The
  state is JSON data, which survives \<open>JSON.stringify\<close> and \<open>JSON.parse\<close>.
\<close>

datatype service_error =
  Engine_error engine_error
| State_revision_conflict int int
| Incompatible_state

type_synonym 'a store = "('a \<times> int) option"

section \<open>The store\<close>

definition store_load :: "'a store \<Rightarrow> ('a \<times> int) option" where
  "store_load row = row"

definition store_revision :: "'a store \<Rightarrow> int" where
  "store_revision row = (case row of None \<Rightarrow> 0 | Some (_, r) \<Rightarrow> r)"

definition store_save :: "'a \<Rightarrow> int option \<Rightarrow> 'a store \<Rightarrow> (service_error + int) \<times> 'a store" where
  "store_save x expected row =
     (let current = store_revision row in
      if expected \<noteq> None \<and> expected \<noteq> Some current
      then (Inl (State_revision_conflict (the expected) current), row)
      else (Inr (current + 1), Some (x, current + 1)))"

definition store_clear :: "'a store \<Rightarrow> 'a store" where
  "store_clear row = None"

text \<open>
  What a service relies on. A write names the revision it read; it succeeds only when
  nothing was written in between, and then makes a revision that no earlier write had.
\<close>

locale versioned_store =
  fixes revision :: "'s \<Rightarrow> int"
    and read :: "'s \<Rightarrow> ('a \<times> int) option"
    and save :: "'a \<Rightarrow> int option \<Rightarrow> 's \<Rightarrow> (service_error + int) \<times> 's"
  assumes read_revision: "read s = Some (x, r) \<Longrightarrow> revision s = r"
    and save_current: "save x (Some (revision s)) s = (Inr r, t) \<Longrightarrow> read t = Some (x, r) \<and> revision s < r"
    and save_stale: "r \<noteq> revision s \<Longrightarrow> save x (Some r) s = (Inl (State_revision_conflict r (revision s)), s)"
    and save_total: "\<exists>r t. save x (Some (revision s)) s = (Inr r, t)"
begin

lemma save_succeeds_iff: "(\<exists>r' t. save x (Some r) s = (Inr r', t)) \<longleftrightarrow> r = revision s"
  using save_stale [of r s x] save_total [of x s] by (cases "r = revision s") auto

lemma save_reads: "save x (Some r) s = (Inr r', t) \<Longrightarrow> read t = Some (x, r') \<and> r < r'"
  using save_succeeds_iff [of x r s] save_current [of x s r' t] by auto

lemma save_fails: "save x (Some r) s = (Inl e, t) \<Longrightarrow> t = s \<and> e = State_revision_conflict r (revision s)"
  using save_stale [of r s x] save_total [of x s] by (cases "r = revision s") auto

text \<open>Two writers read the same revision: at most one of them writes.\<close>

lemma no_lost_update:
  assumes "save x (Some r) s = (Inr r1, t)"
  shows "save y (Some r) t = (Inl (State_revision_conflict r r1), t)"
proof -
  have "revision t = r1" "r < r1" using save_reads [OF assms] read_revision by auto
  then show ?thesis using save_stale [of r t y] by simp
qed

end

interpretation sqlite: versioned_store store_revision store_load store_save
  by unfold_locales (auto simp: store_load_def store_save_def store_revision_def Let_def split: option.splits prod.splits)

section \<open>A service over its store\<close>

text \<open>
  The object: the state in memory, the revision it was saved at, the store, and how many
  identifiers it has drawn. Every mutation replaces the state in memory and then saves it
  under the revision in memory.
\<close>

record 'a service =
  sv_state :: 'a
  sv_revision :: int
  sv_store :: "'a store"
  sv_draws :: nat

type_synonym ('a, 'b) service_eff = "('a service, service_error, 'b) eff"

definition sv_throw :: "engine_error_code \<Rightarrow> nat \<Rightarrow> ('a, 'b) service_eff" where
  "sv_throw c status = m_throw (Engine_error (EngineError c status))"

definition sv_check :: "bool \<Rightarrow> engine_error_code \<Rightarrow> nat \<Rightarrow> ('a, unit) service_eff" where
  "sv_check ok c status = m_assert ok (Engine_error (EngineError c status))"

definition sv_get :: "('a \<Rightarrow> 'b) \<Rightarrow> ('a, 'b) service_eff" where
  "sv_get f = m_get (\<lambda>s. f (sv_state s))"

definition sv_change :: "('a \<Rightarrow> 'a) \<Rightarrow> ('a, unit) service_eff" where
  "sv_change f = m_modify (\<lambda>s. s\<lparr>sv_state := f (sv_state s)\<rparr>)"

definition sv_draw :: "host \<Rightarrow> string \<Rightarrow> ('a, string) service_eff" where
  "sv_draw h prefix s = (Inr (h_ids h prefix (sv_draws s)), s\<lparr>sv_draws := sv_draws s + 1\<rparr>)"

definition sv_save :: "('a, unit) service_eff" where
  "sv_save s =
     (case store_save (sv_state s) (Some (sv_revision s)) (sv_store s) of
        (Inl e, st) \<Rightarrow> (Inl e, s\<lparr>sv_store := st\<rparr>)
      | (Inr r, st) \<Rightarrow> (Inr (), s\<lparr>sv_revision := r, sv_store := st\<rparr>))"

text \<open>\<open>create\<close>: reset if asked to, load or start afresh, check, save.\<close>

definition sv_create :: "bool \<Rightarrow> 'a \<Rightarrow> ('a \<Rightarrow> bool) \<Rightarrow> 'a store \<Rightarrow> (service_error + unit) \<times> 'a service" where
  "sv_create reset initial compatible row =
     (let row1 = (if reset then store_clear row else row);
          (x, r) = (case store_load row1 of None \<Rightarrow> (initial, 0) | Some xr \<Rightarrow> xr);
          s = \<lparr>sv_state = x, sv_revision = r, sv_store = row1, sv_draws = 0\<rparr>
      in if compatible x then sv_save s else (Inl Incompatible_state, s))"

section \<open>Memory and store agree\<close>

definition synced :: "'a service \<Rightarrow> bool" where
  "synced s \<longleftrightarrow> store_load (sv_store s) = Some (sv_state s, sv_revision s)"

text \<open>The revision in memory is the one of the store: nobody else has written.\<close>

definition sole_writer :: "'a service \<Rightarrow> bool" where
  "sole_writer s \<longleftrightarrow> sv_revision s = store_revision (sv_store s)"

lemma synced_sole_writer: "synced s \<Longrightarrow> sole_writer s"
  using sqlite.read_revision by (fastforce simp: synced_def sole_writer_def)

lemma save_syncs:
  assumes "sole_writer s"
  obtains t where "sv_save s = (Inr (), t)" "synced t" "sv_state t = sv_state s" "sv_draws t = sv_draws s"
proof -
  obtain r st where save: "store_save (sv_state s) (Some (sv_revision s)) (sv_store s) = (Inr r, st)"
    using sqlite.save_succeeds_iff [of "sv_state s" "sv_revision s" "sv_store s"] assms by (auto simp: sole_writer_def)
  then have "sv_save s = (Inr (), s\<lparr>sv_revision := r, sv_store := st\<rparr>)" by (simp add: sv_save_def)
  moreover have "synced (s\<lparr>sv_revision := r, sv_store := st\<rparr>)"
    using sqlite.save_reads [OF save] by (simp add: synced_def)
  ultimately show thesis using that by simp
qed

lemma save_conflict:
  assumes "\<not> sole_writer s"
  shows "sv_save s = (Inl (State_revision_conflict (sv_revision s) (store_revision (sv_store s))), s)"
  using sqlite.save_stale [of "sv_revision s" "sv_store s" "sv_state s"] assms by (simp add: sv_save_def sole_writer_def)

lemma create_syncs: "sv_create reset x ok row = (Inr u, s) \<Longrightarrow> synced s"
proof -
  assume create: "sv_create reset x ok row = (Inr u, s)"
  have writer: "sole_writer \<lparr>sv_state = y, sv_revision = r, sv_store = row1, sv_draws = 0\<rparr>"
    if "(case store_load row1 of None \<Rightarrow> (x, 0) | Some xr \<Rightarrow> xr) = (y, r)" for row1 :: "'a store" and y r
    using that by (auto simp: sole_writer_def store_load_def store_revision_def split: option.splits)
  show ?thesis
    using create by (auto simp: sv_create_def Let_def split: prod.splits if_splits elim: save_syncs [OF writer])
qed

section \<open>Running\<close>

lemma service_runs [simp]:
  "m_bind (sv_check ok c n) f s = (if ok then f () s else (Inl (Engine_error (EngineError c n)), s))"
  "m_bind (sv_get g) f' s = f' (g (sv_state s)) s"
  "m_bind (sv_change u) f s = f () (s\<lparr>sv_state := u (sv_state s)\<rparr>)"
  "m_bind (sv_draw h p) f'' s = f'' (h_ids h p (sv_draws s)) (s\<lparr>sv_draws := Suc (sv_draws s)\<rparr>)"
  "sv_throw c n s = (Inl (Engine_error (EngineError c n)), s)"
  by (simp_all add: sv_check_def m_bind_assert sv_get_def sv_change_def sv_throw_def)
    (simp add: sv_draw_def m_bind_def)

lemma save_state [simp]:
  "sv_state (snd (sv_save s)) = sv_state s" "sv_draws (snd (sv_save s)) = sv_draws s"
  by (auto simp: sv_save_def split: prod.split sum.split)

lemma then_return [simp]: "snd (m_bind m (\<lambda>_. m_return v) s) = snd (m s)"
  by (auto simp: m_bind_def split: prod.split sum.split)

text \<open>
  A computation is durable when it returns only with memory and store in agreement, as
  long as nobody else writes the store.
\<close>

definition durable :: "('a, 'b) service_eff \<Rightarrow> bool" where
  "durable m \<longleftrightarrow> (\<forall>s r t. synced s \<longrightarrow> m s = (Inr r, t) \<longrightarrow> synced t)"

lemma saved_synced: "sole_writer s \<Longrightarrow> m_bind sv_save f s = (Inr r, t) \<Longrightarrow> \<exists>u. synced u \<and> sv_state u = sv_state s \<and> f () u = (Inr r, t)"
  by (rule save_syncs [of s]) (auto simp: m_bind_def)

lemma sole_writer_change [simp]: "sole_writer (s\<lparr>sv_state := x\<rparr>) = sole_writer s" "sole_writer (s\<lparr>sv_draws := n\<rparr>) = sole_writer s"
  by (simp_all add: sole_writer_def)

lemma synced_draws [simp]: "synced (s\<lparr>sv_draws := n\<rparr>) = synced s"
  by (simp add: synced_def)

end
