(* ===== verification/Access_Control.thy ===== *)
theory Access_Control
  imports Server_Store
begin

text \<open>
  packages/server/src/access-control.ts: users, API keys, roles and the audit trail of a
  tenant. Roles come from JSON bodies and are strings; the test \<open>role in rolePermissions\<close>
  also finds the names every object inherits. Secrets are a random token and are stored as
  their hash only.
\<close>

section \<open>Roles\<close>

datatype permission =
  Admin_read | Admin_write | Program_publish | Access_manage | Platform_read | Platform_write
| Protocol_read | Protocol_write

definition rolePermissions :: "(string \<times> permission list) list" where
  "rolePermissions =
     [(''owner'', [Admin_read, Admin_write, Program_publish, Access_manage, Platform_read, Platform_write,
        Protocol_read, Protocol_write]),
      (''admin'', [Admin_read, Admin_write, Program_publish, Access_manage, Platform_read, Platform_write,
        Protocol_read, Protocol_write]),
      (''operator'', [Admin_read, Admin_write, Platform_read, Platform_write, Protocol_read, Protocol_write]),
      (''developer'', [Admin_read, Platform_read, Platform_write, Protocol_read, Protocol_write]),
      (''viewer'', [Admin_read, Platform_read]),
      (''integration'', [Platform_read, Platform_write, Protocol_read, Protocol_write])]"

definition object_prototype :: "string list" where
  "object_prototype =
     [''constructor'', ''__defineGetter__'', ''__defineSetter__'', ''hasOwnProperty'', ''__lookupGetter__'',
      ''__lookupSetter__'', ''isPrototypeOf'', ''propertyIsEnumerable'', ''toString'', ''valueOf'', ''__proto__'',
      ''toLocaleString'']"

text \<open>\<open>[...rolePermissions[role]]\<close>: neither \<open>undefined\<close> nor what an object inherits can be spread.\<close>

definition permissions_of :: "string \<Rightarrow> service_error + permission list" where
  "permissions_of role =
     (case map_of rolePermissions role of None \<Rightarrow> Inl (Engine_error TypeError) | Some ps \<Rightarrow> Inr ps)"

section \<open>State\<close>

record tenant =
  tn_tenant_id :: string
  tn_name :: string
  tn_created_at :: string

record tenant_user =
  us_user_id :: string
  us_tenant_id :: string
  us_email :: string
  us_name :: "string option"
  us_role :: string
  us_active :: bool
  us_created_at :: string
  us_updated_at :: string
  us_allowed_location_ids :: "string list option"

record api_key =
  ak_key_id :: string
  ak_tenant_id :: string
  ak_name :: string
  ak_prefix :: string
  ak_role :: string
  ak_active :: bool
  ak_created_at :: string
  ak_expires_at :: "string option"
  ak_last_used_at :: "string option"
  ak_revoked_at :: "string option"
  ak_allowed_location_ids :: "string list option"
  ak_secret_hash :: string

datatype actor_type = Root | Api_key | User

record principal =
  pr_tenant_id :: string
  pr_actor_id :: string
  pr_actor_type :: actor_type
  pr_role :: string
  pr_permissions :: "permission list"
  pr_allowed_location_ids :: "string list option"

record audit_entry =
  ae_audit_id :: string
  ae_tenant_id :: string
  ae_actor_id :: string
  ae_actor_type :: actor_type
  ae_action :: string
  ae_resource_type :: string
  ae_resource_id :: "string option"
  ae_request_id :: "string option"
  ae_metadata :: "json option"
  ae_occurred_at :: string

record access_state =
  ac_version :: int
  ac_tenant :: tenant
  ac_users :: "tenant_user list"
  ac_api_keys :: "api_key list"
  ac_audit :: "audit_entry list"

type_synonym 'b access_eff = "(access_state, 'b) service_eff"

section \<open>Secrets\<close>

text \<open>\<open>key_host\<close>: the random tokens, by how many identifiers were drawn, and SHA-256 in hex.\<close>

record key_host =
  kh_token :: "nat \<Rightarrow> string"
  kh_sha256 :: "string \<Rightarrow> string"

definition hashSecret :: "key_host \<Rightarrow> string \<Rightarrow> string" where
  "hashSecret k secret = kh_sha256 k secret"

record minted =
  mn_secret :: string
  mn_prefix :: string
  mn_secret_hash :: string

definition mintApiKeySecret :: "key_host \<Rightarrow> minted access_eff" where
  "mintApiKeySecret k s =
     (let secret = ''lip_sk_'' @ kh_token k (sv_draws s)
      in (Inr \<lparr>mn_secret = secret, mn_prefix = take 15 secret, mn_secret_hash = hashSecret k secret\<rparr>,
          s\<lparr>sv_draws := sv_draws s + 1\<rparr>))"

definition hex_value :: "char \<Rightarrow> int option" where
  "hex_value c =
     (let n = (of_char c :: int) in
      if 48 \<le> n \<and> n \<le> 57 then Some (n - 48) else if 97 \<le> n \<and> n \<le> 102 then Some (n - 87)
      else if 65 \<le> n \<and> n \<le> 70 then Some (n - 55) else None)"

text \<open>\<open>Buffer.from(text, "hex")\<close> stops at the first pair that is not a byte.\<close>

fun hex_bytes :: "string \<Rightarrow> int list" where
  "hex_bytes (a # b # cs) =
     (case (hex_value a, hex_value b) of (Some x, Some y) \<Rightarrow> (16 * x + y) # hex_bytes cs | _ \<Rightarrow> [])"
| "hex_bytes _ = []"

definition secretsEqual :: "string \<Rightarrow> string \<Rightarrow> bool" where
  "secretsEqual left right = (hex_bytes left = hex_bytes right)"

section \<open>Checks\<close>

definition location_ids_issue :: "string list \<Rightarrow> bool" where
  "location_ids_issue ids = (ids = [] \<or> list_ex (\<lambda>i. \<not> id_ok i) ids)"

definition normalizeAllowedLocationIds :: "string list option \<Rightarrow> string list option access_eff" where
  "normalizeAllowedLocationIds input =
     (case input of
        None \<Rightarrow> m_return None
      | Some ids \<Rightarrow>
          (let normalized = js_unique (filter (\<lambda>t. t \<noteq> []) (map trim ids)) in
           m_bind (sv_check (\<not> location_ids_issue normalized) Validation_failed 422) (\<lambda>_.
           m_return (Some normalized))))"

definition hasPermission :: "access_state \<Rightarrow> principal \<Rightarrow> permission \<Rightarrow> bool" where
  "hasPermission s p perm = (pr_tenant_id p = tn_tenant_id (ac_tenant s) \<and> perm \<in> set (pr_permissions p))"

definition requirePermission :: "principal \<Rightarrow> permission \<Rightarrow> unit access_eff" where
  "requirePermission p perm =
     m_bind (sv_get (\<lambda>s. hasPermission s p perm)) (\<lambda>ok. sv_check ok Forbidden 403)"

definition assertRole :: "string \<Rightarrow> unit access_eff" where
  "assertRole role =
     sv_check (role \<in> set (map fst rolePermissions) \<or> role \<in> set object_prototype) Validation_failed 422"

definition locationScopeFor :: "principal \<Rightarrow> string list option" where
  "locationScopeFor p = (if pr_actor_type p = Root then None else pr_allowed_location_ids p)"

definition within_scope :: "string list option \<Rightarrow> string list option \<Rightarrow> bool" where
  "within_scope creator granted =
     (case creator of
        None \<Rightarrow> True
      | Some cs \<Rightarrow> (case granted of None \<Rightarrow> False | Some gs \<Rightarrow> gs \<noteq> [] \<and> filter (\<lambda>i. i \<notin> set cs) gs = []))"

definition assertWithinPrincipalScope :: "principal \<Rightarrow> string list option \<Rightarrow> unit access_eff" where
  "assertWithinPrincipalScope p granted =
     sv_check (within_scope (locationScopeFor p) granted) Forbidden 403"

section \<open>Audit\<close>

definition makeAuditEntry ::
  "host \<Rightarrow> principal \<Rightarrow> string \<Rightarrow> string \<Rightarrow> string option \<Rightarrow> json option \<Rightarrow> string option \<Rightarrow> audit_entry access_eff"
where
  "makeAuditEntry h p action resourceType resourceId metadata requestId =
     m_bind (sv_draw h ''tenant-audit'') (\<lambda>auditId.
     m_bind (sv_get (\<lambda>s. tn_tenant_id (ac_tenant s))) (\<lambda>tenantId.
     m_return
       \<lparr>ae_audit_id = auditId, ae_tenant_id = tenantId, ae_actor_id = pr_actor_id p,
        ae_actor_type = pr_actor_type p, ae_action = action, ae_resource_type = resourceType,
        ae_resource_id = present resourceId, ae_request_id = present requestId, ae_metadata = metadata,
        ae_occurred_at = isoNow h\<rparr>))"

definition appendAudit :: "audit_entry list \<Rightarrow> unit access_eff" where
  "appendAudit es = sv_change (\<lambda>s. s\<lparr>ac_audit := take 1000 (es @ ac_audit s)\<rparr>)"

definition recordAudit ::
  "host \<Rightarrow> principal \<Rightarrow> string \<Rightarrow> string \<Rightarrow> string option \<Rightarrow> json option \<Rightarrow> string option \<Rightarrow> unit access_eff"
where
  "recordAudit h p action resourceType resourceId metadata requestId =
     m_bind (makeAuditEntry h p action resourceType resourceId metadata requestId) (\<lambda>e.
     m_bind (appendAudit [e]) (\<lambda>_. sv_save))"

section \<open>Principals\<close>

definition fresh_access :: "host \<Rightarrow> string \<Rightarrow> string \<Rightarrow> access_state" where
  "fresh_access h tenantId tenantName =
     \<lparr>ac_version = 1, ac_tenant = \<lparr>tn_tenant_id = tenantId, tn_name = tenantName, tn_created_at = isoNow h\<rparr>,
      ac_users = [], ac_api_keys = [], ac_audit = []\<rparr>"

definition create_access ::
  "host \<Rightarrow> string \<Rightarrow> string \<Rightarrow> bool \<Rightarrow> access_state store \<Rightarrow> (service_error + unit) \<times> access_state service"
where
  "create_access h tenantId tenantName reset row =
     sv_create reset (fresh_access h tenantId tenantName)
       (\<lambda>s. ac_version s = 1 \<and> tn_tenant_id (ac_tenant s) = tenantId) row"

definition rootPrincipal :: "access_state \<Rightarrow> principal" where
  "rootPrincipal s =
     \<lparr>pr_tenant_id = tn_tenant_id (ac_tenant s), pr_actor_id = ''root'', pr_actor_type = Root, pr_role = ''owner'',
      pr_permissions = the (map_of rolePermissions ''owner''), pr_allowed_location_ids = None\<rparr>"

text \<open>A key without an expiry, or whose expiry is a time in the future.\<close>

definition unexpired :: "host \<Rightarrow> api_key \<Rightarrow> bool" where
  "unexpired h k =
     (\<not> truthy (ak_expires_at k) \<or>
      (case h_parse h (the (ak_expires_at k)) of None \<Rightarrow> False | Some t \<Rightarrow> t > h_now h))"

definition replace_key :: "api_key \<Rightarrow> access_state \<Rightarrow> access_state" where
  "replace_key x s =
     s\<lparr>ac_api_keys := map (\<lambda>c. if ak_key_id c = ak_key_id x then x else c) (ac_api_keys s)\<rparr>"

definition key_principal :: "api_key \<Rightarrow> permission list \<Rightarrow> principal" where
  "key_principal x ps =
     \<lparr>pr_tenant_id = ak_tenant_id x, pr_actor_id = ak_key_id x, pr_actor_type = Api_key, pr_role = ak_role x,
      pr_permissions = ps, pr_allowed_location_ids = ak_allowed_location_ids x\<rparr>"

definition matching_key :: "host \<Rightarrow> key_host \<Rightarrow> string \<Rightarrow> access_state \<Rightarrow> api_key option" where
  "matching_key h k secret s =
     List.find (\<lambda>c. ak_active c \<and> unexpired h c \<and> secretsEqual (ak_secret_hash c) (hashSecret k secret))
       (ac_api_keys s)"

definition authenticate :: "host \<Rightarrow> key_host \<Rightarrow> string \<Rightarrow> principal option access_eff" where
  "authenticate h k secret =
     m_bind (sv_get (matching_key h k secret)) (\<lambda>found.
     case found of
       None \<Rightarrow> m_return None
     | Some key \<Rightarrow>
         (let used = key\<lparr>ak_last_used_at := Some (isoNow h)\<rparr> in
          m_bind (sv_change (replace_key used)) (\<lambda>_.
          m_bind sv_save (\<lambda>_.
          m_bind (m_lift (permissions_of (ak_role used))) (\<lambda>ps.
          m_return (Some (key_principal used ps)))))))"

definition principalForUser :: "string \<Rightarrow> access_state \<Rightarrow> service_error + principal option" where
  "principalForUser userId s =
     (case List.find (\<lambda>u. us_user_id u = userId \<and> us_active u) (ac_users s) of
        None \<Rightarrow> Inr None
      | Some u \<Rightarrow>
          (case permissions_of (us_role u) of
             Inl e \<Rightarrow> Inl e
           | Inr ps \<Rightarrow> Inr (Some
               \<lparr>pr_tenant_id = us_tenant_id u, pr_actor_id = us_user_id u, pr_actor_type = User, pr_role = us_role u,
                pr_permissions = ps, pr_allowed_location_ids = us_allowed_location_ids u\<rparr>)))"

section \<open>Users\<close>

text \<open>The scope of an update: \<open>Keep_scope\<close> when the field is absent, \<open>Clear_scope\<close> for null.\<close>

datatype scope_input = Keep_scope | Clear_scope | Set_scope "string list"

record user_input =
  ui_user_id :: "string option"
  ui_email :: string
  ui_name :: "string option"
  ui_role :: string
  ui_active :: "bool option"
  ui_scope :: scope_input

fun resolve_scope :: "scope_input \<Rightarrow> tenant_user option \<Rightarrow> string list option access_eff" where
  "resolve_scope Keep_scope existing = m_return (Option.bind existing us_allowed_location_ids)"
| "resolve_scope Clear_scope existing = m_return None"
| "resolve_scope (Set_scope ids) existing = normalizeAllowedLocationIds (Some ids)"

definition trimmed_name :: "string option \<Rightarrow> string option" where
  "trimmed_name n = present (map_option trim n)"

definition user_of ::
  "host \<Rightarrow> string \<Rightarrow> string \<Rightarrow> string \<Rightarrow> user_input \<Rightarrow> tenant_user option \<Rightarrow> string list option \<Rightarrow> tenant_user"
where
  "user_of h tenantId userId email i existing scope =
     \<lparr>us_user_id = userId, us_tenant_id = tenantId, us_email = email, us_name = trimmed_name (ui_name i),
      us_role = ui_role i,
      us_active = (case ui_active i of Some b \<Rightarrow> b | None \<Rightarrow> (case existing of None \<Rightarrow> True | Some u \<Rightarrow> us_active u)),
      us_created_at = (case existing of None \<Rightarrow> isoNow h | Some u \<Rightarrow> us_created_at u),
      us_updated_at = isoNow h, us_allowed_location_ids = scope\<rparr>"

definition put_user :: "tenant_user \<Rightarrow> bool \<Rightarrow> access_state \<Rightarrow> access_state" where
  "put_user u exists s =
     s\<lparr>ac_users := (if exists then map (\<lambda>c. if us_user_id c = us_user_id u then u else c) (ac_users s)
                    else u # ac_users s)\<rparr>"

definition scope_metadata :: "string list option \<Rightarrow> (string \<times> json option) list" where
  "scope_metadata scope =
     (case scope of None \<Rightarrow> [] | Some ids \<Rightarrow> [(''allowed_location_ids'', Some (JArr (map JStr ids)))])"

definition upsertUser :: "host \<Rightarrow> user_input \<Rightarrow> principal \<Rightarrow> tenant_user access_eff" where
  "upsertUser h i p =
     m_bind (requirePermission p Access_manage) (\<lambda>_.
     (let email = to_lower (trim (ui_email i)) in
     m_bind (sv_check (CHR ''@'' \<in> set email) Validation_failed 422) (\<lambda>_.
     m_bind (assertRole (ui_role i)) (\<lambda>_.
     m_bind (case ui_user_id i of Some x \<Rightarrow> m_return x | None \<Rightarrow> sv_draw h ''user'') (\<lambda>userId.
     m_bind (sv_get (\<lambda>s. List.find (\<lambda>u. us_user_id u = userId) (ac_users s))) (\<lambda>existing.
     m_bind (sv_get (\<lambda>s. list_ex (\<lambda>u. us_user_id u \<noteq> userId \<and> us_email u = email) (ac_users s))) (\<lambda>duplicate.
     m_bind (sv_check (\<not> duplicate) Conflict 409) (\<lambda>_.
     m_bind (resolve_scope (ui_scope i) existing) (\<lambda>scope.
     m_bind (assertWithinPrincipalScope p scope) (\<lambda>_.
     m_bind (sv_get (\<lambda>s. user_of h (tn_tenant_id (ac_tenant s)) userId email i existing scope)) (\<lambda>u.
     m_bind (sv_change (put_user u (existing \<noteq> None))) (\<lambda>_.
     m_bind (recordAudit h p ''access.user.upserted'' ''user'' (Some userId)
       (Some (jobj ([(''role'', Some (JStr (us_role u))), (''active'', Some (JBool (us_active u)))] @
          (if us_allowed_location_ids u \<noteq> None then scope_metadata (us_allowed_location_ids u)
           else if ui_scope i = Clear_scope then [(''allowed_location_ids'', Some JNull)] else [])))) None) (\<lambda>_.
     m_return u)))))))))))))"

section \<open>Keys\<close>

text \<open>What the caller gets to see of a key: everything but the hash, which is blank here.\<close>

definition public_key :: "api_key \<Rightarrow> api_key" where
  "public_key x = x\<lparr>ak_secret_hash := []\<rparr>"

definition in_future :: "host \<Rightarrow> string option \<Rightarrow> bool" where
  "in_future h expiresAt =
     (\<not> truthy expiresAt \<or> (case h_parse h (the expiresAt) of None \<Rightarrow> False | Some t \<Rightarrow> t > h_now h))"

definition normal_expiry :: "host \<Rightarrow> string option \<Rightarrow> string option" where
  "normal_expiry h expiresAt = (if truthy expiresAt then Some (to_iso (the (h_parse h (the expiresAt)))) else None)"

record key_input =
  ki_name :: string
  ki_role :: string
  ki_expires_at :: "string option"
  ki_allowed_location_ids :: "string list option"

definition createApiKey :: "host \<Rightarrow> key_host \<Rightarrow> key_input \<Rightarrow> principal \<Rightarrow> (api_key \<times> string) access_eff" where
  "createApiKey h k i p =
     m_bind (requirePermission p Access_manage) (\<lambda>_.
     m_bind (assertRole (ki_role i)) (\<lambda>_.
     m_bind (sv_check (trim (ki_name i) \<noteq> []) Validation_failed 422) (\<lambda>_.
     m_bind (sv_check (in_future h (ki_expires_at i)) Validation_failed 422) (\<lambda>_.
     m_bind (normalizeAllowedLocationIds (ki_allowed_location_ids i)) (\<lambda>scope.
     m_bind (assertWithinPrincipalScope p scope) (\<lambda>_.
     m_bind (mintApiKeySecret k) (\<lambda>m.
     m_bind (sv_draw h ''key'') (\<lambda>keyId.
     m_bind (sv_get (\<lambda>s.
       \<lparr>ak_key_id = keyId, ak_tenant_id = tn_tenant_id (ac_tenant s), ak_name = trim (ki_name i),
        ak_prefix = mn_prefix m, ak_role = ki_role i, ak_active = True, ak_created_at = isoNow h,
        ak_expires_at = normal_expiry h (ki_expires_at i), ak_last_used_at = None, ak_revoked_at = None,
        ak_allowed_location_ids = scope, ak_secret_hash = mn_secret_hash m\<rparr>)) (\<lambda>key.
     m_bind (sv_change (\<lambda>s. s\<lparr>ac_api_keys := key # ac_api_keys s\<rparr>)) (\<lambda>_.
     m_bind (recordAudit h p ''access.api_key.created'' ''api_key'' (Some keyId)
       (Some (jobj ([(''role'', Some (JStr (ak_role key))), (''prefix'', Some (JStr (ak_prefix key)))] @
          scope_metadata scope))) None) (\<lambda>_.
     m_return (public_key key, mn_secret m))))))))))))"

definition DEFAULT_ROTATION_OVERLAP_SECONDS :: int where
  "DEFAULT_ROTATION_OVERLAP_SECONDS = 86400"

definition MAX_ROTATION_OVERLAP_SECONDS :: int where
  "MAX_ROTATION_OVERLAP_SECONDS = 604800"

record rotate_input =
  ri_key_id :: string
  ri_overlap_seconds :: "int option"
  ri_expires_at :: "string option"

text \<open>\<open>existing.expires_at && Date.parse(existing.expires_at) <= Date.now()\<close>; NaN compares to nothing.\<close>

definition lapsed :: "host \<Rightarrow> api_key \<Rightarrow> bool" where
  "lapsed h x =
     (truthy (ak_expires_at x) \<and>
      (case h_parse h (the (ak_expires_at x)) of None \<Rightarrow> False | Some t \<Rightarrow> t \<le> h_now h))"

definition later :: "host \<Rightarrow> string option \<Rightarrow> string option \<Rightarrow> bool" where
  "later h a b =
     (truthy a \<and> truthy b \<and>
      (case (h_parse h (the a), h_parse h (the b)) of (Some x, Some y) \<Rightarrow> x > y | _ \<Rightarrow> False))"

definition overlap_expiry :: "host \<Rightarrow> int \<Rightarrow> string" where
  "overlap_expiry h overlap = to_iso (h_now h + overlap * 1000)"

definition replaced_expiry :: "host \<Rightarrow> int \<Rightarrow> api_key \<Rightarrow> string option" where
  "replaced_expiry h overlap x =
     (let o' = overlap_expiry h overlap in
      if later h (Some o') (ak_expires_at x) then ak_expires_at x else Some o')"

definition replacement_key ::
  "host \<Rightarrow> rotate_input \<Rightarrow> api_key \<Rightarrow> minted \<Rightarrow> string \<Rightarrow> access_state \<Rightarrow> api_key"
where
  "replacement_key h i x m keyId s =
     \<lparr>ak_key_id = keyId, ak_tenant_id = tn_tenant_id (ac_tenant s), ak_name = ak_name x, ak_prefix = mn_prefix m,
      ak_role = ak_role x, ak_active = True, ak_created_at = isoNow h,
      ak_expires_at = (if truthy (ri_expires_at i) then normal_expiry h (ri_expires_at i) else present (ak_expires_at x)),
      ak_last_used_at = None, ak_revoked_at = None, ak_allowed_location_ids = ak_allowed_location_ids x,
      ak_secret_hash = mn_secret_hash m\<rparr>"

definition rotateApiKey ::
  "host \<Rightarrow> key_host \<Rightarrow> rotate_input \<Rightarrow> principal \<Rightarrow> (api_key \<times> string \<times> api_key) access_eff"
where
  "rotateApiKey h k i p =
     (let overlap = (case ri_overlap_seconds i of None \<Rightarrow> DEFAULT_ROTATION_OVERLAP_SECONDS | Some n \<Rightarrow> n) in
     m_bind (requirePermission p Access_manage) (\<lambda>_.
     m_bind (sv_check (0 \<le> overlap \<and> overlap \<le> MAX_ROTATION_OVERLAP_SECONDS) Validation_failed 422) (\<lambda>_.
     m_bind (sv_check (in_future h (ri_expires_at i)) Validation_failed 422) (\<lambda>_.
     m_bind (sv_get (\<lambda>s. List.find (\<lambda>c. ak_key_id c = ri_key_id i) (ac_api_keys s))) (\<lambda>found.
     case found of
       None \<Rightarrow> sv_throw Not_found 404
     | Some existing \<Rightarrow>
         m_bind (sv_check (ak_active existing \<and> \<not> lapsed h existing) Conflict 409) (\<lambda>_.
         m_bind (assertWithinPrincipalScope p (ak_allowed_location_ids existing)) (\<lambda>_.
         m_bind (sv_check (\<not> later h (ri_expires_at i) (ak_expires_at existing)) Validation_failed 422) (\<lambda>_.
         m_bind (mintApiKeySecret k) (\<lambda>m.
         m_bind (sv_draw h ''key'') (\<lambda>keyId.
         m_bind (sv_get (replacement_key h i existing m keyId)) (\<lambda>new.
         (let replaced = existing\<lparr>ak_expires_at := replaced_expiry h overlap existing\<rparr> in
         m_bind (sv_change (\<lambda>s. (replace_key replaced s)
           \<lparr>ac_api_keys := new # ac_api_keys (replace_key replaced s)\<rparr>)) (\<lambda>_.
         m_bind (makeAuditEntry h p ''access.api_key.created'' ''api_key'' (Some keyId)
           (Some (jobj ([(''role'', Some (JStr (ak_role new))), (''prefix'', Some (JStr (ak_prefix new))),
              (''rotated_from'', Some (JStr (ak_key_id existing)))] @
              scope_metadata (ak_allowed_location_ids new)))) None) (\<lambda>a1.
         m_bind (makeAuditEntry h p ''access.api_key.rotated'' ''api_key'' (Some (ak_key_id existing))
           (Some (jobj [(''replacement_key_id'', Some (JStr keyId)),
              (''overlap_expires_at'', jstr_opt (ak_expires_at replaced))])) None) (\<lambda>a2.
         m_bind (appendAudit [a1, a2]) (\<lambda>_.
         m_bind sv_save (\<lambda>_.
         m_return (public_key new, mn_secret m, public_key replaced))))))))))))))))))"

definition revokeApiKey :: "host \<Rightarrow> string \<Rightarrow> principal \<Rightarrow> unit access_eff" where
  "revokeApiKey h keyId p =
     m_bind (requirePermission p Access_manage) (\<lambda>_.
     m_bind (sv_get (\<lambda>s. List.find (\<lambda>c. ak_key_id c = keyId) (ac_api_keys s))) (\<lambda>found.
     case found of
       None \<Rightarrow> sv_throw Not_found 404
     | Some key \<Rightarrow>
         if \<not> ak_active key then m_return ()
         else
           m_bind (sv_change (replace_key (key\<lparr>ak_active := False, ak_revoked_at := Some (isoNow h)\<rparr>))) (\<lambda>_.
           recordAudit h p ''access.api_key.revoked'' ''api_key'' (Some keyId) None None)))"

end
