(* ===== verification/Access_Steps.thy ===== *)
theory Access_Steps
  imports Access_Control
begin

text \<open>
  Access control as a state machine. Every operation, whatever it answers, is one step of
  the machine below, on the tenant's state and the number of identifiers drawn so far; the
  properties of a tenant's keys are invariants of the machine.
\<close>

section \<open>The machine\<close>

definition may_manage :: "access_state \<Rightarrow> principal \<Rightarrow> bool" where
  "may_manage s p \<longleftrightarrow> hasPermission s p Access_manage"

inductive access_step ::
  "(string \<Rightarrow> nat \<Rightarrow> string) \<Rightarrow> principal option \<Rightarrow> access_state \<times> nat \<Rightarrow> access_state \<times> nat \<Rightarrow> bool" for ids
where
  quiet: "d \<le> d' \<Longrightarrow> access_step ids p (s, d) (s\<lparr>ac_audit := a\<rparr>, d')"
| used: "x \<in> set (ac_api_keys s) \<Longrightarrow> ak_active x \<Longrightarrow>
    access_step ids None (s, d) (replace_key (x\<lparr>ak_last_used_at := Some t\<rparr>) s, d)"
| saved_user: "may_manage s p \<Longrightarrow> within_scope (locationScopeFor p) (us_allowed_location_ids u) \<Longrightarrow> d \<le> d' \<Longrightarrow>
    access_step ids (Some p) (s, d) ((put_user u b s)\<lparr>ac_audit := a\<rparr>, d')"
| added_key: "may_manage s p \<Longrightarrow> within_scope (locationScopeFor p) (ak_allowed_location_ids x) \<Longrightarrow>
    ak_key_id x = ids ''key'' n \<Longrightarrow> d \<le> n \<Longrightarrow> n < d' \<Longrightarrow>
    access_step ids (Some p) (s, d) (s\<lparr>ac_api_keys := x # ac_api_keys s, ac_audit := a\<rparr>, d')"
| rotated: "may_manage s p \<Longrightarrow> x \<in> set (ac_api_keys s) \<Longrightarrow> ak_active x \<Longrightarrow>
    within_scope (locationScopeFor p) (ak_allowed_location_ids x) \<Longrightarrow>
    ak_allowed_location_ids y = ak_allowed_location_ids x \<Longrightarrow> ak_role y = ak_role x \<Longrightarrow>
    ak_key_id y = ids ''key'' n \<Longrightarrow> d \<le> n \<Longrightarrow> n < d' \<Longrightarrow>
    access_step ids (Some p) (s, d)
      ((replace_key (x\<lparr>ak_expires_at := e\<rparr>) s)
        \<lparr>ac_api_keys := y # ac_api_keys (replace_key (x\<lparr>ak_expires_at := e\<rparr>) s), ac_audit := a\<rparr>, d')"
| revoked: "may_manage s p \<Longrightarrow> x \<in> set (ac_api_keys s) \<Longrightarrow> d \<le> d' \<Longrightarrow>
    access_step ids (Some p) (s, d)
      ((replace_key (x\<lparr>ak_active := False, ak_revoked_at := Some t\<rparr>) s)\<lparr>ac_audit := a\<rparr>, d')"

definition view :: "access_state service \<Rightarrow> access_state \<times> nat" where
  "view s = (sv_state s, sv_draws s)"

lemma view_update [simp]: "view (s\<lparr>sv_draws := d, sv_state := x\<rparr>) = (x, d)" "view (s\<lparr>sv_state := x\<rparr>) = (x, sv_draws s)"
  by (simp_all add: view_def)

lemma view_save [simp]: "view (snd (sv_save s)) = view s"
  by (simp add: view_def)

text \<open>Steps that leave the state alone.\<close>

lemma quiet_same: "sv_draws s \<le> sv_draws t \<Longrightarrow> sv_state t = sv_state s \<Longrightarrow> access_step ids p (view s) (view t)"
  using access_step.quiet [of "sv_draws s" "sv_draws t" ids p "sv_state s" "ac_audit (sv_state s)"]
  by (simp add: view_def)

lemma quiet_refl: "access_step ids p (view s) (view s)"
  by (rule quiet_same) simp_all

section \<open>The operations are steps\<close>

lemma requirePermission_run [simp]:
  "m_bind (requirePermission p perm) f s =
     (if hasPermission (sv_state s) p perm then f () s else (Inl (Engine_error (EngineError Forbidden 403)), s))"
  by (simp add: requirePermission_def m_bind_def sv_check_def sv_get_def m_assert_run)

lemma assertWithin_run [simp]:
  "m_bind (assertWithinPrincipalScope p g) f s =
     (if within_scope (locationScopeFor p) g then f () s else (Inl (Engine_error (EngineError Forbidden 403)), s))"
  by (simp add: assertWithinPrincipalScope_def)

lemma assertRole_run [simp]:
  "m_bind (assertRole r) f s =
     (if r \<in> set (map fst rolePermissions) \<or> r \<in> set object_prototype then f () s
      else (Inl (Engine_error (EngineError Validation_failed 422)), s))"
  by (simp add: assertRole_def)

definition normalized :: "string list option \<Rightarrow> string list option option" where
  "normalized input =
     (case input of
        None \<Rightarrow> Some None
      | Some ids \<Rightarrow>
          (let n = js_unique (filter (\<lambda>t. t \<noteq> []) (map trim ids)) in if location_ids_issue n then None else Some (Some n)))"

lemma normalize_run [simp]:
  "m_bind (normalizeAllowedLocationIds i) f s =
     (case normalized i of None \<Rightarrow> (Inl (Engine_error (EngineError Validation_failed 422)), s) | Some v \<Rightarrow> f v s)"
  by (auto simp: normalizeAllowedLocationIds_def normalized_def Let_def m_bind_def sv_check_def m_assert_run split: option.split)

lemma mint_run [simp]:
  "m_bind (mintApiKeySecret k) f s =
     (let secret = ''lip_sk_'' @ kh_token k (sv_draws s) in
      f \<lparr>mn_secret = secret, mn_prefix = take 15 secret, mn_secret_hash = hashSecret k secret\<rparr>
        (s\<lparr>sv_draws := Suc (sv_draws s)\<rparr>))"
  by (simp add: mintApiKeySecret_def m_bind_def Let_def)

definition audit_of ::
  "host \<Rightarrow> principal \<Rightarrow> string \<Rightarrow> string \<Rightarrow> string option \<Rightarrow> json option \<Rightarrow> string option \<Rightarrow> access_state service \<Rightarrow> audit_entry"
where
  "audit_of h p action resourceType resourceId metadata requestId s =
     \<lparr>ae_audit_id = h_ids h ''tenant-audit'' (sv_draws s), ae_tenant_id = tn_tenant_id (ac_tenant (sv_state s)),
      ae_actor_id = pr_actor_id p, ae_actor_type = pr_actor_type p, ae_action = action,
      ae_resource_type = resourceType, ae_resource_id = present resourceId, ae_request_id = present requestId,
      ae_metadata = metadata, ae_occurred_at = isoNow h\<rparr>"

lemma make_audit_run [simp]:
  "m_bind (makeAuditEntry h p a rt ri md rq) f s = f (audit_of h p a rt ri md rq s) (s\<lparr>sv_draws := Suc (sv_draws s)\<rparr>)"
  by (simp add: makeAuditEntry_def audit_of_def m_bind_def sv_draw_def sv_get_def)

lemma append_audit_run [simp]:
  "m_bind (appendAudit es) f s = f () (s\<lparr>sv_state := (sv_state s)\<lparr>ac_audit := take 1000 (es @ ac_audit (sv_state s))\<rparr>\<rparr>)"
  by (simp add: appendAudit_def)

lemma record_audit_run:
  "recordAudit h p a rt ri md rq s =
     sv_save (s\<lparr>sv_draws := Suc (sv_draws s),
       sv_state := (sv_state s)\<lparr>ac_audit := take 1000 (audit_of h p a rt ri md rq s # ac_audit (sv_state s))\<rparr>\<rparr>)"
  by (simp add: recordAudit_def)

lemma view_record [simp]:
  "view (snd (recordAudit h p a rt ri md rq s)) =
     ((sv_state s)\<lparr>ac_audit := take 1000 (audit_of h p a rt ri md rq s # ac_audit (sv_state s))\<rparr>, Suc (sv_draws s))"
  by (simp add: record_audit_run)

text \<open>A refused or idle call.\<close>

lemma idle [simp]: "access_step ids p (view s) (view s)" "access_step ids p (view s) (view (s\<lparr>sv_draws := Suc (sv_draws s)\<rparr>))"
  by (rule quiet_same; simp)+

lemma createApiKey_step: "access_step (h_ids h) (Some p) (view s) (view (snd (createApiKey h k i p s)))"
proof -
  have "access_step (h_ids h) (Some p) (view s)
      ((sv_state s)\<lparr>ac_api_keys := x # ac_api_keys (sv_state s), ac_audit := a\<rparr>, Suc (Suc (Suc (sv_draws s))))"
    if "hasPermission (sv_state s) p Access_manage" "within_scope (locationScopeFor p) (ak_allowed_location_ids x)"
      "ak_key_id x = h_ids h ''key'' (Suc (sv_draws s))" for x a
    unfolding view_def by (rule added_key [where n = "Suc (sv_draws s)"]) (use that in \<open>simp_all add: may_manage_def\<close>)
  then show ?thesis
    by (auto simp: createApiKey_def Let_def split: option.split)
qed

lemma put_user_audit: "put_user u b s = s\<lparr>ac_users := ac_users (put_user u b s)\<rparr>"
  by (simp add: put_user_def)

lemma upsertUser_step: "access_step (h_ids h) (Some p) (view s) (view (snd (upsertUser h i p s)))"
proof -
  have "access_step (h_ids h) (Some p) (view s) ((put_user u b (sv_state s))\<lparr>ac_audit := a\<rparr>, d)"
    if "hasPermission (sv_state s) p Access_manage" "within_scope (locationScopeFor p) (us_allowed_location_ids u)"
      "sv_draws s \<le> d" for u b a d
    unfolding view_def by (rule saved_user) (use that in \<open>simp_all add: may_manage_def\<close>)
  then show ?thesis
    by (cases "ui_user_id i"; cases "ui_scope i")
      (auto simp: upsertUser_def Let_def user_of_def split: option.split)
qed

lemma revokeApiKey_step: "access_step (h_ids h) (Some p) (view s) (view (snd (revokeApiKey h keyId p s)))"
proof -
  have "access_step (h_ids h) (Some p) (view s)
      ((replace_key (x\<lparr>ak_active := False, ak_revoked_at := Some t\<rparr>) (sv_state s))\<lparr>ac_audit := a\<rparr>, Suc (sv_draws s))"
    if "hasPermission (sv_state s) p Access_manage" "x \<in> set (ac_api_keys (sv_state s))" for x t a
    unfolding view_def by (rule revoked) (use that in \<open>simp_all add: may_manage_def\<close>)
  then show ?thesis
    by (auto simp: revokeApiKey_def dest: find_SomeD split: option.split)
qed

lemma replacement_fields [simp]:
  "ak_allowed_location_ids (replacement_key h i x m n s) = ak_allowed_location_ids x"
  "ak_role (replacement_key h i x m n s) = ak_role x" "ak_key_id (replacement_key h i x m n s) = n"
  "ak_active (replacement_key h i x m n s)"
  by (simp_all add: replacement_key_def)

lemma rotateApiKey_step: "access_step (h_ids h) (Some p) (view s) (view (snd (rotateApiKey h k i p s)))"
proof -
  have "access_step (h_ids h) (Some p) (view s)
      ((replace_key (x\<lparr>ak_expires_at := e\<rparr>) (sv_state s))
        \<lparr>ac_api_keys := y # ac_api_keys (replace_key (x\<lparr>ak_expires_at := e\<rparr>) (sv_state s)), ac_audit := a\<rparr>,
       Suc (Suc (Suc (Suc (sv_draws s)))))"
    if "hasPermission (sv_state s) p Access_manage" "x \<in> set (ac_api_keys (sv_state s))" "ak_active x"
      "within_scope (locationScopeFor p) (ak_allowed_location_ids x)"
      "ak_allowed_location_ids y = ak_allowed_location_ids x" "ak_role y = ak_role x"
      "ak_key_id y = h_ids h ''key'' (Suc (sv_draws s))" for x y e a
    unfolding view_def by (rule rotated [where n = "Suc (sv_draws s)"]) (use that in \<open>simp_all add: may_manage_def\<close>)
  then show ?thesis
    by (cases "ri_overlap_seconds i") (auto simp: rotateApiKey_def Let_def dest: find_SomeD split: option.split)
qed

lemma view_lift [simp]:
  "view (snd (m_bind sv_save (\<lambda>_. m_bind (m_lift r) (\<lambda>v. m_return (f v))) s)) = view s"
  by (auto simp: m_bind_def view_def sv_save_def split: prod.split sum.split)

lemma authenticate_step: "access_step ids None (view s) (view (snd (authenticate h k secret s)))"
proof -
  have "access_step ids None (view s) (replace_key (x\<lparr>ak_last_used_at := Some t\<rparr>) (sv_state s), sv_draws s)"
    if "x \<in> set (ac_api_keys (sv_state s))" "ak_active x" for x t
    unfolding view_def by (rule used) (use that in simp_all)
  then show ?thesis
    by (auto simp: authenticate_def matching_key_def Let_def dest: find_SomeD split: option.split)
qed

section \<open>Histories\<close>

datatype access_operation =
  Authenticate string | Upsert_user user_input principal | Create_api_key key_input principal
| Rotate_api_key rotate_input principal | Revoke_api_key string principal

fun caller :: "access_operation \<Rightarrow> principal option" where
  "caller (Authenticate _) = None"
| "caller (Upsert_user _ p) = Some p"
| "caller (Create_api_key _ p) = Some p"
| "caller (Rotate_api_key _ p) = Some p"
| "caller (Revoke_api_key _ p) = Some p"

fun perform_access :: "host \<Rightarrow> key_host \<Rightarrow> access_operation \<Rightarrow> access_state service \<Rightarrow> access_state service" where
  "perform_access h k (Authenticate secret) s = snd (authenticate h k secret s)"
| "perform_access h k (Upsert_user i p) s = snd (upsertUser h i p s)"
| "perform_access h k (Create_api_key i p) s = snd (createApiKey h k i p s)"
| "perform_access h k (Rotate_api_key i p) s = snd (rotateApiKey h k i p s)"
| "perform_access h k (Revoke_api_key i p) s = snd (revokeApiKey h i p s)"

lemma perform_access_step: "access_step (h_ids h) (caller p) (view s) (view (perform_access h k p s))"
  by (cases p) (simp_all add: authenticate_step upsertUser_step createApiKey_step rotateApiKey_step revokeApiKey_step)

inductive access_history ::
  "(string \<Rightarrow> nat \<Rightarrow> string) \<Rightarrow> access_state service \<Rightarrow> (host \<times> key_host \<times> access_operation) list \<Rightarrow>
   access_state service \<Rightarrow> bool" for ids
where
  access_Nil: "access_history ids s [] s"
| access_Cons: "h_ids h = ids \<Longrightarrow> access_history ids (perform_access h k p s) ops t \<Longrightarrow>
    access_history ids s ((h, k, p) # ops) t"

inductive_simps access_history_simps: "access_history ids s [] t" "access_history ids s ((h, k, p) # ops) t"

lemma access_history_induct:
  assumes "access_history ids s ops t" "I (view s)"
    and "\<And>c x y. access_step ids c x y \<Longrightarrow> I x \<Longrightarrow> c \<in> insert None (caller ` snd ` snd ` set ops) \<Longrightarrow> I y"
  shows "I (view t)"
  using assms
proof (induction rule: access_history.induct)
  case (access_Cons h k p s ops t)
  have "access_step ids (caller p) (view s) (view (perform_access h k p s))"
    using perform_access_step [of h p s k] access_Cons.hyps(1) by simp
  then have "I (view (perform_access h k p s))"
    using access_Cons.prems(1) by (rule access_Cons.prems(2)) simp
  then show ?case
    by (rule access_Cons.IH) (rule access_Cons.prems(2), assumption, assumption, auto)
qed simp

end
