(* ===== verification/Access_Theorems.thy ===== *)
theory Access_Theorems
  imports Access_Steps Sample_Program
begin

text \<open>
  What access control promises over any history of calls: revocation is final, scope only
  shrinks, a rotated key lives no longer than the key it replaces, a minted secret
  authenticates as its key, and a restart finds the state the last call left.
\<close>

section \<open>Identities of keys\<close>

definition fresh_keys :: "(string \<Rightarrow> nat \<Rightarrow> string) \<Rightarrow> access_state \<times> nat \<Rightarrow> bool" where
  "fresh_keys ids x \<longleftrightarrow>
     distinct (map ak_key_id (ac_api_keys (fst x))) \<and>
     (\<forall>k \<in> set (ac_api_keys (fst x)). \<exists>n < snd x. ak_key_id k = ids ''key'' n)"

definition unique_ids :: "(string \<Rightarrow> nat \<Rightarrow> string) \<Rightarrow> bool" where
  "unique_ids ids \<longleftrightarrow> inj (ids ''key'')"

definition key_ids :: "access_state \<Rightarrow> string list" where
  "key_ids s = map ak_key_id (ac_api_keys s)"

lemma key_ids_simps [simp]:
  "key_ids (replace_key x s) = key_ids s" "key_ids (put_user u b s) = key_ids s" "key_ids (s\<lparr>ac_audit := a\<rparr>) = key_ids s"
  "key_ids (s\<lparr>ac_api_keys := x # ac_api_keys s'\<rparr>) = ak_key_id x # key_ids s'"
  by (auto simp: key_ids_def replace_key_def put_user_def)

lemma step_ids:
  assumes "access_step ids c x y"
  shows "snd x \<le> snd y \<and>
    (key_ids (fst y) = key_ids (fst x) \<or>
     (\<exists>n. snd x \<le> n \<and> n < snd y \<and> key_ids (fst y) = ids ''key'' n # key_ids (fst x)))"
  using assms
proof cases
  case (added_key s p x n d d' a)
  then show ?thesis by (auto intro!: exI [of _ n])
next
  case (rotated s p x y n d d' e a)
  then show ?thesis by (auto intro!: exI [of _ n])
qed auto

lemma fresh_keys_ids:
  "fresh_keys ids x \<longleftrightarrow> distinct (key_ids (fst x)) \<and> (\<forall>i \<in> set (key_ids (fst x)). \<exists>n < snd x. i = ids ''key'' n)"
  by (auto simp: fresh_keys_def key_ids_def)

lemma fresh_keys_step:
  assumes "access_step ids c x y" "fresh_keys ids x" "unique_ids ids"
  shows "fresh_keys ids y"
  using step_ids [OF assms(1)]
proof (elim conjE disjE exE)
  assume "snd x \<le> snd y" "key_ids (fst y) = key_ids (fst x)"
  then show ?thesis using assms(2) unfolding fresh_keys_ids by (metis order_less_le_trans)
next
  fix n assume n: "snd x \<le> n" "n < snd y" "key_ids (fst y) = ids ''key'' n # key_ids (fst x)"
  have "ids ''key'' n \<notin> set (key_ids (fst x))"
    using assms(2,3) n(1) unfolding fresh_keys_ids unique_ids_def by (metis injD leD)
  moreover have "\<exists>m < snd y. i = ids ''key'' m" if i: "i \<in> set (key_ids (fst x))" for i
  proof -
    obtain m where "m < snd x" "i = ids ''key'' m" using i assms(2) unfolding fresh_keys_ids by blast
    then show ?thesis using n by (auto intro!: exI [of _ m])
  qed
  ultimately show ?thesis using assms(2) n unfolding fresh_keys_ids by auto
qed

text \<open>Where the keys of the next state come from.\<close>

definition same_grant :: "api_key \<Rightarrow> api_key \<Rightarrow> bool" where
  "same_grant k0 k \<longleftrightarrow>
     ak_key_id k = ak_key_id k0 \<and> ak_role k = ak_role k0 \<and> ak_allowed_location_ids k = ak_allowed_location_ids k0 \<and>
     (ak_active k \<longrightarrow> ak_active k0)"

lemma same_grant_refl [simp]: "same_grant k k"
  by (simp add: same_grant_def)

lemma replaced_key:
  "k \<in> set (ac_api_keys (replace_key x s)) \<Longrightarrow> x0 \<in> set (ac_api_keys s) \<Longrightarrow> same_grant x0 x \<Longrightarrow>
   \<exists>k0 \<in> set (ac_api_keys s). same_grant k0 k"
  by (auto simp: replace_key_def intro: same_grant_refl split: if_splits)

lemma step_keys:
  assumes "access_step ids c x y" "k \<in> set (ac_api_keys (fst y))"
  obtains (kept) k0 where "k0 \<in> set (ac_api_keys (fst x))" "same_grant k0 k"
  | (granted) p n where "c = Some p" "may_manage (fst x) p" "within_scope (locationScopeFor p) (ak_allowed_location_ids k)"
      "snd x \<le> n" "ak_key_id k = ids ''key'' n"
  using assms(1)
proof cases
  case (quiet d d' s a)
  then show thesis using assms(2) kept by auto
next
  case (used z s d t)
  then show thesis using assms(2) kept replaced_key [of k "z\<lparr>ak_last_used_at := Some t\<rparr>" s z]
    by (auto simp: same_grant_def)
next
  case (saved_user s p u d d' b a)
  then show thesis using assms(2) kept by (auto simp: put_user_def)
next
  case (added_key s p z n d d' a)
  then show thesis using assms(2) kept granted by auto
next
  case (rotated s p z w n d d' a e)
  then show thesis using assms(2) kept granted replaced_key [of k "z\<lparr>ak_expires_at := e\<rparr>" s z]
    by (auto simp: same_grant_def)
next
  case (revoked s p z d d' a t)
  then show thesis using assms(2) kept
      replaced_key [of k "z\<lparr>ak_active := False, ak_revoked_at := Some t\<rparr>" s z]
    by (auto simp: same_grant_def)
qed

lemma fresh_keys_created: "create_access h i n r None = (Inr u, s) \<Longrightarrow> fresh_keys ids (view s)"
  by (auto simp: create_access_def sv_create_def store_load_def store_clear_def fresh_access_def fresh_keys_def view_def
      sv_save_def store_save_def store_revision_def Let_def split: if_splits)

section \<open>Revocation\<close>

definition dead_key :: "string \<Rightarrow> access_state \<Rightarrow> bool" where
  "dead_key i s \<longleftrightarrow> i \<in> ak_key_id ` set (ac_api_keys s) \<and> (\<forall>k \<in> set (ac_api_keys s). ak_key_id k = i \<longrightarrow> \<not> ak_active k)"

lemma dead_key_step:
  assumes "access_step ids c x y" "fresh_keys ids x \<and> dead_key i (fst x)" "unique_ids ids"
  shows "fresh_keys ids y \<and> dead_key i (fst y)"
proof (rule conjI)
  show "fresh_keys ids y" using assms fresh_keys_step by blast
  have known: "i \<in> set (key_ids (fst x))" using assms(2) by (simp add: dead_key_def key_ids_def)
  then have "i \<in> set (key_ids (fst y))" using step_ids [OF assms(1)] by auto
  moreover have "\<not> ak_active k" if k: "k \<in> set (ac_api_keys (fst y))" "ak_key_id k = i" for k
    using assms(1) k(1)
  proof (cases rule: step_keys)
    case (kept k0)
    then show ?thesis using assms(2) k(2) by (auto simp: dead_key_def same_grant_def)
  next
    case (granted p n)
    then show ?thesis using known assms(2,3) k(2) unfolding fresh_keys_ids unique_ids_def by (metis injD leD)
  qed
  ultimately show "dead_key i (fst y)" by (auto simp: dead_key_def key_ids_def)
qed

lemma fresh_keys_history:
  "access_history ids s ops t \<Longrightarrow> unique_ids ids \<Longrightarrow> fresh_keys ids (view s) \<Longrightarrow> fresh_keys ids (view t)"
  by (erule access_history_induct) (auto intro: fresh_keys_step)

lemma dead_key_history:
  assumes "access_history ids s ops t" "unique_ids ids" "fresh_keys ids (view s)" "dead_key i (sv_state s)"
  shows "dead_key i (sv_state t)"
proof -
  have "fresh_keys ids (view t) \<and> dead_key i (fst (view t))"
    by (rule access_history_induct [OF assms(1), where I = "\<lambda>x. fresh_keys ids x \<and> dead_key i (fst x)"])
      (use assms(2-) dead_key_step in \<open>auto simp: view_def\<close>)
  then show ?thesis by (simp add: view_def)
qed

lemma same_id_key:
  "distinct (key_ids s) \<Longrightarrow> x \<in> set (ac_api_keys s) \<Longrightarrow> y \<in> set (ac_api_keys s) \<Longrightarrow> ak_key_id x = ak_key_id y \<Longrightarrow> x = y"
  by (simp add: key_ids_def distinct_map inj_on_def)

lemma replaced_dead: "x \<in> set (ac_api_keys s) \<Longrightarrow> \<not> ak_active y \<Longrightarrow> ak_key_id y = ak_key_id x \<Longrightarrow> dead_key (ak_key_id x) (replace_key y s)"
proof -
  assume x: "x \<in> set (ac_api_keys s)" "\<not> ak_active y" "ak_key_id y = ak_key_id x"
  have "ak_key_id x \<in> set (key_ids (replace_key y s))" using x(1) unfolding key_ids_simps by (simp add: key_ids_def)
  moreover have "\<forall>k \<in> set (ac_api_keys (replace_key y s)). ak_key_id k = ak_key_id x \<longrightarrow> \<not> ak_active k"
    using x(2,3) by (auto simp: replace_key_def)
  ultimately show ?thesis by (simp add: dead_key_def key_ids_def)
qed

lemma dead_key_audit [simp]: "dead_key i (s\<lparr>ac_audit := a\<rparr>) = dead_key i s"
  by (simp add: dead_key_def)

lemma revoked_dead:
  assumes "revokeApiKey h i p s = (Inr u, t)" "distinct (key_ids (sv_state s))"
  shows "dead_key i (sv_state t)"
proof -
  obtain x where x: "List.find (\<lambda>c. ak_key_id c = i) (ac_api_keys (sv_state s)) = Some x"
    using assms(1) by (cases "List.find (\<lambda>c. ak_key_id c = i) (ac_api_keys (sv_state s))")
      (auto simp: revokeApiKey_def split: if_splits)
  then have found: "x \<in> set (ac_api_keys (sv_state s))" "ak_key_id x = i" by (auto dest: find_SomeD)
  show ?thesis
  proof (cases "ak_active x")
    case True
    let ?y = "x\<lparr>ak_active := False, ak_revoked_at := Some (isoNow h)\<rparr>"
    have "hasPermission (sv_state s) p Access_manage" using assms(1) by (auto simp: revokeApiKey_def split: if_splits)
    moreover have "view t = view (snd (revokeApiKey h i p s))" using assms(1) by simp
    ultimately have "\<exists>a. sv_state t = (replace_key ?y (sv_state s))\<lparr>ac_audit := a\<rparr>"
      using x True by (auto simp: revokeApiKey_def view_def [of t])
    then show ?thesis
      using found replaced_dead [of x "sv_state s" ?y] by auto
  next
    case False
    then have "t = s" using assms(1) x by (auto simp: revokeApiKey_def split: if_splits)
    then show ?thesis using found False assms(2) same_id_key by (fastforce simp: dead_key_def)
  qed
qed

definition authenticated_as :: "host \<Rightarrow> key_host \<Rightarrow> string \<Rightarrow> access_state service \<Rightarrow> string option" where
  "authenticated_as h k secret s = (case fst (authenticate h k secret s) of Inr (Some q) \<Rightarrow> Some (pr_actor_id q) | _ \<Rightarrow> None)"

lemma authenticated_key:
  assumes "authenticate h k secret s = (Inr (Some q), t)"
  obtains x where "x \<in> set (ac_api_keys (sv_state s))" "ak_active x" "pr_actor_id q = ak_key_id x"
    "pr_actor_type q = Api_key" "unexpired h x" "pr_allowed_location_ids q = ak_allowed_location_ids x" "pr_role q = ak_role x"
proof -
  obtain x where x: "matching_key h k secret (sv_state s) = Some x"
    using assms by (cases "matching_key h k secret (sv_state s)") (auto simp: authenticate_def)
  moreover have "pr_actor_id q = ak_key_id x" "pr_actor_type q = Api_key"
    "pr_allowed_location_ids q = ak_allowed_location_ids x" "pr_role q = ak_role x"
    using assms x
    by (simp_all add: authenticate_def Let_def)
      (auto simp: m_bind_def m_lift_def m_return_def key_principal_def split: prod.splits sum.splits)
  ultimately show thesis using that by (auto simp: matching_key_def dest!: find_SomeD)
qed

text \<open>
  C17. Revocation is final: once a key has been revoked, no sequence of calls by anyone, and
  no secret, authenticates as that key again, in any history of a tenant created afresh.
\<close>

theorem revoked_keys_stay_dead:
  assumes "create_access h0 tenantId name reset None = (Inr u, s0)"
    and "access_history ids s0 before_ops s" "unique_ids ids"
    and "revokeApiKey h keyId p s = (Inr (), s1)" "h_ids h = ids"
    and "access_history ids s1 after_ops t"
  shows "authenticated_as h' k secret t \<noteq> Some keyId"
proof -
  have fresh: "fresh_keys ids (view s)"
    using fresh_keys_history [OF assms(2,3)] fresh_keys_created [OF assms(1)] by blast
  have "fresh_keys ids (view s1)"
    using fresh_keys_step [OF revokeApiKey_step [of h p s keyId] _ ] fresh assms(3,4,5) by simp
  moreover have "dead_key keyId (sv_state s1)"
    using revoked_dead [OF assms(4)] fresh by (simp add: fresh_keys_ids view_def)
  ultimately have "dead_key keyId (sv_state t)"
    by (rule dead_key_history [OF assms(6,3)])
  then show ?thesis
    by (cases "authenticate h' k secret t")
      (auto simp: authenticated_as_def dead_key_def elim!: authenticated_key split: sum.splits option.splits)
qed

section \<open>Scope\<close>

definition scope_in :: "string set \<Rightarrow> string list option \<Rightarrow> bool" where
  "scope_in cs g \<longleftrightarrow> (\<exists>gs. g = Some gs \<and> set gs \<subseteq> cs)"

lemma within_scope_in: "within_scope c g \<Longrightarrow> scope_in cs c \<Longrightarrow> scope_in cs g"
  by (auto simp: within_scope_def scope_in_def filter_empty_conv split: option.splits)

definition contained :: "string set \<Rightarrow> access_state \<Rightarrow> access_state \<times> nat \<Rightarrow> bool" where
  "contained cs s x \<longleftrightarrow>
     (\<forall>k \<in> set (ac_api_keys (fst x)). scope_in cs (ak_allowed_location_ids k) \<or> (\<exists>k0 \<in> set (ac_api_keys s). same_grant k0 k)) \<and>
     (\<forall>u \<in> set (ac_users (fst x)). scope_in cs (us_allowed_location_ids u) \<or> u \<in> set (ac_users s))"

lemma step_users:
  assumes "access_step ids c x y" "u \<in> set (ac_users (fst y))"
  shows "u \<in> set (ac_users (fst x)) \<or> (\<exists>p. c = Some p \<and> within_scope (locationScopeFor p) (us_allowed_location_ids u))"
  using assms by cases (auto simp: put_user_def replace_key_def split: if_splits)

lemma same_grant_trans: "same_grant a b \<Longrightarrow> same_grant b c \<Longrightarrow> same_grant a c"
  by (auto simp: same_grant_def)

lemma contained_step:
  assumes "access_step ids c x y" "contained cs s x" "\<And>p. c = Some p \<Longrightarrow> scope_in cs (locationScopeFor p)"
  shows "contained cs s y"
proof -
  have "scope_in cs (ak_allowed_location_ids k) \<or> (\<exists>k0 \<in> set (ac_api_keys s). same_grant k0 k)"
    if "k \<in> set (ac_api_keys (fst y))" for k
    using assms(1) that
  proof (cases rule: step_keys)
    case (kept k0)
    then show ?thesis using assms(2) same_grant_trans unfolding contained_def by (metis same_grant_def)
  next
    case (granted p n)
    then show ?thesis using assms(3) within_scope_in by blast
  qed
  moreover have "scope_in cs (us_allowed_location_ids u) \<or> u \<in> set (ac_users s)" if "u \<in> set (ac_users (fst y))" for u
    using step_users [OF assms(1) that] assms(2,3) within_scope_in unfolding contained_def by blast
  ultimately show ?thesis by (simp add: contained_def)
qed

text \<open>
  C18. A location scope cannot be escaped. When every caller of a history is confined to
  locations \<open>cs\<close>, each user and key at its end either has a scope inside \<open>cs\<close>, or was there
  at the start (a key with the same role and scope); and whoever authenticates with one of
  the keys that are new is confined to \<open>cs\<close> as well.
\<close>

theorem scope_never_escapes:
  assumes "access_history ids s ops t"
    and "\<And>p. Some p \<in> caller ` snd ` snd ` set ops \<Longrightarrow> scope_in cs (locationScopeFor p)"
  shows "contained cs (sv_state s) (view t) \<and>
    (authenticate h k secret t = (Inr (Some q), t') \<longrightarrow> pr_actor_id q \<notin> ak_key_id ` set (ac_api_keys (sv_state s)) \<longrightarrow>
     scope_in cs (locationScopeFor q))"
proof -
  have "contained cs (sv_state s) (view t)"
  proof (rule access_history_induct [OF assms(1)])
    show "contained cs (sv_state s) (view s)" by (auto simp: contained_def view_def intro: same_grant_refl)
  next
    fix c x y assume "access_step ids c x y" "contained cs (sv_state s) x" "c \<in> insert None (caller ` snd ` snd ` set ops)"
    then show "contained cs (sv_state s) y" using assms(2) by (intro contained_step [of ids c x y]) auto
  qed
  moreover have "scope_in cs (locationScopeFor q)"
    if "authenticate h k secret t = (Inr (Some q), t')" "pr_actor_id q \<notin> ak_key_id ` set (ac_api_keys (sv_state s))"
    using that(1)
  proof (rule authenticated_key)
    fix x assume x: "x \<in> set (ac_api_keys (sv_state t))" "pr_actor_id q = ak_key_id x" "pr_actor_type q = Api_key"
      "pr_allowed_location_ids q = ak_allowed_location_ids x"
    have "\<not> same_grant k0 x" if "k0 \<in> set (ac_api_keys (sv_state s))" for k0
      using \<open>pr_actor_id q \<notin> _\<close> that x(2) by (auto simp: same_grant_def)
    then have "scope_in cs (ak_allowed_location_ids x)"
      using \<open>contained cs (sv_state s) (view t)\<close> x(1) by (auto simp: contained_def view_def)
    then show ?thesis using x(3,4) by (simp add: locationScopeFor_def)
  qed
  ultimately show ?thesis by blast
qed


section \<open>Rotation\<close>

definition readable :: "host \<Rightarrow> string option \<Rightarrow> bool" where
  "readable h e \<longleftrightarrow> (truthy e \<longrightarrow> h_parse h (the e) \<noteq> None)"

definition reads_back :: "host \<Rightarrow> int \<Rightarrow> bool" where
  "reads_back h n \<longleftrightarrow> h_parse h (to_iso n) = Some n"

definition rotation_overlap :: "rotate_input \<Rightarrow> int" where
  "rotation_overlap i = (case ri_overlap_seconds i of None \<Rightarrow> DEFAULT_ROTATION_OVERLAP_SECONDS | Some n \<Rightarrow> n)"

lemma return_iff [simp]: "m_bind m (\<lambda>_. m_return v) s = (Inr r, t) \<longleftrightarrow> r = v \<and> (\<exists>u. m s = (Inr u, t))"
  by (auto simp: m_bind_def split: prod.splits sum.splits)

lemma rotate_result:
  assumes "rotateApiKey h k i p s = (Inr (new, secret, old), t)"
  obtains x m keyId where "x \<in> set (ac_api_keys (sv_state s))" "ak_key_id x = ri_key_id i" "ak_active x" "\<not> lapsed h x"
    "in_future h (ri_expires_at i)" "\<not> later h (ri_expires_at i) (ak_expires_at x)"
    "0 \<le> rotation_overlap i" "rotation_overlap i \<le> MAX_ROTATION_OVERLAP_SECONDS"
    "new = public_key (replacement_key h i x m keyId (sv_state s))"
    "old = public_key (x\<lparr>ak_expires_at := replaced_expiry h (rotation_overlap i) x\<rparr>)"
proof -
  obtain x where x: "List.find (\<lambda>c. ak_key_id c = ri_key_id i) (ac_api_keys (sv_state s)) = Some x"
    using assms by (cases "List.find (\<lambda>c. ak_key_id c = ri_key_id i) (ac_api_keys (sv_state s))")
      (auto simp: rotateApiKey_def Let_def split: if_splits)
  show thesis
    using assms x that [of x] find_SomeD [OF x]
    unfolding rotateApiKey_def rotation_overlap_def [symmetric]
    by (auto simp: Let_def split: if_splits)
qed


definition at_time :: "host \<Rightarrow> int \<Rightarrow> host" where
  "at_time h n = h\<lparr>h_now := n\<rparr>"

lemma at_time_parse [simp]: "h_parse (at_time h n) = h_parse h" "h_now (at_time h n) = n"
  by (simp_all add: at_time_def)

lemma public_unexpired [simp]: "unexpired h (public_key x) = unexpired h x"
  by (simp add: unexpired_def public_key_def)

lemma unexpired_iff:
  "unexpired h x \<longleftrightarrow> (truthy (ak_expires_at x) \<longrightarrow> (\<exists>n. h_parse h (the (ak_expires_at x)) = Some n \<and> h_now h < n))"
  by (auto simp: unexpired_def split: option.split)

lemma overlap_truthy: "truthy (Some (overlap_expiry h o'))"
  by (simp add: overlap_expiry_def to_iso_def truthy_def Let_def case_prod_beta)

lemma replaced_outlived:
  assumes "readable h (ak_expires_at x)" "reads_back h (h_now h + o' * 1000)" "truthy (Some (overlap_expiry h o'))"
    and "unexpired (at_time h n) (x\<lparr>ak_expires_at := replaced_expiry h o' x\<rparr>)"
  shows "unexpired (at_time h n) x \<and> n < h_now h + o' * 1000"
  using assms
  by (auto simp: unexpired_iff replaced_expiry_def overlap_expiry_def later_def readable_def reads_back_def Let_def
      split: if_splits option.splits)

lemma replacement_outlived:
  assumes "readable h (ak_expires_at x)" "in_future h (ri_expires_at i)" "\<not> later h (ri_expires_at i) (ak_expires_at x)"
    and "\<And>e n. ri_expires_at i = Some e \<Longrightarrow> h_parse h e = Some n \<Longrightarrow> reads_back h n"
    and "unexpired (at_time h n) (replacement_key h i x m keyId s)"
  shows "unexpired (at_time h n) x"
proof (cases "truthy (ri_expires_at i)")
  case True
  then obtain e where e: "ri_expires_at i = Some e" by (auto simp: truthy_def split: option.splits)
  then obtain t where t: "h_parse h e = Some t" using assms(2) True by (auto simp: in_future_def split: option.splits)
  have "truthy (Some (to_iso t))" using overlap_truthy [of "h\<lparr>h_now := t\<rparr>" 0] by (simp add: overlap_expiry_def)
  then have "n < t" using assms(4) [OF e t] assms(5) True e t
    by (auto simp: unexpired_iff replacement_key_def normal_expiry_def reads_back_def)
  then show ?thesis using assms(1,3) True e t by (auto simp: unexpired_iff later_def readable_def)
next
  case False
  then show ?thesis using assms(5) by (auto simp: unexpired_iff replacement_key_def present_def truthy_def)
qed

text \<open>
  C19. Rotation never extends a key's lifetime. The rotated key was active; at every later
  time at which its replacement or the old key would still be accepted, the key was going
  to be accepted before the rotation, and the old key is not accepted beyond the overlap,
  which is at most seven days.
\<close>

theorem rotation_never_extends:
  assumes "rotateApiKey h k i p s = (Inr (new, secret, old), t)"
    and "\<And>x. x \<in> set (ac_api_keys (sv_state s)) \<Longrightarrow> readable h (ak_expires_at x)"
    and "reads_back h (h_now h + rotation_overlap i * 1000)"
    and "\<And>e n. ri_expires_at i = Some e \<Longrightarrow> h_parse h e = Some n \<Longrightarrow> reads_back h n"
  shows "\<exists>x \<in> set (ac_api_keys (sv_state s)). ak_key_id x = ri_key_id i \<and> ak_active x \<and>
    (\<forall>n. unexpired (at_time h n) new \<longrightarrow> unexpired (at_time h n) x) \<and>
    (\<forall>n. unexpired (at_time h n) old \<longrightarrow> unexpired (at_time h n) x \<and> n < h_now h + 1000 * 604800)"
proof -
  obtain x m keyId where x: "x \<in> set (ac_api_keys (sv_state s))" "ak_key_id x = ri_key_id i" "ak_active x"
    "in_future h (ri_expires_at i)" "\<not> later h (ri_expires_at i) (ak_expires_at x)"
    "rotation_overlap i \<le> MAX_ROTATION_OVERLAP_SECONDS"
    "new = public_key (replacement_key h i x m keyId (sv_state s))"
    "old = public_key (x\<lparr>ak_expires_at := replaced_expiry h (rotation_overlap i) x\<rparr>)"
    using assms(1) by (rule rotate_result)
  have r: "readable h (ak_expires_at x)" using assms(2) x(1) by blast
  have "unexpired (at_time h n) x \<and> n < h_now h + 1000 * 604800" if "unexpired (at_time h n) old" for n
    using replaced_outlived [OF r assms(3) overlap_truthy, of n] that x(6,8) by (auto simp: MAX_ROTATION_OVERLAP_SECONDS_def)
  moreover have "unexpired (at_time h n) x" if "unexpired (at_time h n) new" for n
    using replacement_outlived [OF r x(4,5) assms(4)] that x(7) by simp
  ultimately show ?thesis using x(1-3) by blast
qed


section \<open>Secrets\<close>

lemma record_saved:
  assumes "recordAudit h p a rt ri md rq s = (Inr u, t)" "sole_writer s"
  shows "synced t \<and> (\<exists>a. sv_state t = (sv_state s)\<lparr>ac_audit := a\<rparr>)"
proof -
  have "view t = view (snd (recordAudit h p a rt ri md rq s))" using assms(1) by simp
  then show ?thesis
    using assms by (auto simp: view_def [of t] record_audit_run intro: save_syncs [of "s\<lparr>sv_draws := n, sv_state := x\<rparr>" for n x])
      (metis save_syncs sole_writer_change prod.inject)
qed

lemma create_result:
  assumes "createApiKey h k i p s = (Inr (pub, secret), t)" "sole_writer s"
  obtains x where "pub = public_key x" "ac_api_keys (sv_state t) = x # ac_api_keys (sv_state s)" "ak_active x"
    "ak_secret_hash x = hashSecret k secret" "ak_role x = ki_role i" "synced t"
proof -
  have "\<exists>x. pub = public_key x \<and> ac_api_keys (sv_state t) = x # ac_api_keys (sv_state s) \<and> ak_active x \<and>
      ak_secret_hash x = hashSecret k secret \<and> ak_role x = ki_role i \<and> synced t"
    using assms by (auto simp: createApiKey_def Let_def dest!: record_saved split: if_splits option.splits)
  then show thesis using that by blast
qed

text \<open>
  C20. A minted secret works. The secret that createApiKey returns authenticates, as long as
  the key has not expired and no older key has the same hash, as the key it came with: with
  its identifier, its role, the permissions of that role and its location scope.
\<close>

theorem created_key_authenticates:
  assumes "createApiKey h k i p s = (Inr (pub, secret), t)" "sole_writer s"
    and "\<And>x. x \<in> set (ac_api_keys (sv_state s)) \<Longrightarrow> \<not> secretsEqual (ak_secret_hash x) (hashSecret k secret)"
    and "unexpired h' pub" "map_of rolePermissions (ki_role i) = Some ps"
  shows "\<exists>t'. authenticate h' k secret t =
    (Inr (Some \<lparr>pr_tenant_id = ak_tenant_id pub, pr_actor_id = ak_key_id pub, pr_actor_type = Api_key,
      pr_role = ki_role i, pr_permissions = ps, pr_allowed_location_ids = ak_allowed_location_ids pub\<rparr>), t')"
proof -
  obtain x where x: "pub = public_key x" "ac_api_keys (sv_state t) = x # ac_api_keys (sv_state s)" "ak_active x"
    "ak_secret_hash x = hashSecret k secret" "ak_role x = ki_role i" "synced t"
    using assms(1,2) by (rule create_result)
  have "matching_key h' k secret (sv_state t) = Some x"
    using x assms(4) by (simp add: matching_key_def secretsEqual_def)
  moreover obtain u where "sv_save (t\<lparr>sv_state := replace_key (x\<lparr>ak_last_used_at := Some (isoNow h')\<rparr>) (sv_state t)\<rparr>) = (Inr (), u)"
    using save_syncs [of "t\<lparr>sv_state := replace_key (x\<lparr>ak_last_used_at := Some (isoNow h')\<rparr>) (sv_state t)\<rparr>"]
      synced_sole_writer [OF x(6)] by auto
  ultimately show ?thesis
    using x(1,5) assms(5) by (simp add: authenticate_def m_bind_def [of sv_save] m_bind_lift permissions_of_def key_principal_def public_key_def)
qed

section \<open>Restarts\<close>

lemma synced_save: "sole_writer s \<Longrightarrow> synced (snd (sv_save s))"
  by (rule save_syncs [of s]) auto

lemma synced_audit: "synced s \<Longrightarrow> sole_writer (s\<lparr>sv_state := x\<rparr>)"
  by (simp add: synced_sole_writer)

lemma synced_record: "sole_writer s \<Longrightarrow> synced (snd (recordAudit h p a rt ri md rq s))"
  by (simp add: record_audit_run synced_save)

lemma synced_save_lift: "sole_writer s \<Longrightarrow> synced (snd (m_bind sv_save (\<lambda>_. m_bind (m_lift r) (\<lambda>v. m_return (f v))) s))"
  by (rule save_syncs [of s]) (auto simp: m_bind_def m_lift_def split: sum.split)

lemma perform_synced: "synced s \<Longrightarrow> synced (perform_access h k p s)"
proof (cases p)
  case (Authenticate x)
  then show "synced s \<Longrightarrow> ?thesis"
    by (auto simp: authenticate_def Let_def synced_sole_writer intro!: synced_save_lift split: option.split)
next
  case (Upsert_user i q)
  then show "synced s \<Longrightarrow> ?thesis"
    by (cases "ui_user_id i"; cases "ui_scope i")
      (auto simp: upsertUser_def Let_def synced_sole_writer intro!: synced_record split: option.split)
next
  case (Create_api_key i q)
  then show "synced s \<Longrightarrow> ?thesis"
    by (auto simp: createApiKey_def Let_def synced_sole_writer intro!: synced_record split: option.split)
next
  case (Rotate_api_key i q)
  then show "synced s \<Longrightarrow> ?thesis"
    by (auto simp: rotateApiKey_def Let_def synced_sole_writer intro!: synced_save split: option.split)
next
  case (Revoke_api_key i q)
  then show "synced s \<Longrightarrow> ?thesis"
    by (auto simp: revokeApiKey_def Let_def synced_sole_writer intro!: synced_record split: option.split)
qed

lemma synced_history: "access_history ids s ops t \<Longrightarrow> synced s \<Longrightarrow> synced t"
  by (induction rule: access_history.induct) (auto intro: perform_synced)

lemma step_tenant:
  "access_step ids c x y \<Longrightarrow> ac_version (fst y) = ac_version (fst x) \<and> ac_tenant (fst y) = ac_tenant (fst x)"
  by (induction rule: access_step.induct) (auto simp: replace_key_def put_user_def)

lemma created_tenant:
  "create_access h i n r row = (Inr u, s) \<Longrightarrow> ac_version (sv_state s) = 1 \<and> tn_tenant_id (ac_tenant (sv_state s)) = i"
proof -
  assume "create_access h i n r row = (Inr u, s)"
  then show ?thesis
    by (auto simp: create_access_def sv_create_def Let_def split: prod.splits if_splits dest!: arg_cong [of _ _ "\<lambda>x. sv_state (snd x)"])
qed

text \<open>
  C21. A restart loses nothing. At any moment of any history of a tenant created afresh,
  refused and failed calls included, a service created on the store holds exactly the state
  the running service has in memory.
\<close>

theorem restart_loses_nothing:
  assumes "create_access h0 tenantId name reset None = (Inr u, s)" "access_history ids s ops t"
  shows "\<exists>t'. create_access h tenantId name' False (sv_store t) = (Inr (), t') \<and> sv_state t' = sv_state t"
proof -
  have "synced s" using create_syncs assms(1) by (auto simp: create_access_def)
  then have "synced t" using synced_history [OF assms(2)] by blast
  then have load: "store_load (sv_store t) = Some (sv_state t, sv_revision t)" by (simp add: synced_def)
  have "ac_version (fst (view t)) = 1 \<and> tn_tenant_id (ac_tenant (fst (view t))) = tenantId"
    by (rule access_history_induct [OF assms(2)]) (use created_tenant [OF assms(1)] step_tenant in \<open>auto simp: view_def\<close>)
  then have ok: "ac_version (sv_state t) = 1" "tn_tenant_id (ac_tenant (sv_state t)) = tenantId" by (simp_all add: view_def)
  let ?s = "\<lparr>sv_state = sv_state t, sv_revision = sv_revision t, sv_store = sv_store t, sv_draws = 0\<rparr>"
  have "sole_writer ?s" using synced_sole_writer [OF \<open>synced t\<close>] by (simp add: sole_writer_def)
  then obtain t' where "sv_save ?s = (Inr (), t')" "sv_state t' = sv_state t" using save_syncs [of ?s] by auto
  then show ?thesis using load ok by (auto simp: create_access_def sv_create_def Let_def)
qed

section \<open>Examples\<close>

text \<open>In the examples the hash of a secret has one byte for each of its characters.\<close>

definition sample_keys :: key_host where
  "sample_keys =
     \<lparr>kh_token = (\<lambda>n. replicate (n + 1) CHR ''t''),
      kh_sha256 = (\<lambda>t. concat (map (\<lambda>c. if c = CHR ''t'' then ''74'' else ''5f'') t))\<rparr>"

definition sample_tenant :: "access_state service" where
  "sample_tenant = snd (create_access sample_host ''t1'' ''Tenant'' False None)"

definition sample_key_input :: key_input where
  "sample_key_input =
     \<lparr>ki_name = ''till'', ki_role = ''operator'', ki_expires_at = None, ki_allowed_location_ids = Some [''loc1'']\<rparr>"

definition sample_root :: principal where
  "sample_root = rootPrincipal (sv_state sample_tenant)"

definition sample_keyed :: "access_state service" where
  "sample_keyed = perform_access sample_host sample_keys (Create_api_key sample_key_input sample_root) sample_tenant"

definition sample_revoked :: "access_state service" where
  "sample_revoked = perform_access sample_host sample_keys (Revoke_api_key ''key_i'' sample_root) sample_keyed"

definition sample_secret :: string where
  "sample_secret = ''lip_sk_t''"

definition sample_public :: api_key where
  "sample_public = public_key (hd (ac_api_keys (sv_state sample_keyed)))"

lemma sample_unique: "unique_ids (h_ids sample_host)"
  by (simp add: unique_ids_def sample_host_def sample_host_at_def inj_def sample_ids_def)

lemma sample_created: "create_access sample_host ''t1'' ''Tenant'' False None = (Inr (), sample_tenant)"
  by code_simp

lemma sample_history1:
  "access_history (h_ids sample_host) sample_tenant [(sample_host, sample_keys, Create_api_key sample_key_input sample_root)] sample_keyed"
  by (simp add: access_history_simps sample_keyed_def)

lemma sample_create_call:
  "createApiKey sample_host sample_keys sample_key_input sample_root sample_tenant =
     (Inr (sample_public, sample_secret), sample_keyed)"
  by code_simp

lemma sample_revoke_call: "revokeApiKey sample_host ''key_i'' sample_root sample_keyed = (Inr (), sample_revoked)"
  by code_simp

lemma sample_synced: "sole_writer sample_tenant"
  using sample_created unfolding create_access_def by (rule synced_sole_writer [OF create_syncs])

theorem revoked_keys_stay_dead_witness:
  "authenticated_as sample_host sample_keys sample_secret sample_revoked \<noteq> Some ''key_i''"
  by (rule revoked_keys_stay_dead [OF sample_created sample_history1 sample_unique sample_revoke_call refl access_Nil])

text \<open>The key of the example calls as a principal scoped to its one location.\<close>

definition sample_scoped :: principal where
  "sample_scoped = key_principal (sample_public\<lparr>ak_key_id := ''key_i''\<rparr>) [Access_manage]"

definition sample_extended :: "access_state service" where
  "sample_extended = perform_access sample_host sample_keys (Create_api_key sample_key_input sample_scoped) sample_keyed"

theorem scope_never_escapes_witness:
  "contained {''loc1''} (sv_state sample_keyed) (view sample_extended) \<and> length (ac_api_keys (sv_state sample_extended)) = 2"
proof -
  have "access_history (h_ids sample_host) sample_keyed [(sample_host, sample_keys, Create_api_key sample_key_input sample_scoped)] sample_extended"
    by (simp add: access_history_simps sample_extended_def)
  moreover have "locationScopeFor sample_scoped = Some [''loc1'']" by code_simp
  moreover have "length (ac_api_keys (sv_state sample_extended)) = 2" by code_simp
  ultimately show ?thesis
    using scope_never_escapes [where s = sample_keyed and t = sample_extended and cs = "{''loc1''}" and
        ops = "[(sample_host, sample_keys, Create_api_key sample_key_input sample_scoped)]"]
    by (simp add: scope_in_def)
qed

definition sample_rotation :: rotate_input where
  "sample_rotation = \<lparr>ri_key_id = ''key_i'', ri_overlap_seconds = Some 60, ri_expires_at = Some ''2026-02-01T00:00:00.000Z''\<rparr>"

definition sample_new :: "api_key \<times> string \<times> api_key" where
  "sample_new =
     (case fst (rotateApiKey sample_host sample_keys sample_rotation sample_root sample_keyed) of
        Inr r \<Rightarrow> r | Inl _ \<Rightarrow> (sample_public, [], sample_public))"

definition sample_rotated :: "access_state service" where
  "sample_rotated = perform_access sample_host sample_keys (Rotate_api_key sample_rotation sample_root) sample_keyed"

lemma sample_rotate_answers:
  "case fst (rotateApiKey sample_host sample_keys sample_rotation sample_root sample_keyed) of Inr _ \<Rightarrow> True | Inl _ \<Rightarrow> False"
  by code_simp

lemma sample_rotate_call:
  "rotateApiKey sample_host sample_keys sample_rotation sample_root sample_keyed =
     (Inr (fst sample_new, fst (snd sample_new), snd (snd sample_new)), sample_rotated)"
  using sample_rotate_answers
  by (cases "rotateApiKey sample_host sample_keys sample_rotation sample_root sample_keyed")
    (auto simp: sample_new_def sample_rotated_def split: sum.splits)

lemma sample_readable:
  "list_all (\<lambda>x. readable sample_host (ak_expires_at x)) (ac_api_keys (sv_state sample_keyed))"
  "h_parse sample_host ''2026-02-01T00:00:00.000Z'' = Some 1769904000000"
  "reads_back sample_host 1769904000000" "reads_back sample_host (h_now sample_host + rotation_overlap sample_rotation * 1000)"
  "ri_expires_at sample_rotation = Some ''2026-02-01T00:00:00.000Z''" "ri_key_id sample_rotation = ''key_i''"
  by code_simp+

theorem rotation_never_extends_witness:
  "\<exists>x \<in> set (ac_api_keys (sv_state sample_keyed)). ak_key_id x = ''key_i'' \<and> ak_active x \<and>
    (\<forall>n. unexpired (at_time sample_host n) (fst sample_new) \<longrightarrow> unexpired (at_time sample_host n) x) \<and>
    (\<forall>n. unexpired (at_time sample_host n) (snd (snd sample_new)) \<longrightarrow>
       unexpired (at_time sample_host n) x \<and> n < h_now sample_host + 1000 * 604800)"
proof -
  have "reads_back sample_host n"
    if "ri_expires_at sample_rotation = Some e" "h_parse sample_host e = Some n" for e n
    using that sample_readable(2,3,5) by simp
  then show ?thesis
    using rotation_never_extends [OF sample_rotate_call _ sample_readable(4)] sample_readable(1,6)
    by (simp add: list_all_iff)
qed

theorem created_key_authenticates_witness:
  "\<exists>t'. authenticate sample_host sample_keys sample_secret sample_keyed =
    (Inr (Some \<lparr>pr_tenant_id = ak_tenant_id sample_public, pr_actor_id = ak_key_id sample_public, pr_actor_type = Api_key,
      pr_role = ki_role sample_key_input,
      pr_permissions = [Admin_read, Admin_write, Platform_read, Platform_write, Protocol_read, Protocol_write],
      pr_allowed_location_ids = ak_allowed_location_ids sample_public\<rparr>), t')"
  by (rule created_key_authenticates [OF sample_create_call sample_synced]) code_simp+

theorem restart_loses_nothing_witness:
  "\<exists>t'. create_access (sample_host_at 0) ''t1'' ''Other name'' False (sv_store sample_keyed) = (Inr (), t') \<and>
    sv_state t' = sv_state sample_keyed"
  by (rule restart_loses_nothing [OF sample_created sample_history1])

end
