(* ===== verification/Js_Stringify.thy ===== *)
theory Js_Stringify
  imports Js_Text
begin

text \<open>
  \<open>JSON.stringify\<close> of an array of strings, which the services use as the key of a \<open>Map\<close>,
  and the fact the keys rely on: different arrays have different texts.
\<close>

section \<open>Quoting\<close>

text \<open>The characters \<open>JSON.stringify\<close> escapes, below 256.\<close>

definition json_escapes :: "(char \<times> string) list" where
  "json_escapes =
     [(CHR 0x00, CHR 0x5C # ''u0000''), (CHR 0x01, CHR 0x5C # ''u0001''), (CHR 0x02, CHR 0x5C # ''u0002''),
      (CHR 0x03, CHR 0x5C # ''u0003''), (CHR 0x04, CHR 0x5C # ''u0004''), (CHR 0x05, CHR 0x5C # ''u0005''),
      (CHR 0x06, CHR 0x5C # ''u0006''), (CHR 0x07, CHR 0x5C # ''u0007''), (CHR 0x08, [CHR 0x5C, CHR ''b'']),
      (CHR 0x09, [CHR 0x5C, CHR ''t'']), (CHR 0x0A, [CHR 0x5C, CHR ''n'']), (CHR 0x0B, CHR 0x5C # ''u000b''),
      (CHR 0x0C, [CHR 0x5C, CHR ''f'']), (CHR 0x0D, [CHR 0x5C, CHR ''r'']), (CHR 0x0E, CHR 0x5C # ''u000e''),
      (CHR 0x0F, CHR 0x5C # ''u000f''), (CHR 0x10, CHR 0x5C # ''u0010''), (CHR 0x11, CHR 0x5C # ''u0011''),
      (CHR 0x12, CHR 0x5C # ''u0012''), (CHR 0x13, CHR 0x5C # ''u0013''), (CHR 0x14, CHR 0x5C # ''u0014''),
      (CHR 0x15, CHR 0x5C # ''u0015''), (CHR 0x16, CHR 0x5C # ''u0016''), (CHR 0x17, CHR 0x5C # ''u0017''),
      (CHR 0x18, CHR 0x5C # ''u0018''), (CHR 0x19, CHR 0x5C # ''u0019''), (CHR 0x1A, CHR 0x5C # ''u001a''),
      (CHR 0x1B, CHR 0x5C # ''u001b''), (CHR 0x1C, CHR 0x5C # ''u001c''), (CHR 0x1D, CHR 0x5C # ''u001d''),
      (CHR 0x1E, CHR 0x5C # ''u001e''), (CHR 0x1F, CHR 0x5C # ''u001f''), (CHR 0x22, [CHR 0x5C, CHR 0x22]),
      (CHR 0x5C, [CHR 0x5C, CHR 0x5C])]"

definition json_char :: "char \<Rightarrow> string" where
  "json_char c = (case map_of json_escapes c of None \<Rightarrow> [c] | Some e \<Rightarrow> e)"

definition json_quote :: "string \<Rightarrow> string" where
  "json_quote t = CHR 0x22 # concat (map json_char t) @ [CHR 0x22]"

fun json_items :: "string list \<Rightarrow> string" where
  "json_items [] = ''''"
| "json_items [t] = json_quote t"
| "json_items (t # ts) = json_quote t @ '','' @ json_items ts"

definition json_strings :: "string list \<Rightarrow> string" where
  "json_strings ts = ''['' @ json_items ts @ '']''"

section \<open>Keys are injective\<close>

text \<open>No escape is a proper prefix of another, and none starts with a quote.\<close>

definition escapes_apart :: "string \<times> char \<Rightarrow> string \<times> char \<Rightarrow> bool" where
  "escapes_apart x y \<longleftrightarrow> snd x = snd y \<or> take (min (length (fst x)) (length (fst y))) (fst x) \<noteq> take (min (length (fst x)) (length (fst y))) (fst y)"

lemma escapes_prefix_free:
  "list_all (\<lambda>(c, e). list_all (\<lambda>(d, f). escapes_apart (e, c) (f, d)) json_escapes) json_escapes"
  by code_simp

lemma escapes_shape: "list_all (\<lambda>(c, e). length e \<ge> 2 \<and> hd e = CHR 0x5C) json_escapes" "map_of json_escapes (CHR 0x5C) \<noteq> None"
  "map_of json_escapes (CHR 0x22) \<noteq> None"
  by code_simp+

lemma json_char_cases:
  "json_char c = [c] \<and> c \<noteq> CHR 0x5C \<and> c \<noteq> CHR 0x22 \<or> (c, json_char c) \<in> set json_escapes"
proof (cases "map_of json_escapes c")
  case None
  then have "c \<noteq> CHR 0x5C" "c \<noteq> CHR 0x22" using escapes_shape(2,3) by (metis, metis)
  then show ?thesis using None by (simp add: json_char_def)
next
  case (Some e)
  then show ?thesis by (simp add: json_char_def map_of_SomeD)
qed

lemma append_apart: "e @ x = f @ y \<Longrightarrow> take (min (length e) (length f)) e = take (min (length e) (length f)) f"
  by (metis append_eq_append_conv_if min.absorb1 min.absorb2 nle_le take_all)

lemma escape_long: "(c, e) \<in> set json_escapes \<Longrightarrow> \<exists>r. e = CHR 0x5C # r"
  using escapes_shape(1) by (cases e) (auto simp: list_all_iff)

lemma json_char_head: "\<exists>d r. json_char c = d # r \<and> d \<noteq> CHR 0x22"
  using json_char_cases [of c] escape_long [of c "json_char c"] by auto

lemma json_char_inj:
  assumes "json_char c @ x = json_char d @ y"
  shows "c = d"
proof (cases "(c, json_char c) \<in> set json_escapes \<and> (d, json_char d) \<in> set json_escapes")
  case True
  then have "escapes_apart (json_char c, c) (json_char d, d)"
    using escapes_prefix_free unfolding list_all_iff by fastforce
  then show ?thesis using append_apart [OF assms] by (simp add: escapes_apart_def)
next
  case False
  then show ?thesis
    using assms json_char_cases [of c] json_char_cases [of d] escape_long [of c "json_char c"] escape_long [of d "json_char d"]
    by auto
qed

lemma json_chars_inj:
  "concat (map json_char s) @ CHR 0x22 # x = concat (map json_char t) @ CHR 0x22 # y \<Longrightarrow> s = t \<and> x = y"
proof (induction s arbitrary: t)
  case Nil
  then show ?case using json_char_head [of "hd t"] by (cases t) auto
next
  case (Cons c cs)
  show ?case
  proof (cases t)
    case Nil
    then show ?thesis using Cons.prems json_char_head [of c] by auto
  next
    case (Cons d ds)
    then have "c = d"
      using Cons.prems json_char_inj [of c "concat (map json_char cs) @ CHR 0x22 # x" d "concat (map json_char ds) @ CHR 0x22 # y"]
      by simp
    then show ?thesis using Cons.prems Cons.IH [of ds] Cons by simp
  qed
qed

lemma json_quote_inj: "json_quote s @ x = json_quote t @ y \<Longrightarrow> s = t \<and> x = y"
  using json_chars_inj [of s x t y] by (simp add: json_quote_def)

lemma json_items_inj: "length ss = length ts \<Longrightarrow> json_items ss @ x = json_items ts @ y \<Longrightarrow> ss = ts \<and> x = y"
proof (induction ss arbitrary: ts rule: json_items.induct)
  case (2 s)
  then show ?case using json_quote_inj [of s x "hd ts" y] by (cases ts) auto
next
  case (3 s s' ss)
  then obtain u u' us where ts: "ts = u # u' # us" by (metis Suc_length_conv length_Cons)
  then have "s = u \<and> json_items (s' # ss) @ x = json_items (u' # us) @ y"
    using 3(3) json_quote_inj [of s "'','' @ json_items (s' # ss) @ x" u "'','' @ json_items (u' # us) @ y"] by simp
  then show ?case using 3(1) [of "u' # us"] 3(2) ts by simp
qed simp

lemma json_strings_inj [simp]: "length ss = length ts \<Longrightarrow> json_strings ss = json_strings ts \<longleftrightarrow> ss = ts"
  using json_items_inj [of ss ts "'']''" "'']''"] by (auto simp: json_strings_def)

end
