(* ===== verification/Identity_Directory.thy ===== *)
theory Identity_Directory
  imports Js_Stringify Js_Date
begin

text \<open>
  packages/identity/src/types.ts and directory.ts: customers, the external identities that
  belong to them and the loyalty member each has in a program, in the reference repository
  of three maps. Their keys are JSON texts of the fields.
\<close>

section \<open>Records\<close>

record identity_principal =
  ip_issuer :: string
  ip_subject :: string
  ip_email :: "string option"
  ip_email_verified :: "bool option"
  ip_phone_number :: "string option"
  ip_phone_number_verified :: "bool option"

datatype customer_status = Customer_active | Customer_deleted

record customer =
  cu_tenantId :: string
  cu_customerId :: string
  cu_status :: customer_status
  cu_createdAt :: string
  cu_updatedAt :: string
  cu_deletedAt :: "string option"

record identity_link =
  il_tenantId :: string
  il_issuer :: string
  il_subject :: string
  il_customerId :: string
  il_linkedAt :: string

record member_link =
  ml_tenantId :: string
  ml_customerId :: string
  ml_programId :: string
  ml_memberId :: string
  ml_linkedAt :: string

datatype identity_error =
  Invalid_configuration | Missing_token | Invalid_token | Invalid_identity | Customer_is_deleted | Identity_conflict
| Member_conflict | Customer_not_found

section \<open>Checks and keys\<close>

definition assertId :: "string \<Rightarrow> identity_error + string" where
  "assertId v = (let t = trim v in if id_ok t then Inr t else Inl Invalid_identity)"

definition assertPrincipal :: "identity_principal \<Rightarrow> identity_error + unit" where
  "assertPrincipal p =
     (if trim (ip_issuer p) = [] \<or> length (ip_issuer p) > 2048 then Inl Invalid_identity
      else if trim (ip_subject p) = [] \<or> length (ip_subject p) > 512 then Inl Invalid_identity
      else Inr ())"

definition identityKey :: "string \<Rightarrow> string \<Rightarrow> string \<Rightarrow> string" where
  "identityKey tenantId issuer subject = json_strings [tenantId, issuer, subject]"

definition customerKey :: "string \<Rightarrow> string \<Rightarrow> string" where
  "customerKey tenantId customerId = json_strings [tenantId, customerId]"

definition memberKey :: "string \<Rightarrow> string \<Rightarrow> string \<Rightarrow> string" where
  "memberKey tenantId customerId programId = json_strings [tenantId, customerId, programId]"

lemma identityKey_inject [simp]: "identityKey t i s = identityKey t' i' s' \<longleftrightarrow> t = t' \<and> i = i' \<and> s = s'"
  by (simp add: identityKey_def)

lemma customerKey_inject [simp]: "customerKey t c = customerKey t' c' \<longleftrightarrow> t = t' \<and> c = c'"
  by (simp add: customerKey_def)

lemma memberKey_inject [simp]: "memberKey t c p = memberKey t' c' p' \<longleftrightarrow> t = t' \<and> c = c' \<and> p = p'"
  by (simp add: memberKey_def)

section \<open>The repository\<close>

record directory =
  dr_customers :: "(string, customer) jsmap"
  dr_identities :: "(string, identity_link) jsmap"
  dr_members :: "(string, member_link) jsmap"

type_synonym 'a directory_eff = "(directory, identity_error, 'a) eff"

definition empty_directory :: directory where
  "empty_directory = \<lparr>dr_customers = [], dr_identities = [], dr_members = []\<rparr>"

definition resolveOrCreateCustomer ::
  "string \<Rightarrow> identity_principal \<Rightarrow> string \<Rightarrow> string \<Rightarrow> customer directory_eff"
where
  "resolveOrCreateCustomer tenantInput p customerInput now =
     m_bind (m_lift (assertId tenantInput)) (\<lambda>tenantId.
     m_bind (m_lift (assertPrincipal p)) (\<lambda>_.
     m_bind (m_get (\<lambda>d. js_get (dr_identities d) (identityKey tenantId (ip_issuer p) (ip_subject p)))) (\<lambda>linked.
     case linked of
       Some l \<Rightarrow>
         m_bind (m_get (\<lambda>d. js_get (dr_customers d) (customerKey tenantId (il_customerId l)))) (\<lambda>c.
         case c of None \<Rightarrow> m_throw Customer_not_found | Some c \<Rightarrow> m_return c)
     | None \<Rightarrow>
         m_bind (m_lift (assertId customerInput)) (\<lambda>customerId.
         m_bind (m_get (\<lambda>d. js_has (dr_customers d) (customerKey tenantId customerId))) (\<lambda>taken.
         m_bind (m_assert (\<not> taken) Identity_conflict) (\<lambda>_.
         (let c = \<lparr>cu_tenantId = tenantId, cu_customerId = customerId, cu_status = Customer_active,
                   cu_createdAt = now, cu_updatedAt = now, cu_deletedAt = None\<rparr>;
              l = \<lparr>il_tenantId = tenantId, il_issuer = ip_issuer p, il_subject = ip_subject p,
                   il_customerId = customerId, il_linkedAt = now\<rparr> in
         m_bind (m_modify (\<lambda>d. d\<lparr>dr_customers := js_set (dr_customers d) (customerKey tenantId customerId) c\<rparr>)) (\<lambda>_.
         m_bind (m_modify (\<lambda>d. d\<lparr>dr_identities :=
           js_set (dr_identities d) (identityKey tenantId (ip_issuer p) (ip_subject p)) l\<rparr>)) (\<lambda>_.
         m_return c)))))))))"

definition customerForIdentity :: "string \<Rightarrow> string \<Rightarrow> string \<Rightarrow> customer option directory_eff" where
  "customerForIdentity tenantInput issuer subject =
     m_bind (m_lift (assertId tenantInput)) (\<lambda>tenantId.
     m_get (\<lambda>d.
       case js_get (dr_identities d) (identityKey tenantId issuer subject) of
         None \<Rightarrow> None
       | Some l \<Rightarrow> js_get (dr_customers d) (customerKey tenantId (il_customerId l))))"

definition linkExternalIdentity ::
  "string \<Rightarrow> string \<Rightarrow> identity_principal \<Rightarrow> string \<Rightarrow> identity_link directory_eff"
where
  "linkExternalIdentity tenantInput customerInput p now =
     m_bind (m_lift (assertId tenantInput)) (\<lambda>tenantId.
     m_bind (m_lift (assertId customerInput)) (\<lambda>customerId.
     m_bind (m_lift (assertPrincipal p)) (\<lambda>_.
     m_bind (m_get (\<lambda>d. js_get (dr_customers d) (customerKey tenantId customerId))) (\<lambda>found.
     case found of
       None \<Rightarrow> m_throw Customer_not_found
     | Some c \<Rightarrow>
         m_bind (m_assert (cu_status c \<noteq> Customer_deleted) Customer_is_deleted) (\<lambda>_.
         m_bind (m_get (\<lambda>d. js_get (dr_identities d) (identityKey tenantId (ip_issuer p) (ip_subject p)))) (\<lambda>existing.
         case existing of
           Some l \<Rightarrow> if il_customerId l \<noteq> customerId then m_throw Identity_conflict else m_return l
         | None \<Rightarrow>
             (let l = \<lparr>il_tenantId = tenantId, il_issuer = ip_issuer p, il_subject = ip_subject p,
                       il_customerId = customerId, il_linkedAt = now\<rparr> in
             m_bind (m_modify (\<lambda>d. d\<lparr>dr_identities :=
               js_set (dr_identities d) (identityKey tenantId (ip_issuer p) (ip_subject p)) l\<rparr>)) (\<lambda>_.
             m_return l))))))))"

definition memberLink :: "string \<Rightarrow> string \<Rightarrow> string \<Rightarrow> member_link option directory_eff" where
  "memberLink tenantInput customerInput programInput =
     m_bind (m_lift (assertId tenantInput)) (\<lambda>tenantId.
     m_bind (m_lift (assertId customerInput)) (\<lambda>customerId.
     m_bind (m_lift (assertId programInput)) (\<lambda>programId.
     m_get (\<lambda>d. js_get (dr_members d) (memberKey tenantId customerId programId)))))"

definition memberLinksForCustomer :: "string \<Rightarrow> string \<Rightarrow> member_link list directory_eff" where
  "memberLinksForCustomer tenantInput customerInput =
     m_bind (m_lift (assertId tenantInput)) (\<lambda>tenantId.
     m_bind (m_lift (assertId customerInput)) (\<lambda>customerId.
     m_get (\<lambda>d. filter (\<lambda>l. ml_tenantId l = tenantId \<and> ml_customerId l = customerId) (js_values (dr_members d)))))"

definition linkMember :: "string \<Rightarrow> string \<Rightarrow> string \<Rightarrow> string \<Rightarrow> string \<Rightarrow> member_link directory_eff" where
  "linkMember tenantInput customerInput programInput memberInput now =
     m_bind (m_lift (assertId tenantInput)) (\<lambda>tenantId.
     m_bind (m_lift (assertId customerInput)) (\<lambda>customerId.
     m_bind (m_lift (assertId programInput)) (\<lambda>programId.
     m_bind (m_lift (assertId memberInput)) (\<lambda>memberId.
     m_bind (m_get (\<lambda>d. js_has (dr_customers d) (customerKey tenantId customerId))) (\<lambda>known.
     m_bind (m_assert known Customer_not_found) (\<lambda>_.
     m_bind (m_get (\<lambda>d. js_get (dr_members d) (memberKey tenantId customerId programId))) (\<lambda>existing.
     case existing of
       Some l \<Rightarrow> if ml_memberId l \<noteq> memberId then m_throw Member_conflict else m_return l
     | None \<Rightarrow>
         (let l = \<lparr>ml_tenantId = tenantId, ml_customerId = customerId, ml_programId = programId,
                   ml_memberId = memberId, ml_linkedAt = now\<rparr> in
         m_bind (m_modify (\<lambda>d. d\<lparr>dr_members := js_set (dr_members d) (memberKey tenantId customerId programId) l\<rparr>)) (\<lambda>_.
         m_return l)))))))))"

definition markCustomerDeleted :: "string \<Rightarrow> string \<Rightarrow> string \<Rightarrow> customer directory_eff" where
  "markCustomerDeleted tenantInput customerInput now =
     m_bind (m_lift (assertId tenantInput)) (\<lambda>tenantId.
     m_bind (m_lift (assertId customerInput)) (\<lambda>customerId.
     m_bind (m_get (\<lambda>d. js_get (dr_customers d) (customerKey tenantId customerId))) (\<lambda>found.
     case found of
       None \<Rightarrow> m_throw Customer_not_found
     | Some c \<Rightarrow>
         (let deleted = c\<lparr>cu_status := Customer_deleted, cu_updatedAt := now,
                cu_deletedAt := Some (case cu_deletedAt c of Some t \<Rightarrow> t | None \<Rightarrow> now)\<rparr> in
         m_bind (m_modify (\<lambda>d. d\<lparr>dr_customers := js_set (dr_customers d) (customerKey tenantId customerId) deleted\<rparr>)) (\<lambda>_.
         m_return deleted)))))"

section \<open>The resolver\<close>

text \<open>
  CustomerLoyaltyResolver turns an authenticated principal into one customer and one member
  of the program. The loyalty server it calls is a parameter: \<open>enrollMember\<close> takes the
  program, the customer and the idempotency key and answers the member, or fails, and
  \<open>cancelMember\<close> closes one; their world is the second half of the state. \<open>sha256\<close> is the digest in hex.
\<close>

datatype resolver_error = Directory_error identity_error | Loyalty_error nat

record 'w loyalty_api =
  la_enroll :: "string \<Rightarrow> string \<Rightarrow> string \<Rightarrow> 'w \<Rightarrow> (nat + string) \<times> 'w"
  la_cancel :: "(string \<Rightarrow> 'w \<Rightarrow> (nat + unit) \<times> 'w) option"

type_synonym ('w, 'a) resolver_eff = "(directory \<times> 'w, resolver_error, 'a) eff"

definition on_directory :: "'a directory_eff \<Rightarrow> ('w, 'a) resolver_eff" where
  "on_directory m x =
     (case m (fst x) of (Inl e, d) \<Rightarrow> (Inl (Directory_error e), (d, snd x)) | (Inr v, d) \<Rightarrow> (Inr v, (d, snd x)))"

definition on_loyalty :: "('w \<Rightarrow> (nat + 'a) \<times> 'w) \<Rightarrow> ('w, 'a) resolver_eff" where
  "on_loyalty m x =
     (case m (snd x) of (Inl e, w) \<Rightarrow> (Inl (Loyalty_error e), (fst x, w)) | (Inr v, w) \<Rightarrow> (Inr v, (fst x, w)))"

definition memberIdempotencyKey :: "(string \<Rightarrow> string) \<Rightarrow> string \<Rightarrow> string \<Rightarrow> string \<Rightarrow> string" where
  "memberIdempotencyKey sha256 tenantId customerId programId =
     ''customer-member:'' @ sha256 (json_strings [tenantId, customerId, programId])"

definition customer_resolve ::
  "(string \<Rightarrow> string) \<Rightarrow> 'w loyalty_api \<Rightarrow> string \<Rightarrow> string \<Rightarrow> string \<Rightarrow> string \<Rightarrow> identity_principal \<Rightarrow>
   ('w, customer \<times> member_link) resolver_eff"
where
  "customer_resolve sha256 api now newId tenantInput programInput p =
     m_bind (on_directory (m_lift (assertId tenantInput))) (\<lambda>tenantId.
     m_bind (on_directory (m_lift (assertId programInput))) (\<lambda>programId.
     m_bind (on_directory (m_lift (assertPrincipal p))) (\<lambda>_.
     m_bind (on_directory (resolveOrCreateCustomer tenantId p newId now)) (\<lambda>c.
     m_bind (m_assert (cu_status c \<noteq> Customer_deleted) (Directory_error Customer_is_deleted)) (\<lambda>_.
     m_bind (on_directory (memberLink tenantId (cu_customerId c) programId)) (\<lambda>existing.
     case existing of
       Some l \<Rightarrow> m_return (c, l)
     | None \<Rightarrow>
         m_bind (on_loyalty (la_enroll api programId (cu_customerId c)
           (memberIdempotencyKey sha256 tenantId (cu_customerId c) programId))) (\<lambda>memberId.
         m_bind (on_directory (linkMember tenantId (cu_customerId c) programId memberId now)) (\<lambda>l.
         m_bind (m_assert (ml_memberId l = memberId) (Directory_error Member_conflict)) (\<lambda>_.
         m_return (c, l))))))))))"

definition deleteCustomer ::
  "'w loyalty_api \<Rightarrow> string \<Rightarrow> string \<Rightarrow> string \<Rightarrow> ('w, customer) resolver_eff"
where
  "deleteCustomer api now tenantId customerId =
     m_bind (on_directory (memberLinksForCustomer tenantId customerId)) (\<lambda>links.
     m_bind (on_directory (markCustomerDeleted tenantId customerId now)) (\<lambda>deleted.
     m_bind (case la_cancel api of
               None \<Rightarrow> m_return []
             | Some cancel \<Rightarrow> m_map (\<lambda>l. on_loyalty (cancel (ml_memberId l))) links) (\<lambda>_.
     m_return deleted)))"

definition linkIdentity ::
  "string \<Rightarrow> string \<Rightarrow> string \<Rightarrow> identity_principal \<Rightarrow> ('w, identity_link) resolver_eff"
where
  "linkIdentity now tenantId customerId p = on_directory (linkExternalIdentity tenantId customerId p now)"

end
