(* ===== verification/Identity_Theorems.thy ===== *)
theory Identity_Theorems
  imports Identity_Directory
begin

text \<open>
  The customer directory over any history of the repository's and the resolver's calls: it
  stays consistent, links are never moved, tenants do not see each other, and a principal
  is resolved to the same customer and member for as long as the customer exists.
\<close>

section \<open>Consistency\<close>

definition directory_ok :: "directory \<Rightarrow> bool" where
  "directory_ok d \<longleftrightarrow>
     keys_ok (dr_customers d) \<and> keys_ok (dr_identities d) \<and> keys_ok (dr_members d) \<and>
     (\<forall>k c. js_get (dr_customers d) k = Some c \<longrightarrow> k = customerKey (cu_tenantId c) (cu_customerId c) \<and>
        assertId (cu_customerId c) = Inr (cu_customerId c)) \<and>
     (\<forall>k l. js_get (dr_identities d) k = Some l \<longrightarrow>
        k = identityKey (il_tenantId l) (il_issuer l) (il_subject l) \<and>
        js_get (dr_customers d) (customerKey (il_tenantId l) (il_customerId l)) \<noteq> None) \<and>
     (\<forall>k l. js_get (dr_members d) k = Some l \<longrightarrow>
        k = memberKey (ml_tenantId l) (ml_customerId l) (ml_programId l) \<and>
        js_get (dr_customers d) (customerKey (ml_tenantId l) (ml_customerId l)) \<noteq> None)"

lemma directory_okD:
  "directory_ok d \<Longrightarrow> js_get (dr_customers d) k = Some c \<Longrightarrow>
     k = customerKey (cu_tenantId c) (cu_customerId c) \<and> assertId (cu_customerId c) = Inr (cu_customerId c)"
  "directory_ok d \<Longrightarrow> js_get (dr_identities d) k = Some l \<Longrightarrow>
     k = identityKey (il_tenantId l) (il_issuer l) (il_subject l) \<and>
     js_get (dr_customers d) (customerKey (il_tenantId l) (il_customerId l)) \<noteq> None"
  "directory_ok d \<Longrightarrow> js_get (dr_members d) k = Some m \<Longrightarrow>
     k = memberKey (ml_tenantId m) (ml_customerId m) (ml_programId m) \<and>
     js_get (dr_customers d) (customerKey (ml_tenantId m) (ml_customerId m)) \<noteq> None"
  by (auto simp: directory_ok_def)

lemma stored_customer:
  "directory_ok d \<Longrightarrow> js_get (dr_customers d) (customerKey t i) = Some c \<Longrightarrow>
     cu_tenantId c = t \<and> cu_customerId c = i \<and> assertId i = Inr i"
  using directory_okD(1) [of d "customerKey t i" c] by auto

lemma stored_identity:
  "directory_ok d \<Longrightarrow> js_get (dr_identities d) (identityKey t i s) = Some l \<Longrightarrow>
     il_tenantId l = t \<and> js_get (dr_customers d) (customerKey t (il_customerId l)) \<noteq> None"
  using directory_okD(2) [of d "identityKey t i s" l] by auto

text \<open>What every call keeps: links stay, customers keep their identity and stay deleted.\<close>

definition customer_kept :: "customer \<Rightarrow> customer \<Rightarrow> bool" where
  "customer_kept c c' \<longleftrightarrow>
     cu_tenantId c' = cu_tenantId c \<and> cu_customerId c' = cu_customerId c \<and> cu_createdAt c' = cu_createdAt c \<and>
     (cu_status c = Customer_deleted \<longrightarrow> cu_status c' = Customer_deleted) \<and>
     (cu_deletedAt c \<noteq> None \<longrightarrow> cu_deletedAt c' = cu_deletedAt c)"

definition extends :: "directory \<Rightarrow> directory \<Rightarrow> bool" where
  "extends d d' \<longleftrightarrow>
     (\<forall>k l. js_get (dr_identities d) k = Some l \<longrightarrow> js_get (dr_identities d') k = Some l) \<and>
     (\<forall>k l. js_get (dr_members d) k = Some l \<longrightarrow> js_get (dr_members d') k = Some l) \<and>
     (\<forall>k c. js_get (dr_customers d) k = Some c \<longrightarrow>
        (\<exists>c'. js_get (dr_customers d') k = Some c' \<and> customer_kept c c'))"

definition tenant_part :: "string \<Rightarrow> directory \<Rightarrow> directory" where
  "tenant_part t d =
     \<lparr>dr_customers = filter (\<lambda>(k, c). cu_tenantId c = t) (dr_customers d),
      dr_identities = filter (\<lambda>(k, l). il_tenantId l = t) (dr_identities d),
      dr_members = filter (\<lambda>(k, l). ml_tenantId l = t) (dr_members d)\<rparr>"

text \<open>A call by one tenant leaves the others alone.\<close>

definition evolves :: "string \<Rightarrow> directory \<Rightarrow> directory \<Rightarrow> bool" where
  "evolves u d d' \<longleftrightarrow>
     (directory_ok d \<longrightarrow> directory_ok d' \<and> extends d d' \<and> (\<forall>t. t \<noteq> u \<longrightarrow> tenant_part t d' = tenant_part t d))"

lemma filter_js_set:
  "(\<And>v0. js_get m k = Some v0 \<Longrightarrow> \<not> P v0) \<Longrightarrow> \<not> P v \<Longrightarrow> filter (\<lambda>(k, v). P v) (js_set m k v) = filter (\<lambda>(k, v). P v) m"
  by (induction m) auto

lemma customers_apart:
  assumes "cu_tenantId l \<noteq> t" "directory_ok d"
  shows "tenant_part t (d\<lparr>dr_customers := js_set (dr_customers d) (customerKey (cu_tenantId l) i) l\<rparr>) = tenant_part t d"
proof -
  have "filter (\<lambda>(k, v). cu_tenantId v = t) (js_set (dr_customers d) (customerKey (cu_tenantId l) i) l) = filter (\<lambda>(k, v). cu_tenantId v = t) (dr_customers d)"
  proof (rule filter_js_set)
    show "cu_tenantId v \<noteq> t" if "js_get (dr_customers d) (customerKey (cu_tenantId l) i) = Some v" for v
      using stored_customer [OF assms(2) that] assms(1) by simp
  qed (rule assms(1))
  then show ?thesis by (simp add: tenant_part_def)
qed

lemma identities_apart:
  assumes "il_tenantId l \<noteq> t" "directory_ok d"
  shows "tenant_part t (d\<lparr>dr_identities := js_set (dr_identities d) (identityKey (il_tenantId l) i s) l\<rparr>) = tenant_part t d"
proof -
  have "filter (\<lambda>(k, v). il_tenantId v = t) (js_set (dr_identities d) (identityKey (il_tenantId l) i s) l) = filter (\<lambda>(k, v). il_tenantId v = t) (dr_identities d)"
  proof (rule filter_js_set)
    show "il_tenantId v \<noteq> t" if "js_get (dr_identities d) (identityKey (il_tenantId l) i s) = Some v" for v
      using directory_okD(2) [OF assms(2) that] assms(1) by simp
  qed (rule assms(1))
  then show ?thesis by (simp add: tenant_part_def)
qed

lemma members_apart:
  assumes "ml_tenantId l \<noteq> t" "directory_ok d"
  shows "tenant_part t (d\<lparr>dr_members := js_set (dr_members d) (memberKey (ml_tenantId l) i s) l\<rparr>) = tenant_part t d"
proof -
  have "filter (\<lambda>(k, v). ml_tenantId v = t) (js_set (dr_members d) (memberKey (ml_tenantId l) i s) l) = filter (\<lambda>(k, v). ml_tenantId v = t) (dr_members d)"
  proof (rule filter_js_set)
    show "ml_tenantId v \<noteq> t" if "js_get (dr_members d) (memberKey (ml_tenantId l) i s) = Some v" for v
      using directory_okD(3) [OF assms(2) that] assms(1) by simp
  qed (rule assms(1))
  then show ?thesis by (simp add: tenant_part_def)
qed

lemma customer_kept_refl [simp]: "customer_kept c c"
  by (simp add: customer_kept_def)

lemma customer_kept_trans: "customer_kept a b \<Longrightarrow> customer_kept b c \<Longrightarrow> customer_kept a c"
  by (auto simp: customer_kept_def)

lemma extends_refl [simp]: "extends d d"
  by (auto simp: extends_def)

lemma extends_trans: "extends a b \<Longrightarrow> extends b c \<Longrightarrow> extends a c"
  unfolding extends_def by (meson customer_kept_trans)

interpretation directory: effect_relation "evolves u" for u
  by unfold_locales (auto simp: evolves_def intro: extends_trans)

section \<open>The repository's calls\<close>

lemma assertId_idem: "assertId v = Inr u \<Longrightarrow> assertId u = Inr u"
  by (auto simp: assertId_def Let_def split: if_splits)

lemma new_identity_evolves:
  assumes "js_get (dr_customers d) (customerKey t c) \<noteq> None" "js_get (dr_identities d) (identityKey t i s) = None"
  shows "evolves t d (d\<lparr>dr_identities := js_set (dr_identities d) (identityKey t i s)
      \<lparr>il_tenantId = t, il_issuer = i, il_subject = s, il_customerId = c, il_linkedAt = n\<rparr>\<rparr>)"
  using assms identities_apart [of "\<lparr>il_tenantId = t, il_issuer = i, il_subject = s, il_customerId = c, il_linkedAt = n\<rparr>" _ d i s]
  by (auto simp: evolves_def directory_ok_def extends_def)

lemma new_member_evolves:
  assumes "js_get (dr_customers d) (customerKey t c) \<noteq> None" "js_get (dr_members d) (memberKey t c p) = None"
  shows "evolves t d (d\<lparr>dr_members := js_set (dr_members d) (memberKey t c p)
      \<lparr>ml_tenantId = t, ml_customerId = c, ml_programId = p, ml_memberId = m, ml_linkedAt = n\<rparr>\<rparr>)"
  using assms members_apart [of "\<lparr>ml_tenantId = t, ml_customerId = c, ml_programId = p, ml_memberId = m, ml_linkedAt = n\<rparr>" _ d c p]
  by (auto simp: evolves_def directory_ok_def extends_def)

lemma set_customer_evolves:
  assumes "\<And>c. js_get (dr_customers d) (customerKey t (cu_customerId c')) = Some c \<Longrightarrow> customer_kept c c'"
    and "cu_tenantId c' = t" "assertId (cu_customerId c') = Inr (cu_customerId c')"
  shows "evolves t d (d\<lparr>dr_customers := js_set (dr_customers d) (customerKey t (cu_customerId c')) c'\<rparr>)"
  using assms customers_apart [of c' _ d "cu_customerId c'"]
  by (auto simp: evolves_def directory_ok_def extends_def)

lemma new_customer_evolves:
  assumes "js_get (dr_customers d) (customerKey t c) = None" "js_get (dr_identities d) (identityKey t i s) = None"
    "assertId c = Inr c"
  shows "evolves t d (d\<lparr>dr_customers := js_set (dr_customers d) (customerKey t c)
      \<lparr>cu_tenantId = t, cu_customerId = c, cu_status = st, cu_createdAt = n, cu_updatedAt = n', cu_deletedAt = x\<rparr>,
    dr_identities := js_set (dr_identities d) (identityKey t i s)
      \<lparr>il_tenantId = t, il_issuer = i, il_subject = s, il_customerId = c, il_linkedAt = n''\<rparr>\<rparr>)"
proof -
  let ?c = "\<lparr>cu_tenantId = t, cu_customerId = c, cu_status = st, cu_createdAt = n, cu_updatedAt = n', cu_deletedAt = x\<rparr>"
  let ?d = "d\<lparr>dr_customers := js_set (dr_customers d) (customerKey t c) ?c\<rparr>"
  have "evolves t d ?d" using set_customer_evolves [of d t ?c] assms(1,3) by simp
  moreover have "evolves t ?d (?d\<lparr>dr_identities := js_set (dr_identities ?d) (identityKey t i s)
      \<lparr>il_tenantId = t, il_issuer = i, il_subject = s, il_customerId = c, il_linkedAt = n''\<rparr>\<rparr>)"
    by (rule new_identity_evolves) (use assms(2) in simp_all)
  ultimately show ?thesis using directory.R_trans by fastforce
qed

lemma resolveOrCreate_evolves: "m_keeps (evolves (trim t)) (resolveOrCreateCustomer t p c n)"
  unfolding m_keeps_def
  by (auto simp: resolveOrCreateCustomer_def m_bind_lift m_bind_assert Let_def js_has_def assertId_def intro: new_customer_evolves
      split: sum.split option.split) (auto simp: directory.R_refl)

lemma linkExternalIdentity_evolves: "m_keeps (evolves (trim t)) (linkExternalIdentity t c p n)"
  unfolding m_keeps_def
  by (auto simp: linkExternalIdentity_def m_bind_lift m_bind_assert Let_def assertId_def intro: new_identity_evolves
      split: sum.split option.split) (auto simp: directory.R_refl)

lemma linkMember_evolves: "m_keeps (evolves (trim t)) (linkMember t c p m n)"
  unfolding m_keeps_def
  by (auto simp: linkMember_def m_bind_lift m_bind_assert Let_def js_has_def assertId_def intro: new_member_evolves
      split: sum.split option.split) (auto simp: directory.R_refl)

lemma delete_evolves:
  assumes "js_get (dr_customers d) (customerKey t i) = Some c" "customer_kept c c'"
  shows "evolves t d (d\<lparr>dr_customers := js_set (dr_customers d) (customerKey t i) c'\<rparr>)"
proof (cases "directory_ok d")
  case True
  then have "cu_tenantId c = t" "cu_customerId c = i" "assertId i = Inr i" using stored_customer assms(1) by auto
  then show ?thesis using set_customer_evolves [of d t c'] assms by (simp add: customer_kept_def)
qed (simp add: evolves_def)

lemma markCustomerDeleted_evolves: "m_keeps (evolves (trim t)) (markCustomerDeleted t c n)"
  unfolding m_keeps_def
  by (auto simp: markCustomerDeleted_def m_bind_lift m_bind_assert Let_def customer_kept_def assertId_def intro!: delete_evolves
      split: sum.split option.split) (auto simp: directory.R_refl)

lemma memberLink_state [simp]: "snd (memberLink t c p d) = d" "snd (memberLinksForCustomer t c d) = d"
  by (simp_all add: memberLink_def memberLinksForCustomer_def m_bind_lift split: sum.split)

section \<open>Histories\<close>

datatype identity_call =
  Resolve_or_create string identity_principal string string
| Link_identity string string identity_principal string
| Link_member string string string string string
| Mark_deleted string string string
| Resolve string string string string identity_principal
| Delete_customer string string string

fun call_tenant :: "identity_call \<Rightarrow> string" where
  "call_tenant (Resolve_or_create t p c n) = t"
| "call_tenant (Link_identity t c p n) = t"
| "call_tenant (Link_member t c p m n) = t"
| "call_tenant (Mark_deleted t c n) = t"
| "call_tenant (Resolve n i t p q) = t"
| "call_tenant (Delete_customer n t c) = t"

fun perform_identity ::
  "(string \<Rightarrow> string) \<Rightarrow> 'w loyalty_api \<Rightarrow> identity_call \<Rightarrow> directory \<times> 'w \<Rightarrow> directory \<times> 'w"
where
  "perform_identity sha api (Resolve_or_create t p c n) x = snd (on_directory (resolveOrCreateCustomer t p c n) x)"
| "perform_identity sha api (Link_identity t c p n) x = snd (linkIdentity n t c p x)"
| "perform_identity sha api (Link_member t c p m n) x = snd (on_directory (linkMember t c p m n) x)"
| "perform_identity sha api (Mark_deleted t c n) x = snd (on_directory (markCustomerDeleted t c n) x)"
| "perform_identity sha api (Resolve n i t p q) x = snd (customer_resolve sha api n i t p q x)"
| "perform_identity sha api (Delete_customer n t c) x = snd (deleteCustomer api n t c x)"

definition identity_run ::
  "(string \<Rightarrow> string) \<Rightarrow> 'w loyalty_api \<Rightarrow> identity_call list \<Rightarrow> directory \<times> 'w \<Rightarrow> directory \<times> 'w"
where
  "identity_run sha api calls x = fold (perform_identity sha api) calls x"

text \<open>Relations on directories, lifted to the resolver's state.\<close>

definition first_evolves :: "string \<Rightarrow> directory \<times> 'w \<Rightarrow> directory \<times> 'w \<Rightarrow> bool" where
  "first_evolves u x y \<longleftrightarrow> evolves u (fst x) (fst y)"

interpretation resolver: effect_relation "first_evolves u" for u
  by unfold_locales (auto simp: first_evolves_def directory.R_refl intro: directory.R_trans)

lemma on_directory_evolves: "m_keeps (evolves u) m \<Longrightarrow> m_keeps (first_evolves u) (on_directory m)"
  by (auto simp: m_keeps_def first_evolves_def on_directory_def split: prod.split sum.split) (metis snd_conv)+

lemma on_loyalty_evolves: "m_keeps (first_evolves u) (on_loyalty m)"
  by (auto simp: m_keeps_def first_evolves_def on_loyalty_def directory.R_refl split: prod.split sum.split)

lemma read_evolves:
  "m_keeps (evolves u) (memberLink t c p)" "m_keeps (evolves u) (memberLinksForCustomer t c)" "m_keeps (evolves u) (m_lift r)"
  by (simp_all add: m_keeps_def directory.R_refl)

lemmas directory_evolves =
  resolveOrCreate_evolves linkExternalIdentity_evolves linkMember_evolves markCustomerDeleted_evolves read_evolves

lemma inner_evolves:
  "m_keeps (first_evolves (trim t)) (on_directory (resolveOrCreateCustomer (trim t) p c n))"
  "m_keeps (first_evolves (trim t)) (on_directory (linkMember (trim t) k q m n))"
  using on_directory_evolves [OF resolveOrCreate_evolves [of "trim t" p c n]]
    on_directory_evolves [OF linkMember_evolves [of "trim t" k q m n]] by simp_all

lemma keeps_checked:
  "(\<And>v. r = Inr v \<Longrightarrow> m_keeps (first_evolves u) (f v)) \<Longrightarrow> m_keeps (first_evolves u) (m_bind (on_directory (m_lift r)) f)"
  by (cases r) (auto simp: m_keeps_def m_bind_def on_directory_def resolver.R_refl)

lemma assertId_trim: "assertId v = Inr u \<Longrightarrow> u = trim v"
  by (auto simp: assertId_def Let_def split: if_splits)

lemma customer_resolve_evolves: "m_keeps (first_evolves (trim t)) (customer_resolve sha api n i t p q)"
  unfolding customer_resolve_def
  by (rule keeps_checked, drule assertId_trim, hypsubst
    | intro conjI impI allI resolver.keeps_bind inner_evolves on_directory_evolves read_evolves resolver.keeps_assert
      resolver.keeps_return on_loyalty_evolves | simp split: option.split)+

lemma deleteCustomer_evolves: "m_keeps (first_evolves (trim t)) (deleteCustomer api n t c)"
  unfolding deleteCustomer_def
  by (intro conjI impI allI resolver.keeps_bind on_directory_evolves directory_evolves resolver.keeps_return
      resolver.keeps_map on_loyalty_evolves | simp split: option.split)+

lemma keeps_result: "m_keeps R m \<Longrightarrow> m x = (r, y) \<Longrightarrow> R x y"
  by (auto simp: m_keeps_def) (metis snd_conv)

lemma keepsD: "m_keeps R m \<Longrightarrow> R x (snd (m x))"
  by (simp add: m_keeps_def)

lemma perform_evolves: "first_evolves (trim (call_tenant op)) x (perform_identity sha api op x)"
  by (cases op; simp add: linkIdentity_def)
    (rule keepsD, rule on_directory_evolves customer_resolve_evolves deleteCustomer_evolves, rule directory_evolves
     | rule keepsD, rule customer_resolve_evolves deleteCustomer_evolves)+

lemma run_Cons: "identity_run sha api (op # calls) x = identity_run sha api calls (perform_identity sha api op x)"
  by (simp add: identity_run_def)

lemma run_evolves:
  "directory_ok (fst x) \<Longrightarrow>
     directory_ok (fst (identity_run sha api calls x)) \<and> extends (fst x) (fst (identity_run sha api calls x)) \<and>
     (\<forall>t. (\<forall>op \<in> set calls. trim (call_tenant op) \<noteq> t) \<longrightarrow> tenant_part t (fst (identity_run sha api calls x)) = tenant_part t (fst x))"
proof (induction calls arbitrary: x)
  case (Cons op calls)
  let ?y = "perform_identity sha api op x"
  have y: "directory_ok (fst ?y)" "extends (fst x) (fst ?y)"
    "\<And>t. t \<noteq> trim (call_tenant op) \<Longrightarrow> tenant_part t (fst ?y) = tenant_part t (fst x)"
    using perform_evolves [of op x sha api] Cons.prems by (auto simp: first_evolves_def evolves_def)
  show ?case
    using Cons.IH [OF y(1)] y(2,3) extends_trans by (auto simp: run_Cons)
qed (simp add: identity_run_def)

lemma empty_directory_ok [simp]: "directory_ok empty_directory"
  by (simp add: directory_ok_def empty_directory_def keys_ok_def)

lemma reached_ok: "directory_ok (fst (identity_run sha api calls (empty_directory, w)))"
  using run_evolves [of "(empty_directory, w)" sha api calls] by simp

lemma run_extends: "directory_ok (fst x) \<Longrightarrow> extends (fst x) (fst (identity_run sha api calls x)) \<and> directory_ok (fst (identity_run sha api calls x))"
  using run_evolves [of x sha api calls] by simp

section \<open>Resolution\<close>

lemma on_directory_run:
  "m_bind (on_directory m) f x =
     (case m (fst x) of (Inl e, d) \<Rightarrow> (Inl (Directory_error e), (d, snd x)) | (Inr v, d) \<Rightarrow> f v (d, snd x))"
  by (auto simp: m_bind_def on_directory_def split: prod.split sum.split)

lemma on_loyalty_run:
  "m_bind (on_loyalty m) f x =
     (case m (snd x) of (Inl e, w) \<Rightarrow> (Inl (Loyalty_error e), (fst x, w)) | (Inr v, w) \<Rightarrow> f v (fst x, w))"
  by (auto simp: m_bind_def on_loyalty_def split: prod.split sum.split)

text \<open>What is stored after a principal has been resolved.\<close>

definition resolved ::
  "string \<Rightarrow> string \<Rightarrow> identity_principal \<Rightarrow> string \<Rightarrow> member_link \<Rightarrow> directory \<Rightarrow> bool"
where
  "resolved t p q customerId l d \<longleftrightarrow>
     (\<exists>tenantId programId i.
        assertId t = Inr tenantId \<and> assertId p = Inr programId \<and> assertPrincipal q = Inr () \<and>
        js_get (dr_identities d) (identityKey tenantId (ip_issuer q) (ip_subject q)) = Some i \<and>
        il_customerId i = customerId \<and> js_get (dr_members d) (memberKey tenantId customerId programId) = Some l)"

lemma resolved_extends: "resolved t p q c l d \<Longrightarrow> extends d d' \<Longrightarrow> resolved t p q c l d'"
  unfolding resolved_def extends_def by fast

lemma resolve_created:
  assumes "resolveOrCreateCustomer t q i n d = (Inr c, d')" "directory_ok d"
  shows "\<exists>tenantId l. assertId t = Inr tenantId \<and> assertPrincipal q = Inr () \<and>
    js_get (dr_identities d') (identityKey tenantId (ip_issuer q) (ip_subject q)) = Some l \<and>
    il_customerId l = cu_customerId c \<and> assertId (cu_customerId c) = Inr (cu_customerId c) \<and>
    js_get (dr_customers d') (customerKey tenantId (cu_customerId c)) = Some c"
proof -
  obtain tenantId where t: "assertId t = Inr tenantId" and p: "assertPrincipal q = Inr ()"
    using assms(1) by (auto simp: resolveOrCreateCustomer_def m_bind_lift split: sum.splits)
  show ?thesis
  proof (cases "js_get (dr_identities d) (identityKey tenantId (ip_issuer q) (ip_subject q))")
    case None
    then show ?thesis using assms(1) t p
      by (auto simp: resolveOrCreateCustomer_def m_bind_lift m_bind_assert Let_def intro: assertId_idem split: sum.splits if_splits)
  next
    case (Some l)
    have l: "il_tenantId l = tenantId" using directory_okD(2) [OF assms(2) Some] by simp
    have "js_get (dr_customers d) (customerKey tenantId (il_customerId l)) = Some c \<and> d' = d"
      using assms(1) t p Some by (auto simp: resolveOrCreateCustomer_def m_bind_lift split: option.splits)
    moreover from this have "cu_customerId c = il_customerId l" "assertId (cu_customerId c) = Inr (cu_customerId c)"
      using directory_okD(1) [OF assms(2), of "customerKey tenantId (il_customerId l)" c] by auto
    ultimately show ?thesis using t p Some by auto
  qed
qed

lemma linkMember_result:
  assumes "linkMember t c p m n d = (Inr l, d')" "assertId t = Inr t" "assertId c = Inr c" "assertId p = Inr p"
  shows "js_get (dr_members d') (memberKey t c p) = Some l" "dr_identities d' = dr_identities d" "dr_customers d' = dr_customers d"
  using assms
  by (auto simp: linkMember_def m_bind_lift m_bind_assert Let_def split: sum.splits option.splits if_splits)

lemma resolve_leaves:
  assumes "customer_resolve sha api n i t p q x = (Inr (c, l), y)" "directory_ok (fst x)"
  shows "resolved t p q (cu_customerId c) l (fst y) \<and>
    js_get (dr_customers (fst y)) (customerKey (trim t) (cu_customerId c)) = Some c \<and> cu_status c \<noteq> Customer_deleted"
proof -
  obtain tenantId programId where ids: "assertId t = Inr tenantId" "assertId p = Inr programId" "assertPrincipal q = Inr ()"
    using assms(1) by (auto simp: customer_resolve_def on_directory_run split: sum.splits)
  note again = assertId_idem [OF ids(1)] assertId_idem [OF ids(2)]
  obtain d where d: "resolveOrCreateCustomer tenantId q i n (fst x) = (Inr c, d)"
    using assms(1) ids
    by (auto simp: customer_resolve_def on_directory_run on_loyalty_run m_bind_assert split: sum.splits prod.splits option.splits if_splits)
  obtain k where k: "js_get (dr_identities d) (identityKey tenantId (ip_issuer q) (ip_subject q)) = Some k"
    "il_customerId k = cu_customerId c" "assertId (cu_customerId c) = Inr (cu_customerId c)"
    "js_get (dr_customers d) (customerKey tenantId (cu_customerId c)) = Some c"
    using resolve_created [OF d assms(2)] again by auto
  have "cu_status c \<noteq> Customer_deleted"
    using assms(1) ids d by (auto simp: customer_resolve_def on_directory_run m_bind_assert split: if_splits)
  moreover have "js_get (dr_members (fst y)) (memberKey tenantId (cu_customerId c) programId) = Some l \<and>
      dr_identities (fst y) = dr_identities d \<and> dr_customers (fst y) = dr_customers d"
    using assms(1) ids again d k(3) linkMember_result [OF _ again(1) k(3) again(2)]
    by (auto simp: customer_resolve_def on_directory_run on_loyalty_run m_bind_assert memberLink_def m_bind_lift
        split: sum.splits prod.splits option.splits if_splits)
  ultimately show ?thesis using ids k assertId_trim [OF ids(1)] by (auto simp: resolved_def)
qed

lemma resolve_again:
  assumes "resolved t p q cid l (fst x)" "directory_ok (fst x)"
    and "js_get (dr_customers (fst x)) (customerKey (trim t) cid) = Some c"
  shows "customer_resolve sha api n i t p q x =
    ((if cu_status c = Customer_deleted then Inl (Directory_error Customer_is_deleted) else Inr (c, l)), x)"
proof -
  obtain tenantId programId k where ids: "assertId t = Inr tenantId" "assertId p = Inr programId" "assertPrincipal q = Inr ()"
    and k: "js_get (dr_identities (fst x)) (identityKey tenantId (ip_issuer q) (ip_subject q)) = Some k" "il_customerId k = cid"
      "js_get (dr_members (fst x)) (memberKey tenantId cid programId) = Some l"
    using assms(1) by (auto simp: resolved_def)
  note again = assertId_idem [OF ids(1)] assertId_idem [OF ids(2)]
  have c: "js_get (dr_customers (fst x)) (customerKey tenantId cid) = Some c"
    using assms(3) assertId_trim [OF ids(1)] by simp
  then have "cu_customerId c = cid" "assertId cid = Inr cid" using stored_customer [OF assms(2) c] by auto
  moreover have "resolveOrCreateCustomer tenantId q i n (fst x) = (Inr c, fst x)"
    using ids again k c by (simp add: resolveOrCreateCustomer_def m_bind_lift)
  ultimately show ?thesis using ids again k
    by (auto simp: customer_resolve_def on_directory_run m_bind_assert memberLink_def m_bind_lift)
qed

section \<open>Deletion\<close>

text \<open>The calls that delete a customer: the resolver's and the repository's own.\<close>

fun deletes :: "string \<Rightarrow> string \<Rightarrow> identity_call \<Rightarrow> bool" where
  "deletes tenantId customerId (Mark_deleted t c n) \<longleftrightarrow> trim t = tenantId \<and> trim c = customerId"
| "deletes tenantId customerId (Delete_customer n t c) \<longleftrightarrow> trim t = tenantId \<and> trim c = customerId"
| "deletes tenantId customerId call \<longleftrightarrow> False"

text \<open>Every other call leaves the stored customer as it is.\<close>

definition spares :: "string \<Rightarrow> directory \<Rightarrow> directory \<Rightarrow> bool" where
  "spares k d d' \<longleftrightarrow>
     js_get (dr_customers d) k \<noteq> None \<longrightarrow> js_get (dr_customers d') k = js_get (dr_customers d) k"

interpretation spared: effect_relation "spares k" for k
  by unfold_locales (auto simp: spares_def)

interpretation resolver_spared: effect_relation "\<lambda>x y. spares k (fst x) (fst y)" for k
  by unfold_locales (auto simp: spares_def)

lemma repository_spares:
  "m_keeps (spares k) (resolveOrCreateCustomer t p c n)"
  "m_keeps (spares k) (linkExternalIdentity t c p n)"
  "m_keeps (spares k) (linkMember t c p' m n)"
  "m_keeps (spares k) (memberLink t c p')"
  "m_keeps (spares k) (memberLinksForCustomer t c)"
  "m_keeps (spares k) (m_lift r)"
  unfolding m_keeps_def spares_def
  by (auto simp: resolveOrCreateCustomer_def linkExternalIdentity_def linkMember_def m_bind_lift m_bind_assert Let_def js_has_def
      split: sum.split option.split)

lemma markCustomerDeleted_spares:
  "\<not> (trim t = tenantId \<and> trim c = customerId) \<Longrightarrow> m_keeps (spares (customerKey tenantId customerId)) (markCustomerDeleted t c n)"
  unfolding m_keeps_def spares_def
  by (auto simp: markCustomerDeleted_def m_bind_lift Let_def dest: assertId_trim split: sum.split option.split)

lemma lifted_spares:
  "m_keeps (spares k) m \<Longrightarrow> m_keeps (\<lambda>x y. spares k (fst x) (fst y)) (on_directory m)"
  "m_keeps (\<lambda>x y. spares k (fst x) (fst y)) (on_loyalty m')"
  by (auto simp: m_keeps_def on_directory_def on_loyalty_def spared.R_refl split: prod.split sum.split) (metis snd_conv)+

lemma customer_resolve_spares: "m_keeps (\<lambda>x y. spares k (fst x) (fst y)) (customer_resolve sha api n i t p q)"
  unfolding customer_resolve_def
  by (intro conjI impI allI resolver_spared.keeps_intros lifted_spares repository_spares | simp split: option.split)+

lemma deleteCustomer_spares:
  assumes "\<not> (trim t = tenantId \<and> trim c = customerId)"
  shows "m_keeps (\<lambda>x y. spares (customerKey tenantId customerId) (fst x) (fst y)) (deleteCustomer api n t c)"
  unfolding deleteCustomer_def
  by (intro conjI impI allI resolver_spared.keeps_intros lifted_spares repository_spares markCustomerDeleted_spares assms
     | simp split: option.split)+

lemma perform_spares:
  assumes "\<not> deletes tenantId customerId op"
  shows "spares (customerKey tenantId customerId) (fst x) (fst (perform_identity sha api op x))"
  using assms
  by (cases op) (simp_all add: linkIdentity_def keepsD [OF customer_resolve_spares] keepsD [OF deleteCustomer_spares]
      keepsD [OF lifted_spares(1) [OF repository_spares(1)]] keepsD [OF lifted_spares(1) [OF repository_spares(2)]]
      keepsD [OF lifted_spares(1) [OF repository_spares(3)]] keepsD [OF lifted_spares(1) [OF markCustomerDeleted_spares]])

lemma deleted_stays:
  assumes "js_get (dr_customers d) k = Some c" "cu_status c = Customer_deleted" "extends d d'"
  shows "\<exists>c'. js_get (dr_customers d') k = Some c' \<and> cu_status c' = Customer_deleted"
  using assms unfolding extends_def customer_kept_def by blast

lemma return_state: "snd (m_bind m (\<lambda>v. m_return (g v)) x) = snd (m x)"
  by (simp add: m_bind_def split: prod.split sum.split)

lemma m_map_loyalty_state: "fst (snd (m_map (\<lambda>l. on_loyalty (f l)) ls x)) = fst x"
proof (induction ls arbitrary: x)
  case (Cons l ls)
  then show ?case by (simp add: on_loyalty_run return_state split: prod.split sum.split)
qed simp

lemma m_map_loyaltyD: "m_map (\<lambda>l. on_loyalty (f l)) ls x = (r, y) \<Longrightarrow> fst y = fst x"
  using m_map_loyalty_state [of f ls x] by simp

lemma deleted_by:
  assumes "deleteCustomer api n t cid x = (Inr c, y)"
  obtains d where "markCustomerDeleted t cid n (fst x) = (Inr c, d)" "fst y = d"
proof -
  let ?cancel = "\<lambda>links. case la_cancel api of None \<Rightarrow> m_return [] | Some f \<Rightarrow> m_map (\<lambda>l. on_loyalty (f (ml_memberId l))) links"
  obtain r d1 where links: "memberLinksForCustomer t cid (fst x) = (r, d1)" by fastforce
  then have d1: "d1 = fst x" using memberLink_state(2) [of t cid "fst x"] by simp
  obtain r2 d where mark: "markCustomerDeleted t cid n (fst x) = (r2, d)" by fastforce
  obtain ls where ls: "r = Inr ls" using assms links by (cases r) (simp_all add: deleteCustomer_def on_directory_run)
  have r2: "r2 = Inr c \<and> m_bind (?cancel ls) (\<lambda>_. m_return c) (d, snd x) = (Inr c, y)"
  proof (cases r2)
    case (Inr b)
    then have "m_bind (?cancel ls) (\<lambda>_. m_return b) (d, snd x) = (Inr c, y)"
      using assms links mark d1 ls by (simp add: deleteCustomer_def on_directory_run)
    moreover from this have "b = c" by (rule m_bindE) simp_all
    ultimately show ?thesis using Inr by simp
  qed (use assms links mark d1 ls in \<open>simp add: deleteCustomer_def on_directory_run\<close>)
  then have "fst (snd (?cancel ls (d, snd x))) = d"
    by (cases "la_cancel api") (auto simp: m_map_loyalty_state)
  moreover have "snd (?cancel ls (d, snd x)) = y" using r2 by (elim conjE m_bindE) simp_all
  ultimately show thesis using that r2 mark by simp
qed

lemma marked_deleted:
  assumes "markCustomerDeleted t cid n d = (Inr c, d')" "directory_ok d" "assertId t = Inr tenantId"
  shows "assertId cid = Inr (cu_customerId c) \<and> assertId (cu_customerId c) = Inr (cu_customerId c) \<and>
    js_get (dr_customers d') (customerKey tenantId (cu_customerId c)) = Some c \<and> cu_status c = Customer_deleted"
  using assms
  by (auto simp: markCustomerDeleted_def m_bind_lift Let_def dest: stored_customer split: sum.splits option.splits)

lemma deleteCustomer_marks:
  assumes "assertId t = Inr tenantId" "assertId c = Inr customerId"
  shows "fst (snd (deleteCustomer api n t c x)) = snd (markCustomerDeleted t c n (fst x))"
  using assms
  by (cases "la_cancel api")
    (auto simp: deleteCustomer_def on_directory_run memberLinksForCustomer_def m_bind_lift return_state m_map_loyalty_state
      split: prod.split sum.split)

lemma marking_deletes:
  assumes "assertId t = Inr tenantId" "assertId c = Inr customerId"
    and "js_get (dr_customers d) (customerKey tenantId customerId) = Some c0"
  shows "\<exists>c'. js_get (dr_customers (snd (markCustomerDeleted t c n d))) (customerKey tenantId customerId) = Some c' \<and>
    cu_status c' = Customer_deleted"
  using assms by (simp add: markCustomerDeleted_def m_bind_lift Let_def)

lemma assertId_by_trim: "trim v = u \<Longrightarrow> assertId u = Inr u \<Longrightarrow> assertId v = Inr u"
  by (auto simp: assertId_def Let_def split: if_splits)

lemma perform_deletes:
  assumes "deletes tenantId customerId op" "assertId tenantId = Inr tenantId" "assertId customerId = Inr customerId"
    and "js_get (dr_customers (fst x)) (customerKey tenantId customerId) = Some c0"
  shows "\<exists>c'. js_get (dr_customers (fst (perform_identity sha api op x))) (customerKey tenantId customerId) = Some c' \<and>
    cu_status c' = Customer_deleted"
proof -
  obtain t c n where "op = Mark_deleted t c n \<or> op = Delete_customer n t c" and ids: "trim t = tenantId" "trim c = customerId"
    using assms(1) by (cases op) auto
  note checked = assertId_by_trim [OF ids(1) assms(2)] assertId_by_trim [OF ids(2) assms(3)]
  have "fst (perform_identity sha api op x) = snd (markCustomerDeleted t c n (fst x))"
    using \<open>op = Mark_deleted t c n \<or> op = Delete_customer n t c\<close>
    by (auto simp: deleteCustomer_marks [OF checked] on_directory_def split: prod.split sum.split)
  then show ?thesis using marking_deletes [OF checked assms(4)] by simp
qed

text \<open>A customer after any calls: as it was, or deleted as soon as one of the calls deletes it.\<close>

lemma run_spares:
  "\<not> (\<exists>op \<in> set calls. deletes tenantId customerId op) \<Longrightarrow>
     spares (customerKey tenantId customerId) (fst x) (fst (identity_run sha api calls x))"
proof (induction calls arbitrary: x)
  case (Cons op calls)
  then show ?case
    using spared.R_trans [OF perform_spares Cons.IH] by (simp add: run_Cons)
qed (simp add: identity_run_def spares_def)

lemma run_deletes:
  assumes "directory_ok (fst x)" "js_get (dr_customers (fst x)) (customerKey tenantId customerId) = Some c0"
    and "assertId tenantId = Inr tenantId" "assertId customerId = Inr customerId"
    and "\<exists>op \<in> set calls. deletes tenantId customerId op"
  shows "\<exists>c'. js_get (dr_customers (fst (identity_run sha api calls x))) (customerKey tenantId customerId) = Some c' \<and>
    cu_status c' = Customer_deleted"
  using assms(1,2,5)
proof (induction calls arbitrary: x c0)
  case (Cons op calls)
  let ?y = "perform_identity sha api op x"
  have y: "directory_ok (fst ?y)" "extends (fst x) (fst ?y)"
    using perform_evolves [of op x sha api] Cons.prems(1) by (auto simp: first_evolves_def evolves_def)
  show ?case
  proof (cases "deletes tenantId customerId op")
    case True
    from perform_deletes [OF this assms(3,4) Cons.prems(2)] show ?thesis
      using deleted_stays run_extends [OF y(1)] unfolding run_Cons by blast
  next
    case False
    obtain c1 where "js_get (dr_customers (fst ?y)) (customerKey tenantId customerId) = Some c1"
      using y(2) Cons.prems(2) unfolding extends_def by blast
    with False Cons.IH [OF y(1) this] Cons.prems(3) show ?thesis by (simp add: run_Cons)
  qed
qed simp

section \<open>Stable resolution\<close>

text \<open>
  C22. A principal keeps its customer and its member. Once a principal has been resolved,
  then after any calls on the directory, whatever they answer, resolving it again answers
  exactly the same customer record with the same member link, without calling the loyalty
  server and without a change, as long as none of those calls deletes this very customer;
  and it is refused as deleted as soon as one of them does. Deletions of other customers, of the
  same tenant or of another, make no difference.
\<close>

theorem resolution_is_stable:
  assumes "x = identity_run sha api calls (empty_directory, w)"
    and "customer_resolve sha api n i t p q x = (Inr (c, l), y)"
    and "z = identity_run sha api others y"
  shows "customer_resolve sha api n' i' t p q z =
    ((if \<exists>call \<in> set others. deletes (trim t) (cu_customerId c) call
      then Inl (Directory_error Customer_is_deleted) else Inr (c, l)), z)"
proof -
  have ok: "directory_ok (fst x)" using assms(1) reached_ok by simp
  have "first_evolves (trim t) x y" by (rule keeps_result [OF customer_resolve_evolves assms(2)])
  then have y: "directory_ok (fst y)" using ok by (simp add: first_evolves_def evolves_def)
  then have z: "extends (fst y) (fst z)" "directory_ok (fst z)" using run_extends assms(3) by blast+
  have left: "resolved t p q (cu_customerId c) l (fst y)" "cu_status c \<noteq> Customer_deleted"
    "js_get (dr_customers (fst y)) (customerKey (trim t) (cu_customerId c)) = Some c"
    using resolve_leaves [OF assms(2) ok] by simp_all
  note again = resolve_again [OF resolved_extends [OF left(1) z(1)] z(2)]
  have ids: "assertId (trim t) = Inr (trim t)" "assertId (cu_customerId c) = Inr (cu_customerId c)"
    using left(1) stored_customer [OF y left(3)] by (auto simp: resolved_def dest: assertId_trim assertId_idem)
  show ?thesis
  proof (cases "\<exists>call \<in> set others. deletes (trim t) (cu_customerId c) call")
    case True
    from run_deletes [OF y left(3) ids this] obtain c' where
      "js_get (dr_customers (fst z)) (customerKey (trim t) (cu_customerId c)) = Some c'" "cu_status c' = Customer_deleted"
      unfolding assms(3) by blast
    with True show ?thesis using again by simp
  next
    case False
    from run_spares [OF this, of y sha api] left(3)
    have "js_get (dr_customers (fst z)) (customerKey (trim t) (cu_customerId c)) = Some c"
      unfolding assms(3) by (simp add: spares_def)
    with False left(2) show ?thesis using again by simp
  qed
qed

section \<open>Final deletion\<close>

text \<open>
  C24. Deletion is final. Once deleteCustomer has answered, no later history resolves an
  identity of that customer or links a new one to it: both are refused as deleted.
\<close>

theorem deletion_is_final:
  assumes "x = identity_run sha api calls (empty_directory, w)"
    and "deleteCustomer api n t cid x = (Inr c, y)" "z = identity_run sha api others y"
    and "assertId t = Inr tenantId" "assertPrincipal q = Inr ()" "assertId p = Inr programId"
  shows "linkIdentity n' t cid q z = (Inl (Directory_error Customer_is_deleted), z) \<and>
    (case js_get (dr_identities (fst z)) (identityKey tenantId (ip_issuer q) (ip_subject q)) of
       None \<Rightarrow> True
     | Some k \<Rightarrow> il_customerId k = cu_customerId c \<longrightarrow>
         customer_resolve sha api n' i' t p q z = (Inl (Directory_error Customer_is_deleted), z))"
proof -
  have ok: "directory_ok (fst x)" using assms(1) reached_ok by simp
  have "first_evolves (trim t) x y" by (rule keeps_result [OF deleteCustomer_evolves assms(2)])
  then have "directory_ok (fst y)" using ok by (simp add: first_evolves_def evolves_def)
  then have yz: "extends (fst y) (fst z)" "directory_ok (fst z)" using run_extends assms(3) by blast+
  obtain d where d: "markCustomerDeleted t cid n (fst x) = (Inr c, d)" "fst y = d"
    using assms(2) by (rule deleted_by)
  then have c: "assertId cid = Inr (cu_customerId c)" "assertId (cu_customerId c) = Inr (cu_customerId c)"
    "js_get (dr_customers (fst y)) (customerKey tenantId (cu_customerId c)) = Some c" "cu_status c = Customer_deleted"
    using marked_deleted [OF d(1) ok assms(4)] by auto
  obtain c' where c': "js_get (dr_customers (fst z)) (customerKey tenantId (cu_customerId c)) = Some c'" "cu_status c' = Customer_deleted"
    using deleted_stays [OF c(3,4) yz(1)] by blast
  have "linkIdentity n' t cid q z = (Inl (Directory_error Customer_is_deleted), z)"
    using c c' assms(4,5) by (simp add: linkIdentity_def linkExternalIdentity_def on_directory_def m_bind_lift m_bind_assert)
  moreover have "customer_resolve sha api n' i' t p q z = (Inl (Directory_error Customer_is_deleted), z)"
    if "js_get (dr_identities (fst z)) (identityKey tenantId (ip_issuer q) (ip_subject q)) = Some k" "il_customerId k = cu_customerId c"
    for k
    using that c' assms(4-6) assertId_idem [OF assms(4)]
    by (simp add: customer_resolve_def resolveOrCreateCustomer_def on_directory_run m_bind_assert m_bind_lift)
  ultimately show ?thesis by (simp split: option.split)
qed

section \<open>Tenants\<close>

text \<open>
  C23. Tenants are isolated. Calls for other tenants, however many and whatever they do,
  leave everything the directory holds for a tenant untouched.
\<close>

theorem tenants_are_isolated:
  assumes "x = identity_run sha api calls (empty_directory, w)"
    and "\<And>op. op \<in> set others \<Longrightarrow> trim (call_tenant op) \<noteq> t"
  shows "tenant_part t (fst (identity_run sha api others x)) = tenant_part t (fst x)"
proof -
  have "directory_ok (fst x)" using assms(1) reached_ok by simp
  then show ?thesis using run_evolves [of x sha api others] assms(2) by auto
qed

section \<open>Integrity\<close>

text \<open>
  C25. The directory stays consistent. After any calls, every identity and every member link
  belongs to a customer that exists, under the key of its own fields; so resolving never
  finds an identity whose customer is missing.
\<close>

theorem directory_stays_consistent:
  "directory_ok (fst (identity_run sha api calls (empty_directory, w))) \<and>
   fst (resolveOrCreateCustomer t q i n (fst (identity_run sha api calls (empty_directory, w)))) \<noteq> Inl Customer_not_found"
proof -
  have errors: "assertId v = Inl e \<Longrightarrow> e \<noteq> Customer_not_found" "assertPrincipal q = Inl e \<Longrightarrow> e \<noteq> Customer_not_found" for v e
    by (auto simp: assertId_def assertPrincipal_def Let_def split: if_splits)
  have "fst (resolveOrCreateCustomer t q i n d) \<noteq> Inl Customer_not_found" if d: "directory_ok d" for d
  proof (cases "assertId t")
    case (Inr tenantId)
    then show ?thesis
    proof (cases "js_get (dr_identities d) (identityKey tenantId (ip_issuer q) (ip_subject q))")
      case None
      then show ?thesis using Inr
        by (cases "assertPrincipal q"; cases "assertId i")
          (simp_all add: resolveOrCreateCustomer_def m_bind_lift m_bind_assert Let_def errors)
    next
      case (Some l)
      obtain c where "js_get (dr_customers d) (customerKey tenantId (il_customerId l)) = Some c"
        using stored_identity [OF d Some] by auto
      then show ?thesis using Inr Some
        by (cases "assertPrincipal q") (simp_all add: resolveOrCreateCustomer_def m_bind_lift errors(2))
    qed
  qed (simp add: resolveOrCreateCustomer_def m_bind_lift errors)
  from this [OF reached_ok] show ?thesis by (simp add: reached_ok)
qed

section \<open>Members\<close>

text \<open>
  What the resolver relies on: enrolling a customer in a program, again or for the first
  time, answers the member that belongs to them.
\<close>

definition faithful :: "(string \<Rightarrow> string \<Rightarrow> string) \<Rightarrow> 'w loyalty_api \<Rightarrow> bool" where
  "faithful assigned api \<longleftrightarrow> (\<forall>p c k w m w'. la_enroll api p c k w = (Inr m, w') \<longrightarrow> m = assigned p c)"

fun links_directly :: "identity_call \<Rightarrow> bool" where
  "links_directly (Link_member _ _ _ _ _) = True"
| "links_directly _ = False"

definition links_follow :: "(string \<Rightarrow> string \<Rightarrow> string) \<Rightarrow> directory \<Rightarrow> bool" where
  "links_follow assigned d \<longleftrightarrow>
     (\<forall>k l. js_get (dr_members d) k = Some l \<longrightarrow> ml_memberId l = trim (assigned (ml_programId l) (ml_customerId l)))"

lemma other_members [simp]:
  "dr_members (snd (resolveOrCreateCustomer t q i n d)) = dr_members d"
  "dr_members (snd (linkExternalIdentity t c q n d)) = dr_members d"
  "dr_members (snd (markCustomerDeleted t c n d)) = dr_members d"
  by (auto simp: resolveOrCreateCustomer_def linkExternalIdentity_def markCustomerDeleted_def m_bind_lift m_bind_assert Let_def
      split: sum.split option.split)

lemma on_directory_state: "fst (snd (on_directory m x)) = snd (m (fst x))"
  by (simp add: on_directory_def split: prod.split sum.split)

lemma linkMember_follows:
  assumes "links_follow assigned d" "assertId c = Inr c" "assertId p = Inr p"
  shows "links_follow assigned (snd (linkMember t c p (assigned p c) n d))"
  using assms
  by (auto simp: linkMember_def m_bind_lift m_bind_assert Let_def links_follow_def dest!: assertId_trim split: sum.split option.split)

lemma deleteCustomer_state: "dr_members (fst (snd (deleteCustomer api n t c x))) = dr_members (fst x)"
proof -
  have kept: "dr_members (fst (snd (m_bind (case la_cancel api of None \<Rightarrow> m_return [] | Some f \<Rightarrow> m_map (\<lambda>l. on_loyalty (f (ml_memberId l))) ls)
      (\<lambda>_. m_return r) y))) = dr_members (fst y)" for ls r y
    by (simp add: m_map_loyalty_state return_state split: option.split)
  obtain r d where "memberLinksForCustomer t c (fst x) = (r, d)" "d = fst x" by (metis memberLink_state(2) prod.collapse)
  moreover obtain r2 d2 where "markCustomerDeleted t c n (fst x) = (r2, d2)" "dr_members d2 = dr_members (fst x)"
    by (metis other_members(3) prod.collapse)
  ultimately show ?thesis by (cases r; cases r2) (simp_all add: deleteCustomer_def on_directory_run kept)
qed

lemma customer_resolve_follows:
  assumes "links_follow assigned (fst x)" "directory_ok (fst x)" "faithful assigned api"
  shows "links_follow assigned (fst (snd (customer_resolve sha api n i t p q x)))"
proof (cases "assertId t")
  case (Inr tenantId)
  note t = this
  have enrolled: "la_enroll api u v k w = (Inr m, w') \<Longrightarrow> m = assigned u v" for u v k w m w'
    using assms(3) unfolding faithful_def by blast
  show ?thesis
  proof (cases "assertId p")
    case (Inr programId)
    note p = this
    obtain r d where d: "resolveOrCreateCustomer tenantId q i n (fst x) = (r, d)" by fastforce
    then have follows: "links_follow assigned d"
      using assms(1) other_members(1) [of tenantId q i n "fst x"] by (simp add: links_follow_def)
    show ?thesis
    proof (cases r)
      case (Inr c)
      then have c: "assertId (cu_customerId c) = Inr (cu_customerId c)" using resolve_created d assms(2) by blast
      show ?thesis
        using t p d Inr follows linkMember_follows [OF follows c assertId_idem [OF p], of tenantId n]
          assertId_idem [OF t] assertId_idem [OF p] c assms(1)
        by (auto simp: customer_resolve_def on_directory_run on_loyalty_run m_bind_assert memberLink_def m_bind_lift
            dest!: enrolled split: sum.split prod.split option.split)
    qed (use t p d follows assms(1) in \<open>auto simp: customer_resolve_def on_directory_run split: sum.split\<close>)
  qed (use t assms(1) in \<open>simp add: customer_resolve_def on_directory_run\<close>)
qed (use assms(1) in \<open>simp add: customer_resolve_def on_directory_run\<close>)

lemma perform_follows:
  assumes "links_follow assigned (fst x)" "directory_ok (fst x)" "faithful assigned api" "\<not> links_directly op"
  shows "links_follow assigned (fst (perform_identity sha api op x))"
  using assms
  by (cases op) (simp_all add: customer_resolve_follows on_directory_state linkIdentity_def, simp_all add: links_follow_def deleteCustomer_state)

lemma run_follows:
  "links_follow assigned (fst x) \<Longrightarrow> directory_ok (fst x) \<Longrightarrow> faithful assigned api \<Longrightarrow>
   (\<And>op. op \<in> set calls \<Longrightarrow> \<not> links_directly op) \<Longrightarrow> links_follow assigned (fst (identity_run sha api calls x))"
proof (induction calls arbitrary: x)
  case (Cons op calls)
  have "directory_ok (fst (perform_identity sha api op x))"
    using perform_evolves [of op x sha api] Cons.prems(2) by (simp add: first_evolves_def evolves_def)
  moreover have "links_follow assigned (fst (perform_identity sha api op x))"
    by (rule perform_follows) (use Cons.prems in simp_all)
  ultimately show ?case using Cons.IH Cons.prems(3,4) by (simp add: run_Cons)
qed (simp add: identity_run_def)

text \<open>
  C26. Every stored member is the right one. When the loyalty server answers the enrolment
  of a customer with the member that is theirs, then after any calls of the resolver and
  the repository other than linkMember itself, failures of the server at any moment and
  repeated attempts included, each member link holds the member of its customer.
\<close>

theorem links_follow_loyalty:
  assumes "faithful assigned api" "\<And>op. op \<in> set calls \<Longrightarrow> \<not> links_directly op"
  shows "links_follow assigned (fst (identity_run sha api calls (empty_directory, w)))"
proof (rule run_follows [OF _ _ assms])
  show "links_follow assigned (fst (empty_directory, w))" by (simp add: links_follow_def empty_directory_def)
qed simp_all

section \<open>Examples\<close>

definition sample_api :: "nat loyalty_api" where
  "sample_api =
     \<lparr>la_enroll = (\<lambda>p c k w. if w = 0 then (Inl 503, 1) else (Inr (''m_'' @ c), w + 1)), la_cancel = Some (\<lambda>m w. (Inr (), w + 1))\<rparr>"

definition sample_principal :: identity_principal where
  "sample_principal =
     \<lparr>ip_issuer = ''https://id'', ip_subject = ''s1'', ip_email = None, ip_email_verified = None, ip_phone_number = None,
      ip_phone_number_verified = None\<rparr>"

text \<open>The first attempt reaches a server that is down, the second one succeeds.\<close>

definition sample_calls :: "identity_call list" where
  "sample_calls =
     [Resolve ''t0'' ''c1'' ''acme'' ''demo'' sample_principal, Resolve ''t1'' ''c2'' ''acme'' ''demo'' sample_principal]"

definition sample_directory :: "directory \<times> nat" where
  "sample_directory = identity_run id sample_api (take 1 sample_calls) (empty_directory, 0)"

definition sample_resolution :: "customer \<times> member_link" where
  "sample_resolution =
     (\<lparr>cu_tenantId = ''acme'', cu_customerId = ''c1'', cu_status = Customer_active, cu_createdAt = ''t0'', cu_updatedAt = ''t0'',
       cu_deletedAt = None\<rparr>,
      \<lparr>ml_tenantId = ''acme'', ml_customerId = ''c1'', ml_programId = ''demo'', ml_memberId = ''m_c1'', ml_linkedAt = ''t1''\<rparr>)"

definition sample_resolved :: "directory \<times> nat" where
  "sample_resolved = snd (customer_resolve id sample_api ''t1'' ''c2'' ''acme'' ''demo'' sample_principal sample_directory)"

lemma sample_resolves:
  "customer_resolve id sample_api ''t1'' ''c2'' ''acme'' ''demo'' sample_principal sample_directory =
     (Inr (fst sample_resolution, snd sample_resolution), sample_resolved)"
  by code_simp

lemma sample_faithful: "faithful (\<lambda>p c. ''m_'' @ c) sample_api"
  by (simp add: faithful_def sample_api_def)

text \<open>The other calls: one on another customer that deletes it, and one that deletes this one.\<close>

definition sample_others :: "identity_call list" where
  "sample_others =
     [Resolve_or_create ''acme'' (sample_principal\<lparr>ip_subject := ''s2''\<rparr>) ''c9'' ''t2'', Mark_deleted ''acme'' ''c9'' ''t2'']"

definition sample_after :: "identity_call list \<Rightarrow> directory \<times> nat" where
  "sample_after others = identity_run id sample_api others sample_resolved"

lemma sample_trims: "trim ''acme'' = ''acme''" "trim ''c1'' = ''c1''" "trim ''c9'' = ''c9''"
  by code_simp+

theorem resolution_is_stable_witness:
  "customer_resolve id sample_api ''t3'' ''c3'' ''acme'' ''demo'' sample_principal (sample_after sample_others) =
     (Inr sample_resolution, sample_after sample_others) \<and>
   customer_resolve id sample_api ''t3'' ''c3'' ''acme'' ''demo'' sample_principal
     (sample_after (sample_others @ [Delete_customer ''t2'' ''acme'' ''c1''])) =
     (Inl (Directory_error Customer_is_deleted), sample_after (sample_others @ [Delete_customer ''t2'' ''acme'' ''c1'']))"
  using resolution_is_stable [OF sample_directory_def sample_resolves sample_after_def [of sample_others], of "''t3''" "''c3''"]
    resolution_is_stable [OF sample_directory_def sample_resolves
      sample_after_def [of "sample_others @ [Delete_customer ''t2'' ''acme'' ''c1'']"], of "''t3''" "''c3''"]
  by (simp add: sample_others_def sample_trims, simp add: sample_resolution_def sample_trims)

definition sample_deleted :: "directory \<times> nat" where
  "sample_deleted = snd (deleteCustomer sample_api ''t3'' ''acme'' ''c1'' sample_resolved)"

lemma sample_deletes:
  "deleteCustomer sample_api ''t3'' ''acme'' ''c1'' sample_resolved =
     (Inr ((fst sample_resolution)\<lparr>cu_status := Customer_deleted, cu_updatedAt := ''t3'', cu_deletedAt := Some ''t3''\<rparr>), sample_deleted)"
  by code_simp

lemma sample_checks:
  "assertId ''acme'' = Inr ''acme''" "assertPrincipal sample_principal = Inr ()" "assertId ''demo'' = Inr ''demo''"
  by code_simp+

theorem deletion_is_final_witness:
  "linkIdentity ''t4'' ''acme'' ''c1'' sample_principal sample_deleted = (Inl (Directory_error Customer_is_deleted), sample_deleted)"
proof -
  have "sample_resolved = identity_run id sample_api sample_calls (empty_directory, 0)"
    by (simp add: sample_resolved_def sample_directory_def sample_calls_def identity_run_def)
  from deletion_is_final [OF this sample_deletes _ sample_checks, where z = sample_deleted and others = "[]" and n' = "''t4''"]
  show ?thesis by (simp add: identity_run_def)
qed

theorem tenants_are_isolated_witness:
  "tenant_part ''acme'' (fst (identity_run id sample_api [Mark_deleted '' rival '' ''c1'' ''t5''] sample_directory)) =
   tenant_part ''acme'' (fst sample_directory)"
proof -
  have "trim '' rival '' \<noteq> ''acme''" by code_simp
  then show ?thesis using tenants_are_isolated [OF sample_directory_def, of "[Mark_deleted '' rival '' ''c1'' ''t5'']" "''acme''"] by simp
qed

theorem links_follow_loyalty_witness:
  "links_follow (\<lambda>p c. ''m_'' @ c) (fst (identity_run id sample_api sample_calls (empty_directory, 0)))"
  by (rule links_follow_loyalty [OF sample_faithful]) (auto simp: sample_calls_def)

end
