(* ===== verification/Identity_Oidc.thy ===== *)
theory Identity_Oidc
  imports Identity_Directory
begin

text \<open>
  packages/identity/src/oidc.ts: from a bearer token to a principal. The JWT library is a
  parameter: \<open>verify\<close> takes the verifier and a token and answers the claims it has checked,
  or nothing when it throws; \<open>url_protocol\<close> is the protocol of a URL, or nothing when
  \<open>new URL\<close> throws. Claims are a list of names and JSON values.
\<close>

record oidc_options =
  oo_issuer :: string
  oo_audience :: "string + string list"
  oo_jwks_uri :: "string option"
  oo_algorithms :: "string list option"
  oo_authorized_parties :: "string list option"
  oo_clock_tolerance :: "int option"
  oo_email_claim :: "string option"
  oo_email_verified_claim :: "string option"
  oo_phone_claim :: "string option"
  oo_phone_verified_claim :: "string option"
  oo_require_email :: "bool option"
  oo_require_phone :: "bool option"
  oo_has_key :: bool

record oidc_verifier =
  ov_issuer :: string
  ov_audience :: "string + string list"
  ov_algorithms :: "string list"
  ov_authorized_parties :: "string list option"
  ov_clock_tolerance :: int
  ov_email_claim :: string
  ov_email_verified_claim :: string
  ov_phone_claim :: string
  ov_phone_verified_claim :: string
  ov_require_email :: bool
  ov_require_phone :: bool

definition normalizedIssuer :: "string \<Rightarrow> string" where
  "normalizedIssuer issuer =
     (let t = trim issuer in if t \<noteq> [] \<and> last t = CHR ''/'' then butlast t else t)"

fun nonemptyAudience :: "string + string list \<Rightarrow> bool" where
  "nonemptyAudience (Inl a) = (trim a \<noteq> [])"
| "nonemptyAudience (Inr as) = (as \<noteq> [] \<and> list_all (\<lambda>a. trim a \<noteq> []) as)"

type_synonym claims = "(string \<times> json) list"

definition optionalString :: "claims \<Rightarrow> string \<Rightarrow> string option" where
  "optionalString payload claim =
     (case map_of payload claim of
        Some (JStr v) \<Rightarrow> if trim v \<noteq> [] then Some (trim v) else None
      | _ \<Rightarrow> None)"

definition bearerToken :: "string option \<Rightarrow> identity_error + string" where
  "bearerToken authorization =
     (case authorization of
        None \<Rightarrow> Inl Missing_token
      | Some a \<Rightarrow>
          if take 7 a \<noteq> ''Bearer '' then Inl Missing_token
          else (let token = trim (drop 7 a) in if token = [] then Inl Missing_token else Inr token))"

definition or_default :: "'a option \<Rightarrow> 'a \<Rightarrow> 'a" where
  "or_default v d = (case v of None \<Rightarrow> d | Some x \<Rightarrow> x)"

text \<open>The constructor. A URL that does not parse makes \<open>new URL\<close> throw a TypeError, here None.\<close>

definition new_verifier ::
  "(string \<Rightarrow> string option) \<Rightarrow> oidc_options \<Rightarrow> identity_error option + oidc_verifier"
where
  "new_verifier url_protocol o' =
     (let issuer = normalizedIssuer (oo_issuer o');
          algorithms = or_default (oo_algorithms o') [''RS256'', ''ES256''];
          parties = map_option (\<lambda>ps. js_unique (filter (\<lambda>t. t \<noteq> []) (map trim ps))) (oo_authorized_parties o') in
      if issuer = [] then Inl (Some Invalid_configuration)
      else if \<not> nonemptyAudience (oo_audience o') then Inl (Some Invalid_configuration)
      else if algorithms = [] then Inl (Some Invalid_configuration)
      else if parties = Some [] then Inl (Some Invalid_configuration)
      else case url_protocol (or_default (oo_jwks_uri o') (issuer @ ''/.well-known/jwks.json'')) of
             None \<Rightarrow> Inl None
           | Some protocol \<Rightarrow>
               if \<not> oo_has_key o' \<and> protocol \<noteq> ''https:'' then Inl (Some Invalid_configuration)
               else Inr
                 \<lparr>ov_issuer = issuer, ov_audience = oo_audience o', ov_algorithms = algorithms,
                  ov_authorized_parties = parties, ov_clock_tolerance = or_default (oo_clock_tolerance o') 5,
                  ov_email_claim = or_default (oo_email_claim o') ''email'',
                  ov_email_verified_claim = or_default (oo_email_verified_claim o') ''email_verified'',
                  ov_phone_claim = or_default (oo_phone_claim o') ''phone_number'',
                  ov_phone_verified_claim = or_default (oo_phone_verified_claim o') ''phone_number_verified'',
                  ov_require_email = or_default (oo_require_email o') True,
                  ov_require_phone = or_default (oo_require_phone o') True\<rparr>)"

text \<open>A claim that is surfaced, with whether the provider has verified it.\<close>

definition contact_claim :: "claims \<Rightarrow> string \<Rightarrow> string \<Rightarrow> bool \<Rightarrow> (string \<times> bool) option" where
  "contact_claim payload claim verified_claim required =
     (let verified = (map_of payload verified_claim = Some (JBool True)) in
      case optionalString payload claim of
        None \<Rightarrow> None
      | Some v \<Rightarrow> if \<not> required \<or> verified then Some (v, verified) else None)"

definition principal_of :: "oidc_verifier \<Rightarrow> claims \<Rightarrow> identity_error + identity_principal" where
  "principal_of v payload =
     (let subject = (case map_of payload ''sub'' of Some (JStr t) \<Rightarrow> trim t | _ \<Rightarrow> []);
          party_ok = (case ov_authorized_parties v of
             None \<Rightarrow> True
           | Some ps \<Rightarrow> (case optionalString payload ''azp'' of None \<Rightarrow> False | Some a \<Rightarrow> a \<in> set ps));
          email = contact_claim payload (ov_email_claim v) (ov_email_verified_claim v) (ov_require_email v);
          phone = contact_claim payload (ov_phone_claim v) (ov_phone_verified_claim v) (ov_require_phone v) in
      if subject = [] then Inl Invalid_token
      else if \<not> party_ok then Inl Invalid_token
      else Inr
        \<lparr>ip_issuer = ov_issuer v, ip_subject = subject,
         ip_email = map_option (\<lambda>(e, _). to_lower e) email, ip_email_verified = map_option snd email,
         ip_phone_number = map_option fst phone, ip_phone_number_verified = map_option snd phone\<rparr>)"

definition verifyToken ::
  "(oidc_verifier \<Rightarrow> string \<Rightarrow> claims option) \<Rightarrow> oidc_verifier \<Rightarrow> string \<Rightarrow> identity_error + identity_principal"
where
  "verifyToken verify v token =
     (if trim token = [] then Inl Missing_token
      else case verify v token of None \<Rightarrow> Inl Invalid_token | Some payload \<Rightarrow> principal_of v payload)"

definition verifyAuthorization ::
  "(oidc_verifier \<Rightarrow> string \<Rightarrow> claims option) \<Rightarrow> oidc_verifier \<Rightarrow> string option \<Rightarrow> identity_error + identity_principal"
where
  "verifyAuthorization verify v authorization =
     (case bearerToken authorization of Inl e \<Rightarrow> Inl e | Inr token \<Rightarrow> verifyToken verify v token)"

section \<open>What a principal vouches for\<close>

lemma contact_vouched:
  "contact_claim payload c v required = Some (t, b) \<Longrightarrow>
     t \<noteq> [] \<and> trim t = t \<and> (b \<longleftrightarrow> map_of payload v = Some (JBool True)) \<and> (required \<longrightarrow> b)"
  by (auto simp: contact_claim_def optionalString_def Let_def split: option.splits json.splits if_splits)

lemma new_verifier_parties:
  "new_verifier u o' = Inr v \<Longrightarrow> ov_issuer v \<noteq> [] \<and> ov_authorized_parties v \<noteq> Some []"
  by (auto simp: new_verifier_def Let_def split: if_splits option.splits)

text \<open>
  C27. Only verified claims become a principal. Whoever an authorization header is accepted
  as, the token in it was checked, the issuer is the configured one and not empty, the
  subject is the token's and not empty, a configured list of authorized parties names the
  token's party, and where verification is required the e-mail address and the telephone
  number are present only when the token says that they are verified.
\<close>

theorem principals_are_vouched:
  assumes "new_verifier url_protocol o' = Inr v" "verifyAuthorization verify v authorization = Inr p"
  shows "\<exists>token payload. authorization \<noteq> None \<and> bearerToken authorization = Inr token \<and> verify v token = Some payload \<and>
    ip_issuer p = ov_issuer v \<and> ip_issuer p \<noteq> [] \<and>
    (\<exists>t. map_of payload ''sub'' = Some (JStr t) \<and> ip_subject p = trim t \<and> ip_subject p \<noteq> []) \<and>
    (\<forall>ps. ov_authorized_parties v = Some ps \<longrightarrow> (\<exists>a \<in> set ps. optionalString payload ''azp'' = Some a)) \<and>
    (ov_require_email v \<and> ip_email p \<noteq> None \<longrightarrow> map_of payload (ov_email_verified_claim v) = Some (JBool True)) \<and>
    (ov_require_phone v \<and> ip_phone_number p \<noteq> None \<longrightarrow> map_of payload (ov_phone_verified_claim v) = Some (JBool True))"
proof -
  obtain token payload where token: "bearerToken authorization = Inr token" "verify v token = Some payload" "principal_of v payload = Inr p"
    using assms(2) by (auto simp: verifyAuthorization_def verifyToken_def split: sum.splits if_splits option.splits)
  moreover have "authorization \<noteq> None" using token(1) by (cases authorization) (auto simp: bearerToken_def)
  moreover have "ip_issuer p = ov_issuer v" "ip_issuer p \<noteq> []"
    using token(3) new_verifier_parties [OF assms(1)] by (auto simp: principal_of_def Let_def split: if_splits)
  moreover have "\<exists>t. map_of payload ''sub'' = Some (JStr t) \<and> ip_subject p = trim t \<and> ip_subject p \<noteq> []"
    using token(3) by (auto simp: principal_of_def Let_def split: if_splits option.splits json.splits)
  moreover have "\<exists>a \<in> set ps. optionalString payload ''azp'' = Some a" if "ov_authorized_parties v = Some ps" for ps
    using token(3) that by (auto simp: principal_of_def Let_def split: if_splits option.splits)
  moreover have "map_of payload (ov_email_verified_claim v) = Some (JBool True)" if "ov_require_email v" "ip_email p \<noteq> None"
    using token(3) that contact_vouched by (fastforce simp: principal_of_def Let_def split: if_splits)
  moreover have "map_of payload (ov_phone_verified_claim v) = Some (JBool True)" if "ov_require_phone v" "ip_phone_number p \<noteq> None"
    using token(3) that contact_vouched by (fastforce simp: principal_of_def Let_def split: if_splits)
  ultimately show ?thesis by blast
qed

definition sample_oidc :: oidc_options where
  "sample_oidc =
     \<lparr>oo_issuer = ''https://id/'', oo_audience = Inl ''api'', oo_jwks_uri = None, oo_algorithms = None,
      oo_authorized_parties = Some ['' web ''], oo_clock_tolerance = None, oo_email_claim = None,
      oo_email_verified_claim = None, oo_phone_claim = None, oo_phone_verified_claim = None, oo_require_email = None,
      oo_require_phone = None, oo_has_key = False\<rparr>"

definition sample_verify :: "oidc_verifier \<Rightarrow> string \<Rightarrow> claims option" where
  "sample_verify v token =
     (if token = ''jwt'' then Some [(''sub'', JStr ''u1''), (''azp'', JStr ''web''), (''email'', JStr ''A@B''),
        (''email_verified'', JBool True), (''phone_number'', JStr ''123'')] else None)"

definition sample_verifier :: oidc_verifier where
  "sample_verifier =
     \<lparr>ov_issuer = ''https://id'', ov_audience = Inl ''api'', ov_algorithms = [''RS256'', ''ES256''],
      ov_authorized_parties = Some [''web''], ov_clock_tolerance = 5, ov_email_claim = ''email'',
      ov_email_verified_claim = ''email_verified'', ov_phone_claim = ''phone_number'',
      ov_phone_verified_claim = ''phone_number_verified'', ov_require_email = True, ov_require_phone = True\<rparr>"

lemma sample_vouched:
  "new_verifier (\<lambda>u. Some ''https:'') sample_oidc = Inr sample_verifier"
  "verifyAuthorization sample_verify sample_verifier (Some ''Bearer jwt'') =
     Inr \<lparr>ip_issuer = ''https://id'', ip_subject = ''u1'', ip_email = Some ''a@b'', ip_email_verified = Some True,
       ip_phone_number = None, ip_phone_number_verified = None\<rparr>"
  by code_simp+

theorem principals_are_vouched_witness:
  "\<exists>token payload. bearerToken (Some ''Bearer jwt'') = Inr token \<and> sample_verify sample_verifier token = Some payload \<and>
    map_of payload ''email_verified'' = Some (JBool True)"
  using principals_are_vouched [OF sample_vouched] by (auto simp: sample_verifier_def)

end
