(* ===== verification/Protocol_Events.thy ===== *)
theory Protocol_Events
  imports Protocol_Types
begin

text \<open>
  packages/protocol/src/events.ts: the events a program publishes. \<open>specversion\<close>,
  \<open>datacontenttype\<close> and \<open>lipversion\<close> have one value each and are not stored.
\<close>

datatype event_type =
    Event_enrolled | Event_balance_changed | Event_accrued | Event_adjusted | Event_reserved | Event_captured
  | Event_reversed | Event_issued | Event_redeemed | Event_restored | Event_cancelled

datatype event_data =
    Member_data member
  | Entry_data ledger_entry
  | Reservation_data reservation
  | Issued_data issued_reward

record cloud_event =
  ev_id :: string
  ev_source :: string
  ev_type :: event_type
  ev_subject :: string
  ev_time :: string
  ev_data :: event_data

text \<open>What a receiver deduplicates on, and what an event is about: all but its time and data.\<close>

definition event_identity :: "cloud_event \<Rightarrow> string \<times> string \<times> event_type \<times> string" where
  "event_identity e = (ev_source e, ev_id e, ev_type e, ev_subject e)"

end
