(* ===== verification/Webhook_Dispatcher.thy ===== *)
theory Webhook_Dispatcher
  imports Js_Text Js_Date Protocol_Events
begin

text \<open>
  packages/server/src/webhooks.ts with the outbox journal of webhook-outbox.ts: the
  dispatcher that delivers events to subscribers. It is asynchronous: a delivery is a
  coroutine that runs between two awaits without interruption. Its state between them is a
  \<open>fiber\<close>, the durable writes still to run are a queue, and every call, timer, response and
  finished write is an action on the whole state. Time, responses and the outcome of writes
  are arguments of the actions.
\<close>

section \<open>Data\<close>

record retry_policy =
  rp_max_attempts :: int
  rp_backoff_ms :: int
  rp_timeout_ms :: int

record subscription =
  sb_subscription_id :: string
  sb_url :: string
  sb_secret :: string
  sb_events :: "event_type list option"
  sb_active :: bool
  sb_retry_policy :: "retry_policy option"

record outbox_entry =
  oe_delivery_id :: string
  oe_event :: cloud_event
  oe_url :: string
  oe_attempts :: int
  oe_created_at :: string
  oe_updated_at :: string
  oe_last_error :: "string option"

datatype delivery_status = Delivered | Failed

record archive_entry =
  ar_delivery_id :: string
  ar_event :: cloud_event
  ar_event_id :: string
  ar_event_type :: event_type
  ar_url :: string
  ar_attempts :: int
  ar_status :: delivery_status
  ar_completed_at :: string
  ar_last_error :: "string option"

section \<open>The outbox journal\<close>

record outbox_journal =
  oj_entries :: "(string, outbox_entry) jsmap"
  oj_stored :: "outbox_entry list option"

definition journal_create :: "outbox_entry list option \<Rightarrow> outbox_journal" where
  "journal_create stored =
     \<lparr>oj_entries = foldl (\<lambda>m e. js_set m (oe_delivery_id e) e) [] (case stored of None \<Rightarrow> [] | Some es \<Rightarrow> es),
      oj_stored = stored\<rparr>"

text \<open>\<open>enqueueSave\<close>: the whole map is saved, unless the store refuses.\<close>

definition journal_save :: "bool \<Rightarrow> outbox_journal \<Rightarrow> outbox_journal" where
  "journal_save ok j = (if ok then j\<lparr>oj_stored := Some (js_values (oj_entries j))\<rparr> else j)"

definition journal_put :: "bool \<Rightarrow> outbox_entry \<Rightarrow> outbox_journal \<Rightarrow> outbox_journal" where
  "journal_put ok e j = journal_save ok (j\<lparr>oj_entries := js_set (oj_entries j) (oe_delivery_id e) e\<rparr>)"

definition journal_remove :: "bool \<Rightarrow> string \<Rightarrow> outbox_journal \<Rightarrow> outbox_journal" where
  "journal_remove ok i j =
     (if js_has (oj_entries j) i then journal_save ok (j\<lparr>oj_entries := js_delete (oj_entries j) i\<rparr>) else j)"

section \<open>The dispatcher\<close>

datatype fiber_phase = Sleeping | Sending | Finished

record fiber =
  fb_subscription :: subscription
  fb_current :: outbox_entry
  fb_cycle :: int
  fb_error :: string
  fb_phase :: fiber_phase

datatype durable_write =
  Put_entry outbox_entry | Remove_entry string | Save_history "archive_entry list" | Save_subscriptions "subscription list"

text \<open>
  The options. \<open>wc_safe_url\<close> is assertSafeOutboundUrl followed by \<open>toString\<close>; it refuses
  with None. \<open>wc_sha256\<close> is the digest in hex, \<open>wc_subscription_id\<close> the n-th random identifier.
\<close>

record dispatcher_config =
  wc_max_attempts :: int
  wc_history_limit :: int
  wc_history_store :: bool
  wc_notify :: bool
  wc_safe_url :: "string \<Rightarrow> string option"
  wc_sha256 :: "string \<Rightarrow> string"
  wc_random_id :: "nat \<Rightarrow> string"

record dispatcher =
  wd_subscriptions :: "subscription list"
  wd_queued :: "(string, outbox_entry) jsmap"
  wd_history :: "archive_entry list"
  wd_pending :: "(string, fiber) jsmap"
  wd_writes :: "durable_write list"
  wd_journal :: outbox_journal
  wd_saved_history :: "archive_entry list"
  wd_saved_subscriptions :: "subscription list option"
  wd_draws :: nat

definition deliveryId :: "dispatcher_config \<Rightarrow> cloud_event \<Rightarrow> string \<Rightarrow> string" where
  "deliveryId c e url = wc_sha256 c (ev_source e @ [CHR 0x00] @ ev_id e @ [CHR 0x00] @ url)"

definition persist :: "durable_write \<Rightarrow> dispatcher \<Rightarrow> dispatcher" where
  "persist w d = d\<lparr>wd_writes := wd_writes d @ [w]\<rparr>"

definition persistSubscriptions :: "dispatcher_config \<Rightarrow> dispatcher \<Rightarrow> dispatcher" where
  "persistSubscriptions c d = (if wc_notify c then persist (Save_subscriptions (wd_subscriptions d)) d else d)"

text \<open>\<open>this.queued.set(...)\<close> and \<open>this.outbox.put(...)\<close>, \<open>queued.delete\<close> and \<open>outbox.remove\<close>.\<close>

definition enqueue :: "outbox_entry \<Rightarrow> dispatcher \<Rightarrow> dispatcher" where
  "enqueue e d = persist (Put_entry e) (d\<lparr>wd_queued := js_set (wd_queued d) (oe_delivery_id e) e\<rparr>)"

definition dequeue :: "string \<Rightarrow> dispatcher \<Rightarrow> dispatcher" where
  "dequeue i d = persist (Remove_entry i) (d\<lparr>wd_queued := js_delete (wd_queued d) i\<rparr>)"

definition record_delivery :: "dispatcher_config \<Rightarrow> archive_entry \<Rightarrow> dispatcher \<Rightarrow> dispatcher" where
  "record_delivery c r d =
     (let h = wd_history d @ [r];
          h' = drop (nat (int (length h) - wc_history_limit c)) h;
          d' = d\<lparr>wd_history := h'\<rparr> in
      if wc_history_store c then persist (Save_history h') d' else d')"

section \<open>A delivery\<close>

datatype delivery_state = Sub_active | Sub_paused | Sub_removed

definition subscriptionDeliveryState :: "dispatcher \<Rightarrow> subscription \<Rightarrow> delivery_state" where
  "subscriptionDeliveryState d s =
     (case List.find (\<lambda>c. sb_subscription_id c = sb_subscription_id s \<and> sb_url c = sb_url s) (wd_subscriptions d) of
        None \<Rightarrow> Sub_removed
      | Some c \<Rightarrow> if sb_active c then Sub_active else Sub_paused)"

definition max_attempts :: "dispatcher_config \<Rightarrow> subscription \<Rightarrow> int" where
  "max_attempts c s = (case sb_retry_policy s of None \<Rightarrow> wc_max_attempts c | Some p \<Rightarrow> rp_max_attempts p)"

definition advance :: "outbox_entry \<Rightarrow> fiber \<times> dispatcher \<Rightarrow> delivery_state \<times> fiber \<times> dispatcher" where
  "advance next fd =
     (let (f, d) = fd; state = subscriptionDeliveryState d (fb_subscription f) in
      if state = Sub_removed then (Sub_removed, f, d)
      else (state, f\<lparr>fb_current := next\<rparr>, enqueue next d))"

definition finish :: "fiber \<times> dispatcher \<Rightarrow> fiber \<times> dispatcher" where
  "finish fd = ((fst fd)\<lparr>fb_phase := Finished\<rparr>, snd fd)"

definition archive_of :: "fiber \<Rightarrow> delivery_status \<Rightarrow> string \<Rightarrow> string option \<Rightarrow> archive_entry" where
  "archive_of f status now error =
     (let e = fb_current f in
      \<lparr>ar_delivery_id = oe_delivery_id e, ar_event = oe_event e, ar_event_id = ev_id (oe_event e),
       ar_event_type = ev_type (oe_event e), ar_url = sb_url (fb_subscription f), ar_attempts = oe_attempts e,
       ar_status = status, ar_completed_at = now, ar_last_error = error\<rparr>)"

text \<open>The body of the loop up to the request.\<close>

definition begin_attempt :: "string \<Rightarrow> fiber \<times> dispatcher \<Rightarrow> fiber \<times> dispatcher" where
  "begin_attempt now fd =
     (let (f, d) = fd in
      if subscriptionDeliveryState d (fb_subscription f) \<noteq> Sub_active then finish (f, d)
      else
        case advance ((fb_current f)\<lparr>oe_last_error := None, oe_attempts := oe_attempts (fb_current f) + 1,
            oe_updated_at := now\<rparr>) (f, d) of
          (state, f', d') \<Rightarrow> if state \<noteq> Sub_active then finish (f', d') else (f'\<lparr>fb_phase := Sending\<rparr>, d'))"

text \<open>The head of the loop for one attempt, or the failed record after the last one.\<close>

definition enter_cycle :: "dispatcher_config \<Rightarrow> string \<Rightarrow> int \<Rightarrow> fiber \<times> dispatcher \<Rightarrow> fiber \<times> dispatcher" where
  "enter_cycle c now n fd =
     (let (f, d) = fd; f' = f\<lparr>fb_cycle := n\<rparr> in
      if n > max_attempts c (fb_subscription f)
      then finish (f', record_delivery c (archive_of f' Failed now (Some (fb_error f'))) d)
      else if n > 1 then (f'\<lparr>fb_phase := Sleeping\<rparr>, d)
      else begin_attempt now (f', d))"

datatype outcome = Accepted | Refused string

definition receive :: "dispatcher_config \<Rightarrow> string \<Rightarrow> outcome \<Rightarrow> fiber \<times> dispatcher \<Rightarrow> fiber \<times> dispatcher" where
  "receive c now result fd =
     (let (f, d) = fd in
      case result of
        Accepted \<Rightarrow>
          finish (f, record_delivery c (archive_of f Delivered now None) (dequeue (oe_delivery_id (fb_current f)) d))
      | Refused error \<Rightarrow>
          (case advance ((fb_current f)\<lparr>oe_last_error := Some error, oe_updated_at := now\<rparr>)
                  (f\<lparr>fb_error := error\<rparr>, d) of
             (state, f', d') \<Rightarrow>
               if state \<noteq> Sub_active then finish (f', d') else enter_cycle c now (fb_cycle f' + 1) (f', d')))"

definition schedule :: "dispatcher_config \<Rightarrow> string \<Rightarrow> outbox_entry \<Rightarrow> subscription \<Rightarrow> dispatcher \<Rightarrow> dispatcher" where
  "schedule c now e s d =
     (if js_has (wd_pending d) (oe_delivery_id e) then d
      else
        case enter_cycle c now 1
            (\<lparr>fb_subscription = s, fb_current = e, fb_cycle = 1, fb_error = ''delivery was not attempted'',
              fb_phase = Sleeping\<rparr>, d) of
          (f, d') \<Rightarrow> d'\<lparr>wd_pending := js_set (wd_pending d') (oe_delivery_id e) f\<rparr>)"

section \<open>Calls\<close>

definition subscribed :: "cloud_event \<Rightarrow> subscription \<Rightarrow> bool" where
  "subscribed e s = (sb_active s \<and> (case sb_events s of None \<Rightarrow> True | Some ts \<Rightarrow> ev_type e \<in> set ts))"

definition fresh_entry :: "dispatcher_config \<Rightarrow> string \<Rightarrow> cloud_event \<Rightarrow> string \<Rightarrow> outbox_entry" where
  "fresh_entry c now e url =
     \<lparr>oe_delivery_id = deliveryId c e url, oe_event = e, oe_url = url, oe_attempts = 0, oe_created_at = now,
      oe_updated_at = now, oe_last_error = None\<rparr>"

definition emit_to :: "dispatcher_config \<Rightarrow> string \<Rightarrow> cloud_event \<Rightarrow> subscription \<Rightarrow> dispatcher \<Rightarrow> dispatcher" where
  "emit_to c now e s d =
     (if \<not> subscribed e s then d
      else
        let entry = (case js_get (wd_queued d) (deliveryId c e (sb_url s)) of
                       Some x \<Rightarrow> x | None \<Rightarrow> fresh_entry c now e (sb_url s)) in
        schedule c now entry s (enqueue entry d))"

definition emit :: "dispatcher_config \<Rightarrow> string \<Rightarrow> cloud_event \<Rightarrow> dispatcher \<Rightarrow> dispatcher" where
  "emit c now e d = fold (emit_to c now e) (wd_subscriptions d) d"

definition find_active :: "dispatcher \<Rightarrow> string \<Rightarrow> subscription option" where
  "find_active d url = List.find (\<lambda>s. sb_url s = url \<and> sb_active s) (wd_subscriptions d)"

definition resume_entry :: "dispatcher_config \<Rightarrow> string \<Rightarrow> string \<Rightarrow> dispatcher \<Rightarrow> dispatcher" where
  "resume_entry c now i d =
     (case js_get (wd_queued d) i of
        None \<Rightarrow> d
      | Some e \<Rightarrow> (case find_active d (oe_url e) of None \<Rightarrow> d | Some s \<Rightarrow> schedule c now e s d))"

definition resumePending :: "dispatcher_config \<Rightarrow> string \<Rightarrow> dispatcher \<Rightarrow> dispatcher" where
  "resumePending c now d = fold (resume_entry c now) (js_keys (wd_queued d)) d"

text \<open>Whether a delivery was found, the answer of the next two calls, is not modelled.\<close>

definition retryDelivery :: "dispatcher_config \<Rightarrow> string \<Rightarrow> string \<Rightarrow> dispatcher \<Rightarrow> dispatcher" where
  "retryDelivery c now i d = resume_entry c now i d"

definition replayDelivery :: "dispatcher_config \<Rightarrow> string \<Rightarrow> string \<Rightarrow> dispatcher \<Rightarrow> dispatcher" where
  "replayDelivery c now i d =
     (case List.find (\<lambda>r. ar_delivery_id r = i) (rev (wd_history d)) of
        None \<Rightarrow> d
      | Some r \<Rightarrow>
          (case find_active d (ar_url r) of
             None \<Rightarrow> d
           | Some s \<Rightarrow>
               (let e = fresh_entry c now (ar_event r) (ar_url r) in schedule c now e s (enqueue e d))))"

record subscription_input =
  si_subscription_id :: "string option"
  si_url :: string
  si_secret :: string
  si_events :: "event_type list option"
  si_active :: "bool option"
  si_retry_policy :: "retry_policy option"

definition retry_policy_ok :: "retry_policy \<Rightarrow> bool" where
  "retry_policy_ok p =
     (1 \<le> rp_max_attempts p \<and> rp_max_attempts p \<le> 10 \<and> 0 \<le> rp_backoff_ms p \<and> 100 \<le> rp_timeout_ms p)"

fun put_first :: "('a \<Rightarrow> bool) \<Rightarrow> 'a \<Rightarrow> 'a list \<Rightarrow> 'a list" where
  "put_first P x [] = [x]"
| "put_first P x (y # ys) = (if P y then x # ys else y # put_first P x ys)"

definition put_subscription :: "subscription \<Rightarrow> subscription list \<Rightarrow> subscription list" where
  "put_subscription s ss = put_first (\<lambda>c. sb_subscription_id c = sb_subscription_id s) s ss"

text \<open>True when the call answers with the summary of the subscription, False when it throws.\<close>

definition upsertSubscription :: "dispatcher_config \<Rightarrow> subscription_input \<Rightarrow> dispatcher \<Rightarrow> bool \<times> dispatcher" where
  "upsertSubscription c i d =
     (case wc_safe_url c (si_url i) of
        None \<Rightarrow> (False, d)
      | Some url \<Rightarrow>
          if length (si_secret i) < 16 then (False, d)
          else
            let (n, k) = (case si_subscription_id i of Some n \<Rightarrow> (n, 0) | None \<Rightarrow> (wc_random_id c (wd_draws d), 1));
                s = \<lparr>sb_subscription_id = n, sb_url = url, sb_secret = si_secret i,
                     sb_events = map_option js_unique (si_events i),
                     sb_active = (case si_active i of None \<Rightarrow> True | Some a \<Rightarrow> a), sb_retry_policy = si_retry_policy i\<rparr>;
                d' = d\<lparr>wd_draws := wd_draws d + k\<rparr> in
            if (case si_retry_policy i of None \<Rightarrow> False | Some p \<Rightarrow> \<not> retry_policy_ok p) then (False, d')
            else (True, persistSubscriptions c (d'\<lparr>wd_subscriptions := put_subscription s (wd_subscriptions d')\<rparr>)))"

definition input_of :: "subscription \<Rightarrow> string \<Rightarrow> subscription_input" where
  "input_of s secret =
     \<lparr>si_subscription_id = Some (sb_subscription_id s), si_url = sb_url s, si_secret = secret, si_events = sb_events s,
      si_active = Some (sb_active s), si_retry_policy = sb_retry_policy s\<rparr>"

definition rotateSecret :: "dispatcher_config \<Rightarrow> string \<Rightarrow> string \<Rightarrow> dispatcher \<Rightarrow> bool \<times> dispatcher" where
  "rotateSecret c i secret d =
     (case List.find (\<lambda>s. sb_subscription_id s = i) (wd_subscriptions d) of
        None \<Rightarrow> (False, d)
      | Some s \<Rightarrow> upsertSubscription c (input_of s secret) d)"

definition removeSubscription :: "dispatcher_config \<Rightarrow> string \<Rightarrow> dispatcher \<Rightarrow> bool \<times> dispatcher" where
  "removeSubscription c i d =
     (case List.find (\<lambda>s. sb_subscription_id s = i) (wd_subscriptions d) of
        None \<Rightarrow> (False, d)
      | Some s \<Rightarrow>
          (let d1 = d\<lparr>wd_subscriptions := filter (\<lambda>x. sb_subscription_id x \<noteq> i) (wd_subscriptions d)\<rparr>;
               gone = map oe_delivery_id (filter (\<lambda>e. oe_url e = sb_url s) (js_values (wd_queued d1)))
           in (True, persistSubscriptions c (fold dequeue gone d1))))"

section \<open>Actions\<close>

definition with_fiber :: "string \<Rightarrow> fiber_phase \<Rightarrow> (fiber \<times> dispatcher \<Rightarrow> fiber \<times> dispatcher) \<Rightarrow> dispatcher \<Rightarrow> dispatcher" where
  "with_fiber i phase step d =
     (case js_get (wd_pending d) i of
        None \<Rightarrow> d
      | Some f \<Rightarrow>
          if fb_phase f \<noteq> phase then d
          else case step (f, d) of (f', d') \<Rightarrow> d'\<lparr>wd_pending := js_set (wd_pending d') i f'\<rparr>)"

fun run_write :: "bool \<Rightarrow> durable_write \<Rightarrow> dispatcher \<Rightarrow> dispatcher" where
  "run_write ok (Put_entry e) d = d\<lparr>wd_journal := journal_put ok e (wd_journal d)\<rparr>"
| "run_write ok (Remove_entry i) d = d\<lparr>wd_journal := journal_remove ok i (wd_journal d)\<rparr>"
| "run_write ok (Save_history h) d = (if ok then d\<lparr>wd_saved_history := h\<rparr> else d)"
| "run_write ok (Save_subscriptions ss) d = (if ok then d\<lparr>wd_saved_subscriptions := Some ss\<rparr> else d)"

datatype action =
  Emit string cloud_event | Resume string | Retry string string | Replay string string
| Upsert subscription_input | Rotate string string | Remove string
| Timer string string | Response string string outcome | Settle string | Write bool

text \<open>\<open>Timer\<close> ends the sleep of a delivery, \<open>Settle\<close> takes a finished one out of \<open>pending\<close>.\<close>

fun act :: "dispatcher_config \<Rightarrow> action \<Rightarrow> dispatcher \<Rightarrow> dispatcher" where
  "act c (Emit now e) d = emit c now e d"
| "act c (Resume now) d = resumePending c now d"
| "act c (Retry now i) d = retryDelivery c now i d"
| "act c (Replay now i) d = replayDelivery c now i d"
| "act c (Upsert i) d = snd (upsertSubscription c i d)"
| "act c (Rotate i secret) d = snd (rotateSecret c i secret d)"
| "act c (Remove i) d = snd (removeSubscription c i d)"
| "act c (Timer now i) d = with_fiber i Sleeping (begin_attempt now) d"
| "act c (Response now i r) d = with_fiber i Sending (receive c now r) d"
| "act c (Settle i) d =
     (case js_get (wd_pending d) i of
        None \<Rightarrow> d
      | Some f \<Rightarrow> if fb_phase f = Finished then d\<lparr>wd_pending := js_delete (wd_pending d) i\<rparr> else d)"
| "act c (Write ok) d = (case wd_writes d of [] \<Rightarrow> d | w # ws \<Rightarrow> run_write ok w (d\<lparr>wd_writes := ws\<rparr>))"

definition run_actions :: "dispatcher_config \<Rightarrow> action list \<Rightarrow> dispatcher \<Rightarrow> dispatcher" where
  "run_actions c as d = fold (act c) as d"

text \<open>The constructor's normalization of the configured subscriptions; None when a URL is refused.\<close>

record subscription_option =
  so_subscription_id :: "string option"
  so_url :: string
  so_secret :: string
  so_events :: "event_type list option"
  so_active :: "bool option"
  so_retry_policy :: "retry_policy option"

definition managed_subscription :: "dispatcher_config \<Rightarrow> subscription_option \<Rightarrow> subscription option" where
  "managed_subscription c o' =
     map_option (\<lambda>url.
       \<lparr>sb_subscription_id =
          (case so_subscription_id o' of
             Some n \<Rightarrow> n
           | None \<Rightarrow> ''webhook_'' @ take 20 (wc_sha256 c (''subscription'' @ [CHR 0x00] @ so_url o' @ [CHR 0x00] @ so_url o'))),
        sb_url = url, sb_secret = so_secret o', sb_events = so_events o',
        sb_active = (case so_active o' of None \<Rightarrow> True | Some a \<Rightarrow> a), sb_retry_policy = so_retry_policy o'\<rparr>)
       (wc_safe_url c (so_url o'))"

text \<open>\<open>xs.slice(-n)\<close>: with n = 0 it is the whole array.\<close>

definition slice_last :: "int \<Rightarrow> 'a list \<Rightarrow> 'a list" where
  "slice_last n xs = (if n > 0 then drop (nat (int (length xs) - n)) xs else drop (nat (- n)) xs)"

text \<open>\<open>create\<close> with the subscriptions the constructor has normalized.\<close>

definition create_dispatcher ::
  "dispatcher_config \<Rightarrow> subscription list \<Rightarrow> outbox_entry list option \<Rightarrow> archive_entry list \<Rightarrow> dispatcher"
where
  "create_dispatcher c ss stored saved =
     persistSubscriptions c
       \<lparr>wd_subscriptions = ss,
        wd_queued = foldl (\<lambda>m e. js_set m (oe_delivery_id e) e) [] (js_values (oj_entries (journal_create stored))),
        wd_history = (if wc_history_store c then slice_last (wc_history_limit c) saved else []),
        wd_pending = [], wd_writes = [], wd_journal = journal_create stored, wd_saved_history = saved,
        wd_saved_subscriptions = None, wd_draws = 0\<rparr>"

section \<open>Reports\<close>

record delivery_health =
  dh_enabled :: bool
  dh_subscription_count :: nat
  dh_pending_count :: nat
  dh_recent_total :: nat
  dh_recent_succeeded :: nat
  dh_recent_failed :: nat
  dh_healthy :: bool

definition deliveryHealth :: "dispatcher \<Rightarrow> delivery_health" where
  "deliveryHealth d =
     (let failed = length (filter (\<lambda>r. ar_status r = Failed) (wd_history d));
          enabled = list_ex sb_active (wd_subscriptions d) in
      \<lparr>dh_enabled = enabled, dh_subscription_count = length (filter sb_active (wd_subscriptions d)),
       dh_pending_count = length (wd_queued d), dh_recent_total = length (wd_history d),
       dh_recent_succeeded = length (filter (\<lambda>r. ar_status r = Delivered) (wd_history d)), dh_recent_failed = failed,
       dh_healthy = (enabled \<and> length (wd_queued d) = 0 \<and> failed = 0)\<rparr>)"

definition pendingDeliveries :: "dispatcher \<Rightarrow> outbox_entry list" where
  "pendingDeliveries d = js_values (wd_queued d)"

definition inFlightDeliveries :: "dispatcher \<Rightarrow> nat" where
  "inFlightDeliveries d = length (wd_pending d)"

end
