(* ===== verification/Webhook_Theorems.thy ===== *)
theory Webhook_Theorems
  imports Webhook_Dispatcher
begin

text \<open>
  The dispatcher under any interleaving of calls, timers, responses and durable writes:
  what is queued stays queued until it is delivered or its subscription goes, the durable
  outbox is the queue as soon as the writes have run, and every cycle of attempts ends.
\<close>

section \<open>The durable outbox follows the queue\<close>

fun write_map :: "durable_write \<Rightarrow> (string \<Rightarrow> outbox_entry option) \<Rightarrow> string \<Rightarrow> outbox_entry option" where
  "write_map (Put_entry e) m = m(oe_delivery_id e \<mapsto> e)"
| "write_map (Remove_entry i) m = m(i := None)"
| "write_map (Save_history h) m = m"
| "write_map (Save_subscriptions ss) m = m"

definition journal_follows :: "dispatcher \<Rightarrow> bool" where
  "journal_follows d \<longleftrightarrow> fold write_map (wd_writes d) (js_get (oj_entries (wd_journal d))) = js_get (wd_queued d)"

lemma follows_persist: "write_map w = id \<Longrightarrow> journal_follows d \<Longrightarrow> journal_follows (persist w d)"
  by (simp add: journal_follows_def persist_def)

lemma follows_other [simp]:
  "journal_follows (d\<lparr>wd_history := h\<rparr>) = journal_follows d"
  "journal_follows (d\<lparr>wd_pending := p\<rparr>) = journal_follows d"
  "journal_follows (d\<lparr>wd_subscriptions := ss\<rparr>) = journal_follows d"
  "journal_follows (d\<lparr>wd_draws := n\<rparr>) = journal_follows d"
  by (simp_all add: journal_follows_def)

lemma save_maps: "write_map (Save_history h) = id" "write_map (Save_subscriptions ss) = id"
  by (simp_all add: fun_eq_iff)

lemma follows_queue:
  "journal_follows d \<Longrightarrow> journal_follows (enqueue e d)" "journal_follows d \<Longrightarrow> journal_follows (dequeue i d)"
  by (simp_all add: journal_follows_def enqueue_def dequeue_def persist_def js_get_delete fun_upd_def)

lemma follows_record: "journal_follows d \<Longrightarrow> journal_follows (record_delivery c r d)"
  by (auto simp: record_delivery_def Let_def intro!: follows_persist save_maps)

lemma follows_notify: "journal_follows d \<Longrightarrow> journal_follows (persistSubscriptions c d)"
  by (auto simp: persistSubscriptions_def intro!: follows_persist save_maps)

text \<open>
  A state predicate that the four primitive updates of the dispatcher keep is kept by every
  call and every step of a delivery.
\<close>

locale dispatcher_property =
  fixes P :: "dispatcher \<Rightarrow> bool" and c :: dispatcher_config
  assumes keeps_enqueue: "P d \<Longrightarrow> P (enqueue e d)"
    and keeps_record: "P d \<Longrightarrow> P (record_delivery c r d)"
    and keeps_pending: "P d \<Longrightarrow> P (d\<lparr>wd_pending := p\<rparr>)"
begin

lemma keeps_advance: "P (snd fd) \<Longrightarrow> P (snd (snd (advance e fd)))"
  by (auto simp: advance_def Let_def keeps_enqueue split: prod.split)

lemma keeps_begin: "P (snd fd) \<Longrightarrow> P (snd (begin_attempt now fd))"
  by (auto simp: begin_attempt_def finish_def Let_def advance_def keeps_enqueue split: prod.split)

lemma keeps_enter: "P (snd fd) \<Longrightarrow> P (snd (enter_cycle c now n fd))"
  using keeps_begin by (auto simp: enter_cycle_def finish_def Let_def keeps_record split: prod.split)

lemma keeps_schedule: "P d \<Longrightarrow> P (schedule c now e s d)"
  by (simp add: schedule_def case_prod_beta keeps_pending keeps_enter)

lemma keeps_emit_to: "P d \<Longrightarrow> P (emit_to c now e s d)"
  by (simp add: emit_to_def Let_def keeps_schedule keeps_enqueue)

lemma keeps_fold: "(\<And>x d. P d \<Longrightarrow> P (f x d)) \<Longrightarrow> P d \<Longrightarrow> P (fold f xs d)"
  by (induction xs arbitrary: d) simp_all

lemma keeps_emit: "P d \<Longrightarrow> P (emit c now e d)"
  unfolding emit_def by (rule keeps_fold) (simp_all add: keeps_emit_to)

lemma keeps_resume_entry: "P d \<Longrightarrow> P (resume_entry c now i d)"
  by (simp add: resume_entry_def keeps_schedule split: option.split)

lemma keeps_resume: "P d \<Longrightarrow> P (resumePending c now d)"
  unfolding resumePending_def by (rule keeps_fold) (simp_all add: keeps_resume_entry)

lemma keeps_replay: "P d \<Longrightarrow> P (replayDelivery c now i d)"
  by (simp add: replayDelivery_def Let_def keeps_schedule keeps_enqueue split: option.split)

lemma keeps_refusal: "P (snd fd) \<Longrightarrow> P (snd (receive c now (Refused err) fd))"
  by (simp add: receive_def finish_def case_prod_beta keeps_enter keeps_advance)

lemma keeps_with_fiber: "(\<And>f. P (snd (step (f, d)))) \<Longrightarrow> P d \<Longrightarrow> P (with_fiber i ph step d)"
  by (simp add: with_fiber_def case_prod_beta keeps_pending split: option.split)

lemma keeps_timer: "P d \<Longrightarrow> P (act c (Timer now i) d)"
  by (simp add: keeps_with_fiber keeps_begin)

lemma keeps_settle: "P d \<Longrightarrow> P (act c (Settle i) d)"
  by (simp add: keeps_pending split: option.split)

end

interpretation follows: dispatcher_property journal_follows c for c
  by unfold_locales (simp_all add: follows_queue follows_record)

lemma follows_response: "journal_follows d \<Longrightarrow> journal_follows (act c (Response now i r) d)"
proof (cases r)
  case Accepted
  then show "journal_follows d \<Longrightarrow> ?thesis"
    by (simp add: follows.keeps_with_fiber receive_def finish_def case_prod_beta follows_queue follows_record)
next
  case (Refused err)
  then show "journal_follows d \<Longrightarrow> ?thesis"
    by (simp add: follows.keeps_with_fiber follows.keeps_refusal)
qed

lemma follows_upsert: "journal_follows d \<Longrightarrow> journal_follows (snd (upsertSubscription c i d))"
  by (auto simp: upsertSubscription_def Let_def case_prod_beta follows_notify split: option.split)

lemma follows_remove: "journal_follows d \<Longrightarrow> journal_follows (snd (removeSubscription c i d))"
proof -
  assume d: "journal_follows d"
  have "journal_follows (fold dequeue xs x)" if "journal_follows x" for xs x
    using that by (induction xs arbitrary: x) (simp_all add: follows_queue)
  then show ?thesis using d by (auto simp: removeSubscription_def Let_def follows_notify split: option.split)
qed

lemma journal_entries [simp]:
  "oj_entries (journal_put ok e j) = js_set (oj_entries j) (oe_delivery_id e) e"
  "js_get (oj_entries (journal_remove ok i j)) = (js_get (oj_entries j))(i := None)"
  by (auto simp: journal_put_def journal_remove_def journal_save_def js_get_delete js_has_def fun_eq_iff)

lemma run_write_entries: "js_get (oj_entries (wd_journal (run_write ok w d))) = write_map w (js_get (oj_entries (wd_journal d)))"
  by (cases w) (simp_all add: fun_upd_def)

lemma run_write_rest [simp]: "wd_queued (run_write ok w d) = wd_queued d" "wd_writes (run_write ok w d) = wd_writes d"
  by (cases w; simp)+

lemma follows_write: "journal_follows d \<Longrightarrow> journal_follows (act c (Write ok) d)"
  by (auto simp: journal_follows_def run_write_entries split: list.split)

lemma follows_act: "journal_follows d \<Longrightarrow> journal_follows (act c a d)"
proof (cases a)
  case (Response now i r)
  then show "journal_follows d \<Longrightarrow> ?thesis" by (simp only: follows_response)
next
  case (Write ok)
  then show "journal_follows d \<Longrightarrow> ?thesis" by (simp only: follows_write)
next
  case (Timer now i)
  then show "journal_follows d \<Longrightarrow> ?thesis" by (simp only: follows.keeps_timer)
next
  case (Settle i)
  then show "journal_follows d \<Longrightarrow> ?thesis" by (simp only: follows.keeps_settle)
qed (auto simp: follows.keeps_emit follows.keeps_resume follows.keeps_resume_entry follows.keeps_replay retryDelivery_def
    follows_upsert follows_remove rotateSecret_def split: option.split)

lemma follows_run: "journal_follows d \<Longrightarrow> journal_follows (run_actions c as d)"
  unfolding run_actions_def by (induction as arbitrary: d) (simp_all add: follows_act del: act.simps)

section \<open>The stored outbox\<close>

definition keyed_entries :: "(string, outbox_entry) jsmap \<Rightarrow> bool" where
  "keyed_entries m \<longleftrightarrow> keys_ok m \<and> (\<forall>i e. js_get m i = Some e \<longrightarrow> oe_delivery_id e = i)"

definition entries_of :: "outbox_entry list \<Rightarrow> (string, outbox_entry) jsmap" where
  "entries_of es = foldl (\<lambda>m e. js_set m (oe_delivery_id e) e) [] es"

lemma keyed_Nil [simp]: "keyed_entries []"
  by (simp add: keyed_entries_def)

lemma keyed_set: "keyed_entries m \<Longrightarrow> keyed_entries (js_set m (oe_delivery_id e) e)"
  by (simp add: keyed_entries_def)

lemma keyed_delete: "keyed_entries m \<Longrightarrow> keyed_entries (js_delete m i)"
  by (simp add: keyed_entries_def js_get_delete)

lemma keyed_foldl: "keyed_entries m \<Longrightarrow> keyed_entries (foldl (\<lambda>m e. js_set m (oe_delivery_id e) e) m es)"
  by (induction es arbitrary: m) (simp_all add: keyed_set)

lemma get_foldl:
  "js_get (foldl (\<lambda>m e. js_set m (oe_delivery_id e) e) m es) = js_get m ++ map_of (rev (map (\<lambda>e. (oe_delivery_id e, e)) es))"
  by (induction es arbitrary: m) (auto simp: map_add_def fun_eq_iff split: option.split)

lemma js_get_rev: "keys_ok m \<Longrightarrow> js_get (rev m) = js_get m"
proof (rule ext)
  fix k assume ok: "keys_ok m"
  then have "keys_ok (rev m)" by (simp add: keys_ok_def rev_map [symmetric])
  then have "js_get (rev m) k = Some v \<longleftrightarrow> js_get m k = Some v" for v
    using js_get_iff_mem [of "rev m" k v] js_get_iff_mem [OF ok, of k v] by simp
  then show "js_get (rev m) k = js_get m k" by (metis not_None_eq)
qed

lemma entries_of_values:
  assumes "keyed_entries m"
  shows "js_get (entries_of (js_values m)) = js_get m"
proof -
  have pairs: "map (\<lambda>e. (oe_delivery_id e, e)) (js_values m) = m"
    using assms js_get_iff_mem [of m] by (force simp: keyed_entries_def intro!: map_idI)
  have "map_of (rev m) = map_of m"
    using assms by (intro js_get_rev) (simp add: keyed_entries_def)
  then show ?thesis by (simp only: entries_of_def get_foldl pairs) simp
qed

text \<open>The store holds what the journal has in memory.\<close>

definition journal_synced :: "outbox_journal \<Rightarrow> bool" where
  "journal_synced j \<longleftrightarrow>
     keyed_entries (oj_entries j) \<and> js_get (oj_entries (journal_create (oj_stored j))) = js_get (oj_entries j)"

lemma journal_create_entries: "oj_entries (journal_create stored) = entries_of (case stored of None \<Rightarrow> [] | Some es \<Rightarrow> es)"
  by (simp add: journal_create_def entries_of_def)

lemma journal_create_synced: "journal_synced (journal_create stored)"
  by (simp add: journal_synced_def journal_create_def keyed_foldl)

lemma journal_ops_synced:
  "journal_synced j \<Longrightarrow> journal_synced (journal_put True e j)" "journal_synced j \<Longrightarrow> journal_synced (journal_remove True i j)"
  by (auto simp: journal_synced_def journal_put_def journal_remove_def journal_save_def journal_create_entries
      entries_of_values keyed_set keyed_delete)

lemma run_write_synced: "journal_synced (wd_journal d) \<Longrightarrow> journal_synced (wd_journal (run_write True w d))"
  by (cases w) (simp_all add: journal_ops_synced)

definition journal_steady :: "outbox_journal \<Rightarrow> dispatcher \<Rightarrow> bool" where
  "journal_steady j d \<longleftrightarrow> wd_journal d = j"

lemma persist_journal [simp]: "wd_journal (persist w d) = wd_journal d" "wd_journal (persistSubscriptions c d) = wd_journal d"
  "wd_journal (enqueue e d) = wd_journal d" "wd_journal (dequeue i d) = wd_journal d"
  "wd_journal (record_delivery c r d) = wd_journal d"
  by (simp_all add: persist_def persistSubscriptions_def enqueue_def dequeue_def record_delivery_def Let_def)

interpretation steady: dispatcher_property "journal_steady j" c for j c
  by unfold_locales (simp_all add: journal_steady_def)

lemmas steady_calls =
  steady.keeps_emit [unfolded journal_steady_def, OF refl] steady.keeps_resume [unfolded journal_steady_def, OF refl]
  steady.keeps_resume_entry [unfolded journal_steady_def, OF refl] steady.keeps_replay [unfolded journal_steady_def, OF refl]

lemma steady_act: "(\<And>ok. a \<noteq> Write ok) \<Longrightarrow> wd_journal (act c a d) = wd_journal d"
proof -
  assume a: "\<And>ok. a \<noteq> Write ok"
  let ?P = "journal_steady (wd_journal d)"
  have start: "?P d" by (simp add: journal_steady_def)
  have fold: "wd_journal (fold dequeue xs x) = wd_journal x" for xs x by (induction xs arbitrary: x) simp_all
  have "?P (act c a d)"
  proof (cases a)
    case (Response now i r)
    show ?thesis unfolding Response act.simps
      by (rule steady.keeps_with_fiber, cases r)
        (use start steady.keeps_refusal in \<open>auto simp: receive_def finish_def journal_steady_def\<close>)
  next
    case (Timer now i)
    then show ?thesis using start steady.keeps_timer by (simp del: act.simps)
  next
    case (Settle i)
    then show ?thesis using start steady.keeps_settle by (simp del: act.simps)
  next
    case (Write ok)
    then show ?thesis using a by simp
  qed (use start in \<open>auto simp: steady_calls retryDelivery_def rotateSecret_def upsertSubscription_def removeSubscription_def Let_def case_prod_beta
        journal_steady_def fold split: option.split\<close>)
  then show ?thesis by (simp add: journal_steady_def)
qed

lemma synced_act: "a \<noteq> Write False \<Longrightarrow> journal_synced (wd_journal d) \<Longrightarrow> journal_synced (wd_journal (act c a d))"
proof (cases "\<exists>ok. a = Write ok")
  case True
  then show "a \<noteq> Write False \<Longrightarrow> journal_synced (wd_journal d) \<Longrightarrow> ?thesis"
    by (cases "wd_writes d") (auto intro!: run_write_synced)
qed (simp add: steady_act del: act.simps)

lemma synced_run:
  "Write False \<notin> set as \<Longrightarrow> journal_synced (wd_journal d) \<Longrightarrow> journal_synced (wd_journal (run_actions c as d))"
  unfolding run_actions_def by (induction as arbitrary: d) (auto simp: synced_act simp del: act.simps)

lemma create_fields:
  "wd_journal (create_dispatcher c ss stored saved) = journal_create stored"
  "wd_queued (create_dispatcher c ss stored saved) = entries_of (js_values (oj_entries (journal_create stored)))"
  "wd_subscriptions (create_dispatcher c ss stored saved) = ss" "wd_pending (create_dispatcher c ss stored saved) = []"
  by (simp_all add: create_dispatcher_def persistSubscriptions_def persist_def entries_of_def)

lemma journal_create_keyed: "keyed_entries (oj_entries (journal_create stored))"
  using journal_create_synced by (simp add: journal_synced_def)

lemma create_follows: "journal_follows (create_dispatcher c ss stored saved)"
proof -
  have "fold write_map (wd_writes (create_dispatcher c ss stored saved)) = id"
    by (simp add: create_dispatcher_def persistSubscriptions_def persist_def save_maps)
  then show ?thesis
    by (simp add: journal_follows_def create_fields entries_of_values journal_create_keyed)
qed

text \<open>
  C31. A crash loses nothing that was written. After any calls, responses, timers and
  successful writes, in any order, the durable outbox together with the writes that have
  not run yet is the queue; once they have run, a dispatcher created on what is stored has
  the same deliveries queued.
\<close>

theorem outbox_is_durable:
  assumes "d = run_actions c as (create_dispatcher c ss stored saved)" "Write False \<notin> set as"
  shows "fold write_map (wd_writes d) (js_get (oj_entries (journal_create (oj_stored (wd_journal d))))) = js_get (wd_queued d) \<and>
    (wd_writes d = [] \<longrightarrow> js_get (wd_queued (create_dispatcher c ss' (oj_stored (wd_journal d)) saved')) = js_get (wd_queued d))"
proof -
  have "journal_follows d" using follows_run [OF create_follows] assms(1) by simp
  moreover have "journal_synced (wd_journal d)"
    using synced_run [OF assms(2)] assms(1) by (simp add: create_fields journal_create_synced)
  ultimately have follows: "fold write_map (wd_writes d) (js_get (oj_entries (journal_create (oj_stored (wd_journal d))))) = js_get (wd_queued d)"
    by (simp add: journal_follows_def journal_synced_def)
  then show ?thesis by (auto simp: create_fields entries_of_values journal_create_keyed)
qed

section \<open>Nothing is dropped\<close>

definition queue_keyed :: "dispatcher \<Rightarrow> bool" where
  "queue_keyed d \<longleftrightarrow> keyed_entries (wd_queued d)"

definition is_queued :: "string \<Rightarrow> dispatcher \<Rightarrow> bool" where
  "is_queued i d \<longleftrightarrow> js_get (wd_queued d) i \<noteq> None"

lemma persist_queue [simp]: "wd_queued (persist w d) = wd_queued d" "wd_queued (persistSubscriptions c d) = wd_queued d"
  "wd_queued (record_delivery c r d) = wd_queued d"
  by (simp_all add: persist_def persistSubscriptions_def record_delivery_def Let_def)

lemma enqueue_queue [simp]: "wd_queued (enqueue e d) = js_set (wd_queued d) (oe_delivery_id e) e"
  "wd_queued (dequeue i d) = js_delete (wd_queued d) i"
  by (simp_all add: enqueue_def dequeue_def persist_def)

interpretation keyed: dispatcher_property queue_keyed c for c
  by unfold_locales (simp_all add: queue_keyed_def keyed_set)

interpretation queued: dispatcher_property "is_queued i" c for i c
  by unfold_locales (simp_all add: is_queued_def)

text \<open>The steps of a delivery do not touch the other deliveries and keep its identity.\<close>

lemma persist_pending [simp]: "wd_pending (persist w d) = wd_pending d" "wd_pending (persistSubscriptions c d) = wd_pending d"
  "wd_pending (enqueue e d) = wd_pending d" "wd_pending (dequeue i d) = wd_pending d"
  "wd_pending (record_delivery c r d) = wd_pending d"
  by (simp_all add: persist_def persistSubscriptions_def enqueue_def dequeue_def record_delivery_def Let_def)

lemma advance_fiber:
  "wd_pending (snd (snd (advance e fd))) = wd_pending (snd fd)"
  "oe_delivery_id e = oe_delivery_id (fb_current (fst fd)) \<Longrightarrow>
     oe_delivery_id (fb_current (fst (snd (advance e fd)))) = oe_delivery_id (fb_current (fst fd))"
  "fb_subscription (fst (snd (advance e fd))) = fb_subscription (fst fd)"
  "fb_cycle (fst (snd (advance e fd))) = fb_cycle (fst fd)"
  "fb_phase (fst (snd (advance e fd))) = fb_phase (fst fd)"
  by (auto simp: advance_def Let_def case_prod_beta)

lemma begin_fiber:
  "wd_pending (snd (begin_attempt now fd)) = wd_pending (snd fd)"
  "oe_delivery_id (fb_current (fst (begin_attempt now fd))) = oe_delivery_id (fb_current (fst fd))"
  "fb_subscription (fst (begin_attempt now fd)) = fb_subscription (fst fd)"
  "fb_cycle (fst (begin_attempt now fd)) = fb_cycle (fst fd)"
  "fb_phase (fst (begin_attempt now fd)) \<in> {Sending, Finished}"
  by (auto simp: begin_attempt_def finish_def case_prod_beta advance_fiber)

lemma enter_fiber:
  "wd_pending (snd (enter_cycle c now n fd)) = wd_pending (snd fd)"
  "oe_delivery_id (fb_current (fst (enter_cycle c now n fd))) = oe_delivery_id (fb_current (fst fd))"
  "fb_subscription (fst (enter_cycle c now n fd)) = fb_subscription (fst fd)"
  "fb_cycle (fst (enter_cycle c now n fd)) = n"
  by (auto simp: enter_cycle_def finish_def case_prod_beta begin_fiber Let_def)

lemma receive_fiber:
  "wd_pending (snd (receive c now r fd)) = wd_pending (snd fd)"
  "oe_delivery_id (fb_current (fst (receive c now r fd))) = oe_delivery_id (fb_current (fst fd))"
  "fb_subscription (fst (receive c now r fd)) = fb_subscription (fst fd)"
  by (cases r; auto simp: receive_def finish_def case_prod_beta advance_fiber enter_fiber)+

definition pending_keyed :: "dispatcher \<Rightarrow> bool" where
  "pending_keyed d \<longleftrightarrow> (\<forall>i f. js_get (wd_pending d) i = Some f \<longrightarrow> oe_delivery_id (fb_current f) = i)"

lemma schedule_pending: "pending_keyed d \<Longrightarrow> pending_keyed (schedule c now e s d)"
  by (auto simp: schedule_def pending_keyed_def case_prod_beta enter_fiber)

lemma with_fiber_pending:
  assumes "pending_keyed d" "\<And>f. wd_pending (snd (step (f, d))) = wd_pending d"
    "\<And>f. oe_delivery_id (fb_current (fst (step (f, d)))) = oe_delivery_id (fb_current f)"
  shows "pending_keyed (with_fiber i ph step d)"
  using assms by (auto simp: with_fiber_def pending_keyed_def case_prod_beta split: option.split)

lemma emit_to_pending: "pending_keyed d \<Longrightarrow> pending_keyed (emit_to c now e s d)"
  using schedule_pending [of "enqueue x d" for x] by (simp add: emit_to_def Let_def pending_keyed_def)

lemma fold_pending: "(\<And>x d. pending_keyed d \<Longrightarrow> pending_keyed (f x d)) \<Longrightarrow> pending_keyed d \<Longrightarrow> pending_keyed (fold f xs d)"
  by (induction xs arbitrary: d) simp_all

lemma resume_pending: "pending_keyed d \<Longrightarrow> pending_keyed (resume_entry c now i d)"
  by (simp add: resume_entry_def schedule_pending split: option.split)

lemma replay_pending: "pending_keyed d \<Longrightarrow> pending_keyed (replayDelivery c now i d)"
  using schedule_pending [of "enqueue x d" for x]
  by (simp add: replayDelivery_def Let_def pending_keyed_def split: option.split)

lemma fold_dequeue [simp]: "wd_pending (fold dequeue xs d) = wd_pending d"
  by (induction xs arbitrary: d) simp_all

lemma subscription_pending:
  "wd_pending (snd (upsertSubscription c i d)) = wd_pending d" "wd_pending (snd (removeSubscription c n d)) = wd_pending d"
  "wd_pending (run_write ok w d) = wd_pending d"
  by (auto simp: upsertSubscription_def removeSubscription_def Let_def case_prod_beta split: option.split) (cases w; simp)

lemma pending_act: "pending_keyed d \<Longrightarrow> pending_keyed (act c a d)"
proof (cases a)
  case (Emit now e)
  then show "pending_keyed d \<Longrightarrow> ?thesis" by (simp add: emit_def fold_pending emit_to_pending)
next
  case (Resume now)
  then show "pending_keyed d \<Longrightarrow> ?thesis" by (simp add: resumePending_def fold_pending resume_pending)
next
  case (Timer now i)
  then show "pending_keyed d \<Longrightarrow> ?thesis" by (simp add: with_fiber_pending begin_fiber)
next
  case (Response now i r)
  then show "pending_keyed d \<Longrightarrow> ?thesis" by (simp add: with_fiber_pending receive_fiber)
next
  case (Settle i)
  then show "pending_keyed d \<Longrightarrow> ?thesis" by (auto simp: pending_keyed_def js_get_delete split: option.split)
next
  case (Write ok)
  then show "pending_keyed d \<Longrightarrow> ?thesis" by (auto simp: pending_keyed_def subscription_pending split: list.split)
qed (simp_all add: retryDelivery_def resume_pending replay_pending, auto simp: rotateSecret_def pending_keyed_def
    subscription_pending split: option.split)

lemma dequeue_keyed: "queue_keyed d \<Longrightarrow> queue_keyed (dequeue i d)"
  by (simp add: queue_keyed_def keyed_delete)

lemma fold_dequeue_keyed: "queue_keyed d \<Longrightarrow> queue_keyed (fold dequeue xs d)"
  by (induction xs arbitrary: d) (simp_all add: dequeue_keyed)

lemma subscription_queue:
  "wd_queued (snd (upsertSubscription c i d)) = wd_queued d"
  by (simp add: upsertSubscription_def Let_def case_prod_beta split: option.split)

lemma keyed_act: "queue_keyed d \<Longrightarrow> queue_keyed (act c a d)"
proof (cases a)
  case (Response now i r)
  then show "queue_keyed d \<Longrightarrow> ?thesis"
    by (cases r) (simp_all add: keyed.keeps_with_fiber keyed.keeps_refusal, simp add: keyed.keeps_with_fiber receive_def finish_def
      case_prod_beta dequeue_keyed keyed.keeps_record)
next
  case (Timer now i)
  then show "queue_keyed d \<Longrightarrow> ?thesis" by (simp only: keyed.keeps_timer)
next
  case (Settle i)
  then show "queue_keyed d \<Longrightarrow> ?thesis" by (simp only: keyed.keeps_settle)
next
  case (Write ok)
  then show "queue_keyed d \<Longrightarrow> ?thesis" by (auto simp: queue_keyed_def split: list.split)
next
  case (Remove i)
  then show "queue_keyed d \<Longrightarrow> ?thesis"
    using fold_dequeue_keyed [of "d\<lparr>wd_subscriptions := ss\<rparr>" for ss]
    by (auto simp: removeSubscription_def Let_def queue_keyed_def split: option.split)
qed (auto simp: keyed.keeps_emit keyed.keeps_resume keyed.keeps_resume_entry keyed.keeps_replay retryDelivery_def
    rotateSecret_def, auto simp: queue_keyed_def subscription_queue split: option.split)

lemma run_keyed: "queue_keyed d \<Longrightarrow> pending_keyed d \<Longrightarrow> queue_keyed (run_actions c as d) \<and> pending_keyed (run_actions c as d)"
  unfolding run_actions_def by (induction as arbitrary: d) (simp_all add: keyed_act pending_act del: act.simps)

lemma created_keyed: "queue_keyed (create_dispatcher c ss stored saved)" "pending_keyed (create_dispatcher c ss stored saved)"
  by (simp_all add: queue_keyed_def pending_keyed_def create_fields entries_of_def keyed_foldl)

text \<open>The two ways a delivery leaves the queue.\<close>

definition accounts_for :: "string \<Rightarrow> dispatcher \<Rightarrow> action \<Rightarrow> bool" where
  "accounts_for i d a \<longleftrightarrow>
     (case a of
        Response now j Accepted \<Rightarrow> j = i
      | Remove n \<Rightarrow>
          (case (List.find (\<lambda>s. sb_subscription_id s = n) (wd_subscriptions d), js_get (wd_queued d) i) of
             (Some s, Some e) \<Rightarrow> oe_url e = sb_url s
           | _ \<Rightarrow> False)
      | _ \<Rightarrow> False)"

lemma fold_dequeue_queue: "js_get (wd_queued (fold dequeue xs d)) i = (if i \<in> set xs then None else js_get (wd_queued d) i)"
  by (induction xs arbitrary: d) (auto simp: js_get_delete)

lemma removed_explained:
  assumes "queue_keyed d" "is_queued i d" "\<not> is_queued i (snd (removeSubscription c n d))"
  shows "accounts_for i d (Remove n)"
proof -
  obtain s where s: "List.find (\<lambda>s. sb_subscription_id s = n) (wd_subscriptions d) = Some s"
    using assms(2,3) by (cases "List.find (\<lambda>s. sb_subscription_id s = n) (wd_subscriptions d)") (auto simp: removeSubscription_def)
  then have "i \<in> oe_delivery_id ` {e \<in> snd ` set (wd_queued d). oe_url e = sb_url s}"
    using assms(2,3) by (auto simp: removeSubscription_def Let_def is_queued_def fold_dequeue_queue split: if_splits)
  then obtain k e where e: "(k, e) \<in> set (wd_queued d)" "oe_delivery_id e = i" "oe_url e = sb_url s" by auto
  then have "js_get (wd_queued d) i = Some e"
    using assms(1) js_get_iff_mem [of "wd_queued d" k e] by (auto simp: queue_keyed_def keyed_entries_def)
  then show ?thesis using s e(3) by (simp add: accounts_for_def)
qed

lemma drop_explained:
  assumes "queue_keyed d" "pending_keyed d" "is_queued i d" "\<not> is_queued i (act c a d)"
  shows "accounts_for i d a"
proof (cases a)
  case (Response now j r)
  show ?thesis
  proof (cases r)
    case Accepted
    obtain f where f: "js_get (wd_pending d) j = Some f" "fb_phase f = Sending"
      using assms(3,4) Response by (auto simp: with_fiber_def split: option.splits if_splits)
    then have "oe_delivery_id (fb_current f) = j" using assms(2) by (simp add: pending_keyed_def)
    then show ?thesis using f assms(3,4) Response Accepted
      by (auto simp: with_fiber_def receive_def finish_def is_queued_def js_get_delete accounts_for_def split: if_splits)
  next
    case (Refused err)
    then show ?thesis using assms(3,4) Response by (simp add: queued.keeps_with_fiber queued.keeps_refusal)
  qed
next
  case (Remove n)
  then show ?thesis using removed_explained assms by simp
next
  case (Timer now j)
  then show ?thesis using assms(3,4) queued.keeps_timer by (simp del: act.simps)
next
  case (Settle j)
  then show ?thesis using assms(3,4) queued.keeps_settle by (simp del: act.simps)
next
  case (Write ok)
  then show ?thesis using assms(3,4) by (auto simp: is_queued_def split: list.splits)
qed (use assms(3,4) in \<open>simp_all add: queued.keeps_emit queued.keeps_resume queued.keeps_resume_entry queued.keeps_replay
    retryDelivery_def, auto simp: is_queued_def subscription_queue rotateSecret_def split: option.splits\<close>)

lemma emit_to_queues: "queue_keyed d \<Longrightarrow> subscribed e s \<Longrightarrow> is_queued (deliveryId c e (sb_url s)) (emit_to c now e s d)"
  unfolding emit_to_def Let_def
  by (auto simp: is_queued_def queue_keyed_def keyed_entries_def fresh_entry_def split: option.split
      intro!: queued.keeps_schedule [unfolded is_queued_def, THEN not_None_eq [THEN iffD1]])

lemma emitted_queued:
  "queue_keyed d \<Longrightarrow> s \<in> set ss \<Longrightarrow> subscribed e s \<Longrightarrow> is_queued (deliveryId c e (sb_url s)) (fold (emit_to c now e) ss d)"
proof (induction ss arbitrary: d)
  case (Cons x ss)
  have kept: "is_queued j d' \<Longrightarrow> is_queued j (fold (emit_to c now e) ss d')" for j d'
    by (rule queued.keeps_fold) (simp_all add: queued.keeps_emit_to)
  have "queue_keyed (emit_to c now e x d)" using keyed.keeps_emit_to Cons.prems(1) by blast
  then show ?case
    using Cons kept [OF emit_to_queues [OF Cons.prems(1,3)]] by (cases "x = s") auto
qed simp

lemma explained_run:
  "queue_keyed d \<Longrightarrow> pending_keyed d \<Longrightarrow> is_queued i d \<Longrightarrow>
   is_queued i (run_actions c bs d) \<or>
   (\<exists>xs a ys. bs = xs @ a # ys \<and> is_queued i (run_actions c xs d) \<and> accounts_for i (run_actions c xs d) a)"
proof (induction bs arbitrary: d)
  case Nil
  then show ?case by (simp add: run_actions_def)
next
  case (Cons a bs)
  have step: "run_actions c (x # xs) d = run_actions c xs (act c x d)" for x xs by (simp add: run_actions_def)
  show ?case
  proof (cases "is_queued i (act c a d)")
    case True
    have "is_queued i (run_actions c bs (act c a d)) \<or>
      (\<exists>xs b ys. bs = xs @ b # ys \<and> is_queued i (run_actions c xs (act c a d)) \<and> accounts_for i (run_actions c xs (act c a d)) b)"
      using Cons.IH keyed_act pending_act Cons.prems True by blast
    then show ?thesis
    proof (elim disjE exE conjE)
      fix xs b ys assume "bs = xs @ b # ys" "is_queued i (run_actions c xs (act c a d))" "accounts_for i (run_actions c xs (act c a d)) b"
      then show ?thesis by (intro disjI2 exI [of _ "a # xs"] exI [of _ b] exI [of _ ys]) (simp add: step)
    qed (simp add: step)
  next
    case False
    then have "accounts_for i d a" using drop_explained Cons.prems by blast
    then show ?thesis using Cons.prems by (intro disjI2 exI [of _ "[]"] exI [of _ a] exI [of _ bs]) (simp add: run_actions_def)
  qed
qed

text \<open>
  C30. No event is dropped. Once an event has been emitted, its delivery to every active
  subscription that wants it is queued, and stays queued through any calls, refused
  responses, timers, failed writes and restarts of attempts, until a receiver accepts it or
  a subscription with the URL of the delivery is removed.
\<close>

theorem events_are_not_dropped:
  assumes "d = run_actions c as (create_dispatcher c ss stored saved)"
    and "s \<in> set (wd_subscriptions d)" "subscribed e s"
    and "i = deliveryId c e (sb_url s)"
  shows "is_queued i (run_actions c bs (emit c now e d)) \<or>
    (\<exists>xs a ys. bs = xs @ a # ys \<and> is_queued i (run_actions c xs (emit c now e d)) \<and>
       accounts_for i (run_actions c xs (emit c now e d)) a)"
proof -
  have "queue_keyed d \<and> pending_keyed d" using run_keyed [OF created_keyed] assms(1) by simp
  moreover from this have "is_queued i (emit c now e d)"
    unfolding emit_def assms(4) using emitted_queued assms(2,3) by blast
  ultimately show ?thesis
    using explained_run [of "emit c now e d"] keyed_act [of d c "Emit now e"] pending_act [of d c "Emit now e"] by simp
qed

section \<open>Every cycle ends\<close>

text \<open>
  The steps a delivery has left, requests and sleeps: a request for the attempt it is in,
  a sleep and a request for each further one, and its settling.
\<close>

definition fiber_rank :: "dispatcher_config \<Rightarrow> fiber \<Rightarrow> nat" where
  "fiber_rank c f =
     (case fb_phase f of
        Finished \<Rightarrow> 1
      | Sending \<Rightarrow> nat (2 * (max_attempts c (fb_subscription f) - fb_cycle f) + 2)
      | Sleeping \<Rightarrow> nat (2 * (max_attempts c (fb_subscription f) - fb_cycle f) + 3))"

definition fiber_ok :: "dispatcher_config \<Rightarrow> fiber \<Rightarrow> bool" where
  "fiber_ok c f \<longleftrightarrow> (fb_phase f = Finished \<or> 1 \<le> fb_cycle f \<and> fb_cycle f \<le> max_attempts c (fb_subscription f))"

definition fibers_ok :: "dispatcher_config \<Rightarrow> dispatcher \<Rightarrow> bool" where
  "fibers_ok c d \<longleftrightarrow> keys_ok (wd_pending d) \<and> (\<forall>i f. js_get (wd_pending d) i = Some f \<longrightarrow> fiber_ok c f)"

definition work_left :: "dispatcher_config \<Rightarrow> dispatcher \<Rightarrow> nat" where
  "work_left c d = sum_list (map (fiber_rank c) (js_values (wd_pending d)))"

text \<open>An action that moves a delivery on: its timer, its response, its settling.\<close>

definition moves_on :: "dispatcher \<Rightarrow> action \<Rightarrow> bool" where
  "moves_on d a \<longleftrightarrow>
     (case a of
        Timer now i \<Rightarrow> map_option fb_phase (js_get (wd_pending d) i) = Some Sleeping
      | Response now i r \<Rightarrow> map_option fb_phase (js_get (wd_pending d) i) = Some Sending
      | Settle i \<Rightarrow> map_option fb_phase (js_get (wd_pending d) i) = Some Finished
      | _ \<Rightarrow> False)"

lemma begin_rank:
  assumes "fiber_ok c (fst fd)" "fb_phase (fst fd) = Sleeping"
  shows "fiber_rank c (fst (begin_attempt now fd)) < fiber_rank c (fst fd)"
proof -
  have "fiber_rank c (fst (begin_attempt now fd)) \<le> nat (2 * (max_attempts c (fb_subscription (fst fd)) - fb_cycle (fst fd)) + 2)"
    using begin_fiber(3,4,5) [of now fd] assms by (auto simp: fiber_rank_def fiber_ok_def)
  then show ?thesis using assms by (auto simp: fiber_rank_def fiber_ok_def)
qed

lemma enter_phase:
  "n > 1 \<Longrightarrow> fb_phase (fst (enter_cycle c now n fd)) =
     (if n > max_attempts c (fb_subscription (fst fd)) then Finished else Sleeping)"
  by (simp add: enter_cycle_def finish_def case_prod_beta Let_def)

lemma receive_rank:
  assumes "fiber_ok c (fst fd)" "fb_phase (fst fd) = Sending"
  shows "fiber_rank c (fst (receive c now r fd)) < fiber_rank c (fst fd) \<and> fiber_ok c (fst (receive c now r fd))"
proof (cases "\<exists>err. r = Refused err \<and> fst (advance ((fb_current (fst fd))\<lparr>oe_last_error := Some err, oe_updated_at := now\<rparr>)
    ((fst fd)\<lparr>fb_error := err\<rparr>, snd fd)) = Sub_active")
  case True
  then obtain err where r: "r = Refused err" and a: "fst (advance ((fb_current (fst fd))\<lparr>oe_last_error := Some err, oe_updated_at := now\<rparr>)
    ((fst fd)\<lparr>fb_error := err\<rparr>, snd fd)) = Sub_active" by blast
  let ?fd = "snd (advance ((fb_current (fst fd))\<lparr>oe_last_error := Some err, oe_updated_at := now\<rparr>) ((fst fd)\<lparr>fb_error := err\<rparr>, snd fd))"
  have next_fd: "receive c now r fd = enter_cycle c now (fb_cycle (fst fd) + 1) ?fd"
    using r a by (simp add: receive_def case_prod_beta advance_fiber)
  have sub: "fb_subscription (fst ?fd) = fb_subscription (fst fd)" by (simp add: advance_fiber)
  have "1 < fb_cycle (fst fd) + 1" using assms by (simp add: fiber_ok_def)
  then show ?thesis
    using assms enter_phase [of "fb_cycle (fst fd) + 1" c now ?fd] sub
    by (auto simp: next_fd fiber_rank_def fiber_ok_def enter_fiber)
next
  case False
  then have "fb_phase (fst (receive c now r fd)) = Finished"
    by (cases r) (auto simp: receive_def finish_def case_prod_beta)
  then show ?thesis using assms by (auto simp: fiber_rank_def fiber_ok_def)
qed

lemma begin_ok: "fiber_ok c (fst fd) \<Longrightarrow> fb_phase (fst fd) \<noteq> Finished \<Longrightarrow> fiber_ok c (fst (begin_attempt now fd))"
  using begin_fiber(3,4) [of now fd] by (auto simp: fiber_ok_def)

lemma enter_ok: "1 \<le> n \<Longrightarrow> fiber_ok c (fst (enter_cycle c now n fd))"
  by (auto simp: enter_cycle_def finish_def case_prod_beta Let_def fiber_ok_def begin_fiber)

text \<open>All deliveries stay well formed.\<close>

lemma set_fiber_ok: "fibers_ok c d \<Longrightarrow> fiber_ok c f \<Longrightarrow> fibers_ok c (d'\<lparr>wd_pending := js_set (wd_pending d) i f\<rparr>)"
  by (auto simp: fibers_ok_def)

lemma same_fibers_ok: "fibers_ok c d \<Longrightarrow> wd_pending d' = wd_pending d \<Longrightarrow> fibers_ok c d'"
  by (simp add: fibers_ok_def)

lemma schedule_fibers: "fibers_ok c d \<Longrightarrow> fibers_ok c (schedule c now e s d)"
  by (auto simp: schedule_def case_prod_beta enter_fiber enter_ok intro!: set_fiber_ok)

lemma with_fiber_fibers:
  assumes "fibers_ok c d" "\<And>f. wd_pending (snd (step (f, d))) = wd_pending d"
    "\<And>f. fiber_ok c f \<Longrightarrow> fb_phase f = ph \<Longrightarrow> fiber_ok c (fst (step (f, d)))"
  shows "fibers_ok c (with_fiber i ph step d)"
  using assms by (auto simp: with_fiber_def case_prod_beta intro!: set_fiber_ok split: option.split) (auto simp: fibers_ok_def)

lemma fold_fibers: "(\<And>x d. fibers_ok c d \<Longrightarrow> fibers_ok c (f x d)) \<Longrightarrow> fibers_ok c d \<Longrightarrow> fibers_ok c (fold f xs d)"
  by (induction xs arbitrary: d) simp_all

lemma enqueue_schedule_fibers: "fibers_ok c d \<Longrightarrow> fibers_ok c (schedule c now e s (enqueue e' d))"
  by (rule schedule_fibers) (simp add: fibers_ok_def)

lemma resume_fibers: "fibers_ok c d \<Longrightarrow> fibers_ok c (resume_entry c now i d)"
  by (simp add: resume_entry_def schedule_fibers split: option.split)

lemma fibers_act: "fibers_ok c d \<Longrightarrow> fibers_ok c (act c a d)"
proof (cases a)
  case (Emit now e)
  then show "fibers_ok c d \<Longrightarrow> ?thesis" by (simp add: emit_def fold_fibers emit_to_def Let_def enqueue_schedule_fibers)
next
  case (Resume now)
  then show "fibers_ok c d \<Longrightarrow> ?thesis" by (simp add: resumePending_def fold_fibers resume_fibers)
next
  case (Retry now i)
  then show "fibers_ok c d \<Longrightarrow> ?thesis" by (simp add: retryDelivery_def resume_fibers)
next
  case (Replay now i)
  then show "fibers_ok c d \<Longrightarrow> ?thesis" by (simp add: replayDelivery_def Let_def enqueue_schedule_fibers split: option.split)
next
  case (Timer now i)
  then show "fibers_ok c d \<Longrightarrow> ?thesis" by (simp add: with_fiber_fibers begin_fiber begin_ok)
next
  case (Response now i r)
  then show "fibers_ok c d \<Longrightarrow> ?thesis"
    using receive_rank [of c "(f, d)" now r for f] by (simp add: with_fiber_fibers receive_fiber)
next
  case (Settle i)
  then show "fibers_ok c d \<Longrightarrow> ?thesis" by (auto simp: fibers_ok_def js_get_delete split: option.split)
next
  case (Write ok)
  then show "fibers_ok c d \<Longrightarrow> ?thesis" by (auto simp: subscription_pending elim: same_fibers_ok split: list.split)
qed (auto simp: rotateSecret_def subscription_pending elim: same_fibers_ok split: option.split)

lemma run_fibers: "fibers_ok c d \<Longrightarrow> fibers_ok c (run_actions c as d)"
  unfolding run_actions_def by (induction as arbitrary: d) (simp_all add: fibers_act del: act.simps)

lemma created_fibers: "fibers_ok c (create_dispatcher c ss stored saved)"
  by (simp add: fibers_ok_def create_fields)

text \<open>Each move takes work away.\<close>

lemma sum_set_value:
  "js_get m k = Some v \<Longrightarrow> sum_list (map g (js_values (js_set m k w))) + g v = sum_list (map g (js_values m)) + (g w :: nat)"
  by (induction m) (auto split: if_splits)

lemma sum_delete_value:
  "keys_ok m \<Longrightarrow> js_get m k = Some v \<Longrightarrow> sum_list (map g (js_values (js_delete m k))) + g v = (sum_list (map g (js_values m)) :: nat)"
  by (induction m) (auto simp: keys_ok_def map_of_eq_None_iff split: if_splits)

lemma with_fiber_work:
  assumes "fibers_ok c d" "map_option fb_phase (js_get (wd_pending d) i) = Some ph" "\<And>f. wd_pending (snd (step (f, d))) = wd_pending d"
    "\<And>f. fiber_ok c f \<Longrightarrow> fb_phase f = ph \<Longrightarrow> fiber_rank c (fst (step (f, d))) < fiber_rank c f"
  shows "work_left c (with_fiber i ph step d) < work_left c d"
proof -
  obtain f where f: "js_get (wd_pending d) i = Some f" "fb_phase f = ph" using assms(2) by auto
  then have "fiber_rank c (fst (step (f, d))) < fiber_rank c f" using assms(1,4) by (simp add: fibers_ok_def)
  moreover have "work_left c (with_fiber i ph step d) = sum_list (map (fiber_rank c) (js_values (js_set (wd_pending d) i (fst (step (f, d))))))"
    using f assms(3) by (simp add: with_fiber_def work_left_def case_prod_beta)
  ultimately show ?thesis
    using sum_set_value [OF f(1), of "fiber_rank c" "fst (step (f, d))"] by (simp add: work_left_def)
qed

lemma move_works: "fibers_ok c d \<Longrightarrow> moves_on d a \<Longrightarrow> work_left c (act c a d) < work_left c d"
proof (cases a)
  case (Timer now i)
  then show "fibers_ok c d \<Longrightarrow> moves_on d a \<Longrightarrow> ?thesis"
    using begin_rank [of c "(f, d)" now for f] by (simp add: moves_on_def with_fiber_work begin_fiber)
next
  case (Response now i r)
  then show "fibers_ok c d \<Longrightarrow> moves_on d a \<Longrightarrow> ?thesis"
    using receive_rank [of c "(f, d)" now r for f] by (simp add: moves_on_def with_fiber_work receive_fiber)
next
  case (Settle i)
  then show "fibers_ok c d \<Longrightarrow> moves_on d a \<Longrightarrow> ?thesis"
    using sum_delete_value [of "wd_pending d" i _ "fiber_rank c"]
    by (fastforce simp: moves_on_def work_left_def fibers_ok_def fiber_rank_def)
qed (simp_all add: moves_on_def)

fun all_move :: "dispatcher_config \<Rightarrow> action list \<Rightarrow> dispatcher \<Rightarrow> bool" where
  "all_move c [] d = True"
| "all_move c (a # as) d = (moves_on d a \<and> all_move c as (act c a d))"

lemma moves_bounded:
  "fibers_ok c d \<Longrightarrow> all_move c as d \<Longrightarrow> length as + work_left c (run_actions c as d) \<le> work_left c d"
proof (induction as arbitrary: d)
  case (Cons a as)
  then have "length as + work_left c (run_actions c as (act c a d)) \<le> work_left c (act c a d)" by (simp add: fibers_act del: act.simps)
  then show ?case using move_works [of c d a] Cons.prems by (simp add: run_actions_def del: act.simps)
qed (simp add: run_actions_def)

lemma can_move: "wd_pending d \<noteq> [] \<Longrightarrow> \<exists>a. moves_on d a"
proof -
  assume "wd_pending d \<noteq> []"
  then obtain p ps where "wd_pending d = p # ps" by (cases "wd_pending d") simp_all
  then have "js_get (wd_pending d) (fst p) = Some (snd p)" by simp
  then obtain i f where "js_get (wd_pending d) i = Some f" by blast
  then show ?thesis
    by (cases "fb_phase f")
      (auto simp: moves_on_def intro: exI [of _ "Timer [] i"] exI [of _ "Response [] i Accepted"] exI [of _ "Settle i"])
qed

text \<open>
  C32. Flushing ends. Whatever a dispatcher has been through, the timers, responses and
  settlings its deliveries go through, in any order and with any answers, are at most the
  work left: for every delivery two steps for each attempt of its policy and one to settle;
  and as long as a delivery is in flight one of them can move.
\<close>

theorem deliveries_end:
  assumes "d = run_actions c bs (create_dispatcher c ss stored saved)" "all_move c as d"
  shows "length as + work_left c (run_actions c as d) \<le> work_left c d \<and>
    work_left c d \<le> (\<Sum>f \<leftarrow> js_values (wd_pending d). nat (2 * max_attempts c (fb_subscription f)) + 1) \<and>
    (wd_pending (run_actions c as d) = [] \<or> (\<exists>a. moves_on (run_actions c as d) a))"
proof -
  have ok: "fibers_ok c d" using run_fibers [OF created_fibers] assms(1) by simp
  have "fiber_rank c f \<le> nat (2 * max_attempts c (fb_subscription f)) + 1" if "f \<in> set (js_values (wd_pending d))" for f
  proof -
    have "fiber_ok c f" using ok that js_get_iff_mem [of "wd_pending d"] by (auto simp: fibers_ok_def)
    then show ?thesis by (cases "fb_phase f") (auto simp: fiber_rank_def fiber_ok_def)
  qed
  then have "work_left c d \<le> (\<Sum>f \<leftarrow> js_values (wd_pending d). nat (2 * max_attempts c (fb_subscription f)) + 1)"
    unfolding work_left_def by (rule sum_list_mono)
  then show ?thesis using moves_bounded [OF ok assms(2)] can_move by blast
qed

section \<open>Examples\<close>

definition sample_config :: dispatcher_config where
  "sample_config =
     \<lparr>wc_max_attempts = 2, wc_history_limit = 200, wc_history_store = True, wc_notify = True, wc_safe_url = Some,
      wc_sha256 = (\<lambda>t. ''sha_'' @ t), wc_random_id = (\<lambda>n. ''webhook_'' @ replicate n CHR ''i'')\<rparr>"

definition sample_subscription :: subscription where
  "sample_subscription =
     \<lparr>sb_subscription_id = ''w1'', sb_url = ''https://a'', sb_secret = ''0123456789abcdef'', sb_events = None, sb_active = True,
      sb_retry_policy = None\<rparr>"

definition webhook_member :: member where
  "webhook_member =
     \<lparr>mb_member_id = ''m1'', mb_program_id = ''p'', mb_status = Active, mb_joined_at = ''t0'', mb_tier_id = None,
      mb_identities = [], mb_attributes = None\<rparr>"

definition sample_event :: cloud_event where
  "sample_event =
     \<lparr>ev_id = ''evt-1'', ev_source = ''urn:lip'', ev_type = Event_enrolled, ev_subject = ''m1'', ev_time = ''t0'', ev_data = Member_data webhook_member\<rparr>"

definition sample_dispatcher :: dispatcher where
  "sample_dispatcher = create_dispatcher sample_config [sample_subscription] None []"

definition sample_delivery_id :: string where
  "sample_delivery_id = deliveryId sample_config sample_event ''https://a''"

text \<open>Two writes run, the receiver refuses, the second attempt waits for its timer.\<close>

definition sample_actions :: "action list" where
  "sample_actions = [Emit ''t1'' sample_event, Write True, Write True, Response ''t2'' sample_delivery_id (Refused ''503'')]"

definition sample_flight :: dispatcher where
  "sample_flight = run_actions sample_config sample_actions sample_dispatcher"

lemma sample_flight_def': "sample_flight = run_actions sample_config sample_actions (create_dispatcher sample_config [sample_subscription] None [])"
  by (simp add: sample_flight_def sample_dispatcher_def)

theorem outbox_is_durable_witness:
  "fold write_map (wd_writes sample_flight) (js_get (oj_entries (journal_create (oj_stored (wd_journal sample_flight))))) =
     js_get (wd_queued sample_flight) \<and> wd_writes sample_flight \<noteq> []"
proof
  show "wd_writes sample_flight \<noteq> []" by code_simp
  show "fold write_map (wd_writes sample_flight) (js_get (oj_entries (journal_create (oj_stored (wd_journal sample_flight))))) =
     js_get (wd_queued sample_flight)"
    using outbox_is_durable [OF sample_flight_def'] by (simp add: sample_actions_def)
qed

definition sample_later :: "action list" where
  "sample_later = [Timer ''t3'' sample_delivery_id, Response ''t4'' sample_delivery_id (Refused ''500'')]"

theorem events_are_not_dropped_witness:
  "is_queued sample_delivery_id (run_actions sample_config sample_later (emit sample_config ''t2'' sample_event sample_flight)) \<or>
    (\<exists>xs a ys. sample_later = xs @ a # ys \<and> is_queued sample_delivery_id (run_actions sample_config xs (emit sample_config ''t2'' sample_event sample_flight)) \<and>
       accounts_for sample_delivery_id (run_actions sample_config xs (emit sample_config ''t2'' sample_event sample_flight)) a)"
proof (rule events_are_not_dropped [OF sample_flight_def'])
  have "wd_subscriptions sample_flight = [sample_subscription]" by code_simp
  then show "sample_subscription \<in> set (wd_subscriptions sample_flight)" by simp
  show "subscribed sample_event sample_subscription" by code_simp
  show "sample_delivery_id = deliveryId sample_config sample_event (sb_url sample_subscription)"
    by (simp add: sample_delivery_id_def sample_subscription_def)
qed

theorem deliveries_end_witness:
  "length sample_later + work_left sample_config (run_actions sample_config sample_later sample_flight) \<le> work_left sample_config sample_flight"
proof -
  have "all_move sample_config sample_later sample_flight" by code_simp
  then show ?thesis using deliveries_end [OF sample_flight_def'] by blast
qed

end
