(* ===== verification/Outbound_Url.thy ===== *)
theory Outbound_Url
  imports Webhook_Dispatcher Sdk_Webhooks
begin

text \<open>
  packages/server/src/outbound-url.ts: which destinations the server may call, and the
  signature header of a delivery (signWebhookPayload of webhooks.ts). The platform's URL
  parser and \<open>isIP\<close> are parameters: a URL is what \<open>new URL\<close> makes of the text, the
  address family is 0, 4 or 6.
\<close>

section \<open>Addresses\<close>

text \<open>\<open>Number\<close> of a part of an address, which has only digits here.\<close>

definition octet :: "string \<Rightarrow> int option" where
  "octet t = (if list_all is_digit t then Some (dec_value t) else None)"

definition reserved_octets :: "int \<Rightarrow> int \<Rightarrow> int \<Rightarrow> bool" where
  "reserved_octets a b c =
     (a = 0 \<or> a = 10 \<or> a = 127 \<or> (a = 100 \<and> 64 \<le> b \<and> b \<le> 127) \<or> (a = 169 \<and> b = 254) \<or>
      (a = 172 \<and> 16 \<le> b \<and> b \<le> 31) \<or> (a = 192 \<and> b = 0 \<and> (c = 0 \<or> c = 2)) \<or> (a = 192 \<and> b = 168) \<or>
      (a = 192 \<and> b = 88 \<and> c = 99) \<or> (a = 198 \<and> (b = 18 \<or> b = 19)) \<or> (a = 198 \<and> b = 51 \<and> c = 100) \<or>
      (a = 203 \<and> b = 0 \<and> c = 113) \<or> a \<ge> 224)"

definition unsafeIpv4 :: "string \<Rightarrow> bool" where
  "unsafeIpv4 address =
     (case map octet (split_on CHR ''.'' address) of
        [Some a, Some b, Some c, Some d] \<Rightarrow> reserved_octets a b c
      | _ \<Rightarrow> True)"

definition begins_with :: "string \<Rightarrow> string \<Rightarrow> bool" where
  "begins_with p t = (take (length p) t = p)"

text \<open>\<open>replace(/^\[|\]$/g, "")\<close>: a leading and a trailing bracket.\<close>

definition without_brackets :: "string \<Rightarrow> string" where
  "without_brackets t =
     (let u = (if begins_with ''['' t then drop 1 t else t) in
      if u \<noteq> [] \<and> last u = CHR '']'' then butlast u else u)"

definition hex_digit_value :: "char \<Rightarrow> int option" where
  "hex_digit_value c =
     (let n = (of_char c :: int) in
      if 48 \<le> n \<and> n \<le> 57 then Some (n - 48) else if 97 \<le> n \<and> n \<le> 102 then Some (n - 87)
      else if 65 \<le> n \<and> n \<le> 70 then Some (n - 55) else None)"

text \<open>\<open>Number.parseInt(t, 16)\<close> of a group: the leading hexadecimal digits, None for NaN.\<close>

definition parse_hex :: "string \<Rightarrow> int option" where
  "parse_hex t =
     (let ds = takeWhile (\<lambda>c. hex_digit_value c \<noteq> None) t in
      if ds = [] then None else Some (foldl (\<lambda>n c. 16 * n + the (hex_digit_value c)) 0 ds))"

definition unsafeIpv6 :: "string \<Rightarrow> bool" where
  "unsafeIpv6 address =
     (let t = without_brackets (to_lower address) in
      if t = ''::'' \<or> t = ''::1'' then True
      else if begins_with ''::ffff:'' t then True
      else if begins_with ''2001:db8:'' t then True
      else case parse_hex (hd (split_on CHR '':'' t)) of
             None \<Rightarrow> True
           | Some first \<Rightarrow> (0xfc00 \<le> first \<and> first \<le> 0xfdff) \<or> (0xfe80 \<le> first \<and> first \<le> 0xfebf) \<or> first \<ge> 0xff00)"

definition isPrivateOrReservedAddress :: "(string \<Rightarrow> nat) \<Rightarrow> string \<Rightarrow> bool" where
  "isPrivateOrReservedAddress isIP address =
     (let family = isIP (without_brackets address) in
      if family = 4 then unsafeIpv4 address else if family = 6 then unsafeIpv6 address else True)"

section \<open>URLs\<close>

record url =
  ur_href :: string
  ur_protocol :: string
  ur_username :: string
  ur_password :: string
  ur_hash :: string
  ur_hostname :: string

definition normalizedHostname :: "url \<Rightarrow> string" where
  "normalizedHostname u =
     (let t = without_brackets (to_lower (ur_hostname u)) in
      if t \<noteq> [] \<and> last t = CHR ''.'' then butlast t else t)"

definition ends_with :: "string \<Rightarrow> string \<Rightarrow> bool" where
  "ends_with p t = begins_with (rev p) (rev t)"

definition unsafeHostname :: "string \<Rightarrow> bool" where
  "unsafeHostname hostname =
     (hostname = [] \<or> CHR ''.'' \<notin> set hostname \<or>
      list_ex (\<lambda>suffix. hostname = (if begins_with ''.'' suffix then drop 1 suffix else suffix) \<or> ends_with suffix hostname)
        [''localhost'', ''.localhost'', ''.local'', ''.localdomain'', ''.internal'', ''.lan'', ''.home.arpa''])"

definition assertSafeOutboundUrl :: "(string \<Rightarrow> url option) \<Rightarrow> (string \<Rightarrow> nat) \<Rightarrow> bool \<Rightarrow> string \<Rightarrow> url option" where
  "assertSafeOutboundUrl parse isIP allowPrivate input =
     (case parse input of
        None \<Rightarrow> None
      | Some u \<Rightarrow>
          (let hostname = normalizedHostname u; family = isIP hostname in
           if ur_username u \<noteq> [] \<or> ur_password u \<noteq> [] \<or> ur_hash u \<noteq> [] then None
           else if ur_protocol u \<noteq> ''https:'' \<and> \<not> (allowPrivate \<and> ur_protocol u = ''http:'') then None
           else if \<not> allowPrivate \<and>
             (family > 0 \<and> isPrivateOrReservedAddress isIP hostname \<or> family = 0 \<and> unsafeHostname hostname) then None
           else Some u))"

text \<open>\<open>resolver\<close>: None when it is switched off; it answers no addresses by None.\<close>

definition assertSafeOutboundDestination ::
  "(string \<Rightarrow> url option) \<Rightarrow> (string \<Rightarrow> nat) \<Rightarrow> (string \<Rightarrow> string list option) option \<Rightarrow> bool \<Rightarrow> string \<Rightarrow> url option"
where
  "assertSafeOutboundDestination parse isIP resolver allowPrivate input =
     (case assertSafeOutboundUrl parse isIP allowPrivate input of
        None \<Rightarrow> None
      | Some u \<Rightarrow>
          if allowPrivate then Some u
          else if isIP (normalizedHostname u) > 0 then Some u
          else
            case resolver of
              None \<Rightarrow> Some u
            | Some lookup \<Rightarrow>
                (case lookup (normalizedHostname u) of
                   None \<Rightarrow> None
                 | Some addresses \<Rightarrow>
                     if addresses = [] \<or> list_ex (isPrivateOrReservedAddress isIP) addresses then None else Some u))"

section \<open>The special-purpose registry\<close>

text \<open>
  The IANA IPv4 special-purpose address registry (RFC 6890 with its updates): each block as its
  first address and prefix length, and whether the registry lists it as globally reachable (None
  where it says N/A, the deprecated 6to4 relay block).
\<close>

definition special_purpose_registry :: "((int \<times> nat) \<times> bool option) list" where
  "special_purpose_registry =
     [((0x00000000, 8), Some False),   \<comment> \<open>0.0.0.0/8, this network\<close>
      ((0x00000000, 32), Some False),  \<comment> \<open>0.0.0.0/32, this host\<close>
      ((0x0A000000, 8), Some False),   \<comment> \<open>10.0.0.0/8, private use\<close>
      ((0x64400000, 10), Some False),  \<comment> \<open>100.64.0.0/10, shared address space\<close>
      ((0x7F000000, 8), Some False),   \<comment> \<open>127.0.0.0/8, loopback\<close>
      ((0xA9FE0000, 16), Some False),  \<comment> \<open>169.254.0.0/16, link local\<close>
      ((0xAC100000, 12), Some False),  \<comment> \<open>172.16.0.0/12, private use\<close>
      ((0xC0000000, 24), Some False),  \<comment> \<open>192.0.0.0/24, protocol assignments\<close>
      ((0xC0000000, 29), Some False),  \<comment> \<open>192.0.0.0/29, service continuity\<close>
      ((0xC0000008, 32), Some False),  \<comment> \<open>192.0.0.8/32, dummy address\<close>
      ((0xC0000009, 32), Some True),   \<comment> \<open>192.0.0.9/32, port control anycast\<close>
      ((0xC000000A, 32), Some True),   \<comment> \<open>192.0.0.10/32, TURN anycast\<close>
      ((0xC00000AA, 32), Some False),  \<comment> \<open>192.0.0.170/32, NAT64 discovery\<close>
      ((0xC00000AB, 32), Some False),  \<comment> \<open>192.0.0.171/32, NAT64 discovery\<close>
      ((0xC0000200, 24), Some False),  \<comment> \<open>192.0.2.0/24, documentation\<close>
      ((0xC01FC400, 24), Some True),   \<comment> \<open>192.31.196.0/24, AS112\<close>
      ((0xC034C100, 24), Some True),   \<comment> \<open>192.52.193.0/24, AMT\<close>
      ((0xC0586300, 24), None),        \<comment> \<open>192.88.99.0/24, 6to4 relay, deprecated\<close>
      ((0xC0586302, 32), Some False),  \<comment> \<open>192.88.99.2/32, 6a44 relay\<close>
      ((0xC0A80000, 16), Some False),  \<comment> \<open>192.168.0.0/16, private use\<close>
      ((0xC0AF3000, 24), Some True),   \<comment> \<open>192.175.48.0/24, AS112 delegation\<close>
      ((0xC6120000, 15), Some False),  \<comment> \<open>198.18.0.0/15, benchmarking\<close>
      ((0xC6336400, 24), Some False),  \<comment> \<open>198.51.100.0/24, documentation\<close>
      ((0xCB007100, 24), Some False),  \<comment> \<open>203.0.113.0/24, documentation\<close>
      ((0xF0000000, 4), Some False),   \<comment> \<open>240.0.0.0/4, reserved\<close>
      ((0xFFFFFFFF, 32), Some False)]  \<comment> \<open>255.255.255.255/32, limited broadcast\<close>"

text \<open>The multicast block has a registry of its own.\<close>

definition multicast_block :: "int \<times> nat" where
  "multicast_block = (0xE0000000, 4)"

text \<open>The blocks the proofs compare octets with: those that are not inside another one.\<close>

definition reserved_blocks :: "(int \<times> nat) list" where
  "reserved_blocks =
     [(0x00000000, 8), (0x0A000000, 8), (0x7F000000, 8), (0x64400000, 10), (0xA9FE0000, 16), (0xAC100000, 12),
      (0xC0000000, 24), (0xC0000200, 24), (0xC0A80000, 16), (0xC0586300, 24), (0xC6120000, 15), (0xC6336400, 24),
      (0xCB007100, 24), (0xE0000000, 3)]"

definition in_block :: "int \<Rightarrow> int \<times> nat \<Rightarrow> bool" where
  "in_block n block = (n div 2 ^ (32 - snd block) = fst block div 2 ^ (32 - snd block))"

definition address_of :: "int \<Rightarrow> int \<Rightarrow> int \<Rightarrow> int \<Rightarrow> int" where
  "address_of a b c d = ((a * 256 + b) * 256 + c) * 256 + d"

definition is_octet :: "int \<Rightarrow> bool" where
  "is_octet n = (0 \<le> n \<and> n < 256)"

lemma drop_octet: "is_octet d \<Longrightarrow> (q * 256 + d) div 256 = q"
  by (rule int_div_pos_eq [of _ 256 _ d]) (simp_all add: is_octet_def)

lemma div_div_int: "0 \<le> k \<Longrightarrow> m = j * k \<Longrightarrow> n div m = (n div j) div (k :: int)"
  by (simp add: zdiv_zmult2_eq)

lemma div_256_256: "n div 65536 = (n div 256) div (256 :: int)" "n div 16777216 = (n div 65536) div (256 :: int)"
  by (rule div_div_int; simp)+

lemma address_prefix:
  assumes "is_octet b" "is_octet c" "is_octet d"
  shows "address_of a b c d div 256 = (a * 256 + b) * 256 + c" "address_of a b c d div 65536 = a * 256 + b"
    "address_of a b c d div 16777216 = a"
  unfolding div_256_256 address_of_def by (simp_all only: drop_octet assms)

text \<open>Longer prefixes, through the octets they cut.\<close>

lemma div_split:
  "n div 4194304 = (n div 65536) div (64 :: int)" "n div 1048576 = (n div 65536) div (16 :: int)"
  "n div 131072 = (n div 65536) div (2 :: int)" "n div 536870912 = (n div 16777216) div (32 :: int)"
  by (rule div_div_int; simp)+

lemma block_16:
  assumes "is_octet b" "is_octet b'"
  shows "a * 256 + b = a' * 256 + b' \<longleftrightarrow> a = a' \<and> b = b'"
proof
  assume eq: "a * 256 + b = a' * 256 + b'"
  have "a = a'"
    using arg_cong [OF eq, of "\<lambda>n. n div 256"] by (simp only: drop_octet assms)
  with eq show "a = a' \<and> b = b'"
    by simp
qed simp

lemma block_24:
  assumes "is_octet b" "is_octet c" "is_octet b'" "is_octet c'"
  shows "(a * 256 + b) * 256 + c = (a' * 256 + b') * 256 + c' \<longleftrightarrow> a = a' \<and> b = b' \<and> c = c'"
  unfolding block_16 [OF assms(2,4)] block_16 [OF assms(1,3)] by (rule conj_assoc)

lemma div_between:
  assumes "0 < k"
  shows "n div k = q \<longleftrightarrow> q * k \<le> n \<and> n < q * k + (k :: int)"
proof
  assume q: "n div k = q"
  show "q * k \<le> n \<and> n < q * k + k"
    unfolding q [symmetric]
    using div_mult_mod_eq [of n k] pos_mod_sign [OF assms, of n] pos_mod_bound [OF assms, of n] by linarith
next
  assume "q * k \<le> n \<and> n < q * k + k"
  then show "n div k = q"
    by (intro int_div_pos_eq [of n k q "n - q * k"]) (simp_all add: mult.commute)
qed

lemma octet_between:
  assumes "is_octet b" "0 \<le> lo" "hi \<le> 256"
  shows "p * 256 + lo \<le> a * 256 + b \<and> a * 256 + b < p * 256 + hi \<longleftrightarrow> a = p \<and> lo \<le> b \<and> b < hi"
proof
  assume *: "p * 256 + lo \<le> a * 256 + b \<and> a * 256 + b < p * 256 + hi"
  then have "a = p" using assms unfolding is_octet_def by linarith
  with * show "a = p \<and> lo \<le> b \<and> b < hi" by simp
qed simp

lemma cut_blocks:
  assumes "is_octet b"
  shows "(a * 256 + b) div 64 = 401 \<longleftrightarrow> a = 100 \<and> 64 \<le> b \<and> b < 128"
    "(a * 256 + b) div 16 = 2753 \<longleftrightarrow> a = 172 \<and> 16 \<le> b \<and> b < 32"
    "(a * 256 + b) div 2 = 25353 \<longleftrightarrow> a = 198 \<and> 18 \<le> b \<and> b < 20"
    "is_octet a \<Longrightarrow> a div 32 = 7 \<longleftrightarrow> a \<ge> 224"
proof -
  show "(a * 256 + b) div 64 = 401 \<longleftrightarrow> a = 100 \<and> 64 \<le> b \<and> b < 128"
    using octet_between [OF assms, of 64 128 100 a] by (simp add: div_between)
  show "(a * 256 + b) div 16 = 2753 \<longleftrightarrow> a = 172 \<and> 16 \<le> b \<and> b < 32"
    using octet_between [OF assms, of 16 32 172 a] by (simp add: div_between)
  show "(a * 256 + b) div 2 = 25353 \<longleftrightarrow> a = 198 \<and> 18 \<le> b \<and> b < 20"
    using octet_between [OF assms, of 18 20 198 a] by (simp add: div_between)
  show "is_octet a \<Longrightarrow> a div 32 = 7 \<longleftrightarrow> a \<ge> 224"
    by (subst div_between) (auto simp: is_octet_def)
qed

text \<open>Each block, in terms of the octets.\<close>

lemma octet_ranges:
  "18 \<le> b \<and> b < (20 :: int) \<longleftrightarrow> b = 18 \<or> b = 19" "b < 128 \<longleftrightarrow> b \<le> (127 :: int)" "b < 32 \<longleftrightarrow> b \<le> (31 :: int)"
  by auto

lemma block_octets:
  assumes "is_octet a" "is_octet b" "is_octet c" "is_octet d"
  shows "in_block (address_of a b c d) (0x00000000, 8) \<longleftrightarrow> a = 0"
    "in_block (address_of a b c d) (0x0A000000, 8) \<longleftrightarrow> a = 10"
    "in_block (address_of a b c d) (0x7F000000, 8) \<longleftrightarrow> a = 127"
    "in_block (address_of a b c d) (0x64400000, 10) \<longleftrightarrow> a = 100 \<and> 64 \<le> b \<and> b \<le> 127"
    "in_block (address_of a b c d) (0xA9FE0000, 16) \<longleftrightarrow> a = 169 \<and> b = 254"
    "in_block (address_of a b c d) (0xAC100000, 12) \<longleftrightarrow> a = 172 \<and> 16 \<le> b \<and> b \<le> 31"
    "in_block (address_of a b c d) (0xC0000000, 24) \<longleftrightarrow> a = 192 \<and> b = 0 \<and> c = 0"
    "in_block (address_of a b c d) (0xC0000200, 24) \<longleftrightarrow> a = 192 \<and> b = 0 \<and> c = 2"
    "in_block (address_of a b c d) (0xC0A80000, 16) \<longleftrightarrow> a = 192 \<and> b = 168"
    "in_block (address_of a b c d) (0xC0586300, 24) \<longleftrightarrow> a = 192 \<and> b = 88 \<and> c = 99"
    "in_block (address_of a b c d) (0xC6120000, 15) \<longleftrightarrow> a = 198 \<and> (b = 18 \<or> b = 19)"
    "in_block (address_of a b c d) (0xC6336400, 24) \<longleftrightarrow> a = 198 \<and> b = 51 \<and> c = 100"
    "in_block (address_of a b c d) (0xCB007100, 24) \<longleftrightarrow> a = 203 \<and> b = 0 \<and> c = 113"
    "in_block (address_of a b c d) (0xE0000000, 3) \<longleftrightarrow> a \<ge> 224"
  using block_16 [OF assms(2), of 254 a 169] block_16 [OF assms(2), of 168 a 192] block_24 [OF assms(2,3), of 0 0 a 192]
    block_24 [OF assms(2,3), of 0 2 a 192] block_24 [OF assms(2,3), of 88 99 a 192] block_24 [OF assms(2,3), of 51 100 a 198]
    block_24 [OF assms(2,3), of 0 113 a 203] cut_blocks [OF assms(2), of a] assms(1) octet_ranges [of b]
    by (simp_all add: in_block_def div_split address_prefix [OF assms(2-4), of a] is_octet_def)

lemma reserved_octets_blocks:
  assumes "is_octet a" "is_octet b" "is_octet c" "is_octet d"
  shows "reserved_octets a b c \<longleftrightarrow> list_ex (in_block (address_of a b c d)) reserved_blocks"
  by (simp only: reserved_blocks_def list_ex_Cons_iff list_ex_Nil_iff block_octets [OF assms] reserved_octets_def
      conj_disj_distribL disj_assoc simp_thms)

text \<open>A block inside a larger one.\<close>

lemma in_larger_block:
  assumes "in_block n (p, k)" "j \<le> k" "k \<le> 32" "p div 2 ^ (32 - j) = q div 2 ^ (32 - j)"
  shows "in_block n (q, j)"
proof -
  have "(2 :: int) ^ (32 - j) = 2 ^ (32 - k) * 2 ^ (k - j)"
    using assms(2,3) by (simp flip: power_add)
  then have "m div 2 ^ (32 - j) = m div 2 ^ (32 - k) div (2 :: int) ^ (k - j)" for m
    by (simp add: zdiv_zmult2_eq)
  then show ?thesis using assms(1,4) by (simp add: in_block_def)
qed

lemma nested_blocks:
  "in_block n (0x00000000, 32) \<Longrightarrow> in_block n (0x00000000, 8)"
  "in_block n (0xC0000000, 29) \<Longrightarrow> in_block n (0xC0000000, 24)"
  "in_block n (0xC0000008, 32) \<Longrightarrow> in_block n (0xC0000000, 24)"
  "in_block n (0xC00000AA, 32) \<Longrightarrow> in_block n (0xC0000000, 24)"
  "in_block n (0xC00000AB, 32) \<Longrightarrow> in_block n (0xC0000000, 24)"
  "in_block n (0xC0586302, 32) \<Longrightarrow> in_block n (0xC0586300, 24)"
  "in_block n (0xFFFFFFFF, 32) \<Longrightarrow> in_block n (0xE0000000, 3)"
  "in_block n (0xF0000000, 4) \<Longrightarrow> in_block n (0xE0000000, 3)"
  "in_block n (0xE0000000, 4) \<Longrightarrow> in_block n (0xE0000000, 3)"
  by (rule in_larger_block, assumption, simp_all)+

lemma last_block:
  "in_block n (0xE0000000, 3) \<longleftrightarrow> in_block n (0xE0000000, 4) \<or> in_block n (0xF0000000, 4)"
proof
  assume "in_block n (0xE0000000, 3)"
  then have "n div 268435456 div 2 = 7"
    by (simp add: in_block_def flip: div_div_int [of 2 536870912 268435456])
  then have "n div 268435456 = 14 \<or> n div 268435456 = 15" by (simp add: div_between) linarith
  then show "in_block n (0xE0000000, 4) \<or> in_block n (0xF0000000, 4)" by (simp add: in_block_def)
qed (use nested_blocks in blast)

text \<open>The entries that are not globally reachable, as a list of blocks.\<close>

definition refused_blocks :: "(int \<times> nat) list" where
  "refused_blocks = map fst (filter (\<lambda>(block, reachable). reachable \<noteq> Some True) special_purpose_registry)"

lemma refused_blocks:
  "list_ex (in_block n) refused_blocks \<or> in_block n multicast_block \<longleftrightarrow> list_ex (in_block n) reserved_blocks"
proof -
  have "list_ex (in_block n) refused_blocks \<or> in_block n multicast_block \<longleftrightarrow>
      list_ex (in_block n) (multicast_block # refused_blocks)" by auto
  also have "multicast_block # refused_blocks =
      [(0xE0000000, 4), (0x00000000, 8), (0x00000000, 32), (0x0A000000, 8), (0x64400000, 10), (0x7F000000, 8), (0xA9FE0000, 16),
       (0xAC100000, 12), (0xC0000000, 24), (0xC0000000, 29), (0xC0000008, 32), (0xC00000AA, 32), (0xC00000AB, 32),
       (0xC0000200, 24), (0xC0586300, 24), (0xC0586302, 32), (0xC0A80000, 16), (0xC6120000, 15), (0xC6336400, 24),
       (0xCB007100, 24), (0xF0000000, 4), (0xFFFFFFFF, 32)]"
    by (simp add: refused_blocks_def special_purpose_registry_def multicast_block_def)
  finally show ?thesis
    unfolding reserved_blocks_def list_ex_Cons_iff list_ex_Nil_iff using nested_blocks [of n] last_block [of n] by argo
qed

text \<open>An address as text.\<close>

definition dotted :: "int \<Rightarrow> int \<Rightarrow> int \<Rightarrow> int \<Rightarrow> string" where
  "dotted a b c d = dec_string a @ ''.'' @ dec_string b @ ''.'' @ dec_string c @ ''.'' @ dec_string d"

lemma octet_text:
  assumes "is_octet n"
  shows "octet (dec_string n) = Some n" "CHR ''.'' \<notin> set (dec_string n)"
  using assms dec_digits_value [of n] by (auto simp: is_octet_def octet_def dec_string_def list_all_iff is_digit_def)

lemma split_at: "c \<notin> set t \<Longrightarrow> split_on c (t @ c # u) = t # split_on c u"
  by (induction t) auto

lemma octets_of_dotted:
  assumes "is_octet a" "is_octet b" "is_octet c" "is_octet d"
  shows "map octet (split_on CHR ''.'' (dotted a b c d)) = [Some a, Some b, Some c, Some d]"
  using assms by (simp add: dotted_def split_at split_none octet_text)

text \<open>
  C33. An IPv4 address is refused as a destination exactly when it lies in a block that the
  special-purpose registry does not list as globally reachable, or is a multicast address. The
  code compares octets one by one; the registry's blocks are prefixes of the 32-bit address. (The
  AS112 and AMT blocks, which the registry lists as globally reachable, are accepted; the two
  anycast addresses 192.0.0.9 and 192.0.0.10, globally reachable inside 192.0.0.0/24, which is
  not, are refused with it.)
\<close>

theorem refused_addresses:
  assumes "is_octet a" "is_octet b" "is_octet c" "is_octet d" "isIP (without_brackets (dotted a b c d)) = 4"
  shows "isPrivateOrReservedAddress isIP (dotted a b c d) \<longleftrightarrow>
    (\<exists>(block, reachable) \<in> set special_purpose_registry. reachable \<noteq> Some True \<and> in_block (address_of a b c d) block) \<or>
    in_block (address_of a b c d) multicast_block"
proof -
  have "(\<exists>(block, reachable) \<in> set special_purpose_registry. reachable \<noteq> Some True \<and> in_block (address_of a b c d) block) \<longleftrightarrow>
      list_ex (in_block (address_of a b c d)) refused_blocks"
    by (force simp: refused_blocks_def list_ex_iff)
  then show ?thesis
    using assms(5) octets_of_dotted [OF assms(1-4)] reserved_octets_blocks [OF assms(1-4)] refused_blocks
    by (simp add: isPrivateOrReservedAddress_def unsafeIpv4_def Let_def)
qed

definition sample_isIP :: "string \<Rightarrow> nat" where
  "sample_isIP t = (if length (split_on CHR ''.'' t) = 4 \<and> list_all (\<lambda>c. is_digit c \<or> c = CHR ''.'') t then 4 else 0)"

theorem refused_addresses_witness:
  "isPrivateOrReservedAddress sample_isIP ''172.31.255.1'' \<and> \<not> isPrivateOrReservedAddress sample_isIP ''172.32.0.1'' \<and>
   isPrivateOrReservedAddress sample_isIP ''192.0.0.9'' \<and> \<not> isPrivateOrReservedAddress sample_isIP ''192.31.196.1''"
proof -
  have shape: "dotted 172 31 255 1 = ''172.31.255.1''" "dotted 172 32 0 1 = ''172.32.0.1''"
    "dotted 192 0 0 9 = ''192.0.0.9''" "dotted 192 31 196 1 = ''192.31.196.1''"
    "sample_isIP (without_brackets ''172.31.255.1'') = 4" "sample_isIP (without_brackets ''172.32.0.1'') = 4"
    "sample_isIP (without_brackets ''192.0.0.9'') = 4" "sample_isIP (without_brackets ''192.31.196.1'') = 4"
    by code_simp+
  have blocks:
    "\<exists>(block, reachable) \<in> set special_purpose_registry. reachable \<noteq> Some True \<and> in_block (address_of 172 31 255 1) block"
    "\<not> ((\<exists>(block, reachable) \<in> set special_purpose_registry. reachable \<noteq> Some True \<and> in_block (address_of 172 32 0 1) block) \<or>
      in_block (address_of 172 32 0 1) multicast_block)"
    "\<exists>(block, reachable) \<in> set special_purpose_registry. reachable \<noteq> Some True \<and> in_block (address_of 192 0 0 9) block"
    "\<not> ((\<exists>(block, reachable) \<in> set special_purpose_registry. reachable \<noteq> Some True \<and> in_block (address_of 192 31 196 1) block) \<or>
      in_block (address_of 192 31 196 1) multicast_block)"
    by (simp_all add: special_purpose_registry_def multicast_block_def in_block_def address_of_def)
  show ?thesis
    using refused_addresses [of 172 31 255 1 sample_isIP] refused_addresses [of 172 32 0 1 sample_isIP]
      refused_addresses [of 192 0 0 9 sample_isIP] refused_addresses [of 192 31 196 1 sample_isIP] blocks
    by (simp add: shape is_octet_def)
qed

section \<open>Signatures\<close>

text \<open>\<open>createHmac\<close> of the platform is \<open>hmac\<close>; \<open>update\<close> of a text takes its UTF-8 bytes.\<close>

definition signWebhookPayload :: "(bytes \<Rightarrow> bytes \<Rightarrow> bytes) \<Rightarrow> string \<Rightarrow> int \<Rightarrow> string \<Rightarrow> string" where
  "signWebhookPayload hmac secret timestamp body =
     ''v1='' @ base64Url (hmac (utf8 secret) (utf8 (dec_string timestamp @ ''.'' @ body)))"

lemma utf8_append: "utf8 (t @ u) = utf8 t @ utf8 u"
  by (simp add: utf8_def)

lemma utf8_empty: "utf8 t = [] \<longleftrightarrow> t = []"
  by (cases t) (simp_all add: utf8_def utf8_char_def Let_def)

text \<open>
  C34. The SDK verifies what the dispatcher signs: as long as the receiver's clock is within its
  tolerance of the second of the signature, it accepts the delivery exactly when its own secret is
  not empty and gives the body and timestamp the same HMAC as the subscription's. So a
  receiver with the subscription's secret accepts, and one whose secret gives another HMAC
  refuses. (HMAC itself is a parameter; two secrets with the same HMAC cannot be told apart.)
\<close>

theorem dispatcher_signatures_verify:
  assumes "\<And>k m. hmac k m \<noteq> [] \<and> length (hmac k m) < 2 ^ 32"
    and "is_safe_integer timestamp" "0 \<le> timestamp"
    and "is_safe_integer tolerance" "\<bar>now div 1000 - timestamp\<bar> \<le> tolerance"
  shows "verifyWebhook hmac now \<lparr>vo_payload = Text body, vo_secret = Text secret, vo_timestamp = dec_string timestamp,
    vo_signature = signWebhookPayload hmac signing_secret timestamp body, vo_tolerance = Some tolerance\<rparr> = Inr ()
    \<longleftrightarrow> secret \<noteq> [] \<and>
      hmac (utf8 secret) (utf8 (dec_string timestamp @ ''.'' @ body)) =
      hmac (utf8 signing_secret) (utf8 (dec_string timestamp @ ''.'' @ body))"
proof -
  let ?d = "\<lambda>k. hmac (utf8 k) (utf8 (dec_string timestamp @ ''.'' @ body))"
  have digest: "digest hmac (Text body) (Text secret) (dec_string timestamp) =
      (if secret = [] then Inl Webhook_data_error else Inr (?d secret))"
    by (simp only: digest_def utf8_empty bytes_of.simps utf8_append append_assoc)
  then have short: "length d < 2 ^ 32" if "digest hmac (Text body) (Text secret) (dec_string timestamp) = Inr d" for d
    using that assms(1) by (auto split: if_splits)
  have "verifyWebhook hmac now \<lparr>vo_payload = Text body, vo_secret = Text secret, vo_timestamp = dec_string timestamp,
      vo_signature = ''v1='' @ base64Url (?d signing_secret), vo_tolerance = Some tolerance\<rparr> = Inr ()
      \<longleftrightarrow> digest hmac (Text body) (Text secret) (dec_string timestamp) = Inr (?d signing_secret)"
    using assms(1) by (intro header_accepts [OF _ _ short assms(2-5)]) blast+
  then show ?thesis unfolding signWebhookPayload_def digest by simp
qed

theorem dispatcher_signatures_verify_witness:
  "verifyWebhook sample_hmac 1767225900000 \<lparr>vo_payload = Text ''{}'', vo_secret = Text ''key'', vo_timestamp = dec_string 1767225600,
     vo_signature = signWebhookPayload sample_hmac ''key'' 1767225600 ''{}'', vo_tolerance = Some 300\<rparr> = Inr () \<and>
   verifyWebhook sample_hmac 1767225900000 \<lparr>vo_payload = Text ''{}'', vo_secret = Text ''kez'', vo_timestamp = dec_string 1767225600,
     vo_signature = signWebhookPayload sample_hmac ''key'' 1767225600 ''{}'', vo_tolerance = Some 300\<rparr> \<noteq> Inr () \<and>
   verifyWebhook sample_hmac 1767225900000 \<lparr>vo_payload = Text ''{}'', vo_secret = Text [], vo_timestamp = dec_string 1767225600,
     vo_signature = signWebhookPayload sample_hmac [] 1767225600 ''{}'', vo_tolerance = Some 300\<rparr> \<noteq> Inr ()"
proof -
  have differ: "sample_hmac (utf8 ''kez'') (utf8 (dec_string 1767225600 @ ''.'' @ ''{}'')) \<noteq>
      sample_hmac (utf8 ''key'') (utf8 (dec_string 1767225600 @ ''.'' @ ''{}''))"
    by code_simp
  have hmac: "sample_hmac k m \<noteq> [] \<and> length (sample_hmac k m) < 2 ^ 32" for k m
    by (simp add: sample_hmac_def)
  have safe: "is_safe_integer 1767225600" "is_safe_integer 300"
    by (simp_all add: is_safe_integer_def max_safe_integer_def)
  note verifies = dispatcher_signatures_verify [where hmac = sample_hmac and now = 1767225900000, OF hmac safe(1) _ safe(2)]
  show ?thesis
    using verifies [of "''{}''" "''key''" "''key''"] verifies [of "''{}''" "''kez''" "''key''"]
      verifies [of "''{}''" "[]" "[]"] differ
    by simp
qed

end
