(* ===== verification/Evented_Engine.thy ===== *)
theory Evented_Engine
  imports Exactly_Once Protocol_Events
begin

text \<open>
  packages/server/src/evented-engine.ts: the engine that publishes an event after each
  successful change. Its state is the engine's together with the events emitted so far.
  A method of the base class runs in the engine's part; \<open>issueReward\<close> is called by the
  base class itself for stamp-card rewards, so an accrual runs here with the overriding
  method in its place.
\<close>

type_synonym 'a evented_eff = "(engine \<times> cloud_event list, engine_error, 'a) eff"

definition in_engine :: "'a engine_eff \<Rightarrow> 'a evented_eff" where
  "in_engine m se = (case m (fst se) of (r, s) \<Rightarrow> (r, (s, snd se)))"

definition emit_event :: "cloud_event \<Rightarrow> unit evented_eff" where
  "emit_event e = m_modify (\<lambda>(s, es). (s, es @ [e]))"

definition event_source :: "program \<Rightarrow> string" where
  "event_source p = ''urn:lip:program:'' @ pg_program_id p"

section \<open>Publishing\<close>

definition publish :: "host \<Rightarrow> string \<Rightarrow> event_type \<Rightarrow> string \<Rightarrow> string \<Rightarrow> event_data \<Rightarrow> unit evented_eff" where
  "publish h source type i subject data =
     emit_event \<lparr>ev_id = i, ev_source = source, ev_type = type, ev_subject = subject, ev_time = isoNow h, ev_data = data\<rparr>"

definition event_id :: "string \<Rightarrow> string \<Rightarrow> string" where
  "event_id action i = ''evt-'' @ action @ ''-'' @ i"

definition publishMember :: "host \<Rightarrow> string \<Rightarrow> event_type \<Rightarrow> string \<Rightarrow> member \<Rightarrow> unit evented_eff" where
  "publishMember h source type action m =
     publish h source type (event_id action (mb_member_id m)) (mb_member_id m) (Member_data m)"

definition publishEntry :: "host \<Rightarrow> string \<Rightarrow> event_type \<Rightarrow> string \<Rightarrow> ledger_entry \<Rightarrow> unit evented_eff" where
  "publishEntry h source type action e =
     publish h source type (event_id action (le_entry_id e)) (le_member_id e) (Entry_data e)"

definition publishReservation :: "host \<Rightarrow> string \<Rightarrow> event_type \<Rightarrow> string \<Rightarrow> reservation \<Rightarrow> unit evented_eff" where
  "publishReservation h source type action r =
     publish h source type (event_id action (rs_reservation_id r)) (rs_member_id r) (Reservation_data r)"

definition publishIssuedReward :: "host \<Rightarrow> string \<Rightarrow> event_type \<Rightarrow> string \<Rightarrow> issued_reward \<Rightarrow> unit evented_eff" where
  "publishIssuedReward h source type action w =
     publish h source type (event_id action (iw_issued_reward_id w)) (iw_member_id w) (Issued_data w)"

definition publishReservationIssuedReward :: "host \<Rightarrow> string \<Rightarrow> event_type \<Rightarrow> string \<Rightarrow> reservation \<Rightarrow> unit evented_eff" where
  "publishReservationIssuedReward h source type action r =
     (if \<not> truthy (rs_issued_reward_id r) then m_return ()
      else
        m_bind (in_engine (inspectAdmin h)) (\<lambda>snapshot.
        case List.find (\<lambda>w. iw_issued_reward_id w = the (rs_issued_reward_id r)) (sn_issued_rewards snapshot) of
          None \<Rightarrow> m_return ()
        | Some w \<Rightarrow> publishIssuedReward h source type action w))"

definition publishEntries :: "host \<Rightarrow> string \<Rightarrow> event_type \<Rightarrow> string \<Rightarrow> catalog response \<Rightarrow> unit evented_eff" where
  "publishEntries h source type action r =
     m_bind (m_map (publishEntry h source type action)
       (case rp_entries r of None \<Rightarrow> [rp_entry r] | Some es \<Rightarrow> es)) (\<lambda>_. m_return ())"

text \<open>The answer of a call, after publishing what it did.\<close>

definition publishing :: "'a evented_eff \<Rightarrow> ('a \<Rightarrow> unit evented_eff) \<Rightarrow> 'a evented_eff" where
  "publishing m pub = m_bind m (\<lambda>r. m_bind (pub r) (\<lambda>_. m_return r))"

section \<open>The overriding methods\<close>

definition evented_enroll :: "host \<Rightarrow> string \<Rightarrow> enroll_request \<Rightarrow> catalog response evented_eff" where
  "evented_enroll h source q =
     publishing (in_engine (enroll h q)) (\<lambda>r. publishMember h source Event_enrolled ''enrolled'' (rp_member r))"

definition evented_issueReward :: "host \<Rightarrow> string \<Rightarrow> issue_request \<Rightarrow> catalog response evented_eff" where
  "evented_issueReward h source q =
     publishing (in_engine (issueReward h q)) (\<lambda>r. publishIssuedReward h source Event_issued ''issued'' (rp_issued_reward r))"

definition evented_stamp_cycle :: "host \<Rightarrow> string \<Rightarrow> string \<Rightarrow> req_context \<Rightarrow> visit_stamp_policy \<Rightarrow> int \<Rightarrow> unit evented_eff" where
  "evented_stamp_cycle h source memberId c v n =
     m_bind (in_engine (m_get (\<lambda>s. stamp_request h (eg_program s) memberId c v n))) (\<lambda>r.
     m_bind (evented_issueReward h source r) (\<lambda>_.
     if vp_reset_on_issue v
     then m_bind (in_engine (addLedger h (reset_input memberId v n))) (\<lambda>_. m_return ())
     else m_return ()))"

definition evented_issueThresholdRewards :: "host \<Rightarrow> string \<Rightarrow> string \<Rightarrow> req_context \<Rightarrow> unit evented_eff" where
  "evented_issueThresholdRewards h source memberId c =
     m_bind (in_engine (m_get (\<lambda>s. pg_visit_stamp_policy (eg_program s)))) (\<lambda>policy.
     case policy of
       None \<Rightarrow> m_return ()
     | Some v \<Rightarrow>
         m_bind (in_engine (m_get (\<lambda>s. issued_cycles s memberId))) (\<lambda>issued.
         m_bind (in_engine (eligible_cycles h memberId v issued)) (\<lambda>eligible.
         m_bind (m_map (evented_stamp_cycle h source memberId c v) [issued + 1..eligible]) (\<lambda>_.
         m_return ()))))"

definition evented_first_accrual :: "host \<Rightarrow> string \<Rightarrow> order_request \<Rightarrow> catalog response evented_eff" where
  "evented_first_accrual h source r =
     m_bind (in_engine (earningMultiplierBps h (oq_member_id r))) (\<lambda>multiplier.
     m_bind (in_engine (m_get (\<lambda>s. accrualAmounts (eg_program s) (oq_order r) multiplier))) (\<lambda>amounts.
     m_bind (in_engine (m_lift amounts)) (\<lambda>accruals.
     m_bind (in_engine (m_map (post_accrual_entry h r) accruals)) (\<lambda>es.
     m_bind (in_engine (m_modify (record_accrual h r multiplier es))) (\<lambda>_.
     m_bind (in_engine (m_get (\<lambda>s. primary_entry (eg_program s) es))) (\<lambda>e.
     m_bind (evented_issueThresholdRewards h source (oq_member_id r) (oq_context r)) (\<lambda>_.
     in_engine (ledgerResponse h (oq_context r) e es))))))))"

definition evented_accrual_run :: "host \<Rightarrow> string \<Rightarrow> order_request \<Rightarrow> catalog response evented_eff" where
  "evented_accrual_run h source r =
     m_bind (in_engine (activeMember (oq_member_id r))) (\<lambda>m.
     m_bind (in_engine (assertOrder h (oq_order r) m)) (\<lambda>_.
     m_bind (in_engine (m_assert (od_status (oq_order r) = Paid) (engine_err Invalid_state))) (\<lambda>_.
     m_bind (in_engine (m_get (\<lambda>s. js_get (eg_accrualsByOrder s) (od_order_id (oq_order r))))) (\<lambda>existing.
     case existing of
       Some a \<Rightarrow> in_engine (repeat_accrual h r a)
     | None \<Rightarrow> evented_first_accrual h source r))))"

text \<open>\<open>once\<close> around a run of the evented engine.\<close>

definition evented_once ::
  "host \<Rightarrow> string \<Rightarrow> req_context \<Rightarrow> json \<Rightarrow> catalog response evented_eff \<Rightarrow> catalog response evented_eff" where
  "evented_once h operation c request run se =
     (case js_get (eg_idempotency (fst se)) (once_key operation c) of
        Some prior \<Rightarrow>
          if ik_fingerprint prior = fingerprintV2 h request \<or> ik_fingerprint prior = fingerprintV1 h request
          then (Inr (withReplayedRequestId (ik_response prior) (cx_request_id c)), se)
          else (Inl (engine_err Idempotency_conflict), se)
      | None \<Rightarrow>
          m_bind run (\<lambda>r.
          m_bind (in_engine (m_modify (store_response (once_key operation c) (fingerprintV2 h request) r))) (\<lambda>_.
          m_return r)) se)"

definition evented_postAccrual :: "host \<Rightarrow> string \<Rightarrow> order_request \<Rightarrow> catalog response evented_eff" where
  "evented_postAccrual h source q =
     publishing
       (evented_once h ''accrual.post'' (oq_context q) (json_order_request q) (evented_accrual_run h source q))
       (publishEntries h source Event_accrued ''accrued'')"

definition evented_adjustOrder :: "host \<Rightarrow> string \<Rightarrow> adjust_request \<Rightarrow> catalog response evented_eff" where
  "evented_adjustOrder h source q =
     publishing (in_engine (adjustOrder h q)) (publishEntries h source Event_adjusted ''adjusted'')"

definition evented_postManualAdjustment :: "host \<Rightarrow> string \<Rightarrow> manual_request \<Rightarrow> catalog response evented_eff" where
  "evented_postManualAdjustment h source q =
     publishing (in_engine (postManualAdjustment h q))
       (\<lambda>r. publishEntry h source Event_balance_changed ''manual'' (rp_entry r))"

definition evented_cancelIssuedReward :: "host \<Rightarrow> string \<Rightarrow> cancel_issued_request \<Rightarrow> catalog response evented_eff" where
  "evented_cancelIssuedReward h source q =
     publishing (in_engine (cancelIssuedReward h q))
       (\<lambda>r. publishIssuedReward h source Event_cancelled ''cancelled'' (rp_issued_reward r))"

definition evented_reserve :: "host \<Rightarrow> string \<Rightarrow> reserve_request \<Rightarrow> catalog response evented_eff" where
  "evented_reserve h source q =
     publishing (in_engine (reserve h q)) (\<lambda>r. publishReservation h source Event_reserved ''reserved'' (rp_reservation r))"

definition evented_capture :: "host \<Rightarrow> string \<Rightarrow> capture_request \<Rightarrow> catalog response evented_eff" where
  "evented_capture h source q =
     publishing (in_engine (capture h q)) (\<lambda>r.
       m_bind (publishReservation h source Event_captured ''captured'' (rp_reservation r)) (\<lambda>_.
       publishReservationIssuedReward h source Event_redeemed ''redeemed'' (rp_reservation r)))"

definition evented_reverse :: "host \<Rightarrow> string \<Rightarrow> reverse_request \<Rightarrow> catalog response evented_eff" where
  "evented_reverse h source q =
     publishing (in_engine (reverse h q)) (\<lambda>r.
       m_bind (publishReservation h source Event_reversed ''reversed'' (rp_reservation r)) (\<lambda>_.
       publishReservationIssuedReward h source Event_restored ''restored'' (rp_reservation r)))"

section \<open>Histories\<close>

definition evented_void :: "'a evented_eff \<Rightarrow> unit evented_eff" where
  "evented_void m = m_bind m (\<lambda>_. m_return ())"

fun evented_perform :: "string \<Rightarrow> host \<Rightarrow> operation \<Rightarrow> unit evented_eff" where
  "evented_perform source h (Op_enroll q) = evented_void (evented_enroll h source q)"
| "evented_perform source h (Op_postAccrual q) = evented_void (evented_postAccrual h source q)"
| "evented_perform source h (Op_adjustOrder q) = evented_void (evented_adjustOrder h source q)"
| "evented_perform source h (Op_postManualAdjustment q) = evented_void (evented_postManualAdjustment h source q)"
| "evented_perform source h (Op_issueReward q) = evented_void (evented_issueReward h source q)"
| "evented_perform source h (Op_cancelIssuedReward q) = evented_void (evented_cancelIssuedReward h source q)"
| "evented_perform source h (Op_reserve q) = evented_void (evented_reserve h source q)"
| "evented_perform source h (Op_capture q) = evented_void (evented_capture h source q)"
| "evented_perform source h (Op_reverse q) = evented_void (evented_reverse h source q)"
| "evented_perform source h p = in_engine (perform h p)"

fun evented_run :: "string \<Rightarrow> (host \<times> operation) list \<Rightarrow> engine \<times> cloud_event list \<Rightarrow> engine \<times> cloud_event list" where
  "evented_run source [] se = se"
| "evented_run source ((h, p) # ops) se = evented_run source ops (snd (evented_perform source h p se))"

end
