(* ===== verification/Evented_Theorems.thy ===== *)
theory Evented_Theorems
  imports Evented_Engine Sample_Story
begin

text \<open>
  What publishing leaves alone. A computation of the evented engine \<open>mirrors\<close> one of the
  engine when it gives the same answer and the same state and only appends events. From
  that every history of the evented engine is a history of the engine, so the theorems about
  histories hold for it, and a replayed accrual publishes the events it published first.
\<close>

section \<open>Mirrored computations\<close>

definition mirrors :: "event_type set \<Rightarrow> 'a evented_eff \<Rightarrow> 'a engine_eff \<Rightarrow> bool" where
  "mirrors T f g \<longleftrightarrow> (\<forall>s es. \<exists>new. f (s, es) = (fst (g s), (snd (g s), es @ new)) \<and> ev_type ` set new \<subseteq> T)"

named_theorems mirror \<open>computations of the evented engine that mirror one of the engine\<close>

lemmas any_type [mirror] = UNIV_I insertI1

lemma mirrorsE:
  assumes "mirrors T f g"
  obtains new where "f (s, es) = (fst (g s), (snd (g s), es @ new))" "ev_type ` set new \<subseteq> T"
  using assms unfolding mirrors_def by blast

lemma mirrors_in_engine [mirror]: "mirrors T (in_engine m) m"
  by (auto simp: mirrors_def in_engine_def split: prod.splits)

lemma mirrors_return [mirror]: "mirrors T (m_return v) (m_return v)"
  by (simp add: mirrors_def)

lemma mirrors_publish [mirror]: "type \<in> T \<Longrightarrow> mirrors T (publish h source type i subject data) (m_return ())"
  by (simp add: mirrors_def publish_def emit_event_def m_modify_def)

lemma mirrors_bind [mirror]:
  assumes "mirrors T f g" "\<And>v. mirrors T (F v) (G v)"
  shows "mirrors T (m_bind f F) (m_bind g G)"
  unfolding mirrors_def
proof (intro allI)
  fix s es
  obtain new where f: "f (s, es) = (fst (g s), (snd (g s), es @ new))" "ev_type ` set new \<subseteq> T"
    using assms(1) by (rule mirrorsE)
  show "\<exists>new. m_bind f F (s, es) = (fst (m_bind g G s), (snd (m_bind g G s), es @ new)) \<and> ev_type ` set new \<subseteq> T"
  proof (cases "fst (g s)")
    case (Inl e)
    then show ?thesis using f by (cases "g s") (simp add: m_bind_def)
  next
    case (Inr v)
    obtain new' where "F v (snd (g s), es @ new) = (fst (G v (snd (g s))), (snd (G v (snd (g s))), (es @ new) @ new'))"
      "ev_type ` set new' \<subseteq> T"
      using assms(2) [of v] by (rule mirrorsE)
    then show ?thesis using f Inr by (cases "g s") (auto simp: m_bind_def)
  qed
qed

lemma mirrors_map [mirror]:
  assumes "\<And>x. mirrors T (f x) (g x)"
  shows "mirrors T (m_map f xs) (m_map g xs)"
proof (induction xs)
  case Nil
  show ?case unfolding m_map.simps by (rule mirror)
next
  case (Cons x xs)
  show ?case unfolding m_map.simps by (intro mirror assms Cons.IH)
qed

lemma mirrors_option [mirror]:
  "mirrors T f g \<Longrightarrow> (\<And>v. mirrors T (F v) (G v)) \<Longrightarrow>
   mirrors T (case x of None \<Rightarrow> f | Some v \<Rightarrow> F v) (case x of None \<Rightarrow> g | Some v \<Rightarrow> G v)"
  by (cases x) simp_all

lemma mirrors_if [mirror]:
  "mirrors T f g \<Longrightarrow> mirrors T F G \<Longrightarrow> mirrors T (if c then f else F) (if c then g else G)"
  by simp

text \<open>Computations that only publish.\<close>

lemma m_bind_unit: "m_bind g m_return = g"
  by (auto simp: m_bind_def m_return_def fun_eq_iff split: prod.splits sum.splits)

lemma mirrors_publishers [mirror]:
  "type \<in> T \<Longrightarrow> mirrors T (publishMember h source type action m) (m_return ())"
  "type \<in> T \<Longrightarrow> mirrors T (publishEntry h source type action e) (m_return ())"
  "type \<in> T \<Longrightarrow> mirrors T (publishReservation h source type action r) (m_return ())"
  "type \<in> T \<Longrightarrow> mirrors T (publishIssuedReward h source type action w) (m_return ())"
  unfolding publishMember_def publishEntry_def publishReservation_def publishIssuedReward_def by (rule mirror, assumption)+

lemma m_map_return: "m_map (\<lambda>x. m_return (f x)) xs = m_return (map f xs)"
  by (induction xs) (simp_all only: m_map.simps m_bind_runs list.map)

lemma mirrors_publishEntries [mirror]:
  assumes "type \<in> T"
  shows "mirrors T (publishEntries h source type action r) (m_return ())"
proof -
  have "mirrors T (publishEntries h source type action r)
    (m_bind (m_map (\<lambda>e. m_return ()) (case rp_entries r of None \<Rightarrow> [rp_entry r] | Some es \<Rightarrow> es)) (\<lambda>_. m_return ()))"
    unfolding publishEntries_def by (intro mirror assms)
  then show ?thesis by (simp only: m_map_return m_bind_runs)
qed

lemma mirrors_publishing [mirror]:
  assumes "mirrors T m g" "\<And>r. mirrors T (pub r) (m_return ())"
  shows "mirrors T (publishing m pub) g"
proof -
  have "mirrors T (publishing m pub) (m_bind g (\<lambda>r. m_bind (m_return ()) (\<lambda>_. m_return r)))"
    unfolding publishing_def by (intro mirror assms)
  then show ?thesis by (simp only: m_bind_runs m_bind_unit)
qed

lemma mirrors_once [mirror]:
  assumes "mirrors T run g"
  shows "mirrors T (evented_once h operation c request run) (once h operation c request g)"
proof -
  have first: "mirrors T (m_bind run (\<lambda>r. m_bind (in_engine (m_modify (u r))) (\<lambda>_. m_return r)))
    (m_bind g (\<lambda>r. m_bind (m_modify (u r)) (\<lambda>_. m_return r)))" for u
    by (intro mirror assms)
  show ?thesis
    unfolding mirrors_def
  proof (intro allI)
    fix s es
    show "\<exists>new. evented_once h operation c request run (s, es) =
      (fst (once h operation c request g s), (snd (once h operation c request g s), es @ new)) \<and> ev_type ` set new \<subseteq> T"
      using first [of "store_response (once_key operation c) (fingerprintV2 h request)", unfolded mirrors_def, rule_format, of s es]
      by (cases "js_get (eg_idempotency s) (once_key operation c)") (simp_all add: evented_once_def once_def)
  qed
qed

section \<open>The overriding methods\<close>

lemma mirrors_methods [mirror]:
  "mirrors UNIV (evented_enroll h source q1) (enroll h q1)"
  "Event_issued \<in> T \<Longrightarrow> mirrors T (evented_issueReward h source q2) (issueReward h q2)"
  "mirrors UNIV (evented_adjustOrder h source q3) (adjustOrder h q3)"
  "mirrors UNIV (evented_postManualAdjustment h source q4) (postManualAdjustment h q4)"
  "mirrors UNIV (evented_cancelIssuedReward h source q5) (cancelIssuedReward h q5)"
  "mirrors UNIV (evented_reserve h source q6) (reserve h q6)"
  unfolding evented_enroll_def evented_issueReward_def evented_adjustOrder_def evented_postManualAdjustment_def
    evented_cancelIssuedReward_def evented_reserve_def
  by (intro mirror; assumption)+

lemma mirrors_stamp_cycle [mirror]: "Event_issued \<in> T \<Longrightarrow> mirrors T (evented_stamp_cycle h source m c v n) (stamp_cycle h m c v n)"
  unfolding evented_stamp_cycle_def stamp_cycle_def by (intro mirror; assumption)

lemma mirrors_threshold [mirror]: "Event_issued \<in> T \<Longrightarrow> mirrors T (evented_issueThresholdRewards h source m c) (issueThresholdRewards h m c)"
  unfolding evented_issueThresholdRewards_def issueThresholdRewards_def by (intro mirror; assumption)

lemma mirrors_accrual_run: "Event_issued \<in> T \<Longrightarrow> mirrors T (evented_accrual_run h source q) (postAccrual_run h q)"
  unfolding evented_accrual_run_def postAccrual_run_def evented_first_accrual_def first_accrual_def by (intro mirror; assumption)

lemma mirrors_postAccrual [mirror]: "mirrors UNIV (evented_postAccrual h source q) (postAccrual h q)"
  unfolding evented_postAccrual_def postAccrual_def by (intro mirror mirrors_accrual_run)

text \<open>Capturing and reversing also look at the issued rewards.\<close>

definition and_inspected :: "host \<Rightarrow> catalog response engine_eff \<Rightarrow> catalog response engine_eff" where
  "and_inspected h m =
     m_bind m (\<lambda>r. if truthy (rs_issued_reward_id (rp_reservation r)) then m_bind (inspectAdmin h) (\<lambda>_. m_return r) else m_return r)"

lemma mirrors_inspected:
  "mirrors UNIV (publishReservationIssuedReward h source type action r)
     (if truthy (rs_issued_reward_id r) then m_bind (inspectAdmin h) (\<lambda>_. m_return ()) else m_return ())"
proof -
  have "mirrors UNIV (case x of None \<Rightarrow> m_return () | Some w \<Rightarrow> publishIssuedReward h source type action w) (m_return ())" for x
    by (cases x) (auto intro: mirror)
  then show ?thesis
    unfolding publishReservationIssuedReward_def by (auto intro!: mirror)
qed

lemma mirrors_settling:
  assumes "mirrors UNIV m g" "\<And>r. mirrors UNIV (pub r) (m_return ())"
  shows "mirrors UNIV (publishing m (\<lambda>r. m_bind (pub r) (\<lambda>_. publishReservationIssuedReward h source type action (rp_reservation r))))
    (and_inspected h g)"
proof -
  have "and_inspected h g = m_bind g (\<lambda>r. m_bind (m_bind (m_return ()) (\<lambda>_.
      if truthy (rs_issued_reward_id (rp_reservation r)) then m_bind (inspectAdmin h) (\<lambda>_. m_return ()) else m_return ()))
      (\<lambda>_. m_return r))"
    by (auto simp: and_inspected_def fun_eq_iff m_bind_def m_return_def split: prod.splits sum.splits)
  moreover have "mirrors UNIV (publishing m (\<lambda>r. m_bind (pub r) (\<lambda>_. publishReservationIssuedReward h source type action (rp_reservation r))))
    (m_bind g (\<lambda>r. m_bind (m_bind (m_return ()) (\<lambda>_.
      if truthy (rs_issued_reward_id (rp_reservation r)) then m_bind (inspectAdmin h) (\<lambda>_. m_return ()) else m_return ()))
      (\<lambda>_. m_return r)))"
    unfolding publishing_def by (intro mirrors_bind assms mirrors_inspected mirrors_return)
  ultimately show ?thesis by (simp only:)
qed

lemma mirrors_capture: "mirrors UNIV (evented_capture h source q) (and_inspected h (capture h q))"
  unfolding evented_capture_def by (intro mirrors_settling mirror)

lemma mirrors_reverse: "mirrors UNIV (evented_reverse h source q) (and_inspected h (reverse h q))"
  unfolding evented_reverse_def by (intro mirrors_settling mirror)

section \<open>Histories\<close>

lemma mirrors_void: "mirrors T f g \<Longrightarrow> mirrors T (evented_void f) (m_void g)"
  unfolding evented_void_def m_void_def by (intro mirror)

lemma inspected_state:
  "snd (and_inspected h m s) = snd (m s) \<or> snd (and_inspected h m s) = snd (inspectAdmin h (snd (m s)))"
  by (auto simp: and_inspected_def m_bind_def m_return_def split: prod.splits sum.splits)

lemma evented_perform_state:
  obtains new where "snd (evented_perform source h p (s, es)) = (snd (perform h p s), es @ new)"
  | new where "snd (evented_perform source h p (s, es)) = (snd (perform h Op_inspectAdmin (snd (perform h p s))), es @ new)"
proof -
  have plain: "\<exists>new. snd (evented_perform source h p (s, es)) = (snd (perform h p s), es @ new)"
    if "mirrors UNIV (evented_perform source h p) (perform h p)"
    using mirrorsE [OF that, of s es] by (metis snd_conv)
  have looked: "\<exists>new. snd (evented_void f (s, es)) = (snd (m s), es @ new) \<or>
      snd (evented_void f (s, es)) = (snd (inspectAdmin h (snd (m s))), es @ new)"
    if "mirrors UNIV f (and_inspected h m)" for f m
    using mirrorsE [OF mirrors_void [OF that], of s es] inspected_state [of h m s] by (metis m_void_state snd_conv)
  show thesis
  proof (cases p)
    case (Op_capture q)
    with looked [OF mirrors_capture [of h source q]] show ?thesis by (auto intro: that)
  next
    case (Op_reverse q)
    with looked [OF mirrors_reverse [of h source q]] show ?thesis by (auto intro: that)
  qed (rule exE [OF plain]; (use that in blast)?; simp; intro mirrors_void mirror)+
qed

text \<open>Whatever the engine looks at on the way.\<close>

definition no_looks :: "(host \<times> operation) list \<Rightarrow> (host \<times> operation) list" where
  "no_looks = filter (\<lambda>hp. snd hp \<noteq> Op_inspectAdmin)"

lemma evented_history:
  assumes "\<forall>hp \<in> set ops. h_ids (fst hp) = ids" "evented_run source ops (s, es) = (t, es')"
  shows "\<exists>ops' new. history ids s ops' t \<and> no_looks ops' = no_looks ops \<and> es' = es @ new"
  using assms
proof (induction ops arbitrary: s es)
  case Nil
  then show ?case by (auto simp: history_simps no_looks_def intro!: exI [of _ "[]"])
next
  case (Cons hp ops)
  obtain h p where hp: "hp = (h, p)" by (cases hp)
  have ids: "h_ids h = ids" "\<forall>hp \<in> set ops. h_ids (fst hp) = ids" using Cons.prems(1) hp by simp_all
  from evented_perform_state [of source h p s es] show ?case
  proof cases
    case (1 new)
    with Cons.prems(2) hp have "evented_run source ops (snd (perform h p s), es @ new) = (t, es')" by simp
    from Cons.IH [OF ids(2) this] obtain ops' new' where
      "history ids (snd (perform h p s)) ops' t" "no_looks ops' = no_looks ops" "es' = (es @ new) @ new'" by blast
    then show ?thesis using hp ids(1)
      by (intro exI [of _ "(h, p) # ops'"] exI [of _ "new @ new'"]) (simp add: history_simps no_looks_def)
  next
    case (2 new)
    with Cons.prems(2) hp
    have "evented_run source ops (snd (perform h Op_inspectAdmin (snd (perform h p s))), es @ new) = (t, es')" by simp
    from Cons.IH [OF ids(2) this] obtain ops' new' where
      "history ids (snd (perform h Op_inspectAdmin (snd (perform h p s)))) ops' t" "no_looks ops' = no_looks ops"
      "es' = (es @ new) @ new'" by blast
    then show ?thesis using hp ids(1)
      by (intro exI [of _ "(h, p) # (h, Op_inspectAdmin) # ops'"] exI [of _ "new @ new'"]) (simp add: history_simps no_looks_def)
  qed
qed

text \<open>
  C28. Publishing never disturbs the engine. After any calls of the evented engine its state
  is one the plain engine reaches by the same calls, with views of the administration in
  between at most: an accrual that issues stamp-card rewards through the overriding method
  posts, issues and fails as the plain one does. Events are only ever appended.
\<close>

theorem evented_engine_refines:
  assumes "\<forall>hp \<in> set ops. h_ids (fst hp) = ids" "evented_run source ops (s, es) = (t, es')"
  shows "\<exists>ops' new. history ids s ops' t \<and> no_looks ops' = no_looks ops \<and> es' = es @ new"
  by (rule evented_history [OF assms])

section \<open>Replays\<close>

text \<open>An accrual is answered by a ledger response, whose entries erasure does not touch.\<close>

definition always :: "('a \<Rightarrow> bool) \<Rightarrow> 'a engine_eff \<Rightarrow> bool" where
  "always P m \<longleftrightarrow> (\<forall>s r. fst (m s) = Inr r \<longrightarrow> P r)"

lemma always_bind: "(\<And>v. always P (f v)) \<Longrightarrow> always P (m_bind m f)"
  by (auto simp: always_def m_bind_def split: prod.splits sum.splits)

lemma always_return: "P r \<Longrightarrow> always P (m_return r)"
  by (simp add: always_def)

lemma always_throw: "always P (m_throw e)"
  by (simp add: always_def)

lemma always_option: "always P f \<Longrightarrow> (\<And>v. always P (g v)) \<Longrightarrow> always P (case x of None \<Rightarrow> f | Some v \<Rightarrow> g v)"
  by (cases x) simp_all

lemmas always_intros = always_bind always_return always_throw always_option

fun is_ledger_response :: "catalog response \<Rightarrow> bool" where
  "is_ledger_response (Ledger_response c e es b) = True"
| "is_ledger_response _ = False"

lemma accrual_answers: "always is_ledger_response (postAccrual_run h q)"
  unfolding postAccrual_run_def repeat_accrual_def first_accrual_def ledgerResponse_def by (intro always_intros) simp_all

lemma scrubbed_ledger_response: "scrubs r r' \<Longrightarrow> is_ledger_response r \<Longrightarrow> r' = r"
  by (induction rule: scrubs.induct) (auto elim: is_ledger_response.elims)

text \<open>The events about the entries of a response.\<close>

definition entry_event :: "host \<Rightarrow> string \<Rightarrow> event_type \<Rightarrow> string \<Rightarrow> ledger_entry \<Rightarrow> cloud_event" where
  "entry_event h source type action e =
     \<lparr>ev_id = event_id action (le_entry_id e), ev_source = source, ev_type = type, ev_subject = le_member_id e,
      ev_time = isoNow h, ev_data = Entry_data e\<rparr>"

definition response_entries :: "catalog response \<Rightarrow> ledger_entry list" where
  "response_entries r = (case rp_entries r of None \<Rightarrow> [rp_entry r] | Some es \<Rightarrow> es)"

lemma publishEntries_run:
  "publishEntries h source type action r (s, es) = (Inr (), (s, es @ map (entry_event h source type action) (response_entries r)))"
proof -
  have "m_map (publishEntry h source type action) xs (s, es) = (Inr (map (\<lambda>_. ()) xs), (s, es @ map (entry_event h source type action) xs))"
    for xs
  proof (induction xs arbitrary: es)
    case (Cons x xs)
    then show ?case
      by (simp add: m_bind_def m_return_def publishEntry_def publish_def emit_event_def m_modify_def entry_event_def)
  qed (simp add: m_return_def)
  then show ?thesis by (simp add: publishEntries_def response_entries_def m_bind_def m_return_def)
qed

lemma accrual_published:
  assumes "once h ''accrual.post'' (oq_context q) (json_order_request q) (postAccrual_run h q) s = (Inr r, t)"
  shows "\<exists>issued. evented_postAccrual h source q (s, es) =
    (Inr r, (t, es @ issued @ map (entry_event h source Event_accrued ''accrued'') (response_entries r)))
    \<and> ev_type ` set issued \<subseteq> {Event_issued}"
proof -
  have "mirrors {Event_issued}
    (evented_once h ''accrual.post'' (oq_context q) (json_order_request q) (evented_accrual_run h source q))
    (once h ''accrual.post'' (oq_context q) (json_order_request q) (postAccrual_run h q))"
    by (intro mirrors_once mirrors_accrual_run) simp
  then obtain issued where
    "evented_once h ''accrual.post'' (oq_context q) (json_order_request q) (evented_accrual_run h source q) (s, es) =
      (Inr r, (t, es @ issued))" "ev_type ` set issued \<subseteq> {Event_issued}"
    using assms by (auto elim!: mirrorsE [of _ _ _ s es])
  then show ?thesis
    by (intro exI [of _ issued]) (simp add: evented_postAccrual_def publishing_def m_bind_def publishEntries_run m_return_def)
qed

text \<open>
  C29. A replay publishes the same events. When an accrual has been answered, then after any
  calls a repetition under its key with the same payload leaves the engine as it is, issues
  nothing, and publishes exactly the events about entries the first call published, with
  the same source, id, type and subject, so that a receiver that deduplicates drops them.
\<close>

theorem replays_repeat_events:
  assumes "js_get (eg_idempotency s) (once_key ''accrual.post'' (oq_context q)) = None"
    and "evented_postAccrual h source q (s, es) = (Inr r, (s1, es1))"
    and "\<forall>hp \<in> set ops. h_ids (fst hp) = ids" "evented_run source ops (s1, es1) = (t, es2)"
    and "once_key ''accrual.post'' (oq_context q') = once_key ''accrual.post'' (oq_context q)"
    and "fingerprintV2 h' (json_order_request q') = fingerprintV2 h (json_order_request q)"
  shows "\<exists>issued first again r'. es1 = es @ issued @ first \<and> ev_type ` set issued \<subseteq> {Event_issued} \<and>
    evented_postAccrual h' source q' (t, es2) = (Inr r', (t, es2 @ again)) \<and>
    map event_identity again = map event_identity first"
proof -
  let ?once = "once h ''accrual.post'' (oq_context q) (json_order_request q) (postAccrual_run h q)"
  have state: "?once s = (Inr r, s1)"
    using mirrorsE [OF mirrors_postAccrual [of h source q], of s es] assms(2) by (metis postAccrual_def prod.collapse prod.inject)
  obtain issued where first: "es1 = es @ issued @ map (entry_event h source Event_accrued ''accrued'') (response_entries r)"
    "ev_type ` set issued \<subseteq> {Event_issued}"
    using accrual_published [OF state, of source es] assms(2) by auto
  have "fst (postAccrual_run h q s) = Inr r"
    using state assms(1) by (auto simp: once_def m_bind_def m_return_def m_modify_def split: prod.splits sum.splits)
  then have answer: "is_ledger_response r"
    using accrual_answers [of h q] unfolding always_def by blast
  obtain ops' where "history ids s1 ops' t" using evented_history [OF assms(3,4)] by blast
  from cached_after [OF assms(1) state this] obtain x where x:
    "js_get (eg_idempotency t) (once_key ''accrual.post'' (oq_context q)) = Some x"
    "ik_fingerprint x = fingerprintV2 h (json_order_request q)" "scrubs r (ik_response x)" by metis
  let ?again = "withReplayedRequestId r (cx_request_id (oq_context q'))"
  have "evented_once h' ''accrual.post'' (oq_context q') (json_order_request q') (evented_accrual_run h' source q') (t, es2) =
      (Inr ?again, (t, es2))"
    using x assms(5,6) scrubbed_ledger_response [OF x(3) answer] by (simp add: evented_once_def)
  then have again: "evented_postAccrual h' source q' (t, es2) =
      (Inr ?again, (t, es2 @ map (entry_event h' source Event_accrued ''accrued'') (response_entries ?again)))"
    by (simp add: evented_postAccrual_def publishing_def m_bind_def publishEntries_run m_return_def)
  have "response_entries ?again = response_entries r"
    using answer by (cases r) (simp_all add: response_entries_def withReplayedRequestId_def split: option.split)
  then have "map event_identity (map (entry_event h' source Event_accrued ''accrued'') (response_entries ?again)) =
      map event_identity (map (entry_event h source Event_accrued ''accrued'') (response_entries r))"
    by (simp add: event_identity_def entry_event_def)
  with first again show ?thesis by blast
qed

section \<open>Examples\<close>

definition event_story :: "(host \<times> operation) list" where
  "event_story = [(sample_host, Op_enroll (sample_enroll ''k1'' ''ann''))]"

definition event_state :: "engine \<times> cloud_event list" where
  "event_state = evented_run ''urn:demo'' event_story (empty_engine story_program, [])"

theorem evented_engine_refines_witness:
  "\<exists>ops' new. history sample_ids (empty_engine story_program) ops' (fst event_state) \<and>
     no_looks ops' = no_looks event_story \<and> snd event_state = [] @ new"
  by (rule evented_engine_refines [where source = "''urn:demo''"])
    (simp_all add: event_story_def event_state_def sample_host_def sample_host_at_def)

definition accrued :: "(engine_error + catalog response) \<times> engine \<times> cloud_event list" where
  "accrued = evented_postAccrual sample_host ''urn:demo'' (sample_accrual ''o1'' ''ann'') event_state"

lemma accrued_once:
  "js_get (eg_idempotency (fst event_state)) (once_key ''accrual.post'' (oq_context (sample_accrual ''o1'' ''ann''))) = None"
  "succeeds (fst accrued)" "map ev_id (snd (snd accrued)) = [''evt-enrolled-ann'', ''evt-accrued-ledger_'']"
  by code_simp+

text \<open>The order is sent again at a later time.\<close>

theorem replays_repeat_events_witness:
  "\<exists>issued first again r'. snd (snd accrued) = snd event_state @ issued @ first \<and> ev_type ` set issued \<subseteq> {Event_issued} \<and>
     evented_postAccrual (sample_host_at 1767225660000) ''urn:demo'' (sample_accrual ''o1'' ''ann'') (snd accrued) =
       (Inr r', (fst (snd accrued), snd (snd accrued) @ again)) \<and> map event_identity again = map event_identity first"
proof -
  obtain r where r: "fst accrued = Inr r" using accrued_once(2) by (auto simp: succeeds_def split: sum.splits)
  have first: "evented_postAccrual sample_host ''urn:demo'' (sample_accrual ''o1'' ''ann'') (fst event_state, snd event_state) =
      (Inr r, (fst (snd accrued), snd (snd accrued)))"
    using r by (simp add: accrued_def [symmetric] prod_eq_iff)
  have same: "fingerprintV2 (sample_host_at 1767225660000) q = fingerprintV2 sample_host q" for q
    by (simp add: sample_host_def sample_host_at_def fingerprintV2_def)
  from replays_repeat_events [OF accrued_once(1) first, where ops = "[]" and h' = "sample_host_at 1767225660000"
      and q' = "sample_accrual ''o1'' ''ann''" and t = "fst (snd accrued)" and ?es2.0 = "snd (snd accrued)", OF _ _ refl same]
  show ?thesis by simp
qed

end
