(* ===== verification/Engine_Restore.thy ===== *)
theory Engine_Restore
  imports Account_Books Sample_Story
begin

text \<open>
  Restarting: the state an engine exports restores it. The maps of a reachable engine have
  distinct keys, its members are stored under their own ids and every member has all
  accounts of the program (\<open>restorable\<close>); for such an engine \<open>hydrate\<close> of \<open>exportState\<close> is
  the identity.
\<close>

section \<open>The invariant\<close>

definition maps_ok :: "engine \<Rightarrow> bool" where
  "maps_ok s \<longleftrightarrow>
     keys_ok (eg_members s) \<and> keys_ok (eg_identityIndex s) \<and> keys_ok (eg_points s) \<and> keys_ok (eg_reservations s) \<and>
     keys_ok (eg_ledger s) \<and> keys_ok (eg_pointLots s) \<and> keys_ok (eg_pointLotConsumptions s) \<and>
     keys_ok (eg_idempotency s) \<and> keys_ok (eg_accrualsByOrder s) \<and> keys_ok (eg_adjustments s) \<and>
     keys_ok (eg_reservationsByRedemption s) \<and> keys_ok (eg_issuedRewards s)"

definition accounts_open :: "engine \<Rightarrow> string \<Rightarrow> bool" where
  "accounts_open s m \<longleftrightarrow> (\<forall>u \<in> set (accountUnits (eg_program s)). js_has (eg_points s) (balanceKey (eg_program s) m u))"

definition members_filed :: "engine \<Rightarrow> bool" where
  "members_filed s \<longleftrightarrow> (\<forall>k m. js_get (eg_members s) k = Some m \<longrightarrow> mb_member_id m = k \<and> accounts_open s k)"

definition restorable :: "engine \<Rightarrow> bool" where
  "restorable s \<longleftrightarrow> maps_ok s \<and> members_filed s"

definition stays_restorable :: "engine \<Rightarrow> engine \<Rightarrow> bool" where
  "stays_restorable s t \<longleftrightarrow> (restorable s \<longrightarrow> restorable t)"

interpretation restorable_effect: engine_effect stays_restorable
  by unfold_locales (auto simp: stays_restorable_def)

lemma has_set [simp]: "js_has (js_set m k v) x \<longleftrightarrow> x = k \<or> js_has m x"
  by (auto simp: js_has_def)

lemma has_update [simp]: "js_has (js_update m k f) x \<longleftrightarrow> js_has m x"
  by (simp add: js_has_iff flip: set_map)

text \<open>Writes that leave the members and the program alone and only add accounts.\<close>

lemma stays_maps:
  assumes "maps_ok s \<Longrightarrow> maps_ok t" "eg_members t = eg_members s" "eg_program t = eg_program s"
    "\<And>k. js_has (eg_points s) k \<Longrightarrow> js_has (eg_points t) k"
  shows "stays_restorable s t"
  using assms by (fastforce simp: stays_restorable_def restorable_def members_filed_def accounts_open_def)

lemma has_opened: "js_has m k \<Longrightarrow> js_has (foldl (\<lambda>m u. js_set m (f u) x) m us) k"
  by (induction us arbitrary: m) simp_all

lemma opened: "u \<in> set us \<Longrightarrow> js_has (foldl (\<lambda>m u. js_set m (f u) x) m us) (f u)"
  by (induction us arbitrary: m) (auto intro: has_opened)

lemma ok_opened: "keys_ok m \<Longrightarrow> keys_ok (foldl (\<lambda>m u. js_set m (f u) x) m us)"
  by (induction us arbitrary: m) simp_all

lemma ok_deleted: "keys_ok m \<Longrightarrow> keys_ok (foldl (\<lambda>m i. js_delete m (f i)) m ks)"
  by (induction ks arbitrary: m) simp_all

lemma stays_add_member: "stays_restorable s (add_member k x s)"
proof -
  have "accounts_open (add_member k x s) i" if "i = mb_member_id x \<or> accounts_open s i" for i
    using that
    by (auto simp: accounts_open_def add_member_def open_accounts_def intro: has_opened
        opened [where f = "balanceKey (eg_program s) (mb_member_id x)"])
  then show ?thesis
    by (auto simp: stays_restorable_def restorable_def maps_ok_def members_filed_def ok_opened
        add_member_def open_accounts_def)
qed

text \<open>Writes to a member keep its id.\<close>

lemma stays_members:
  assumes "maps_ok s \<Longrightarrow> maps_ok t" "eg_program t = eg_program s" "eg_points t = eg_points s"
    "\<And>k m. js_get (eg_members t) k = Some m \<Longrightarrow> \<exists>m'. js_get (eg_members s) k = Some m' \<and> mb_member_id m = mb_member_id m'"
  shows "stays_restorable s t"
  using assms by (fastforce simp: stays_restorable_def restorable_def members_filed_def accounts_open_def)

lemma stays_set_member: "(\<And>x. mb_member_id (y x) = mb_member_id x) \<Longrightarrow> stays_restorable s (set_member m y s)"
  by (rule stays_members) (auto simp: set_member_def maps_ok_def split: if_splits)

lemma stays_erase: "js_get (eg_members s) m = Some x \<Longrightarrow> stays_restorable s (erase_writes m x s)"
  by (rule stays_members) (auto simp: erase_writes_def erased_member_def maps_ok_def ok_deleted split: if_splits)

text \<open>Adopting a program opens what is missing.\<close>

lemma missing_opened:
  "js_has (eg_points (open_missing i s)) k \<longleftrightarrow>
     js_has (eg_points s) k \<or> k \<in> balanceKey (eg_program s) i ` set (accountUnits (eg_program s))"
  "keys_ok (eg_points s) \<Longrightarrow> keys_ok (eg_points (open_missing i s))"
proof -
  have "js_has (foldl (\<lambda>m u. if js_has m (f u) then m else js_set m (f u) 0) m us) k \<longleftrightarrow> js_has m k \<or> k \<in> f ` set us"
    for m :: "(string, int) jsmap" and f :: "loyalty_unit \<Rightarrow> string" and us
    by (induction us arbitrary: m) auto
  then show "js_has (eg_points (open_missing i s)) k \<longleftrightarrow>
     js_has (eg_points s) k \<or> k \<in> balanceKey (eg_program s) i ` set (accountUnits (eg_program s))"
    by (simp add: open_missing_def Let_def)
  have "keys_ok m \<Longrightarrow> keys_ok (foldl (\<lambda>m u. if js_has m (f u) then m else js_set m (f u) 0) m us)"
    for m :: "(string, int) jsmap" and f :: "loyalty_unit \<Rightarrow> string" and us
    by (induction us arbitrary: m) auto
  then show "keys_ok (eg_points s) \<Longrightarrow> keys_ok (eg_points (open_missing i s))"
    by (simp add: open_missing_def Let_def)
qed

lemma missing_program [simp]: "eg_program (open_missing i s) = eg_program s"
  by (simp add: open_missing_def)

lemma all_opened:
  "js_has (eg_points (foldl (\<lambda>t i. open_missing i t) s is)) k \<longleftrightarrow>
     js_has (eg_points s) k \<or> (\<exists>i \<in> set is. k \<in> balanceKey (eg_program s) i ` set (accountUnits (eg_program s)))"
  "keys_ok (eg_points s) \<Longrightarrow> keys_ok (eg_points (foldl (\<lambda>t i. open_missing i t) s is))"
  by (induction "is" arbitrary: s) (auto simp: missing_opened)

lemma stays_adopt: "stays_restorable s (adopt_program p s)"
proof -
  have "accounts_open (adopt_program p s) k" if "js_get (eg_members s) k = Some m" for k m
    using js_get_mem [OF that] all_opened(1) [of "s\<lparr>eg_program := p\<rparr>"]
    by (auto simp: accounts_open_def adopt_program_def [symmetric]) (force simp: adopt_program_def)
  moreover have "maps_ok s \<Longrightarrow> maps_ok (adopt_program p s)"
    using all_opened(2) [of "s\<lparr>eg_program := p\<rparr>"] by (simp add: maps_ok_def) (simp add: adopt_program_def)
  ultimately show ?thesis
    by (auto simp: stays_restorable_def restorable_def members_filed_def)
qed

lemma keeps_restore_lots: "m_keeps stays_restorable (restorePointLots rid)"
proof -
  have "m_keeps stays_restorable (restore_lot c)" for c
    by (auto simp: m_keeps_def restore_lot_def restorable_effect.R_refl maps_ok_def split: option.splits intro!: stays_maps)
  then show ?thesis
    unfolding restorePointLots_def
    by (intro restorable_effect.keeps_bind restorable_effect.keeps_get restorable_effect.keeps_map
        restorable_effect.keeps_modify stays_maps) (auto simp: maps_ok_def)
qed

lemma stays_post: "stays_restorable s (post_entry i e s)"
  by (rule stays_maps) (auto simp: post_entry_def maps_ok_def Let_def)

lemma ok_debited: "keys_ok m \<Longrightarrow> keys_ok (foldl debit_lot m ts)"
  by (induction ts arbitrary: m) (simp_all add: debit_lot_def split: prod.splits)

interpretation restorable_all: total_relation stays_restorable h for h
proof unfold_locales
qed (auto intro!: restorable_effect.keeps_once_of_store restorable_effect.keeps_expire_lots_of restorable_effect.keeps_add_of
    restorable_effect.keeps_consume_of restorable_effect.keeps_issue_run_of keeps_restore_lots
    restorable_effect.keeps_modify stays_add_member stays_set_member stays_erase stays_adopt stays_post
    simp: effect_defs m_keeps_def [of _ "draw_id _ _"],
    (rule stays_maps; auto simp: maps_ok_def store_response_def apply_consumption_def set_reservation_def
      put_reservation_def put_issued_def set_issued_def record_accrual_def record_adjustment_def set_remaining_def ok_debited)+)

lemma history_restorable: "history ids s ops t \<Longrightarrow> restorable s \<Longrightarrow> restorable t"
  using history_keeps [of ids s ops t stays_restorable] restorable_all.keeps_perform
    restorable_effect.effect_relation_axioms
  by (simp add: stays_restorable_def)

lemma empty_restorable: "restorable (empty_engine p)"
  by (simp add: restorable_def maps_ok_def members_filed_def empty_engine_def)

section \<open>The program an engine runs\<close>

definition same_program :: "engine \<Rightarrow> engine \<Rightarrow> bool" where
  "same_program s t \<longleftrightarrow> eg_program t = eg_program s"

interpretation program_effect: engine_effect same_program
  by unfold_locales (auto simp: same_program_def)

lemma same_program_post: "same_program s (post_entry i e s)"
  by (simp add: same_program_def post_entry_def Let_def)

interpretation program_stays: running_relation same_program h for h
proof unfold_locales
qed (auto intro!: program_effect.keeps_once_of_store program_effect.keeps_expire_lots_of program_effect.keeps_add_of
    program_effect.keeps_consume_of program_effect.keeps_issue_run_of program_effect.keeps_restore_of
    program_effect.keeps_modify same_program_post
    simp: effect_defs m_keeps_def [of _ "draw_id _ _"],
    (simp add: same_program_def writer_defs)+)

lemma run_same_program: "m_keeps same_program m \<Longrightarrow> m s = (r, t) \<Longrightarrow> eg_program t = eg_program s"
  by (drule program_effect.keeps_run) (auto simp: same_program_def)

lemma reconfigure_result:
  assumes "reconfigureProgram h p s = (r, t)"
  shows "r = Inr () \<Longrightarrow> eg_program t = p \<and> program_ok h p \<and> assertCompatibleProgramUpdate (eg_program s) p = Inr ()"
    and "r = Inl e \<Longrightarrow> eg_program t = eg_program s"
proof -
  have used: "m_keeps same_program (m_exists (account_in_use h p) us)" for us
    unfolding account_in_use_def by (intro program_stays.keeps_lib)
  have "(r = Inr () \<longrightarrow> eg_program t = p \<and> program_ok h p \<and> assertCompatibleProgramUpdate (eg_program s) p = Inr ()) \<and>
      (\<forall>e. r = Inl e \<longrightarrow> eg_program t = eg_program s)"
    using assms
    by (auto simp: reconfigureProgram_def m_bind_lift m_bind_assert program_ok_def m_bind_def [of "m_exists _ _"]
        m_modify_def split: sum.splits if_splits prod.splits dest: run_same_program [OF used])
  then show "r = Inr () \<Longrightarrow> eg_program t = p \<and> program_ok h p \<and> assertCompatibleProgramUpdate (eg_program s) p = Inr ()"
    and "r = Inl e \<Longrightarrow> eg_program t = eg_program s" by auto
qed

section \<open>The clock does not matter\<close>

lemma checks_time:
  "tier_policy_ok (h\<lparr>h_now := t\<rparr>) p = tier_policy_ok h p" "reward_ok (h\<lparr>h_now := t\<rparr>) p = reward_ok h p"
  by (auto simp: tier_policy_ok_def reward_ok_def availability_ok_def fun_eq_iff split: option.splits)

lemma program_ok_time [simp]: "program_ok (h\<lparr>h_now := t\<rparr>) p = program_ok h p"
  by (simp add: program_ok_def check_program_def assertProgram_def rewards_ok_def checks_time)

lemma fingerprint_time [simp]: "programDefinitionFingerprint (h\<lparr>h_now := t\<rparr>) p = programDefinitionFingerprint h p"
  by (simp add: programDefinitionFingerprint_def fp_def)

definition at_times :: "host \<Rightarrow> (host \<times> 'a) list \<Rightarrow> bool" where
  "at_times h ops = list_all (\<lambda>(g, _). \<exists>t. g = h\<lparr>h_now := t\<rparr>) ops"

lemma perform_program_ok:
  assumes "program_ok h (eg_program s)"
  shows "program_ok h (eg_program (snd (perform (h\<lparr>h_now := t\<rparr>) q s)))"
proof (cases "q \<in> range Op_reconfigureProgram")
  case True
  then obtain p where q: "q = Op_reconfigureProgram p" by blast
  obtain r s' where run: "reconfigureProgram (h\<lparr>h_now := t\<rparr>) p s = (r, s')" by (cases "reconfigureProgram (h\<lparr>h_now := t\<rparr>) p s")
  show ?thesis
    using reconfigure_result [OF run] assms q run by (cases r) simp_all
next
  case False
  then have "same_program s (snd (perform (h\<lparr>h_now := t\<rparr>) q s))"
    using program_stays.keeps_perform_running by (simp add: m_keeps_def)
  with assms show ?thesis by (simp add: same_program_def)
qed

lemma history_program_ok:
  "history ids s ops t \<Longrightarrow> at_times h ops \<Longrightarrow> program_ok h (eg_program s) \<Longrightarrow> program_ok h (eg_program t)"
  by (induction rule: history.induct) (auto simp: at_times_def intro: perform_program_ok)

section \<open>Hydrating an export\<close>

lemma set_all_fresh:
  assumes "keys_ok (target @ entries)"
  shows "set_all entries target = target @ entries"
  using assms
proof (induction entries arbitrary: target)
  case (Cons kv es)
  obtain k v where kv: "kv = (k, v)" by (cases kv)
  with Cons.prems have fresh: "js_get target k = None"
    by (auto simp: keys_ok_def map_of_eq_None_iff)
  have "set_all (kv # es) target = set_all es (target @ [(k, v)])"
    by (simp add: set_all_def kv js_set_fresh [OF fresh])
  with Cons kv show ?case by simp
qed (simp add: set_all_def)

lemma restore_run:
  "keys_ok es \<Longrightarrow> m_bind (restoreMap es write) f s = f () (write s)" "keys_ok es \<Longrightarrow> restoreMap es write s = (Inr (), write s)"
  by (simp_all add: restoreMap_def m_bind_def m_assert_def m_modify_def m_return_def)

lemma set_all_Nil: "keys_ok m \<Longrightarrow> set_all m [] = m"
  using set_all_fresh [of "[]" m] by simp

lemma restored:
  assumes "maps_ok s"
  shows "restore_maps (exportState h s) (empty_engine p\<lparr>eg_id_count := n\<rparr>) = (Inr (), s\<lparr>eg_program := p, eg_id_count := n\<rparr>)"
  using assms
  by (simp add: restore_maps_def restore_run maps_ok_def exportState_def stored_issued_def empty_engine_def set_all_Nil)

lemma nothing_missing:
  assumes "accounts_open s k"
  shows "open_missing k s = s"
proof -
  have "foldl (\<lambda>m u. if js_has m (f u) then m else js_set m (f u) 0) m us = m"
    if "\<forall>u \<in> set us. js_has m (f u)" for m :: "(string, int) jsmap" and f :: "loyalty_unit \<Rightarrow> string" and us
    using that by (induction us) simp_all
  with assms show ?thesis by (simp add: open_missing_def accounts_open_def Let_def)
qed

lemma primary_account: "accounts_ok (eg_program s) \<Longrightarrow> accounts_open s k \<Longrightarrow> js_has (eg_points s) k"
  using primary_configured(1) [of "eg_program s"] by (auto simp: accounts_open_def balanceKey_def units_of_def accountUnits_def)

lemma checked:
  assumes "accounts_ok (eg_program s)" "\<forall>(k, m) \<in> set ms. mb_member_id m = k \<and> accounts_open s k"
  shows "m_map check_member ms s = (Inr (replicate (length ms) ()), s)"
  using assms(2)
proof (induction ms)
  case (Cons km ms)
  then have "check_member km s = (Inr (), s)"
    using primary_account [OF assms(1)] nothing_missing
    by (auto simp: check_member_def m_bind_def m_get_def m_assert_def m_modify_def m_return_def)
  with Cons show ?case by (simp add: m_bind_def m_return_def)
qed (simp add: m_return_def)

lemma hydrated:
  assumes "restorable s" "program_ok h (eg_program s)"
  shows "construct (h\<lparr>h_now := t'\<rparr>) n (eg_program s) (Some (exportState (h\<lparr>h_now := t\<rparr>) s)) = Inr (s\<lparr>eg_id_count := n\<rparr>)"
proof -
  let ?h = "h\<lparr>h_now := t'\<rparr>" and ?st = "exportState (h\<lparr>h_now := t\<rparr>) s" and ?s = "s\<lparr>eg_id_count := n\<rparr>"
  have "\<forall>(k, m) \<in> set (eg_members s). mb_member_id m = k \<and> accounts_open ?s k"
    using assms(1) js_get_iff_mem by (fastforce simp: restorable_def members_filed_def maps_ok_def accounts_open_def)
  then have members: "m_map check_member (eg_members s) ?s = (Inr (replicate (length (eg_members s)) ()), ?s)"
    using program_ok_asserted(8) [OF assms(2)] by (intro checked) simp_all
  have "restore_maps ?st (empty_engine (eg_program s)\<lparr>eg_id_count := n\<rparr>) = (Inr (), ?s)"
    using restored [where s = s and h = "h\<lparr>h_now := t\<rparr>" and p = "eg_program s" and n = n] assms(1) by (simp add: restorable_def)
  then have "hydrate ?h ?st (empty_engine (eg_program s)\<lparr>eg_id_count := n\<rparr>) = (Inr (), ?s)"
    using members
    by (simp add: hydrate_def m_bind_def [of "restore_maps _"] m_bind_def [of "m_map _ _"] exportState_def)
       (simp add: m_bind_def m_get_def m_assert_def m_return_def empty_engine_def)
  moreover have "check_program ?h (eg_program s) = Inr ()"
    using assms(2) program_ok_time [where h = h and t = t'] by (simp add: program_ok_def)
  ultimately show ?thesis by (simp add: construct_def Let_def)
qed

section \<open>Hydrating under another program\<close>

text \<open>
  The state of an engine that ran a compatible program, with the fingerprint replaced, makes
  the engine that adopting the program would have made.
\<close>

lemma checked_under:
  assumes "\<forall>(k, m) \<in> set ms. mb_member_id m = k \<and> js_has (eg_points s) k"
  shows "m_map check_member ms s = (Inr (replicate (length ms) ()), foldl (\<lambda>t i. open_missing i t) s (map fst ms))"
  using assms
proof (induction ms arbitrary: s)
  case (Cons km ms)
  then have "check_member km s = (Inr (), open_missing (fst km) s)"
    by (auto simp: check_member_def m_bind_def m_get_def m_assert_def m_modify_def m_return_def)
  moreover have "\<forall>(k, m) \<in> set ms. mb_member_id m = k \<and> js_has (eg_points (open_missing (fst km) s)) k"
    using Cons.prems by (auto simp: missing_opened)
  ultimately show ?case using Cons.IH by (simp add: m_bind_def m_return_def)
qed (simp add: m_return_def)

lemma hydrated_under:
  assumes "restorable s" "program_ok h (eg_program s)" "program_ok h q"
    and "assertCompatibleProgramUpdate (eg_program s) q = Inr ()"
  shows "construct (h\<lparr>h_now := t'\<rparr>) n q
      (Some (exportState (h\<lparr>h_now := t\<rparr>) s\<lparr>es_program_fingerprint := programDefinitionFingerprint h q\<rparr>)) =
    Inr ((adopt_program q s)\<lparr>eg_id_count := n\<rparr>)"
proof -
  let ?h = "h\<lparr>h_now := t'\<rparr>" and ?st = "exportState (h\<lparr>h_now := t\<rparr>) s\<lparr>es_program_fingerprint := programDefinitionFingerprint h q\<rparr>"
    and ?s = "s\<lparr>eg_program := q, eg_id_count := n\<rparr>"
  have "\<forall>(k, m) \<in> set (eg_members s). mb_member_id m = k \<and> js_has (eg_points ?s) k"
    using assms(1) js_get_iff_mem primary_account [OF program_ok_asserted(8) [OF assms(2)]]
    by (fastforce simp: restorable_def members_filed_def maps_ok_def)
  then have members: "m_map check_member (eg_members s) ?s =
      (Inr (replicate (length (eg_members s)) ()), foldl (\<lambda>t i. open_missing i t) ?s (map fst (eg_members s)))"
    by (rule checked_under)
  have adopted: "foldl (\<lambda>t i. open_missing i t) ?s (map fst (eg_members s)) = (adopt_program q s)\<lparr>eg_id_count := n\<rparr>"
  proof -
    have "open_missing i (u\<lparr>eg_id_count := n\<rparr>) = (open_missing i u)\<lparr>eg_id_count := n\<rparr>" for i u
      by (simp add: open_missing_def)
    then have "foldl (\<lambda>t i. open_missing i t) (u\<lparr>eg_id_count := n\<rparr>) is = (foldl (\<lambda>t i. open_missing i t) u is)\<lparr>eg_id_count := n\<rparr>"
      for u :: engine and "is"
      by (induction "is" arbitrary: u) simp_all
    then show ?thesis by (simp add: adopt_program_def)
  qed
  have "restore_maps ?st (empty_engine q\<lparr>eg_id_count := n\<rparr>) = (Inr (), ?s)"
    using restored [where s = s and h = "h\<lparr>h_now := t\<rparr>" and p = q and n = n] assms(1)
    by (simp add: restorable_def restore_maps_def exportState_def stored_issued_def)
  then have "hydrate ?h ?st (empty_engine q\<lparr>eg_id_count := n\<rparr>) = (Inr (), (adopt_program q s)\<lparr>eg_id_count := n\<rparr>)"
    using members adopted assms(4)
    by (simp add: hydrate_def m_bind_def [of "restore_maps _"] m_bind_def [of "m_map _ _"] exportState_def compatible_iff)
       (simp add: m_bind_def m_get_def m_assert_def m_return_def empty_engine_def)
  moreover have "check_program ?h q = Inr ()"
    using assms(3) program_ok_time [where h = h and t = t'] by (simp add: program_ok_def)
  ultimately show ?thesis by (simp add: construct_def Let_def)
qed

text \<open>Whatever is hydrated, an engine that results is restorable.\<close>

lemma restore_either:
  "m_bind (restoreMap es write) f s = (if keys_ok es then f () (write s) else (Inl (EngineError Invalid_state 500), s))"
  "restoreMap es write s = (if keys_ok es then (Inr (), write s) else (Inl (EngineError Invalid_state 500), s))"
  by (simp_all add: restoreMap_def m_bind_def m_assert_def m_modify_def m_return_def m_throw_def)

lemma restore_maps_ok:
  assumes "restore_maps st (empty_engine q\<lparr>eg_id_count := n\<rparr>) = (Inr u, s)"
  shows "maps_ok s" "eg_program s = q"
proof -
  have "maps_ok s \<and> eg_program s = q"
    using assms
    by (auto simp: restore_maps_def restore_either set_all_Nil empty_engine_def maps_ok_def split: if_splits)
  then show "maps_ok s" "eg_program s = q" by auto
qed

lemma checked_members:
  assumes "m_map check_member ms s = (Inr us, t)"
  shows "\<forall>(k, m) \<in> set ms. mb_member_id m = k" "t = foldl (\<lambda>t i. open_missing i t) s (map fst ms)"
proof -
  have "(\<forall>(k, m) \<in> set ms. mb_member_id m = k) \<and> t = foldl (\<lambda>t i. open_missing i t) s (map fst ms)"
    using assms
  proof (induction ms arbitrary: s us)
    case (Cons km ms)
    have "check_member km s = (if mb_member_id (snd km) = fst km \<and> js_has (eg_points s) (fst km)
        then (Inr (), open_missing (fst km) s) else (Inl (EngineError Invalid_state 500), s))"
      by (simp add: check_member_def m_bind_def m_get_def m_assert_def m_modify_def m_return_def m_throw_def)
    with Cons.prems obtain vs where "mb_member_id (snd km) = fst km" "m_map check_member ms (open_missing (fst km) s) = (Inr vs, t)"
      by (auto simp: m_bind_def [of "check_member km"] m_bind_def [of "m_map _ _"] m_return_def split: if_splits prod.splits sum.splits)
    with Cons.IH show ?case by (auto split: prod.split)
  qed (simp add: m_return_def)
  then show "\<forall>(k, m) \<in> set ms. mb_member_id m = k" "t = foldl (\<lambda>t i. open_missing i t) s (map fst ms)" by auto
qed

lemma opened_frame [simp]:
  "eg_members (foldl (\<lambda>t i. open_missing i t) s is) = eg_members s"
  "eg_program (foldl (\<lambda>t i. open_missing i t) s is) = eg_program s"
  by (induction "is" arbitrary: s) (simp_all add: open_missing_def)

lemma opened_maps: "maps_ok s \<Longrightarrow> maps_ok (foldl (\<lambda>t i. open_missing i t) s is)"
proof (induction "is" arbitrary: s)
  case (Cons i xs)
  have "maps_ok (open_missing i s)"
    using Cons.prems missing_opened(2) [of s i] by (simp add: maps_ok_def) (simp add: open_missing_def)
  with Cons.IH show ?case by simp
qed simp

lemma constructed_restorable:
  assumes "construct h n q st = Inr e"
  shows "restorable e" "eg_program e = q" "program_ok h q"
proof -
  have "restorable e \<and> eg_program e = q"
  proof (cases st)
    case None
    with assms show ?thesis
      by (auto simp: construct_def Let_def restorable_def maps_ok_def members_filed_def empty_engine_def split: sum.splits)
  next
    case (Some x)
    let ?s = "empty_engine q\<lparr>eg_id_count := n\<rparr>"
    obtain s u where s: "restore_maps x ?s = (Inr u, s)"
      and "m_bind (m_map check_member (eg_members s)) (\<lambda>_. m_return ()) s = (Inr (), e)"
      using assms Some
      by (auto simp: construct_def Let_def hydrate_def m_bind_assert m_bind_def [of "restore_maps _"] split: sum.splits prod.splits if_splits)
    then obtain us where us: "m_map check_member (eg_members s) s = (Inr us, e)"
      by (auto simp: m_bind_def m_return_def split: sum.splits prod.splits)
    note s_ok = restore_maps_ok [OF s] and e_ok = checked_members [OF us]
    have "accounts_open e k \<and> mb_member_id m = k" if "js_get (eg_members e) k = Some m" for k m
    proof -
      have "(k, m) \<in> set (eg_members s)" using that e_ok(2) js_get_mem by fastforce
      with e_ok show ?thesis by (force simp: accounts_open_def all_opened(1))
    qed
    then show ?thesis
      using s_ok e_ok(2) opened_maps by (auto simp: restorable_def members_filed_def)
  qed
  then show "restorable e" "eg_program e = q" by auto
  show "program_ok h q" using assms by (auto simp: construct_def program_ok_def split: sum.splits)
qed

section \<open>Restarting\<close>

lemma reached_restorable:
  "history ids (empty_engine p) ops s \<Longrightarrow> program_ok h p \<Longrightarrow> at_times h ops \<Longrightarrow> restorable s \<and> program_ok h (eg_program s)"
  using history_restorable [OF _ empty_restorable] history_program_ok [of ids "empty_engine p" ops s h]
  by (simp add: empty_engine_def)

text \<open>
  C36. A restart restores the engine: after any history, constructing an engine from the
  exported state, at any later time, succeeds and gives exactly the engine that was exported,
  every member, balance, lot, ledger entry, reservation, issued reward and cached response; only
  the id generator is the new engine's own.
\<close>

theorem restart_restores_engine:
  assumes "program_ok h p" "history (h_ids h) (empty_engine p) ops s" "at_times h ops"
  shows "construct (h\<lparr>h_now := t'\<rparr>) n (eg_program s) (Some (exportState (h\<lparr>h_now := t\<rparr>) s)) = Inr (s\<lparr>eg_id_count := n\<rparr>)"
  using reached_restorable [OF assms(2,1,3)] by (auto intro: hydrated)

lemma story_times: "at_times sample_host sample_story"
  by (auto simp: at_times_def sample_story_def sample_host_def sample_host_at_def)

lemma restart_restores_engine_witness:
  "construct (sample_host_at 1767225720000) 0 (eg_program story_state) (Some (exportState sample_host story_state)) =
     Inr (story_state\<lparr>eg_id_count := 0\<rparr>)"
proof -
  have "program_ok sample_host story_program" by code_simp
  moreover have "history (h_ids sample_host) (empty_engine story_program) sample_story story_state"
    using story_runs by (simp add: sample_host_def sample_host_at_def)
  ultimately show ?thesis
    using restart_restores_engine [where h = sample_host and p = story_program and ops = sample_story and s = story_state
        and t = "h_now sample_host" and t' = 1767225720000 and n = 0] story_times
    by (simp add: sample_host_def sample_host_at_def)
qed

end
