(* ===== verification/Service_Engine.thy ===== *)
theory Service_Engine
  imports Server_Store Engine_Admin
begin

text \<open>
  What the services of packages/server share that work on the loyalty engine: a service
  over its store, beside the running engine and the engine state stored last
  (\<open>persistEngine(engine.exportState())\<close>). \<open>executeEngineOperation\<close> runs its argument, as in
  the single-writer runtime. What was done before an exception stays done.
\<close>

type_synonym platform = "engine \<times> engine_state option"

type_synonym ('s, 'w, 'a) with_world_eff = "('s service \<times> 'w, service_error, 'a) eff"

type_synonym ('s, 'a) platform_eff = "('s service \<times> platform, service_error, 'a) eff"

definition on_service :: "('s, 'a) service_eff \<Rightarrow> ('s, 'w, 'a) with_world_eff" where
  "on_service m sw = (case m (fst sw) of (r, s) \<Rightarrow> (r, (s, snd sw)))"

definition on_engine :: "'a engine_eff \<Rightarrow> ('s, 'a) platform_eff" where
  "on_engine m sw =
     (case m (fst (snd sw)) of
        (Inl e, t) \<Rightarrow> (Inl (Engine_error e), (fst sw, (t, snd (snd sw))))
      | (Inr v, t) \<Rightarrow> (Inr v, (fst sw, (t, snd (snd sw)))))"

definition persist_engine :: "host \<Rightarrow> ('s, unit) platform_eff" where
  "persist_engine h = m_modify (\<lambda>(s, (e, st)). (s, (e, Some (exportState h e))))"

text \<open>\<open>try { m } catch (error)\<close> that goes on: the outcome as a value.\<close>

definition attempt :: "('s, 'e, 'a) eff \<Rightarrow> ('s, 'f, 'e + 'a) eff" where
  "attempt m s = (case m s of (r, t) \<Rightarrow> (Inr r, t))"

lemma on_service_runs [simp]:
  "m_bind (on_service (sv_check ok c n)) f sw =
     (if ok then f () sw else (Inl (Engine_error (EngineError c n)), sw))"
  "m_bind (on_service (sv_get g)) f' sw = f' (g (sv_state (fst sw))) sw"
  "m_bind (on_service (sv_change u)) f sw = f () ((fst sw)\<lparr>sv_state := u (sv_state (fst sw))\<rparr>, snd sw)"
  "m_bind (on_service (sv_draw h p)) f'' sw =
     f'' (h_ids h p (sv_draws (fst sw))) ((fst sw)\<lparr>sv_draws := Suc (sv_draws (fst sw))\<rparr>, snd sw)"
  "on_service (sv_throw c n) sw = (Inl (Engine_error (EngineError c n)), sw)"
  by (simp_all add: on_service_def m_bind_def sv_check_def m_assert_def sv_get_def sv_change_def sv_draw_def sv_throw_def)

lemma on_service_saves:
  assumes "sole_writer s"
  obtains t where "m_bind (on_service sv_save) f (s, w) = f () (t, w)" "synced t" "sv_state t = sv_state s" "sv_draws t = sv_draws s"
  using assms by (elim save_syncs) (auto simp: on_service_def m_bind_def intro: that)

end
