(* ===== verification/Csv_Rows.thy ===== *)
theory Csv_Rows
  imports Js_Text Program_Config
begin

text \<open>
  Comma-separated values: \<open>csvRows\<close>, the parser of packages/server/src/customer-data.ts, and
  \<open>csvCell\<close>, the writer of packages/server/src/engagement.ts.
\<close>

section \<open>Reading\<close>

abbreviation dquote :: char where "dquote \<equiv> CHR 0x22"
abbreviation newline :: char where "newline \<equiv> CHR 0x0A"
abbreviation carriage :: char where "carriage \<equiv> CHR 0x0D"

definition strip_cr :: "string \<Rightarrow> string" where
  "strip_cr t = (if t \<noteq> [] \<and> last t = carriage then butlast t else t)"

text \<open>The loop: whether it is inside quotes, the field, the row and the rows read so far.\<close>

fun csv_scan :: "bool \<Rightarrow> string \<Rightarrow> string list \<Rightarrow> string list list \<Rightarrow> string \<Rightarrow> bool \<times> string \<times> string list \<times> string list list" where
  "csv_scan quoted field row rows [] = (quoted, field, row, rows)"
| "csv_scan True field row rows (c # cs) =
     (if c = dquote
      then (case cs of
              d # ds \<Rightarrow> if d = dquote then csv_scan True (field @ [dquote]) row rows ds else csv_scan False field row rows cs
            | [] \<Rightarrow> csv_scan False field row rows cs)
      else csv_scan True (field @ [c]) row rows cs)"
| "csv_scan False field row rows (c # cs) =
     (if c = dquote then csv_scan True field row rows cs
      else if c = CHR '','' then csv_scan False [] (row @ [field]) rows cs
      else if c = newline then csv_scan False [] [] (rows @ [row @ [strip_cr field]]) cs
      else csv_scan False (field @ [c]) row rows cs)"

definition blank_row :: "string list \<Rightarrow> bool" where
  "blank_row row = list_all (\<lambda>v. trim v = []) row"

definition csvRows :: "string \<Rightarrow> engine_error + string list list" where
  "csvRows input =
     (case csv_scan False [] [] [] input of
        (quoted, field, row, rows) \<Rightarrow>
          if quoted then Inl (EngineError Validation_failed 422)
          else Inr (filter (\<lambda>r. \<not> blank_row r)
                 (if field \<noteq> [] \<or> row \<noteq> [] then rows @ [row @ [strip_cr field]] else rows)))"

section \<open>Writing\<close>

text \<open>A cell that a spreadsheet would take for a formula gets an apostrophe in front.\<close>

definition formula_start :: "string \<Rightarrow> bool" where
  "formula_start t = (case t of [] \<Rightarrow> False | c # _ \<Rightarrow> c \<in> set ''=+-@'')"

definition csvCell :: "string \<Rightarrow> string" where
  "csvCell t =
     (let u = (if formula_start t then [CHR 0x27] @ t else t) in
      dquote # concat (map (\<lambda>c. if c = dquote then [dquote, dquote] else [c]) u) @ [dquote])"

fun join :: "string \<Rightarrow> string list \<Rightarrow> string" where
  "join sep [] = []"
| "join sep [t] = t"
| "join sep (t # ts) = t @ sep @ join sep ts"

definition csv_row :: "string list \<Rightarrow> string" where
  "csv_row cells = join '','' (map csvCell cells)"

definition csv_text :: "string list list \<Rightarrow> string" where
  "csv_text rows = join [newline] (map csv_row rows)"

text \<open>The text of \<open>memberExport\<close>: the columns, which are not quoted, and the rows.\<close>

definition export_columns :: "string list" where
  "export_columns =
     [''member_id'', ''status'', ''joined_at'', ''tier_id'', ''email'', ''phone'', ''marketing_consent'', ''balances'']"

definition export_text :: "string list list \<Rightarrow> string" where
  "export_text rows = join [newline] (join '','' export_columns # map csv_row rows)"

section \<open>Round trip\<close>

definition guarded :: "string \<Rightarrow> string" where
  "guarded t = (if formula_start t then [CHR 0x27] @ t else t)"

definition not_quoted :: "string \<Rightarrow> bool" where
  "not_quoted cs = (cs = [] \<or> hd cs \<noteq> dquote)"

text \<open>After the closing quote comes a separator or the end.\<close>

lemma scan_quoted:
  assumes "not_quoted cs"
  shows "csv_scan True field row rows (concat (map (\<lambda>c. if c = dquote then [dquote, dquote] else [c]) t) @ dquote # cs) =
     csv_scan False (field @ t) row rows cs"
proof (induction t arbitrary: field)
  case Nil
  show ?case using assms by (cases cs) (auto simp: not_quoted_def)
next
  case (Cons c t)
  show ?case using Cons [of "field @ [c]"] by (cases "c = dquote") simp_all
qed

lemma scan_cell: "not_quoted cs \<Longrightarrow> csv_scan False field row rows (csvCell t @ cs) = csv_scan False (field @ guarded t) row rows cs"
  using scan_quoted [of cs field row rows "guarded t"] by (simp add: csvCell_def guarded_def Let_def)

lemma not_quoted_simps [simp]: "not_quoted []" "not_quoted (c # cs) \<longleftrightarrow> c \<noteq> dquote"
  by (simp_all add: not_quoted_def)

lemma scan_row:
  assumes "cells \<noteq> []" "not_quoted cs"
  shows "csv_scan False [] row rows (csv_row cells @ cs) =
    csv_scan False (guarded (last cells)) (row @ map guarded (butlast cells)) rows cs"
  using assms(1)
proof (induction cells arbitrary: row)
  case (Cons t ts)
  show ?case
  proof (cases ts)
    case Nil
    with assms(2) show ?thesis by (simp add: csv_row_def scan_cell)
  next
    case (Cons u us)
    then have "csv_scan False [] row rows (csv_row (t # ts) @ cs) = csv_scan False [] (row @ [guarded t]) rows (csv_row ts @ cs)"
      by (simp add: csv_row_def scan_cell)
    then show ?thesis using Cons.IH [of "row @ [guarded t]"] Cons by simp
  qed
qed simp

lemma scan_text:
  assumes "[] \<notin> set rs" "rs \<noteq> []" "\<And>r. r \<in> set rs \<Longrightarrow> strip_cr (guarded (last r)) = guarded (last r)"
  shows "csv_scan False [] [] rows (csv_text rs) =
    (False, guarded (last (last rs)), map guarded (butlast (last rs)), rows @ map (map guarded) (butlast rs))"
  using assms
proof (induction rs arbitrary: rows)
  case (Cons r rs)
  show ?case
  proof (cases rs)
    case Nil
    with Cons.prems scan_row [of r "[]" "[]" rows] show ?thesis by (simp add: csv_text_def)
  next
    case (Cons u us)
    have r: "r \<noteq> []" "strip_cr (guarded (last r)) = guarded (last r)"
      using Cons.prems by auto
    have "map guarded (butlast r) @ [guarded (last r)] = map guarded r"
      using r(1) by (metis append_butlast_last_id list.simps(8,9) map_append)
    then have "csv_scan False [] [] rows (csv_text (r # rs)) = csv_scan False [] [] (rows @ [map guarded r]) (csv_text rs)"
      using scan_row [OF r(1), of "newline # csv_text rs" "[]" rows] r(2) Cons by (simp add: csv_text_def)
    then show ?thesis using Cons.IH [of "rows @ [map guarded r]"] Cons.prems Cons by simp
  qed
qed simp

text \<open>The header line is read as it is.\<close>

lemma scan_columns:
  "csv_scan False [] [] rows (join '','' export_columns @ newline # cs) = csv_scan False [] [] (rows @ [export_columns]) cs"
  by (simp add: export_columns_def strip_cr_def)

lemma read_rows:
  assumes "rs \<noteq> []" "\<And>r. r \<in> set rs \<Longrightarrow> r \<noteq> [] \<and> \<not> blank_row (map guarded r) \<and> strip_cr (guarded (last r)) = guarded (last r)"
    and "csv_scan False [] [] [] input = csv_scan False [] [] before (csv_text rs)" "list_all (\<lambda>r. \<not> blank_row r) before"
  shows "csvRows input = Inr (before @ map (map guarded) rs)"
proof -
  have "last rs \<in> set rs" using assms(1) by simp
  with assms(2) have last: "last rs \<noteq> []" "\<not> blank_row (map guarded (last rs))" "strip_cr (guarded (last (last rs))) = guarded (last (last rs))"
    by blast+
  have row: "map guarded (butlast (last rs)) @ [guarded (last (last rs))] = map guarded (last rs)"
    using last(1) by (metis append_butlast_last_id list.simps(8,9) map_append)
  have rows: "map (map guarded) (butlast rs) @ [map guarded (last rs)] = map (map guarded) rs"
    using assms(1) by (metis append_butlast_last_id list.simps(8,9) map_append)
  have kept: "filter (\<lambda>r. \<not> blank_row r) (before @ map (map guarded) rs) = before @ map (map guarded) rs"
    using assms(2,4) by (auto intro: filter_True simp: list_all_iff)
  have "\<not> (guarded (last (last rs)) = [] \<and> map guarded (butlast (last rs)) = [])"
    using last(2) row by (auto simp: blank_row_def trim_def)
  moreover have "csv_scan False [] [] [] input =
      (False, guarded (last (last rs)), map guarded (butlast (last rs)), before @ map (map guarded) (butlast rs))"
    unfolding assms(3) using scan_text [of rs before] assms(1,2) by (auto simp: strip_cr_def split: if_splits)
  ultimately have "csvRows input =
      Inr (filter (\<lambda>r. \<not> blank_row r) (before @ map (map guarded) (butlast rs) @ [map guarded (butlast (last rs)) @ [guarded (last (last rs))]]))"
    using last(3) by (auto simp: csvRows_def simp del: filter_append)
  then show ?thesis by (simp only: row rows kept)
qed

text \<open>
  The parser reads the exported table back: the columns and then the rows, whatever quotes,
  commas and line breaks the cells hold, for every table whose rows are neither empty nor
  blank and whose last cells do not end in a carriage return, up to the apostrophe that the
  writer puts in front of a cell a spreadsheet would take for a formula.
\<close>

lemma export_rows_read:
  assumes "\<And>r. r \<in> set rs \<Longrightarrow> r \<noteq> [] \<and> \<not> blank_row (map guarded r) \<and> strip_cr (guarded (last r)) = guarded (last r)"
  shows "csvRows (export_text rs) = Inr (export_columns # map (map guarded) rs)"
proof (cases "rs = []")
  case True
  have "csvRows (join '','' export_columns) = Inr [export_columns]"
    by code_simp
  with True show ?thesis by (simp add: export_text_def)
next
  case False
  then have "export_text rs = join '','' export_columns @ newline # csv_text rs"
    by (cases rs) (simp_all add: export_text_def csv_text_def)
  then have header: "csv_scan False [] [] [] (export_text rs) = csv_scan False [] [] [export_columns] (csv_text rs)"
    by (simp only: scan_columns append_Nil)
  have "list_all (\<lambda>r. \<not> blank_row r) [export_columns]" by code_simp
  from read_rows [OF False assms header this] show ?thesis by simp
qed

end
