(* ===== verification/Customer_Data.thy ===== *)
theory Customer_Data
  imports Service_Engine Csv_Rows Js_Stringify
begin

text \<open>
  packages/server/src/customer-data.ts: customer profiles, behavioural events and member
  imports beside the engine. \<open>JSON.parse\<close> of the attributes column is the parameter
  \<open>parse\<close>; SHA-256 of a serialised input is \<open>h_digest\<close>.
\<close>

section \<open>Data\<close>

record consent =
  ct_marketing :: bool
  ct_updated_at :: string
  ct_source :: string

record customer_profile =
  cu_member_id :: string
  cu_external_id :: "string option"
  cu_display_name :: "string option"
  cu_email :: "string option"
  cu_phone :: "string option"
  cu_birth_date :: "string option"
  cu_attributes :: "(string \<times> json) list"
  cu_consent :: consent
  cu_created_at :: string
  cu_updated_at :: string

record event_facts =
  ef_member_id :: string
  ef_type :: string
  ef_occurred_at :: string
  ef_source :: string
  ef_campaign_id :: "string option"
  ef_value_minor_units :: "int option"
  ef_currency :: "string option"
  ef_properties :: "(string \<times> json) list"

record customer_event =
  ce_event_id :: string
  ce_idempotency_key :: string
  ce_facts :: event_facts
  ce_received_at :: string

datatype import_status = Import_completed | Import_partial | Import_failed

record import_job =
  ij_import_id :: string
  ij_idempotency_key :: string
  ij_status :: import_status
  ij_submitted :: nat
  ij_created :: nat
  ij_updated :: nat
  ij_failed :: nat
  ij_errors :: "(nat \<times> service_error) list"
  ij_created_at :: string
  ij_completed_at :: string

record customer_data =
  cs_profiles :: "customer_profile list"
  cs_events :: "customer_event list"
  cs_imports :: "import_job list"

type_synonym 'a customer_eff = "(customer_data, 'a) platform_eff"

record consent_input =
  ci_marketing :: bool
  ci_source :: "string option"
  ci_updated_at :: "string option"

record profile_input =
  pi_member_id :: string
  pi_external_id :: "string option"
  pi_display_name :: "string option"
  pi_email :: "string option"
  pi_phone :: "string option"
  pi_birth_date :: "string option"
  pi_attributes :: "(string \<times> json) list option"
  pi_consent :: "consent_input option"

record event_input =
  vi_event_id :: "string option"
  vi_idempotency_key :: string
  vi_member_id :: string
  vi_type :: string
  vi_occurred_at :: "string option"
  vi_source :: "string option"
  vi_campaign_id :: "string option"
  vi_value_minor_units :: "int option"
  vi_currency :: "string option"
  vi_properties :: "(string \<times> json) list option"

section \<open>Serialising\<close>

fun json_text :: "json \<Rightarrow> string" and json_texts :: "json list \<Rightarrow> string" and json_members :: "(string \<times> json) list \<Rightarrow> string" where
  "json_text JNull = ''null''"
| "json_text (JBool b) = (if b then ''true'' else ''false'')"
| "json_text (JNum n) = dec_string n"
| "json_text (JStr t) = json_quote t"
| "json_text (JArr vs) = ''['' @ json_texts vs @ '']''"
| "json_text (JObj kvs) = ''{'' @ json_members kvs @ ''}''"
| "json_texts [] = []"
| "json_texts [v] = json_text v"
| "json_texts (v # w # vs) = json_text v @ '','' @ json_texts (w # vs)"
| "json_members [] = []"
| "json_members [(k, v)] = json_quote k @ '':'' @ json_text v"
| "json_members ((k, v) # kv # kvs) = json_quote k @ '':'' @ json_text v @ '','' @ json_members (kv # kvs)"

definition byte_length :: "string \<Rightarrow> nat" where
  "byte_length t = (\<Sum>c\<leftarrow>t. if (of_char c :: int) < 128 then 1 else 2)"

section \<open>Parsing an import\<close>

definition csv_columns :: "string list" where
  "csv_columns =
     [''member_id'', ''external_id'', ''display_name'', ''email'', ''phone'', ''birth_date'', ''marketing_consent'',
      ''consent_source'', ''attributes_json'']"

definition invalid :: "engine_error + 'a" where
  "invalid = Inl (EngineError Validation_failed 422)"

definition attributes_of :: "(string \<Rightarrow> json option) \<Rightarrow> string \<Rightarrow> engine_error + (string \<times> json) list option" where
  "attributes_of parse t =
     (if t = [] then Inr None
      else
        case parse t of
          Some (JObj kvs) \<Rightarrow>
            if list_ex (\<lambda>k. k \<in> set [''__proto__'', ''constructor'', ''prototype'']) (map fst kvs) then invalid else Inr (Some kvs)
        | _ \<Rightarrow> invalid)"

definition csv_input :: "(string \<Rightarrow> json option) \<Rightarrow> string list \<Rightarrow> string list \<Rightarrow> engine_error + profile_input" where
  "csv_input parse headers row =
     (let column = (\<lambda>k. case map_of (zip headers (map trim row)) k of None \<Rightarrow> [] | Some t \<Rightarrow> t);
          optional = (\<lambda>k. if column k = [] then None else Some (column k));
          marketing = to_lower (column ''marketing_consent'') in
      if length row \<noteq> length headers then invalid
      else if column ''member_id'' = [] then invalid
      else if marketing \<noteq> [] \<and> marketing \<notin> set [''true'', ''false'', ''yes'', ''no'', ''1'', ''0''] then invalid
      else
        case attributes_of parse (column ''attributes_json'') of
          Inl e \<Rightarrow> Inl e
        | Inr attributes \<Rightarrow>
            Inr \<lparr>pi_member_id = column ''member_id'', pi_external_id = optional ''external_id'',
                 pi_display_name = optional ''display_name'', pi_email = optional ''email'', pi_phone = optional ''phone'',
                 pi_birth_date = optional ''birth_date'', pi_attributes = attributes,
                 pi_consent =
                   (if marketing = [] then None
                    else Some \<lparr>ci_marketing = (marketing \<in> set [''true'', ''yes'', ''1'']),
                      ci_source = Some (case optional ''consent_source'' of None \<Rightarrow> ''csv-import'' | Some t \<Rightarrow> t),
                      ci_updated_at = None\<rparr>)\<rparr>)"

fun all_or_error :: "('e + 'a) list \<Rightarrow> 'e + 'a list" where
  "all_or_error [] = Inr []"
| "all_or_error (Inl e # xs) = Inl e"
| "all_or_error (Inr x # xs) = (case all_or_error xs of Inl e \<Rightarrow> Inl e | Inr ys \<Rightarrow> Inr (x # ys))"

definition parseCustomerCsv :: "(string \<Rightarrow> json option) \<Rightarrow> string \<Rightarrow> engine_error + profile_input list" where
  "parseCustomerCsv parse input =
     (if byte_length input > 1048576 then invalid
      else
        case csvRows input of
          Inl e \<Rightarrow> Inl e
        | Inr [] \<Rightarrow> invalid
        | Inr (headerRow # rows) \<Rightarrow>
            (let headers = map (\<lambda>t. to_lower (trim t)) headerRow in
             if \<not> distinct headers then invalid
             else if \<not> set headers \<subseteq> set csv_columns then invalid
             else if ''member_id'' \<notin> set headers then invalid
             else if rows = [] \<or> length rows > 1000 then invalid
             else all_or_error (map (csv_input parse headers) rows)))"

section \<open>Normalising\<close>

definition requiredIdentifier :: "string \<Rightarrow> engine_error + string" where
  "requiredIdentifier t =
     (let n = trim t in
      if (case n of [] \<Rightarrow> False | c # cs \<Rightarrow> is_alnum c \<and> length cs \<le> 254 \<and> list_all (\<lambda>x. is_alnum x \<or> x \<in> set ''._:-'') cs)
      then Inr n else invalid)"

definition optionalText :: "string option \<Rightarrow> nat \<Rightarrow> engine_error + string option" where
  "optionalText v bound =
     (case v of
        None \<Rightarrow> Inr None
      | Some t \<Rightarrow> if trim t = [] \<or> length (trim t) > bound then invalid else Inr (Some (trim t)))"

definition optionalIsoDate :: "host \<Rightarrow> string option \<Rightarrow> engine_error + string option" where
  "optionalIsoDate h v =
     (case v of
        None \<Rightarrow> Inr None
      | Some t \<Rightarrow> (case h_parse h t of None \<Rightarrow> invalid | Some n \<Rightarrow> Inr (Some (to_iso n))))"

definition validateProperties :: "(string \<times> json) list option \<Rightarrow> engine_error + (string \<times> json) list" where
  "validateProperties v =
     (let ps = (case v of None \<Rightarrow> [] | Some kvs \<Rightarrow> kvs) in
      if length ps > 100 then invalid
      else if byte_length (json_text (JObj ps)) > 65536 then invalid
      else Inr ps)"

text \<open>
  \<open>toUpperCase\<close>: sharp s becomes SS. The results outside the characters of this development
  are not letters A to Z; those characters stay as they are.
\<close>

definition upper_char :: "char \<Rightarrow> string" where
  "upper_char c =
     (let n = (of_char c :: int) in
      if (97 \<le> n \<and> n \<le> 122) \<or> (224 \<le> n \<and> n \<le> 254 \<and> n \<noteq> 247) then [char_of (n - 32)]
      else if n = 223 then ''SS'' else [c])"

definition to_upper :: "string \<Rightarrow> string" where
  "to_upper t = concat (map upper_char t)"

definition lift_error :: "engine_error + 'a \<Rightarrow> ('s, 'w, 'a) with_world_eff" where
  "lift_error r = (case r of Inl e \<Rightarrow> m_throw (Engine_error e) | Inr v \<Rightarrow> m_return v)"

definition normalizedEventFacts :: "host \<Rightarrow> event_input \<Rightarrow> ('s, 'w, event_facts) with_world_eff" where
  "normalizedEventFacts h i =
     m_bind (lift_error (optionalIsoDate h (vi_occurred_at i))) (\<lambda>occurred.
     m_bind (m_assert (case vi_value_minor_units i of None \<Rightarrow> True | Some n \<Rightarrow> is_safe_integer n \<and> 0 \<le> n)
       (Engine_error (EngineError Validation_failed 422))) (\<lambda>_.
     m_bind (lift_error (optionalText (vi_currency i) 3)) (\<lambda>currency.
     let currency' = map_option to_upper currency in
     m_bind (m_assert (case currency' of None \<Rightarrow> True | Some t \<Rightarrow> t = [] \<or> currency_ok t)
       (Engine_error (EngineError Validation_failed 422))) (\<lambda>_.
     m_bind (lift_error (requiredIdentifier (vi_member_id i))) (\<lambda>memberId.
     m_bind (lift_error (requiredIdentifier (vi_type i))) (\<lambda>type.
     m_bind (lift_error (optionalText (vi_source i) 100)) (\<lambda>source.
     m_bind (if truthy (vi_campaign_id i)
       then m_bind (lift_error (requiredIdentifier (the (vi_campaign_id i)))) (\<lambda>t. m_return (Some t))
       else m_return None) (\<lambda>campaign.
     m_bind (lift_error (validateProperties (vi_properties i))) (\<lambda>properties.
     m_return \<lparr>ef_member_id = memberId, ef_type = type,
       ef_occurred_at = (case occurred of None \<Rightarrow> isoNow h | Some t \<Rightarrow> t),
       ef_source = (case source of None \<Rightarrow> ''api'' | Some t \<Rightarrow> t), ef_campaign_id = campaign,
       ef_value_minor_units = vi_value_minor_units i, ef_currency = present currency',
       ef_properties = properties\<rparr>)))))))))"

definition json_facts :: "event_facts \<Rightarrow> json" where
  "json_facts f = jobj
     [(''member_id'', jstr (ef_member_id f)), (''type'', jstr (ef_type f)), (''occurred_at'', jstr (ef_occurred_at f)),
      (''source'', jstr (ef_source f)), (''campaign_id'', jstr_opt (ef_campaign_id f)),
      (''value_minor_units'', map_option JNum (ef_value_minor_units f)), (''currency'', jstr_opt (ef_currency f)),
      (''properties'', Some (JObj (ef_properties f)))]"

section \<open>Profiles\<close>

definition json_profile_input :: "profile_input \<Rightarrow> json" where
  "json_profile_input i = jobj
     [(''member_id'', jstr (pi_member_id i)), (''external_id'', jstr_opt (pi_external_id i)),
      (''display_name'', jstr_opt (pi_display_name i)), (''email'', jstr_opt (pi_email i)),
      (''phone'', jstr_opt (pi_phone i)), (''birth_date'', jstr_opt (pi_birth_date i)),
      (''attributes'', map_option JObj (pi_attributes i)),
      (''consent'', map_option (\<lambda>c. jobj
         [(''marketing'', Some (JBool (ci_marketing c))), (''source'', jstr_opt (ci_source c)),
          (''updated_at'', jstr_opt (ci_updated_at c))]) (pi_consent i))]"

definition profileFingerprint :: "host \<Rightarrow> profile_input \<Rightarrow> string" where
  "profileFingerprint h i = h_digest h (json_profile_input i)"

definition find_profile :: "string \<Rightarrow> customer_data \<Rightarrow> customer_profile option" where
  "find_profile memberId s = List.find (\<lambda>p. cu_member_id p = memberId) (cs_profiles s)"

text \<open>The text fields of an input, normalized in the order of the code.\<close>

record normalized_profile =
  np_member_id :: string
  np_external_id :: "string option"
  np_display_name :: "string option"
  np_email :: "string option"
  np_phone :: "string option"
  np_birth_date :: "string option"
  np_attributes :: "(string \<times> json) list"

definition normalize_profile :: "host \<Rightarrow> profile_input \<Rightarrow> ('s, 'w, normalized_profile) with_world_eff" where
  "normalize_profile h i =
     m_bind (lift_error (requiredIdentifier (pi_member_id i))) (\<lambda>memberId.
     m_bind (lift_error (optionalText (pi_external_id i) 255)) (\<lambda>externalId.
     m_bind (lift_error (optionalText (pi_display_name i) 200)) (\<lambda>displayName.
     m_bind (lift_error (optionalText (pi_email i) 320)) (\<lambda>email.
     m_bind (lift_error (optionalText (pi_phone i) 50)) (\<lambda>phone.
     m_bind (lift_error (optionalIsoDate h (pi_birth_date i))) (\<lambda>birth.
     m_bind (lift_error (validateProperties (pi_attributes i))) (\<lambda>attributes.
     m_return \<lparr>np_member_id = memberId, np_external_id = externalId, np_display_name = displayName, np_email = email,
       np_phone = phone, np_birth_date = map_option (take 10) birth, np_attributes = attributes\<rparr>)))))))"

definition put_text :: "string \<Rightarrow> string option \<Rightarrow> (string \<times> json) list \<Rightarrow> (string \<times> json) list" where
  "put_text k v m = (if truthy v then js_set m k (JStr (the v)) else m)"

definition profile_attributes :: "normalized_profile \<Rightarrow> profile_input \<Rightarrow> (string \<times> json) list" where
  "profile_attributes n i =
     js_set (put_text ''phone'' (np_phone n) (put_text ''email'' (np_email n)
         (put_text ''display_name'' (np_display_name n) (np_attributes n))))
       ''marketing_consent'' (JBool (case pi_consent i of None \<Rightarrow> False | Some c \<Rightarrow> ci_marketing c))"

definition profile_enrolment :: "host \<Rightarrow> string \<Rightarrow> program \<Rightarrow> profile_input \<Rightarrow> normalized_profile \<Rightarrow> enroll_request" where
  "profile_enrolment h requestId p i n =
     \<lparr>eq_context = \<lparr>cx_protocol_version = ''1.0'', cx_profile = ''foodservice/1.0'', cx_request_id = requestId,
        cx_idempotency_key = ''platform-member-'' @ profileFingerprint h i, cx_occurred_at = isoNow h,
        cx_source_system = ''reference-platform'', cx_source_instance = Some ''platform-api''\<rparr>,
      eq_program_id = pg_program_id p,
      eq_identity = \<lparr>ir_type = External,
        ir_value = (case np_external_id n of None \<Rightarrow> ''platform:'' @ np_member_id n | Some t \<Rightarrow> t),
        ir_issuer = Some ''reference-platform''\<rparr>,
      eq_member_id = Some (np_member_id n), eq_attributes = Some (profile_attributes n i)\<rparr>"

definition consent_of :: "host \<Rightarrow> customer_profile option \<Rightarrow> consent_input option \<Rightarrow> ('s, 'w, consent) with_world_eff" where
  "consent_of h existing v =
     (case v of
        None \<Rightarrow>
          m_return (case existing of
            None \<Rightarrow> \<lparr>ct_marketing = False, ct_updated_at = isoNow h, ct_source = ''api''\<rparr> | Some p \<Rightarrow> cu_consent p)
      | Some c \<Rightarrow>
          m_bind (lift_error (optionalText (ci_source c) 100)) (\<lambda>source.
          m_bind (lift_error (optionalIsoDate h (ci_updated_at c))) (\<lambda>updated.
          m_return \<lparr>ct_marketing = ci_marketing c, ct_updated_at = (case updated of None \<Rightarrow> isoNow h | Some t \<Rightarrow> t),
            ct_source = (case source of None \<Rightarrow> ''api'' | Some t \<Rightarrow> t)\<rparr>)))"

definition kept :: "string option \<Rightarrow> string option \<Rightarrow> string option" where
  "kept v old = (if truthy v then v else present old)"

definition merged_profile ::
  "host \<Rightarrow> customer_profile option \<Rightarrow> normalized_profile \<Rightarrow> consent \<Rightarrow> customer_profile" where
  "merged_profile h existing n consent =
     (let old = (\<lambda>f. Option.bind existing f) in
      \<lparr>cu_member_id = np_member_id n, cu_external_id = kept (np_external_id n) (old cu_external_id),
       cu_display_name = kept (np_display_name n) (old cu_display_name), cu_email = kept (np_email n) (old cu_email),
       cu_phone = kept (np_phone n) (old cu_phone), cu_birth_date = kept (np_birth_date n) (old cu_birth_date),
       cu_attributes = set_all (np_attributes n) (case existing of None \<Rightarrow> [] | Some p \<Rightarrow> cu_attributes p),
       cu_consent = consent,
       cu_created_at = (case existing of None \<Rightarrow> isoNow h | Some p \<Rightarrow> cu_created_at p), cu_updated_at = isoNow h\<rparr>)"

definition store_profile :: "customer_profile \<Rightarrow> customer_data \<Rightarrow> customer_data" where
  "store_profile p s =
     s\<lparr>cs_profiles :=
        (if find_profile (cu_member_id p) s = None then p # cs_profiles s
         else map (\<lambda>x. if cu_member_id x = cu_member_id p then p else x) (cs_profiles s))\<rparr>"

definition upsertProfileInMemory :: "host \<Rightarrow> profile_input \<Rightarrow> bool \<Rightarrow> customer_profile customer_eff" where
  "upsertProfileInMemory h i enrollMember =
     m_bind (normalize_profile h i) (\<lambda>n.
     m_bind (on_service (sv_get (find_profile (np_member_id n)))) (\<lambda>existing.
     m_bind
       (if enrollMember
        then
          m_bind (on_service (sv_draw h ''platform-member'')) (\<lambda>requestId.
          m_bind (on_engine (m_get eg_program)) (\<lambda>p.
          m_bind (on_engine (enroll h (profile_enrolment h requestId p i n))) (\<lambda>_. m_return ())))
        else m_return ()) (\<lambda>_.
     m_bind (consent_of h existing (pi_consent i)) (\<lambda>consent.
     m_bind (on_service (sv_change (store_profile (merged_profile h existing n consent)))) (\<lambda>_.
     m_return (merged_profile h existing n consent))))))"

text \<open>The members the administration lists.\<close>

definition listed_members :: "host \<Rightarrow> ('s, member list) platform_eff" where
  "listed_members h = m_bind (on_engine (inspectAdmin h)) (\<lambda>x. m_return (map xm_member (sn_members x)))"

definition member_listed :: "host \<Rightarrow> string \<Rightarrow> ('s, bool) platform_eff" where
  "member_listed h memberId = m_bind (listed_members h) (\<lambda>ms. m_return (memberId \<in> set (map mb_member_id ms)))"

definition upsertProfile :: "host \<Rightarrow> profile_input \<Rightarrow> customer_profile customer_eff" where
  "upsertProfile h i =
     m_bind (member_listed h (trim (pi_member_id i))) (\<lambda>existing.
     m_bind (upsertProfileInMemory h i (\<not> existing)) (\<lambda>p.
     m_bind (persist_engine h) (\<lambda>_.
     m_bind (on_service sv_save) (\<lambda>_. m_return p))))"

definition text_attribute :: "string \<Rightarrow> (string \<times> json) list \<Rightarrow> string option" where
  "text_attribute k kvs = (case map_of kvs k of Some (JStr t) \<Rightarrow> Some t | _ \<Rightarrow> None)"

definition seed_input :: "member \<Rightarrow> profile_input" where
  "seed_input m =
     (let kvs = (case mb_attributes m of None \<Rightarrow> [] | Some x \<Rightarrow> x) in
      \<lparr>pi_member_id = mb_member_id m, pi_external_id = None,
       pi_display_name = (case text_attribute ''name'' kvs of Some t \<Rightarrow> Some t | None \<Rightarrow> text_attribute ''display_name'' kvs),
       pi_email = text_attribute ''email'' kvs, pi_phone = text_attribute ''phone'' kvs, pi_birth_date = None,
       pi_attributes = Some (filter (\<lambda>(k, v). k \<notin> set [''name'', ''display_name'', ''email'', ''phone'', ''marketing_consent'']) kvs),
       pi_consent = Some \<lparr>ci_marketing = (map_of kvs ''marketing_consent'' = Some (JBool True)),
         ci_source = Some ''demo-seed'', ci_updated_at = None\<rparr>\<rparr>)"

definition seed_member :: "host \<Rightarrow> member \<Rightarrow> nat customer_eff" where
  "seed_member h m =
     m_bind (on_service (sv_get (find_profile (mb_member_id m)))) (\<lambda>existing.
     if existing \<noteq> None then m_return 0
     else m_bind (upsertProfileInMemory h (seed_input m) False) (\<lambda>_. m_return 1))"

definition seedProfilesFromEngine :: "host \<Rightarrow> nat customer_eff" where
  "seedProfilesFromEngine h =
     m_bind (listed_members h) (\<lambda>ms.
     m_bind (m_map (seed_member h) ms) (\<lambda>ns.
     m_bind (if sum_list ns > 0 then on_service sv_save else m_return ()) (\<lambda>_.
     m_return (sum_list ns))))"

section \<open>Events\<close>

record event_filter =
  fl_member_id :: "string option"
  fl_type :: "string option"
  fl_campaign_id :: "string option"
  fl_limit :: "int option"

definition passes :: "string option \<Rightarrow> string option \<Rightarrow> bool" where
  "passes wanted v = (truthy wanted \<longrightarrow> v = wanted)"

definition event_passes :: "event_filter \<Rightarrow> customer_event \<Rightarrow> bool" where
  "event_passes fl e =
     (passes (fl_member_id fl) (Some (ef_member_id (ce_facts e))) \<and> passes (fl_type fl) (Some (ef_type (ce_facts e))) \<and>
      passes (fl_campaign_id fl) (ef_campaign_id (ce_facts e)))"

definition listEvents :: "event_filter \<Rightarrow> customer_data \<Rightarrow> customer_event list" where
  "listEvents fl s =
     (let limit = max 1 (min (case fl_limit fl of None \<Rightarrow> 100 | Some n \<Rightarrow> n) 10000) in
      take (nat limit) (filter (event_passes fl) (cs_events s)))"

definition factsForMember :: "string \<Rightarrow> customer_data \<Rightarrow> customer_profile option \<times> customer_event list" where
  "factsForMember memberId s =
     (find_profile memberId s,
      listEvents \<lparr>fl_member_id = Some memberId, fl_type = None, fl_campaign_id = None, fl_limit = Some 10000\<rparr> s)"

definition prior_event :: "string \<Rightarrow> customer_data \<Rightarrow> customer_event option" where
  "prior_event key s = List.find (\<lambda>e. ce_idempotency_key e = key) (cs_events s)"

definition repeat_event :: "host \<Rightarrow> event_input \<Rightarrow> customer_event \<Rightarrow> customer_event customer_eff" where
  "repeat_event h i prior =
     m_bind (normalizedEventFacts h (i\<lparr>vi_occurred_at :=
       (case vi_occurred_at i of None \<Rightarrow> Some (ef_occurred_at (ce_facts prior)) | Some t \<Rightarrow> Some t)\<rparr>)) (\<lambda>facts.
     m_bind (m_assert (json_text (json_facts (ce_facts prior)) = json_text (json_facts facts))
       (Engine_error (EngineError Conflict 409))) (\<lambda>_.
     m_return prior))"

definition first_event :: "host \<Rightarrow> string \<Rightarrow> event_input \<Rightarrow> customer_event customer_eff" where
  "first_event h key i =
     m_bind (normalizedEventFacts h i) (\<lambda>facts.
     m_bind (member_listed h (ef_member_id facts)) (\<lambda>listed.
     m_bind (on_service (sv_check listed Not_found 404)) (\<lambda>_.
     m_bind (if truthy (vi_event_id i) then lift_error (requiredIdentifier (the (vi_event_id i)))
             else on_service (sv_draw h ''event'')) (\<lambda>eventId.
     m_bind (on_service (sv_get (\<lambda>s. list_ex (\<lambda>e. ce_event_id e = eventId) (cs_events s)))) (\<lambda>taken.
     m_bind (on_service (sv_check (\<not> taken) Conflict 409)) (\<lambda>_.
     let event = \<lparr>ce_event_id = eventId, ce_idempotency_key = key, ce_facts = facts, ce_received_at = isoNow h\<rparr> in
     m_bind (on_service (sv_change (\<lambda>s. s\<lparr>cs_events := take 100000 (event # cs_events s)\<rparr>))) (\<lambda>_.
     m_bind (on_service sv_save) (\<lambda>_. m_return event))))))))"

definition ingestEvent :: "host \<Rightarrow> event_input \<Rightarrow> customer_event customer_eff" where
  "ingestEvent h i =
     m_bind (lift_error (requiredIdentifier (vi_idempotency_key i))) (\<lambda>key.
     m_bind (on_service (sv_get (prior_event key))) (\<lambda>prior.
     case prior of Some e \<Rightarrow> repeat_event h i e | None \<Rightarrow> first_event h key i))"

section \<open>Imports\<close>

text \<open>A row either creates (True) or updates (False) a member, or fails.\<close>

definition import_row :: "host \<Rightarrow> profile_input \<Rightarrow> bool customer_eff" where
  "import_row h i =
     m_bind (member_listed h (trim (pi_member_id i))) (\<lambda>existed.
     m_bind (upsertProfileInMemory h i (\<not> existed)) (\<lambda>_. m_return (\<not> existed)))"

definition row_errors :: "(service_error + bool) list \<Rightarrow> (nat \<times> service_error) list" where
  "row_errors rs = List.map_filter (\<lambda>(n, r). case r of Inl e \<Rightarrow> Some (n + 1, e) | Inr _ \<Rightarrow> None) (zip [0..<length rs] rs)"

definition import_job_of :: "host \<Rightarrow> string \<Rightarrow> string \<Rightarrow> (service_error + bool) list \<Rightarrow> import_job" where
  "import_job_of h key importId rs =
     \<lparr>ij_import_id = importId, ij_idempotency_key = key,
      ij_status = (if length (row_errors rs) = length rs then Import_failed
                   else if row_errors rs \<noteq> [] then Import_partial else Import_completed),
      ij_submitted = length rs, ij_created = length (filter (\<lambda>r. r = Inr True) rs),
      ij_updated = length (filter (\<lambda>r. r = Inr False) rs), ij_failed = length (row_errors rs),
      ij_errors = row_errors rs, ij_created_at = isoNow h, ij_completed_at = isoNow h\<rparr>"

definition importMembers :: "host \<Rightarrow> string \<Rightarrow> profile_input list \<Rightarrow> import_job customer_eff" where
  "importMembers h idempotencyKey rows =
     m_bind (lift_error (requiredIdentifier idempotencyKey)) (\<lambda>key.
     m_bind (on_service (sv_check (rows \<noteq> [] \<and> length rows \<le> 1000) Validation_failed 422)) (\<lambda>_.
     m_bind (on_service (sv_get (\<lambda>s. List.find (\<lambda>j. ij_idempotency_key j = key) (cs_imports s)))) (\<lambda>prior.
     case prior of
       Some j \<Rightarrow> m_return j
     | None \<Rightarrow>
         m_bind (m_map (\<lambda>r. attempt (import_row h r)) rows) (\<lambda>rs.
         m_bind (persist_engine h) (\<lambda>_.
         m_bind (on_service (sv_draw h ''import'')) (\<lambda>importId.
         m_bind (on_service (sv_change (\<lambda>s. s\<lparr>cs_imports := take 1000 (import_job_of h key importId rs # cs_imports s)\<rparr>))) (\<lambda>_.
         m_bind (on_service sv_save) (\<lambda>_. m_return (import_job_of h key importId rs)))))))))"

definition importMemberCsv :: "host \<Rightarrow> (string \<Rightarrow> json option) \<Rightarrow> string \<Rightarrow> string \<Rightarrow> import_job customer_eff" where
  "importMemberCsv h parse idempotencyKey csv =
     m_bind (lift_error (parseCustomerCsv parse csv)) (\<lambda>rows. importMembers h idempotencyKey rows)"

section \<open>Reports\<close>

definition count_up :: "string \<Rightarrow> (string, nat) jsmap \<Rightarrow> (string, nat) jsmap" where
  "count_up k m = js_set m k ((case js_get m k of None \<Rightarrow> 0 | Some n \<Rightarrow> n) + 1)"

definition counts :: "string list \<Rightarrow> (string, nat) jsmap" where
  "counts ks = fold count_up ks []"

record customer_analytics =
  an_profiles :: nat
  an_marketing_consented :: nat
  an_with_email :: nat
  an_with_phone :: nat
  an_events :: nat
  an_unique_members :: nat
  an_by_type :: "(string \<times> nat) list"
  an_by_day :: "(string \<times> nat) list"
  an_imports :: nat
  an_imports_completed :: nat
  an_failed_rows :: nat

definition customer_report :: "host \<Rightarrow> customer_data \<Rightarrow> customer_analytics" where
  "customer_report h s =
     \<lparr>an_profiles = length (cs_profiles s),
      an_marketing_consented = length (filter (\<lambda>p. ct_marketing (cu_consent p)) (cs_profiles s)),
      an_with_email = length (filter (\<lambda>p. truthy (cu_email p)) (cs_profiles s)),
      an_with_phone = length (filter (\<lambda>p. truthy (cu_phone p)) (cs_profiles s)),
      an_events = length (cs_events s),
      an_unique_members = length (js_unique (map (\<lambda>e. ef_member_id (ce_facts e)) (cs_events s))),
      an_by_type = js_sort (\<lambda>l r. if snd l \<noteq> snd r then int (snd r) - int (snd l) else h_lc h (fst l) (fst r))
        (counts (map (\<lambda>e. ef_type (ce_facts e)) (cs_events s))),
      an_by_day = js_sort (\<lambda>l r. h_lc h (fst l) (fst r)) (counts (map (\<lambda>e. take 10 (ef_occurred_at (ce_facts e))) (cs_events s))),
      an_imports = length (cs_imports s),
      an_imports_completed = length (filter (\<lambda>j. ij_status j = Import_completed) (cs_imports s)),
      an_failed_rows = sum_list (map ij_failed (cs_imports s))\<rparr>"

record attribution_report =
  at_campaign_id :: string
  at_targeted_members :: nat
  at_converted_members :: nat
  at_conversions :: nat
  at_attributed_value :: int

text \<open>\<open>conversion_rate\<close> is the quotient of two of the fields and not stored.\<close>

definition attribution :: "string \<Rightarrow> string list \<Rightarrow> customer_data \<Rightarrow> attribution_report" where
  "attribution campaignId targeted s =
     (let cs = filter (\<lambda>e. ef_campaign_id (ce_facts e) = Some campaignId \<and> ef_member_id (ce_facts e) \<in> set targeted) (cs_events s) in
      \<lparr>at_campaign_id = campaignId, at_targeted_members = length (js_unique targeted),
       at_converted_members = length (js_unique (map (\<lambda>e. ef_member_id (ce_facts e)) cs)), at_conversions = length cs,
       at_attributed_value = (\<Sum>e\<leftarrow>cs. case ef_value_minor_units (ce_facts e) of None \<Rightarrow> 0 | Some n \<Rightarrow> n)\<rparr>)"

text \<open>\<open>create\<close>.\<close>

definition create_customer_data :: "bool \<Rightarrow> customer_data store \<Rightarrow> (service_error + unit) \<times> customer_data service" where
  "create_customer_data reset row = sv_create reset \<lparr>cs_profiles = [], cs_events = [], cs_imports = []\<rparr> (\<lambda>_. True) row"

end
