(* ===== verification/Campaigns.thy ===== *)
theory Campaigns
  imports Customer_Data
begin

text \<open>
  packages/server/src/campaigns.ts: segments of members, campaigns that issue a reward to
  every member of a segment once, with a holdout, and the runs. It works on the running
  engine. The bucket of a member in a holdout, the first four bytes of SHA-256 modulo 100,
  is the parameter \<open>bucket\<close> of the digested text; \<open>facts\<close> are the customer facts (None when
  the service has none configured).
\<close>

section \<open>Data\<close>

record segment_event_rule =
  sr_type :: string
  sr_minimum_count :: "int option"
  sr_within_days :: "int option"
  sr_minimum_value :: "int option"

record profile_rules =
  pr_has_email :: "bool option"
  pr_has_phone :: "bool option"
  pr_marketing_consent :: "bool option"
  pr_attributes :: "(string \<times> json) list option"

record segment_rules =
  sg_statuses :: "member_status list option"
  sg_tier_ids :: "string list option"
  sg_minimum_available_balance :: "int option"
  sg_attributes :: "(string \<times> json) list option"
  sg_profile :: "profile_rules option"
  sg_event :: "segment_event_rule option"

datatype segment_mode = Static_segment | Dynamic_segment

record segment =
  sm_segment_id :: string
  sm_name :: string
  sm_mode :: segment_mode
  sm_member_ids :: "string list"
  sm_rules :: "segment_rules option"
  sm_created_at :: string
  sm_updated_at :: string

datatype campaign_status =
  Campaign_draft | Campaign_active | Campaign_paused | Campaign_scheduled | Campaign_completed | Campaign_expired

record campaign =
  cp_campaign_id :: string
  cp_name :: string
  cp_reward_id :: string
  cp_segment_id :: string
  cp_status :: campaign_status
  cp_holdout_percent :: "int option"
  cp_attribution_window_days :: "int option"
  cp_issued_reward_ttl_seconds :: "int option"
  cp_starts_at :: "string option"
  cp_ends_at :: "string option"
  cp_created_at :: string
  cp_updated_at :: string
  cp_last_run_at :: "string option"

datatype outcome_status = Reward_issued | Reward_skipped | Reward_failed

datatype cohort = Targeted | Holdout

record run_outcome =
  ro_member_id :: string
  ro_issued_reward_id :: string
  ro_status :: outcome_status
  ro_cohort :: cohort
  ro_error :: "service_error option"

record campaign_run =
  rn_run_id :: string
  rn_campaign_id :: string
  rn_actor :: string
  rn_started_at :: string
  rn_completed_at :: string
  rn_issued :: nat
  rn_skipped :: nat
  rn_failed :: nat
  rn_holdout :: nat
  rn_outcomes :: "run_outcome list"

record campaign_state =
  cm_segments :: "segment list"
  cm_campaigns :: "campaign list"
  cm_runs :: "campaign_run list"

type_synonym 'a campaign_eff = "(campaign_state, 'a) platform_eff"

type_synonym customer_facts = "string \<Rightarrow> (customer_profile option \<times> customer_event list) option"

section \<open>Segments\<close>

definition find_segment :: "string \<Rightarrow> campaign_state \<Rightarrow> segment option" where
  "find_segment i s = List.find (\<lambda>g. sm_segment_id g = i) (cm_segments s)"

definition find_campaign :: "string \<Rightarrow> campaign_state \<Rightarrow> campaign option" where
  "find_campaign i s = List.find (\<lambda>c. cp_campaign_id c = i) (cm_campaigns s)"

text \<open>\<open>JSON.stringify(map[key]) !== JSON.stringify(value)\<close>, where a missing key is undefined.\<close>

definition attribute_is :: "(string \<times> json) list \<Rightarrow> string \<times> json \<Rightarrow> bool" where
  "attribute_is kvs kv = (case map_of kvs (fst kv) of None \<Rightarrow> False | Some v \<Rightarrow> json_text v = json_text (snd kv))"

definition wanted :: "bool option \<Rightarrow> bool \<Rightarrow> bool" where
  "wanted rule v = (case rule of None \<Rightarrow> True | Some b \<Rightarrow> v = b)"

definition profile_matches :: "profile_rules \<Rightarrow> customer_profile option \<Rightarrow> bool" where
  "profile_matches r p =
     (wanted (pr_has_email r) (truthy (Option.bind p cu_email)) \<and>
      wanted (pr_has_phone r) (truthy (Option.bind p cu_phone)) \<and>
      wanted (pr_marketing_consent r) (case p of None \<Rightarrow> False | Some x \<Rightarrow> ct_marketing (cu_consent x)) \<and>
      (case pr_attributes r of
         None \<Rightarrow> True
       | Some kvs \<Rightarrow> list_all (attribute_is (case p of None \<Rightarrow> [] | Some x \<Rightarrow> cu_attributes x)) kvs))"

definition event_matches :: "host \<Rightarrow> segment_event_rule \<Rightarrow> customer_event \<Rightarrow> bool" where
  "event_matches h r e =
     (ef_type (ce_facts e) = sr_type r \<and>
      (case sr_within_days r of
         None \<Rightarrow> True
       | Some d \<Rightarrow>
           (case h_parse h (ef_occurred_at (ce_facts e)) of None \<Rightarrow> False | Some t \<Rightarrow> h_now h - d * 86400000 \<le> t)) \<and>
      (case sr_minimum_value r of
         None \<Rightarrow> True
       | Some v \<Rightarrow> v \<le> (case ef_value_minor_units (ce_facts e) of None \<Rightarrow> 0 | Some n \<Rightarrow> n)))"

definition facts_match :: "host \<Rightarrow> segment_rules \<Rightarrow> customer_profile option \<times> customer_event list \<Rightarrow> bool" where
  "facts_match h r facts =
     ((case sg_profile r of None \<Rightarrow> True | Some p \<Rightarrow> profile_matches p (fst facts)) \<and>
      (case sg_event r of
         None \<Rightarrow> True
       | Some e \<Rightarrow>
           (case sr_minimum_count e of None \<Rightarrow> 1 | Some n \<Rightarrow> n) \<le> int (length (filter (event_matches h e) (snd facts)))))"

text \<open>A program's tier is missing when it is undefined or empty.\<close>

definition rules_match :: "host \<Rightarrow> customer_facts \<Rightarrow> segment_rules \<Rightarrow> admin_member \<Rightarrow> bool" where
  "rules_match h facts r x =
     (let m = xm_member x in
      (case sg_statuses r of None \<Rightarrow> True | Some ss \<Rightarrow> mb_status m \<in> set ss) \<and>
      (case sg_tier_ids r of None \<Rightarrow> True | Some ts \<Rightarrow> truthy (mb_tier_id m) \<and> the (mb_tier_id m) \<in> set ts) \<and>
      (case sg_minimum_available_balance r of None \<Rightarrow> True | Some n \<Rightarrow> n \<le> bl_available (xm_balance x)) \<and>
      (case sg_attributes r of
         None \<Rightarrow> True | Some kvs \<Rightarrow> list_all (attribute_is (case mb_attributes m of None \<Rightarrow> [] | Some a \<Rightarrow> a)) kvs) \<and>
      (if sg_profile r \<noteq> None \<or> sg_event r \<noteq> None
       then (case facts (mb_member_id m) of None \<Rightarrow> False | Some f \<Rightarrow> facts_match h r f) else True))"

definition no_rules :: segment_rules where
  "no_rules = \<lparr>sg_statuses = None, sg_tier_ids = None, sg_minimum_available_balance = None, sg_attributes = None,
     sg_profile = None, sg_event = None\<rparr>"

definition resolveSegmentMembers :: "host \<Rightarrow> customer_facts \<Rightarrow> segment \<Rightarrow> string list campaign_eff" where
  "resolveSegmentMembers h facts g =
     (if sm_mode g = Static_segment then m_return (sm_member_ids g)
      else
        m_bind (on_engine (inspectAdmin h)) (\<lambda>x.
        m_return (map (\<lambda>m. mb_member_id (xm_member m))
          (filter (rules_match h facts (case sm_rules g of None \<Rightarrow> no_rules | Some r \<Rightarrow> r)) (sn_members x)))))"

definition membersForSegment :: "host \<Rightarrow> customer_facts \<Rightarrow> string \<Rightarrow> string list campaign_eff" where
  "membersForSegment h facts i =
     m_bind (on_service (sv_get (find_segment i))) (\<lambda>g.
     case g of None \<Rightarrow> on_service (sv_throw Not_found 404) | Some s \<Rightarrow> resolveSegmentMembers h facts s)"

text \<open>The estimated size and the sample.\<close>

definition previewSegment :: "host \<Rightarrow> customer_facts \<Rightarrow> string \<Rightarrow> int \<Rightarrow> (nat \<times> string list) campaign_eff" where
  "previewSegment h facts i sampleSize =
     m_bind (membersForSegment h facts i) (\<lambda>ms. m_return (length ms, take (nat (max 1 (min sampleSize 100))) ms))"

definition required :: "string \<Rightarrow> ('s, 'w, string) with_world_eff" where
  "required t = (if trim t = [] then m_throw (Engine_error (EngineError Validation_failed 422)) else m_return (trim t))"

definition put_by :: "('a \<Rightarrow> string) \<Rightarrow> 'a \<Rightarrow> 'a list \<Rightarrow> 'a list" where
  "put_by key x xs = (if key x \<in> set (map key xs) then map (\<lambda>y. if key y = key x then x else y) xs else x # xs)"

definition check_static :: "host \<Rightarrow> string list \<Rightarrow> unit campaign_eff" where
  "check_static h ids =
     m_bind (on_service (sv_check (ids \<noteq> []) Validation_failed 422)) (\<lambda>_.
     m_bind (listed_members h) (\<lambda>ms.
     on_service (sv_check (set ids \<subseteq> set (map mb_member_id ms)) Not_found 404)))"

definition segment_of ::
  "host \<Rightarrow> segment option \<Rightarrow> string \<Rightarrow> string \<Rightarrow> string list \<Rightarrow> segment_rules option \<Rightarrow> segment" where
  "segment_of h existing i name ids rules =
     \<lparr>sm_segment_id = i, sm_name = name, sm_mode = (if rules = None then Static_segment else Dynamic_segment),
      sm_member_ids = ids, sm_rules = rules,
      sm_created_at = (case existing of None \<Rightarrow> isoNow h | Some g \<Rightarrow> sm_created_at g), sm_updated_at = isoNow h\<rparr>"

definition given_or_drawn :: "host \<Rightarrow> string \<Rightarrow> string option \<Rightarrow> ('s, 'w, string) with_world_eff" where
  "given_or_drawn h prefix i = (case i of Some t \<Rightarrow> m_return t | None \<Rightarrow> on_service (sv_draw h prefix))"

definition upsertSegment ::
  "host \<Rightarrow> string option \<Rightarrow> string \<Rightarrow> string list \<Rightarrow> segment_rules option \<Rightarrow> segment campaign_eff" where
  "upsertSegment h segmentId name memberIds rules =
     m_bind (given_or_drawn h ''segment'' segmentId) (\<lambda>i.
     let ids = js_unique (filter (\<lambda>t. t \<noteq> []) (map trim memberIds)) in
     m_bind (case rules of
         None \<Rightarrow> check_static h ids
       | Some r \<Rightarrow> on_service (sv_check (r \<noteq> no_rules) Validation_failed 422)) (\<lambda>_.
     m_bind (on_service (sv_get (find_segment i))) (\<lambda>existing.
     m_bind (required name) (\<lambda>n.
     m_bind (on_service (sv_change (\<lambda>s. s\<lparr>cm_segments := put_by sm_segment_id (segment_of h existing i n ids rules) (cm_segments s)\<rparr>))) (\<lambda>_.
     m_bind (on_service sv_save) (\<lambda>_. m_return (segment_of h existing i n ids rules)))))))"

definition deleteSegment :: "string \<Rightarrow> unit campaign_eff" where
  "deleteSegment i =
     m_bind (on_service (sv_get (\<lambda>s. list_ex (\<lambda>c. cp_segment_id c = i) (cm_campaigns s)))) (\<lambda>used.
     m_bind (on_service (sv_check (\<not> used) Conflict 409)) (\<lambda>_.
     m_bind (on_service (sv_get (find_segment i))) (\<lambda>found.
     m_bind (on_service (sv_check (found \<noteq> None) Not_found 404)) (\<lambda>_.
     m_bind (on_service (sv_change (\<lambda>s. s\<lparr>cm_segments := filter (\<lambda>g. sm_segment_id g \<noteq> i) (cm_segments s)\<rparr>))) (\<lambda>_.
     on_service sv_save)))))"

section \<open>Campaigns\<close>

record campaign_input =
  cn_campaign_id :: "string option"
  cn_name :: string
  cn_reward_id :: string
  cn_segment_id :: string
  cn_issued_reward_ttl_seconds :: "int option"
  cn_holdout_percent :: "int option"
  cn_attribution_window_days :: "int option"
  cn_starts_at :: "string option"
  cn_ends_at :: "string option"

definition within :: "int \<Rightarrow> int \<Rightarrow> int option \<Rightarrow> bool" where
  "within lo hi v = (case v of None \<Rightarrow> True | Some n \<Rightarrow> lo \<le> n \<and> n \<le> hi)"

definition ttl_allowed :: "int option \<Rightarrow> bool" where
  "ttl_allowed v = (case v of None \<Rightarrow> True | Some n \<Rightarrow> 60 \<le> n)"

text \<open>\<open>input.starts_at ? Date.parse(...) : undefined\<close>: the outer None is NaN.\<close>

definition schedule_time :: "host \<Rightarrow> string option \<Rightarrow> int option option" where
  "schedule_time h v = (if truthy v then map_option Some (h_parse h (the v)) else Some None)"

definition schedule_ok :: "host \<Rightarrow> campaign_input \<Rightarrow> bool" where
  "schedule_ok h i =
     (case (schedule_time h (cn_starts_at i), schedule_time h (cn_ends_at i)) of
        (Some (Some a), Some (Some b)) \<Rightarrow> a < b
      | (Some _, Some _) \<Rightarrow> True
      | _ \<Rightarrow> False)"

definition iso_of :: "host \<Rightarrow> string option \<Rightarrow> string option" where
  "iso_of h v = (case schedule_time h v of Some (Some n) \<Rightarrow> Some (to_iso n) | _ \<Rightarrow> None)"

definition campaign_of :: "host \<Rightarrow> campaign option \<Rightarrow> string \<Rightarrow> string \<Rightarrow> campaign_input \<Rightarrow> campaign" where
  "campaign_of h existing i name c =
     \<lparr>cp_campaign_id = i, cp_name = name, cp_reward_id = cn_reward_id c, cp_segment_id = cn_segment_id c,
      cp_status =
        (case schedule_time h (cn_starts_at c) of
           Some (Some t) \<Rightarrow>
             if t > h_now h then Campaign_scheduled
             else (case existing of None \<Rightarrow> Campaign_draft | Some x \<Rightarrow> cp_status x)
         | _ \<Rightarrow> (case existing of None \<Rightarrow> Campaign_draft | Some x \<Rightarrow> cp_status x)),
      cp_holdout_percent =
        (case cn_holdout_percent c of Some n \<Rightarrow> Some n | None \<Rightarrow> Option.bind existing cp_holdout_percent),
      cp_attribution_window_days =
        (case cn_attribution_window_days c of
           Some n \<Rightarrow> Some n
         | None \<Rightarrow> (case Option.bind existing cp_attribution_window_days of Some n \<Rightarrow> Some n | None \<Rightarrow> Some 7)),
      cp_issued_reward_ttl_seconds = cn_issued_reward_ttl_seconds c,
      cp_starts_at = iso_of h (cn_starts_at c), cp_ends_at = iso_of h (cn_ends_at c),
      cp_created_at = (case existing of None \<Rightarrow> isoNow h | Some x \<Rightarrow> cp_created_at x), cp_updated_at = isoNow h,
      cp_last_run_at = None\<rparr>"

definition upsertCampaign :: "host \<Rightarrow> campaign_input \<Rightarrow> campaign campaign_eff" where
  "upsertCampaign h c =
     m_bind (on_service (sv_get (find_segment (cn_segment_id c)))) (\<lambda>segment.
     m_bind (on_service (sv_check (segment \<noteq> None) Not_found 404)) (\<lambda>_.
     m_bind (on_engine (m_get eg_program)) (\<lambda>p.
     m_bind (on_service (sv_check (cn_reward_id c \<in> rd_reward_id ` set (pg_rewards p)) Not_found 404)) (\<lambda>_.
     m_bind (on_service (sv_check (ttl_allowed (cn_issued_reward_ttl_seconds c)) Validation_failed 422)) (\<lambda>_.
     m_bind (on_service (sv_check (within 0 90 (cn_holdout_percent c)) Validation_failed 422)) (\<lambda>_.
     m_bind (on_service (sv_check (within 1 90 (cn_attribution_window_days c)) Validation_failed 422)) (\<lambda>_.
     m_bind (on_service (sv_check (schedule_ok h c) Validation_failed 422)) (\<lambda>_.
     m_bind (given_or_drawn h ''campaign'' (cn_campaign_id c)) (\<lambda>i.
     m_bind (on_service (sv_get (find_campaign i))) (\<lambda>existing.
     m_bind (required (cn_name c)) (\<lambda>n.
     m_bind (on_service (sv_change (\<lambda>s. s\<lparr>cm_campaigns := put_by cp_campaign_id (campaign_of h existing i n c) (cm_campaigns s)\<rparr>))) (\<lambda>_.
     m_bind (on_service sv_save) (\<lambda>_. m_return (campaign_of h existing i n c))))))))))))))"

definition deleteCampaign :: "string \<Rightarrow> unit campaign_eff" where
  "deleteCampaign i =
     m_bind (on_service (sv_get (find_campaign i))) (\<lambda>found.
     m_bind (on_service (sv_check (found \<noteq> None) Not_found 404)) (\<lambda>_.
     m_bind (on_service (sv_change (\<lambda>s. s\<lparr>cm_campaigns := filter (\<lambda>c. cp_campaign_id c \<noteq> i) (cm_campaigns s)\<rparr>))) (\<lambda>_.
     on_service sv_save)))"

definition replaceCampaign :: "campaign \<Rightarrow> campaign_state \<Rightarrow> campaign_state" where
  "replaceCampaign c s =
     s\<lparr>cm_campaigns := map (\<lambda>x. if cp_campaign_id x = cp_campaign_id c then c else x) (cm_campaigns s)\<rparr>"

text \<open>\<open>status\<close> is active (True) or paused.\<close>

definition setCampaignStatus :: "host \<Rightarrow> string \<Rightarrow> bool \<Rightarrow> campaign campaign_eff" where
  "setCampaignStatus h i active =
     m_bind (on_service (sv_get (find_campaign i))) (\<lambda>found.
     case found of
       None \<Rightarrow> on_service (sv_throw Not_found 404)
     | Some c \<Rightarrow>
         m_bind (on_service (sv_check (cp_status c \<notin> {Campaign_completed, Campaign_expired}) Conflict 409)) (\<lambda>_.
         let next = c\<lparr>cp_status := (if active then Campaign_active else Campaign_paused), cp_updated_at := isoNow h\<rparr> in
         m_bind (on_service (sv_change (replaceCampaign next))) (\<lambda>_.
         m_bind (on_service sv_save) (\<lambda>_. m_return next))))"

section \<open>Running a campaign\<close>

definition campaign_reward_id :: "string \<Rightarrow> string \<Rightarrow> string" where
  "campaign_reward_id campaignId memberId = campaignId @ '':'' @ memberId"

definition inHoldout :: "(string \<Rightarrow> int) \<Rightarrow> campaign \<Rightarrow> string \<Rightarrow> bool" where
  "inHoldout bucket c memberId =
     (let percent = (case cp_holdout_percent c of None \<Rightarrow> 0 | Some n \<Rightarrow> n) in
      if percent = 0 then False else bucket (cp_campaign_id c @ '':'' @ memberId) < percent)"

definition campaign_issue :: "host \<Rightarrow> program \<Rightarrow> string \<Rightarrow> string \<Rightarrow> campaign \<Rightarrow> string \<Rightarrow> issue_request" where
  "campaign_issue h p runId actor c memberId =
     \<lparr>iq_context = \<lparr>cx_protocol_version = ''1.0'', cx_profile = ''foodservice/1.0'',
        cx_request_id = runId @ '':'' @ memberId, cx_idempotency_key = campaign_reward_id (cp_campaign_id c) memberId,
        cx_occurred_at = isoNow h, cx_source_system = ''reference-campaigns'', cx_source_instance = Some actor\<rparr>,
      iq_issued_reward_id = campaign_reward_id (cp_campaign_id c) memberId, iq_member_id = memberId,
      iq_program_id = pg_program_id p, iq_reward_id = cp_reward_id c,
      iq_expires_at =
        (case cp_issued_reward_ttl_seconds c of None \<Rightarrow> None | Some t \<Rightarrow> if t = 0 then None else Some (futureIso h t)),
      iq_artifact = None\<rparr>"

definition outcome_of :: "campaign \<Rightarrow> string \<Rightarrow> outcome_status \<Rightarrow> cohort \<Rightarrow> service_error option \<Rightarrow> run_outcome" where
  "outcome_of c memberId status cohort e =
     \<lparr>ro_member_id = memberId, ro_issued_reward_id = campaign_reward_id (cp_campaign_id c) memberId,
      ro_status = status, ro_cohort = cohort, ro_error = e\<rparr>"

text \<open>The \<open>try\<close> block for one member: whether the reward was issued now.\<close>

definition issue_once :: "host \<Rightarrow> string \<Rightarrow> string \<Rightarrow> campaign \<Rightarrow> string \<Rightarrow> ('s, bool) platform_eff" where
  "issue_once h runId actor c memberId =
     m_bind (on_engine (inspectAdmin h)) (\<lambda>x.
     if list_ex (\<lambda>w. iw_issued_reward_id w = campaign_reward_id (cp_campaign_id c) memberId) (sn_issued_rewards x)
     then m_return False
     else
       m_bind (on_engine (m_get eg_program)) (\<lambda>p.
       m_bind (on_engine (issueReward h (campaign_issue h p runId actor c memberId))) (\<lambda>_. m_return True)))"

definition run_member :: "host \<Rightarrow> (string \<Rightarrow> int) \<Rightarrow> string \<Rightarrow> string \<Rightarrow> campaign \<Rightarrow> string \<Rightarrow> ('s, run_outcome) platform_eff" where
  "run_member h bucket runId actor c memberId =
     (if inHoldout bucket c memberId then m_return (outcome_of c memberId Reward_skipped Holdout None)
      else
        m_bind (attempt (issue_once h runId actor c memberId)) (\<lambda>r.
        m_return (case r of
            Inl e \<Rightarrow> outcome_of c memberId Reward_failed Targeted (Some e)
          | Inr True \<Rightarrow> outcome_of c memberId Reward_issued Targeted None
          | Inr False \<Rightarrow> outcome_of c memberId Reward_skipped Targeted None)))"

definition run_of :: "host \<Rightarrow> string \<Rightarrow> string \<Rightarrow> string \<Rightarrow> run_outcome list \<Rightarrow> campaign_run" where
  "run_of h runId campaignId actor os =
     \<lparr>rn_run_id = runId, rn_campaign_id = campaignId, rn_actor = actor, rn_started_at = isoNow h,
      rn_completed_at = isoNow h, rn_issued = length (filter (\<lambda>r. ro_status r = Reward_issued) os),
      rn_skipped = length (filter (\<lambda>r. ro_status r = Reward_skipped) os),
      rn_failed = length (filter (\<lambda>r. ro_status r = Reward_failed) os),
      rn_holdout = length (filter (\<lambda>r. ro_cohort r = Holdout) os), rn_outcomes = os\<rparr>"

definition finish_run :: "host \<Rightarrow> string \<Rightarrow> campaign_run \<Rightarrow> campaign_state \<Rightarrow> campaign_state" where
  "finish_run h i run s =
     s\<lparr>cm_campaigns := map (\<lambda>c. if cp_campaign_id c = i
         then c\<lparr>cp_status := Campaign_completed, cp_last_run_at := Some (isoNow h), cp_updated_at := isoNow h\<rparr> else c)
         (cm_campaigns s),
       cm_runs := take 100 (run # cm_runs s)\<rparr>"

definition ended :: "host \<Rightarrow> int \<Rightarrow> campaign \<Rightarrow> bool" where
  "ended h now c =
     (truthy (cp_ends_at c) \<and> (case h_parse h (the (cp_ends_at c)) of None \<Rightarrow> False | Some t \<Rightarrow> t \<le> now))"

definition issue_to_segment ::
  "host \<Rightarrow> customer_facts \<Rightarrow> (string \<Rightarrow> int) \<Rightarrow> string \<Rightarrow> string \<Rightarrow> campaign \<Rightarrow> segment \<Rightarrow> run_outcome list campaign_eff"
where
  "issue_to_segment h facts bucket runId actor c g =
     m_bind (resolveSegmentMembers h facts g) (\<lambda>ms.
     m_bind (m_map (run_member h bucket runId actor c) ms) (\<lambda>os.
     m_bind (persist_engine h) (\<lambda>_. m_return os)))"

definition runCampaign ::
  "host \<Rightarrow> customer_facts \<Rightarrow> (string \<Rightarrow> int) \<Rightarrow> string \<Rightarrow> string \<Rightarrow> campaign_run campaign_eff" where
  "runCampaign h facts bucket i actor =
     m_bind (on_service (sv_get (find_campaign i))) (\<lambda>found.
     case found of
       None \<Rightarrow> on_service (sv_throw Not_found 404)
     | Some c \<Rightarrow>
         if cp_status c = Campaign_paused then on_service (sv_throw Conflict 409)
         else if ended h (h_now h) c
         then
           m_bind (on_service (sv_change (replaceCampaign (c\<lparr>cp_status := Campaign_expired, cp_updated_at := isoNow h\<rparr>)))) (\<lambda>_.
           m_bind (on_service sv_save) (\<lambda>_.
           on_service (sv_throw Err_expired 409)))
         else
           m_bind (on_service (sv_get (find_segment (cp_segment_id c)))) (\<lambda>segment.
           case segment of
             None \<Rightarrow> on_service (sv_throw Not_found 404)
           | Some g \<Rightarrow>
               m_bind (on_service (sv_draw h ''run'')) (\<lambda>runId.
               m_bind (issue_to_segment h facts bucket runId actor c g) (\<lambda>os.
               m_bind (on_service (sv_change (finish_run h i (run_of h runId i actor os)))) (\<lambda>_.
               m_bind (on_service sv_save) (\<lambda>_. m_return (run_of h runId i actor os)))))))"

text \<open>One scheduled campaign at the instant \<open>at\<close>; None when it does not run.\<close>

definition run_due ::
  "host \<Rightarrow> customer_facts \<Rightarrow> (string \<Rightarrow> int) \<Rightarrow> string \<Rightarrow> int \<Rightarrow> string \<Rightarrow> campaign_run option campaign_eff" where
  "run_due h facts bucket actor at i =
     m_bind (on_service (sv_get (find_campaign i))) (\<lambda>found.
     case found of
       None \<Rightarrow> m_return None
     | Some c \<Rightarrow>
         if cp_status c \<noteq> Campaign_scheduled then m_return None
         else if ended h at c
         then m_bind (on_service (sv_change (replaceCampaign (c\<lparr>cp_status := Campaign_expired, cp_updated_at := to_iso at\<rparr>)))) (\<lambda>_.
              m_return None)
         else if \<not> truthy (cp_starts_at c) \<or>
           (case h_parse h (the (cp_starts_at c)) of None \<Rightarrow> False | Some t \<Rightarrow> t \<le> at)
         then m_bind (runCampaign h facts bucket i actor) (\<lambda>r. m_return (Some r))
         else m_return None)"

definition runDueCampaigns ::
  "host \<Rightarrow> customer_facts \<Rightarrow> (string \<Rightarrow> int) \<Rightarrow> string \<Rightarrow> int \<Rightarrow> campaign_run list campaign_eff" where
  "runDueCampaigns h facts bucket actor at =
     m_bind (on_service (sv_get (\<lambda>s. map cp_campaign_id (filter (\<lambda>c. cp_status c = Campaign_scheduled) (cm_campaigns s))))) (\<lambda>ids.
     m_bind (m_map (run_due h facts bucket actor at) ids) (\<lambda>rs.
     m_bind (on_service sv_save) (\<lambda>_. m_return (List.map_filter id rs))))"

section \<open>Program changes\<close>

definition campaigns_compatible :: "campaign_state \<Rightarrow> program \<Rightarrow> bool" where
  "campaigns_compatible s p = list_all (\<lambda>c. cp_reward_id c \<in> rd_reward_id ` set (pg_rewards p)) (cm_campaigns s)"

definition assertCompatibleProgram :: "program \<Rightarrow> unit campaign_eff" where
  "assertCompatibleProgram p =
     m_bind (on_service (sv_get (\<lambda>s. campaigns_compatible s p))) (\<lambda>ok. on_service (sv_check ok Conflict 409))"

text \<open>\<open>create\<close>: a stored segment without a mode is not a value of this model.\<close>

definition create_campaigns :: "bool \<Rightarrow> campaign_state store \<Rightarrow> (service_error + unit) \<times> campaign_state service" where
  "create_campaigns reset row = sv_create reset \<lparr>cm_segments = [], cm_campaigns = [], cm_runs = []\<rparr> (\<lambda>_. True) row"

end
