(* ===== verification/Memberships.thy ===== *)
theory Memberships
  imports Service_Engine
begin

text \<open>
  packages/server/src/memberships.ts: granting, changing and lapsing paid memberships, which
  live in the \<open>membership\<close> attribute of the member, and their audit trail. The attribute is
  whatever JSON object is stored there; \<open>Date.parse\<close> of a field that is neither a string nor
  a number is not a date.
\<close>

section \<open>Data\<close>

datatype membership_action = Membership_granted | Membership_lapsed | Membership_cancelled

record membership_audit =
  mu_audit_id :: string
  mu_member_id :: string
  mu_action :: membership_action
  mu_actor :: string
  mu_occurred_at :: string
  mu_plan_id :: "json option"

type_synonym membership_state = "membership_audit list"

type_synonym 'a membership_eff = "(membership_state, 'a) platform_eff"

type_synonym fields = "(string \<times> json) list"

section \<open>Reading\<close>

definition stored_membership :: "member \<Rightarrow> fields option" where
  "stored_membership m =
     (case Option.bind (mb_attributes m) (\<lambda>kvs. map_of kvs ''membership'') of Some (JObj kvs) \<Rightarrow> Some kvs | _ \<Rightarrow> None)"

definition membership_active :: "fields \<Rightarrow> bool" where
  "membership_active kvs = (map_of kvs ''status'' = Some (JStr ''active''))"

definition date_of :: "host \<Rightarrow> json option \<Rightarrow> int option" where
  "date_of h v = (case v of Some (JStr t) \<Rightarrow> h_parse h t | Some (JNum n) \<Rightarrow> h_parse h (dec_string n) | _ \<Rightarrow> None)"

definition listed_memberships :: "admin_member list \<Rightarrow> (string \<times> fields) list" where
  "listed_memberships ms =
     List.map_filter (\<lambda>x. map_option (Pair (mb_member_id (xm_member x))) (stored_membership (xm_member x))) ms"

text \<open>The memberships of \<open>snapshot()\<close>.\<close>

definition membership_snapshot :: "host \<Rightarrow> (string \<times> fields) list membership_eff" where
  "membership_snapshot h = m_bind (on_engine (inspectAdmin h)) (\<lambda>x. m_return (listed_memberships (sn_members x)))"

definition membershipFor :: "host \<Rightarrow> string \<Rightarrow> fields membership_eff" where
  "membershipFor h memberId =
     m_bind (on_engine (inspectAdmin h)) (\<lambda>x.
     case Option.bind (List.find (\<lambda>y. mb_member_id (xm_member y) = memberId) (sn_members x)) (\<lambda>y. stored_membership (xm_member y)) of
       None \<Rightarrow> on_service (sv_throw Not_found 404)
     | Some kvs \<Rightarrow> m_return kvs)"

section \<open>Changing\<close>

definition membership_audit_of :: "host \<Rightarrow> string \<Rightarrow> json option \<Rightarrow> membership_action \<Rightarrow> string \<Rightarrow> string \<Rightarrow> membership_audit" where
  "membership_audit_of h memberId plan action actor i =
     \<lparr>mu_audit_id = i, mu_member_id = memberId, mu_action = action, mu_actor = actor, mu_occurred_at = isoNow h,
      mu_plan_id = plan\<rparr>"

definition audit_membership :: "host \<Rightarrow> string \<Rightarrow> json option \<Rightarrow> membership_action \<Rightarrow> string \<Rightarrow> unit membership_eff" where
  "audit_membership h memberId plan action actor =
     m_bind (on_service (sv_draw h ''membership-audit'')) (\<lambda>i.
     m_bind (on_service (sv_change (\<lambda>es. take 200 (membership_audit_of h memberId plan action actor i # es)))) (\<lambda>_.
     on_service sv_save))"

definition write_membership :: "host \<Rightarrow> string \<Rightarrow> json \<Rightarrow> unit membership_eff" where
  "write_membership h memberId v =
     m_bind (on_engine (setMemberMembership h memberId (Some v))) (\<lambda>_. persist_engine h)"

definition offered_plan :: "program \<Rightarrow> string \<Rightarrow> bool" where
  "offered_plan p i = (case pg_membership_plans p of None \<Rightarrow> False | Some ps \<Rightarrow> list_ex (\<lambda>m. mp_plan_id m = i) ps)"

definition validity_window :: "host \<Rightarrow> string option \<Rightarrow> string \<Rightarrow> (int \<times> int) option" where
  "validity_window h validFrom validUntil =
     (case (h_parse h (case validFrom of None \<Rightarrow> isoNow h | Some t \<Rightarrow> t), h_parse h validUntil) of
        (Some a, Some b) \<Rightarrow> if b \<le> a then None else Some (a, b)
      | _ \<Rightarrow> None)"

definition grant ::
  "host \<Rightarrow> string \<Rightarrow> string \<Rightarrow> string option \<Rightarrow> string \<Rightarrow> string option \<Rightarrow> string \<Rightarrow> membership membership_eff"
where
  "grant h memberId planId validFrom validUntil billing actor =
     m_bind (on_engine (m_get eg_program)) (\<lambda>p.
     m_bind (on_service (sv_check (offered_plan p planId) Not_found 404)) (\<lambda>_.
     case validity_window h validFrom validUntil of
       None \<Rightarrow> on_service (sv_throw Validation_failed 422)
     | Some (a, b) \<Rightarrow>
         (let m = \<lparr>ms_plan_id = planId, ms_status = ''active'', ms_valid_from = to_iso a, ms_valid_until = to_iso b,
                   ms_billing_reference = (if truthy billing then billing else None)\<rparr> in
          m_bind (write_membership h memberId (json_membership m)) (\<lambda>_.
          m_bind (audit_membership h memberId (Some (JStr planId)) Membership_granted actor) (\<lambda>_.
          m_return m)))))"

text \<open>\<open>status\<close> is lapsed (True) or cancelled.\<close>

definition changeStatus :: "host \<Rightarrow> string \<Rightarrow> bool \<Rightarrow> string \<Rightarrow> fields membership_eff" where
  "changeStatus h memberId lapsed actor =
     m_bind (membershipFor h memberId) (\<lambda>kvs.
     let updated = js_set kvs ''status'' (JStr (if lapsed then ''lapsed'' else ''cancelled'')) in
     m_bind (write_membership h memberId (JObj updated)) (\<lambda>_.
     m_bind (audit_membership h memberId (map_of updated ''plan_id'')
       (if lapsed then Membership_lapsed else Membership_cancelled) actor) (\<lambda>_.
     m_return updated)))"

definition lapses :: "host \<Rightarrow> int \<Rightarrow> fields \<Rightarrow> bool" where
  "lapses h at kvs =
     (membership_active kvs \<and> (case date_of h (map_of kvs ''valid_until'') of None \<Rightarrow> False | Some t \<Rightarrow> t \<le> at))"

definition lapseExpired :: "host \<Rightarrow> string \<Rightarrow> int \<Rightarrow> nat membership_eff" where
  "lapseExpired h actor at =
     m_bind (membership_snapshot h) (\<lambda>ms.
     m_bind (m_map (\<lambda>m. changeStatus h (fst m) True actor) (filter (\<lambda>m. lapses h at (snd m)) ms)) (\<lambda>xs.
     m_return (length xs)))"

section \<open>Program changes\<close>

definition strands :: "string list \<Rightarrow> fields \<Rightarrow> bool" where
  "strands plans kvs =
     (membership_active kvs \<and> (case map_of kvs ''plan_id'' of Some (JStr i) \<Rightarrow> i \<notin> set plans | _ \<Rightarrow> True))"

definition assertCompatiblePlans :: "host \<Rightarrow> string list \<Rightarrow> unit membership_eff" where
  "assertCompatiblePlans h plans =
     m_bind (membership_snapshot h) (\<lambda>ms.
     on_service (sv_check (\<not> list_ex (\<lambda>m. strands plans (snd m)) ms) Conflict 409))"

definition create_memberships :: "bool \<Rightarrow> membership_state store \<Rightarrow> (service_error + unit) \<times> membership_state service" where
  "create_memberships reset row = sv_create reset [] (\<lambda>_. True) row"

end
