(* ===== verification/Program_Management.thy ===== *)
theory Program_Management
  imports Service_Engine
begin

text \<open>
  packages/server/src/program-management.ts: the draft of a program definition, publishing
  and rolling back, with the history of revisions and the audit trail, over the versioned
  store. A draft is any JSON value. \<open>new LoyaltyEngine(program)\<close> is run on a value that has
  passed the checks before it; which definition that value is, is the parameter \<open>decode\<close>
  (None when the engine fails on it in a way of its own). Applying a program to the running
  platform is the callback \<open>apply\<close>, which acts on a state of its own. Validation issues are
  modelled by their cause, not by their text.
\<close>

section \<open>Data\<close>

datatype program_issue =
  Not_an_object | Unknown_field string | Program_id_required | Currency_required | Definition_refused | No_draft

record validation_result =
  vr_ok :: bool
  vr_issues :: "program_issue list"

record program_draft =
  df_version :: int
  df_updated_at :: string
  df_updated_by :: string
  df_program :: json
  df_validation :: validation_result

record program_revision =
  rv_revision :: int
  rv_published_at :: string
  rv_published_by :: string
  rv_program :: program

datatype program_action = Draft_saved | Draft_discarded | Program_published | Program_rolled_back

record program_audit =
  pa_audit_id :: string
  pa_action :: program_action
  pa_actor :: string
  pa_occurred_at :: string
  pa_revision :: "int option"
  pa_draft_version :: "int option"

record program_state =
  ps_active_revision :: int
  ps_active_published_at :: string
  ps_active_published_by :: string
  ps_active_program :: program
  ps_draft :: "program_draft option"
  ps_history :: "program_revision list"
  ps_audit :: "program_audit list"

type_synonym 'a program_eff = "(program_state, 'a) service_eff"

type_synonym decoder = "json \<Rightarrow> program option"

section \<open>Validation\<close>

definition allowedProgramFields :: "string list" where
  "allowedProgramFields =
     [''program_id'', ''name'', ''description'', ''currency'', ''accounts'', ''metrics'', ''tiers'', ''tier_policy'',
      ''point_expiration'', ''balance_expiration'', ''earning_policy'', ''earn_rate'', ''visit_stamp_policy'',
      ''wallet_credit_policy'', ''membership_policy'', ''evaluation_ttl_seconds'', ''reservation_ttl_seconds'',
      ''rewards'', ''metadata'']"

definition text_field :: "(string \<times> json) list \<Rightarrow> string \<Rightarrow> string option" where
  "text_field kvs k = (case map_of kvs k of Some (JStr t) \<Rightarrow> Some t | _ \<Rightarrow> None)"

definition identity_issues :: "(string \<times> json) list \<Rightarrow> program_issue list" where
  "identity_issues kvs =
     (case text_field kvs ''program_id'' of Some (c # t) \<Rightarrow> [] | _ \<Rightarrow> [Program_id_required]) @
     (case text_field kvs ''currency'' of
        Some t \<Rightarrow> if currency_ok t then [] else [Currency_required] | None \<Rightarrow> [Currency_required])"

definition refused :: "program_issue list \<Rightarrow> validation_result" where
  "refused is = \<lparr>vr_ok = False, vr_issues = is\<rparr>"

definition validateProgramDefinition :: "host \<Rightarrow> decoder \<Rightarrow> json \<Rightarrow> validation_result" where
  "validateProgramDefinition h decode v =
     (case v of
        JObj kvs \<Rightarrow>
          (let unknown = filter (\<lambda>k. k \<notin> set allowedProgramFields) (map fst kvs) in
           if unknown \<noteq> [] then refused (map Unknown_field unknown)
           else if identity_issues kvs \<noteq> [] then refused (identity_issues kvs)
           else
             case decode v of
               None \<Rightarrow> refused [Definition_refused]
             | Some p \<Rightarrow>
                 (case construct h 0 p None of
                    Inl e \<Rightarrow> refused [Definition_refused]
                  | Inr s \<Rightarrow> \<lparr>vr_ok = True, vr_issues = []\<rparr>))
      | _ \<Rightarrow> refused [Not_an_object])"

section \<open>The service\<close>

definition initial_programs :: "host \<Rightarrow> program \<Rightarrow> program_state" where
  "initial_programs h p =
     \<lparr>ps_active_revision = 1, ps_active_published_at = isoNow h, ps_active_published_by = ''bootstrap'',
      ps_active_program = p, ps_draft = None, ps_history = [], ps_audit = []\<rparr>"

definition create_programs ::
  "host \<Rightarrow> decoder \<Rightarrow> bool \<Rightarrow> program \<Rightarrow> program_state store \<Rightarrow> (service_error + unit) \<times> program_state service" where
  "create_programs h decode reset p row =
     sv_create reset (initial_programs h p)
       (\<lambda>s. vr_ok (validateProgramDefinition h decode (json_program (ps_active_program s)))) row"

definition programForFingerprint :: "host \<Rightarrow> string \<Rightarrow> program_state \<Rightarrow> program option" where
  "programForFingerprint h value s =
     List.find (\<lambda>p. programDefinitionFingerprint h p = value) (ps_active_program s # map rv_program (ps_history s))"

definition record_audit :: "program_audit \<Rightarrow> program_state \<Rightarrow> program_state" where
  "record_audit e s = s\<lparr>ps_audit := take 100 (e # ps_audit s)\<rparr>"

definition program_audit_entry :: "host \<Rightarrow> program_action \<Rightarrow> string \<Rightarrow> int option \<Rightarrow> int option \<Rightarrow> string \<Rightarrow> program_audit" where
  "program_audit_entry h action actor revision draft i =
     \<lparr>pa_audit_id = i, pa_action = action, pa_actor = actor, pa_occurred_at = isoNow h, pa_revision = revision,
      pa_draft_version = draft\<rparr>"

definition draft_version :: "program_state \<Rightarrow> int" where
  "draft_version s = (case ps_draft s of None \<Rightarrow> ps_active_revision s | Some d \<Rightarrow> df_version d) + 1"

definition draft_of :: "host \<Rightarrow> decoder \<Rightarrow> json \<Rightarrow> string \<Rightarrow> program_state \<Rightarrow> program_draft" where
  "draft_of h decode v actor s =
     \<lparr>df_version = draft_version s, df_updated_at = isoNow h, df_updated_by = actor, df_program = v,
      df_validation = validateProgramDefinition h decode v\<rparr>"

definition saveDraft :: "host \<Rightarrow> decoder \<Rightarrow> json \<Rightarrow> string \<Rightarrow> unit program_eff" where
  "saveDraft h decode v actor =
     m_bind (sv_get draft_version) (\<lambda>n.
     m_bind (sv_change (\<lambda>s. s\<lparr>ps_draft := Some (draft_of h decode v actor s)\<rparr>)) (\<lambda>_.
     m_bind (sv_draw h ''audit'') (\<lambda>i.
     m_bind (sv_change (record_audit (program_audit_entry h Draft_saved actor None (Some n) i))) (\<lambda>_.
     sv_save))))"

text \<open>\<open>draftProgramObject\<close>: the draft, or the active program when there is none.\<close>

definition draft_value :: "program_state \<Rightarrow> json" where
  "draft_value s =
     (case ps_draft s of
        None \<Rightarrow> json_program (ps_active_program s)
      | Some d \<Rightarrow> if df_program d = JNull then json_program (ps_active_program s) else df_program d)"

definition draftProgramObject :: "(string \<times> json) list program_eff" where
  "draftProgramObject =
     m_bind (sv_get draft_value) (\<lambda>v.
     case v of JObj kvs \<Rightarrow> m_return kvs | _ \<Rightarrow> sv_throw Invalid_program 422)"

definition rewards_of :: "(string \<times> json) list \<Rightarrow> json list" where
  "rewards_of kvs = (case map_of kvs ''rewards'' of Some (JArr rs) \<Rightarrow> rs | _ \<Rightarrow> [])"

definition names_reward :: "string \<Rightarrow> json \<Rightarrow> bool" where
  "names_reward rewardId v = (case v of JObj kvs \<Rightarrow> map_of kvs ''reward_id'' = Some (JStr rewardId) | _ \<Rightarrow> False)"

fun replace_first :: "('a \<Rightarrow> bool) \<Rightarrow> 'a \<Rightarrow> 'a list \<Rightarrow> 'a list" where
  "replace_first P x [] = [x]"
| "replace_first P x (y # ys) = (if P y then x # ys else y # replace_first P x ys)"

definition reward_id_of :: "json \<Rightarrow> string option" where
  "reward_id_of v =
     (case v of
        JObj kvs \<Rightarrow> (case text_field kvs ''reward_id'' of Some t \<Rightarrow> if trim t = [] then None else Some t | None \<Rightarrow> None)
      | _ \<Rightarrow> None)"

definition upsertReward :: "host \<Rightarrow> decoder \<Rightarrow> json \<Rightarrow> string \<Rightarrow> unit program_eff" where
  "upsertReward h decode reward actor =
     (case reward_id_of reward of
        None \<Rightarrow> sv_throw Validation_failed 422
      | Some rewardId \<Rightarrow>
          m_bind draftProgramObject (\<lambda>kvs.
          saveDraft h decode
            (JObj (js_set kvs ''rewards'' (JArr (replace_first (names_reward rewardId) reward (rewards_of kvs))))) actor))"

definition deleteReward :: "host \<Rightarrow> decoder \<Rightarrow> string \<Rightarrow> string \<Rightarrow> unit program_eff" where
  "deleteReward h decode rewardId actor =
     m_bind draftProgramObject (\<lambda>kvs.
     let next = filter (\<lambda>v. \<not> names_reward rewardId v) (rewards_of kvs) in
     m_bind (sv_check (length next \<noteq> length (rewards_of kvs)) Not_found 404) (\<lambda>_.
     saveDraft h decode (JObj (js_set kvs ''rewards'' (JArr next))) actor))"

definition validateDraft :: "host \<Rightarrow> decoder \<Rightarrow> validation_result program_eff" where
  "validateDraft h decode =
     m_bind (sv_get ps_draft) (\<lambda>draft.
     case draft of
       None \<Rightarrow> m_return (refused [No_draft])
     | Some d \<Rightarrow>
         (let v = validateProgramDefinition h decode (df_program d) in
          m_bind (sv_change (\<lambda>s. s\<lparr>ps_draft := Some (d\<lparr>df_validation := v\<rparr>)\<rparr>)) (\<lambda>_.
          m_bind sv_save (\<lambda>_. m_return v))))"

definition discardDraft :: "host \<Rightarrow> string \<Rightarrow> unit program_eff" where
  "discardDraft h actor =
     m_bind (sv_get ps_draft) (\<lambda>draft.
     case draft of
       None \<Rightarrow> sv_throw Not_found 404
     | Some d \<Rightarrow>
         m_bind (sv_change (\<lambda>s. s\<lparr>ps_draft := None\<rparr>)) (\<lambda>_.
         m_bind (sv_draw h ''audit'') (\<lambda>i.
         m_bind (sv_change (record_audit (program_audit_entry h Draft_discarded actor None (Some (df_version d)) i))) (\<lambda>_.
         sv_save))))"

section \<open>Publishing\<close>

text \<open>
  Calls that reach the running platform act on the service and on the platform's state.
  \<open>apply\<close> answers None when it returns.
\<close>

type_synonym ('w, 'a) publish_eff = "(program_state, 'w, 'a) with_world_eff"

definition without_bootstrap :: "program \<Rightarrow> program" where
  "without_bootstrap p =
     (case pg_metadata p of
        Some kvs \<Rightarrow>
          if map_of kvs ''lip_bootstrap'' = Some (JBool True)
          then p\<lparr>pg_metadata := Some (js_delete kvs ''lip_bootstrap'')\<rparr> else p
      | None \<Rightarrow> p)"

definition publish_state :: "host \<Rightarrow> program \<Rightarrow> string \<Rightarrow> program_state \<Rightarrow> program_state" where
  "publish_state h p actor s =
     s\<lparr>ps_draft := None,
       ps_history := take 20
         (\<lparr>rv_revision = ps_active_revision s, rv_published_at = ps_active_published_at s,
           rv_published_by = ps_active_published_by s, rv_program = ps_active_program s\<rparr> # ps_history s),
       ps_active_revision := ps_active_revision s + 1, ps_active_published_at := isoNow h,
       ps_active_published_by := actor, ps_active_program := p\<rparr>"

text \<open>
  The first half of \<open>applyPublishedProgram\<close>: the state before, and the intent recorded in
  memory and in the store.
\<close>

definition publish_intent :: "host \<Rightarrow> program \<Rightarrow> string \<Rightarrow> program_action \<Rightarrow> program_state program_eff" where
  "publish_intent h p actor action =
     m_bind (sv_get id) (\<lambda>previous.
     m_bind (sv_change (publish_state h p actor)) (\<lambda>_.
     m_bind (sv_draw h ''audit'') (\<lambda>i.
     m_bind (sv_change (record_audit (program_audit_entry h action actor (Some (ps_active_revision previous + 1)) None i))) (\<lambda>_.
     m_bind sv_save (\<lambda>_. m_return previous)))))"

definition applyPublishedProgram ::
  "host \<Rightarrow> (program \<Rightarrow> 'w \<Rightarrow> service_error option \<times> 'w) \<Rightarrow> program \<Rightarrow> string \<Rightarrow> program_action \<Rightarrow> ('w, unit) publish_eff"
where
  "applyPublishedProgram h apply p actor action =
     m_bind (on_service (publish_intent h (without_bootstrap p) actor action)) (\<lambda>previous.
     m_bind (\<lambda>(s, w). case apply (without_bootstrap p) w of (r, w') \<Rightarrow> (Inr r, (s, w'))) (\<lambda>failed.
     case failed of
       None \<Rightarrow> m_return ()
     | Some e \<Rightarrow>
         m_bind (on_service (sv_change (\<lambda>_. previous))) (\<lambda>_.
         m_bind (on_service sv_save) (\<lambda>_. m_throw e))))"

definition compatible_update :: "program \<Rightarrow> program \<Rightarrow> unit program_eff" where
  "compatible_update current next =
     (case assertCompatibleProgramUpdate current next of
        Inl e \<Rightarrow> m_throw (Engine_error e) | Inr _ \<Rightarrow> m_return ())"

definition refuse_publish :: "program_draft \<Rightarrow> validation_result \<Rightarrow> 'a program_eff" where
  "refuse_publish d v =
     m_bind (sv_change (\<lambda>s. s\<lparr>ps_draft := Some (d\<lparr>df_validation := v\<rparr>)\<rparr>)) (\<lambda>_.
     m_bind sv_save (\<lambda>_. sv_throw Invalid_program 422))"

definition publish_program ::
  "host \<Rightarrow> decoder \<Rightarrow> (program \<Rightarrow> 'w \<Rightarrow> service_error option \<times> 'w) \<Rightarrow> int \<Rightarrow> string \<Rightarrow> ('w, unit) publish_eff"
where
  "publish_program h decode apply expected actor =
     m_bind (on_service (sv_get ps_draft)) (\<lambda>draft.
     case draft of
       None \<Rightarrow> on_service (sv_throw Not_found 404)
     | Some d \<Rightarrow>
         if df_version d \<noteq> expected then on_service (sv_throw Conflict 409)
         else
           let v = validateProgramDefinition h decode (df_program d) in
           case (vr_ok v, decode (df_program d)) of
             (True, Some p) \<Rightarrow>
               m_bind (on_service (sv_get ps_active_program)) (\<lambda>current.
               m_bind (on_service (compatible_update current p)) (\<lambda>_.
               applyPublishedProgram h apply p actor Program_published))
           | _ \<Rightarrow> on_service (refuse_publish d v))"

definition rollback ::
  "host \<Rightarrow> (program \<Rightarrow> 'w \<Rightarrow> service_error option \<times> 'w) \<Rightarrow> int \<Rightarrow> string \<Rightarrow> ('w, unit) publish_eff"
where
  "rollback h apply revision actor =
     m_bind (on_service (sv_get (\<lambda>s. List.find (\<lambda>r. rv_revision r = revision) (ps_history s)))) (\<lambda>target.
     case target of
       None \<Rightarrow> on_service (sv_throw Not_found 404)
     | Some r \<Rightarrow>
         m_bind (on_service (sv_get ps_active_program)) (\<lambda>current.
         m_bind (on_service (compatible_update current (rv_program r))) (\<lambda>_.
         applyPublishedProgram h apply (rv_program r) actor Program_rolled_back)))"

end
