(* ===== verification/Platform.thy ===== *)
theory Platform
  imports Campaigns Memberships Program_Management Engine_History
begin

text \<open>
  How packages/server/src/platform.ts puts the services together: the program service
  beside the campaigns, the memberships, the running engine and the engine state stored
  last. The calls of all of them act on one state.
\<close>

record live =
  lv_campaigns :: "campaign_state service"
  lv_memberships :: "membership_state service"
  lv_platform :: platform

type_synonym 'a live_eff = "(live, service_error, 'a) eff"

definition on_campaigns :: "'a campaign_eff \<Rightarrow> 'a live_eff" where
  "on_campaigns m w =
     (case m (lv_campaigns w, lv_platform w) of (r, (s, p)) \<Rightarrow> (r, w\<lparr>lv_campaigns := s, lv_platform := p\<rparr>))"

definition on_memberships :: "'a membership_eff \<Rightarrow> 'a live_eff" where
  "on_memberships m w =
     (case m (lv_memberships w, lv_platform w) of (r, (s, p)) \<Rightarrow> (r, w\<lparr>lv_memberships := s, lv_platform := p\<rparr>))"

definition running :: "live \<Rightarrow> program" where
  "running w = eg_program (fst (lv_platform w))"

section \<open>The publisher\<close>

text \<open>
  The callback bound to the program service: campaigns and memberships may refuse the
  program, the engine is reconfigured and stored; when anything throws, the engine is
  reconfigured to the program it had.
\<close>

definition plan_ids :: "program \<Rightarrow> string list" where
  "plan_ids p = (case pg_membership_plans p of None \<Rightarrow> [] | Some ps \<Rightarrow> map mp_plan_id ps)"

definition change_program :: "host \<Rightarrow> program \<Rightarrow> unit live_eff" where
  "change_program h next =
     m_bind (on_campaigns (assertCompatibleProgram next)) (\<lambda>_.
     m_bind (on_memberships (assertCompatiblePlans h (plan_ids next))) (\<lambda>_.
     m_bind (on_campaigns (on_engine (reconfigureProgram h next))) (\<lambda>_.
     on_campaigns (persist_engine h))))"

definition publisher :: "host \<Rightarrow> program \<Rightarrow> live \<Rightarrow> service_error option \<times> live" where
  "publisher h next w =
     (case change_program h next w of
        (Inr u, v) \<Rightarrow> (None, v)
      | (Inl e, v) \<Rightarrow>
          (case on_campaigns (on_engine (reconfigureProgram h (running w))) v of
             (Inr u, v') \<Rightarrow> (Some e, v')
           | (Inl e', v') \<Rightarrow> (Some e', v')))"

section \<open>Starting\<close>

text \<open>What becomes of the engine state that is found, under the published program.\<close>

definition retarget_at_start :: "host \<Rightarrow> program_state \<Rightarrow> engine_state \<Rightarrow> engine_error + engine_state" where
  "retarget_at_start h ps st =
     (if es_program_fingerprint st = programDefinitionFingerprint h (ps_active_program ps) then Inr st
      else
        case programForFingerprint h (es_program_fingerprint st) ps of
          None \<Rightarrow> Inr st
        | Some p \<Rightarrow> retargetProgramState h st p (ps_active_program ps))"

definition start_engine :: "host \<Rightarrow> nat \<Rightarrow> program_state \<Rightarrow> engine_state option \<Rightarrow> engine_error + engine" where
  "start_engine h n ps stored =
     (case stored of
        None \<Rightarrow> construct h n (ps_active_program ps) None
      | Some st \<Rightarrow>
          (case retarget_at_start h ps st of
             Inl e \<Rightarrow> Inl e
           | Inr st' \<Rightarrow> construct h n (ps_active_program ps) (Some st')))"

text \<open>
  What a platform leaves on disk, and \<open>createDemoPlatform\<close>, as far as these parts go: the
  program service first, then the engine on what is stored of it, the campaigns, the
  memberships, and the engine stored again. \<open>n\<close> identifiers have been given out before.
\<close>

record disk =
  dk_programs :: "program_state store"
  dk_engine :: "engine_state option"
  dk_campaigns :: "campaign_state store"
  dk_memberships :: "membership_state store"

definition disk_of :: "program_state service \<times> live \<Rightarrow> disk" where
  "disk_of sw =
     \<lparr>dk_programs = sv_store (fst sw), dk_engine = snd (lv_platform (snd sw)),
      dk_campaigns = sv_store (lv_campaigns (snd sw)), dk_memberships = sv_store (lv_memberships (snd sw))\<rparr>"

definition create_platform ::
  "host \<Rightarrow> decoder \<Rightarrow> nat \<Rightarrow> bool \<Rightarrow> program \<Rightarrow> disk \<Rightarrow> service_error + program_state service \<times> live"
where
  "create_platform h decode n reset p d =
     (case create_programs h decode reset p (dk_programs d) of
        (Inl e, _) \<Rightarrow> Inl e
      | (Inr _, ps) \<Rightarrow>
          (case start_engine h n (sv_state ps) (if reset then None else dk_engine d) of
             Inl e \<Rightarrow> Inl (Engine_error e)
           | Inr e \<Rightarrow>
               (case (create_campaigns reset (dk_campaigns d), create_memberships reset (dk_memberships d)) of
                  ((Inr _, cs), (Inr _, ms)) \<Rightarrow>
                    Inr (ps, \<lparr>lv_campaigns = cs, lv_memberships = ms, lv_platform = (e, Some (exportState h e))\<rparr>)
                | ((Inl e', _), _) \<Rightarrow> Inl e'
                | (_, (Inl e', _)) \<Rightarrow> Inl e')))"

section \<open>Calls\<close>

datatype platform_call =
    Save_draft json string
  | Upsert_reward json string
  | Delete_reward string string
  | Validate_draft
  | Discard_draft string
  | Publish int string
  | Rollback int string
  | Upsert_segment "string option" string "string list" "segment_rules option"
  | Delete_segment string
  | Upsert_campaign campaign_input
  | Delete_campaign string
  | Set_campaign_status string bool
  | Run_campaign customer_facts string string
  | Run_due_campaigns customer_facts string int
  | Grant_membership string string "string option" string "string option" string
  | Change_membership string bool string
  | Lapse_memberships string int
  | Engine_call operation

definition on_live :: "'a live_eff \<Rightarrow> (live, 'a) publish_eff" where
  "on_live m sw = (case m (snd sw) of (r, w) \<Rightarrow> (r, (fst sw, w)))"

definition stored_call :: "host \<Rightarrow> operation \<Rightarrow> unit live_eff" where
  "stored_call h p = m_bind (on_campaigns (on_engine (perform h p))) (\<lambda>_. on_campaigns (persist_engine h))"

fun call_platform :: "host \<Rightarrow> decoder \<Rightarrow> (string \<Rightarrow> int) \<Rightarrow> platform_call \<Rightarrow> (live, unit) publish_eff" where
  "call_platform h decode bucket (Save_draft v actor) = on_service (saveDraft h decode v actor)"
| "call_platform h decode bucket (Upsert_reward v actor) = on_service (upsertReward h decode v actor)"
| "call_platform h decode bucket (Delete_reward i actor) = on_service (deleteReward h decode i actor)"
| "call_platform h decode bucket Validate_draft = m_void (on_service (validateDraft h decode))"
| "call_platform h decode bucket (Discard_draft actor) = on_service (discardDraft h actor)"
| "call_platform h decode bucket (Publish n actor) = publish_program h decode (publisher h) n actor"
| "call_platform h decode bucket (Rollback n actor) = rollback h (publisher h) n actor"
| "call_platform h decode bucket (Upsert_segment i name ms rules) = on_live (m_void (on_campaigns (upsertSegment h i name ms rules)))"
| "call_platform h decode bucket (Delete_segment i) = on_live (on_campaigns (deleteSegment i))"
| "call_platform h decode bucket (Upsert_campaign c) = on_live (m_void (on_campaigns (upsertCampaign h c)))"
| "call_platform h decode bucket (Delete_campaign i) = on_live (on_campaigns (deleteCampaign i))"
| "call_platform h decode bucket (Set_campaign_status i active) = on_live (m_void (on_campaigns (setCampaignStatus h i active)))"
| "call_platform h decode bucket (Run_campaign facts i actor) = on_live (m_void (on_campaigns (runCampaign h facts bucket i actor)))"
| "call_platform h decode bucket (Run_due_campaigns facts actor at) =
     on_live (m_void (on_campaigns (runDueCampaigns h facts bucket actor at)))"
| "call_platform h decode bucket (Grant_membership m plan from until billing actor) =
     on_live (m_void (on_memberships (grant h m plan from until billing actor)))"
| "call_platform h decode bucket (Change_membership m lapsed actor) =
     on_live (m_void (on_memberships (changeStatus h m lapsed actor)))"
| "call_platform h decode bucket (Lapse_memberships actor at) = on_live (m_void (on_memberships (lapseExpired h actor at)))"
| "call_platform h decode bucket (Engine_call p) = on_live (stored_call h p)"

text \<open>Calls at their own instants, each from what the one before left.\<close>

fun run_calls ::
  "host \<Rightarrow> decoder \<Rightarrow> (string \<Rightarrow> int) \<Rightarrow> (int \<times> platform_call) list \<Rightarrow> program_state service \<times> live \<Rightarrow>
     program_state service \<times> live"
where
  "run_calls h decode bucket [] sw = sw"
| "run_calls h decode bucket ((t, c) # cs) sw =
     run_calls h decode bucket cs (snd (call_platform (h\<lparr>h_now := t\<rparr>) decode bucket c sw))"

end
