(* ===== verification/Platform_Theorems.thy ===== *)
theory Platform_Theorems
  imports Platform Engine_Restore
begin

text \<open>
  The platform as a whole: the engine always runs the published program, campaigns only name
  rewards of it, and a publish interrupted by a crash is finished by the next start.
  \<open>steady\<close> is what every call of a service keeps; the publisher is an instance of
  \<open>program_runner\<close>, the interface the program service relies on.
\<close>

section \<open>What the calls of a service keep\<close>

text \<open>What is stored is the export of an engine with the program that runs.\<close>

definition saved :: "host \<Rightarrow> platform \<Rightarrow> bool" where
  "saved h p \<longleftrightarrow>
     (\<forall>st. snd p = Some st \<longrightarrow>
        (\<exists>t e. st = exportState (h\<lparr>h_now := t\<rparr>) e \<and> eg_program e = eg_program (fst p) \<and> restorable e))"

definition steady :: "host \<Rightarrow> ('s \<Rightarrow> program \<Rightarrow> bool) \<Rightarrow> 's service \<times> platform \<Rightarrow> 's service \<times> platform \<Rightarrow> bool" where
  "steady h ok x y \<longleftrightarrow>
     eg_program (fst (snd y)) = eg_program (fst (snd x)) \<and>
     (restorable (fst (snd x)) \<longrightarrow> restorable (fst (snd y)) \<and> (saved h (snd x) \<longrightarrow> saved h (snd y))) \<and>
     (ok (sv_state (fst x)) (eg_program (fst (snd x))) \<longrightarrow> ok (sv_state (fst y)) (eg_program (fst (snd x))))"

interpretation steady: effect_relation "steady h ok" for h ok
  by unfold_locales (auto simp: steady_def)

lemma saved_time [simp]: "saved (h\<lparr>h_now := t\<rparr>) = saved h"
  by (simp add: saved_def fun_eq_iff)

lemma steady_time [simp]: "steady (h\<lparr>h_now := t\<rparr>) ok = steady h ok"
  by (simp add: steady_def fun_eq_iff)

lemma steady_service:
  assumes "\<And>s p. ok (sv_state s) p \<Longrightarrow> ok (sv_state (snd (m s))) p"
  shows "m_keeps (steady h ok) (on_service m)"
  using assms by (auto simp: m_keeps_def steady_def on_service_def split: prod.splits) (metis snd_conv)

lemma state_kept [simp]:
  "sv_state (snd (sv_get g s)) = sv_state s" "sv_state (snd (sv_check c e n s)) = sv_state s"
  "sv_state (snd (sv_throw e n s)) = sv_state s" "sv_state (snd (sv_draw h p s)) = sv_state s"
  "sv_state (snd (sv_change f s)) = f (sv_state s)"
  by (simp_all add: sv_get_def sv_check_def sv_throw_def sv_draw_def sv_change_def m_assert_run)

lemma steady_engine:
  fixes ok :: "'s \<Rightarrow> program \<Rightarrow> bool"
  assumes "m_keeps same_program m" "m_keeps stays_restorable m"
  shows "m_keeps (steady h ok) (on_engine m)"
  unfolding m_keeps_def
proof
  fix x :: "'s service \<times> platform"
  obtain r e where run: "m (fst (snd x)) = (r, e)" by (cases "m (fst (snd x))")
  have "eg_program e = eg_program (fst (snd x))" "restorable (fst (snd x)) \<longrightarrow> restorable e"
    using assms run by (auto simp: m_keeps_def same_program_def stays_restorable_def dest!: spec [of _ "fst (snd x)"])
  then show "steady h ok x (snd (on_engine m x))"
    using run by (auto simp: steady_def saved_def on_engine_def split: sum.splits)
qed

lemma steady_persist: "m_keeps (steady h ok) (persist_engine h)"
proof -
  have "steady h ok (s, e, st) (s, e, Some (exportState h e))" for s e st
    unfolding steady_def saved_def by (auto intro!: exI [of _ "h_now h"] exI [of _ e])
  then show ?thesis by (auto simp: m_keeps_def persist_engine_def)
qed

lemma steady_attempt: "m_keeps (steady h ok) m \<Longrightarrow> m_keeps (steady h ok) (attempt m)"
  by (auto simp: m_keeps_def attempt_def split: prod.splits) (metis snd_conv)

lemma steady_inspect: "m_keeps (steady h ok) (on_engine (inspectAdmin g))"
  by (intro steady_engine program_stays.keeps_inspectAdmin restorable_all.keeps_inspectAdmin)

lemma steady_read: "m_keeps (steady h ok) (on_engine (m_get f))"
  by (intro steady_engine program_effect.keeps_get restorable_effect.keeps_get)

lemma steady_issue: "m_keeps (steady h ok) (on_engine (issueReward g r))"
  by (intro steady_engine program_stays.keeps_issue restorable_all.keeps_issue)

lemma steady_membership: "m_keeps (steady h ok) (on_engine (setMemberMembership g m v))"
  by (intro steady_engine program_stays.keeps_setMembership restorable_all.keeps_setMembership)

lemma steady_operation: "p \<notin> range Op_reconfigureProgram \<Longrightarrow> m_keeps (steady h ok) (on_engine (perform g p))"
  by (intro steady_engine program_stays.keeps_perform_running restorable_all.keeps_perform)

lemmas steady_reads =
  steady_inspect steady_read steady_issue steady_membership steady_persist steady_attempt
  steady_service steady.keeps_bind steady.keeps_return steady.keeps_throw steady.keeps_map steady.keeps_if
  steady.keeps_case_option

section \<open>Memberships\<close>

lemma steady_write: "m_keeps (steady h ok) (write_membership h m v)"
  unfolding write_membership_def by (intro steady_reads)

lemma steady_memberships:
  fixes h :: host and i :: nat
  defines "anything \<equiv> \<lambda>(s :: membership_state) (p :: program). True"
  shows "m_keeps (steady h anything) (grant h m pl f u b actor)"
    "m_keeps (steady h anything) (changeStatus h m lapsed actor)"
    "m_keeps (steady h anything) (lapseExpired h actor at)"
    "m_keeps (steady h anything) (assertCompatiblePlans h plans)"
proof -
  have change: "m_keeps (steady h anything) (changeStatus h m lapsed actor)" for m lapsed
    unfolding changeStatus_def membershipFor_def audit_membership_def Let_def
    by (intro steady_reads steady_write) (simp_all add: anything_def)
  show "m_keeps (steady h anything) (changeStatus h m lapsed actor)" by (rule change)
  show "m_keeps (steady h anything) (lapseExpired h actor at)"
    unfolding lapseExpired_def membership_snapshot_def by (intro steady_reads change)
  show "m_keeps (steady h anything) (assertCompatiblePlans h plans)"
    unfolding assertCompatiblePlans_def membership_snapshot_def by (intro steady_reads) (simp_all add: anything_def)
  show "m_keeps (steady h anything) (grant h m pl f u b actor)"
    unfolding grant_def audit_membership_def Let_def
    by (intro steady_reads steady_write, simp add: anything_def)
      (auto split: option.split prod.split intro!: steady_reads steady_write simp: anything_def)
qed

section \<open>Campaigns\<close>

text \<open>The campaigns of a state name rewards of the program; what a call does to them.\<close>

lemma compatible_parts:
  "campaigns_compatible s p \<longleftrightarrow> (\<forall>c \<in> set (cm_campaigns s). cp_reward_id c \<in> rd_reward_id ` set (pg_rewards p))"
  by (simp add: campaigns_compatible_def list_all_iff)

lemma compatible_changes:
  "campaigns_compatible s p \<Longrightarrow> campaigns_compatible (s\<lparr>cm_segments := gs\<rparr>) p"
  "campaigns_compatible s p \<Longrightarrow> campaigns_compatible (s\<lparr>cm_campaigns := filter P (cm_campaigns s)\<rparr>) p"
  "campaigns_compatible s p \<Longrightarrow> campaigns_compatible (finish_run h i run s) p"
  "campaigns_compatible s p \<Longrightarrow> cp_reward_id c \<in> rd_reward_id ` set (pg_rewards p) \<Longrightarrow> campaigns_compatible (replaceCampaign c s) p"
  "campaigns_compatible s p \<Longrightarrow> cp_reward_id c \<in> rd_reward_id ` set (pg_rewards p) \<Longrightarrow>
     campaigns_compatible (s\<lparr>cm_campaigns := put_by cp_campaign_id c (cm_campaigns s)\<rparr>) p"
  by (auto simp: compatible_parts finish_run_def replaceCampaign_def put_by_def)

lemma found_compatible:
  "find_campaign i s = Some c \<Longrightarrow> campaigns_compatible s p \<Longrightarrow> cp_reward_id c \<in> rd_reward_id ` set (pg_rewards p)"
  by (auto simp: find_campaign_def compatible_parts dest: find_SomeD)

text \<open>A call that goes on with the campaign it has found.\<close>

abbreviation steady_campaigns :: "host \<Rightarrow> campaign_state service \<times> platform \<Rightarrow> campaign_state service \<times> platform \<Rightarrow> bool" where
  "steady_campaigns h \<equiv> steady h campaigns_compatible"

lemma steady_found:
  assumes "m_keeps (steady_campaigns h) m"
    and "\<And>c x. find_campaign i (sv_state (fst x)) = Some c \<Longrightarrow> steady_campaigns h x (snd (f c x))"
  shows "m_keeps (steady_campaigns h) (m_bind (on_service (sv_get (find_campaign i))) (\<lambda>found. case found of None \<Rightarrow> m | Some c \<Rightarrow> f c))"
  using assms by (auto simp: m_keeps_def split: option.split)

lemma steady_replace:
  assumes "find_campaign i (sv_state (fst x)) = Some c" "cp_reward_id c' = cp_reward_id c" "m_keeps (steady_campaigns h) m"
  shows "steady_campaigns h x (snd (m_bind (on_service (sv_change (replaceCampaign c'))) (\<lambda>_. m) x))"
proof -
  have "steady_campaigns h x ((fst x)\<lparr>sv_state := replaceCampaign c' (sv_state (fst x))\<rparr>, snd x)"
    using found_compatible [OF assms(1)] assms(2) by (auto simp: steady_def intro: compatible_changes)
  moreover have "steady_campaigns h y (snd (m y))" for y
    using assms(3) by (simp only: m_keeps_def)
  ultimately show ?thesis
    by (simp only: on_service_runs) (rule steady.R_trans)
qed

lemma steady_if:
  "(b \<Longrightarrow> steady_campaigns h x (snd (m x))) \<Longrightarrow> (\<not> b \<Longrightarrow> steady_campaigns h x (snd (n x))) \<Longrightarrow>
     steady_campaigns h x (snd ((if b then m else n) x))"
  by simp

lemma steady_save: "m_keeps (steady h ok) (on_service sv_save)" "m_keeps (steady h ok) (on_service (sv_throw e n))"
  "m_keeps (steady h ok) (on_service (sv_check c e n))" "m_keeps (steady h ok) (on_service (sv_draw g p))"
  "m_keeps (steady h ok) (on_service (sv_get f))"
  by (intro steady_service; simp)+

lemma steady_finish: "m_keeps (steady_campaigns h) (on_service (sv_change (finish_run g i run)))"
  by (intro steady_service) (simp add: compatible_changes)

lemmas steady_intros =
  steady_save steady_finish steady_inspect steady_read steady_issue steady_persist steady_attempt steady.keeps_bind
  steady.keeps_return steady.keeps_throw steady.keeps_map steady.keeps_if steady.keeps_case_option

lemma steady_members: "m_keeps (steady_campaigns h) (resolveSegmentMembers h facts g)"
  unfolding resolveSegmentMembers_def by (intro steady_intros)

lemma steady_issue_to: "m_keeps (steady_campaigns h) (issue_to_segment h facts bucket runId actor c g)"
  unfolding issue_to_segment_def run_member_def issue_once_def by (intro steady_intros steady_members)

lemma steady_run: "m_keeps (steady_campaigns h) (runCampaign h facts bucket i actor)"
proof -
  have go: "m_keeps (steady_campaigns h) (m_bind (on_service (sv_get (find_segment j))) (\<lambda>segment.
           case segment of
             None \<Rightarrow> on_service (sv_throw Not_found 404)
           | Some g \<Rightarrow>
               m_bind (on_service (sv_draw h ''run'')) (\<lambda>runId.
               m_bind (issue_to_segment h facts bucket runId actor c g) (\<lambda>os.
               m_bind (on_service (sv_change (finish_run h i (run_of h runId i actor os)))) (\<lambda>_.
               m_bind (on_service sv_save) (\<lambda>_. m_return (run_of h runId i actor os)))))))" for j c
    by (intro steady_intros steady_issue_to)
  have expired: "m_keeps (steady_campaigns h) (m_bind (on_service sv_save) (\<lambda>_. on_service (sv_throw e n)))" for e n
    by (intro steady_intros)
  show ?thesis
    unfolding runCampaign_def
    by (intro steady_found steady_save steady_if steady_replace [where i = i] expired steady.at_keeps [OF go]
        steady.at_keeps [OF steady_save(2)]) (assumption | simp)+
qed

lemma steady_due: "m_keeps (steady_campaigns h) (run_due h facts bucket actor at i)"
proof -
  have go: "m_keeps (steady_campaigns h) (m_bind (runCampaign h facts bucket j actor) (\<lambda>r. m_return (Some r)))" for j
    by (intro steady_intros steady_run)
  show ?thesis
    unfolding run_due_def
    by (intro steady_found steady_if steady_replace [where i = i] steady.at_keeps [OF go]
        steady.at_keeps [OF steady.keeps_return] steady.keeps_return) (assumption | simp)+
qed

lemma steady_run_due: "m_keeps (steady_campaigns h) (runDueCampaigns h facts bucket actor at)"
  unfolding runDueCampaigns_def by (intro steady_intros steady_due)

lemma steady_check:
  "(b \<Longrightarrow> steady_campaigns h x (snd (m x))) \<Longrightarrow> steady_campaigns h x (snd (m_bind (on_service (sv_check b e n)) (\<lambda>_. m) x))"
  by (simp add: steady.R_refl)

lemma steady_set_status: "m_keeps (steady_campaigns h) (setCampaignStatus h i active)"
proof -
  have go: "m_keeps (steady_campaigns h) (m_bind (on_service sv_save) (\<lambda>_. m_return c))" for c
    by (intro steady_intros)
  show ?thesis
    unfolding setCampaignStatus_def Let_def
    by (intro steady_found steady_save steady_check steady_replace [where i = i] go) (assumption | simp | rule go)+
qed

lemma steady_deletes:
  "m_keeps (steady_campaigns h) (deleteCampaign i)" "m_keeps (steady_campaigns h) (deleteSegment i)"
  unfolding deleteCampaign_def deleteSegment_def
  by (intro steady_intros steady_service; simp add: compatible_changes)+

lemma steady_drawn: "m_keeps (steady h ok) (given_or_drawn g prefix i)" "m_keeps (steady h ok) (required t)"
  unfolding given_or_drawn_def required_def by (intro steady_intros steady.keeps_throw)+

lemma steady_segment: "m_keeps (steady_campaigns h) (upsertSegment h i name ms rules)"
  unfolding upsertSegment_def check_static_def listed_members_def Let_def
  by (intro steady_intros steady_drawn steady_service) (simp add: compatible_changes)

text \<open>A campaign is checked against the program before it is stored.\<close>

lemma on_engine_get [simp]: "m_bind (on_engine (m_get g)) f x = f (g (fst (snd x))) x"
  by (cases x) (simp add: on_engine_def m_bind_def m_get_def)

lemma steady_campaign: "m_keeps (steady_campaigns h) (upsertCampaign h c)"
  unfolding m_keeps_def
proof
  fix x :: "campaign_state service \<times> platform"
  let ?offered = "\<lambda>p. cn_reward_id c \<in> rd_reward_id ` set (pg_rewards p)"
  have "m_keeps (steady h (\<lambda>s p. ?offered p \<longrightarrow> campaigns_compatible s p)) (upsertCampaign h c)"
    unfolding upsertCampaign_def
    by (intro steady_intros steady_drawn steady_service) (auto intro!: compatible_changes simp: campaign_of_def)
  then have kept: "steady h (\<lambda>s p. ?offered p \<longrightarrow> campaigns_compatible s p) x (snd (upsertCampaign h c x))"
    by (simp only: m_keeps_def)
  show "steady_campaigns h x (snd (upsertCampaign h c x))"
  proof (cases "?offered (eg_program (fst (snd x)))")
    case True
    with kept show ?thesis by (simp add: steady_def)
  next
    case False
    then have "snd (upsertCampaign h c x) = x" by (simp add: upsertCampaign_def)
    then show ?thesis by (simp add: steady.R_refl)
  qed
qed

section \<open>The publisher\<close>

definition okay_live :: "host \<Rightarrow> live \<Rightarrow> bool" where
  "okay_live h w \<longleftrightarrow>
     restorable (fst (lv_platform w)) \<and> saved h (lv_platform w) \<and> program_ok h (running w) \<and>
     campaigns_compatible (sv_state (lv_campaigns w)) (running w)"

lemma check_campaigns [simp]:
  "m_bind (on_campaigns (assertCompatibleProgram p)) f w =
     (if campaigns_compatible (sv_state (lv_campaigns w)) p then f () w else (Inl (Engine_error (EngineError Conflict 409)), w))"
  by (simp add: m_bind_def [of "on_campaigns _"] on_campaigns_def assertCompatibleProgram_def)
    (simp add: on_service_def sv_check_def m_assert_def m_return_def m_throw_def)

lemma check_plans:
  assumes "on_memberships (assertCompatiblePlans h plans) w = (r, v)" "okay_live h w"
  shows "okay_live h v" "running v = running w" "lv_campaigns v = lv_campaigns w"
proof -
  obtain s p where run: "assertCompatiblePlans h plans (lv_memberships w, lv_platform w) = (r, (s, p))"
    and v: "v = w\<lparr>lv_memberships := s, lv_platform := p\<rparr>"
    using assms(1) by (auto simp: on_memberships_def split: prod.splits)
  have "steady h (\<lambda>s p. True) (lv_memberships w, lv_platform w) (s, p)"
    using steady_memberships(4) [of h plans] run by (metis m_keeps_def snd_conv)
  then show "okay_live h v" "running v = running w" "lv_campaigns v = lv_campaigns w"
    using assms(2) by (simp_all add: v steady_def okay_live_def running_def)
qed

lemma live_reconfigure:
  assumes "on_campaigns (on_engine (reconfigureProgram h p)) w = (r, v)" "okay_live h w"
  shows "lv_campaigns v = lv_campaigns w" "restorable (fst (lv_platform v))"
    and "r = Inr () \<Longrightarrow> running v = p \<and> program_ok h p"
    and "r = Inl e \<Longrightarrow> running v = running w \<and> okay_live h v"
proof -
  obtain q s where run: "reconfigureProgram h p (fst (lv_platform w)) = (q, s)"
    by (cases "reconfigureProgram h p (fst (lv_platform w))")
  have r: "r = (case q of Inl e \<Rightarrow> Inl (Engine_error e) | Inr u \<Rightarrow> Inr u)"
    and v: "lv_platform v = (s, snd (lv_platform w))" "lv_campaigns v = lv_campaigns w"
    using assms(1) run by (auto simp: on_campaigns_def on_engine_def split: sum.splits)
  have "stays_restorable (fst (lv_platform w)) s"
    using restorable_all.keeps_reconfigure [of h p] run by (metis m_keeps_def snd_conv)
  then have s: "restorable s" using assms(2) by (simp add: stays_restorable_def okay_live_def)
  show "lv_campaigns v = lv_campaigns w" "restorable (fst (lv_platform v))"
    using v s by simp_all
  show "r = Inr () \<Longrightarrow> running v = p \<and> program_ok h p"
    using reconfigure_result(1) [OF run] r v by (auto simp: running_def split: sum.splits)
  show "r = Inl e \<Longrightarrow> running v = running w \<and> okay_live h v"
    using reconfigure_result(2) [OF run] r v s assms(2)
    by (auto simp: running_def okay_live_def saved_def split: sum.splits)
qed

lemma live_persist:
  "on_campaigns (persist_engine h) w = (Inr (), w\<lparr>lv_platform := (fst (lv_platform w), Some (exportState h (fst (lv_platform w))))\<rparr>)"
  by (cases w) (simp add: on_campaigns_def persist_engine_def m_modify_def split: prod.split)

lemma saved_export: "restorable e \<Longrightarrow> saved h (e, Some (exportState h e))"
  unfolding saved_def by (auto intro!: exI [of _ "h_now h"] exI [of _ e])

lemma change_program_result:
  assumes "change_program h p w = (r, v)" "okay_live h w"
  shows "r = Inr () \<Longrightarrow> running v = p \<and> okay_live h v" "r = Inl e \<Longrightarrow> running v = running w \<and> okay_live h v"
proof -
  have result: "(r = Inr () \<longrightarrow> running v = p \<and> okay_live h v) \<and> (\<forall>e. r = Inl e \<longrightarrow> running v = running w \<and> okay_live h v)"
  proof (cases "campaigns_compatible (sv_state (lv_campaigns w)) p")
    case False
    with assms show ?thesis by (auto simp: change_program_def)
  next
    case True
    obtain r1 w1 where plans: "on_memberships (assertCompatiblePlans h (plan_ids p)) w = (r1, w1)"
      by (cases "on_memberships (assertCompatiblePlans h (plan_ids p)) w")
    note w1 = check_plans [OF plans assms(2)]
    show ?thesis
    proof (cases r1)
      case (Inl e)
      with True plans w1 assms(1) show ?thesis by (auto simp: change_program_def m_bind_def [of "on_memberships _"])
    next
      case (Inr u)
      obtain r2 w2 where reconf: "on_campaigns (on_engine (reconfigureProgram h p)) w1 = (r2, w2)"
        by (cases "on_campaigns (on_engine (reconfigureProgram h p)) w1")
      note w2 = live_reconfigure [OF reconf w1(1)]
      have run: "(r, v) = (case r2 of Inl e \<Rightarrow> (Inl e, w2)
          | Inr u \<Rightarrow> (Inr (), w2\<lparr>lv_platform := (fst (lv_platform w2), Some (exportState h (fst (lv_platform w2))))\<rparr>))"
        using True plans Inr reconf assms(1)
        by (auto simp: change_program_def m_bind_def [of "on_memberships _"] m_bind_def [of "on_campaigns (on_engine _)"]
            live_persist split: sum.splits)
      show ?thesis
        using run w2 w1 True by (cases r2) (auto simp: okay_live_def running_def saved_export)
    qed
  qed
  then show "r = Inr () \<Longrightarrow> running v = p \<and> okay_live h v" "r = Inl e \<Longrightarrow> running v = running w \<and> okay_live h v"
    by auto
qed

lemma publisher_result:
  assumes "publisher h p w = (r, v)" "okay_live h w"
  shows "r = None \<Longrightarrow> running v = p \<and> okay_live h v" "r = Some e \<Longrightarrow> running v = running w \<and> okay_live h v"
proof -
  obtain q w1 where change: "change_program h p w = (q, w1)" by (cases "change_program h p w")
  note done1 = change_program_result [OF change assms(2)]
  have "(r = None \<longrightarrow> running v = p \<and> okay_live h v) \<and> (\<forall>e. r = Some e \<longrightarrow> running v = running w \<and> okay_live h v)"
  proof (cases q)
    case (Inr u)
    with change done1 assms(1) show ?thesis by (auto simp: publisher_def)
  next
    case (Inl e)
    obtain q2 w2 where undone: "on_campaigns (on_engine (reconfigureProgram h (running w))) w1 = (q2, w2)"
      by (cases "on_campaigns (on_engine (reconfigureProgram h (running w))) w1")
    have w1: "running w1 = running w" "okay_live h w1" using done1(2) [OF Inl] by auto
    note done2 = live_reconfigure [OF undone w1(2)]
    have "running w2 = running w \<and> okay_live h w2"
    proof (cases q2)
      case (Inl e')
      then show ?thesis using done2(4) w1 by auto
    next
      case (Inr u')
      then show ?thesis
        using done2(1-3) w1 undone
        by (auto simp: okay_live_def running_def saved_def on_campaigns_def on_engine_def split: prod.splits sum.splits)
    qed
    then show ?thesis using change Inl undone assms(1) by (auto simp: publisher_def split: sum.splits)
  qed
  then show "r = None \<Longrightarrow> running v = p \<and> okay_live h v" "r = Some e \<Longrightarrow> running v = running w \<and> okay_live h v"
    by auto
qed

section \<open>The interface of the publisher\<close>

text \<open>
  What the program service relies on: a publisher that returns has made the program the one
  that runs, one that throws has left the program as it was.
\<close>

definition in_step :: "('w \<Rightarrow> program) \<Rightarrow> program_state service \<times> 'w \<Rightarrow> bool" where
  "in_step prog sw \<longleftrightarrow> synced (fst sw) \<and> prog (snd sw) = ps_active_program (sv_state (fst sw))"

lemma save_synced: "sole_writer s \<Longrightarrow> synced (snd (sv_save s))"
  by (rule save_syncs [of s]) auto

lemma intent_run:
  assumes "synced s"
  obtains t a where "publish_intent h p actor action s = (Inr (sv_state s), t)" "synced t"
    "sv_state t = record_audit a (publish_state h p actor (sv_state s))"
proof -
  have writer: "sole_writer s" by (rule synced_sole_writer [OF assms])
  let ?a = "program_audit_entry h action actor (Some (ps_active_revision (sv_state s) + 1)) None (h_ids h ''audit'' (sv_draws s))"
  let ?u = "s\<lparr>sv_draws := Suc (sv_draws s), sv_state := record_audit ?a (publish_state h p actor (sv_state s))\<rparr>"
  have "sole_writer ?u" using writer by (simp add: sole_writer_def)
  then obtain t where t: "sv_save ?u = (Inr (), t)" "synced t" "sv_state t = sv_state ?u" "sv_draws t = sv_draws ?u"
    by (rule save_syncs)
  have run: "publish_intent h p actor action s = (Inr (sv_state s), t)"
    using t(1) by (simp add: publish_intent_def m_bind_def [of sv_save] m_return_def)
  show thesis by (rule that [OF run t(2), of ?a]) (simp add: t(3))
qed

lemma published_active [simp]: "ps_active_program (record_audit a (publish_state h p actor s)) = p"
  by (simp add: record_audit_def publish_state_def)

locale program_runner =
  fixes put_in_force :: "program \<Rightarrow> 'w \<Rightarrow> service_error option \<times> 'w" and prog :: "'w \<Rightarrow> program" and okay :: "'w \<Rightarrow> bool"
  assumes applied: "okay w \<Longrightarrow> put_in_force p w = (None, v) \<Longrightarrow> prog v = p \<and> okay v"
    and refused: "okay w \<Longrightarrow> put_in_force p w = (Some e, v) \<Longrightarrow> prog v = prog w \<and> okay v"
begin

lemma publishing_in_step:
  assumes "in_step prog (s, w)" "okay w"
  obtains r s' w' where "applyPublishedProgram h put_in_force p actor action (s, w) = (r, (s', w'))"
    "in_step prog (s', w')" "okay w'"
    "sv_state s' = sv_state s \<or> (\<exists>a. sv_state s' = record_audit a (publish_state h (without_bootstrap p) actor (sv_state s)))"
proof -
  have s: "synced s" "prog w = ps_active_program (sv_state s)" using assms(1) by (simp_all add: in_step_def)
  obtain t a where t: "publish_intent h (without_bootstrap p) actor action s = (Inr (sv_state s), t)" "synced t"
    "sv_state t = record_audit a (publish_state h (without_bootstrap p) actor (sv_state s))"
    by (rule intent_run [OF s(1)])
  obtain r v where v: "put_in_force (without_bootstrap p) w = (r, v)" by (cases "put_in_force (without_bootstrap p) w")
  have intent: "m_bind (on_service (publish_intent h (without_bootstrap p) actor action)) f (s, w) = f (sv_state s) (t, w)" for f
    using t(1) by (simp add: m_bind_def on_service_def)
  show thesis
  proof (cases r)
    case None
    with v applied [OF assms(2)] have v': "prog v = without_bootstrap p" "okay v" by auto
    have "applyPublishedProgram h put_in_force p actor action (s, w) = (Inr (), (t, v))"
      using v None by (simp add: applyPublishedProgram_def intent) (simp add: m_bind_def m_return_def)
    then show thesis by (rule that) (use v' t in \<open>auto simp: in_step_def\<close>)
  next
    case (Some e)
    have v': "prog v = prog w" "okay v" using refused [OF assms(2)] v Some by auto
    let ?u = "t\<lparr>sv_state := sv_state s\<rparr>"
    have "sole_writer ?u" using synced_sole_writer [OF t(2)] by simp
    then obtain u where u: "sv_save ?u = (Inr (), u)" "synced u" "sv_state u = sv_state ?u" by (rule save_syncs)
    have "applyPublishedProgram h put_in_force p actor action (s, w) = (Inl e, (u, v))"
      using v Some u(1)
      by (simp add: applyPublishedProgram_def intent)
        (simp add: m_bind_def on_service_def sv_change_def m_modify_def m_throw_def)
    then show thesis by (rule that) (use u v' s in \<open>simp_all add: in_step_def\<close>)
  qed
qed

end

interpretation live_publisher: program_runner "publisher h" running "okay_live h" for h
  by unfold_locales (use publisher_result in blast)+

section \<open>The revisions\<close>

text \<open>
  The history holds the last twenty revisions before the active one, newest first, and a
  draft has a later version than the active revision.
\<close>

definition revisions_ok :: "program_state \<Rightarrow> bool" where
  "revisions_ok s \<longleftrightarrow>
     1 \<le> ps_active_revision s \<and>
     map rv_revision (ps_history s) = map (\<lambda>i. ps_active_revision s - 1 - int i) [0..<min 20 (nat (ps_active_revision s - 1))] \<and>
     (\<forall>d. ps_draft s = Some d \<longrightarrow> ps_active_revision s < df_version d) \<and>
     length (ps_audit s) \<le> 100"

lemma revisions_published: "revisions_ok s \<Longrightarrow> revisions_ok (record_audit a (publish_state h p actor s))"
proof -
  assume ok: "revisions_ok s"
  then obtain n where n: "ps_active_revision s = 1 + int n"
    unfolding revisions_ok_def using zle_iff_zadd by auto
  have "map rv_revision (take 20 (r # ps_history s)) = map (\<lambda>i. 1 + int n - int i) [0..<min 20 (Suc n)]"
    if "rv_revision r = 1 + int n" for r
  proof (rule nth_equalityI)
    have "map rv_revision (ps_history s) = map (\<lambda>i. int n - int i) [0..<min 20 n]"
      using ok n by (simp add: revisions_ok_def)
    then have len: "length (ps_history s) = min 20 n"
      by (metis length_map length_upt diff_zero)
    then show "length (map rv_revision (take 20 (r # ps_history s))) = length (map (\<lambda>i. 1 + int n - int i) [0..<min 20 (Suc n)])"
      by simp
    fix i assume "i < length (map rv_revision (take 20 (r # ps_history s)))"
    then have i: "i < 20" "i < Suc n" using len by auto
    show "map rv_revision (take 20 (r # ps_history s)) ! i = map (\<lambda>i. 1 + int n - int i) [0..<min 20 (Suc n)] ! i"
    proof (cases i)
      case 0
      with that show ?thesis by (simp del: upt_Suc)
    next
      case (Suc j)
      with i len have "j < length (ps_history s)" by simp
      then have "rv_revision (ps_history s ! j) = map rv_revision (ps_history s) ! j" by simp
      also have "\<dots> = int n - int j" using ok n i Suc by (simp add: revisions_ok_def)
      finally show ?thesis using i Suc len by (simp del: upt_Suc)
    qed
  qed
  then show ?thesis
    using ok n by (simp add: revisions_ok_def record_audit_def publish_state_def nat_add_distrib del: take_Cons_numeral)
qed

lemma revisions_changes:
  "revisions_ok s \<Longrightarrow> revisions_ok (record_audit a s)"
  "revisions_ok s \<Longrightarrow> revisions_ok (s\<lparr>ps_draft := None\<rparr>)"
  "revisions_ok s \<Longrightarrow> revisions_ok (s\<lparr>ps_draft := Some (draft_of h decode j actor s)\<rparr>)"
  "revisions_ok s \<Longrightarrow> ps_draft s = Some d \<Longrightarrow> revisions_ok (s\<lparr>ps_draft := Some (d\<lparr>df_validation := v\<rparr>)\<rparr>)"
  by (auto simp: revisions_ok_def record_audit_def draft_of_def draft_version_def split: option.splits)

section \<open>Drafting\<close>

definition drafts :: "program_state service \<Rightarrow> program_state service \<Rightarrow> bool" where
  "drafts s t \<longleftrightarrow>
     (synced s \<longrightarrow> synced t \<and> ps_active_program (sv_state t) = ps_active_program (sv_state s) \<and>
        (revisions_ok (sv_state s) \<longrightarrow> revisions_ok (sv_state t)))"

interpretation drafts: effect_relation drafts
  by unfold_locales (auto simp: drafts_def)

lemma drafts_saved:
  assumes "sv_store u = sv_store s" "sv_revision u = sv_revision s"
    "ps_active_program (sv_state u) = ps_active_program (sv_state s)" "revisions_ok (sv_state s) \<Longrightarrow> revisions_ok (sv_state u)"
  shows "drafts s (snd (sv_save u))"
proof -
  have "synced s \<Longrightarrow> sole_writer u"
    using synced_sole_writer [of s] assms(1,2) by (simp add: sole_writer_def)
  with assms(3,4) show ?thesis by (auto simp: drafts_def save_synced)
qed

lemma audit_active [simp]: "ps_active_program (record_audit a s) = ps_active_program s"
  by (simp add: record_audit_def)

lemma drafts_saveDraft: "m_keeps drafts (saveDraft h decode v actor)"
  unfolding m_keeps_def saveDraft_def by (auto intro!: drafts_saved revisions_changes)

lemma drafts_get: "m_keeps drafts (sv_get f)" "m_keeps drafts (sv_throw e n)" "m_keeps drafts (sv_check c e n)"
  by (simp_all add: m_keeps_def sv_get_def sv_check_def m_assert_run drafts.R_refl)

lemma drafts_reward: "m_keeps drafts (upsertReward h decode v actor)" "m_keeps drafts (deleteReward h decode i actor)"
proof -
  have object: "m_keeps drafts draftProgramObject"
    unfolding draftProgramObject_def
    by (intro drafts.keeps_bind drafts_get) (auto split: json.split intro: drafts_get drafts.keeps_return)
  show "m_keeps drafts (upsertReward h decode v actor)"
    unfolding upsertReward_def by (intro drafts.keeps_case_option drafts.keeps_bind drafts_get drafts_saveDraft object)
  show "m_keeps drafts (deleteReward h decode i actor)"
    unfolding deleteReward_def Let_def by (intro drafts.keeps_bind drafts_get drafts_saveDraft object)
qed

lemma drafts_validate: "drafts s (snd (validateDraft h decode s))"
  by (auto simp: validateDraft_def Let_def m_return_def drafts.R_refl split: option.split
      intro!: drafts_saved revisions_changes)

lemma drafts_discard: "drafts s (snd (discardDraft h actor s))"
  by (auto simp: discardDraft_def drafts.R_refl split: option.split intro!: drafts_saved revisions_changes)

lemma then_throw: "snd (m_bind sv_save (\<lambda>_. sv_throw e n) u) = snd (sv_save u)"
  by (auto simp: m_bind_def split: prod.split sum.split)

lemma drafts_refuse: "ps_draft (sv_state s) = Some d \<Longrightarrow> drafts s (snd (refuse_publish d v s))"
proof -
  assume d: "ps_draft (sv_state s) = Some d"
  let ?u = "s\<lparr>sv_state := (sv_state s)\<lparr>ps_draft := Some (d\<lparr>df_validation := v\<rparr>)\<rparr>\<rparr>"
  have "drafts s (snd (sv_save ?u))" using d by (auto intro!: drafts_saved revisions_changes)
  then show ?thesis by (simp add: refuse_publish_def then_throw)
qed

section \<open>Any sequence of calls\<close>

definition consistent :: "host \<Rightarrow> program_state service \<times> live \<Rightarrow> bool" where
  "consistent h sw \<longleftrightarrow> in_step running sw \<and> okay_live h (snd sw)"

definition numbered :: "program_state service \<times> live \<Rightarrow> bool" where
  "numbered sw = revisions_ok (sv_state (fst sw))"

lemma consistent_time [simp]: "consistent (h\<lparr>h_now := t\<rparr>) = consistent h"
  by (simp add: consistent_def okay_live_def fun_eq_iff)

text \<open>What a call is to keep.\<close>

definition keeps_order :: "host \<Rightarrow> program_state service \<times> live \<Rightarrow> program_state service \<times> live \<Rightarrow> bool" where
  "keeps_order h x y \<longleftrightarrow> (consistent h x \<longrightarrow> consistent h y \<and> (numbered x \<longrightarrow> numbered y))"

interpretation order: effect_relation "keeps_order h" for h
  by unfold_locales (auto simp: keeps_order_def)

lemma order_time [simp]: "keeps_order (h\<lparr>h_now := t\<rparr>) = keeps_order h"
  by (simp add: keeps_order_def fun_eq_iff)

lemma order_drafts: "drafts (fst x) (snd (m (fst x))) \<Longrightarrow> keeps_order h x (snd (on_service m x))"
  by (auto simp: keeps_order_def consistent_def in_step_def numbered_def drafts_def on_service_def split: prod.splits)

lemma order_keeps: "m_keeps drafts m \<Longrightarrow> m_keeps (keeps_order h) (on_service m)"
  unfolding m_keeps_def by (blast intro: order_drafts)

lemma order_publishing: "keeps_order h x (snd (applyPublishedProgram h (publisher h) p actor action x))"
proof (cases x)
  case (Pair s w)
  show ?thesis
  proof (cases "consistent h x")
    case True
    then have "in_step running (s, w)" "okay_live h w" using Pair by (simp_all add: consistent_def)
    then obtain r s' w' where run: "applyPublishedProgram h (publisher h) p actor action (s, w) = (r, (s', w'))"
      "in_step running (s', w')" "okay_live h w'"
      "sv_state s' = sv_state s \<or> (\<exists>a. sv_state s' = record_audit a (publish_state h (without_bootstrap p) actor (sv_state s)))"
      by (rule live_publisher.publishing_in_step)
    then have "numbered (s, w) \<longrightarrow> numbered (s', w')"
      by (auto simp: numbered_def intro: revisions_published)
    with run Pair show ?thesis by (simp add: keeps_order_def consistent_def)
  qed (simp add: keeps_order_def)
qed

lemma order_compatible: "m_keeps (keeps_order h) (on_service (compatible_update c p))"
  by (intro order_keeps) (auto simp: compatible_update_def m_keeps_def drafts.R_refl m_throw_def m_return_def split: sum.split)

lemma order_apply: "m_keeps (keeps_order h) (applyPublishedProgram h (publisher h) p actor action)"
  by (simp add: m_keeps_def order_publishing)

lemma order_rollback: "m_keeps (keeps_order h) (rollback h (publisher h) n actor)"
  unfolding rollback_def
  by (intro order.keeps_bind order.keeps_case_option order_keeps drafts_get order_compatible order_apply)

lemma order_publish: "keeps_order h x (snd (publish_program h decode (publisher h) n actor x))"
proof -
  have go: "keeps_order h y (snd (m_bind (on_service (sv_get ps_active_program)) (\<lambda>current.
               m_bind (on_service (compatible_update current p)) (\<lambda>_.
               applyPublishedProgram h (publisher h) p actor Program_published)) y))" for y p
    by (rule order.at_keeps) (intro order.keeps_bind order_keeps drafts_get order_compatible order_apply)
  have throw: "keeps_order h y (snd (on_service (sv_throw e k) y))" for y e k
    by (rule order.at_keeps) (intro order_keeps drafts_get)
  have refuse: "keeps_order h x (snd (on_service (refuse_publish d v) x))" if "ps_draft (sv_state (fst x)) = Some d" for d v
    by (rule order_drafts) (rule drafts_refuse [OF that])
  show ?thesis
    unfolding publish_program_def Let_def
    by (auto split: option.split bool.split prod.split simp del: on_service_runs(2,5) simp add: on_service_runs(2) [of ps_draft]
        intro: go throw refuse)
qed

lemma order_live:
  assumes "m_keeps (steady_campaigns h) m"
  shows "m_keeps (keeps_order h) (on_live (on_campaigns m))"
  unfolding m_keeps_def
proof
  fix x :: "program_state service \<times> live"
  obtain r s p where run: "m (lv_campaigns (snd x), lv_platform (snd x)) = (r, (s, p))"
    by (metis prod_cases3)
  have "steady_campaigns h (lv_campaigns (snd x), lv_platform (snd x)) (s, p)"
    using assms run by (metis m_keeps_def snd_conv)
  then show "keeps_order h x (snd (on_live (on_campaigns m) x))"
    using run
    by (auto simp: keeps_order_def consistent_def in_step_def numbered_def okay_live_def running_def steady_def on_live_def
        on_campaigns_def split: prod.splits)
qed

lemma order_memberships:
  assumes "m_keeps (steady h (\<lambda>(s :: membership_state) p. True)) m"
  shows "m_keeps (keeps_order h) (on_live (on_memberships m))"
  unfolding m_keeps_def
proof
  fix x :: "program_state service \<times> live"
  obtain r s p where run: "m (lv_memberships (snd x), lv_platform (snd x)) = (r, (s, p))"
    by (metis prod_cases3)
  have "steady h (\<lambda>s p. True) (lv_memberships (snd x), lv_platform (snd x)) (s, p)"
    using assms run by (metis m_keeps_def snd_conv)
  then show "keeps_order h x (snd (on_live (on_memberships m) x))"
    using run
    by (auto simp: keeps_order_def consistent_def in_step_def numbered_def okay_live_def running_def steady_def on_live_def
        on_memberships_def split: prod.splits)
qed

lemma live_void: "snd (on_live (m_void (f m)) x) = snd (on_live (f m) x)"
  by (cases "f m (snd x)") (auto simp: on_live_def m_void_def m_bind_def m_return_def split: sum.splits)

lemma live_bind: "on_live (m_bind (on_campaigns m) (\<lambda>_. on_campaigns m')) x = on_live (on_campaigns (m_bind m (\<lambda>_. m'))) x"
  by (auto simp: on_live_def on_campaigns_def m_bind_def split: prod.splits sum.splits)

lemma order_call:
  assumes "c \<notin> range (\<lambda>q. Engine_call (Op_reconfigureProgram q))"
  shows "m_keeps (keeps_order h) (call_platform h decode bucket c)"
proof (cases c)
  case (Engine_call p)
  with assms have p: "p \<notin> range Op_reconfigureProgram" by auto
  have "m_keeps (steady_campaigns h) (m_bind (on_engine (perform h p)) (\<lambda>_. persist_engine h))"
    by (intro steady.keeps_bind steady_operation p steady_persist)
  then show ?thesis using order_live Engine_call by (simp add: m_keeps_def stored_call_def live_bind)
next
  case Validate_draft
  have "drafts (fst x) (snd (validateDraft h decode (fst x)))" for x :: "program_state service \<times> live"
    by (rule drafts_validate)
  then have "m_keeps (keeps_order h) (on_service (validateDraft h decode))"
    by (simp add: m_keeps_def order_drafts)
  then show ?thesis using Validate_draft by (simp add: m_keeps_def)
next
  case (Discard_draft actor)
  then show ?thesis by (simp add: m_keeps_def order_drafts drafts_discard)
next
  case (Publish n actor)
  then show ?thesis by (simp add: m_keeps_def order_publish)
qed (use steady_memberships [of h] in \<open>simp_all add: m_keeps_def live_void order_keeps [unfolded m_keeps_def] order_rollback [unfolded m_keeps_def]
      order_live [unfolded m_keeps_def] order_memberships [unfolded m_keeps_def] drafts_saveDraft [unfolded m_keeps_def]
      drafts_reward [unfolded m_keeps_def] steady_segment [unfolded m_keeps_def] steady_deletes [unfolded m_keeps_def]
      steady_campaign [unfolded m_keeps_def] steady_set_status [unfolded m_keeps_def] steady_run [unfolded m_keeps_def]
      steady_run_due [unfolded m_keeps_def]\<close>)

definition no_reconfigure :: "(int \<times> platform_call) list \<Rightarrow> bool" where
  "no_reconfigure calls = list_all (\<lambda>(_, c). case c of Engine_call (Op_reconfigureProgram _) \<Rightarrow> False | _ \<Rightarrow> True) calls"

lemma order_calls: "no_reconfigure calls \<Longrightarrow> keeps_order h x (run_calls h decode bucket calls x)"
proof (induction calls arbitrary: x)
  case (Cons tc calls)
  obtain t c where tc: "tc = (t, c)" by (cases tc)
  with Cons.prems have "c \<notin> range (\<lambda>q. Engine_call (Op_reconfigureProgram q))" by (auto simp: no_reconfigure_def)
  then have step: "keeps_order h x (snd (call_platform (h\<lparr>h_now := t\<rparr>) decode bucket c x))"
    using order_call [of c "h\<lparr>h_now := t\<rparr>" decode bucket] unfolding m_keeps_def order_time by blast
  have "no_reconfigure calls" using Cons.prems by (simp add: no_reconfigure_def)
  from order.R_trans [OF step Cons.IH [OF this]] show ?case by (simp add: tc)
qed (simp add: order.R_refl)

section \<open>Starting\<close>

lemma create_ready:
  assumes "ok (case row of None \<Rightarrow> x | Some (y, _) \<Rightarrow> y)"
  obtains s where "sv_create False x ok row = (Inr (), s)" "synced s" "sv_state s = (case row of None \<Rightarrow> x | Some (y, _) \<Rightarrow> y)"
proof -
  let ?s = "\<lparr>sv_state = (case row of None \<Rightarrow> x | Some (y, _) \<Rightarrow> y), sv_revision = store_revision row, sv_store = row, sv_draws = 0\<rparr>"
  obtain t where t: "sv_save ?s = (Inr (), t)" "synced t" "sv_state t = sv_state ?s" "sv_draws t = sv_draws ?s"
    by (rule save_syncs [of ?s]) (simp_all add: sole_writer_def)
  have "sv_create False x ok row = sv_save ?s"
    using assms by (auto simp: sv_create_def store_load_def store_revision_def Let_def split: option.splits)
  with t show thesis by (intro that) simp_all
qed

lemma started:
  assumes "start_engine h n ps stored = Inr e"
  shows "restorable e" "eg_program e = ps_active_program ps" "program_ok h (ps_active_program ps)"
  using assms by (auto simp: start_engine_def dest: constructed_restorable split: option.splits sum.splits)

lemma created_consistent:
  assumes "create_platform h decode n reset p d = Inr (ps, w)"
    and "campaigns_compatible (sv_state (lv_campaigns w)) (running w)"
  shows "consistent h (ps, w)"
proof -
  obtain e where e: "create_programs h decode reset p (dk_programs d) = (Inr (), ps)"
      "start_engine h n (sv_state ps) (if reset then None else dk_engine d) = Inr e" "lv_platform w = (e, Some (exportState h e))"
    using assms(1) by (auto simp: create_platform_def split: prod.splits sum.splits)
  then show ?thesis
    using create_syncs [of _ _ _ _ "()" ps] started [OF e(2)] assms(2)
    by (auto simp: consistent_def in_step_def okay_live_def running_def create_programs_def saved_export)
qed

lemma created_numbered:
  assumes "create_platform h decode n True p d = Inr (ps, w)"
  shows "numbered (ps, w)"
proof -
  have "create_programs h decode True p (dk_programs d) = (Inr (), ps)"
    using assms by (auto simp: create_platform_def split: prod.splits sum.splits)
  then have "sv_save \<lparr>sv_state = initial_programs h p, sv_revision = 0, sv_store = None, sv_draws = 0\<rparr> = (Inr (), ps)"
    by (auto simp: create_programs_def sv_create_def store_clear_def store_load_def Let_def split: if_splits)
  then have "sv_state ps = initial_programs h p"
    using save_state(1) [of "\<lparr>sv_state = initial_programs h p, sv_revision = 0, sv_store = None, sv_draws = 0\<rparr>"] by simp
  then show ?thesis by (simp add: numbered_def revisions_ok_def initial_programs_def)
qed

lemma jobj_fields:
  "jobj fs = JObj kvs \<Longrightarrow> fst ` set kvs \<subseteq> fst ` set fs"
  "jobj fs = JObj kvs \<Longrightarrow> distinct (map fst fs) \<Longrightarrow> map_of kvs k = Option.bind (map_of fs k) id"
proof -
  show "jobj fs = JObj kvs \<Longrightarrow> fst ` set kvs \<subseteq> fst ` set fs"
    by (force simp: jobj_def List.map_filter_def)
  show "jobj fs = JObj kvs \<Longrightarrow> distinct (map fst fs) \<Longrightarrow> map_of kvs k = Option.bind (map_of fs k) id"
  proof (induction fs arbitrary: kvs)
    case (Cons f fs)
    obtain a v where f: "f = (a, v)" by (cases f)
    have none: "map_of fs a = None" using Cons.prems(2) f by (simp add: map_of_eq_None_iff)
    show ?case
      using Cons f none by (cases v) (auto simp: jobj_def List.map_filter_simps)
  qed (simp add: jobj_def List.map_filter_simps)
qed

lemma valid_program:
  assumes "program_ok h p" "decode (json_program p) = Some p"
  shows "vr_ok (validateProgramDefinition h decode (json_program p))"
proof -
  obtain kvs where kvs: "json_program p = JObj kvs" by (simp add: json_program_def jobj_def)
  have known: "filter (\<lambda>k. k \<notin> set allowedProgramFields) (map fst kvs) = []"
    using jobj_fields(1) [OF kvs [unfolded json_program_def]]
    by (auto simp: filter_empty_conv allowedProgramFields_def)
  have "map_of kvs ''program_id'' = Some (JStr (pg_program_id p))" "map_of kvs ''currency'' = Some (JStr (pg_currency p))"
    using jobj_fields(2) [OF kvs [unfolded json_program_def]] by simp_all
  then have identity: "identity_issues kvs = []"
    using program_ok_asserted(1,2) [OF assms(1)]
    by (auto simp: identity_issues_def text_field_def split: list.split)
  have "construct h 0 p None = Inr (empty_engine p)"
    using assms(1) by (auto simp: construct_def program_ok_def Let_def empty_engine_def)
  then show ?thesis
    using known identity assms(2) kvs by (simp add: validateProgramDefinition_def Let_def)
qed

section \<open>The theorems\<close>

text \<open>
  C37. The engine runs the published program: after any sequence of calls to the program
  service, the campaigns, the memberships and the engine, failing ones included, from the start
  of a platform on, the program of the engine is the active program of the program service, it
  has passed every check of \<open>assertProgram\<close>, every campaign names one of its rewards, and what
  the program store holds is what the service has in memory.
\<close>

theorem engine_runs_published_program:
  assumes "create_platform h decode n reset p d = Inr (ps, w)"
    and "campaigns_compatible (sv_state (lv_campaigns w)) (running w)"
    and "no_reconfigure calls" "run_calls h decode bucket calls (ps, w) = (ps', w')"
  shows "running w' = ps_active_program (sv_state ps') \<and> program_ok h (running w') \<and>
           campaigns_compatible (sv_state (lv_campaigns w')) (running w') \<and> synced ps'"
proof -
  have "consistent h (ps', w')"
    using order_calls [OF assms(3), of h "(ps, w)" decode bucket] created_consistent [OF assms(1,2)] assms(4)
    by (simp add: keeps_order_def)
  then show ?thesis
    unfolding consistent_def in_step_def okay_live_def fst_conv snd_conv by blast+
qed

text \<open>
  C38. The revisions of the program are well-formed: after any sequence of calls on a platform
  started afresh, the history holds exactly the last twenty revisions before the active one, in
  order and without gaps, so that a rollback names one program; a draft has a later version
  than the active revision; and the audit trail is bounded.
\<close>

theorem revisions_are_numbered:
  assumes "create_platform h decode n True p d = Inr (ps, w)"
    and "campaigns_compatible (sv_state (lv_campaigns w)) (running w)"
    and "no_reconfigure calls" "run_calls h decode bucket calls (ps, w) = (ps', w')"
  shows "revisions_ok (sv_state ps')"
  using order_calls [OF assms(3), of h "(ps, w)" decode bucket] created_consistent [OF assms(1,2)]
    created_numbered [OF assms(1)] assms(4)
  by (simp add: keeps_order_def numbered_def)

lemma for_fingerprint_time [simp]: "programForFingerprint (h\<lparr>h_now := t\<rparr>) = programForFingerprint h"
  by (simp add: programForFingerprint_def fun_eq_iff)

lemma found_previous:
  assumes "sv_state t = record_audit a (publish_state h q actor s)"
    and "programDefinitionFingerprint h (ps_active_program s) \<noteq> programDefinitionFingerprint h q"
  shows "programForFingerprint h (programDefinitionFingerprint h (ps_active_program s)) (sv_state t) = Some (ps_active_program s)"
  using assms by (simp add: programForFingerprint_def record_audit_def publish_state_def)

lemma programs_create:
  assumes "synced s" "program_ok h (ps_active_program (sv_state s))"
    and "decode (json_program (ps_active_program (sv_state s))) = Some (ps_active_program (sv_state s))"
  obtains t where "create_programs h decode False p (sv_store s) = (Inr (), t)" "synced t" "sv_state t = sv_state s"
proof -
  have row: "sv_store s = Some (sv_state s, sv_revision s)" using assms(1) by (simp add: synced_def store_load_def)
  show thesis
    by (rule create_ready [where row = "sv_store s" and x = "initial_programs h p"
          and ok = "\<lambda>s. vr_ok (validateProgramDefinition h decode (json_program (ps_active_program s)))"])
      (use row valid_program [of h _ decode] assms(2,3) that in \<open>auto simp: create_programs_def\<close>)
qed

text \<open>
  C39. An interrupted publish is finished by the next start: when the platform stops after the
  intent of a publish or a rollback was recorded and before the new program was applied, the
  platform that starts from what is on disk runs the recorded program, on exactly the state the
  engine had stored, with the accounts of the program opened, as reconfiguring it would have
  left it.
\<close>

theorem interrupted_publish_recovers:
  assumes "create_platform h decode n reset p d = Inr (ps, w)"
    and "campaigns_compatible (sv_state (lv_campaigns w)) (running w)"
    and "no_reconfigure calls" "run_calls h decode bucket calls (ps, w) = (ps', w')"
    and "assertCompatibleProgramUpdate (ps_active_program (sv_state ps')) q = Inr ()"
    and "program_ok h q" "decode (json_program q) = Some q"
    and "publish_intent (h\<lparr>h_now := t\<rparr>) q actor action ps' = (Inr previous, ps'')"
    and "snd (lv_platform w') = Some stored"
  shows "\<exists>ps3 w3 e t''. create_platform (h\<lparr>h_now := t'\<rparr>) decode m False p' (disk_of (ps'', w')) = Inr (ps3, w3) \<and>
      ps_active_program (sv_state ps3) = q \<and> stored = exportState (h\<lparr>h_now := t''\<rparr>) e \<and>
      fst (lv_platform w3) = (adopt_program q e)\<lparr>eg_id_count := m\<rparr>"
proof -
  let ?h = "h\<lparr>h_now := t'\<rparr>"
  have "consistent h (ps', w')"
    using order_calls [OF assms(3), of h "(ps, w)" decode bucket] created_consistent [OF assms(1,2)] assms(4)
    by (simp add: keeps_order_def)
  then have ps': "synced ps'" "ps_active_program (sv_state ps') = running w'" "program_ok h (running w')"
    and "saved h (lv_platform w')"
    unfolding consistent_def in_step_def okay_live_def fst_conv snd_conv by auto
  then obtain t'' e where e: "stored = exportState (h\<lparr>h_now := t''\<rparr>) e" "eg_program e = running w'" "restorable e"
    using assms(9) by (auto simp: saved_def running_def)
  obtain u a where "publish_intent (h\<lparr>h_now := t\<rparr>) q actor action ps' = (Inr (sv_state ps'), u)" "synced u"
    "sv_state u = record_audit a (publish_state (h\<lparr>h_now := t\<rparr>) q actor (sv_state ps'))"
    by (rule intent_run [OF ps'(1)])
  then have ps'': "synced ps''" "sv_state ps'' = record_audit a (publish_state (h\<lparr>h_now := t\<rparr>) q actor (sv_state ps'))"
    using assms(8) by simp_all
  then have active: "ps_active_program (sv_state ps'') = q" by (simp add: publish_state_def)
  obtain ps3 where ps3: "create_programs ?h decode False p' (sv_store ps'') = (Inr (), ps3)" "sv_state ps3 = sv_state ps''"
    by (rule programs_create [OF ps''(1), of ?h decode p']) (use assms(6,7) active in simp_all)
  have id: "es_program_id stored = pg_program_id (running w')"
    "es_program_fingerprint stored = programDefinitionFingerprint h (running w')"
    using e by (simp_all add: exportState_def)
  have retarget: "retarget_at_start ?h (sv_state ps3) stored = Inr (stored\<lparr>es_program_fingerprint := programDefinitionFingerprint h q\<rparr>)"
    using found_previous [OF ps''(2)] id assms(5) ps'(2) active ps3(2)
    by (auto simp: retarget_at_start_def retargetProgramState_def)
  have compatible: "assertCompatibleProgramUpdate (eg_program e) q = Inr ()" using assms(5) ps'(2) e(2) by simp
  have "construct ?h m q (Some (stored\<lparr>es_program_fingerprint := programDefinitionFingerprint h q\<rparr>)) =
      Inr ((adopt_program q e)\<lparr>eg_id_count := m\<rparr>)"
    unfolding e(1) by (rule hydrated_under) (use e ps'(3) assms(6) compatible in simp_all)
  then have engine: "start_engine ?h m (sv_state ps3) (Some stored) = Inr ((adopt_program q e)\<lparr>eg_id_count := m\<rparr>)"
    using retarget active ps3(2) by (simp add: start_engine_def)
  obtain cs where cs: "create_campaigns False (sv_store (lv_campaigns w')) = (Inr (), cs)"
    by (rule create_ready [where ok = "\<lambda>_. True" and row = "sv_store (lv_campaigns w')"
          and x = "\<lparr>cm_segments = [], cm_campaigns = [], cm_runs = []\<rparr>"]) (auto simp: create_campaigns_def)
  obtain ms where ms: "create_memberships False (sv_store (lv_memberships w')) = (Inr (), ms)"
    by (rule create_ready [where ok = "\<lambda>_. True" and row = "sv_store (lv_memberships w')" and x = "[]"])
      (auto simp: create_memberships_def)
  show ?thesis
    using ps3 engine cs ms active e(1) assms(9)
    by (auto simp: create_platform_def disk_of_def)
qed

section \<open>An example\<close>

text \<open>A fresh platform, on which a draft with another name is saved and published, and a campaign is refused.\<close>

definition renamed_program :: program where
  "renamed_program = story_program\<lparr>pg_name := Some ''Renamed''\<rparr>"

definition sample_decode :: decoder where
  "sample_decode v = List.find (\<lambda>p. json_program p = v) [story_program, renamed_program]"

definition empty_disk :: disk where
  "empty_disk = \<lparr>dk_programs = None, dk_engine = None, dk_campaigns = None, dk_memberships = None\<rparr>"

definition sample_platform :: "service_error + program_state service \<times> live" where
  "sample_platform = create_platform sample_host sample_decode 0 True story_program empty_disk"

definition enrol_story :: "(int \<times> platform_call) list" where
  "enrol_story = [(1767225600000, Engine_call (Op_enroll (sample_enroll ''k1'' ''ann'')))]"

definition publish_story :: "(int \<times> platform_call) list" where
  "publish_story =
     [(1767225601000, Save_draft (json_program renamed_program) ''admin''), (1767225602000, Publish 2 ''admin''),
      (1767225603000, Delete_campaign ''missing'')]"

definition platform_view :: "program_state service \<times> live \<Rightarrow> program \<times> int \<times> string list \<times> bool \<times> bool" where
  "platform_view sw =
     (ps_active_program (sv_state (fst sw)), ps_active_revision (sv_state (fst sw)), js_keys (eg_members (fst (lv_platform (snd sw)))),
      map cp_campaign_id (cm_campaigns (sv_state (lv_campaigns (snd sw)))) = [], snd (lv_platform (snd sw)) \<noteq> None)"

abbreviation sample_run :: "(int \<times> platform_call) list \<Rightarrow> program_state service \<times> live \<Rightarrow> program_state service \<times> live" where
  "sample_run \<equiv> run_calls sample_host sample_decode (\<lambda>_. 0)"

lemma sample_platform_view:
  "(case sample_platform of
      Inl e \<Rightarrow> None
    | Inr sw \<Rightarrow>
        (let tw = sample_run enrol_story sw in Some (platform_view sw, platform_view tw, platform_view (sample_run publish_story tw)))) =
   Some ((story_program, 1, [], True, True), (story_program, 1, [''ann''], True, True), (renamed_program, 2, [''ann''], True, True))"
  by code_simp

lemma sample_boot:
  obtains ps w ps1 w1 ps2 w2 where "create_platform sample_host sample_decode 0 True story_program empty_disk = Inr (ps, w)"
    "campaigns_compatible (sv_state (lv_campaigns w)) (running w)"
    "sample_run enrol_story (ps, w) = (ps1, w1)" "ps_active_program (sv_state ps1) = story_program" "snd (lv_platform w1) \<noteq> None"
    "js_keys (eg_members (fst (lv_platform w1))) = [''ann'']"
    "sample_run publish_story (ps1, w1) = (ps2, w2)" "ps_active_program (sv_state ps2) = renamed_program"
proof -
  obtain ps w where boot: "sample_platform = Inr (ps, w)"
  proof (cases sample_platform)
    case (Inl e)
    from sample_platform_view [unfolded Inl sum.case] show ?thesis by (simp only: option.distinct)
  next
    case (Inr sw)
    with that show ?thesis by (cases sw) simp
  qed
  obtain ps1 w1 where one: "sample_run enrol_story (ps, w) = (ps1, w1)" by (cases "sample_run enrol_story (ps, w)")
  obtain ps2 w2 where two: "sample_run publish_story (ps1, w1) = (ps2, w2)" by (cases "sample_run publish_story (ps1, w1)")
  note views = sample_platform_view [unfolded boot sum.case Let_def one two option.inject prod.inject platform_view_def fst_conv snd_conv]
  show thesis
    by (rule that [OF boot [unfolded sample_platform_def] _ one _ _ _ two]) (use views in \<open>simp_all add: campaigns_compatible_def\<close>)
qed

lemma sample_run_all: "sample_run (xs @ ys) x = sample_run ys (sample_run xs x)"
proof (induction xs arbitrary: x)
  case (Cons tc xs)
  then show ?case by (cases tc) simp
qed simp

lemma sample_no_reconfigure: "no_reconfigure enrol_story" "no_reconfigure (enrol_story @ publish_story)"
  by (simp_all add: no_reconfigure_def enrol_story_def publish_story_def)

lemma engine_runs_published_program_witness:
  "\<exists>ps w ps2 w2. create_platform sample_host sample_decode 0 True story_program empty_disk = Inr (ps, w) \<and>
     sample_run (enrol_story @ publish_story) (ps, w) = (ps2, w2) \<and> running w2 = renamed_program \<and> program_ok sample_host (running w2)"
proof -
  obtain ps w ps1 w1 ps2 w2 where run: "create_platform sample_host sample_decode 0 True story_program empty_disk = Inr (ps, w)"
    "campaigns_compatible (sv_state (lv_campaigns w)) (running w)" "sample_run enrol_story (ps, w) = (ps1, w1)"
    "sample_run publish_story (ps1, w1) = (ps2, w2)" "ps_active_program (sv_state ps2) = renamed_program"
    by (rule sample_boot)
  then have all: "sample_run (enrol_story @ publish_story) (ps, w) = (ps2, w2)" by (simp add: sample_run_all)
  show ?thesis
    using engine_runs_published_program [OF run(1,2) sample_no_reconfigure(2) all] run all by auto
qed

lemma revisions_are_numbered_witness:
  "\<exists>ps w ps2 w2. create_platform sample_host sample_decode 0 True story_program empty_disk = Inr (ps, w) \<and>
     sample_run (enrol_story @ publish_story) (ps, w) = (ps2, w2) \<and> revisions_ok (sv_state ps2)"
proof -
  obtain ps w ps1 w1 ps2 w2 where run: "create_platform sample_host sample_decode 0 True story_program empty_disk = Inr (ps, w)"
    "campaigns_compatible (sv_state (lv_campaigns w)) (running w)" "sample_run enrol_story (ps, w) = (ps1, w1)"
    "sample_run publish_story (ps1, w1) = (ps2, w2)"
    by (rule sample_boot)
  then have all: "sample_run (enrol_story @ publish_story) (ps, w) = (ps2, w2)" by (simp add: sample_run_all)
  show ?thesis
    using revisions_are_numbered [OF run(1,2) sample_no_reconfigure(2) all] run(1) all by blast
qed

lemma sample_renamed:
  "program_ok sample_host renamed_program" "sample_decode (json_program renamed_program) = Some renamed_program"
  "assertCompatibleProgramUpdate story_program renamed_program = Inr ()"
  by code_simp+

lemma interrupted_publish_recovers_witness:
  "\<exists>ps w ps1 w1 previous ps2 ps3 w3.
     create_platform sample_host sample_decode 0 True story_program empty_disk = Inr (ps, w) \<and>
     sample_run enrol_story (ps, w) = (ps1, w1) \<and>
     publish_intent (sample_host\<lparr>h_now := 1767225601000\<rparr>) renamed_program ''admin'' Program_published ps1 = (Inr previous, ps2) \<and>
     create_platform (sample_host\<lparr>h_now := 1767225602000\<rparr>) sample_decode 1 False story_program (disk_of (ps2, w1)) = Inr (ps3, w3) \<and>
     ps_active_program (sv_state ps3) = renamed_program"
proof -
  obtain ps w ps1 w1 ps2 w2 where run: "create_platform sample_host sample_decode 0 True story_program empty_disk = Inr (ps, w)"
    "campaigns_compatible (sv_state (lv_campaigns w)) (running w)" "sample_run enrol_story (ps, w) = (ps1, w1)"
    "ps_active_program (sv_state ps1) = story_program" "snd (lv_platform w1) \<noteq> None"
    by (rule sample_boot)
  then obtain stored where stored: "snd (lv_platform w1) = Some stored" by blast
  have synced: "synced ps1"
    using order_calls [OF sample_no_reconfigure(1), of sample_host "(ps, w)" sample_decode "\<lambda>_. 0"] created_consistent [OF run(1,2)] run(3)
    by (simp add: keeps_order_def consistent_def in_step_def)
  then obtain u where u: "publish_intent (sample_host\<lparr>h_now := 1767225601000\<rparr>) renamed_program ''admin'' Program_published ps1 = (Inr (sv_state ps1), u)"
    by (rule intent_run)
  have compatible: "assertCompatibleProgramUpdate (ps_active_program (sv_state ps1)) renamed_program = Inr ()"
    using sample_renamed(3) run(4) by simp
  from interrupted_publish_recovers [OF run(1,2) sample_no_reconfigure(1) run(3) compatible sample_renamed(1,2) u stored, of 1767225602000 1 story_program]
  show ?thesis using run(1,3) u by blast
qed

end
