(* ===== verification/Engagement.thy ===== *)
theory Engagement
  imports Campaigns
begin

text \<open>
  packages/server/src/engagement.ts: messaging connectors, message jobs to the members of a
  segment and their runs, and the webhook adapter. The service works on the campaigns, the
  running engine and the outside world. \<open>adapter.deliver\<close> is the parameter \<open>answer\<close>: what
  comes of the n-th call, None or the text of the error thrown; the calls made are kept as a log
  of the world. \<open>registered\<close> are the types of the adapters, \<open>url\<close> says which
  texts parse as URLs of the protocols HTTP and HTTPS.
\<close>

section \<open>Data\<close>

record connector =
  cr_connector_id :: string
  cr_name :: string
  cr_type :: string
  cr_active :: bool
  cr_configuration :: "(string \<times> json) list"
  cr_secret :: "string option"
  cr_created_at :: string
  cr_updated_at :: string

datatype message_status = Message_pending | Message_delivered | Message_failed | Message_skipped

record message_delivery =
  dm_delivery_id :: string
  dm_member_id :: string
  dm_status :: message_status
  dm_attempts :: int
  dm_next_attempt_at :: "string option"
  dm_delivered_at :: "string option"
  dm_error :: "string option"

datatype message_purpose = Marketing_message | Transactional_message

datatype job_status = Job_queued | Job_running | Job_completed | Job_partial | Job_failed

record message_job =
  mj_job_id :: string
  mj_idempotency_key :: string
  mj_connector_id :: string
  mj_segment_id :: string
  mj_template_id :: string
  mj_content :: "(string \<times> json) list"
  mj_purpose :: message_purpose
  mj_status :: job_status
  mj_created_at :: string
  mj_completed_at :: "string option"
  mj_deliveries :: "message_delivery list"

record engagement_state =
  ga_connectors :: "connector list"
  ga_jobs :: "message_job list"

text \<open>One call of an adapter: the message and whether it was accepted.\<close>

record sending =
  sd_delivery_id :: string
  sd_member_id :: string
  sd_accepted :: bool

type_synonym engagement_world = "(campaign_state service \<times> platform) \<times> sending list"

type_synonym 'a engagement_eff = "(engagement_state, engagement_world, 'a) with_world_eff"

definition on_campaign_side :: "'a campaign_eff \<Rightarrow> 'a engagement_eff" where
  "on_campaign_side m x =
     (case m (fst (snd x)) of (r, cp) \<Rightarrow> (r, (fst x, (cp, snd (snd x)))))"

section \<open>Connectors\<close>

record connector_input =
  ki_connector_id :: "string option"
  ki_name :: string
  ki_type :: string
  ki_active :: "bool option"
  ki_configuration :: "(string \<times> json) list"
  ki_secret :: "string option"

definition validateUrl :: "(string \<Rightarrow> bool) \<Rightarrow> json option \<Rightarrow> bool" where
  "validateUrl url v = (case v of Some (JStr t) \<Rightarrow> url t | _ \<Rightarrow> False)"

definition find_connector :: "string \<Rightarrow> engagement_state \<Rightarrow> connector option" where
  "find_connector i s = List.find (\<lambda>c. cr_connector_id c = i) (ga_connectors s)"

definition connector_of :: "host \<Rightarrow> connector option \<Rightarrow> string \<Rightarrow> connector_input \<Rightarrow> connector" where
  "connector_of h existing i k =
     \<lparr>cr_connector_id = i, cr_name = trim (ki_name k), cr_type = ki_type k,
      cr_active =
        (case ki_active k of Some b \<Rightarrow> b | None \<Rightarrow> (case existing of Some c \<Rightarrow> cr_active c | None \<Rightarrow> True)),
      cr_configuration = ki_configuration k,
      cr_secret = (if truthy (ki_secret k) then ki_secret k else present (Option.bind existing cr_secret)),
      cr_created_at = (case existing of None \<Rightarrow> isoNow h | Some c \<Rightarrow> cr_created_at c), cr_updated_at = isoNow h\<rparr>"

definition put_connector :: "bool \<Rightarrow> connector \<Rightarrow> engagement_state \<Rightarrow> engagement_state" where
  "put_connector existed c s =
     s\<lparr>ga_connectors :=
        (if existed then map (\<lambda>x. if cr_connector_id x = cr_connector_id c then c else x) (ga_connectors s)
         else ga_connectors s @ [c])\<rparr>"

definition upsertConnector :: "host \<Rightarrow> string list \<Rightarrow> (string \<Rightarrow> bool) \<Rightarrow> connector_input \<Rightarrow> connector engagement_eff" where
  "upsertConnector h registered url k =
     m_bind (on_service (sv_check (trim (ki_name k) \<noteq> []) Validation_failed 422)) (\<lambda>_.
     m_bind (on_service (sv_check (ki_type k \<in> set registered) Validation_failed 422)) (\<lambda>_.
     m_bind (on_service (sv_check (ki_type k = ''webhook'' \<longrightarrow> validateUrl url (map_of (ki_configuration k) ''url''))
       Validation_failed 422)) (\<lambda>_.
     m_bind (on_service (sv_check (case ki_secret k of None \<Rightarrow> True | Some t \<Rightarrow> 16 \<le> length t) Validation_failed 422)) (\<lambda>_.
     m_bind (on_service (sv_get (\<lambda>s. if truthy (ki_connector_id k) then find_connector (the (ki_connector_id k)) s else None))) (\<lambda>existing.
     m_bind (on_service (sv_check (existing \<noteq> None \<or> truthy (ki_secret k)) Validation_failed 422)) (\<lambda>_.
     m_bind (case existing of Some c \<Rightarrow> m_return (cr_connector_id c)
             | None \<Rightarrow> given_or_drawn h ''connector'' (ki_connector_id k)) (\<lambda>i.
     m_bind (on_service (sv_change (put_connector (existing \<noteq> None) (connector_of h existing i k)))) (\<lambda>_.
     m_bind (on_service sv_save) (\<lambda>_. m_return (connector_of h existing i k))))))))))"

definition unfinished :: "message_job \<Rightarrow> bool" where
  "unfinished j = (mj_status j \<in> {Job_queued, Job_running, Job_partial})"

definition removeConnector :: "string \<Rightarrow> bool engagement_eff" where
  "removeConnector i =
     m_bind (on_service (sv_get (\<lambda>s. list_ex (\<lambda>j. mj_connector_id j = i \<and> unfinished j) (ga_jobs s)))) (\<lambda>used.
     m_bind (on_service (sv_check (\<not> used) Conflict 409)) (\<lambda>_.
     m_bind (on_service (sv_get (find_connector i))) (\<lambda>found.
     if found = None then m_return False
     else
       m_bind (on_service (sv_change (\<lambda>s. s\<lparr>ga_connectors := filter (\<lambda>c. cr_connector_id c \<noteq> i) (ga_connectors s)\<rparr>))) (\<lambda>_.
       m_bind (on_service sv_save) (\<lambda>_. m_return True)))))"

section \<open>Jobs\<close>

record job_input =
  jn_idempotency_key :: string
  jn_connector_id :: string
  jn_segment_id :: string
  jn_template_id :: string
  jn_content :: "(string \<times> json) list"
  jn_purpose :: "message_purpose option"

definition purpose_of :: "job_input \<Rightarrow> message_purpose" where
  "purpose_of i = (case jn_purpose i of None \<Rightarrow> Marketing_message | Some p \<Rightarrow> p)"

definition json_message_facts ::
  "string \<Rightarrow> string \<Rightarrow> string \<Rightarrow> (string \<times> json) list \<Rightarrow> message_purpose \<Rightarrow> json" where
  "json_message_facts connectorId segmentId templateId content p = jobj
     [(''connector_id'', jstr connectorId), (''segment_id'', jstr segmentId), (''template_id'', jstr templateId),
      (''content'', Some (JObj content)),
      (''purpose'', jstr (case p of Marketing_message \<Rightarrow> ''marketing'' | Transactional_message \<Rightarrow> ''transactional''))]"

definition same_facts :: "host \<Rightarrow> message_job \<Rightarrow> job_input \<Rightarrow> bool" where
  "same_facts h j i =
     (h_digest h (json_message_facts (mj_connector_id j) (mj_segment_id j) (mj_template_id j) (mj_content j) (mj_purpose j)) =
      h_digest h (json_message_facts (jn_connector_id i) (jn_segment_id i) (jn_template_id i) (jn_content i) (purpose_of i)))"

definition consents :: "member option \<Rightarrow> bool" where
  "consents m = (Option.bind (Option.bind m mb_attributes) (\<lambda>kvs. map_of kvs ''marketing_consent'') = Some (JBool True))"

definition listed_member :: "admin_member list \<Rightarrow> string \<Rightarrow> member option" where
  "listed_member xs i = map_of (rev (map (\<lambda>x. (mb_member_id (xm_member x), xm_member x)) xs)) i"

definition new_delivery :: "message_purpose \<Rightarrow> admin_member list \<Rightarrow> string \<Rightarrow> string \<Rightarrow> message_delivery" where
  "new_delivery p xs memberId i =
     (let skip = (p = Marketing_message \<and> \<not> consents (listed_member xs memberId)) in
      \<lparr>dm_delivery_id = i, dm_member_id = memberId, dm_status = (if skip then Message_skipped else Message_pending),
       dm_attempts = 0, dm_next_attempt_at = None, dm_delivered_at = None,
       dm_error = (if skip then Some ''marketing_consent_required'' else None)\<rparr>)"

definition job_of :: "host \<Rightarrow> job_input \<Rightarrow> message_delivery list \<Rightarrow> string \<Rightarrow> message_job" where
  "job_of h i ds jobId =
     (let all_skipped = list_all (\<lambda>d. dm_status d = Message_skipped) ds in
      \<lparr>mj_job_id = jobId, mj_idempotency_key = jn_idempotency_key i, mj_connector_id = jn_connector_id i,
       mj_segment_id = jn_segment_id i, mj_template_id = jn_template_id i, mj_content = jn_content i,
       mj_purpose = purpose_of i, mj_status = (if all_skipped then Job_completed else Job_queued),
       mj_created_at = isoNow h, mj_completed_at = (if all_skipped then Some (isoNow h) else None),
       mj_deliveries = ds\<rparr>)"

definition add_job :: "host \<Rightarrow> job_input \<Rightarrow> admin_member list \<Rightarrow> string list \<Rightarrow> message_job engagement_eff" where
  "add_job h i members ids =
     m_bind (m_map (\<lambda>memberId. m_bind (on_service (sv_draw h ''message'')) (\<lambda>d.
        m_return (new_delivery (purpose_of i) members memberId d))) ids) (\<lambda>ds.
     m_bind (on_service (sv_draw h ''message_job'')) (\<lambda>jobId.
     m_bind (on_service (sv_change (\<lambda>s. s\<lparr>ga_jobs := take 200 (job_of h i ds jobId # ga_jobs s)\<rparr>))) (\<lambda>_.
     m_bind (on_service sv_save) (\<lambda>_. m_return (job_of h i ds jobId)))))"

definition first_enqueue :: "host \<Rightarrow> customer_facts \<Rightarrow> job_input \<Rightarrow> message_job engagement_eff" where
  "first_enqueue h facts i =
     m_bind (on_service (sv_get (find_connector (jn_connector_id i)))) (\<lambda>c.
     m_bind (on_service (sv_check (case c of None \<Rightarrow> False | Some x \<Rightarrow> cr_active x) Not_found 404)) (\<lambda>_.
     m_bind (on_campaign_side (membersForSegment h facts (jn_segment_id i))) (\<lambda>ids.
     m_bind (on_campaign_side (on_engine (inspectAdmin h))) (\<lambda>x.
     add_job h i (sn_members x) ids))))"

definition enqueue_job :: "host \<Rightarrow> customer_facts \<Rightarrow> job_input \<Rightarrow> message_job engagement_eff" where
  "enqueue_job h facts i =
     m_bind (on_service (sv_check (trim (jn_idempotency_key i) \<noteq> [] \<and> trim (jn_template_id i) \<noteq> []) Validation_failed 422)) (\<lambda>_.
     m_bind (on_service (sv_get (\<lambda>s. List.find (\<lambda>j. mj_idempotency_key j = jn_idempotency_key i) (ga_jobs s)))) (\<lambda>prior.
     case prior of
       Some j \<Rightarrow> m_bind (on_service (sv_check (same_facts h j i) Conflict 409)) (\<lambda>_. m_return j)
     | None \<Rightarrow> first_enqueue h facts i))"

section \<open>Running a job\<close>

definition currentJob :: "string \<Rightarrow> engagement_state \<Rightarrow> message_job option" where
  "currentJob i s = List.find (\<lambda>j. mj_job_id j = i) (ga_jobs s)"

definition saveJob :: "message_job \<Rightarrow> unit engagement_eff" where
  "saveJob j =
     m_bind (on_service (sv_change (\<lambda>s. s\<lparr>ga_jobs := map (\<lambda>x. if mj_job_id x = mj_job_id j then j else x) (ga_jobs s)\<rparr>))) (\<lambda>_.
     on_service sv_save)"

definition withDelivery :: "message_job \<Rightarrow> message_delivery \<Rightarrow> message_job" where
  "withDelivery j d =
     j\<lparr>mj_deliveries := map (\<lambda>x. if dm_delivery_id x = dm_delivery_id d then d else x) (mj_deliveries j)\<rparr>"

definition still_later :: "host \<Rightarrow> int \<Rightarrow> string option \<Rightarrow> bool" where
  "still_later h now v = (truthy v \<and> (case h_parse h (the v) of None \<Rightarrow> False | Some t \<Rightarrow> now < t))"

definition sendable :: "host \<Rightarrow> message_delivery \<Rightarrow> bool" where
  "sendable h d =
     (dm_status d \<notin> {Message_delivered, Message_skipped} \<and> dm_attempts d < 5 \<and> \<not> still_later h (h_now h) (dm_next_attempt_at d))"

text \<open>\<open>1_000 * 2 ** (attempts - 1)\<close>, at most a minute; \<open>attempts\<close> is at least one.\<close>

definition retry_delay :: "int \<Rightarrow> int" where
  "retry_delay attempts = min 60000 (1000 * 2 ^ nat (attempts - 1))"

definition delivered_now :: "host \<Rightarrow> message_delivery \<Rightarrow> message_delivery" where
  "delivered_now h d =
     d\<lparr>dm_status := Message_delivered, dm_attempts := dm_attempts d + 1, dm_next_attempt_at := None,
       dm_delivered_at := Some (isoNow h), dm_error := None\<rparr>"

definition failed_now :: "host \<Rightarrow> string \<Rightarrow> message_delivery \<Rightarrow> message_delivery" where
  "failed_now h e d =
     d\<lparr>dm_status := Message_failed, dm_attempts := dm_attempts d + 1, dm_error := Some (take 500 e),
       dm_next_attempt_at := Some (to_iso (h_now h + retry_delay (dm_attempts d + 1)))\<rparr>"

text \<open>The call of the adapter: its answer, and the entry in the log.\<close>

definition send_message :: "(nat \<Rightarrow> string option) \<Rightarrow> message_delivery \<Rightarrow> string option engagement_eff" where
  "send_message answer d x =
     (case x of (s, (cp, sent)) \<Rightarrow>
        (Inr (answer (length sent)),
         (s, (cp, sent @ [\<lparr>sd_delivery_id = dm_delivery_id d, sd_member_id = dm_member_id d,
            sd_accepted = (answer (length sent) = None)\<rparr>]))))"

text \<open>
  One delivery of a run. The working job is read again before, and what comes of the call is
  written into it after: between the two, other runs may move.
\<close>

definition begin_delivery :: "host \<Rightarrow> string \<Rightarrow> message_job \<Rightarrow> (message_job \<times> message_delivery option) engagement_eff" where
  "begin_delivery h deliveryId working =
     m_bind (on_service (sv_get (currentJob (mj_job_id working)))) (\<lambda>current.
     let j = (case current of None \<Rightarrow> working | Some x \<Rightarrow> x) in
     case List.find (\<lambda>d. dm_delivery_id d = deliveryId) (mj_deliveries j) of
       None \<Rightarrow> m_return (j, None)
     | Some d \<Rightarrow> m_return (j, if sendable h d then Some d else None))"

definition end_delivery :: "host \<Rightarrow> message_job \<Rightarrow> message_delivery \<Rightarrow> string option \<Rightarrow> message_job engagement_eff" where
  "end_delivery h working d failed =
     (let j = withDelivery working (case failed of None \<Rightarrow> delivered_now h d | Some e \<Rightarrow> failed_now h e d) in
      m_bind (saveJob j) (\<lambda>_. m_return j))"

definition skip_delivery :: "message_job \<Rightarrow> message_delivery \<Rightarrow> message_job engagement_eff" where
  "skip_delivery working d =
     (let j = withDelivery working (d\<lparr>dm_status := Message_skipped, dm_error := Some ''member_not_found''\<rparr>) in
      m_bind (saveJob j) (\<lambda>_. m_return j))"

definition deliver_one ::
  "host \<Rightarrow> (nat \<Rightarrow> string option) \<Rightarrow> admin_member list \<Rightarrow> string \<Rightarrow> message_job \<Rightarrow> message_job engagement_eff" where
  "deliver_one h answer members deliveryId working =
     m_bind (begin_delivery h deliveryId working) (\<lambda>(j, due).
     case due of
       None \<Rightarrow> m_return j
     | Some d \<Rightarrow>
         if listed_member members (dm_member_id d) = None then skip_delivery j d
         else m_bind (send_message answer d) (\<lambda>failed. end_delivery h j d failed))"

fun deliver_all ::
  "host \<Rightarrow> (nat \<Rightarrow> string option) \<Rightarrow> admin_member list \<Rightarrow> string list \<Rightarrow> message_job \<Rightarrow> message_job engagement_eff" where
  "deliver_all h answer members [] working = m_return working"
| "deliver_all h answer members (i # is) working =
     m_bind (deliver_one h answer members i working) (\<lambda>j. deliver_all h answer members is j)"

definition run_status :: "message_delivery list \<Rightarrow> job_status" where
  "run_status ds =
     (let actionable = filter (\<lambda>d. dm_status d \<noteq> Message_skipped) ds in
      if list_all (\<lambda>d. dm_status d = Message_delivered) actionable then Job_completed
      else if list_ex (\<lambda>d. dm_status d = Message_delivered) actionable then Job_partial
      else if list_all (\<lambda>d. 5 \<le> dm_attempts d) actionable then Job_failed
      else Job_queued)"

definition finished_job :: "host \<Rightarrow> message_job \<Rightarrow> message_job" where
  "finished_job h j =
     j\<lparr>mj_status := run_status (mj_deliveries j),
       mj_completed_at :=
         (if run_status (mj_deliveries j) \<in> {Job_completed, Job_failed} then Some (isoNow h) else mj_completed_at j)\<rparr>"

text \<open>After the loop: the stored job once more, with the status of the run.\<close>

definition finish_job_run :: "host \<Rightarrow> string \<Rightarrow> message_job \<Rightarrow> message_job engagement_eff" where
  "finish_job_run h jobId working =
     m_bind (on_service (sv_get (currentJob jobId))) (\<lambda>current.
     let j = finished_job h (case current of None \<Rightarrow> working | Some y \<Rightarrow> y) in
     m_bind (saveJob j) (\<lambda>_. m_return j))"

definition run_deliveries :: "host \<Rightarrow> (nat \<Rightarrow> string option) \<Rightarrow> string \<Rightarrow> message_job \<Rightarrow> message_job engagement_eff" where
  "run_deliveries h answer jobId job =
     m_bind (saveJob (job\<lparr>mj_status := Job_running\<rparr>)) (\<lambda>_.
     m_bind (on_campaign_side (on_engine (inspectAdmin h))) (\<lambda>x.
     m_bind (deliver_all h answer (sn_members x) (map dm_delivery_id (mj_deliveries job)) (job\<lparr>mj_status := Job_running\<rparr>))
       (finish_job_run h jobId)))"

definition run_found ::
  "host \<Rightarrow> string list \<Rightarrow> (nat \<Rightarrow> string option) \<Rightarrow> string \<Rightarrow> message_job \<Rightarrow> message_job engagement_eff" where
  "run_found h registered answer jobId job =
     m_bind (on_service (sv_get (find_connector (mj_connector_id job)))) (\<lambda>c.
     m_bind (on_service (sv_check (case c of None \<Rightarrow> False | Some x \<Rightarrow> cr_active x) Invalid_state 409)) (\<lambda>_.
     m_bind (on_service (sv_check (cr_type (the c) \<in> set registered) Invalid_state 500)) (\<lambda>_.
     run_deliveries h answer jobId job)))"

definition runJob :: "host \<Rightarrow> string list \<Rightarrow> (nat \<Rightarrow> string option) \<Rightarrow> string \<Rightarrow> message_job engagement_eff" where
  "runJob h registered answer jobId =
     m_bind (on_service (sv_get (currentJob jobId))) (\<lambda>found.
     case found of
       None \<Rightarrow> on_service (sv_throw Not_found 404)
     | Some job \<Rightarrow> run_found h registered answer jobId job)"

definition reached :: "host \<Rightarrow> string option \<Rightarrow> bool" where
  "reached h v = (\<not> truthy v \<or> (case h_parse h (the v) of None \<Rightarrow> False | Some t \<Rightarrow> t \<le> h_now h))"

definition due_job :: "host \<Rightarrow> message_job \<Rightarrow> bool" where
  "due_job h j =
     (mj_status j \<in> {Job_queued, Job_partial} \<and>
      list_ex (\<lambda>d. dm_status d \<in> {Message_pending, Message_failed} \<and> dm_attempts d < 5 \<and>
        reached h (dm_next_attempt_at d)) (mj_deliveries j))"

text \<open>When no other call of it runs.\<close>

definition runDueJobs :: "host \<Rightarrow> string list \<Rightarrow> (nat \<Rightarrow> string option) \<Rightarrow> nat engagement_eff" where
  "runDueJobs h registered answer =
     m_bind (on_service (sv_get (\<lambda>s. filter (due_job h) (ga_jobs s)))) (\<lambda>jobs.
     m_bind (m_map (\<lambda>j. runJob h registered answer (mj_job_id j)) jobs) (\<lambda>rs. m_return (length rs)))"

section \<open>The webhook adapter\<close>

text \<open>
  \<open>WebhookMessagingAdapter.deliver\<close>. Parameters: \<open>url\<close> and \<open>href\<close> (is it a URL over HTTP or
  HTTPS, and its normal form), \<open>hmac\<close> (HMAC-SHA256 of a text under a key, in hex),
  \<open>stringify\<close>, and \<open>fetch\<close> (the status of the response, None when there is none).
\<close>

record message_request =
  qm_url :: string
  qm_message_id :: string
  qm_timestamp :: string
  qm_signature :: string
  qm_body :: string

definition json_message :: "host \<Rightarrow> message_job \<Rightarrow> message_delivery \<Rightarrow> member \<Rightarrow> json" where
  "json_message h j d m = jobj
     [(''message_id'', jstr (dm_delivery_id d)), (''member'', Some (json_member m)), (''template_id'', jstr (mj_template_id j)),
      (''content'', Some (JObj (mj_content j))),
      (''purpose'', jstr (case mj_purpose j of Marketing_message \<Rightarrow> ''marketing'' | Transactional_message \<Rightarrow> ''transactional'')),
      (''occurred_at'', jstr (isoNow h))]"

definition message_request_of :: "host \<Rightarrow> (string \<Rightarrow> string \<Rightarrow> string) \<Rightarrow> string \<Rightarrow> string \<Rightarrow> string \<Rightarrow> string \<Rightarrow> message_request" where
  "message_request_of h hmac href secret messageId body =
     \<lparr>qm_url = href, qm_message_id = messageId, qm_timestamp = isoNow h,
      qm_signature = ''v1='' @ hmac secret (isoNow h @ ''.'' @ body), qm_body = body\<rparr>"

definition webhook_deliver ::
  "host \<Rightarrow> (string \<Rightarrow> bool) \<Rightarrow> (string \<Rightarrow> string) \<Rightarrow> (string \<Rightarrow> string \<Rightarrow> string) \<Rightarrow> (json \<Rightarrow> string) \<Rightarrow>
    (message_request \<Rightarrow> int option) \<Rightarrow> connector \<Rightarrow> message_job \<Rightarrow> message_delivery \<Rightarrow> member \<Rightarrow> engine_error option + unit" where
  "webhook_deliver h url href hmac stringify fetch c j d m =
     (case map_of (cr_configuration c) ''url'' of
        Some (JStr t) \<Rightarrow>
          if \<not> url t then Inl (Some (EngineError Validation_failed 422))
          else if \<not> truthy (cr_secret c) then Inl (Some (EngineError Invalid_state 422))
          else
            (let status = fetch (message_request_of h hmac (href t) (the (cr_secret c)) (dm_delivery_id d)
                           (stringify (json_message h j d m))) in
             case status of
               None \<Rightarrow> Inl None
             | Some n \<Rightarrow> if 200 \<le> n \<and> n \<le> 299 then Inr () else Inl None)
      | _ \<Rightarrow> Inl (Some (EngineError Validation_failed 422)))"

section \<open>The service\<close>

text \<open>What is shown of a connector: everything but the secret.\<close>

definition snapshot_connector :: "connector \<Rightarrow> connector \<times> bool" where
  "snapshot_connector c = (c\<lparr>cr_secret := None\<rparr>, truthy (cr_secret c))"

definition engagement_snapshot :: "engagement_state \<Rightarrow> (connector \<times> bool) list \<times> message_job list" where
  "engagement_snapshot s = (map snapshot_connector (ga_connectors s), ga_jobs s)"

definition create_engagement :: "bool \<Rightarrow> engagement_state store \<Rightarrow> (service_error + unit) \<times> engagement_state service" where
  "create_engagement reset row = sv_create reset \<lparr>ga_connectors = [], ga_jobs = []\<rparr> (\<lambda>_. True) row"

end
