(* ===== verification/Engagement_Theorems.thy ===== *)
theory Engagement_Theorems
  imports Engagement Sample_Story
begin

text \<open>
  What the message jobs do to the members: over any sequence of calls, one after the other,
  every message is tried at most five times, is never sent again once it was accepted, and
  the deliveries listed tell how often it was tried and whether it was accepted.
\<close>

section \<open>Calls\<close>

datatype engagement_call =
  Call_connector connector_input
| Call_remove string
| Call_enqueue customer_facts job_input
| Call_run string
| Call_run_due

record engagement_host =
  eh_host :: host
  eh_registered :: "string list"
  eh_url :: "string \<Rightarrow> bool"
  eh_answer :: "nat \<Rightarrow> string option"

definition call_engagement :: "engagement_host \<Rightarrow> engagement_call \<Rightarrow> unit engagement_eff" where
  "call_engagement e c =
     (case c of
        Call_connector k \<Rightarrow> m_void (upsertConnector (eh_host e) (eh_registered e) (eh_url e) k)
      | Call_remove i \<Rightarrow> m_void (removeConnector i)
      | Call_enqueue facts i \<Rightarrow> m_void (enqueue_job (eh_host e) facts i)
      | Call_run i \<Rightarrow> m_void (runJob (eh_host e) (eh_registered e) (eh_answer e) i)
      | Call_run_due \<Rightarrow> m_void (runDueJobs (eh_host e) (eh_registered e) (eh_answer e)))"

definition at_time :: "int \<Rightarrow> engagement_host \<Rightarrow> engagement_host" where
  "at_time t e = e\<lparr>eh_host := (eh_host e)\<lparr>h_now := t\<rparr>\<rparr>"

fun call_all ::
  "engagement_host \<Rightarrow> (int \<times> engagement_call) list \<Rightarrow> engagement_state service \<times> engagement_world \<Rightarrow>
    engagement_state service \<times> engagement_world" where
  "call_all e [] x = x"
| "call_all e ((t, c) # cs) x = call_all e cs (snd (call_engagement (at_time t e) c x))"

section \<open>The invariant\<close>

definition sends_of :: "string \<Rightarrow> sending list \<Rightarrow> sending list" where
  "sends_of i sent = filter (\<lambda>s. sd_delivery_id s = i) sent"

definition well_tried :: "sending list \<Rightarrow> bool" where
  "well_tried ss \<longleftrightarrow> length ss \<le> 5 \<and> list_all (\<lambda>s. \<not> sd_accepted s) (butlast ss)"

definition tells :: "sending list \<Rightarrow> message_delivery \<Rightarrow> bool" where
  "tells ss d \<longleftrightarrow> dm_attempts d = int (length ss) \<and> (dm_status d = Message_delivered) = list_ex sd_accepted ss"

definition all_deliveries :: "engagement_state \<Rightarrow> message_delivery list" where
  "all_deliveries s = concat (map mj_deliveries (ga_jobs s))"

definition drawn :: "host \<Rightarrow> string \<Rightarrow> nat \<Rightarrow> string set" where
  "drawn h p n = h_ids h p ` {..<n}"

definition messages_ok :: "host \<Rightarrow> nat \<Rightarrow> engagement_state \<Rightarrow> sending list \<Rightarrow> bool" where
  "messages_ok h n s sent \<longleftrightarrow>
     distinct (map mj_job_id (ga_jobs s)) \<and> mj_job_id ` set (ga_jobs s) \<subseteq> drawn h ''message_job'' n \<and>
     distinct (map dm_delivery_id (all_deliveries s)) \<and>
     dm_delivery_id ` set (all_deliveries s) \<subseteq> drawn h ''message'' n \<and>
     sd_delivery_id ` set sent \<subseteq> drawn h ''message'' n \<and>
     (\<forall>d \<in> set (all_deliveries s). tells (sends_of (dm_delivery_id d) sent) d) \<and>
     (\<forall>i. well_tried (sends_of i sent))"

definition messages :: "host \<Rightarrow> engagement_state service \<times> engagement_world \<Rightarrow> bool" where
  "messages h x = messages_ok h (sv_draws (fst x)) (sv_state (fst x)) (snd (snd x))"

lemma drawn_mono: "n \<le> m \<Longrightarrow> drawn h p n \<subseteq> drawn h p m"
  by (auto simp: drawn_def)

lemma messages_fields:
  "sv_draws (fst x) \<le> sv_draws (fst y) \<Longrightarrow> ga_jobs (sv_state (fst y)) = ga_jobs (sv_state (fst x)) \<Longrightarrow>
     snd (snd y) = snd (snd x) \<Longrightarrow> messages h x \<Longrightarrow> messages h y"
  using drawn_mono [of "sv_draws (fst x)" "sv_draws (fst y)" h]
  by (simp add: messages_def messages_ok_def all_deliveries_def) (meson order_trans)

section \<open>Rules\<close>

text \<open>From \<open>A\<close> the computation keeps the invariant, whatever its outcome, and returns with \<open>B\<close>.\<close>

definition keeping :: "('s \<Rightarrow> bool) \<Rightarrow> ('s \<Rightarrow> bool) \<Rightarrow> ('s, 'e, 'a) eff \<Rightarrow> ('a \<Rightarrow> 's \<Rightarrow> bool) \<Rightarrow> bool" where
  "keeping I A m B \<longleftrightarrow> (\<forall>x. I x \<longrightarrow> A x \<longrightarrow> I (snd (m x)) \<and> (\<forall>v. fst (m x) = Inr v \<longrightarrow> B v (snd (m x))))"

lemma keeping_bind:
  assumes "keeping I A m B" and "\<And>v. keeping I (B v) (f v) C"
  shows "keeping I A (m_bind m f) C"
  using assms by (fastforce simp: keeping_def m_bind_def split: prod.splits sum.splits)

lemma keeping_weaken: "keeping I A m B \<Longrightarrow> (\<And>x. A' x \<Longrightarrow> A x) \<Longrightarrow> (\<And>v x. B v x \<Longrightarrow> B' v x) \<Longrightarrow> keeping I A' m B'"
  by (simp add: keeping_def)

lemma keeping_return: "(\<And>x. A x \<Longrightarrow> B v x) \<Longrightarrow> keeping I A (m_return v) B"
  by (simp add: keeping_def m_return_def)

lemma keeping_void: "keeping I A m (\<lambda>_ _. True) \<Longrightarrow> keeping I A (m_void m) (\<lambda>_ _. True)"
  by (auto simp: keeping_def m_void_def m_bind_def m_return_def split: prod.splits sum.splits)

lemma keeping_map:
  assumes "\<And>v. keeping I (\<lambda>_. True) (f v) (\<lambda>_ _. True)"
  shows "keeping I (\<lambda>_. True) (m_map f vs) (\<lambda>_ _. True)"
proof (induction vs)
  case Nil
  show ?case unfolding m_map.simps by (rule keeping_return) simp
next
  case (Cons v vs)
  show ?case unfolding m_map.simps by (intro keeping_bind [OF assms] keeping_bind [OF Cons.IH] keeping_return) simp
qed

section \<open>What leaves the messages alone\<close>

definition untouched :: "engagement_state service \<times> engagement_world \<Rightarrow> engagement_state service \<times> engagement_world \<Rightarrow> bool" where
  "untouched x y \<longleftrightarrow>
     sv_draws (fst x) \<le> sv_draws (fst y) \<and> ga_jobs (sv_state (fst y)) = ga_jobs (sv_state (fst x)) \<and>
     snd (snd y) = snd (snd x)"

interpretation untouched: effect_relation untouched
  by unfold_locales (auto simp: untouched_def)

lemma untouched_service:
  assumes "\<And>s. sv_draws s \<le> sv_draws (snd (m s)) \<and> ga_jobs (sv_state (snd (m s))) = ga_jobs (sv_state s)"
  shows "m_keeps untouched (on_service m)"
  using assms by (auto simp: m_keeps_def untouched_def on_service_def split: prod.splits) (metis snd_conv)+

lemma untouched_calls:
  "m_keeps untouched (on_service (sv_get g))" "m_keeps untouched (on_service (sv_check c e n))"
  "m_keeps untouched (on_service (sv_throw e n))" "m_keeps untouched (on_service (sv_draw h p))"
  "m_keeps untouched (on_service sv_save)"
  by (auto intro!: untouched_service simp: sv_get_def sv_check_def m_assert_run sv_throw_def sv_draw_def)

lemma untouched_side: "m_keeps untouched (on_campaign_side m)"
  by (auto simp: m_keeps_def untouched_def on_campaign_side_def split: prod.split)

lemma untouched_given: "m_keeps untouched (given_or_drawn h p v)"
  by (auto simp: given_or_drawn_def split: option.split intro: untouched_calls untouched.keeps_return)

lemmas untouched_intros =
  untouched_calls untouched_side untouched_given untouched.keeps_bind untouched.keeps_return untouched.keeps_if

lemma untouched_keeping: "m_keeps untouched m \<Longrightarrow> keeping (messages h) A m (\<lambda>_ _. True)"
  unfolding keeping_def m_keeps_def untouched_def by (metis messages_fields)

lemma connectors_untouched:
  "m_keeps untouched (upsertConnector h registered url k)" "m_keeps untouched (removeConnector i)"
proof -
  have change: "m_keeps untouched (on_service (sv_change f))" if "\<And>s. ga_jobs (f s) = ga_jobs s" for f
    using that by (intro untouched_service) (simp add: sv_change_def)
  have drawn: "m_keeps untouched (case found of None \<Rightarrow> given_or_drawn h p v | Some c \<Rightarrow> m_return (cr_connector_id c))" for found p v
    by (auto split: option.split intro: untouched_given untouched.keeps_return)
  show "m_keeps untouched (upsertConnector h registered url k)"
    unfolding upsertConnector_def by (intro untouched_intros drawn change) (simp add: put_connector_def)
  show "m_keeps untouched (removeConnector i)"
    unfolding removeConnector_def by (intro untouched_intros change) simp
qed

section \<open>Jobs in the state\<close>

lemma other_job:
  "distinct (map g (concat (map f xs))) \<Longrightarrow> x \<in> set xs \<Longrightarrow> y \<in> set xs \<Longrightarrow> x \<noteq> y \<Longrightarrow>
     d \<in> set (f x) \<Longrightarrow> e \<in> set (f y) \<Longrightarrow> g d \<noteq> g e"
proof (induction xs)
  case (Cons a xs)
  have "g u \<noteq> g v" if "u \<in> set (f a)" "v \<in> set (f z)" "z \<in> set xs" for u v z
  proof -
    have "g v \<in> g ` set (concat (map f xs))" using that by auto
    moreover have "g ` set (f a) \<inter> g ` set (concat (map f xs)) = {}"
      using Cons.prems(1) by (simp only: list.simps concat.simps map_append distinct_append set_map)
    ultimately show ?thesis using that(1) by (metis IntI empty_iff imageI)
  qed
  then show ?case using Cons by (metis append.simps concat.simps(2) distinct_append list.simps(9) map_append set_ConsD)
qed simp

lemma replaced_deliveries:
  assumes "distinct (map mj_job_id js)" "cur \<in> set js" "mj_job_id j = mj_job_id cur"
    and "mj_deliveries j = map f (mj_deliveries cur)"
    and "\<And>x d. x \<in> set js \<Longrightarrow> x \<noteq> cur \<Longrightarrow> d \<in> set (mj_deliveries x) \<Longrightarrow> f d = d"
  shows "concat (map mj_deliveries (map (\<lambda>x. if mj_job_id x = mj_job_id j then j else x) js)) =
           map f (concat (map mj_deliveries js))"
proof -
  have "mj_deliveries (if mj_job_id x = mj_job_id j then j else x) = map f (mj_deliveries x)" if "x \<in> set js" for x
  proof (cases "x = cur")
    case False
    with assms(1-3) that have "mj_job_id x \<noteq> mj_job_id j" by (auto simp: distinct_map inj_on_def)
    with assms(5) [OF that False] show ?thesis by (simp add: map_idI)
  qed (use assms in simp)
  then show ?thesis by (simp add: map_concat cong: map_cong)
qed

lemma current_job: "currentJob i s = Some j \<Longrightarrow> j \<in> set (ga_jobs s) \<and> mj_job_id j = i"
  unfolding currentJob_def by (drule find_SomeD) simp

definition with_job :: "message_job \<Rightarrow> engagement_state \<Rightarrow> engagement_state" where
  "with_job j s = s\<lparr>ga_jobs := map (\<lambda>x. if mj_job_id x = mj_job_id j then j else x) (ga_jobs s)\<rparr>"

lemma jobs_with: "ga_jobs (with_job j s) = map (\<lambda>x. if mj_job_id x = mj_job_id j then j else x) (ga_jobs s)"
  by (simp add: with_job_def)

lemma job_ids_with [simp]: "map mj_job_id (ga_jobs (with_job j s)) = map mj_job_id (ga_jobs s)"
  by (simp add: with_job_def)

lemma id_set_with [simp]: "mj_job_id ` set (ga_jobs (with_job j s)) = mj_job_id ` set (ga_jobs s)"
  by (metis job_ids_with set_map)

lemma messages_replaced:
  assumes ok: "messages_ok h n s sent" and cur: "cur \<in> set (ga_jobs s)" "mj_job_id j = mj_job_id cur"
    and all: "all_deliveries (with_job j s) = map f (all_deliveries s)"
    and ids: "\<And>d. dm_delivery_id (f d) = dm_delivery_id d"
    and sent: "sd_delivery_id ` set sent' \<subseteq> drawn h ''message'' n"
    and tells: "\<And>d. d \<in> set (all_deliveries s) \<Longrightarrow> tells (sends_of (dm_delivery_id d) sent') (f d)"
    and tried: "\<And>i. well_tried (sends_of i sent')"
  shows "messages_ok h n (with_job j s) sent'"
proof -
  show ?thesis
    using ok tells sent tried by (simp add: messages_ok_def all image_image ids comp_def)
qed

lemma messages_same_deliveries:
  assumes "messages_ok h n s sent" "cur \<in> set (ga_jobs s)" "mj_job_id j = mj_job_id cur" "mj_deliveries j = mj_deliveries cur"
  shows "messages_ok h n (with_job j s) sent"
  using assms replaced_deliveries [of "ga_jobs s" cur j id]
  by (intro messages_replaced [of h n s sent cur j id]) (auto simp: messages_ok_def all_deliveries_def with_job_def)

lemma messages_delivery:
  assumes ok: "messages_ok h n s sent" and cur: "cur \<in> set (ga_jobs s)" and d: "d \<in> set (mj_deliveries cur)"
    and id: "dm_delivery_id d' = dm_delivery_id d" and new: "\<And>x. x \<in> set new \<Longrightarrow> sd_delivery_id x = dm_delivery_id d"
    and tells: "tells (sends_of (dm_delivery_id d) (sent @ new)) d'"
    and tried: "well_tried (sends_of (dm_delivery_id d) (sent @ new))"
  shows "messages_ok h n (with_job (withDelivery cur d') s) (sent @ new)"
proof -
  define f where "f \<equiv> \<lambda>x. if dm_delivery_id x = dm_delivery_id d' then d' else x"
  have there: "d \<in> set (all_deliveries s)" using cur d by (auto simp: all_deliveries_def)
  have other: "sends_of i (sent @ new) = sends_of i sent" if "i \<noteq> dm_delivery_id d" for i
    using new that by (auto simp: sends_of_def filter_empty_conv)
  have "f e = e" if "x \<in> set (ga_jobs s)" "x \<noteq> cur" "e \<in> set (mj_deliveries x)" for x e
    using other_job [of dm_delivery_id mj_deliveries "ga_jobs s" cur x d e] ok cur d id that
    by (auto simp: f_def messages_ok_def all_deliveries_def)
  then have all: "all_deliveries (with_job (withDelivery cur d') s) = map f (all_deliveries s)"
    unfolding all_deliveries_def jobs_with using ok cur
    by (intro replaced_deliveries [where cur = cur]) (simp_all add: messages_ok_def withDelivery_def f_def)
  show ?thesis
  proof (rule messages_replaced [OF ok cur _ all])
    show "sd_delivery_id ` set (sent @ new) \<subseteq> drawn h ''message'' n"
      using ok there new by (auto simp: messages_ok_def)
    show "tells (sends_of (dm_delivery_id e) (sent @ new)) (f e)" if "e \<in> set (all_deliveries s)" for e
      using ok that tells other [of "dm_delivery_id e"] id by (auto simp: f_def messages_ok_def)
    show "well_tried (sends_of i (sent @ new))" for i
      using ok tried other [of i] by (cases "i = dm_delivery_id d") (auto simp: messages_ok_def)
  qed (auto simp: withDelivery_def f_def id)
qed

section \<open>New jobs\<close>

lemma all_deliveries_take:
  "all_deliveries s = all_deliveries (s\<lparr>ga_jobs := take k (ga_jobs s)\<rparr>) @ all_deliveries (s\<lparr>ga_jobs := drop k (ga_jobs s)\<rparr>)"
  by (simp add: all_deliveries_def flip: concat_append map_append)

lemma messages_take:
  assumes "messages_ok h n s sent"
  shows "messages_ok h n (s\<lparr>ga_jobs := take k (ga_jobs s)\<rparr>) sent"
proof -
  have "distinct (map mj_job_id (take k (ga_jobs s)))" using assms by (simp add: messages_ok_def flip: take_map)
  moreover have "set (take k (ga_jobs s)) \<subseteq> set (ga_jobs s)" by (rule set_take_subset)
  ultimately show ?thesis
    using assms all_deliveries_take [of s k] by (auto simp: messages_ok_def)
qed

lemma undrawn:
  assumes "inj (h_ids h p)" "n \<le> m"
  shows "h_ids h p m \<notin> drawn h p n" "h_ids h p ` {n..<m} \<inter> drawn h p n = {}" "h_ids h p ` {n..<m} \<subseteq> drawn h p (Suc m)"
    "h_ids h p m \<in> drawn h p (Suc m)"
  using assms by (auto simp: drawn_def dest: injD)

lemma messages_push:
  assumes ok: "messages_ok h n s sent" and inj: "inj (h_ids h ''message'')" "inj (h_ids h ''message_job'')" and n: "n \<le> m"
    and ids: "map dm_delivery_id (mj_deliveries j) = map (h_ids h ''message'') [n..<m]"
    and fresh: "\<And>d. d \<in> set (mj_deliveries j) \<Longrightarrow> dm_attempts d = 0 \<and> dm_status d \<noteq> Message_delivered"
    and job: "mj_job_id j = h_ids h ''message_job'' m"
  shows "messages_ok h (Suc m) (s\<lparr>ga_jobs := take 200 (j # ga_jobs s)\<rparr>) sent"
proof -
  have all: "all_deliveries (s\<lparr>ga_jobs := j # ga_jobs s\<rparr>) = mj_deliveries j @ all_deliveries s"
    by (simp add: all_deliveries_def)
  have set: "dm_delivery_id ` set (mj_deliveries j) = h_ids h ''message'' ` {n..<m}"
    using arg_cong [OF ids, of set] by simp
  have mono: "drawn h p n \<subseteq> drawn h p (Suc m)" for p using n by (intro drawn_mono) simp
  have new: "tells (sends_of (dm_delivery_id d) sent) d" if "d \<in> set (mj_deliveries j)" for d
  proof -
    have "dm_delivery_id d \<notin> sd_delivery_id ` set sent"
    proof
      assume sent: "dm_delivery_id d \<in> sd_delivery_id ` set sent"
      have "dm_delivery_id d \<in> h_ids h ''message'' ` {n..<m}" using set that by blast
      moreover have "dm_delivery_id d \<in> drawn h ''message'' n" using ok sent by (auto simp: messages_ok_def)
      ultimately show False using undrawn(2) [OF inj(1) n] by blast
    qed
    then have "sends_of (dm_delivery_id d) sent = []" by (force simp: sends_of_def filter_empty_conv)
    then show ?thesis using fresh [OF that] by (simp add: tells_def)
  qed
  have "messages_ok h (Suc m) (s\<lparr>ga_jobs := j # ga_jobs s\<rparr>) sent"
    unfolding messages_ok_def all map_append distinct_append set_append image_Un
  proof (intro conjI)
    show "distinct (map mj_job_id (ga_jobs (s\<lparr>ga_jobs := j # ga_jobs s\<rparr>)))"
      using ok undrawn(1) [OF inj(2) n] job by (auto simp: messages_ok_def)
    show "distinct (map dm_delivery_id (mj_deliveries j))"
      unfolding ids using inj(1) by (simp add: distinct_map inj_on_def inj_def)
    show "set (map dm_delivery_id (mj_deliveries j)) \<inter> set (map dm_delivery_id (all_deliveries s)) = {}"
      unfolding set_map set using ok undrawn(2) [OF inj(1) n] by (simp add: messages_ok_def) blast
  next
    show "mj_job_id ` set (ga_jobs (s\<lparr>ga_jobs := j # ga_jobs s\<rparr>)) \<subseteq> drawn h ''message_job'' (Suc m)"
      using ok job mono [of "''message_job''"] undrawn(4) [OF inj(2) n] by (auto simp: messages_ok_def)
    show "dm_delivery_id ` set (mj_deliveries j) \<union> dm_delivery_id ` set (all_deliveries s) \<subseteq> drawn h ''message'' (Suc m)"
      unfolding set using ok mono [of "''message''"] undrawn(3) [OF inj(1) n] by (auto simp: messages_ok_def)
  qed (use ok mono [of "''message''"] new in \<open>auto simp: messages_ok_def\<close>)
  from messages_take [OF this, of 200] show ?thesis by simp
qed

lemma drawing_run:
  "m_map (\<lambda>m. m_bind (on_service (sv_draw h p)) (\<lambda>d. m_return (f m d))) ms x =
     (Inr (map2 f ms (map (h_ids h p) [sv_draws (fst x)..<sv_draws (fst x) + length ms])),
      ((fst x)\<lparr>sv_draws := sv_draws (fst x) + length ms\<rparr>, snd x))"
proof (induction ms arbitrary: x)
  case (Cons m ms)
  have 1: "m_bind (on_service (sv_draw h p)) (\<lambda>d. m_return (f m d)) x =
      (Inr (f m (h_ids h p (sv_draws (fst x)))), ((fst x)\<lparr>sv_draws := Suc (sv_draws (fst x))\<rparr>, snd x))"
    by simp
  show ?case
    unfolding m_map.simps by (subst m_bind_Inr, rule 1, subst m_bind_Inr, rule Cons.IH) (simp add: upt_conv_Cons del: upt_Suc)
qed simp

section \<open>The calls keep the invariant\<close>

definition present_job :: "string \<Rightarrow> engagement_state service \<times> engagement_world \<Rightarrow> bool" where
  "present_job i x \<longleftrightarrow> i \<in> mj_job_id ` set (ga_jobs (sv_state (fst x)))"

lemma present_current: "present_job i x \<Longrightarrow> \<exists>j. currentJob i (sv_state (fst x)) = Some j"
  by (cases "currentJob i (sv_state (fst x))") (auto simp: present_job_def currentJob_def find_None_iff_all)

lemma present_with [simp]: "present_job i (s\<lparr>sv_state := with_job j (sv_state s)\<rparr>, w) = present_job i (s, w)"
  by (simp add: present_job_def)

lemma keeping_if_pure: "(P \<Longrightarrow> keeping I A m B) \<Longrightarrow> keeping I (\<lambda>x. A x \<and> P) m B"
  by (auto simp: keeping_def)

lemma keeping_get: "keeping I A (on_service (sv_get g)) (\<lambda>v x. A x \<and> v = g (sv_state (fst x)))"
  by (simp add: keeping_def on_service_def sv_get_def)

lemma keeping_check: "keeping I A (on_service (sv_check c e n)) (\<lambda>_ x. A x)"
  by (simp add: keeping_def on_service_def sv_check_def m_assert_run split: prod.split)

lemma untouched_present: "m_keeps untouched m \<Longrightarrow> keeping (messages h) (present_job i) m (\<lambda>_. present_job i)"
  unfolding keeping_def m_keeps_def untouched_def present_job_def by (metis messages_fields)

lemma saveJob_state:
  obtains t where "snd (saveJob j (s, w)) = (t, w)" "sv_state t = with_job j (sv_state s)" "sv_draws t = sv_draws s"
    "fst (saveJob j (s, w)) = Inr v \<longrightarrow> v = ()"
proof -
  have "snd (saveJob j (s, w)) = (snd (sv_save (s\<lparr>sv_state := with_job j (sv_state s)\<rparr>)), w)"
    by (simp add: saveJob_def with_job_def on_service_def split: prod.split)
  then show thesis using that by simp
qed

lemma save_same:
  assumes "messages h (s, w)" "cur \<in> set (ga_jobs (sv_state s))" "mj_job_id j = mj_job_id cur" "mj_deliveries j = mj_deliveries cur"
  shows "messages h (snd (saveJob j (s, w)))" "present_job (mj_job_id cur) (snd (saveJob j (s, w)))"
proof -
  obtain t where t: "snd (saveJob j (s, w)) = (t, w)" "sv_state t = with_job j (sv_state s)" "sv_draws t = sv_draws s"
    by (rule saveJob_state)
  show "messages h (snd (saveJob j (s, w)))"
    using messages_same_deliveries [of h "sv_draws s" "sv_state s" "snd w" cur j] assms t by (simp add: messages_def)
  have "present_job (mj_job_id cur) (s\<lparr>sv_state := with_job j (sv_state s)\<rparr>, w)"
    using assms(2) by (auto simp: present_job_def)
  then show "present_job (mj_job_id cur) (snd (saveJob j (s, w)))" using t by (simp add: present_job_def)
qed

lemma save_delivery:
  assumes "messages h (s, c, sent)" "cur \<in> set (ga_jobs (sv_state s))" "d \<in> set (mj_deliveries cur)"
    and "dm_delivery_id d' = dm_delivery_id d" "\<And>x. x \<in> set new \<Longrightarrow> sd_delivery_id x = dm_delivery_id d"
    and "tells (sends_of (dm_delivery_id d) (sent @ new)) d'" "well_tried (sends_of (dm_delivery_id d) (sent @ new))"
  shows "messages h (snd (saveJob (withDelivery cur d') (s, c, sent @ new)))"
    "present_job (mj_job_id cur) (snd (saveJob (withDelivery cur d') (s, c, sent @ new)))"
proof -
  let ?j = "withDelivery cur d'"
  obtain t where t: "snd (saveJob ?j (s, c, sent @ new)) = (t, c, sent @ new)" "sv_state t = with_job ?j (sv_state s)"
      "sv_draws t = sv_draws s"
    by (rule saveJob_state)
  show "messages h (snd (saveJob ?j (s, c, sent @ new)))"
    using messages_delivery [of h "sv_draws s" "sv_state s" sent cur d d' new] assms t by (simp add: messages_def)
  have "present_job (mj_job_id cur) (s\<lparr>sv_state := with_job ?j (sv_state s)\<rparr>, c, sent @ new)"
    using assms(2) by (auto simp: present_job_def)
  then show "present_job (mj_job_id cur) (snd (saveJob ?j (s, c, sent @ new)))" using t by (simp add: present_job_def)
qed

text \<open>A delivery that may be sent was not accepted, and has been tried fewer than five times.\<close>

lemma sendable_tells:
  assumes "tells ss d" "sendable g d"
  shows "length ss < 5" "list_all (\<lambda>s. \<not> sd_accepted s) ss"
  using assms by (auto simp: tells_def sendable_def list_ex_iff list_all_iff)

lemma tried_again:
  assumes "tells ss d" "sendable g d" "d' = (if sd_accepted x then delivered_now g d else failed_now g e d)"
  shows "tells (ss @ [x]) d'" "well_tried (ss @ [x])"
  using assms sendable_tells [OF assms(1,2)]
  by (auto simp: tells_def well_tried_def delivered_now_def failed_now_def list_ex_iff list_all_iff)

lemma keeps_deliver:
  assumes "mj_job_id working = i"
  shows "keeping (messages h) (present_job i) (deliver_one g answer members deliveryId working)
           (\<lambda>j x. present_job i x \<and> mj_job_id j = i)"
  unfolding keeping_def
proof (intro allI impI)
  fix x
  assume x: "messages h x" "present_job i x"
  obtain s c sent where xs: "x = (s, c, sent)" by (cases x) auto
  obtain j where j: "currentJob i (sv_state s) = Some j" using present_current [OF x(2)] xs by auto
  have in_state: "j \<in> set (ga_jobs (sv_state s))" "mj_job_id j = i" using current_job [OF j] by auto
  define found where "found = List.find (\<lambda>d. dm_delivery_id d = deliveryId) (mj_deliveries j)"
  have start: "m_bind (begin_delivery g deliveryId working) f (s, c, sent) =
      f (j, Option.bind found (\<lambda>d. if sendable g d then Some d else None)) (s, c, sent)" for f :: "_ \<Rightarrow> message_job engagement_eff"
    using j assms by (simp add: begin_delivery_def xs m_bind_def found_def on_service_def sv_get_def split: option.split)
  let ?m = "deliver_one g answer members deliveryId working x"
  show "messages h (snd ?m) \<and> (\<forall>v. fst ?m = Inr v \<longrightarrow> present_job i (snd ?m) \<and> mj_job_id v = i)"
  proof (cases "Option.bind found (\<lambda>d. if sendable g d then Some d else None)")
    case None
    then show ?thesis using x in_state by (simp add: deliver_one_def start xs)
  next
    case (Some d)
    then have d: "d \<in> set (mj_deliveries j)" "sendable g d"
      by (auto simp: found_def bind_eq_Some_conv dest: find_SomeD split: if_splits)
    have tells: "tells (sends_of (dm_delivery_id d) sent) d" and tried: "well_tried (sends_of (dm_delivery_id d) sent)"
      using x(1) in_state(1) d(1) by (auto simp: messages_def messages_ok_def xs all_deliveries_def)
    have after_save: "messages h (snd (m_bind (saveJob v) (\<lambda>_. m_return v) y)) \<and>
        (\<forall>u. fst (m_bind (saveJob v) (\<lambda>_. m_return v) y) = Inr u \<longrightarrow>
             present_job i (snd (m_bind (saveJob v) (\<lambda>_. m_return v) y)) \<and> mj_job_id u = i)"
      if "messages h (snd (saveJob v y))" "present_job i (snd (saveJob v y))" "mj_job_id v = i" for v y
      using that by (cases "saveJob v y") (auto simp: m_bind_def split: sum.splits)
    have same_id: "mj_job_id (withDelivery j d') = i" for d' using in_state by (simp add: withDelivery_def)
    show ?thesis
    proof (cases "listed_member members (dm_member_id d) = None")
      case True
      let ?d = "d\<lparr>dm_status := Message_skipped, dm_error := Some ''member_not_found''\<rparr>"
      have "tells (sends_of (dm_delivery_id d) sent) ?d"
        using tells sendable_tells [OF tells d(2)] by (auto simp: tells_def list_ex_iff list_all_iff)
      then show ?thesis
        using after_save [OF _ _ same_id, of ?d x] save_delivery [of h s c sent j d ?d "[]"] x in_state d tried True Some
        by (simp add: deliver_one_def start skip_delivery_def xs Let_def)
    next
      case False
      then obtain y where member: "listed_member members (dm_member_id d) = Some y" by auto
      let ?x = "\<lparr>sd_delivery_id = dm_delivery_id d, sd_member_id = dm_member_id d, sd_accepted = (answer (length sent) = None)\<rparr>"
      let ?d = "case answer (length sent) of None \<Rightarrow> delivered_now g d | Some e \<Rightarrow> failed_now g e d"
      have sends: "sends_of (dm_delivery_id d) (sent @ [?x]) = sends_of (dm_delivery_id d) sent @ [?x]"
        by (simp add: sends_of_def)
      have again: "?d = (if sd_accepted ?x then delivered_now g d else failed_now g (the (answer (length sent))) d)"
        by (auto split: option.split)
      have "dm_delivery_id ?d = dm_delivery_id d" by (auto simp: delivered_now_def failed_now_def split: option.split)
      then have "messages h (snd (saveJob (withDelivery j ?d) (s, c, sent @ [?x])))"
          "present_job i (snd (saveJob (withDelivery j ?d) (s, c, sent @ [?x])))"
        using save_delivery [of h s c sent j d ?d "[?x]"] x in_state d tried_again [OF tells d(2) again] sends by (simp_all add: xs)
      then show ?thesis
        using after_save [OF _ _ same_id, of ?d "(s, c, sent @ [?x])"] member Some
        by (simp add: deliver_one_def start m_bind_def [of "send_message answer d"] send_message_def end_delivery_def xs Let_def)
    qed
  qed
qed

lemma keeps_deliver_all:
  "mj_job_id working = i \<Longrightarrow>
     keeping (messages h) (present_job i) (deliver_all g answer members ids working)
       (\<lambda>j x. present_job i x \<and> mj_job_id j = i)"
proof (induction ids arbitrary: working)
  case Nil
  then show ?case unfolding deliver_all.simps by (intro keeping_return) simp
next
  case (Cons d ids)
  show ?case
    unfolding deliver_all.simps by (intro keeping_bind [OF keeps_deliver [OF Cons.prems]] keeping_if_pure Cons.IH)
qed

lemma keeps_start:
  "keeping (messages h) (\<lambda>x. Some job = currentJob jobId (sv_state (fst x))) (saveJob (job\<lparr>mj_status := Job_running\<rparr>))
     (\<lambda>_. present_job jobId)"
  using save_same [of h _ _ job] current_job [of jobId _ job] by (auto simp: keeping_def)

lemma keeps_finish_run: "keeping (messages h) (present_job jobId) (finish_job_run g jobId w) (\<lambda>_ _. True)"
  unfolding finish_job_run_def
proof (rule keeping_bind [OF keeping_get])
  show "keeping (messages h) (\<lambda>x. present_job jobId x \<and> v = currentJob jobId (sv_state (fst x)))
      (let j = finished_job g (case v of None \<Rightarrow> w | Some y \<Rightarrow> y) in m_bind (saveJob j) (\<lambda>_. m_return j)) (\<lambda>_ _. True)" for v
    using save_same [of h _ _ "the v" "finished_job g (the v)"] current_job [of jobId _ "the v"] present_current [of jobId]
    by (fastforce simp: keeping_def Let_def finished_job_def)
qed

lemma keeps_run_deliveries:
  "keeping (messages h) (\<lambda>x. Some job = currentJob jobId (sv_state (fst x))) (run_deliveries g answer jobId job) (\<lambda>_ _. True)"
proof -
  have "keeping (messages h) (\<lambda>x. Some job = currentJob jobId (sv_state (fst x)) \<and> mj_job_id job = jobId)
      (run_deliveries g answer jobId job) (\<lambda>_ _. True)"
    unfolding run_deliveries_def
    by (intro keeping_if_pure keeping_bind [OF keeps_start] keeping_bind [OF untouched_present [OF untouched_side]]
        keeping_bind [OF keeps_deliver_all] keeping_if_pure keeps_finish_run) simp
  then show ?thesis by (rule keeping_weaken) (use current_job in \<open>auto dest: sym\<close>)
qed

lemma keeps_runJob: "keeping (messages h) (\<lambda>_. True) (runJob g registered answer jobId) (\<lambda>_ _. True)"
proof -
  have found: "keeping (messages h) (\<lambda>x. Some job = currentJob jobId (sv_state (fst x))) (run_found g registered answer jobId job)
      (\<lambda>_ _. True)" for job
    unfolding run_found_def
    by (rule keeping_bind [OF keeping_get] keeping_bind [OF keeping_check])+ (rule keeping_weaken [OF keeps_run_deliveries], simp)
  have "keeping (messages h) (\<lambda>x. v = currentJob jobId (sv_state (fst x)))
      (case v of None \<Rightarrow> on_service (sv_throw Not_found 404) | Some job \<Rightarrow> run_found g registered answer jobId job) (\<lambda>_ _. True)" for v
    using found by (cases v) (simp_all add: untouched_keeping untouched_calls)
  then show ?thesis
    unfolding runJob_def by (intro keeping_bind [OF keeping_get]) simp
qed

lemma keeps_runDue: "keeping (messages h) (\<lambda>_. True) (runDueJobs g registered answer) (\<lambda>_ _. True)"
  unfolding runDueJobs_def
  by (rule keeping_bind [OF keeping_weaken [OF keeping_get [where A = "\<lambda>_. True"], where B' = "\<lambda>_ _. True"]])
    (auto intro!: keeping_bind [OF keeping_map] keeping_return keeps_runJob)

lemma keeps_enqueue:
  assumes inj: "inj (h_ids h ''message'')" "inj (h_ids h ''message_job'')" and ids: "h_ids g = h_ids h"
  shows "keeping (messages h) (\<lambda>_. True) (enqueue_job g facts i) (\<lambda>_ _. True)"
proof -
  have push: "messages h (snd (add_job g i ms mids x))" if "messages h x" for x ms mids
  proof -
    define n where "n = sv_draws (fst x)"
    define m where "m = n + length mids"
    define ds where "ds = map2 (new_delivery (purpose_of i) ms) mids (map (h_ids g ''message'') [n..<m])"
    define j where "j = job_of g i ds (h_ids g ''message_job'' m)"
    have "map dm_delivery_id (mj_deliveries j) = map (h_ids h ''message'') [n..<m]"
      by (simp add: j_def job_of_def ds_def Let_def new_delivery_def ids m_def comp_def case_prod_beta map_snd_zip
          flip: map_map [of h_ids])
    then have "messages_ok h (Suc m) ((sv_state (fst x))\<lparr>ga_jobs := take 200 (j # ga_jobs (sv_state (fst x)))\<rparr>) (snd (snd x))"
      using that inj ids
      by (intro messages_push [where n = n and m = m])
        (auto simp: messages_def n_def m_def j_def job_of_def Let_def ds_def new_delivery_def set_zip split: if_splits)
    then show ?thesis
      by (simp add: add_job_def m_bind_Inr [OF drawing_run] messages_def on_service_def j_def ds_def m_def n_def Let_def case_prod_beta)
  qed
  then have new: "keeping (messages h) (\<lambda>_. True) (add_job g i ms mids) (\<lambda>_ _. True)" for ms mids
    by (simp add: keeping_def)
  have first: "keeping (messages h) (\<lambda>_. True) (first_enqueue g facts i) (\<lambda>_ _. True)"
    unfolding first_enqueue_def
    by (rule keeping_bind [OF untouched_keeping [OF untouched_calls(1)]] keeping_bind [OF untouched_keeping [OF untouched_calls(2)]]
        keeping_bind [OF untouched_keeping [OF untouched_side]] new)+
  have "m_keeps untouched (m_bind (on_service (sv_check (same_facts g j i) Conflict 409)) (\<lambda>_. m_return j))" for j
    by (intro untouched_intros)
  note again = untouched_keeping [OF this]
  show ?thesis
    unfolding enqueue_job_def
    by (rule keeping_bind [OF untouched_keeping [OF untouched_calls(2)]] keeping_bind [OF untouched_keeping [OF untouched_calls(1)]])+
      (auto split: option.split intro: again first)
qed

lemma keeps_call:
  assumes "inj (h_ids (eh_host e) ''message'')" "inj (h_ids (eh_host e) ''message_job'')"
  shows "keeping (messages (eh_host e)) (\<lambda>_. True) (call_engagement (at_time t e) c) (\<lambda>_ _. True)"
  by (cases c)
    (simp_all add: call_engagement_def at_time_def keeping_void untouched_keeping connectors_untouched
      keeps_enqueue keeps_runJob keeps_runDue assms)

lemma call_all_messages:
  assumes "inj (h_ids (eh_host e) ''message'')" "inj (h_ids (eh_host e) ''message_job'')" "messages (eh_host e) x"
  shows "messages (eh_host e) (call_all e cs x)"
  using assms(3)
proof (induction cs arbitrary: x)
  case (Cons tc cs)
  obtain t c where "tc = (t, c)" by (cases tc)
  moreover have "messages (eh_host e) (snd (call_engagement (at_time t e) c x))"
    using keeps_call [OF assms(1,2), of t c] Cons.prems unfolding keeping_def by blast
  ultimately show ?case using Cons.IH by simp
qed simp

text \<open>
  C40. Messages: a service started without jobs, and any sequence of calls to it, one after
  the other. The adapter is called at most five times for a message, and never again after a
  call that it accepted; a delivery listed as delivered was accepted, one listed otherwise
  was not, and its attempts are the calls made for it.
\<close>

theorem messages_are_sent_once:
  assumes "inj (h_ids (eh_host e) ''message'')" and "inj (h_ids (eh_host e) ''message_job'')"
    and "create_engagement True row = (r, s)"
    and "call_all e calls (s, c, []) = (t, d, sent)"
  shows "length (sends_of i sent) \<le> 5 \<and> list_all (\<lambda>x. \<not> sd_accepted x) (butlast (sends_of i sent)) \<and>
    (\<forall>m \<in> set (all_deliveries (sv_state t)).
      dm_attempts m = int (length (sends_of (dm_delivery_id m) sent)) \<and>
      (dm_status m = Message_delivered) = list_ex sd_accepted (sends_of (dm_delivery_id m) sent))"
proof -
  have "s = snd (create_engagement True row)" using assms(3) by simp
  then have "ga_jobs (sv_state s) = []"
    by (simp add: create_engagement_def sv_create_def store_clear_def store_load_def Let_def)
  then have "messages (eh_host e) (s, c, [])"
    by (simp add: messages_def messages_ok_def all_deliveries_def sends_of_def well_tried_def)
  from call_all_messages [OF assms(1,2) this, of calls] assms(4)
  have "messages_ok (eh_host e) (sv_draws t) (sv_state t) sent" by (simp add: messages_def)
  then show ?thesis
    by (auto simp: messages_ok_def well_tried_def tells_def)
qed

text \<open>
  A message to the one member of a segment: the first call of the adapter fails, the second,
  a second later, is accepted.
\<close>

definition sample_engagement :: engagement_host where
  "sample_engagement =
     \<lparr>eh_host = sample_host, eh_registered = [''webhook''], eh_url = (\<lambda>_. True),
      eh_answer = (\<lambda>n. if n = 0 then Some ''timeout'' else None)\<rparr>"

definition everyone :: segment where
  "everyone =
     \<lparr>sm_segment_id = ''all'', sm_name = ''all'', sm_mode = Static_segment, sm_member_ids = [''ann''], sm_rules = None,
      sm_created_at = [], sm_updated_at = []\<rparr>"

definition sample_world :: "campaign_state service \<times> platform" where
  "sample_world =
     (\<lparr>sv_state = \<lparr>cm_segments = [everyone], cm_campaigns = [], cm_runs = []\<rparr>, sv_revision = 0, sv_store = None, sv_draws = 0\<rparr>,
      ((empty_engine story_program)\<lparr>eg_members := [(''ann'', sample_member)]\<rparr>, None))"

definition hook :: connector_input where
  "hook =
     \<lparr>ki_connector_id = Some ''hook'', ki_name = ''hook'', ki_type = ''webhook'', ki_active = None,
      ki_configuration = [(''url'', JStr ''https://example.com'')], ki_secret = Some ''0123456789abcdef''\<rparr>"

definition greeting :: job_input where
  "greeting =
     \<lparr>jn_idempotency_key = ''k'', jn_connector_id = ''hook'', jn_segment_id = ''all'', jn_template_id = ''hello'', jn_content = [],
      jn_purpose = Some Transactional_message\<rparr>"

definition message_story :: "(int \<times> engagement_call) list" where
  "message_story =
     [(1767225700000, Call_connector hook), (1767225700000, Call_enqueue (\<lambda>_. None) greeting),
      (1767225700000, Call_run_due), (1767225701000, Call_run (sample_ids ''message_job'' 1))]"

definition message_view :: "engagement_state service \<times> engagement_world \<Rightarrow> (string \<times> bool) list \<times> (string \<times> int \<times> message_status) list" where
  "message_view x =
     (map (\<lambda>s. (sd_delivery_id s, sd_accepted s)) (snd (snd x)),
      map (\<lambda>m. (dm_delivery_id m, dm_attempts m, dm_status m)) (all_deliveries (sv_state (fst x))))"

lemma sample_messages:
  "message_view (call_all sample_engagement message_story (snd (create_engagement True None), sample_world, [])) =
     ([(sample_ids ''message'' 0, False), (sample_ids ''message'' 0, True)],
      [(sample_ids ''message'' 0, 2, Message_delivered)])"
  by code_simp

lemma messages_are_sent_once_witness:
  "\<exists>r s t d sent. create_engagement True None = (r, s) \<and>
     call_all sample_engagement message_story (s, sample_world, []) = (t, d, sent) \<and>
     map sd_accepted (sends_of (sample_ids ''message'' 0) sent) = [False, True] \<and>
     length (sends_of (sample_ids ''message'' 0) sent) \<le> 5"
proof -
  obtain r s where start: "create_engagement True None = (r, s)" by (cases "create_engagement True None")
  obtain t d sent where run: "call_all sample_engagement message_story (s, sample_world, []) = (t, d, sent)"
    by (cases "call_all sample_engagement message_story (s, sample_world, [])") auto
  have "map (\<lambda>s. (sd_delivery_id s, sd_accepted s)) sent = [(sample_ids ''message'' 0, False), (sample_ids ''message'' 0, True)]"
    using sample_messages by (simp add: start run message_view_def)
  then have "map sd_accepted (sends_of (sample_ids ''message'' 0) sent) = [False, True]"
    by (auto simp: sends_of_def map_eq_Cons_conv)
  moreover have "eh_host sample_engagement = sample_host" "h_ids sample_host = sample_ids"
    by (simp_all add: sample_engagement_def sample_host_def sample_host_at_def)
  ultimately show ?thesis
    using messages_are_sent_once [OF _ _ start run, of "sample_ids ''message'' 0"] start run inj_sample_ids by (cases d) auto
qed

text \<open>
  Not so when two runs of a job overlap: \<open>runJob\<close>, unlike \<open>runDueJobs\<close>, may be entered while
  another run waits for the adapter. Both find the message unsent; it is sent and accepted
  twice, and one attempt is recorded.
\<close>

definition overlapping_runs :: "host \<Rightarrow> string \<Rightarrow> message_job \<Rightarrow> (message_job \<times> message_job) engagement_eff" where
  "overlapping_runs h deliveryId working =
     m_bind (begin_delivery h deliveryId working) (\<lambda>(j1, d1).
     m_bind (begin_delivery h deliveryId working) (\<lambda>(j2, d2).
     m_bind (send_message (\<lambda>_. None) (the d1)) (\<lambda>r1.
     m_bind (send_message (\<lambda>_. None) (the d2)) (\<lambda>r2.
     m_bind (end_delivery h j1 (the d1) r1) (\<lambda>w1.
     m_bind (end_delivery h j2 (the d2) r2) (\<lambda>w2. m_return (w1, w2)))))))"

lemma overlapping_runs_send_twice:
  "(let x = call_all sample_engagement (take 2 message_story) (snd (create_engagement True None), sample_world, []) in
    message_view (snd (overlapping_runs sample_host (sample_ids ''message'' 0)
      (hd (ga_jobs (sv_state (fst x)))) x))) =
     ([(sample_ids ''message'' 0, True), (sample_ids ''message'' 0, True)],
      [(sample_ids ''message'' 0, 1, Message_delivered)])"
  by code_simp

end
