(* ===== verification/Engagement_Reports.thy ===== *)
theory Engagement_Reports
  imports Engagement
begin

text \<open>
  The reports of packages/server/src/engagement.ts: the analytics over members, balances,
  ledger and reservations, and the export of the members. The sums are safe integers.
  \<open>stringify\<close> is \<open>JSON.stringify\<close>; the balances are keyed by the names of the units, which no
  JavaScript engine reorders.
\<close>

section \<open>Sums by key\<close>

text \<open>\<open>const a = map.get(key(x)) ?? zero(x); ...; map.set(key(x), a)\<close> over a list.\<close>

definition tally_one :: "('x \<Rightarrow> 'k) \<Rightarrow> ('x \<Rightarrow> 'v) \<Rightarrow> ('x \<Rightarrow> 'v \<Rightarrow> 'v) \<Rightarrow> 'x \<Rightarrow> ('k, 'v) jsmap \<Rightarrow> ('k, 'v) jsmap" where
  "tally_one key zero add x m =
     js_set m (key x) (add x (case js_get m (key x) of None \<Rightarrow> zero x | Some a \<Rightarrow> a))"

definition tally :: "('x \<Rightarrow> 'k) \<Rightarrow> ('x \<Rightarrow> 'v) \<Rightarrow> ('x \<Rightarrow> 'v \<Rightarrow> 'v) \<Rightarrow> 'x list \<Rightarrow> ('k, 'v) jsmap" where
  "tally key zero add xs = fold (tally_one key zero add) xs []"

section \<open>Analytics\<close>

record unit_total =
  ut_unit :: string
  ut_outstanding :: int
  ut_reserved :: int

record day_activity =
  da_date :: string
  da_unit :: string
  da_earned :: int
  da_redeemed :: int
  da_expired :: int

record status_counts =
  sc_reserved :: int
  sc_captured :: int
  sc_reversed :: int
  sc_expired :: int

record campaign_totals =
  ct_configured :: nat
  ct_runs :: nat
  ct_members_targeted :: nat
  ct_rewards_issued :: nat

record analytics =
  an_generated_at :: string
  an_total :: nat
  an_active :: nat
  an_consented :: nat
  an_balances :: "unit_total list"
  an_ledger_by_day :: "day_activity list"
  an_rewards :: "(string \<times> status_counts) list"
  an_campaigns :: campaign_totals

definition balance_totals :: "balance list \<Rightarrow> (string, unit_total) jsmap" where
  "balance_totals bs =
     tally (\<lambda>b. unit_string (bl_unit b))
       (\<lambda>b. \<lparr>ut_unit = unit_string (bl_unit b), ut_outstanding = 0, ut_reserved = 0\<rparr>)
       (\<lambda>b a. a\<lparr>ut_outstanding := ut_outstanding a + bl_amount b, ut_reserved := ut_reserved a + bl_reserved b\<rparr>) bs"

definition entry_earned :: "ledger_entry \<Rightarrow> int" where
  "entry_earned e =
     (if le_operation e \<in> {Accrual, Manual, Adjustment} \<and> 0 < le_amount e then le_amount e else 0)"

definition entry_redeemed :: "ledger_entry \<Rightarrow> int" where
  "entry_redeemed e = (if le_operation e = Redemption then \<bar>le_amount e\<bar> else 0)"

definition entry_expired :: "ledger_entry \<Rightarrow> int" where
  "entry_expired e = (if le_operation e = Expiration then \<bar>le_amount e\<bar> else 0)"

definition day_key :: "ledger_entry \<Rightarrow> string" where
  "day_key e = take 10 (le_occurred_at e) @ '':'' @ unit_string (le_unit e)"

definition add_to_day :: "ledger_entry \<Rightarrow> day_activity \<Rightarrow> day_activity" where
  "add_to_day e a =
     a\<lparr>da_earned := da_earned a + entry_earned e, da_redeemed := da_redeemed a + entry_redeemed e,
       da_expired := da_expired a + entry_expired e\<rparr>"

definition days_of :: "ledger_entry list \<Rightarrow> (string, day_activity) jsmap" where
  "days_of es =
     tally day_key
       (\<lambda>e. \<lparr>da_date = take 10 (le_occurred_at e), da_unit = unit_string (le_unit e), da_earned = 0, da_redeemed = 0, da_expired = 0\<rparr>)
       add_to_day es"

definition compare_days :: "host \<Rightarrow> day_activity \<Rightarrow> day_activity \<Rightarrow> int" where
  "compare_days h l r =
     (if h_lc h (da_date r) (da_date l) \<noteq> 0 then h_lc h (da_date r) (da_date l) else h_lc h (da_unit l) (da_unit r))"

definition emptyReservationStatusCounts :: status_counts where
  "emptyReservationStatusCounts = \<lparr>sc_reserved = 0, sc_captured = 0, sc_reversed = 0, sc_expired = 0\<rparr>"

fun count_status :: "reservation \<Rightarrow> status_counts \<Rightarrow> status_counts" where
  "count_status r c =
     (case rs_status r of
        Reserved \<Rightarrow> c\<lparr>sc_reserved := sc_reserved c + 1\<rparr>
      | Captured \<Rightarrow> c\<lparr>sc_captured := sc_captured c + 1\<rparr>
      | Reversed \<Rightarrow> c\<lparr>sc_reversed := sc_reversed c + 1\<rparr>
      | Expired \<Rightarrow> c\<lparr>sc_expired := sc_expired c + 1\<rparr>)"

definition countReservationStatuses :: "reservation list \<Rightarrow> status_counts" where
  "countReservationStatuses rs = fold count_status rs emptyReservationStatusCounts"

definition reservations_by_reward :: "reservation list \<Rightarrow> (string, reservation list) jsmap" where
  "reservations_by_reward rs = tally rs_reward_id (\<lambda>_. []) (\<lambda>r g. g @ [r]) rs"

definition reward_counts :: "host \<Rightarrow> reservation list \<Rightarrow> (string \<times> status_counts) list" where
  "reward_counts h rs =
     js_sort (\<lambda>l r. h_lc h (fst l) (fst r))
       (map (\<lambda>(i, group). (i, countReservationStatuses group)) (reservations_by_reward rs))"

definition campaign_totals_of :: "campaign_state \<Rightarrow> campaign_totals" where
  "campaign_totals_of s =
     \<lparr>ct_configured = length (cm_campaigns s), ct_runs = length (cm_runs s),
      ct_members_targeted = sum_list (map (\<lambda>r. length (rn_outcomes r)) (cm_runs s)),
      ct_rewards_issued = sum_list (map rn_issued (cm_runs s))\<rparr>"

definition analytics_of :: "host \<Rightarrow> admin_snapshot \<Rightarrow> campaign_state \<Rightarrow> analytics" where
  "analytics_of h x s =
     \<lparr>an_generated_at = isoNow h,
      an_total = length (sn_members x),
      an_active = length (filter (\<lambda>m. mb_status (xm_member m) = Active) (sn_members x)),
      an_consented = length (filter (\<lambda>m. consents (Some (xm_member m))) (sn_members x)),
      an_balances = js_values (balance_totals (concat (map xm_balances (sn_members x)))),
      an_ledger_by_day = js_sort (compare_days h) (js_values (days_of (sn_ledger x))),
      an_rewards = reward_counts h (sn_reservations x),
      an_campaigns = campaign_totals_of s\<rparr>"

definition engagementAnalytics :: "host \<Rightarrow> analytics campaign_eff" where
  "engagementAnalytics h =
     m_bind (on_engine (inspectAdmin h)) (\<lambda>x.
     m_bind (on_service (sv_get (analytics_of h x))) m_return)"

section \<open>The export of the members\<close>

definition export_attribute :: "string \<Rightarrow> member \<Rightarrow> string" where
  "export_attribute name m =
     (case Option.bind (mb_attributes m) (\<lambda>kvs. map_of kvs name) of Some (JStr t) \<Rightarrow> t | _ \<Rightarrow> [])"

record export_row =
  er_member_id :: string
  er_status :: string
  er_joined_at :: string
  er_tier_id :: string
  er_email :: string
  er_phone :: string
  er_marketing_consent :: bool
  er_balances :: "(string \<times> int) list"

definition export_row_of :: "admin_member \<Rightarrow> export_row" where
  "export_row_of x =
     (let m = xm_member x in
      \<lparr>er_member_id = mb_member_id m, er_status = member_status_string (mb_status m), er_joined_at = mb_joined_at m,
       er_tier_id = (case mb_tier_id m of None \<Rightarrow> [] | Some t \<Rightarrow> t),
       er_email = export_attribute ''email'' m, er_phone = export_attribute ''phone'' m,
       er_marketing_consent = consents (Some m),
       er_balances = fold (\<lambda>b kvs. js_set kvs (unit_string (bl_unit b)) (bl_available b)) (xm_balances x) []\<rparr>)"

definition export_rows :: "bool \<Rightarrow> admin_snapshot \<Rightarrow> export_row list" where
  "export_rows marketingOnly x =
     map export_row_of (filter (\<lambda>m. \<not> marketingOnly \<or> consents (Some (xm_member m))) (sn_members x))"

definition export_cells :: "(json \<Rightarrow> string) \<Rightarrow> export_row \<Rightarrow> string list" where
  "export_cells stringify r =
     [er_member_id r, er_status r, er_joined_at r, er_tier_id r, er_email r, er_phone r,
      (if er_marketing_consent r then ''true'' else ''false''),
      stringify (JObj (map (\<lambda>(u, n). (u, JNum n)) (er_balances r)))]"

text \<open>\<open>Inl\<close> are the rows of the format JSON, \<open>Inr\<close> the text of the format CSV.\<close>

definition memberExport :: "host \<Rightarrow> (json \<Rightarrow> string) \<Rightarrow> bool \<Rightarrow> bool \<Rightarrow> (export_row list + string) engine_eff" where
  "memberExport h stringify marketingOnly csv =
     m_bind (inspectAdmin h) (\<lambda>x.
     m_return (if csv then Inr (export_text (map (export_cells stringify) (export_rows marketingOnly x)))
               else Inl (export_rows marketingOnly x)))"

section \<open>Nothing is lost\<close>

definition with_key :: "('x \<Rightarrow> 'k) \<Rightarrow> 'k \<Rightarrow> 'x list \<Rightarrow> 'x list" where
  "with_key key k xs = filter (\<lambda>x. key x = k) xs"

lemma tally_get:
  "js_get (tally key zero add xs) k =
     (case with_key key k xs of [] \<Rightarrow> None | x # _ \<Rightarrow> Some (fold add (with_key key k xs) (zero x)))"
proof (induction xs rule: rev_induct)
  case (snoc x xs)
  have step: "js_get (tally key zero add (xs @ [x])) k =
      (if key x = k then Some (add x (case js_get (tally key zero add xs) k of None \<Rightarrow> zero x | Some a \<Rightarrow> a))
       else js_get (tally key zero add xs) k)"
    by (simp add: tally_def tally_one_def)
  have "with_key key k (xs @ [x]) = (if key x = k then with_key key k xs @ [x] else with_key key k xs)"
    by (simp add: with_key_def)
  then show ?case unfolding step snoc.IH by (cases "with_key key k xs") simp_all
qed (simp add: tally_def with_key_def)

lemma tally_keys: "keys_ok (tally key zero add xs)"
proof -
  have "keys_ok m \<Longrightarrow> keys_ok (fold (tally_one key zero add) xs m)" for m
    by (induction xs arbitrary: m) (simp_all add: tally_one_def)
  then show ?thesis by (simp add: tally_def)
qed

lemma tally_value:
  assumes "(k, v) \<in> set (tally key zero add xs)"
  obtains x where "x \<in> set xs" "key x = k" "v = fold add (with_key key k xs) (zero x)"
proof -
  have "js_get (tally key zero add xs) k = Some v" using js_get_iff_mem [OF tally_keys, of key zero add xs k v] assms by simp
  then obtain x ys where *: "with_key key k xs = x # ys" "v = fold add (with_key key k xs) (zero x)"
    by (auto simp: tally_get split: list.splits)
  then have "x \<in> set (with_key key k xs)" by simp
  then show thesis using that [of x] * by (auto simp: with_key_def)
qed

lemma fold_sum: "(\<And>x a. g (add x a) = g a + w x) \<Longrightarrow> g (fold add xs a) = g a + (\<Sum>x \<leftarrow> xs. w x :: int)"
  by (induction xs arbitrary: a) simp_all

lemma fold_same: "(\<And>x a. g (add x a) = g a) \<Longrightarrow> g (fold add xs a) = g a"
  by (induction xs arbitrary: a) simp_all

lemma day_key_inject: "day_key e = day_key f \<longleftrightarrow> take 10 (le_occurred_at e) = take 10 (le_occurred_at f) \<and> le_unit e = le_unit f"
proof -
  have "a @ '':'' @ unit_string u = b @ '':'' @ unit_string v \<Longrightarrow> a = b \<and> u = v" for a b u v
    by (cases u; cases v) (auto simp: append_eq_append_conv2 append_eq_Cons_conv Cons_eq_append_conv)
  then show ?thesis by (auto simp: day_key_def)
qed

text \<open>
  What the analytics say of a day and a unit is the sum of its ledger entries, each of them
  counted, and the reservations of a reward by status are all its reservations.
\<close>

lemma day_totals:
  assumes "a \<in> set (js_values (days_of es))"
  defines "day \<equiv> filter (\<lambda>e. take 10 (le_occurred_at e) = da_date a \<and> unit_string (le_unit e) = da_unit a) es"
  shows "day \<noteq> []" "da_earned a = (\<Sum>e \<leftarrow> day. entry_earned e)" "da_redeemed a = (\<Sum>e \<leftarrow> day. entry_redeemed e)"
    "da_expired a = (\<Sum>e \<leftarrow> day. entry_expired e)"
proof -
  let ?zero = "\<lambda>e. \<lparr>da_date = take 10 (le_occurred_at e), da_unit = unit_string (le_unit e), da_earned = 0, da_redeemed = 0, da_expired = 0\<rparr>"
  obtain k where "(k, a) \<in> set (days_of es)" using assms(1) by auto
  then obtain x where x: "x \<in> set es" "day_key x = k" "a = fold add_to_day (with_key day_key k es) (?zero x)"
    unfolding days_of_def by (rule tally_value)
  have "da_date a = take 10 (le_occurred_at x)" "da_unit a = unit_string (le_unit x)"
    unfolding x(3) by (subst fold_same; simp add: add_to_day_def)+
  then have day: "day = with_key day_key k es"
    using x(2) by (auto simp: day_def with_key_def day_key_inject intro!: filter_cong)
  then show "day \<noteq> []" using x(1,2) by (auto simp: with_key_def filter_empty_conv)
  show "da_earned a = (\<Sum>e \<leftarrow> day. entry_earned e)" unfolding x(3) day
    by (subst fold_sum [where g = da_earned and w = entry_earned]) (simp_all add: add_to_day_def)
  show "da_redeemed a = (\<Sum>e \<leftarrow> day. entry_redeemed e)" unfolding x(3) day
    by (subst fold_sum [where g = da_redeemed and w = entry_redeemed]) (simp_all add: add_to_day_def)
  show "da_expired a = (\<Sum>e \<leftarrow> day. entry_expired e)" unfolding x(3) day
    by (subst fold_sum [where g = da_expired and w = entry_expired]) (simp_all add: add_to_day_def)
qed

lemma status_totals:
  "sc_reserved (countReservationStatuses rs) + sc_captured (countReservationStatuses rs) +
     sc_reversed (countReservationStatuses rs) + sc_expired (countReservationStatuses rs) = int (length rs)"
proof -
  have "sc_reserved (fold count_status rs c) + sc_captured (fold count_status rs c) + sc_reversed (fold count_status rs c) +
      sc_expired (fold count_status rs c) = sc_reserved c + sc_captured c + sc_reversed c + sc_expired c + int (length rs)" for c
    by (induction rs arbitrary: c) (simp_all split: reservation_status.split)
  then show ?thesis by (simp add: countReservationStatuses_def emptyReservationStatusCounts_def)
qed

lemma reward_totals:
  assumes "(i, c) \<in> set (reward_counts h rs)"
  shows "c = countReservationStatuses (filter (\<lambda>r. rs_reward_id r = i) rs)"
proof -
  obtain g where g: "(i, g) \<in> set (reservations_by_reward rs)" "c = countReservationStatuses g"
    using assms by (auto simp: reward_counts_def)
  then obtain x where "g = fold (\<lambda>r g. g @ [r]) (with_key rs_reward_id i rs) []"
    unfolding reservations_by_reward_def by (elim tally_value) simp
  moreover have "fold (\<lambda>r g. g @ [r]) xs ys = ys @ xs" for xs ys :: "reservation list"
    by (induction xs arbitrary: ys) simp_all
  ultimately show ?thesis using g(2) by (simp add: with_key_def)
qed

end
