(* ===== verification/Customer_Import.thy ===== *)
theory Customer_Import
  imports Customer_Data
begin

text \<open>
  What the member import (parseCustomerCsv of packages/server/src/customer-data.ts) makes of
  text that is written with the cell writer of the export (csvCell of
  packages/server/src/engagement.ts): the profiles come back when the columns are those of
  the import; the export's own columns are refused.
\<close>

section \<open>Writing profiles\<close>

text \<open>A profile as a row in the columns of the import; what is absent is an empty cell.\<close>

definition cell_of :: "string option \<Rightarrow> string" where
  "cell_of v = (case v of None \<Rightarrow> [] | Some t \<Rightarrow> t)"

definition input_row :: "profile_input \<Rightarrow> string list" where
  "input_row p =
     [pi_member_id p, cell_of (pi_external_id p), cell_of (pi_display_name p), cell_of (pi_email p),
      cell_of (pi_phone p), cell_of (pi_birth_date p),
      (case pi_consent p of None \<Rightarrow> [] | Some c \<Rightarrow> if ci_marketing c then ''true'' else ''false''),
      (case pi_consent p of None \<Rightarrow> [] | Some c \<Rightarrow> cell_of (ci_source c)),
      (case pi_attributes p of None \<Rightarrow> [] | Some kvs \<Rightarrow> json_text (JObj kvs))]"

definition import_text :: "profile_input list \<Rightarrow> string" where
  "import_text ps = join [newline] (join '','' csv_columns # map csv_row (map input_row ps))"

text \<open>A cell the import reads as it is: it trims every cell and takes an empty one for absent.\<close>

definition clean :: "string \<Rightarrow> bool" where
  "clean t \<longleftrightarrow> t \<noteq> [] \<and> trim t = t"

text \<open>
  The profiles a row can hold. \<open>JSON.parse\<close> reads the text of the attributes back; a
  consent has its source, and its instant is left to the import.
\<close>

definition importable :: "(string \<Rightarrow> json option) \<Rightarrow> profile_input \<Rightarrow> bool" where
  "importable parse p \<longleftrightarrow>
     clean (pi_member_id p) \<and>
     (\<forall>t \<in> set_option (pi_external_id p) \<union> set_option (pi_display_name p) \<union> set_option (pi_email p) \<union>
        set_option (pi_phone p) \<union> set_option (pi_birth_date p). clean t) \<and>
     (case pi_attributes p of
        None \<Rightarrow> True
      | Some kvs \<Rightarrow> parse (json_text (JObj kvs)) = Some (JObj kvs) \<and>
          \<not> list_ex (\<lambda>k. k \<in> set [''__proto__'', ''constructor'', ''prototype'']) (map fst kvs)) \<and>
     (case pi_consent p of
        None \<Rightarrow> True
      | Some c \<Rightarrow> (\<exists>t. ci_source c = Some t \<and> clean t) \<and> ci_updated_at c = None)"

text \<open>The apostrophes of the writer, which the import does not take away.\<close>

definition guarded_input :: "profile_input \<Rightarrow> profile_input" where
  "guarded_input p =
     p\<lparr>pi_member_id := guarded (pi_member_id p), pi_external_id := map_option guarded (pi_external_id p),
       pi_display_name := map_option guarded (pi_display_name p), pi_email := map_option guarded (pi_email p),
       pi_phone := map_option guarded (pi_phone p), pi_birth_date := map_option guarded (pi_birth_date p),
       pi_consent := map_option (\<lambda>c. c\<lparr>ci_source := map_option guarded (ci_source c)\<rparr>) (pi_consent p)\<rparr>"

section \<open>Cells\<close>

lemma trim_braces: "trim (CHR ''{'' # t @ ''}'') = CHR ''{'' # t @ ''}''"
  by (simp add: trim_def js_space_def)

lemma trim_guarded:
  assumes "trim t = t"
  shows "trim (guarded t) = guarded t"
proof (cases "formula_start t")
  case True
  then obtain c u where t: "t = c # u" "c \<in> set ''=+-@''" by (cases t) (auto simp: formula_start_def)
  then have c: "\<not> js_space c" by (auto simp: js_space_def)
  then have "dropWhile js_space (rev t) = rev t"
    using assms t(1) by (simp add: trim_def rev_swap)
  then have "dropWhile js_space (rev t @ [CHR 0x27]) = rev t @ [CHR 0x27]"
    using c t(1) by (metis dropWhile_append1 in_set_conv_decomp set_rev list.set_intros(1))
  with True show ?thesis by (simp add: guarded_def trim_def js_space_def)
qed (use assms in \<open>simp add: guarded_def\<close>)

lemma guarded_text [simp]:
  "guarded [] = []" "guarded t = [] \<longleftrightarrow> t = []" "guarded ''true'' = ''true''" "guarded ''false'' = ''false''"
  "guarded (CHR ''{'' # t) = CHR ''{'' # t"
  by (auto simp: guarded_def formula_start_def)

lemma clean_empty [simp]: "\<not> clean []"
  by (simp add: clean_def)

lemma clean_guarded: "clean t \<Longrightarrow> guarded t \<noteq> [] \<and> trim (guarded t) = guarded t"
  by (simp add: clean_def trim_guarded)

lemma trim_cell: "(\<And>t. v = Some t \<Longrightarrow> clean t) \<Longrightarrow> trim (guarded (cell_of v)) = guarded (cell_of v)"
  using trim_guarded [of "cell_of v"] by (cases v) (simp_all add: cell_of_def clean_def, simp add: trim_def)

lemma read_cell:
  "\<forall>t \<in> set_option v. clean t \<Longrightarrow>
     (if guarded (cell_of v) = [] then None else Some (guarded (cell_of v))) = map_option guarded v"
  by (cases v) (simp_all add: cell_of_def clean_def)

section \<open>Rows\<close>

lemma trim_marketing: "trim [] = []" "trim ''true'' = ''true''" "trim ''false'' = ''false''"
  by code_simp+

lemma lower_marketing: "to_lower [] = []" "to_lower ''true'' = ''true''" "to_lower ''false'' = ''false''"
  by code_simp+

definition attributes_cell :: "(string \<times> json) list option \<Rightarrow> string" where
  "attributes_cell v = (case v of None \<Rightarrow> [] | Some kvs \<Rightarrow> json_text (JObj kvs))"

lemma attributes_cell [simp]:
  "guarded (attributes_cell v) = attributes_cell v" "trim (attributes_cell v) = attributes_cell v"
  "attributes_cell v \<noteq> [] \<Longrightarrow> last (attributes_cell v) = CHR ''}''"
  using trim_braces by (cases v; simp add: attributes_cell_def trim_marketing)+

lemma read_attributes:
  assumes "importable parse p"
  shows "attributes_of parse (attributes_cell (pi_attributes p)) = Inr (pi_attributes p)"
  using assms by (cases "pi_attributes p") (simp_all add: importable_def attributes_cell_def attributes_of_def)

definition marketing_cell :: "consent_input option \<Rightarrow> string" where
  "marketing_cell v = (case v of None \<Rightarrow> [] | Some c \<Rightarrow> if ci_marketing c then ''true'' else ''false'')"

definition source_of :: "consent_input option \<Rightarrow> string option" where
  "source_of v = (case v of None \<Rightarrow> None | Some c \<Rightarrow> ci_source c)"

lemma input_row_cells:
  "input_row p =
     [pi_member_id p, cell_of (pi_external_id p), cell_of (pi_display_name p), cell_of (pi_email p),
      cell_of (pi_phone p), cell_of (pi_birth_date p), marketing_cell (pi_consent p), cell_of (source_of (pi_consent p)),
      attributes_cell (pi_attributes p)]"
  by (simp add: input_row_def marketing_cell_def source_of_def attributes_cell_def cell_of_def split: option.split)

lemma marketing_cell [simp]:
  "guarded (marketing_cell v) = marketing_cell v" "trim (marketing_cell v) = marketing_cell v"
  "to_lower (marketing_cell v) = marketing_cell v"
  "marketing_cell v = [] \<longleftrightarrow> v = None"
  "marketing_cell v \<noteq> [] \<Longrightarrow> marketing_cell v \<in> {''true'', ''false''}"
  by (cases v; simp add: marketing_cell_def trim_marketing lower_marketing)+

lemma importable_cells:
  assumes "importable parse p"
  shows "trim (guarded (pi_member_id p)) = guarded (pi_member_id p)" "pi_member_id p \<noteq> []"
    "trim (guarded (cell_of (pi_external_id p))) = guarded (cell_of (pi_external_id p))"
    "trim (guarded (cell_of (pi_display_name p))) = guarded (cell_of (pi_display_name p))"
    "trim (guarded (cell_of (pi_email p))) = guarded (cell_of (pi_email p))"
    "trim (guarded (cell_of (pi_phone p))) = guarded (cell_of (pi_phone p))"
    "trim (guarded (cell_of (pi_birth_date p))) = guarded (cell_of (pi_birth_date p))"
    "trim (guarded (cell_of (source_of (pi_consent p)))) = guarded (cell_of (source_of (pi_consent p)))"
  using assms
  by (auto simp: importable_def clean_guarded source_of_def intro!: trim_cell split: option.splits)

text \<open>A row is read as the profile it holds.\<close>

lemma read_row:
  assumes "importable parse p"
  shows "csv_input parse csv_columns (map guarded (input_row p)) = Inr (guarded_input p)"
proof -
  note cells = importable_cells [OF assms]
  have clean: "\<forall>t \<in> set_option (pi_external_id p). clean t" "\<forall>t \<in> set_option (pi_display_name p). clean t"
    "\<forall>t \<in> set_option (pi_email p). clean t" "\<forall>t \<in> set_option (pi_phone p). clean t"
    "\<forall>t \<in> set_option (pi_birth_date p). clean t"
    using assms by (simp_all add: importable_def)
  note optional = read_cell [OF clean(1)] read_cell [OF clean(2)] read_cell [OF clean(3)] read_cell [OF clean(4)] read_cell [OF clean(5)]
  have marketing: "(marketing_cell (pi_consent p) \<noteq> [] \<and>
      marketing_cell (pi_consent p) \<notin> set [''true'', ''false'', ''yes'', ''no'', ''1'', ''0'']) = False"
    using marketing_cell(5) [of "pi_consent p"] by auto
  have consent: "(if marketing_cell (pi_consent p) = [] then None
      else Some \<lparr>ci_marketing = (marketing_cell (pi_consent p) \<in> set [''true'', ''yes'', ''1'']),
        ci_source = Some (case map_option guarded (source_of (pi_consent p)) of None \<Rightarrow> ''csv-import'' | Some t \<Rightarrow> t),
        ci_updated_at = None\<rparr>) = map_option (\<lambda>c. c\<lparr>ci_source := map_option guarded (ci_source c)\<rparr>) (pi_consent p)"
  proof (cases "pi_consent p")
    case (Some c)
    then show ?thesis using assms
      by (cases c) (auto simp: importable_def marketing_cell_def source_of_def)
  qed (simp add: marketing_cell_def)
  have source: "\<forall>t \<in> set_option (source_of (pi_consent p)). clean t"
    using assms by (auto simp: importable_def source_of_def split: option.splits)
  let ?row = "map guarded (input_row p)"
  have trimmed: "map trim ?row = ?row"
    by (simp add: input_row_cells cells)
  have columns: "map_of (zip csv_columns ?row) ''member_id'' = Some (guarded (pi_member_id p))"
    "map_of (zip csv_columns ?row) ''external_id'' = Some (guarded (cell_of (pi_external_id p)))"
    "map_of (zip csv_columns ?row) ''display_name'' = Some (guarded (cell_of (pi_display_name p)))"
    "map_of (zip csv_columns ?row) ''email'' = Some (guarded (cell_of (pi_email p)))"
    "map_of (zip csv_columns ?row) ''phone'' = Some (guarded (cell_of (pi_phone p)))"
    "map_of (zip csv_columns ?row) ''birth_date'' = Some (guarded (cell_of (pi_birth_date p)))"
    "map_of (zip csv_columns ?row) ''marketing_consent'' = Some (marketing_cell (pi_consent p))"
    "map_of (zip csv_columns ?row) ''consent_source'' = Some (guarded (cell_of (source_of (pi_consent p))))"
    "map_of (zip csv_columns ?row) ''attributes_json'' = Some (attributes_cell (pi_attributes p))"
    by (simp_all add: csv_columns_def input_row_cells)
  have checks: "(length ?row \<noteq> length csv_columns) = False" "(guarded (pi_member_id p) = []) = False"
    using cells(2) by (simp_all add: csv_columns_def input_row_cells)
  show ?thesis
    unfolding csv_input_def Let_def trimmed columns option.case optional read_cell [OF source] marketing_cell(3) consent
      checks marketing if_False read_attributes [OF assms] sum.case
    by (cases p) (simp add: guarded_input_def)
qed

text \<open>A table in the columns of the import, and the export.\<close>

lemma scan_header:
  "csv_scan False [] [] rows (join '','' csv_columns @ newline # cs) = csv_scan False [] [] (rows @ [csv_columns]) cs"
  by (simp add: csv_columns_def strip_cr_def)

lemma all_read: "all_or_error (map Inr xs) = Inr xs"
  by (induction xs) simp_all

lemma last_cell: "strip_cr (guarded (last (input_row p))) = guarded (last (input_row p))"
  by (cases "attributes_cell (pi_attributes p) = []") (simp_all add: input_row_cells strip_cr_def)

lemma rows_read:
  assumes "ps \<noteq> []" "\<And>p. p \<in> set ps \<Longrightarrow> importable parse p"
  shows "csvRows (import_text ps) = Inr (csv_columns # map (\<lambda>p. map guarded (input_row p)) ps)"
proof -
  have rows: "r \<noteq> [] \<and> \<not> blank_row (map guarded r) \<and> strip_cr (guarded (last r)) = guarded (last r)" if r: "r \<in> set (map input_row ps)" for r
  proof -
    obtain p where p: "p \<in> set ps" "r = input_row p" using r by auto
    have "\<not> blank_row (map guarded r)"
      using importable_cells(1,2) [OF assms(2) [OF p(1)]] by (simp add: p(2) input_row_cells blank_row_def)
    then show ?thesis using last_cell by (simp add: p(2) input_row_cells)
  qed
  have "import_text ps = join '','' csv_columns @ newline # csv_text (map input_row ps)"
    using assms(1) by (cases ps) (simp_all add: import_text_def csv_text_def)
  then have header: "csv_scan False [] [] [] (import_text ps) = csv_scan False [] [] [csv_columns] (csv_text (map input_row ps))"
    by (simp only: scan_header append_Nil)
  have "list_all (\<lambda>r. \<not> blank_row r) [csv_columns]" by code_simp
  from read_rows [OF _ rows header this] show ?thesis using assms(1) by (simp add: o_def)
qed

text \<open>Whatever rows an export has, its first row is the export's header.\<close>

lemma scan_keeps_rows:
  "csv_scan quoted field row rows cs = (quoted', field', row', rows') \<Longrightarrow> \<exists>new. rows' = rows @ new"
  by (induction quoted field row rows cs rule: csv_scan.induct) (auto split: if_splits list.splits)

lemma export_header:
  assumes "csvRows (export_text rs) = Inr table"
  shows "\<exists>rest. table = export_columns # rest"
proof (cases "rs = []")
  case True
  have "csvRows (export_text []) = Inr [export_columns]" by code_simp
  with True assms show ?thesis by auto
next
  case False
  then have "export_text rs = join '','' export_columns @ newline # csv_text rs"
    by (cases rs) (simp_all add: export_text_def csv_text_def)
  then have "csv_scan False [] [] [] (export_text rs) = csv_scan False [] [] [export_columns] (csv_text rs)"
    by (simp only: scan_columns append_Nil)
  moreover obtain quoted field row rows where scan: "csv_scan False [] [] [export_columns] (csv_text rs) = (quoted, field, row, rows)"
    by (cases "csv_scan False [] [] [export_columns] (csv_text rs)") simp
  moreover have "\<not> blank_row export_columns" by code_simp
  ultimately show ?thesis using assms scan_keeps_rows [OF scan] by (auto simp: csvRows_def split: if_splits)
qed

lemma csvRows_error: "csvRows t = Inl e \<Longrightarrow> e = EngineError Validation_failed 422"
  by (auto simp: csvRows_def split: prod.splits if_splits)

lemma export_refused: "parseCustomerCsv parse (export_text rs) = invalid"
proof (cases "csvRows (export_text rs)")
  case (Inl e)
  then show ?thesis using csvRows_error [OF Inl] by (simp add: parseCustomerCsv_def invalid_def)
next
  case (Inr table)
  obtain rest where "table = export_columns # rest" using export_header [OF Inr] by blast
  moreover have "\<not> set (map (\<lambda>t. to_lower (trim t)) export_columns) \<subseteq> set csv_columns" by code_simp
  ultimately show ?thesis using Inr by (simp add: parseCustomerCsv_def Let_def invalid_def)
qed

lemma headers_read:
  "map (\<lambda>t. to_lower (trim t)) csv_columns = csv_columns" "distinct csv_columns" "''member_id'' \<in> set csv_columns"
  by code_simp+

text \<open>
  C35. The member import reads profiles back from their text: for up to 1000 profiles and 1 MiB
  of text in the columns of the import, with the cells written by the cell writer of the
  export, parseCustomerCsv answers exactly those profiles, whatever quotes, commas and line
  breaks their values hold, where absent fields stay absent; the only change is the
  apostrophe that the writer puts in front of a value a spreadsheet would take for a formula, which
  the import keeps. The text of the member export itself, whatever its rows, is refused: four of its
  columns are not columns of the import.
\<close>

theorem csv_round_trip:
  assumes "ps \<noteq> []" "length ps \<le> 1000" "byte_length (import_text ps) \<le> 1048576"
    and "\<And>p. p \<in> set ps \<Longrightarrow> importable parse p"
  shows "parseCustomerCsv parse (import_text ps) = Inr (map guarded_input ps) \<and>
    parseCustomerCsv parse (export_text rs) = invalid"
proof -
  have "map (csv_input parse csv_columns) (map (\<lambda>p. map guarded (input_row p)) ps) = map Inr (map guarded_input ps)"
    using assms(4) by (simp add: read_row)
  then have "all_or_error (map (csv_input parse csv_columns) (map (\<lambda>p. map guarded (input_row p)) ps)) = Inr (map guarded_input ps)"
    by (simp only: all_read)
  then have "parseCustomerCsv parse (import_text ps) = Inr (map guarded_input ps)"
    using assms(1-3) rows_read [OF assms(1,4)] by (simp add: parseCustomerCsv_def Let_def headers_read)
  then show ?thesis using export_refused by simp
qed

section \<open>Example\<close>

definition sample_attributes :: "(string \<times> json) list" where
  "sample_attributes = [(''vip'', JBool True), (''size'', JNum 42)]"

definition sample_parse :: "string \<Rightarrow> json option" where
  "sample_parse t = (if t = json_text (JObj sample_attributes) then Some (JObj sample_attributes) else None)"

definition blank_profile :: "string \<Rightarrow> profile_input" where
  "blank_profile m =
     \<lparr>pi_member_id = m, pi_external_id = None, pi_display_name = None, pi_email = None, pi_phone = None, pi_birth_date = None,
      pi_attributes = None, pi_consent = None\<rparr>"

text \<open>A builder with quotes and a line break in his name and an international number.\<close>

definition sample_profile :: "string \<Rightarrow> profile_input" where
  "sample_profile phone =
     (blank_profile ''m-1'')\<lparr>pi_display_name := Some (''Bob, '' @ [dquote] @ ''the'' @ [dquote, newline] @ ''builder''),
       pi_phone := Some phone, pi_attributes := Some sample_attributes,
       pi_consent := Some \<lparr>ci_marketing = True, ci_source = Some ''shop'', ci_updated_at = None\<rparr>\<rparr>"

theorem csv_round_trip_witness:
  "parseCustomerCsv sample_parse (import_text [sample_profile ''+31201234567'', blank_profile ''m-2'']) =
     Inr [sample_profile (CHR 0x27 # ''+31201234567''), blank_profile ''m-2''] \<and>
   parseCustomerCsv sample_parse (export_text [[''m-1'', ''active'']]) = invalid"
proof -
  let ?ps = "[sample_profile ''+31201234567'', blank_profile ''m-2'']"
  have short: "byte_length (import_text ?ps) \<le> 1048576"
  proof -
    have "byte_length (import_text ?ps) = 233" by code_simp
    then show ?thesis by simp
  qed
  have trims: "trim ''m-1'' = ''m-1''" "trim ''m-2'' = ''m-2''" "trim ''+31201234567'' = ''+31201234567''" "trim ''shop'' = ''shop''"
    "trim (''Bob, '' @ [dquote] @ ''the'' @ [dquote, newline] @ ''builder'') = ''Bob, '' @ [dquote] @ ''the'' @ [dquote, newline] @ ''builder''"
    by code_simp+
  have ok: "importable sample_parse p" if "p \<in> set ?ps" for p
    using that trims by (auto simp: importable_def clean_def sample_profile_def blank_profile_def sample_parse_def sample_attributes_def)
  have "map guarded_input ?ps = [sample_profile (CHR 0x27 # ''+31201234567''), blank_profile ''m-2'']"
    by (simp add: guarded_input_def sample_profile_def blank_profile_def guarded_def formula_start_def)
  then show ?thesis using csv_round_trip [OF _ _ short ok] by simp
qed

end
