(* ===== verification/Cloud_Repository.thy ===== *)
theory Cloud_Repository
  imports Server_Store
begin

text \<open>
  apps/cloud/src/types.ts and memory-repository.ts: the records of the cloud control plane
  and its reference repository, which keeps them in maps. A stored object that is mutated is
  updated under its key. \<open>Date.now()\<close> of the repository and the clock of the services are one
  clock. Names that come from request bodies (roles, kinds, metrics) are strings.
\<close>

section \<open>Records\<close>

datatype environment_status = Env_pending | Env_provisioning | Env_ready | Env_failed | Env_suspended

datatype subscription_status = Sub_trialing | Sub_active | Sub_past_due | Sub_cancelled

datatype billing_provider = Manual_billing | Stripe_billing

datatype provisioning_status = Prov_pending | Prov_running | Prov_succeeded | Prov_failed

record organization =
  og_organization_id :: string
  og_slug :: string
  og_name :: string
  og_created_at :: string
  og_updated_at :: string

record org_membership =
  om_organization_id :: string
  om_issuer :: string
  om_subject :: string
  om_email :: "string option"
  om_role :: string
  om_active :: bool
  om_created_at :: string
  om_updated_at :: string

record invitation =
  oi_invitation_id :: string
  oi_organization_id :: string
  oi_email :: string
  oi_role :: string
  oi_invited_by :: string
  oi_expires_at :: string
  oi_accepted_at :: "string option"
  oi_created_at :: string

record project =
  pj_project_id :: string
  pj_organization_id :: string
  pj_slug :: string
  pj_name :: string
  pj_created_at :: string
  pj_updated_at :: string

record environment =
  en_environment_id :: string
  en_project_id :: string
  en_slug :: string
  en_name :: string
  en_kind :: string
  en_region :: string
  en_tenant_id :: string
  en_program_id :: string
  en_status :: environment_status
  en_status_message :: "string option"
  en_api_url :: "string option"
  en_admin_url :: "string option"
  en_api_key_fingerprint :: "string option"
  en_created_at :: string
  en_updated_at :: string

record cloud_plan =
  cp_plan_id :: string
  cp_name :: string
  cp_active :: bool
  cp_monthly_price_minor :: int
  cp_currency :: string
  cp_included_usage :: "string \<Rightarrow> int"
  cp_hard_limits :: "string \<Rightarrow> int"

record org_subscription =
  os_subscription_id :: string
  os_organization_id :: string
  os_plan_id :: string
  os_status :: subscription_status
  os_billing_provider :: billing_provider
  os_provider_customer_id :: "string option"
  os_provider_subscription_id :: "string option"
  os_current_period_start :: string
  os_current_period_end :: string
  os_created_at :: string
  os_updated_at :: string

record usage_event =
  uv_usage_event_id :: string
  uv_environment_id :: string
  uv_metric :: string
  uv_quantity :: int
  uv_idempotency_key :: string
  uv_occurred_at :: string
  uv_metadata :: "json option"

record cloud_audit =
  ca_audit_id :: string
  ca_organization_id :: string
  ca_actor_subject :: string
  ca_action :: string
  ca_resource_type :: string
  ca_resource_id :: string
  ca_metadata :: "json option"
  ca_occurred_at :: string

record provisioning_job =
  jb_provisioning_job_id :: string
  jb_environment_id :: string
  jb_status :: provisioning_status
  jb_attempts :: int
  jb_available_at :: string
  jb_claimed_by :: "string option"
  jb_claimed_until :: "string option"
  jb_last_error :: "string option"
  jb_created_at :: string
  jb_updated_at :: string

datatype operator_role = Platform_admin | Org_scoped

record cloud_operator =
  op_operator_id :: string
  op_subject :: string
  op_email :: "string option"
  op_role :: operator_role
  op_organization_ids :: "string list option"
  op_active :: bool
  op_created_at :: string
  op_updated_at :: string

record operator_key =
  ok_key_id :: string
  ok_operator_id :: string
  ok_name :: string
  ok_prefix :: string
  ok_active :: bool
  ok_created_at :: string
  ok_expires_at :: "string option"
  ok_last_used_at :: "string option"
  ok_revoked_at :: "string option"
  ok_secret_hash :: string

record operator_audit =
  of_audit_id :: string
  of_actor :: string
  of_action :: string
  of_resource_type :: string
  of_resource_id :: string
  of_metadata :: "json option"
  of_occurred_at :: string

text \<open>\<open>operator\<close> of a principal: the id, the role and the organizations.\<close>

record operator_claim =
  oc_operator_id :: string
  oc_role :: operator_role
  oc_organization_ids :: "string list option"

record cloud_principal =
  cq_issuer :: string
  cq_subject :: string
  cq_email :: "string option"
  cq_operator :: "operator_claim option"
  cq_on_behalf_of :: "string option"
  cq_bootstrap_admin :: bool

section \<open>The repository\<close>

datatype cloud_error =
  Cloud_error nat string
| Repository_conflict
| Last_platform_admin
| Plain_error

record cloud =
  cl_organizations :: "(string, organization) jsmap"
  cl_memberships :: "(string, org_membership) jsmap"
  cl_invitations :: "(string, invitation) jsmap"
  cl_projects :: "(string, project) jsmap"
  cl_environments :: "(string, environment) jsmap"
  cl_subscriptions :: "(string, org_subscription) jsmap"
  cl_provisioning_jobs :: "(string, provisioning_job) jsmap"
  cl_plan_records :: "(string, cloud_plan) jsmap"
  cl_usage_events :: "string list"
  cl_usage_counters :: "(string, int) jsmap"
  cl_audit :: "cloud_audit list"
  cl_operators :: "(string, cloud_operator) jsmap"
  cl_operator_keys :: "(string, operator_key) jsmap"
  cl_operator_audit :: "operator_audit list"
  cl_draws :: nat

type_synonym 'a cloud_eff = "(cloud, cloud_error, 'a) eff"

text \<open>
  The host: clock, identifiers and date parser, the random tokens by the number of draws, and
  SHA-256 in hex.
\<close>

record cloud_host =
  ch_host :: host
  ch_token :: "nat \<Rightarrow> string"
  ch_sha256 :: "string \<Rightarrow> string"

abbreviation cloud_now :: "cloud_host \<Rightarrow> string" where
  "cloud_now h \<equiv> isoNow (ch_host h)"

definition usage_metrics :: "string list" where
  "usage_metrics = [''monthly_active_members'', ''loyalty_transactions'', ''messages'']"

definition usage_of :: "int \<Rightarrow> int \<Rightarrow> int \<Rightarrow> string \<Rightarrow> int" where
  "usage_of members transactions messages metric =
     (if metric = ''monthly_active_members'' then members
      else if metric = ''loyalty_transactions'' then transactions else messages)"

definition default_plans :: "cloud_plan list" where
  "default_plans =
     [\<lparr>cp_plan_id = ''free'', cp_name = ''Free'', cp_active = True, cp_monthly_price_minor = 0, cp_currency = ''USD'',
       cp_included_usage = usage_of 100 1000 100, cp_hard_limits = usage_of 100 1000 100\<rparr>,
      \<lparr>cp_plan_id = ''pro'', cp_name = ''Pro'', cp_active = True, cp_monthly_price_minor = 9900, cp_currency = ''USD'',
       cp_included_usage = usage_of 5000 50000 10000, cp_hard_limits = usage_of 10000 100000 25000\<rparr>]"

definition new_repository :: cloud where
  "new_repository =
     \<lparr>cl_organizations = [], cl_memberships = [], cl_invitations = [], cl_projects = [], cl_environments = [],
      cl_subscriptions = [], cl_provisioning_jobs = [], cl_plan_records = map (\<lambda>p. (cp_plan_id p, p)) default_plans,
      cl_usage_events = [], cl_usage_counters = [], cl_audit = [], cl_operators = [], cl_operator_keys = [],
      cl_operator_audit = [], cl_draws = 0\<rparr>"

definition membershipKey :: "string \<Rightarrow> string \<Rightarrow> string \<Rightarrow> string" where
  "membershipKey organizationId issuer subject = organizationId @ '':'' @ issuer @ '':'' @ subject"

definition counterKey :: "string \<Rightarrow> string \<Rightarrow> string \<Rightarrow> string \<Rightarrow> string" where
  "counterKey environmentId metric start until =
     environmentId @ '':'' @ metric @ '':'' @ start @ '':'' @ until"

definition add_audit :: "cloud_audit \<Rightarrow> cloud \<Rightarrow> cloud" where
  "add_audit a s = s\<lparr>cl_audit := a # cl_audit s\<rparr>"

subsection \<open>Organizations and members\<close>

definition organizationBySlug :: "string \<Rightarrow> cloud \<Rightarrow> organization option" where
  "organizationBySlug slug s = List.find (\<lambda>x. og_slug x = slug) (js_values (cl_organizations s))"

definition membership_of :: "string \<Rightarrow> string \<Rightarrow> string \<Rightarrow> cloud \<Rightarrow> org_membership option" where
  "membership_of organizationId issuer subject s = js_get (cl_memberships s) (membershipKey organizationId issuer subject)"

definition put_organization :: "organization \<Rightarrow> org_membership \<Rightarrow> org_subscription \<Rightarrow> cloud \<Rightarrow> cloud" where
  "put_organization x owner sub s =
     s\<lparr>cl_organizations := js_set (cl_organizations s) (og_organization_id x) x,
       cl_memberships := js_set (cl_memberships s)
         (membershipKey (om_organization_id owner) (om_issuer owner) (om_subject owner)) owner,
       cl_subscriptions := js_set (cl_subscriptions s) (os_organization_id sub) sub\<rparr>"

definition repo_createOrganization ::
  "organization \<Rightarrow> org_membership \<Rightarrow> org_subscription \<Rightarrow> cloud_audit \<Rightarrow> unit cloud_eff" where
  "repo_createOrganization x owner sub a =
     m_bind (m_get (\<lambda>s. organizationBySlug (og_slug x) s = None \<and> \<not> js_has (cl_organizations s) (og_organization_id x))) (\<lambda>free.
     m_bind (m_assert free Repository_conflict) (\<lambda>_.
     m_modify (\<lambda>s. add_audit a (put_organization x owner sub s))))"

definition organizationsForPrincipal :: "string \<Rightarrow> string \<Rightarrow> cloud \<Rightarrow> organization list" where
  "organizationsForPrincipal issuer subject s =
     (let ids = map om_organization_id
        (filter (\<lambda>m. om_issuer m = issuer \<and> om_subject m = subject \<and> om_active m) (js_values (cl_memberships s))) in
      filter (\<lambda>x. og_organization_id x \<in> set ids) (js_values (cl_organizations s)))"

definition membershipsForOrganization :: "string \<Rightarrow> cloud \<Rightarrow> org_membership list" where
  "membershipsForOrganization i s = filter (\<lambda>m. om_organization_id m = i) (js_values (cl_memberships s))"

definition with_member_state :: "string option \<Rightarrow> bool option \<Rightarrow> string \<Rightarrow> org_membership \<Rightarrow> org_membership" where
  "with_member_state role active at m =
     m\<lparr>om_role := (if truthy role then the role else om_role m),
       om_active := (case active of None \<Rightarrow> om_active m | Some b \<Rightarrow> b), om_updated_at := at\<rparr>"

definition updateMembership ::
  "string \<Rightarrow> string \<Rightarrow> string \<Rightarrow> string option \<Rightarrow> bool option \<Rightarrow> string \<Rightarrow> cloud_audit \<Rightarrow> org_membership option cloud_eff" where
  "updateMembership organizationId issuer subject role active at a =
     m_bind (m_get (membership_of organizationId issuer subject)) (\<lambda>found.
     case found of
       None \<Rightarrow> m_return None
     | Some m \<Rightarrow>
         m_bind (m_modify (\<lambda>s. add_audit a (s\<lparr>cl_memberships :=
           js_update (cl_memberships s) (membershipKey organizationId issuer subject) (with_member_state role active at)\<rparr>))) (\<lambda>_.
         m_return (Some (with_member_state role active at m))))"

subsection \<open>Invitations\<close>

definition open_invitation :: "string \<Rightarrow> string \<Rightarrow> invitation \<Rightarrow> bool" where
  "open_invitation organizationId email i =
     (oi_organization_id i = organizationId \<and> oi_email i = email \<and> \<not> truthy (oi_accepted_at i))"

definition createInvitation :: "invitation \<Rightarrow> string \<Rightarrow> cloud_audit \<Rightarrow> unit cloud_eff" where
  "createInvitation i tokenHash a =
     m_bind (m_get (\<lambda>s. list_ex (open_invitation (oi_organization_id i) (oi_email i)) (js_values (cl_invitations s)))) (\<lambda>duplicate.
     m_bind (m_assert (\<not> duplicate) Repository_conflict) (\<lambda>_.
     m_modify (\<lambda>s. add_audit a (s\<lparr>cl_invitations := js_set (cl_invitations s) tokenHash i\<rparr>))))"

datatype acceptance = Accepted org_membership | Invitation_not_found | Invitation_expired | Email_mismatch | Already_accepted

definition accepted_membership :: "invitation \<Rightarrow> cloud_principal \<Rightarrow> string \<Rightarrow> org_membership" where
  "accepted_membership i p at =
     \<lparr>om_organization_id = oi_organization_id i, om_issuer = cq_issuer p, om_subject = cq_subject p,
      om_email = Some (oi_email i), om_role = oi_role i, om_active = True, om_created_at = at, om_updated_at = at\<rparr>"

definition acceptance_audit :: "org_membership \<Rightarrow> cloud_principal \<Rightarrow> string \<Rightarrow> string \<Rightarrow> cloud_audit" where
  "acceptance_audit m p at auditId =
     \<lparr>ca_audit_id = auditId, ca_organization_id = om_organization_id m, ca_actor_subject = cq_subject p,
      ca_action = ''cloud.organization.invitation.accepted'', ca_resource_type = ''organization_membership'',
      ca_resource_id = cq_subject p,
      ca_metadata = Some (jobj [(''issuer'', jstr (cq_issuer p)), (''email'', map_option JStr (om_email m))]),
      ca_occurred_at = at\<rparr>"

definition accept_stored :: "cloud_host \<Rightarrow> string \<Rightarrow> invitation \<Rightarrow> cloud_principal \<Rightarrow> string \<Rightarrow> string \<Rightarrow> acceptance cloud_eff" where
  "accept_stored h tokenHash i p at auditId =
     (let m = accepted_membership i p at in
      m_bind (m_modify (\<lambda>s. add_audit (acceptance_audit m p at auditId)
        (s\<lparr>cl_memberships := js_set (cl_memberships s)
             (membershipKey (om_organization_id m) (om_issuer m) (om_subject m)) m,
           cl_invitations := js_update (cl_invitations s) tokenHash (\<lambda>x. x\<lparr>oi_accepted_at := Some at\<rparr>)\<rparr>))) (\<lambda>_.
      m_return (Accepted m)))"

text \<open>\<open>Date.parse(a) <= Date.parse(b)\<close>, false when either is not a date.\<close>

definition not_after :: "cloud_host \<Rightarrow> string \<Rightarrow> string \<Rightarrow> bool" where
  "not_after h a b =
     (case (h_parse (ch_host h) a, h_parse (ch_host h) b) of (Some x, Some y) \<Rightarrow> x \<le> y | _ \<Rightarrow> False)"

definition repo_acceptInvitation :: "cloud_host \<Rightarrow> string \<Rightarrow> cloud_principal \<Rightarrow> string \<Rightarrow> string \<Rightarrow> acceptance cloud_eff" where
  "repo_acceptInvitation h tokenHash p at auditId =
     m_bind (m_get (\<lambda>s. js_get (cl_invitations s) tokenHash)) (\<lambda>found.
     case found of
       None \<Rightarrow> m_return Invitation_not_found
     | Some i \<Rightarrow>
         if truthy (oi_accepted_at i) then m_return Already_accepted
         else if not_after h (oi_expires_at i) at then m_return Invitation_expired
         else if Some (oi_email i) \<noteq> map_option to_lower (cq_email p) then m_return Email_mismatch
         else accept_stored h tokenHash i p at auditId)"

subsection \<open>Projects and environments\<close>

definition projectBySlug :: "string \<Rightarrow> string \<Rightarrow> cloud \<Rightarrow> project option" where
  "projectBySlug organizationId slug s =
     List.find (\<lambda>x. pj_organization_id x = organizationId \<and> pj_slug x = slug) (js_values (cl_projects s))"

definition projectsForOrganization :: "string \<Rightarrow> cloud \<Rightarrow> project list" where
  "projectsForOrganization i s = filter (\<lambda>x. pj_organization_id x = i) (js_values (cl_projects s))"

definition repo_createProject :: "project \<Rightarrow> cloud_audit \<Rightarrow> unit cloud_eff" where
  "repo_createProject x a =
     m_bind (m_get (\<lambda>s. \<not> js_has (cl_projects s) (pj_project_id x) \<and> projectBySlug (pj_organization_id x) (pj_slug x) s = None)) (\<lambda>free.
     m_bind (m_assert free Repository_conflict) (\<lambda>_.
     m_modify (\<lambda>s. add_audit a (s\<lparr>cl_projects := js_set (cl_projects s) (pj_project_id x) x\<rparr>))))"

definition environmentBySlug :: "string \<Rightarrow> string \<Rightarrow> cloud \<Rightarrow> environment option" where
  "environmentBySlug projectId slug s =
     List.find (\<lambda>x. en_project_id x = projectId \<and> en_slug x = slug) (js_values (cl_environments s))"

definition environmentsForProject :: "string \<Rightarrow> cloud \<Rightarrow> environment list" where
  "environmentsForProject i s = filter (\<lambda>x. en_project_id x = i) (js_values (cl_environments s))"

definition readyEnvironments :: "cloud \<Rightarrow> environment list" where
  "readyEnvironments s = filter (\<lambda>x. en_status x = Env_ready) (js_values (cl_environments s))"

definition create_job :: "environment \<Rightarrow> provisioning_job" where
  "create_job x =
     \<lparr>jb_provisioning_job_id = ''provision_'' @ en_environment_id x, jb_environment_id = en_environment_id x,
      jb_status = Prov_pending, jb_attempts = 0, jb_available_at = en_created_at x, jb_claimed_by = None,
      jb_claimed_until = None, jb_last_error = None, jb_created_at = en_created_at x, jb_updated_at = en_updated_at x\<rparr>"

definition repo_createEnvironment :: "environment \<Rightarrow> cloud_audit \<Rightarrow> unit cloud_eff" where
  "repo_createEnvironment x a =
     m_bind (m_get (\<lambda>s. \<not> js_has (cl_environments s) (en_environment_id x) \<and>
       environmentBySlug (en_project_id x) (en_slug x) s = None)) (\<lambda>free.
     m_bind (m_assert free Repository_conflict) (\<lambda>_.
     m_modify (\<lambda>s. add_audit a
       (s\<lparr>cl_environments := js_set (cl_environments s) (en_environment_id x) x,
          cl_provisioning_jobs := js_set (cl_provisioning_jobs s) (jb_provisioning_job_id (create_job x)) (create_job x)\<rparr>))))"

record environment_binding =
  eb_api_url :: string
  eb_admin_url :: "string option"
  eb_api_key_fingerprint :: "string option"
  eb_status :: environment_status
  eb_status_message :: "string option"

definition bound_environment :: "cloud_host \<Rightarrow> environment_binding \<Rightarrow> environment \<Rightarrow> environment" where
  "bound_environment h b x =
     x\<lparr>en_status := eb_status b, en_api_url := Some (eb_api_url b), en_updated_at := cloud_now h,
       en_admin_url := present (eb_admin_url b), en_api_key_fingerprint := present (eb_api_key_fingerprint b),
       en_status_message := present (eb_status_message b)\<rparr>"

definition change_environment :: "string \<Rightarrow> (environment \<Rightarrow> environment) \<Rightarrow> environment cloud_eff" where
  "change_environment i f =
     m_bind (m_get (\<lambda>s. js_get (cl_environments s) i)) (\<lambda>found.
     case found of
       None \<Rightarrow> m_throw Plain_error
     | Some x \<Rightarrow>
         m_bind (m_modify (\<lambda>s. s\<lparr>cl_environments := js_set (cl_environments s) i (f x)\<rparr>)) (\<lambda>_. m_return (f x)))"

definition repo_attachEnvironment :: "cloud_host \<Rightarrow> string \<Rightarrow> environment_binding \<Rightarrow> environment cloud_eff" where
  "repo_attachEnvironment h i b = change_environment i (bound_environment h b)"

definition status_environment ::
  "cloud_host \<Rightarrow> environment_status \<Rightarrow> string option \<Rightarrow> string option \<Rightarrow> string option \<Rightarrow> environment \<Rightarrow> environment" where
  "status_environment h st message apiUrl adminUrl x =
     x\<lparr>en_status := st, en_updated_at := cloud_now h,
       en_api_url := (if truthy apiUrl then apiUrl else en_api_url x),
       en_admin_url := (if truthy adminUrl then adminUrl else en_admin_url x),
       en_status_message := present message\<rparr>"

definition updateEnvironmentStatus ::
  "cloud_host \<Rightarrow> string \<Rightarrow> environment_status \<Rightarrow> string option \<Rightarrow> string option \<Rightarrow> string option \<Rightarrow> environment cloud_eff" where
  "updateEnvironmentStatus h i st message apiUrl adminUrl =
     change_environment i (status_environment h st message apiUrl adminUrl)"

subsection \<open>Plans, subscriptions, audit\<close>

definition planById :: "string \<Rightarrow> cloud \<Rightarrow> cloud_plan option" where
  "planById i s = js_get (cl_plan_records s) i"

definition subscriptionForOrganization :: "string \<Rightarrow> cloud \<Rightarrow> org_subscription option" where
  "subscriptionForOrganization i s = js_get (cl_subscriptions s) i"

definition replaceSubscription :: "org_subscription \<Rightarrow> cloud_audit \<Rightarrow> unit cloud_eff" where
  "replaceSubscription sub a =
     m_bind (m_get (\<lambda>s. js_has (cl_organizations s) (os_organization_id sub))) (\<lambda>known.
     m_bind (m_assert known Plain_error) (\<lambda>_.
     m_modify (\<lambda>s. add_audit a (s\<lparr>cl_subscriptions := js_set (cl_subscriptions s) (os_organization_id sub) sub\<rparr>))))"

definition cloud_recordAudit :: "cloud_audit \<Rightarrow> unit cloud_eff" where
  "cloud_recordAudit a = m_modify (add_audit a)"

definition auditForOrganization :: "string \<Rightarrow> cloud \<Rightarrow> cloud_audit list" where
  "auditForOrganization i s = filter (\<lambda>a. ca_organization_id a = i) (cl_audit s)"

subsection \<open>Operators\<close>

definition operatorBySubject :: "string \<Rightarrow> cloud \<Rightarrow> cloud_operator option" where
  "operatorBySubject subject s = List.find (\<lambda>x. op_subject x = subject) (js_values (cl_operators s))"

definition repo_createOperator :: "cloud_operator \<Rightarrow> operator_key \<Rightarrow> bool \<Rightarrow> operator_audit \<Rightarrow> unit cloud_eff" where
  "repo_createOperator x k bootstrap a =
     m_bind (m_get (\<lambda>s. \<not> (bootstrap \<and> cl_operators s \<noteq> []) \<and> operatorBySubject (op_subject x) s = None \<and>
       \<not> js_has (cl_operators s) (op_operator_id x))) (\<lambda>free.
     m_bind (m_assert free Repository_conflict) (\<lambda>_.
     m_modify (\<lambda>s. s\<lparr>cl_operators := js_set (cl_operators s) (op_operator_id x) x,
       cl_operator_keys := js_set (cl_operator_keys s) (ok_key_id k) k, cl_operator_audit := a # cl_operator_audit s\<rparr>)))"

definition active_admin :: "cloud_operator \<Rightarrow> bool" where
  "active_admin x = (op_active x \<and> op_role x = Platform_admin)"

definition active_admins :: "cloud \<Rightarrow> nat" where
  "active_admins s = length (filter active_admin (js_values (cl_operators s)))"

definition repo_updateOperator :: "string \<Rightarrow> bool option \<Rightarrow> string \<Rightarrow> bool \<Rightarrow> operator_audit \<Rightarrow> cloud_operator option cloud_eff" where
  "repo_updateOperator i active at guard a =
     m_bind (m_get (\<lambda>s. js_get (cl_operators s) i)) (\<lambda>found.
     case found of
       None \<Rightarrow> m_return None
     | Some x \<Rightarrow>
         m_bind (m_get active_admins) (\<lambda>n.
         m_bind (m_assert (\<not> (guard \<and> active = Some False \<and> n \<le> 1 \<and> active_admin x)) Last_platform_admin) (\<lambda>_.
         let y = x\<lparr>op_active := (case active of None \<Rightarrow> op_active x | Some b \<Rightarrow> b), op_updated_at := at\<rparr> in
         m_bind (m_modify (\<lambda>s. s\<lparr>cl_operators := js_set (cl_operators s) i y, cl_operator_audit := a # cl_operator_audit s\<rparr>)) (\<lambda>_.
         m_return (Some y)))))"

definition operatorApiKeys :: "string \<Rightarrow> cloud \<Rightarrow> operator_key list" where
  "operatorApiKeys i s = filter (\<lambda>k. ok_operator_id k = i) (js_values (cl_operator_keys s))"

definition createOperatorApiKey :: "operator_key \<Rightarrow> operator_audit \<Rightarrow> unit cloud_eff" where
  "createOperatorApiKey k a =
     m_modify (\<lambda>s. s\<lparr>cl_operator_keys := js_set (cl_operator_keys s) (ok_key_id k) k, cl_operator_audit := a # cl_operator_audit s\<rparr>)"

text \<open>\<open>unshift(...audits.reverse())\<close>: the last of them comes first.\<close>

definition rotateOperatorApiKey :: "operator_key \<Rightarrow> string \<Rightarrow> string \<Rightarrow> operator_audit list \<Rightarrow> unit cloud_eff" where
  "rotateOperatorApiKey replacement replacedKeyId replacedExpiresAt audits =
     m_bind (m_get (\<lambda>s. js_get (cl_operator_keys s) replacedKeyId)) (\<lambda>found.
     case found of
       None \<Rightarrow> m_throw Plain_error
     | Some k \<Rightarrow>
         m_modify (\<lambda>s. s\<lparr>cl_operator_keys :=
             js_set (js_set (cl_operator_keys s) replacedKeyId (k\<lparr>ok_expires_at := Some replacedExpiresAt\<rparr>))
               (ok_key_id replacement) replacement,
           cl_operator_audit := rev audits @ cl_operator_audit s\<rparr>))"

definition revoked_operator_key :: "string \<Rightarrow> operator_key \<Rightarrow> operator_key" where
  "revoked_operator_key at k = k\<lparr>ok_active := False, ok_revoked_at := Some at\<rparr>"

definition revokeOperatorApiKey :: "string \<Rightarrow> string \<Rightarrow> operator_audit \<Rightarrow> operator_key option cloud_eff" where
  "revokeOperatorApiKey i at a =
     m_bind (m_get (\<lambda>s. js_get (cl_operator_keys s) i)) (\<lambda>found.
     case found of
       None \<Rightarrow> m_return None
     | Some k \<Rightarrow>
         m_bind (m_modify (\<lambda>s. s\<lparr>cl_operator_keys := js_set (cl_operator_keys s) i (revoked_operator_key at k),
           cl_operator_audit := a # cl_operator_audit s\<rparr>)) (\<lambda>_.
         m_return (Some (revoked_operator_key at k))))"

definition operatorByApiKeyHash :: "string \<Rightarrow> cloud \<Rightarrow> (cloud_operator \<times> operator_key) option" where
  "operatorByApiKeyHash secretHash s =
     (case List.find (\<lambda>k. ok_secret_hash k = secretHash) (js_values (cl_operator_keys s)) of
        None \<Rightarrow> None
      | Some k \<Rightarrow>
          if \<not> ok_active k \<or> truthy (ok_revoked_at k) then None
          else (case js_get (cl_operators s) (ok_operator_id k) of
                  None \<Rightarrow> None
                | Some x \<Rightarrow> if op_active x then Some (x, k) else None))"

definition markOperatorApiKeyUsed :: "string \<Rightarrow> string \<Rightarrow> unit cloud_eff" where
  "markOperatorApiKeyUsed i at =
     m_modify (\<lambda>s. case js_get (cl_operator_keys s) i of
        None \<Rightarrow> s
      | Some k \<Rightarrow> s\<lparr>cl_operator_keys := js_set (cl_operator_keys s) i (k\<lparr>ok_last_used_at := Some at\<rparr>)\<rparr>)"

subsection \<open>Usage\<close>

datatype usage_outcome = Recorded | Duplicate | Limit_exceeded

definition eventKey :: "usage_event \<Rightarrow> string" where
  "eventKey e = uv_environment_id e @ '':'' @ uv_metric e @ '':'' @ uv_idempotency_key e"

definition counted :: "string \<Rightarrow> cloud \<Rightarrow> int" where
  "counted key s = (case js_get (cl_usage_counters s) key of None \<Rightarrow> 0 | Some n \<Rightarrow> n)"

definition repo_recordUsage :: "usage_event \<Rightarrow> string \<Rightarrow> string \<Rightarrow> int \<Rightarrow> usage_outcome cloud_eff" where
  "repo_recordUsage e start until hardLimit =
     (let key = counterKey (uv_environment_id e) (uv_metric e) start until in
      m_bind (m_get (\<lambda>s. eventKey e \<in> set (cl_usage_events s))) (\<lambda>known.
      if known then m_return Duplicate
      else
        m_bind (m_get (counted key)) (\<lambda>quantity.
        if quantity + uv_quantity e > hardLimit then m_return Limit_exceeded
        else
          m_bind (m_modify (\<lambda>s. s\<lparr>cl_usage_events := cl_usage_events s @ [eventKey e],
            cl_usage_counters := js_set (cl_usage_counters s) key (quantity + uv_quantity e)\<rparr>)) (\<lambda>_.
          m_return Recorded))))"

definition usageForEnvironment :: "string \<Rightarrow> string \<Rightarrow> string \<Rightarrow> cloud \<Rightarrow> (string \<times> int) list" where
  "usageForEnvironment environmentId start until s =
     concat (map (\<lambda>metric. case js_get (cl_usage_counters s) (counterKey environmentId metric start until) of
         None \<Rightarrow> [] | Some n \<Rightarrow> [(metric, n)]) usage_metrics)"

subsection \<open>Provisioning\<close>

definition lease_over :: "cloud_host \<Rightarrow> provisioning_job \<Rightarrow> bool" where
  "lease_over h j =
     (truthy (jb_claimed_until j) \<and>
      (case h_parse (ch_host h) (the (jb_claimed_until j)) of None \<Rightarrow> False | Some t \<Rightarrow> t < h_now (ch_host h)))"

definition claimable :: "cloud_host \<Rightarrow> provisioning_job \<Rightarrow> bool" where
  "claimable h j = (jb_status j = Prov_pending \<or> jb_status j = Prov_running \<and> lease_over h j)"

definition claimed_job :: "cloud_host \<Rightarrow> string \<Rightarrow> int \<Rightarrow> provisioning_job \<Rightarrow> provisioning_job" where
  "claimed_job h workerId leaseSeconds j =
     j\<lparr>jb_status := Prov_running, jb_attempts := jb_attempts j + 1, jb_claimed_by := Some workerId,
       jb_claimed_until := Some (to_iso (h_now (ch_host h) + leaseSeconds * 1000)), jb_updated_at := cloud_now h\<rparr>"

definition set_job :: "provisioning_job \<Rightarrow> cloud \<Rightarrow> cloud" where
  "set_job j s = s\<lparr>cl_provisioning_jobs := js_update (cl_provisioning_jobs s) (jb_provisioning_job_id j) (\<lambda>_. j)\<rparr>"

definition mark_environment :: "string \<Rightarrow> (environment \<Rightarrow> environment) \<Rightarrow> cloud \<Rightarrow> cloud" where
  "mark_environment i f s = s\<lparr>cl_environments := js_update (cl_environments s) i f\<rparr>"

definition claimProvisioningJob :: "cloud_host \<Rightarrow> string \<Rightarrow> int \<Rightarrow> provisioning_job option cloud_eff" where
  "claimProvisioningJob h workerId leaseSeconds =
     m_bind (m_assert (trim workerId \<noteq> [] \<and> 5 \<le> leaseSeconds) Plain_error) (\<lambda>_.
     m_bind (m_get (\<lambda>s. List.find (claimable h) (js_values (cl_provisioning_jobs s)))) (\<lambda>found.
     case found of
       None \<Rightarrow> m_return None
     | Some j0 \<Rightarrow>
         (let j = claimed_job h workerId leaseSeconds j0 in
          m_bind (m_modify (\<lambda>s. mark_environment (jb_environment_id j)
            (\<lambda>x. x\<lparr>en_status := Env_provisioning, en_updated_at := cloud_now h, en_status_message := None\<rparr>) (set_job j s))) (\<lambda>_.
          m_return (Some j)))))"

definition running_job :: "string \<Rightarrow> provisioning_job cloud_eff" where
  "running_job i =
     m_bind (m_get (\<lambda>s. js_get (cl_provisioning_jobs s) i)) (\<lambda>found.
     case found of
       None \<Rightarrow> m_throw Plain_error
     | Some j \<Rightarrow> m_bind (m_assert (jb_status j = Prov_running) Plain_error) (\<lambda>_. m_return j))"

definition completeProvisioningJob :: "cloud_host \<Rightarrow> string \<Rightarrow> string \<Rightarrow> string option \<Rightarrow> unit cloud_eff" where
  "completeProvisioningJob h jobId apiUrl adminUrl =
     m_bind (running_job jobId) (\<lambda>j.
     m_bind (m_modify (set_job (j\<lparr>jb_status := Prov_succeeded, jb_updated_at := cloud_now h, jb_claimed_by := None,
       jb_claimed_until := None, jb_last_error := None\<rparr>))) (\<lambda>_.
     m_bind (m_get (\<lambda>s. js_has (cl_environments s) (jb_environment_id j))) (\<lambda>known.
     m_bind (m_assert known Plain_error) (\<lambda>_.
     m_modify (mark_environment (jb_environment_id j)
       (\<lambda>x. x\<lparr>en_status := Env_ready, en_api_url := Some apiUrl,
              en_admin_url := (if truthy adminUrl then adminUrl else en_admin_url x),
              en_updated_at := cloud_now h, en_status_message := None\<rparr>))))))"

definition failProvisioningJob :: "cloud_host \<Rightarrow> string \<Rightarrow> string \<Rightarrow> string option \<Rightarrow> unit cloud_eff" where
  "failProvisioningJob h jobId message retryAt =
     m_bind (running_job jobId) (\<lambda>j.
     let exhausted = (5 \<le> jb_attempts j \<or> \<not> truthy retryAt) in
     m_modify (\<lambda>s. mark_environment (jb_environment_id j)
       (\<lambda>x. x\<lparr>en_status := (if exhausted then Env_failed else Env_pending), en_status_message := Some message,
              en_updated_at := cloud_now h\<rparr>)
       (set_job (j\<lparr>jb_status := (if exhausted then Prov_failed else Prov_pending), jb_last_error := Some message,
          jb_updated_at := cloud_now h, jb_available_at := (if truthy retryAt then the retryAt else jb_available_at j),
          jb_claimed_by := None, jb_claimed_until := None\<rparr>) s)))"

end
