(* ===== verification/Cloud_Service.thy ===== *)
theory Cloud_Service
  imports Cloud_Repository Access_Control
begin

text \<open>
  apps/cloud/src/service.ts: the control plane over its repository. Every method runs alone;
  the repository repeats the checks that another method could invalidate in between. The
  billing provider, the validation of a remote endpoint, the data-plane operator and the URL
  parser are parameters: what they answer is an argument of the method that asks.
\<close>

section \<open>Helpers\<close>

definition ce_throw :: "nat \<Rightarrow> string \<Rightarrow> 'a cloud_eff" where
  "ce_throw status code = m_throw (Cloud_error status code)"

definition ce_check :: "bool \<Rightarrow> nat \<Rightarrow> string \<Rightarrow> unit cloud_eff" where
  "ce_check ok status code = m_assert ok (Cloud_error status code)"

definition required_value :: "(cloud \<Rightarrow> 'a option) \<Rightarrow> nat \<Rightarrow> string \<Rightarrow> 'a cloud_eff" where
  "required_value f status code =
     m_bind (m_get f) (\<lambda>found. case found of None \<Rightarrow> ce_throw status code | Some x \<Rightarrow> m_return x)"

text \<open>\<open>catch (error) { if (error instanceof CloudRepositoryConflictError) throw new CloudError(409, code) }\<close>\<close>

definition on_conflict :: "string \<Rightarrow> 'a cloud_eff \<Rightarrow> 'a cloud_eff" where
  "on_conflict code m s =
     (case m s of (Inl e, t) \<Rightarrow> (Inl (if e = Repository_conflict then Cloud_error 409 code else e), t) | (Inr v, t) \<Rightarrow> (Inr v, t))"

definition cloud_identifier :: "cloud_host \<Rightarrow> string \<Rightarrow> string cloud_eff" where
  "cloud_identifier h prefix s = (Inr (h_ids (ch_host h) prefix (cl_draws s)), s\<lparr>cl_draws := cl_draws s + 1\<rparr>)"

definition random_token :: "cloud_host \<Rightarrow> string cloud_eff" where
  "random_token h s = (Inr (ch_token h (cl_draws s)), s\<lparr>cl_draws := cl_draws s + 1\<rparr>)"

definition lower_or_digit :: "char \<Rightarrow> bool" where
  "lower_or_digit c = (let n = (of_char c :: int) in (97 \<le> n \<and> n \<le> 122) \<or> (48 \<le> n \<and> n \<le> 57))"

definition alphanumeric :: "char \<Rightarrow> bool" where
  "alphanumeric c = (lower_or_digit c \<or> (let n = (of_char c :: int) in 65 \<le> n \<and> n \<le> 90))"

definition slug_ok :: "string \<Rightarrow> bool" where
  "slug_ok t =
     (3 \<le> length t \<and> length t \<le> 63 \<and> lower_or_digit (hd t) \<and> lower_or_digit (last t) \<and>
      list_all (\<lambda>c. lower_or_digit c \<or> c = CHR ''-'') t)"

definition assertSlug :: "string \<Rightarrow> string cloud_eff" where
  "assertSlug value =
     (let slug = to_lower (trim value) in
      m_bind (ce_check (slug_ok slug) 422 ''validation_failed'') (\<lambda>_. m_return slug))"

definition assertName :: "string \<Rightarrow> string cloud_eff" where
  "assertName value =
     (let name = trim value in
      m_bind (ce_check (2 \<le> length name \<and> length name \<le> 120) 422 ''validation_failed'') (\<lambda>_. m_return name))"

definition program_id_ok :: "string \<Rightarrow> bool" where
  "program_id_ok t =
     (2 \<le> length t \<and> length t \<le> 128 \<and> alphanumeric (hd t) \<and>
      list_all (\<lambda>c. alphanumeric c \<or> c \<in> set ''._-'') (tl t))"

text \<open>\<open>/^[^@\s]+@[^@\s]+\.[^@\s]+$/\<close>\<close>

definition email_ok :: "string \<Rightarrow> bool" where
  "email_ok t =
     (case split_on CHR ''@'' t of
        [user_part, domain] \<Rightarrow>
          user_part \<noteq> [] \<and> list_all (\<lambda>c. \<not> js_space c) t \<and>
          list_ex (\<lambda>i. domain ! i = CHR ''.'') [1..<length domain - 1]
      | _ \<Rightarrow> False)"

definition monthPeriod :: "int \<Rightarrow> string \<times> string" where
  "monthPeriod t =
     (case civil_from_days (t div ms_per_day) of
        (y, m, d) \<Rightarrow>
          (to_iso (days_from_civil y m 1 * ms_per_day),
           to_iso ((if m = 12 then days_from_civil (y + 1) 1 1 else days_from_civil y (m + 1) 1) * ms_per_day)))"

definition defaultSubscriptionPeriod :: "int \<Rightarrow> string \<times> string" where
  "defaultSubscriptionPeriod t = (to_iso t, to_iso (t + 30 * ms_per_day))"

definition managementRoles :: "string list" where
  "managementRoles = [''owner'', ''admin'']"

definition billingRoles :: "string list" where
  "billingRoles = [''owner'', ''admin'', ''billing'']"

definition invitable_roles :: "string list" where
  "invitable_roles = [''admin'', ''developer'', ''billing'', ''viewer'']"

definition cloud_audit_of ::
  "cloud_host \<Rightarrow> string \<Rightarrow> cloud_principal \<Rightarrow> string \<Rightarrow> string \<Rightarrow> string \<Rightarrow> string \<Rightarrow> (string \<times> json) list \<Rightarrow> cloud_audit cloud_eff" where
  "cloud_audit_of h organizationId p action resourceType resourceId at metadata =
     (let annotations =
        (case cq_operator p of None \<Rightarrow> [] | Some x \<Rightarrow> [(''operator_id'', JStr (oc_operator_id x))]) @
        (if truthy (cq_on_behalf_of p) then [(''on_behalf_of'', JStr (the (cq_on_behalf_of p)))] else []) in
      m_bind (cloud_identifier h ''audit'') (\<lambda>i.
      m_return
        \<lparr>ca_audit_id = i, ca_organization_id = organizationId, ca_actor_subject = cq_subject p, ca_action = action,
         ca_resource_type = resourceType, ca_resource_id = resourceId,
         ca_metadata = (if metadata @ annotations = [] then None else Some (JObj (metadata @ annotations))),
         ca_occurred_at = at\<rparr>))"

section \<open>Who may act\<close>

definition cloud_assertPrincipal :: "cloud_principal \<Rightarrow> unit cloud_eff" where
  "cloud_assertPrincipal p =
     ce_check (trim (cq_issuer p) \<noteq> [] \<and> length (cq_issuer p) \<le> 500 \<and> trim (cq_subject p) \<noteq> [] \<and> length (cq_subject p) \<le> 200)
       401 ''unauthorized''"

definition virtualMembership :: "cloud_host \<Rightarrow> cloud_principal \<Rightarrow> string \<Rightarrow> string \<Rightarrow> org_membership" where
  "virtualMembership h p organizationId role =
     \<lparr>om_organization_id = organizationId, om_issuer = cq_issuer p, om_subject = cq_subject p, om_email = present (cq_email p),
      om_role = role, om_active = True, om_created_at = cloud_now h, om_updated_at = cloud_now h\<rparr>"

definition is_platform_admin :: "cloud_principal \<Rightarrow> bool" where
  "is_platform_admin p = (map_option oc_role (cq_operator p) = Some Platform_admin)"

definition scope_ids :: "operator_claim \<Rightarrow> string list" where
  "scope_ids x = (case oc_organization_ids x of None \<Rightarrow> [] | Some ids \<Rightarrow> ids)"

definition in_scope :: "cloud_principal \<Rightarrow> string \<Rightarrow> bool" where
  "in_scope p organizationId =
     (case cq_operator p of None \<Rightarrow> False | Some x \<Rightarrow> oc_role x = Org_scoped \<and> organizationId \<in> set (scope_ids x))"

definition acting_membership :: "cloud_host \<Rightarrow> cloud_principal \<Rightarrow> string \<Rightarrow> org_membership option \<Rightarrow> org_membership option" where
  "acting_membership h p organizationId stored =
     (if is_platform_admin p then Some (virtualMembership h p organizationId ''owner'')
      else
        case stored of
          Some m \<Rightarrow>
            if om_active m then Some (if in_scope p organizationId \<and> om_role m \<noteq> ''owner'' then m\<lparr>om_role := ''admin''\<rparr> else m)
            else if in_scope p organizationId then Some (virtualMembership h p organizationId ''admin'') else None
        | None \<Rightarrow> if in_scope p organizationId then Some (virtualMembership h p organizationId ''admin'') else None)"

definition requiredMembership :: "cloud_host \<Rightarrow> cloud_principal \<Rightarrow> string \<Rightarrow> org_membership cloud_eff" where
  "requiredMembership h p organizationId =
     m_bind (cloud_assertPrincipal p) (\<lambda>_.
     required_value (\<lambda>s. acting_membership h p organizationId (membership_of organizationId (cq_issuer p) (cq_subject p) s))
       404 ''not_found'')"

definition requireRole :: "cloud_host \<Rightarrow> cloud_principal \<Rightarrow> string \<Rightarrow> string list \<Rightarrow> org_membership cloud_eff" where
  "requireRole h p organizationId roles =
     m_bind (requiredMembership h p organizationId) (\<lambda>m.
     m_bind (ce_check (om_role m \<in> set roles) 403 ''forbidden'') (\<lambda>_. m_return m))"

definition requiredOrganization :: "string \<Rightarrow> organization cloud_eff" where
  "requiredOrganization i = required_value (\<lambda>s. js_get (cl_organizations s) i) 404 ''not_found''"

definition requiredProject :: "string \<Rightarrow> project cloud_eff" where
  "requiredProject i = required_value (\<lambda>s. js_get (cl_projects s) i) 404 ''not_found''"

definition requiredEnvironment :: "string \<Rightarrow> environment cloud_eff" where
  "requiredEnvironment i = required_value (\<lambda>s. js_get (cl_environments s) i) 404 ''not_found''"

definition requiredPlan :: "string \<Rightarrow> cloud_plan cloud_eff" where
  "requiredPlan i =
     required_value (\<lambda>s. case planById i s of None \<Rightarrow> None | Some p \<Rightarrow> if cp_active p then Some p else None) 409 ''plan_unavailable''"

section \<open>Organizations\<close>

record cloud_dashboard =
  db_organization :: organization
  db_membership :: org_membership
  db_subscription :: org_subscription
  db_plan :: cloud_plan
  db_projects :: "project list"

definition owner_of :: "cloud_principal \<Rightarrow> string \<Rightarrow> string \<Rightarrow> org_membership" where
  "owner_of p organizationId at =
     \<lparr>om_organization_id = organizationId, om_issuer = cq_issuer p, om_subject = cq_subject p,
      om_email = (if truthy (cq_email p) then Some (to_lower (trim (the (cq_email p)))) else None),
      om_role = ''owner'', om_active = True, om_created_at = at, om_updated_at = at\<rparr>"

definition first_subscription :: "cloud_host \<Rightarrow> string \<Rightarrow> string \<Rightarrow> cloud_plan \<Rightarrow> org_subscription" where
  "first_subscription h i organizationId p =
     \<lparr>os_subscription_id = i, os_organization_id = organizationId, os_plan_id = cp_plan_id p, os_status = Sub_active,
      os_billing_provider = Manual_billing, os_provider_customer_id = None, os_provider_subscription_id = None,
      os_current_period_start = fst (defaultSubscriptionPeriod (h_now (ch_host h))),
      os_current_period_end = snd (defaultSubscriptionPeriod (h_now (ch_host h))),
      os_created_at = cloud_now h, os_updated_at = cloud_now h\<rparr>"

definition createOrganization :: "cloud_host \<Rightarrow> string \<Rightarrow> cloud_principal \<Rightarrow> string \<Rightarrow> string \<Rightarrow> cloud_dashboard cloud_eff" where
  "createOrganization h defaultPlanId p name slugText =
     m_bind (cloud_assertPrincipal p) (\<lambda>_.
     m_bind (assertSlug slugText) (\<lambda>slug.
     m_bind (m_get (organizationBySlug slug)) (\<lambda>existing.
     m_bind (ce_check (existing = None) 409 ''slug_conflict'') (\<lambda>_.
     m_bind (requiredPlan defaultPlanId) (\<lambda>plan.
     m_bind (cloud_identifier h ''org'') (\<lambda>i.
     m_bind (assertName name) (\<lambda>n.
     let org = \<lparr>og_organization_id = i, og_slug = slug, og_name = n, og_created_at = cloud_now h, og_updated_at = cloud_now h\<rparr> in
     m_bind (cloud_identifier h ''sub'') (\<lambda>subId.
     let sub = first_subscription h subId i plan in
     m_bind (cloud_audit_of h i p ''cloud.organization.created'' ''organization'' i (cloud_now h) []) (\<lambda>a.
     m_bind (on_conflict ''resource_conflict'' (repo_createOrganization org (owner_of p i (cloud_now h)) sub a)) (\<lambda>_.
     m_return \<lparr>db_organization = org, db_membership = owner_of p i (cloud_now h), db_subscription = sub, db_plan = plan, db_projects = []\<rparr>))))))))))"

definition scoped_organizations :: "string list \<Rightarrow> organization list \<Rightarrow> cloud \<Rightarrow> organization list" where
  "scoped_organizations ids xs s =
     js_values (fold (\<lambda>i m. if js_has m i then m
         else case js_get (cl_organizations s) i of None \<Rightarrow> m | Some x \<Rightarrow> js_set m i x) ids
       (fold (\<lambda>x m. js_set m (og_organization_id x) x) xs []))"

definition organizations :: "cloud_principal \<Rightarrow> organization list cloud_eff" where
  "organizations p =
     m_bind (cloud_assertPrincipal p) (\<lambda>_.
     if is_platform_admin p then m_get (\<lambda>s. js_values (cl_organizations s))
     else
       m_bind (m_get (organizationsForPrincipal (cq_issuer p) (cq_subject p))) (\<lambda>own.
       case cq_operator p of
         Some x \<Rightarrow> if oc_role x = Org_scoped then m_get (scoped_organizations (scope_ids x) own) else m_return own
       | None \<Rightarrow> m_return own))"

definition org_members :: "cloud_host \<Rightarrow> cloud_principal \<Rightarrow> string \<Rightarrow> org_membership list cloud_eff" where
  "org_members h p organizationId =
     m_bind (requiredMembership h p organizationId) (\<lambda>_. m_get (membershipsForOrganization organizationId))"

record member_change =
  mc_issuer :: string
  mc_subject :: string
  mc_role :: "string option"
  mc_active :: "bool option"

definition updateMember :: "cloud_host \<Rightarrow> cloud_principal \<Rightarrow> string \<Rightarrow> member_change \<Rightarrow> org_membership cloud_eff" where
  "updateMember h p organizationId c =
     m_bind (requireRole h p organizationId managementRoles) (\<lambda>_.
     m_bind (ce_check (trim (mc_issuer c) \<noteq> [] \<and> trim (mc_subject c) \<noteq> []) 422 ''validation_failed'') (\<lambda>_.
     m_bind (ce_check (truthy (mc_role c) \<longrightarrow> the (mc_role c) \<in> set invitable_roles) 422 ''validation_failed'') (\<lambda>_.
     m_bind (ce_check (\<not> (mc_role c = None \<and> mc_active c = None)) 422 ''validation_failed'') (\<lambda>_.
     m_bind (required_value (membership_of organizationId (mc_issuer c) (mc_subject c)) 404 ''not_found'') (\<lambda>target.
     m_bind (ce_check (om_role target \<noteq> ''owner'') 409 ''owner_protected'') (\<lambda>_.
     m_bind (cloud_audit_of h organizationId p ''cloud.organization.membership.updated'' ''organization_membership''
       (mc_subject c) (cloud_now h)
       ([(''issuer'', JStr (mc_issuer c))] @
        (if truthy (mc_role c) then [(''role'', JStr (the (mc_role c)))] else []) @
        (case mc_active c of None \<Rightarrow> [] | Some b \<Rightarrow> [(''active'', JBool b)]))) (\<lambda>a.
     m_bind (updateMembership organizationId (mc_issuer c) (mc_subject c) (present (mc_role c)) (mc_active c) (cloud_now h) a) (\<lambda>updated.
     case updated of None \<Rightarrow> ce_throw 404 ''not_found'' | Some m \<Rightarrow> m_return m))))))))"

definition invitation_expiry :: "cloud_host \<Rightarrow> string option \<Rightarrow> int option" where
  "invitation_expiry h e =
     (let now = h_now (ch_host h);
          t = (if truthy e then h_parse (ch_host h) (the e) else Some (now + 7 * ms_per_day)) in
      case t of None \<Rightarrow> None | Some x \<Rightarrow> if x \<le> now \<or> x > now + 30 * ms_per_day then None else Some x)"

definition inviteMember ::
  "cloud_host \<Rightarrow> cloud_principal \<Rightarrow> string \<Rightarrow> string \<Rightarrow> string \<Rightarrow> string option \<Rightarrow> (invitation \<times> string) cloud_eff" where
  "inviteMember h p organizationId emailText role expires =
     m_bind (requireRole h p organizationId managementRoles) (\<lambda>_.
     let email = to_lower (trim emailText) in
     m_bind (ce_check (email_ok email) 422 ''validation_failed'') (\<lambda>_.
     m_bind (ce_check (role \<in> set invitable_roles) 422 ''validation_failed'') (\<lambda>_.
     m_bind (ce_check (invitation_expiry h expires \<noteq> None) 422 ''validation_failed'') (\<lambda>_.
     m_bind (random_token h) (\<lambda>token.
     m_bind (cloud_identifier h ''invite'') (\<lambda>i.
     let secret = ''lip_inv_'' @ token;
         inv = \<lparr>oi_invitation_id = i, oi_organization_id = organizationId, oi_email = email, oi_role = role,
                oi_invited_by = cq_subject p, oi_expires_at = to_iso (the (invitation_expiry h expires)),
                oi_accepted_at = None, oi_created_at = cloud_now h\<rparr> in
     m_bind (cloud_audit_of h organizationId p ''cloud.organization.invitation.created'' ''organization_invitation'' i (cloud_now h)
       [(''email'', JStr email), (''role'', JStr role)]) (\<lambda>a.
     m_bind (on_conflict ''invitation_conflict'' (createInvitation inv (ch_sha256 h secret) a)) (\<lambda>_.
     m_return (inv, secret)))))))))"

definition acceptInvitation :: "cloud_host \<Rightarrow> cloud_principal \<Rightarrow> string \<Rightarrow> org_membership cloud_eff" where
  "acceptInvitation h p secret =
     m_bind (cloud_assertPrincipal p) (\<lambda>_.
     m_bind (ce_check (truthy (cq_email p)) 422 ''verified_email_required'') (\<lambda>_.
     m_bind (ce_check (take 8 secret = ''lip_inv_'' \<and> 40 \<le> length secret) 404 ''invitation_not_found'') (\<lambda>_.
     m_bind (cloud_identifier h ''audit'') (\<lambda>auditId.
     m_bind (repo_acceptInvitation h (ch_sha256 h secret) p (cloud_now h) auditId) (\<lambda>r.
     case r of
       Accepted m \<Rightarrow> m_return m
     | Invitation_not_found \<Rightarrow> ce_throw 404 ''invitation_not_found''
     | Invitation_expired \<Rightarrow> ce_throw 410 ''invitation_expired''
     | Email_mismatch \<Rightarrow> ce_throw 403 ''invitation_email_mismatch''
     | Already_accepted \<Rightarrow> ce_throw 409 ''invitation_accepted'')))))"

definition org_dashboard :: "cloud_host \<Rightarrow> cloud_principal \<Rightarrow> string \<Rightarrow> cloud_dashboard cloud_eff" where
  "org_dashboard h p organizationId =
     m_bind (requiredMembership h p organizationId) (\<lambda>m.
     m_bind (requiredOrganization organizationId) (\<lambda>org.
     m_bind (required_value (subscriptionForOrganization organizationId) 409 ''subscription_missing'') (\<lambda>sub.
     m_bind (requiredPlan (os_plan_id sub)) (\<lambda>plan.
     m_bind (m_get (projectsForOrganization organizationId)) (\<lambda>ps.
     m_return \<lparr>db_organization = org, db_membership = m, db_subscription = sub, db_plan = plan, db_projects = ps\<rparr>)))))"

section \<open>Billing\<close>

record return_url =
  ru_protocol :: string
  ru_hostname :: string
  ru_href :: string

definition secure_return :: "return_url \<Rightarrow> bool" where
  "secure_return u =
     (ru_protocol u = ''https:'' \<or>
      ru_protocol u = ''http:'' \<and> ru_hostname u \<in> set [''localhost'', ''127.0.0.1'', ''::1''])"

definition createBillingCheckout ::
  "cloud_host \<Rightarrow> (string \<Rightarrow> return_url option) \<Rightarrow> (organization \<Rightarrow> cloud_plan \<Rightarrow> string \<Rightarrow> 'c option) \<Rightarrow>
    cloud_principal \<Rightarrow> string \<Rightarrow> string \<Rightarrow> string \<Rightarrow> 'c cloud_eff" where
  "createBillingCheckout h parse checkout p organizationId planId returnUrl =
     m_bind (requireRole h p organizationId billingRoles) (\<lambda>_.
     m_bind (requiredOrganization organizationId) (\<lambda>org.
     m_bind (requiredPlan planId) (\<lambda>plan.
     m_bind (ce_check (1 \<le> cp_monthly_price_minor plan) 422 ''checkout_not_required'') (\<lambda>_.
     m_bind (ce_check (parse returnUrl \<noteq> None) 422 ''validation_failed'') (\<lambda>_.
     m_bind (ce_check (secure_return (the (parse returnUrl))) 422 ''validation_failed'') (\<lambda>_.
     case checkout org plan (ru_href (the (parse returnUrl))) of
       None \<Rightarrow> ce_throw 409 ''billing_provider_unavailable''
     | Some c \<Rightarrow> m_return c))))))"

record billing_update =
  bu_organization_id :: string
  bu_plan_id :: string
  bu_provider_customer_id :: string
  bu_provider_subscription_id :: string
  bu_status :: subscription_status
  bu_current_period_start :: string
  bu_current_period_end :: string

definition status_text :: "subscription_status \<Rightarrow> string" where
  "status_text st =
     (case st of Sub_trialing \<Rightarrow> ''trialing'' | Sub_active \<Rightarrow> ''active'' | Sub_past_due \<Rightarrow> ''past_due'' | Sub_cancelled \<Rightarrow> ''cancelled'')"

definition billed_subscription :: "cloud_host \<Rightarrow> billing_update \<Rightarrow> org_subscription \<Rightarrow> org_subscription" where
  "billed_subscription h u x =
     x\<lparr>os_plan_id := bu_plan_id u, os_status := bu_status u, os_billing_provider := Stripe_billing,
       os_provider_customer_id := Some (bu_provider_customer_id u),
       os_provider_subscription_id := Some (bu_provider_subscription_id u),
       os_current_period_start := bu_current_period_start u, os_current_period_end := bu_current_period_end u,
       os_updated_at := cloud_now h\<rparr>"

definition persistBillingUpdate :: "cloud_host \<Rightarrow> billing_update \<Rightarrow> cloud_principal \<Rightarrow> org_subscription cloud_eff" where
  "persistBillingUpdate h u p =
     m_bind (requiredOrganization (bu_organization_id u)) (\<lambda>_.
     m_bind (requiredPlan (bu_plan_id u)) (\<lambda>_.
     m_bind (required_value (subscriptionForOrganization (bu_organization_id u)) 409 ''subscription_missing'') (\<lambda>x.
     m_bind (ce_check (truthy (os_provider_subscription_id x) \<longrightarrow>
         os_provider_subscription_id x = Some (bu_provider_subscription_id u)) 409 ''subscription_mismatch'') (\<lambda>_.
     let y = billed_subscription h u x in
     m_bind (cloud_audit_of h (bu_organization_id u) p ''cloud.subscription.updated'' ''subscription'' (os_subscription_id y) (cloud_now h)
       [(''provider'', JStr ''stripe''), (''status'', JStr (status_text (os_status y))), (''plan_id'', JStr (os_plan_id y))]) (\<lambda>a.
     m_bind (replaceSubscription y a) (\<lambda>_. m_return y))))))"

definition cancelBillingSubscription ::
  "cloud_host \<Rightarrow> (org_subscription \<Rightarrow> billing_update option) \<Rightarrow> cloud_principal \<Rightarrow> string \<Rightarrow> org_subscription cloud_eff" where
  "cancelBillingSubscription h cancel p organizationId =
     m_bind (requireRole h p organizationId billingRoles) (\<lambda>_.
     m_bind (required_value (subscriptionForOrganization organizationId) 409 ''stripe_subscription_missing'') (\<lambda>x.
     m_bind (ce_check (os_billing_provider x = Stripe_billing) 409 ''stripe_subscription_missing'') (\<lambda>_.
     case cancel x of
       None \<Rightarrow> ce_throw 409 ''billing_provider_unavailable''
     | Some u \<Rightarrow>
         m_bind (ce_check (bu_organization_id u = organizationId) 409 ''subscription_mismatch'') (\<lambda>_.
         persistBillingUpdate h u p))))"

definition stripe_principal :: cloud_principal where
  "stripe_principal =
     \<lparr>cq_issuer = ''https://stripe.com'', cq_subject = ''stripe-webhook'', cq_email = None, cq_operator = None,
      cq_on_behalf_of = None, cq_bootstrap_admin = False\<rparr>"

text \<open>\<open>parsed\<close>: what \<open>parseWebhook\<close> answers, None when it throws (the signature is wrong).\<close>

definition applyBillingWebhook :: "cloud_host \<Rightarrow> billing_update option option \<Rightarrow> org_subscription option cloud_eff" where
  "applyBillingWebhook h parsed =
     (case parsed of
        None \<Rightarrow> ce_throw 400 ''invalid_billing_webhook''
      | Some None \<Rightarrow> m_return None
      | Some (Some u) \<Rightarrow> m_bind (persistBillingUpdate h u stripe_principal) (\<lambda>x. m_return (Some x)))"

section \<open>Projects and environments\<close>

definition createProject :: "cloud_host \<Rightarrow> cloud_principal \<Rightarrow> string \<Rightarrow> string \<Rightarrow> string \<Rightarrow> project cloud_eff" where
  "createProject h p organizationId name slugText =
     m_bind (requireRole h p organizationId managementRoles) (\<lambda>_.
     m_bind (assertSlug slugText) (\<lambda>slug.
     m_bind (m_get (projectBySlug organizationId slug)) (\<lambda>existing.
     m_bind (ce_check (existing = None) 409 ''slug_conflict'') (\<lambda>_.
     m_bind (cloud_identifier h ''project'') (\<lambda>i.
     m_bind (assertName name) (\<lambda>n.
     let x = \<lparr>pj_project_id = i, pj_organization_id = organizationId, pj_slug = slug, pj_name = n,
              pj_created_at = cloud_now h, pj_updated_at = cloud_now h\<rparr> in
     m_bind (cloud_audit_of h organizationId p ''cloud.project.created'' ''project'' i (cloud_now h) []) (\<lambda>a.
     m_bind (on_conflict ''resource_conflict'' (repo_createProject x a)) (\<lambda>_.
     m_return x))))))))"

definition cloud_projects :: "cloud_host \<Rightarrow> cloud_principal \<Rightarrow> string \<Rightarrow> project list cloud_eff" where
  "cloud_projects h p organizationId =
     m_bind (requiredMembership h p organizationId) (\<lambda>_. m_get (projectsForOrganization organizationId))"

record environment_input =
  ei_name :: string
  ei_slug :: string
  ei_kind :: string
  ei_region :: string
  ei_program_id :: string

definition environment_kinds :: "string list" where
  "environment_kinds = [''development'', ''staging'', ''production'']"

definition environment_of :: "cloud_host \<Rightarrow> environment_input \<Rightarrow> string \<Rightarrow> string \<Rightarrow> string \<Rightarrow> string \<Rightarrow> string \<Rightarrow> environment" where
  "environment_of h e i projectId slug name tenantId =
     \<lparr>en_environment_id = i, en_project_id = projectId, en_slug = slug, en_name = name, en_kind = ei_kind e,
      en_region = ei_region e, en_tenant_id = tenantId, en_program_id = trim (ei_program_id e), en_status = Env_pending,
      en_status_message = None, en_api_url = None, en_admin_url = None, en_api_key_fingerprint = None,
      en_created_at = cloud_now h, en_updated_at = cloud_now h\<rparr>"

definition createEnvironment ::
  "cloud_host \<Rightarrow> string list \<Rightarrow> cloud_principal \<Rightarrow> string \<Rightarrow> environment_input \<Rightarrow> environment cloud_eff" where
  "createEnvironment h regions p projectId e =
     m_bind (requiredProject projectId) (\<lambda>project.
     m_bind (requireRole h p (pj_organization_id project) managementRoles) (\<lambda>_.
     m_bind (assertSlug (ei_slug e)) (\<lambda>slug.
     m_bind (m_get (environmentBySlug projectId slug)) (\<lambda>existing.
     m_bind (ce_check (existing = None) 409 ''slug_conflict'') (\<lambda>_.
     m_bind (ce_check (ei_kind e \<in> set environment_kinds) 422 ''validation_failed'') (\<lambda>_.
     m_bind (ce_check (ei_region e \<in> set regions) 422 ''unsupported_region'') (\<lambda>_.
     m_bind (ce_check (program_id_ok (trim (ei_program_id e))) 422 ''validation_failed'') (\<lambda>_.
     m_bind (cloud_identifier h ''env'') (\<lambda>i.
     m_bind (assertName (ei_name e)) (\<lambda>n.
     m_bind (cloud_identifier h ''tenant'') (\<lambda>tenantId.
     let x = environment_of h e i projectId slug n tenantId in
     m_bind (cloud_audit_of h (pj_organization_id project) p ''cloud.environment.created'' ''environment'' i (cloud_now h)
       [(''region'', JStr (en_region x)), (''kind'', JStr (en_kind x))]) (\<lambda>a.
     m_bind (on_conflict ''resource_conflict'' (repo_createEnvironment x a)) (\<lambda>_.
     m_return x)))))))))))))"

definition cloud_environments :: "cloud_host \<Rightarrow> cloud_principal \<Rightarrow> string \<Rightarrow> environment list cloud_eff" where
  "cloud_environments h p projectId =
     m_bind (requiredProject projectId) (\<lambda>project.
     m_bind (requiredMembership h p (pj_organization_id project)) (\<lambda>_. m_get (environmentsForProject projectId)))"

text \<open>What the methods on an environment begin with: the environment and its project, if the role allows it.\<close>

definition managed_environment :: "cloud_host \<Rightarrow> cloud_principal \<Rightarrow> string \<Rightarrow> string list \<Rightarrow> (environment \<times> project) cloud_eff" where
  "managed_environment h p environmentId roles =
     m_bind (requiredEnvironment environmentId) (\<lambda>x.
     m_bind (requiredProject (en_project_id x)) (\<lambda>project.
     m_bind (requireRole h p (pj_organization_id project) roles) (\<lambda>_. m_return (x, project))))"

section \<open>Usage\<close>

record usage_input =
  ug_metric :: string
  ug_quantity :: int
  ug_idempotency_key :: string
  ug_occurred_at :: "string option"
  ug_metadata :: "json option"

definition usage_time :: "cloud_host \<Rightarrow> usage_input \<Rightarrow> int option" where
  "usage_time h u =
     (if truthy (ug_occurred_at u) then h_parse (ch_host h) (the (ug_occurred_at u)) else Some (h_now (ch_host h)))"

definition usage_event_of :: "usage_input \<Rightarrow> string \<Rightarrow> string \<Rightarrow> int \<Rightarrow> usage_event" where
  "usage_event_of u i environmentId t =
     \<lparr>uv_usage_event_id = i, uv_environment_id = environmentId, uv_metric = ug_metric u, uv_quantity = ug_quantity u,
      uv_idempotency_key = trim (ug_idempotency_key u), uv_occurred_at = to_iso t, uv_metadata = ug_metadata u\<rparr>"

definition recordUsage :: "cloud_host \<Rightarrow> cloud_principal \<Rightarrow> string \<Rightarrow> usage_input \<Rightarrow> (usage_event \<times> bool) cloud_eff" where
  "recordUsage h p environmentId u =
     m_bind (managed_environment h p environmentId managementRoles) (\<lambda>(x, project).
     m_bind (ce_check (ug_metric u \<in> set usage_metrics) 422 ''validation_failed'') (\<lambda>_.
     m_bind (ce_check (is_safe_integer (ug_quantity u) \<and> 1 \<le> ug_quantity u) 422 ''validation_failed'') (\<lambda>_.
     m_bind (ce_check (8 \<le> length (trim (ug_idempotency_key u)) \<and> length (trim (ug_idempotency_key u)) \<le> 200) 422 ''validation_failed'') (\<lambda>_.
     m_bind (ce_check (usage_time h u \<noteq> None) 422 ''validation_failed'') (\<lambda>_.
     m_bind (required_value (subscriptionForOrganization (pj_organization_id project)) 402 ''subscription_inactive'') (\<lambda>sub.
     m_bind (ce_check (os_status sub \<in> {Sub_active, Sub_trialing}) 402 ''subscription_inactive'') (\<lambda>_.
     m_bind (requiredPlan (os_plan_id sub)) (\<lambda>plan.
     m_bind (cloud_identifier h ''usage'') (\<lambda>i.
     let t = the (usage_time h u); e = usage_event_of u i environmentId t in
     m_bind (repo_recordUsage e (fst (monthPeriod t)) (snd (monthPeriod t)) (cp_hard_limits plan (ug_metric u))) (\<lambda>r.
     m_bind (ce_check (r \<noteq> Limit_exceeded) 429 ''usage_limit_exceeded'') (\<lambda>_.
     m_return (e, r = Duplicate))))))))))))"

record usage_counter =
  uc_metric :: string
  uc_period_start :: string
  uc_period_end :: string
  uc_quantity :: int
  uc_included :: int
  uc_hard_limit :: int
  uc_remaining :: int
  uc_overage :: int

definition usage_counter_of :: "cloud_plan \<Rightarrow> string \<times> string \<Rightarrow> (string \<times> int) list \<Rightarrow> string \<Rightarrow> usage_counter" where
  "usage_counter_of plan period used metric =
     (let n = (case map_of used metric of None \<Rightarrow> 0 | Some k \<Rightarrow> k) in
      \<lparr>uc_metric = metric, uc_period_start = fst period, uc_period_end = snd period, uc_quantity = n,
       uc_included = cp_included_usage plan metric, uc_hard_limit = cp_hard_limits plan metric,
       uc_remaining = max 0 (cp_hard_limits plan metric - n), uc_overage = max 0 (n - cp_included_usage plan metric)\<rparr>)"

definition cloud_usage :: "cloud_host \<Rightarrow> cloud_principal \<Rightarrow> string \<Rightarrow> int \<Rightarrow> usage_counter list cloud_eff" where
  "cloud_usage h p environmentId at =
     m_bind (managed_environment h p environmentId billingRoles) (\<lambda>(x, project).
     m_bind (required_value (subscriptionForOrganization (pj_organization_id project)) 409 ''subscription_missing'') (\<lambda>sub.
     m_bind (requiredPlan (os_plan_id sub)) (\<lambda>plan.
     m_bind (m_get (usageForEnvironment environmentId (fst (monthPeriod at)) (snd (monthPeriod at)))) (\<lambda>used.
     m_return (map (usage_counter_of plan (monthPeriod at) used) usage_metrics)))))"

section \<open>Operating an environment\<close>

record credential_rotation =
  cg_environment_id :: string
  cg_tenant_id :: string
  cg_program_id :: string
  cg_api_url :: string
  cg_admin_url :: string
  cg_merchant_api_key :: string
  cg_merchant_api_key_id :: string
  cg_replaced_api_key_expires_at :: "string option"

definition overlap_ok :: "int option \<Rightarrow> bool" where
  "overlap_ok n = (case n of None \<Rightarrow> True | Some k \<Rightarrow> 0 \<le> k \<and> k \<le> MAX_ROTATION_OVERLAP_SECONDS)"

text \<open>
  \<open>mint\<close>: None when no provisioner is wired; it answers an error of the control plane, which
  is thrown on, or \<open>Plain_error\<close>. The rotation is returned with the time of the call.
\<close>

definition rotateEnvironmentCredentials ::
  "cloud_host \<Rightarrow> (string \<Rightarrow> string \<Rightarrow> int option \<Rightarrow> string option \<Rightarrow> cloud_error + credential_rotation) option \<Rightarrow>
    cloud_principal \<Rightarrow> string \<Rightarrow> int option \<Rightarrow> string option \<Rightarrow> (credential_rotation \<times> string) cloud_eff" where
  "rotateEnvironmentCredentials h mint p environmentId overlap key =
     m_bind (managed_environment h p environmentId managementRoles) (\<lambda>(x, project).
     m_bind (ce_check (overlap_ok overlap) 422 ''validation_failed'') (\<lambda>_.
     m_bind (ce_check (mint \<noteq> None) 409 ''credential_rotation_unavailable'') (\<lambda>_.
     case the mint environmentId (cq_subject p) overlap (present key) of
       Inl (Cloud_error status code) \<Rightarrow> ce_throw status code
     | Inl _ \<Rightarrow> ce_throw 409 ''runtime_unavailable''
     | Inr r \<Rightarrow>
         m_bind (cloud_audit_of h (pj_organization_id project) p ''cloud.environment.credentials_rotated'' ''environment''
           environmentId (cloud_now h)
           ([(''merchant_api_key_id'', JStr (cg_merchant_api_key_id r))] @
            (case overlap of None \<Rightarrow> [] | Some n \<Rightarrow> [(''overlap_seconds'', JNum n)]))) (\<lambda>a.
         m_bind (cloud_recordAudit a) (\<lambda>_.
         m_return (r\<lparr>cg_replaced_api_key_expires_at := present (cg_replaced_api_key_expires_at r)\<rparr>, cloud_now h))))))"

datatype attach_result = Attach_refused string | Attach_bound string "string option" "string option"

definition attachEnvironment ::
  "cloud_host \<Rightarrow> (string \<Rightarrow> string \<Rightarrow> string \<Rightarrow> attach_result) \<Rightarrow> cloud_principal \<Rightarrow> string \<Rightarrow> string \<Rightarrow> string \<Rightarrow>
    environment cloud_eff" where
  "attachEnvironment h validate p environmentId endpoint apiKey =
     m_bind (managed_environment h p environmentId managementRoles) (\<lambda>(x, project).
     m_bind (ce_check (en_status x \<in> {Env_pending, Env_ready, Env_failed}) 409 ''environment_not_attachable'') (\<lambda>_.
     case validate (trim endpoint) apiKey (en_program_id x) of
       Attach_refused code \<Rightarrow>
         m_bind (repo_attachEnvironment h environmentId
           \<lparr>eb_api_url = trim endpoint, eb_admin_url = None, eb_api_key_fingerprint = None, eb_status = Env_failed,
            eb_status_message = Some code\<rparr>) (\<lambda>_.
         ce_throw 422 code)
     | Attach_bound apiUrl adminUrl keyPrint \<Rightarrow>
         repo_attachEnvironment h environmentId
           \<lparr>eb_api_url = apiUrl, eb_admin_url = adminUrl, eb_api_key_fingerprint = keyPrint, eb_status = Env_ready,
            eb_status_message = None\<rparr>))"

datatype local_operation = Local_suspend | Local_resume | Local_backup | Local_restore

fun local_name :: "local_operation \<Rightarrow> string" where
  "local_name Local_suspend = ''suspend''"
| "local_name Local_resume = ''resume''"
| "local_name Local_backup = ''backup''"
| "local_name Local_restore = ''restore''"

record local_result =
  lr_api_url :: "string option"
  lr_admin_url :: "string option"
  lr_backup_id :: "string option"
  lr_checksum :: "string option"

definition after_operation :: "cloud_host \<Rightarrow> local_operation \<Rightarrow> string \<Rightarrow> local_result \<Rightarrow> environment \<Rightarrow> environment cloud_eff" where
  "after_operation h operation environmentId r x =
     (case operation of
        Local_suspend \<Rightarrow> updateEnvironmentStatus h environmentId Env_suspended None None None
      | Local_backup \<Rightarrow> m_return x
      | _ \<Rightarrow> updateEnvironmentStatus h environmentId Env_ready None (lr_api_url r) (lr_admin_url r))"

definition operateLocalEnvironment ::
  "cloud_host \<Rightarrow> (string \<Rightarrow> local_operation \<Rightarrow> string option \<Rightarrow> local_result option) option \<Rightarrow>
    cloud_principal \<Rightarrow> string \<Rightarrow> local_operation \<Rightarrow> string option \<Rightarrow> (environment \<times> local_result) cloud_eff" where
  "operateLocalEnvironment h operate p environmentId operation backupId =
     m_bind (managed_environment h p environmentId managementRoles) (\<lambda>(x, project).
     m_bind (ce_check (operate \<noteq> None) 409 ''local_operation_unavailable'') (\<lambda>_.
     m_bind (ce_check (operation = Local_suspend \<longrightarrow> en_status x = Env_ready) 409 ''environment_not_ready'') (\<lambda>_.
     m_bind (ce_check (operation \<in> {Local_resume, Local_restore} \<longrightarrow> en_status x = Env_suspended) 409 ''environment_not_suspended'') (\<lambda>_.
     m_bind (ce_check (operation = Local_restore \<longrightarrow> truthy backupId) 422 ''validation_failed'') (\<lambda>_.
     case the operate environmentId operation backupId of
       None \<Rightarrow> ce_throw 409 ''local_operation_failed''
     | Some r \<Rightarrow>
         m_bind (after_operation h operation environmentId r x) (\<lambda>updated.
         m_bind (cloud_audit_of h (pj_organization_id project) p (''cloud.environment.'' @ local_name operation) ''environment''
           environmentId (cloud_now h) (if truthy backupId then [(''backup_id'', JStr (the backupId))] else [])) (\<lambda>a.
         m_bind (cloud_recordAudit a) (\<lambda>_.
         m_return (updated, r)))))))))"

definition cloud_plans :: "cloud_principal \<Rightarrow> cloud_plan list cloud_eff" where
  "cloud_plans p = m_bind (cloud_assertPrincipal p) (\<lambda>_. m_get (\<lambda>s. js_values (cl_plan_records s)))"

end
