(* ===== verification/Cloud_Operators.thy ===== *)
theory Cloud_Operators
  imports Cloud_Service
begin

text \<open>
  apps/cloud/src/operator-service.ts: the operators of the control plane and their API keys,
  over the same repository. Secrets are random tokens, stored as their SHA-256.
\<close>

definition OPERATOR_KEY_PREFIX :: string where
  "OPERATOR_KEY_PREFIX = ''lip_ok_''"

definition OPERATOR_ISSUER :: string where
  "OPERATOR_ISSUER = ''urn:lip:operator''"

definition TRUSTED_GATEWAY_ISSUER :: string where
  "TRUSTED_GATEWAY_ISSUER = ''urn:lip:trusted-gateway''"

definition assertOperatorManagementReachable :: "nat \<Rightarrow> bool \<Rightarrow> bool \<Rightarrow> unit cloud_eff" where
  "assertOperatorManagementReachable operatorCount sharedKeyBootstrap oidcBootstrap =
     m_assert (0 < operatorCount \<or> sharedKeyBootstrap \<or> oidcBootstrap) Plain_error"

section \<open>Helpers\<close>

definition role_named :: "string \<Rightarrow> operator_role option" where
  "role_named t = (if t = ''platform-admin'' then Some Platform_admin else if t = ''org-scoped'' then Some Org_scoped else None)"

definition normalizeOrganizationIds :: "string list option \<Rightarrow> string list option" where
  "normalizeOrganizationIds v =
     (case v of
        None \<Rightarrow> None
      | Some ids \<Rightarrow>
          (let normalized = js_unique (filter (\<lambda>t. t \<noteq> []) (map trim ids)) in
           if normalized = [] then None else Some normalized))"

text \<open>\<open>assertFutureExpiry\<close>: an empty text is not a date.\<close>

definition assertFutureExpiry :: "cloud_host \<Rightarrow> string option \<Rightarrow> unit cloud_eff" where
  "assertFutureExpiry h expiresAt =
     ce_check (case expiresAt of
         None \<Rightarrow> True
       | Some t \<Rightarrow> (case h_parse (ch_host h) t of None \<Rightarrow> False | Some n \<Rightarrow> n > h_now (ch_host h)))
       422 ''validation_failed''"

definition iso_expiry :: "cloud_host \<Rightarrow> string option \<Rightarrow> string option" where
  "iso_expiry h expiresAt = normal_expiry (ch_host h) expiresAt"

definition operator_audit_of :: "cloud_host \<Rightarrow> cloud_principal \<Rightarrow> string \<Rightarrow> string \<Rightarrow> string \<Rightarrow> (string \<times> json) list \<Rightarrow> operator_audit cloud_eff" where
  "operator_audit_of h actor action resourceType resourceId metadata =
     m_bind (cloud_identifier h ''op-audit'') (\<lambda>i.
     m_return
       \<lparr>of_audit_id = i, of_actor = cq_subject actor, of_action = action, of_resource_type = resourceType,
        of_resource_id = resourceId, of_metadata = Some (JObj metadata), of_occurred_at = cloud_now h\<rparr>)"

definition mintKey :: "cloud_host \<Rightarrow> string \<Rightarrow> string \<Rightarrow> string option \<Rightarrow> (string \<times> operator_key) cloud_eff" where
  "mintKey h operatorId name expiresAt =
     m_bind (random_token h) (\<lambda>token.
     let secret = OPERATOR_KEY_PREFIX @ token in
     m_bind (cloud_identifier h ''opkey'') (\<lambda>i.
     m_return (secret,
       \<lparr>ok_key_id = i, ok_operator_id = operatorId, ok_name = name, ok_prefix = take 15 secret, ok_active = True,
        ok_created_at = cloud_now h, ok_expires_at = present expiresAt, ok_last_used_at = None, ok_revoked_at = None,
        ok_secret_hash = ch_sha256 h secret\<rparr>)))"

definition requiredOperator :: "string \<Rightarrow> cloud_operator cloud_eff" where
  "requiredOperator i = required_value (\<lambda>s. js_get (cl_operators s) i) 404 ''not_found''"

text \<open>\<open>bootstrap\<close>: the role and the subject of the operator to create. The answer tells whether this is the bootstrap.\<close>

definition authorizeOperatorManagement :: "cloud_principal \<Rightarrow> (string \<times> string) option \<Rightarrow> bool cloud_eff" where
  "authorizeOperatorManagement actor bootstrap =
     (if is_platform_admin actor then m_return False
      else
        (let gateway = (cq_issuer actor = TRUSTED_GATEWAY_ISSUER) in
         case bootstrap of
           Some (role, subject) \<Rightarrow>
             if gateway \<or> cq_bootstrap_admin actor then
               m_bind (m_get (\<lambda>s. cl_operators s = [])) (\<lambda>none.
               m_bind (ce_check none 403 ''operator_bootstrap_exhausted'') (\<lambda>_.
               m_bind (ce_check (role = ''platform-admin'') 422 ''validation_failed'') (\<lambda>_.
               m_bind (ce_check (\<not> (cq_bootstrap_admin actor \<and> \<not> gateway \<and> subject \<noteq> cq_subject actor)) 403 ''forbidden'') (\<lambda>_.
               m_return True))))
             else ce_throw 403 ''forbidden''
         | None \<Rightarrow> ce_throw 403 ''forbidden''))"

section \<open>Authentication\<close>

definition principalFor :: "cloud_operator \<Rightarrow> cloud_principal" where
  "principalFor x =
     \<lparr>cq_issuer = OPERATOR_ISSUER, cq_subject = op_subject x, cq_email = present (op_email x),
      cq_operator = Some \<lparr>oc_operator_id = op_operator_id x, oc_role = op_role x, oc_organization_ids = op_organization_ids x\<rparr>,
      cq_on_behalf_of = None, cq_bootstrap_admin = False\<rparr>"

definition key_over :: "cloud_host \<Rightarrow> operator_key \<Rightarrow> bool" where
  "key_over h k = (truthy (ok_expires_at k) \<and> due (ch_host h) (the (ok_expires_at k)))"

definition operator_authenticate :: "cloud_host \<Rightarrow> string \<Rightarrow> cloud_principal option cloud_eff" where
  "operator_authenticate h secret =
     (if take (length OPERATOR_KEY_PREFIX) secret \<noteq> OPERATOR_KEY_PREFIX then m_return None
      else
        m_bind (m_get (operatorByApiKeyHash (ch_sha256 h secret))) (\<lambda>found.
        case found of
          None \<Rightarrow> m_return None
        | Some (x, k) \<Rightarrow>
            if \<not> op_active x \<or> \<not> ok_active k \<or> truthy (ok_revoked_at k) then m_return None
            else if key_over h k then m_return None
            else m_bind (markOperatorApiKeyUsed (ok_key_id k) (cloud_now h)) (\<lambda>_. m_return (Some (principalFor x)))))"

definition operatorForSubject :: "string \<Rightarrow> cloud \<Rightarrow> cloud_operator option" where
  "operatorForSubject subject s =
     (case operatorBySubject subject s of None \<Rightarrow> None | Some x \<Rightarrow> if op_active x then Some x else None)"

section \<open>Operators\<close>

record operator_input =
  pn_subject :: string
  pn_email :: "string option"
  pn_role :: string
  pn_organization_ids :: "string list option"
  pn_key_name :: "string option"
  pn_key_expires_at :: "string option"

definition operator_of :: "cloud_host \<Rightarrow> operator_input \<Rightarrow> string \<Rightarrow> operator_role \<Rightarrow> string list option \<Rightarrow> string option \<Rightarrow> cloud_operator" where
  "operator_of h n i role ids email =
     \<lparr>op_operator_id = i, op_subject = trim (pn_subject n), op_email = present email, op_role = role,
      op_organization_ids = ids, op_active = True, op_created_at = cloud_now h, op_updated_at = cloud_now h\<rparr>"

definition createOperator :: "cloud_host \<Rightarrow> cloud_principal \<Rightarrow> operator_input \<Rightarrow> (cloud_operator \<times> operator_key \<times> string) cloud_eff" where
  "createOperator h actor n =
     m_bind (authorizeOperatorManagement actor (Some (pn_role n, trim (pn_subject n)))) (\<lambda>bootstrap.
     let subject = trim (pn_subject n);
         ids = normalizeOrganizationIds (pn_organization_ids n);
         email = map_option (\<lambda>t. to_lower (trim t)) (pn_email n) in
     m_bind (ce_check (subject \<noteq> [] \<and> length subject \<le> 200) 422 ''validation_failed'') (\<lambda>_.
     m_bind (ce_check (role_named (pn_role n) \<noteq> None) 422 ''validation_failed'') (\<lambda>_.
     m_bind (ce_check ((pn_role n = ''org-scoped'') = (ids \<noteq> None)) 422 ''validation_failed'') (\<lambda>_.
     m_bind (ce_check (truthy email \<longrightarrow> email_ok (the email)) 422 ''validation_failed'') (\<lambda>_.
     m_bind (assertFutureExpiry h (pn_key_expires_at n)) (\<lambda>_.
     m_bind (cloud_identifier h ''op'') (\<lambda>i.
     let x = operator_of h n i (the (role_named (pn_role n))) ids email in
     m_bind (mintKey h i (case pn_key_name n of None \<Rightarrow> ''default'' | Some t \<Rightarrow> t) (iso_expiry h (pn_key_expires_at n))) (\<lambda>(secret, k).
     m_bind (operator_audit_of h actor ''cloud.operator.created'' ''operator'' i
       ([(''subject'', JStr subject), (''role'', JStr (pn_role n)), (''key_id'', JStr (ok_key_id k)), (''prefix'', JStr (ok_prefix k))] @
        (case ids of None \<Rightarrow> [] | Some ts \<Rightarrow> [(''organization_ids'', JArr (map JStr ts))]))) (\<lambda>a.
     m_bind (on_conflict ''operator_conflict'' (repo_createOperator x k bootstrap a)) (\<lambda>_.
     m_return (x, k, secret)))))))))))"

definition listOperators :: "cloud_principal \<Rightarrow> cloud_operator list cloud_eff" where
  "listOperators actor = m_bind (authorizeOperatorManagement actor None) (\<lambda>_. m_get (\<lambda>s. js_values (cl_operators s)))"

text \<open>\<open>catch (error) { if (error instanceof LastPlatformAdminError) ... }\<close>\<close>

definition on_lockout :: "'a cloud_eff \<Rightarrow> 'a cloud_eff" where
  "on_lockout m s =
     (case m s of (Inl e, t) \<Rightarrow> (Inl (if e = Last_platform_admin then Cloud_error 409 ''operator_lockout'' else e), t)
      | (Inr v, t) \<Rightarrow> (Inr v, t))"

definition updateOperator :: "cloud_host \<Rightarrow> cloud_principal \<Rightarrow> string \<Rightarrow> bool \<Rightarrow> cloud_operator cloud_eff" where
  "updateOperator h actor operatorId active =
     m_bind (authorizeOperatorManagement actor None) (\<lambda>_.
     m_bind (requiredOperator operatorId) (\<lambda>existing.
     m_bind (operator_audit_of h actor ''cloud.operator.updated'' ''operator'' operatorId [(''active'', JBool active)]) (\<lambda>a.
     m_bind (on_lockout (repo_updateOperator operatorId (Some active) (cloud_now h)
       (\<not> active \<and> op_active existing \<and> op_role existing = Platform_admin) a)) (\<lambda>updated.
     case updated of None \<Rightarrow> ce_throw 404 ''not_found'' | Some x \<Rightarrow> m_return x))))"

section \<open>Keys\<close>

definition createOperatorKey :: "cloud_host \<Rightarrow> cloud_principal \<Rightarrow> string \<Rightarrow> string option \<Rightarrow> string option \<Rightarrow> (operator_key \<times> string) cloud_eff" where
  "createOperatorKey h actor operatorId name expiresAt =
     m_bind (authorizeOperatorManagement actor None) (\<lambda>_.
     m_bind (requiredOperator operatorId) (\<lambda>_.
     m_bind (assertFutureExpiry h expiresAt) (\<lambda>_.
     m_bind (mintKey h operatorId (case present (map_option trim name) of None \<Rightarrow> ''default'' | Some t \<Rightarrow> t) (iso_expiry h expiresAt)) (\<lambda>(secret, k).
     m_bind (operator_audit_of h actor ''cloud.operator.api_key.created'' ''operator_api_key'' (ok_key_id k)
       [(''operator_id'', JStr operatorId), (''prefix'', JStr (ok_prefix k))]) (\<lambda>a.
     m_bind (createOperatorApiKey k a) (\<lambda>_.
     m_return (k, secret)))))))"

definition key_of_operator :: "string \<Rightarrow> string \<Rightarrow> cloud \<Rightarrow> operator_key option" where
  "key_of_operator operatorId keyId s = List.find (\<lambda>k. ok_key_id k = keyId) (operatorApiKeys operatorId s)"

text \<open>The expiry of the replaced key: the end of the overlap, or its own when that is earlier.\<close>

definition replaced_until :: "cloud_host \<Rightarrow> int \<Rightarrow> operator_key \<Rightarrow> string" where
  "replaced_until h overlap k =
     (let o' = overlap_expiry (ch_host h) overlap in
      if later (ch_host h) (Some o') (ok_expires_at k) then the (ok_expires_at k) else o')"

definition rotateOperatorKey ::
  "cloud_host \<Rightarrow> cloud_principal \<Rightarrow> string \<Rightarrow> string \<Rightarrow> int option \<Rightarrow> string option \<Rightarrow> (operator_key \<times> string \<times> operator_key) cloud_eff" where
  "rotateOperatorKey h actor operatorId keyId overlapSeconds expiresAt =
     (let overlap = (case overlapSeconds of None \<Rightarrow> DEFAULT_ROTATION_OVERLAP_SECONDS | Some n \<Rightarrow> n) in
     m_bind (authorizeOperatorManagement actor None) (\<lambda>_.
     m_bind (requiredOperator operatorId) (\<lambda>_.
     m_bind (ce_check (overlap_ok (Some overlap)) 422 ''validation_failed'') (\<lambda>_.
     m_bind (assertFutureExpiry h expiresAt) (\<lambda>_.
     m_bind (required_value (key_of_operator operatorId keyId) 404 ''not_found'') (\<lambda>existing.
     m_bind (ce_check (\<not> (\<not> ok_active existing \<or> truthy (ok_revoked_at existing) \<or> key_over h existing)) 409 ''key_inactive'') (\<lambda>_.
     m_bind (ce_check (\<not> later (ch_host h) expiresAt (ok_expires_at existing)) 422 ''validation_failed'') (\<lambda>_.
     m_bind (mintKey h operatorId (ok_name existing)
       (if truthy expiresAt then iso_expiry h expiresAt else ok_expires_at existing)) (\<lambda>(secret, new).
     let until = replaced_until h overlap existing in
     m_bind (operator_audit_of h actor ''cloud.operator.api_key.created'' ''operator_api_key'' (ok_key_id new)
       [(''operator_id'', JStr operatorId), (''prefix'', JStr (ok_prefix new)), (''rotated_from'', JStr (ok_key_id existing))]) (\<lambda>created.
     m_bind (operator_audit_of h actor ''cloud.operator.api_key.rotated'' ''operator_api_key'' (ok_key_id existing)
       [(''operator_id'', JStr operatorId), (''replacement_key_id'', JStr (ok_key_id new)), (''overlap_expires_at'', JStr until)]) (\<lambda>rotated.
     m_bind (rotateOperatorApiKey new (ok_key_id existing) until [created, rotated]) (\<lambda>_.
     m_return (new, secret, existing\<lparr>ok_expires_at := Some until\<rparr>)))))))))))))"

definition revokeOperatorKey :: "cloud_host \<Rightarrow> cloud_principal \<Rightarrow> string \<Rightarrow> string \<Rightarrow> unit cloud_eff" where
  "revokeOperatorKey h actor operatorId keyId =
     m_bind (authorizeOperatorManagement actor None) (\<lambda>_.
     m_bind (requiredOperator operatorId) (\<lambda>_.
     m_bind (required_value (key_of_operator operatorId keyId) 404 ''not_found'') (\<lambda>existing.
     if \<not> ok_active existing then m_return ()
     else
       m_bind (operator_audit_of h actor ''cloud.operator.api_key.revoked'' ''operator_api_key'' (ok_key_id existing)
         [(''operator_id'', JStr operatorId)]) (\<lambda>a.
       m_bind (revokeOperatorApiKey (ok_key_id existing) (cloud_now h) a) (\<lambda>_. m_return ())))))"

end
