(* ===== verification/Cloud_Theorems.thy ===== *)
theory Cloud_Theorems
  imports Cloud_Operators
begin

text \<open>
  What the control plane keeps over its calls: a platform that has an administrator never
  loses the last one, outsiders of an organization change nothing, and usage is counted once
  and within the limit of the plan.
\<close>

section \<open>The calls\<close>

datatype cloud_call =
  Create_organization string cloud_principal string string
| Update_member cloud_principal string member_change
| Invite_member cloud_principal string string string "string option"
| Accept_invitation cloud_principal string
| Billing_webhook "billing_update option option"
| Cancel_billing "org_subscription \<Rightarrow> billing_update option" cloud_principal string
| Create_project cloud_principal string string string
| Create_environment "string list" cloud_principal string environment_input
| Record_usage cloud_principal string usage_input
| Attach_environment "string \<Rightarrow> string \<Rightarrow> string \<Rightarrow> attach_result" cloud_principal string string string
| Rotate_credentials "(string \<Rightarrow> string \<Rightarrow> int option \<Rightarrow> string option \<Rightarrow> cloud_error + credential_rotation) option"
    cloud_principal string "int option" "string option"
| Operate_environment "(string \<Rightarrow> local_operation \<Rightarrow> string option \<Rightarrow> local_result option) option"
    cloud_principal string local_operation "string option"
| Claim_job string int
| Complete_job string string "string option"
| Fail_job string string "string option"
| Authenticate_operator string
| Create_operator cloud_principal operator_input
| Update_operator cloud_principal string bool
| Create_operator_key cloud_principal string "string option" "string option"
| Rotate_operator_key cloud_principal string string "int option" "string option"
| Revoke_operator_key cloud_principal string string

definition cl_void :: "'a cloud_eff \<Rightarrow> cloud \<Rightarrow> cloud" where
  "cl_void m s = snd (m s)"

fun call_cloud :: "cloud_host \<Rightarrow> cloud_call \<Rightarrow> cloud \<Rightarrow> cloud" where
  "call_cloud h (Create_organization plan p name slug) = cl_void (createOrganization h plan p name slug)"
| "call_cloud h (Update_member p i c) = cl_void (updateMember h p i c)"
| "call_cloud h (Invite_member p i email role expires) = cl_void (inviteMember h p i email role expires)"
| "call_cloud h (Accept_invitation p secret) = cl_void (acceptInvitation h p secret)"
| "call_cloud h (Billing_webhook parsed) = cl_void (applyBillingWebhook h parsed)"
| "call_cloud h (Cancel_billing cancel p i) = cl_void (cancelBillingSubscription h cancel p i)"
| "call_cloud h (Create_project p i name slug) = cl_void (createProject h p i name slug)"
| "call_cloud h (Create_environment regions p i e) = cl_void (createEnvironment h regions p i e)"
| "call_cloud h (Record_usage p i u) = cl_void (recordUsage h p i u)"
| "call_cloud h (Attach_environment validate p i url key) = cl_void (attachEnvironment h validate p i url key)"
| "call_cloud h (Rotate_credentials mint p i overlap key) = cl_void (rotateEnvironmentCredentials h mint p i overlap key)"
| "call_cloud h (Operate_environment operate p i oper backup) = cl_void (operateLocalEnvironment h operate p i oper backup)"
| "call_cloud h (Claim_job worker lease) = cl_void (claimProvisioningJob h worker lease)"
| "call_cloud h (Complete_job i url admin) = cl_void (completeProvisioningJob h i url admin)"
| "call_cloud h (Fail_job i message retry) = cl_void (failProvisioningJob h i message retry)"
| "call_cloud h (Authenticate_operator secret) = cl_void (operator_authenticate h secret)"
| "call_cloud h (Create_operator p n) = cl_void (createOperator h p n)"
| "call_cloud h (Update_operator p i b) = cl_void (updateOperator h p i b)"
| "call_cloud h (Create_operator_key p i name expires) = cl_void (createOperatorKey h p i name expires)"
| "call_cloud h (Rotate_operator_key p i k overlap expires) = cl_void (rotateOperatorKey h p i k overlap expires)"
| "call_cloud h (Revoke_operator_key p i k) = cl_void (revokeOperatorKey h p i k)"

definition cloud_run :: "(cloud_host \<times> cloud_call) list \<Rightarrow> cloud \<Rightarrow> cloud" where
  "cloud_run calls s = fold (\<lambda>(h, c). call_cloud h c) calls s"

section \<open>The last administrator\<close>

definition has_admin :: "cloud \<Rightarrow> bool" where
  "has_admin s \<longleftrightarrow> (\<exists>(i, x) \<in> set (cl_operators s). active_admin x)"

definition admins_stay :: "cloud \<Rightarrow> cloud \<Rightarrow> bool" where
  "admins_stay s t \<longleftrightarrow> (keys_ok (cl_operators s) \<longrightarrow> keys_ok (cl_operators t) \<and> (has_admin s \<longrightarrow> has_admin t))"

interpretation admins: effect_relation admins_stay
  by unfold_locales (auto simp: admins_stay_def)

lemma same_operators: "cl_operators t = cl_operators s \<Longrightarrow> admins_stay s t"
  by (simp add: admins_stay_def has_admin_def)

lemma another_admin:
  assumes "keys_ok m" "(i, x) \<in> set m" "P x" "1 < length (filter P (map snd m))"
  shows "\<exists>(j, y) \<in> set m. j \<noteq> i \<and> P y"
proof (rule ccontr)
  assume none: "\<not> ?thesis"
  have eq: "(j, y) = (i, x)" if "(j, y) \<in> set m" "P y" for j y
  proof -
    have "j = i" using none that by blast
    then show ?thesis using assms(1,2) that(1) by (simp add: keys_ok_def eq_key_imp_eq_value)
  qed
  let ?f = "filter (\<lambda>p. P (snd p)) m"
  have "distinct ?f" using assms(1) by (auto simp: keys_ok_def distinct_map)
  then have "length ?f = card (set ?f)" by (rule distinct_card [symmetric])
  also have "\<dots> \<le> card {(i, x)}" by (rule card_mono) (use eq in auto)
  finally have "length ?f \<le> 1" by simp
  then show False using assms(4) by (simp add: filter_map o_def)
qed

lemma new_operator_stays:
  "js_get (cl_operators s) i = None \<Longrightarrow> cl_operators t = js_set (cl_operators s) i x \<Longrightarrow> admins_stay s t"
proof -
  assume i: "js_get (cl_operators s) i = None" and t: "cl_operators t = js_set (cl_operators s) i x"
  have "keys_ok (cl_operators t)" if "keys_ok (cl_operators s)" using that by (simp add: t)
  moreover have "has_admin t" if "has_admin s" using that by (auto simp: has_admin_def t js_set_fresh [OF i])
  ultimately show ?thesis by (simp add: admins_stay_def)
qed

lemma changed_operator_stays:
  assumes "js_get (cl_operators s) i = Some x" "cl_operators t = js_set (cl_operators s) i y"
    and "active_admin x \<and> \<not> active_admin y \<Longrightarrow> 1 < active_admins s"
  shows "admins_stay s t"
  unfolding admins_stay_def
proof (intro impI conjI)
  assume ok: "keys_ok (cl_operators s)"
  then show ok': "keys_ok (cl_operators t)" by (simp add: assms(2))
  assume "has_admin s"
  then obtain j z where z: "(j, z) \<in> set (cl_operators s)" "active_admin z" by (auto simp: has_admin_def)
  have admin: "has_admin t" if "js_get (cl_operators t) k = Some v" "active_admin v" for k v
    using that js_get_mem by (force simp: has_admin_def)
  have other: "js_get (cl_operators t) k = Some v" if "(k, v) \<in> set (cl_operators s)" "k \<noteq> i" for k v
    using that ok js_get_iff_mem [OF ok] by (simp add: assms(2))
  show "has_admin t"
  proof (cases "j = i \<and> \<not> active_admin y")
    case True
    have "js_get (cl_operators s) i = Some z" using True z(1) js_get_iff_mem [OF ok] by simp
    then have "z = x" using assms(1) by simp
    then have "1 < length (filter active_admin (map snd (cl_operators s)))"
      using True z(2) assms(3) by (simp add: active_admins_def)
    from another_admin [OF ok _ _ this, of i x] obtain k v where "(k, v) \<in> set (cl_operators s)" "k \<noteq> i" "active_admin v"
      using True z \<open>z = x\<close> by auto
    then show ?thesis using admin other by blast
  next
    case False
    then show ?thesis using admin [of j z] admin [of i y] other [OF z(1)] z(2) by (auto simp: assms(2))
  qed
qed

named_theorems cloud_keeps

lemma keeps_required [cloud_keeps]: "m_keeps admins_stay (required_value f status code)"
  by (auto simp: required_value_def ce_throw_def intro!: admins.keeps_bind admins.keeps_get admins.keeps_throw admins.keeps_return
      split: option.split)

lemma keeps_plain [cloud_keeps]:
  "m_keeps admins_stay (ce_check b status code)" "m_keeps admins_stay (ce_throw status code)"
  "m_keeps admins_stay (cloud_identifier h prefix)" "m_keeps admins_stay (random_token h)"
  by (auto simp: ce_check_def ce_throw_def cloud_identifier_def random_token_def m_keeps_def [of _ "cloud_identifier _ _"]
      m_keeps_def [of _ "random_token _"] intro!: admins.keeps_assert admins.keeps_throw same_operators)

lemma keeps_conflict [cloud_keeps]: "m_keeps admins_stay m \<Longrightarrow> m_keeps admins_stay (on_conflict code m)"
  by (auto simp: m_keeps_def on_conflict_def split: prod.split sum.split) (metis snd_conv)+

lemma keeps_lockout [cloud_keeps]: "m_keeps admins_stay m \<Longrightarrow> m_keeps admins_stay (on_lockout m)"
  by (auto simp: m_keeps_def on_lockout_def split: prod.split sum.split) (metis snd_conv)+

lemma keeps_change [cloud_keeps]: "(\<And>s. cl_operators (f s) = cl_operators s) \<Longrightarrow> m_keeps admins_stay (m_modify f)"
  by (rule admins.keeps_modify) (simp add: same_operators)

lemma audit_operators [simp]: "cl_operators (add_audit a s) = cl_operators s"
  by (simp add: add_audit_def)

lemma write_operators [simp]:
  "cl_operators (put_organization x owner sub s) = cl_operators s"
  "cl_operators (set_job j s) = cl_operators s"
  "cl_operators (mark_environment i g s) = cl_operators s"
  by (simp_all add: put_organization_def set_job_def mark_environment_def)

lemma keeps_createOperator [cloud_keeps]: "m_keeps admins_stay (repo_createOperator x k bootstrap a)"
  unfolding m_keeps_def repo_createOperator_def
  by (auto simp: m_bind_assert js_has_def admins.R_refl intro!: new_operator_stays [where i = "op_operator_id x" and x = x])

text \<open>The guard of the last administrator, as the service sets it.\<close>

lemma keeps_updateOperator:
  assumes "js_get (cl_operators s) i = Some x"
  shows "admins_stay s (snd (repo_updateOperator i (Some b) at (\<not> b \<and> op_active x \<and> op_role x = Platform_admin) a s))"
proof (cases "\<not> b \<and> active_admin x \<and> active_admins s \<le> 1")
  case True
  then show ?thesis using assms
    by (simp add: repo_updateOperator_def m_bind_assert active_admin_def admins.R_refl)
next
  case False
  then show ?thesis using assms
    by (auto simp: repo_updateOperator_def m_bind_assert Let_def active_admin_def admins.R_refl
        intro!: changed_operator_stays [where i = i and x = x])
qed

lemma keeps_helpers [cloud_keeps]:
  "m_keeps admins_stay (cloud_assertPrincipal p)"
  "m_keeps admins_stay (assertSlug t)"
  "m_keeps admins_stay (assertName t)"
  "m_keeps admins_stay (requiredPlan i)"
  "m_keeps admins_stay (requiredOrganization i)"
  "m_keeps admins_stay (requiredProject i)"
  "m_keeps admins_stay (requiredEnvironment i)"
  "m_keeps admins_stay (requiredOperator i)"
  "m_keeps admins_stay (cloud_audit_of h i p action kind res at metadata)"
  "m_keeps admins_stay (operator_audit_of h p action kind res kvs)"
  "m_keeps admins_stay (assertFutureExpiry h e)"
  "m_keeps admins_stay (mintKey h i name e)"
  unfolding cloud_assertPrincipal_def assertSlug_def assertName_def requiredPlan_def requiredOrganization_def requiredProject_def
    requiredEnvironment_def requiredOperator_def cloud_audit_of_def operator_audit_of_def assertFutureExpiry_def mintKey_def Let_def
  by (intro admins.keeps_intros cloud_keeps)+

lemma keeps_roles [cloud_keeps]:
  "m_keeps admins_stay (requiredMembership h p i)"
  "m_keeps admins_stay (requireRole h p i roles)"
  "m_keeps admins_stay (managed_environment h p i roles)"
  "m_keeps admins_stay (authorizeOperatorManagement p bootstrap)"
  unfolding requiredMembership_def requireRole_def managed_environment_def authorizeOperatorManagement_def Let_def
  by (intro admins.keeps_intros cloud_keeps | simp split: option.split | intro conjI allI impI)+

lemma keeps_repository [cloud_keeps]:
  "m_keeps admins_stay (repo_createOrganization x owner sub a)"
  "m_keeps admins_stay (updateMembership i issuer subject role active at a)"
  "m_keeps admins_stay (createInvitation iv tokenHash a)"
  "m_keeps admins_stay (accept_stored h tokenHash iv p at i)"
  "m_keeps admins_stay (repo_createProject pj a)"
  "m_keeps admins_stay (repo_createEnvironment en a)"
  "m_keeps admins_stay (change_environment i f)"
  "m_keeps admins_stay (replaceSubscription sub a)"
  "m_keeps admins_stay (repo_recordUsage e start until n)"
  "m_keeps admins_stay (createOperatorApiKey k oa)"
  "m_keeps admins_stay (rotateOperatorApiKey k i until oas)"
  "m_keeps admins_stay (revokeOperatorApiKey i at oa)"
  "m_keeps admins_stay (markOperatorApiKeyUsed i at)"
  "m_keeps admins_stay (running_job i)"
  unfolding repo_createOrganization_def updateMembership_def createInvitation_def accept_stored_def repo_createProject_def
    repo_createEnvironment_def change_environment_def replaceSubscription_def repo_recordUsage_def createOperatorApiKey_def
    rotateOperatorApiKey_def revokeOperatorApiKey_def markOperatorApiKeyUsed_def running_job_def Let_def
  by (intro admins.keeps_intros cloud_keeps | simp split: option.split | intro conjI allI impI)+

lemma keeps_environments [cloud_keeps]:
  "m_keeps admins_stay (repo_attachEnvironment h i b)"
  "m_keeps admins_stay (repo_acceptInvitation h tokenHash p at i)"
  "m_keeps admins_stay (persistBillingUpdate h u p)"
  "m_keeps admins_stay (cloud_recordAudit a)"
  "m_keeps admins_stay (after_operation h oper i res x)"
  unfolding repo_attachEnvironment_def repo_acceptInvitation_def persistBillingUpdate_def cloud_recordAudit_def after_operation_def
    updateEnvironmentStatus_def Let_def
  by (intro admins.keeps_intros cloud_keeps | simp split: option.split local_operation.split | intro conjI allI impI)+

lemma keeps_services:
  "m_keeps admins_stay (createOrganization h plan p name slug)"
  "m_keeps admins_stay (updateMember h p i c)"
  "m_keeps admins_stay (inviteMember h p i email role expires)"
  "m_keeps admins_stay (acceptInvitation h p secret)"
  "m_keeps admins_stay (applyBillingWebhook h parsed)"
  "m_keeps admins_stay (createProject h p i name slug)"
  "m_keeps admins_stay (createEnvironment h regions p i e)"
  "m_keeps admins_stay (recordUsage h p i ui)"
  "m_keeps admins_stay (attachEnvironment h validate p i url key)"
  "m_keeps admins_stay (cancelBillingSubscription h cancel p i)"
  "m_keeps admins_stay (rotateEnvironmentCredentials h mint p i overlap key')"
  "m_keeps admins_stay (operateLocalEnvironment h operate p i oper backup)"
  unfolding createOrganization_def updateMember_def inviteMember_def acceptInvitation_def applyBillingWebhook_def createProject_def
    createEnvironment_def recordUsage_def attachEnvironment_def cancelBillingSubscription_def rotateEnvironmentCredentials_def
    operateLocalEnvironment_def Let_def
  by (intro admins.keeps_intros cloud_keeps
    | simp split: option.split prod.split sum.split acceptance.split attach_result.split cloud_error.split | intro conjI allI impI)+

lemma keeps_provisioning:
  "m_keeps admins_stay (claimProvisioningJob h worker lease)"
  "m_keeps admins_stay (completeProvisioningJob h i url admin)"
  "m_keeps admins_stay (failProvisioningJob h i message retry)"
  unfolding claimProvisioningJob_def completeProvisioningJob_def failProvisioningJob_def Let_def
  by (intro admins.keeps_intros cloud_keeps | simp split: option.split | intro conjI allI impI)+

lemma keeps_operators:
  "m_keeps admins_stay (operator_authenticate h secret)"
  "m_keeps admins_stay (createOperator h p n)"
  "m_keeps admins_stay (createOperatorKey h p i name expires)"
  "m_keeps admins_stay (rotateOperatorKey h p i k overlap expires)"
  "m_keeps admins_stay (revokeOperatorKey h p i k)"
  unfolding operator_authenticate_def createOperator_def createOperatorKey_def rotateOperatorKey_def revokeOperatorKey_def Let_def
  by (intro admins.keeps_intros cloud_keeps | simp split: option.split prod.split | intro conjI allI impI)+

lemma keeps_bind_admins:
  assumes "m_keeps admins_stay m" "\<And>v s t. m s = (Inr v, t) \<Longrightarrow> admins_stay t (snd (f v t))"
  shows "m_keeps admins_stay (m_bind m f)"
  unfolding m_keeps_def
proof
  fix s
  obtain r t where m: "m s = (r, t)" by fastforce
  then have "admins_stay s t" using assms(1) by (metis m_keeps_def snd_conv)
  then show "admins_stay s (snd (m_bind m f s))"
    using m assms(2) [of s _ t] admins.R_trans by (cases r) (auto simp: m_bind_def)
qed

lemma keeps_update: "m_keeps admins_stay (updateOperator h p i b)"
  unfolding updateOperator_def
proof (intro keeps_bind_admins keeps_roles)
  fix s t v
  let ?guard = "\<lambda>x. \<not> b \<and> op_active x \<and> op_role x = Platform_admin"
  let ?update = "\<lambda>x a. m_bind (on_lockout (repo_updateOperator i (Some b) (cloud_now h) (?guard x) a))
    (\<lambda>updated. case updated of None \<Rightarrow> ce_throw 404 ''not_found'' | Some x \<Rightarrow> m_return x)"
  have state: "snd (?update x a t) = snd (repo_updateOperator i (Some b) (cloud_now h) (?guard x) a t)" for x a t
    by (auto simp: m_bind_def on_lockout_def ce_throw_def split: prod.split sum.split option.split)
  show "admins_stay t (snd (m_bind (requiredOperator i)
      (\<lambda>x. m_bind (operator_audit_of h p ''cloud.operator.updated'' ''operator'' i [(''active'', JBool b)]) (?update x)) t))"
  proof (cases "js_get (cl_operators t) i")
    case None
    then show ?thesis by (simp add: requiredOperator_def required_value_def ce_throw_def m_bind_def m_get_def m_throw_def admins.R_refl)
  next
    case (Some x)
    let ?t = "t\<lparr>cl_draws := cl_draws t + 1\<rparr>"
    obtain a where "operator_audit_of h p ''cloud.operator.updated'' ''operator'' i [(''active'', JBool b)] t = (Inr a, ?t)"
      by (simp add: operator_audit_of_def cloud_identifier_def m_bind_def m_return_def)
    then have run: "snd (m_bind (requiredOperator i)
        (\<lambda>x. m_bind (operator_audit_of h p ''cloud.operator.updated'' ''operator'' i [(''active'', JBool b)]) (?update x)) t) =
        snd (?update x a ?t)"
      using Some by (simp add: requiredOperator_def required_value_def m_bind_def m_get_def m_return_def)
    have draw: "admins_stay t ?t" by (rule same_operators) simp
    have "admins_stay ?t (snd (?update x a ?t))"
      unfolding state by (rule keeps_updateOperator) (use Some in simp)
    then have "admins_stay t (snd (?update x a ?t))" by (rule admins.R_trans [OF draw])
    then show ?thesis unfolding run .
  qed
qed

lemma keepsD_admins: "m_keeps admins_stay m \<Longrightarrow> admins_stay s (snd (m s))"
  by (simp add: m_keeps_def)

lemma call_keeps_admins: "admins_stay s (call_cloud h c s)"
  by (cases c; simp only: call_cloud.simps cl_void_def; rule keepsD_admins;
      rule keeps_services keeps_provisioning keeps_operators keeps_update)

text \<open>
  Whatever calls follow, of whomever, at whatever times: a platform with an active
  administrator keeps one. The guard is set by the service and checked by the repository.
\<close>

lemma administrator_stays:
  "keys_ok (cl_operators s) \<Longrightarrow> has_admin s \<Longrightarrow> has_admin (cloud_run calls s)"
proof -
  have "admins_stay s (cloud_run calls s)"
    unfolding cloud_run_def
  proof (induction calls arbitrary: s)
    case (Cons x calls)
    then show ?case by (cases x) (auto intro: admins.R_trans call_keeps_admins)
  qed (simp add: admins.R_refl)
  then show "keys_ok (cl_operators s) \<Longrightarrow> has_admin s \<Longrightarrow> has_admin (cloud_run calls s)"
    by (simp add: admins_stay_def)
qed

section \<open>Outsiders\<close>

text \<open>Someone without an active membership of an organization or an operator's scope over it.\<close>

definition outsider :: "cloud_principal \<Rightarrow> string \<Rightarrow> cloud \<Rightarrow> bool" where
  "outsider p organizationId s \<longleftrightarrow>
     \<not> is_platform_admin p \<and> \<not> in_scope p organizationId \<and>
     (case membership_of organizationId (cq_issuer p) (cq_subject p) s of None \<Rightarrow> True | Some m \<Rightarrow> \<not> om_active m)"

lemma outsider_refused:
  assumes "outsider p i s"
  shows "\<exists>e. requiredMembership h p i s = (Inl e, s)"
  using assms
  by (auto simp: outsider_def requiredMembership_def acting_membership_def required_value_def cloud_assertPrincipal_def ce_check_def
      ce_throw_def m_bind_assert m_bind_def m_get_def m_throw_def m_assert_run split: option.splits)

lemma bind_refused: "\<exists>e. m s = (Inl e, s) \<Longrightarrow> \<exists>e. m_bind m f s = (Inl e, s)"
  by (auto simp: m_bind_def)

lemma role_refused: "outsider p i s \<Longrightarrow> \<exists>e. requireRole h p i roles s = (Inl e, s)"
  unfolding requireRole_def by (intro bind_refused outsider_refused)

lemma outsiders_change_nothing:
  assumes "outsider p i s"
  shows "\<exists>e. updateMember h p i c s = (Inl e, s)" "\<exists>e. inviteMember h p i email role expires s = (Inl e, s)"
    "\<exists>e. createProject h p i name slug s = (Inl e, s)" "\<exists>e. org_members h p i s = (Inl e, s)"
    "\<exists>e. org_dashboard h p i s = (Inl e, s)" "\<exists>e. cloud_projects h p i s = (Inl e, s)"
    "\<exists>e. cancelBillingSubscription h cancel p i s = (Inl e, s)"
    "\<exists>e. createBillingCheckout h parse checkout p i planId returnUrl s = (Inl e, s)"
  unfolding updateMember_def inviteMember_def createProject_def org_members_def org_dashboard_def cloud_projects_def
    cancelBillingSubscription_def createBillingCheckout_def
  by (intro bind_refused role_refused outsider_refused assms)+

text \<open>The same for the projects of the organization and the environments of its projects.\<close>

lemma outsiders_create_nothing:
  assumes "js_get (cl_projects s) j = Some pj" and "outsider p (pj_organization_id pj) s"
  shows "\<exists>e. createEnvironment h regions p j v s = (Inl e, s)" "\<exists>e. cloud_environments h p j s = (Inl e, s)"
proof -
  have found: "requiredProject j s = (Inr pj, s)"
    using assms(1) by (simp add: requiredProject_def required_value_def m_bind_def m_get_def m_return_def)
  show "\<exists>e. createEnvironment h regions p j v s = (Inl e, s)"
    unfolding createEnvironment_def m_bind_def [of "requiredProject j"] found prod.case sum.case
    by (rule bind_refused, rule role_refused, rule assms(2))
  show "\<exists>e. cloud_environments h p j s = (Inl e, s)"
    unfolding cloud_environments_def m_bind_def [of "requiredProject j"] found prod.case sum.case
    by (rule bind_refused, rule outsider_refused, rule assms(2))
qed

lemma outsiders_operate_nothing:
  assumes "js_get (cl_environments s) i = Some x" "js_get (cl_projects s) (en_project_id x) = Some pj"
    and "outsider p (pj_organization_id pj) s"
  shows "\<exists>e. managed_environment h p i roles s = (Inl e, s)"
  using role_refused [OF assms(3), of h roles] assms(1,2)
  by (auto simp: managed_environment_def requiredEnvironment_def requiredProject_def required_value_def m_bind_def m_get_def m_return_def)

lemma outsiders_use_nothing:
  assumes "js_get (cl_environments s) i = Some x" "js_get (cl_projects s) (en_project_id x) = Some pj"
    and "outsider p (pj_organization_id pj) s"
  shows "\<exists>e. recordUsage h p i u s = (Inl e, s)" "\<exists>e. cloud_usage h p i at s = (Inl e, s)"
    "\<exists>e. attachEnvironment h validate p i url key s = (Inl e, s)"
    "\<exists>e. rotateEnvironmentCredentials h mint p i overlap key' s = (Inl e, s)"
    "\<exists>e. operateLocalEnvironment h operate p i operation backup s = (Inl e, s)"
  unfolding recordUsage_def cloud_usage_def attachEnvironment_def rotateEnvironmentCredentials_def operateLocalEnvironment_def
  by (rule bind_refused, rule outsiders_operate_nothing [OF assms])+

section \<open>Usage\<close>

text \<open>An event is counted once, and only while the counter stays within the limit.\<close>

lemma usage_recorded:
  assumes "repo_recordUsage e start until limit s = (Inr r, t)"
  shows "eventKey e \<in> set (cl_usage_events s) \<Longrightarrow> r = Duplicate \<and> t = s"
    "r = Limit_exceeded \<Longrightarrow> t = s"
    "r = Recorded \<Longrightarrow> counted (counterKey (uv_environment_id e) (uv_metric e) start until) t =
       counted (counterKey (uv_environment_id e) (uv_metric e) start until) s + uv_quantity e \<and>
       counted (counterKey (uv_environment_id e) (uv_metric e) start until) t \<le> limit \<and>
       eventKey e \<in> set (cl_usage_events t)"
    "key \<noteq> counterKey (uv_environment_id e) (uv_metric e) start until \<Longrightarrow> counted key t = counted key s"
  using assms
  by (auto simp: repo_recordUsage_def Let_def m_bind_def m_get_def m_modify_def m_return_def counted_def split: if_splits)

end
