(* ===== verification/Spec2Isabelle.thy ===== *)
theory Spec2Isabelle
  imports Books_History Redemption_Settlement Tiers Funding Program_Models Exactly_Once Order_Refunds Sdk_Orders Sdk_Webhooks Access_Theorems Identity_Theorems Identity_Oidc Webhook_Theorems Outbound_Url Evented_Theorems Engine_Restore Platform_Theorems Engagement_Theorems Engagement_Reports Customer_Import Cloud_Theorems
begin

text \<open>
  A verification development of the loyalty interchange protocol (LIP): the protocol's types and
  validation, the reference loyalty engine, the services that the reference server puts around it,
  and the control plane of the hosted service. Paths are relative to src/.

  \<^bold>\<open>The program.\<close> packages/protocol/src defines the wire types and validates
  orders. packages/reference/src/engine.ts is LoyaltyEngine: members, balances in several units, a
  ledger, lots of points that expire, two-phase redemptions, accruals and refunds of orders, all
  behind idempotency keys. packages/server/src runs one engine in a process: evented-engine.ts
  publishes an event for each change, webhooks.ts delivers the events, access-control.ts guards
  the calls, program-management.ts edits and publishes the program the engine runs, campaigns.ts,
  memberships.ts, customer-data.ts and engagement.ts work on the members, platform.ts connects
  them, and each keeps its state as one row of a versioned store (packages/storage).
  packages/identity maps authenticated principals to customers and members. packages/sdk has the
  builder of orders and the receiver's side of the webhooks.

  \<^bold>\<open>Shared theories.\<close> LIP_Prelude: insertion-ordered maps (the Map of
  JavaScript), the monad of computations that may throw and keep the state they have reached
  (\<open>eff\<close>, \<open>m_bind\<close>), relations that a computation keeps (locale
  \<open>effect_relation\<close>), sorting with a comparator (locale \<open>comparator\<close>),
  safe integers. Js_Text, Js_Json, Js_Stringify, Js_Date: what the code uses of the standard
  library: trimming, splitting, decimal numbers, JSON values and their text, the fingerprints of
  engine.ts (stableValue), ISO instants.

  \<^bold>\<open>Protocol and program.\<close> Protocol_Types, Protocol_Requests, Protocol_Events
  are the wire types and the JSON value of each request. Validation is validation.ts: every issue
  validateFoodserviceOrder pushes, and its agreement with a declarative notion of a conforming
  order (C1). Program_Config, Program_Rules, Program_Assert and Program_Models are config.ts,
  errors.ts, the catalog check and the program rules of engine.ts, and program-configuration.ts.

  \<^bold>\<open>The engine\<close> (engine.ts). Engine_State has the record \<open>engine\<close>
  of the twelve maps and the private methods on them (addLedger, once, expirePointLots and so on);
  Engine_Rules the rules of earning, tiers, metrics and funding; Engine_Members, Engine_Posting,
  Engine_Redemption and Engine_Admin the public methods, one definition per method, every branch
  and error included. Engine_History makes each public method one \<open>operation\<close> and
  defines histories: sequences of operations, each at its own reading of the clock, including
  those that throw; replaceState alone is not among them, since it loads another state in place of
  the present one and so starts a new history. Engine_Frames states as locales
  (\<open>reading_relation\<close>, \<open>posting_relation\<close> and their extensions, up to
  \<open>total_relation\<close>) what a relation between states must satisfy to be kept by every
  operation; the invariants below are interpretations of these.

  \<^item> Ledger_Log: the ledger is append-only (C2).
  \<^item> Redemption_Frame, Redemption_Steps, Redemption_Invariants, Redemption_Settlement: an
    abstract machine of redemptions which every operation refines (C3), the lifecycle of
    reservations (C4), their net effect on the ledger (C5) and the index of redemption ids (C6).
  \<^item> Account_Books, Books_History: balances are sums of ledger entries (C7).
  \<^item> Tiers (C8) and Funding (C13): progress through the tiers; exact allocation of funding.
  \<^item> Exactly_Once: idempotency keys after any history (C9, C10).
  \<^item> Order_Entries, Order_Accruals, Order_Refunds: an order earns once (C11), refunds never
    exceed what it earned (C12).
  \<^item> Engine_Restore: exporting a state and constructing an engine from it gives the engine
    back (C36).
  \<^item> Sample_Program, Sample_Story, Order_Story: concrete inputs on which the hypotheses
    hold.

  \<^bold>\<open>Around the engine.\<close> Evented_Engine is evented-engine.ts; the call of the
  overridden issueReward from inside the base class is modelled by \<open>evented_\<close> copies
  of the methods it happens in, and Evented_Theorems shows that they change the engine as the
  originals do (C28) and that replays repeat the identities of events (C29). Server_Store is the
  store with its contract as a locale, interpreted on the one-row store of
  packages/storage-sqlite. Access_Control, Access_Steps, Access_Theorems are access-control.ts as
  a state machine with its histories (C17 to C21). Webhook_Dispatcher is webhooks.ts with
  webhook-outbox.ts: deliveries are fibers that run between two awaits, and calls, timers,
  responses and durable writes happen in any order; Webhook_Theorems has its safety, durability
  and termination (C30 to C32). Outbound_Url is outbound-url.ts (C33) and the signature of a
  delivery, which the SDK verifies (C34). Service_Engine is what the services on the running
  engine share; Memberships, Campaigns, Customer_Data, Engagement and Engagement_Reports are the
  services of those names; Csv_Rows and Customer_Import have the import and the export of members
  (C35), Engagement_Theorems the message jobs (C40). Program_Management is program-management.ts;
  Platform composes the services as platform.ts does, and Platform_Theorems has the invariants of
  publishing over any sequence of calls of all of them (C37, C38; the locale
  \<open>program_runner\<close> is what the program service relies on, discharged by the publisher
  of platform.ts) and across a crash (C39).

  \<^bold>\<open>Identity and SDK.\<close> Identity_Directory and Identity_Theorems are
  directory.ts of packages/identity with any history of its calls (C22 to C26), Identity_Oidc the
  verifier of oidc.ts (C27). Sdk_Money, Sdk_Orders and Sdk_Webhooks are money.ts, order-builder.ts
  and webhooks.ts of packages/sdk (C14 to C16).

  \<^bold>\<open>Cloud.\<close> Cloud_Repository, Cloud_Service and Cloud_Operators are the control
  plane of apps/cloud/src: memory-repository.ts, service.ts and operator-service.ts over the types
  of types.ts. The record \<open>cloud\<close> has the maps of MemoryCloudRepository, each method
  of the repository and of the two services is a definition, and a conflict or the refusal to lose
  the last administrator is an error of the repository that the service turns into its own.
  Cloud_Theorems makes each call that changes the state a \<open>cloud_call\<close> and shows
  that a platform with an active administrator keeps one over all calls, that someone with neither
  a membership nor an operator's scope changes and reads nothing of an organization, its projects and their
  environments, and that usage is counted once and within the limit.

  \<^bold>\<open>Parameters.\<close> Code that is not under src/ is an argument: SHA-256 and HMAC,
  localeCompare, Intl date formatting, the issues Ajv reports, the coding of cursors, the JWT
  library, the URL parser, isIP and name resolution, JSON.parse of the attributes column, what
  program a draft is, the digest that picks the holdout of a campaign, the answers of messaging
  adapters, webhook receivers and the loyalty server, the id generator and the clock. The record
  \<open>host\<close> of Program_Assert bundles those of the engine. What a theorem needs of them
  is among its hypotheses (ids do not repeat, a collation is a total order, an HMAC is not empty),
  with an instance in its witness.

  \<^bold>\<open>Conventions and bounds.\<close> A thrown error is its code and status; messages
  are not modelled. The clock is constant during one operation and free between operations.
  Numbers are integers; JavaScript numbers are exact below 2 to the 53, and the guards of the code
  for safe integers are modelled; the theorems do not speak of larger ones. Bytes are words of 8
  bits and the constant-time comparison works on words of 32 bits. Strings are sequences of
  characters below 256. Instants are assumed to be in the range of Date. structuredClone is the
  identity, since no object is shared; an object of a map is changed through its key. There is no
  fuel: loops are structural recursions over the data they run through, or functions with a
  termination proof; the bounds of the code itself (five attempts of a message, the attempts of a
  webhook delivery, 1000 rows and 1 MiB of an import, the lengths of histories) are those of the
  source. The services other than the webhooks run their calls one after the other; what two
  overlapping runs of a message job do is an example in Engagement_Theorems.
  executeEngineOperation runs its argument, as in the single-writer runtime. The engine's own row
  can always be saved (\<open>persist_engine\<close>), while saves of the services may fail on a
  conflict.

  \<^bold>\<open>Not modelled.\<close> HTTP routing, locations, telemetry, demo data and the
  command line of the server (input and output around the above); the SQL of the PostgreSQL and
  SQLite stores and the migration between them; discovery documents and the operation registry
  (tables without behaviour); the fetch clients of the SDK; of apps/cloud the HTTP server, the
  PostgreSQL repositories, the data plane, billing, the customer service, onboarding and the command
  lines; the admin and wallet applications; the MCP server, vendor adapters and scripts.
\<close>

end
